(* ===== verification/Prelude.thy ===== *)
theory Prelude
  imports Main
begin

text \<open>
  Shared vocabulary of the development.

  \<^item> Fixed-width unsigned arithmetic. A Rust \<open>uN\<close> value is a natural number below \<open>2 ^ N\<close>;
    the operations the runtime uses (\<open>checked_add\<close>, \<open>checked_mul\<close>, \<open>saturating_add\<close>,
    \<open>saturating_mul\<close>, \<open>saturating_sub\<close>, \<open>saturated_into\<close>) take the width explicitly.
  \<^item> Fallible state-changing code. An operation on a state \<open>'s\<close> returns a pair of a result
    (\<open>Inl\<close> the error, \<open>Inr\<close> the value) and the state it leaves behind, also when it fails:
    Rust does not undo writes on an early return. \<open>with_transaction\<close> is the storage layer of
    FRAME that does.
  \<^item> Bounded vectors (\<open>BoundedVec::try_push\<close>) and the list lemmas the components share.
\<close>

section \<open>Unsigned machine integers\<close>

type_synonym u8 = nat
type_synonym u16 = nat
type_synonym u32 = nat
type_synonym u64 = nat
type_synonym u128 = nat

definition max_of :: "nat \<Rightarrow> nat" where
  "max_of w = 2 ^ w - 1"

definition checked_add :: "nat \<Rightarrow> nat \<Rightarrow> nat \<Rightarrow> nat option" where
  "checked_add w a b = (if a + b < 2 ^ w then Some (a + b) else None)"

definition checked_mul :: "nat \<Rightarrow> nat \<Rightarrow> nat \<Rightarrow> nat option" where
  "checked_mul w a b = (if a * b < 2 ^ w then Some (a * b) else None)"

definition checked_sub :: "nat \<Rightarrow> nat \<Rightarrow> nat option" where
  "checked_sub a b = (if b \<le> a then Some (a - b) else None)"

definition sat_add :: "nat \<Rightarrow> nat \<Rightarrow> nat \<Rightarrow> nat" where
  "sat_add w a b = min (a + b) (max_of w)"

definition sat_mul :: "nat \<Rightarrow> nat \<Rightarrow> nat \<Rightarrow> nat" where
  "sat_mul w a b = min (a * b) (max_of w)"

definition sat_sub :: "nat \<Rightarrow> nat \<Rightarrow> nat" where
  "sat_sub a b = a - b"

definition sat_into :: "nat \<Rightarrow> nat \<Rightarrow> nat" where
  "sat_into w a = min a (max_of w)"

definition try_into :: "nat \<Rightarrow> nat \<Rightarrow> nat option" where
  "try_into w a = (if a < 2 ^ w then Some a else None)"

definition fits :: "nat \<Rightarrow> nat \<Rightarrow> bool" where
  "fits w a \<longleftrightarrow> a < 2 ^ w"

lemma max_of_less [simp]: "max_of w < 2 ^ w"
  by (simp add: max_of_def)

lemma le_max_of_iff: "a \<le> max_of w \<longleftrightarrow> a < 2 ^ w"
proof -
  have "(0::nat) < 2 ^ w" by simp
  then show ?thesis unfolding max_of_def by linarith
qed

lemma checked_add_eq_Some [simp]:
  "checked_add w a b = Some c \<longleftrightarrow> c = a + b \<and> a + b < 2 ^ w"
  by (auto simp: checked_add_def)

lemma checked_add_eq_None [simp]: "checked_add w a b = None \<longleftrightarrow> 2 ^ w \<le> a + b"
  by (auto simp: checked_add_def not_less)

lemma checked_mul_eq_Some [simp]:
  "checked_mul w a b = Some c \<longleftrightarrow> c = a * b \<and> a * b < 2 ^ w"
  by (auto simp: checked_mul_def)

lemma checked_mul_eq_None [simp]: "checked_mul w a b = None \<longleftrightarrow> 2 ^ w \<le> a * b"
  by (auto simp: checked_mul_def not_less)

lemma checked_sub_eq_Some [simp]: "checked_sub a b = Some c \<longleftrightarrow> b \<le> a \<and> c = a - b"
  by (auto simp: checked_sub_def)

lemma checked_sub_eq_None [simp]: "checked_sub a b = None \<longleftrightarrow> a < b"
  by (auto simp: checked_sub_def)

lemma sat_add_exact: "a + b < 2 ^ w \<Longrightarrow> sat_add w a b = a + b"
  by (simp add: sat_add_def min_def le_max_of_iff)

lemma sat_mul_exact: "a * b < 2 ^ w \<Longrightarrow> sat_mul w a b = a * b"
  by (simp add: sat_mul_def min_def le_max_of_iff)

lemma sat_into_exact: "a < 2 ^ w \<Longrightarrow> sat_into w a = a"
  by (simp add: sat_into_def min_def le_max_of_iff)

lemma sat_add_fits [simp]: "sat_add w a b < 2 ^ w"
  by (simp add: sat_add_def min_less_iff_disj)

lemma sat_mul_fits [simp]: "sat_mul w a b < 2 ^ w"
  by (simp add: sat_mul_def min_less_iff_disj)

lemma sat_into_fits [simp]: "sat_into w a < 2 ^ w"
  by (simp add: sat_into_def min_less_iff_disj)

lemma sat_into_le: "sat_into w a \<le> a"
  by (simp add: sat_into_def)

lemma sat_add_le: "sat_add w a b \<le> a + b"
  by (simp add: sat_add_def)

lemma sat_add_ge_left: "a < 2 ^ w \<Longrightarrow> a \<le> sat_add w a b"
  by (simp add: sat_add_def le_max_of_iff)

lemma sat_add_mono: "a \<le> a' \<Longrightarrow> b \<le> b' \<Longrightarrow> sat_add w a b \<le> sat_add w a' b'"
  by (auto simp: sat_add_def min_def)

lemma try_into_eq_Some [simp]: "try_into w a = Some b \<longleftrightarrow> b = a \<and> a < 2 ^ w"
  by (auto simp: try_into_def)

lemma try_into_eq_None [simp]: "try_into w a = None \<longleftrightarrow> 2 ^ w \<le> a"
  by (auto simp: try_into_def not_less)

section \<open>Fallible operations on a state\<close>

type_synonym ('e, 'a, 's) outcome = "('e + 'a) \<times> 's"

definition and_then ::
  "('e, 'a, 's) outcome \<Rightarrow> ('a \<Rightarrow> 's \<Rightarrow> ('e, 'b, 's) outcome) \<Rightarrow> ('e, 'b, 's) outcome" where
  "and_then m f = (case m of (Inl e, s) \<Rightarrow> (Inl e, s) | (Inr a, s) \<Rightarrow> f a s)"

definition ensure ::
  "bool \<Rightarrow> 'e \<Rightarrow> 's \<Rightarrow> ('s \<Rightarrow> ('e, 'b, 's) outcome) \<Rightarrow> ('e, 'b, 's) outcome" where
  "ensure c e s k = (if c then k s else (Inl e, s))"

definition ok_or ::
  "'a option \<Rightarrow> 'e \<Rightarrow> 's \<Rightarrow> ('a \<Rightarrow> ('e, 'b, 's) outcome) \<Rightarrow> ('e, 'b, 's) outcome" where
  "ok_or x e s k = (case x of None \<Rightarrow> (Inl e, s) | Some a \<Rightarrow> k a)"

definition with_transaction :: "('s \<Rightarrow> ('e, 'a, 's) outcome) \<Rightarrow> 's \<Rightarrow> ('e, 'a, 's) outcome" where
  "with_transaction f s = (case f s of (Inl e, _) \<Rightarrow> (Inl e, s) | (Inr a, s') \<Rightarrow> (Inr a, s'))"

definition is_ok :: "('e, 'a, 's) outcome \<Rightarrow> bool" where
  "is_ok m \<longleftrightarrow> (\<exists>a. fst m = Inr a)"

lemma is_ok_simps [simp]:
  "is_ok (Inr a, s) = True" "is_ok (Inl e, s) = False"
  by (simp_all add: is_ok_def)

lemma is_ok_code [code]: "is_ok m = (case fst m of Inl _ \<Rightarrow> False | Inr _ \<Rightarrow> True)"
  by (auto simp: is_ok_def split: sum.splits)

lemma and_then_simps [simp]:
  "and_then (Inl e, s) f = (Inl e, s)" "and_then (Inr a, s) f = f a s"
  by (simp_all add: and_then_def)

lemma and_then_eq_Inr [simp]:
  "and_then m f = (Inr b, t) \<longleftrightarrow> (\<exists>a s. m = (Inr a, s) \<and> f a s = (Inr b, t))"
  by (cases m) (auto simp: and_then_def split: sum.splits)

lemma and_then_split:
  "P (and_then m f) \<longleftrightarrow>
     (\<forall>e s. m = (Inl e, s) \<longrightarrow> P (Inl e, s)) \<and> (\<forall>a s. m = (Inr a, s) \<longrightarrow> P (f a s))"
  by (cases m) (auto simp: and_then_def split: sum.splits)

lemma and_then_split_asm:
  "P (and_then m f) \<longleftrightarrow>
     \<not> ((\<exists>e s. m = (Inl e, s) \<and> \<not> P (Inl e, s)) \<or> (\<exists>a s. m = (Inr a, s) \<and> \<not> P (f a s)))"
  by (cases m) (auto simp: and_then_def split: sum.splits)

lemmas and_then_splits = and_then_split and_then_split_asm

lemma ensure_simps [simp]:
  "ensure True e s k = k s" "ensure False e s k = (Inl e, s)"
  by (simp_all add: ensure_def)

lemma ensure_eq_Inr [simp]: "ensure c e s k = (Inr b, t) \<longleftrightarrow> c \<and> k s = (Inr b, t)"
  by (simp add: ensure_def)

lemma ok_or_simps [simp]:
  "ok_or None e s k = (Inl e, s)" "ok_or (Some a) e s k = k a"
  by (simp_all add: ok_or_def)

lemma ok_or_eq_Inr [simp]:
  "ok_or x e s k = (Inr b, t) \<longleftrightarrow> (\<exists>a. x = Some a \<and> k a = (Inr b, t))"
  by (cases x) auto

lemma with_transaction_eq_Inr [simp]:
  "with_transaction f s = (Inr a, t) \<longleftrightarrow> f s = (Inr a, t)"
  by (auto simp: with_transaction_def split: prod.splits sum.splits)

text \<open>Atomicity: a failed transaction leaves the storage as it found it.\<close>

lemma with_transaction_error: "with_transaction f s = (Inl e, t) \<Longrightarrow> t = s"
  by (auto simp: with_transaction_def split: prod.splits sum.splits)

lemma with_transaction_eq_Inl [simp]:
  "with_transaction f s = (Inl e, t) \<longleftrightarrow> t = s \<and> (\<exists>u. f s = (Inl e, u))"
  by (auto simp: with_transaction_def split: prod.splits sum.splits)

lemma outcome_cases:
  obtains (err) e s where "m = (Inl e, s)" | (ok) a s where "m = (Inr a, s)"
  by (metis obj_sumE surj_pair)

text \<open>
  The result of a fallible operation keeps a property of the state on every path, failure
  included. The preservation rules follow the shape of the code.
\<close>

definition keeps :: "('s \<Rightarrow> bool) \<Rightarrow> ('e, 'a, 's) outcome \<Rightarrow> bool" where
  "keeps P m \<longleftrightarrow> P (snd m)"

named_theorems keeps_intros

lemma keeps_pair [simp]: "keeps P (r, s) \<longleftrightarrow> P s"
  by (simp add: keeps_def)

lemma keeps_and_then [keeps_intros]:
  "keeps P m \<Longrightarrow> (\<And>a s. m = (Inr a, s) \<Longrightarrow> P s \<Longrightarrow> keeps P (f a s)) \<Longrightarrow> keeps P (and_then m f)"
  by (cases m rule: outcome_cases) auto

lemma keeps_ensure [keeps_intros]: "P s \<Longrightarrow> (c \<Longrightarrow> keeps P (k s)) \<Longrightarrow> keeps P (ensure c e s k)"
  by (simp add: ensure_def)

lemma keeps_ok_or [keeps_intros]:
  "P s \<Longrightarrow> (\<And>a. x = Some a \<Longrightarrow> keeps P (k a)) \<Longrightarrow> keeps P (ok_or x e s k)"
  by (cases x) auto

lemma keeps_with_transaction [keeps_intros]:
  "P s \<Longrightarrow> keeps P (f s) \<Longrightarrow> keeps P (with_transaction f s)"
  by (auto simp: with_transaction_def keeps_def split: prod.splits sum.splits)

lemma keeps_with_transaction_ok:
  "P s \<Longrightarrow> (\<And>a t. f s = (Inr a, t) \<Longrightarrow> P t) \<Longrightarrow> keeps P (with_transaction f s)"
  by (auto simp: with_transaction_def keeps_def split: prod.splits sum.splits)

text \<open>An operation on a part of the state, lifted to the whole with its errors embedded.\<close>

definition zoom ::
  "('e \<Rightarrow> 'f) \<Rightarrow> ('p \<Rightarrow> 's \<Rightarrow> 's) \<Rightarrow> ('e, 'a, 'p) outcome \<Rightarrow> 's \<Rightarrow> ('f, 'a, 's) outcome" where
  "zoom err put m s = (case m of (Inl e, p) \<Rightarrow> (Inl (err e), put p s) | (Inr a, p) \<Rightarrow> (Inr a, put p s))"

lemma zoom_simps [simp]:
  "zoom err put (Inl e, p) s = (Inl (err e), put p s)" "zoom err put (Inr a, p) s = (Inr a, put p s)"
  by (simp_all add: zoom_def)

lemma zoom_eq_Inr [simp]:
  "zoom err put m s = (Inr a, t) \<longleftrightarrow> (\<exists>p. m = (Inr a, p) \<and> t = put p s)"
  by (cases m rule: outcome_cases) auto

lemma keeps_zoom [keeps_intros]: "P (put (snd m) s) \<Longrightarrow> keeps P (zoom err put m s)"
  by (cases m rule: outcome_cases) auto

text \<open>A result that does not depend on the state, lifted to an outcome.\<close>

definition pure_result :: "'e + 'a \<Rightarrow> 's \<Rightarrow> ('e, 'a, 's) outcome" where
  "pure_result r s = (r, s)"

lemma keeps_pure_result [keeps_intros]: "P s \<Longrightarrow> keeps P (pure_result r s)"
  by (simp add: pure_result_def)

section \<open>Key-value prefixes\<close>

text \<open>
  The entries of a storage map below one prefix, or of a map the code iterates over, as an
  association list without duplicate keys; \<open>map_of\<close> reads it.
\<close>

definition kv_insert :: "'k \<Rightarrow> 'v \<Rightarrow> ('k \<times> 'v) list \<Rightarrow> ('k \<times> 'v) list" where
  "kv_insert k v xs = (k, v) # filter (\<lambda>e. fst e \<noteq> k) xs"

definition kv_remove :: "'k \<Rightarrow> ('k \<times> 'v) list \<Rightarrow> ('k \<times> 'v) list" where
  "kv_remove k xs = filter (\<lambda>e. fst e \<noteq> k) xs"

definition kv_contains :: "'k \<Rightarrow> ('k \<times> 'v) list \<Rightarrow> bool" where
  "kv_contains k xs \<longleftrightarrow> k \<in> fst ` set xs"

lemma map_of_filter_neq: "map_of (filter (\<lambda>e. fst e \<noteq> k) xs) j = (if j = k then None else map_of xs j)"
  by (induction xs) auto

lemma map_of_kv_insert [simp]: "map_of (kv_insert k v xs) = (map_of xs)(k \<mapsto> v)"
  by (auto simp: kv_insert_def map_of_filter_neq fun_eq_iff)

lemma map_of_kv_remove [simp]: "map_of (kv_remove k xs) = (map_of xs)(k := None)"
  by (auto simp: kv_remove_def map_of_filter_neq fun_eq_iff)

lemma kv_contains_iff: "kv_contains k xs \<longleftrightarrow> map_of xs k \<noteq> None"
  by (simp add: kv_contains_def map_of_eq_None_iff)

lemma keys_kv_insert [simp]: "fst ` set (kv_insert k v xs) = insert k (fst ` set xs)"
  by (auto simp: kv_insert_def)

lemma keys_kv_remove [simp]: "fst ` set (kv_remove k xs) = fst ` set xs - {k}"
  by (auto simp: kv_remove_def)

lemma distinct_map_filter: "distinct (map f xs) \<Longrightarrow> distinct (map f (filter P xs))"
  by (induction xs) auto

lemma distinct_kv_insert [simp]: "distinct (map fst xs) \<Longrightarrow> distinct (map fst (kv_insert k v xs))"
  by (auto simp: kv_insert_def distinct_map_filter)

lemma distinct_kv_remove [simp]: "distinct (map fst xs) \<Longrightarrow> distinct (map fst (kv_remove k xs))"
  by (simp add: kv_remove_def distinct_map_filter)

text \<open>
  \<open>clear_prefix\<close> of the storage layer removes a batch of entries; which ones, and how many above
  the limit, is the host's business: \<open>cp_survives limit n k\<close> tells whether the \<open>k\<close>-th of \<open>n\<close> entries
  is still there afterwards. A cursor is returned exactly when entries remain.
\<close>

record prefix_clearing =
  cp_survives :: "nat \<Rightarrow> nat \<Rightarrow> nat \<Rightarrow> bool"
  cp_loops :: "nat \<Rightarrow> nat \<Rightarrow> nat"

definition survivors :: "prefix_clearing \<Rightarrow> nat \<Rightarrow> 'a list \<Rightarrow> 'a list" where
  "survivors cp limit xs =
     map (nth xs) (filter (cp_survives cp limit (length xs)) [0 ..< length xs])"

text \<open>Documented behaviour: at least \<open>limit\<close> entries go, or all of them.\<close>

definition clears :: "prefix_clearing \<Rightarrow> bool" where
  "clears cp \<longleftrightarrow> (\<forall>limit n. length (filter (cp_survives cp limit n) [0 ..< n]) \<le> n - limit)"

lemma survivors_Nil [simp]: "survivors cp limit [] = []"
  by (simp add: survivors_def)

lemma set_survivors: "set (survivors cp limit xs) \<subseteq> set xs"
  by (auto simp: survivors_def)

lemma length_survivors: "clears cp \<Longrightarrow> length (survivors cp limit xs) \<le> length xs - limit"
  by (simp add: survivors_def clears_def)

definition clear_in_order :: prefix_clearing where
  "clear_in_order = \<lparr>cp_survives = (\<lambda>limit n k. limit \<le> k), cp_loops = (\<lambda>limit n. min limit n)\<rparr>"

lemma clears_in_order: "clears clear_in_order"
proof -
  have "filter (\<lambda>k. limit \<le> k) [0 ..< n] = [limit ..< n]" for limit n :: nat
    by (induction n) auto
  then show ?thesis by (simp add: clears_def clear_in_order_def)
qed

section \<open>Bounded vectors and lists\<close>

definition try_push :: "nat \<Rightarrow> 'a list \<Rightarrow> 'a \<Rightarrow> 'a list option" where
  "try_push bound xs x = (if length xs < bound then Some (xs @ [x]) else None)"

lemma try_push_eq_Some [simp]:
  "try_push b xs x = Some ys \<longleftrightarrow> length xs < b \<and> ys = xs @ [x]"
  by (auto simp: try_push_def)

lemma try_push_eq_None [simp]: "try_push b xs x = None \<longleftrightarrow> b \<le> length xs"
  by (auto simp: try_push_def not_less)

text \<open>\<open>retain\<close> with the predicate "is not this element".\<close>

definition remove_id :: "'a \<Rightarrow> 'a list \<Rightarrow> 'a list" where
  "remove_id x xs = filter (\<lambda>y. y \<noteq> x) xs"

lemma set_remove_id [simp]: "set (remove_id x xs) = set xs - {x}"
  by (auto simp: remove_id_def)

lemma length_remove_id_le: "length (remove_id x xs) \<le> length xs"
  by (simp add: remove_id_def)

lemma distinct_remove_id [simp]: "distinct xs \<Longrightarrow> distinct (remove_id x xs)"
  by (simp add: remove_id_def)

lemma remove_id_absent: "x \<notin> set xs \<Longrightarrow> remove_id x xs = xs"
  unfolding remove_id_def by (induction xs) auto

lemma remove_id_append_new: "x \<notin> set xs \<Longrightarrow> remove_id x (xs @ [x]) = xs"
  using remove_id_absent [of x xs] by (simp add: remove_id_def)

text \<open>Pairwise inequality, checked by the nested index loops of the source, is \<open>distinct\<close>.\<close>

fun has_duplicate :: "'a list \<Rightarrow> bool" where
  "has_duplicate [] = False"
| "has_duplicate (x # xs) = (x \<in> set xs \<or> has_duplicate xs)"

lemma has_duplicate_iff [simp]: "has_duplicate xs \<longleftrightarrow> \<not> distinct xs"
  by (induction xs) auto

end
