(* ===== verification/Institution_Code.thy ===== *)
theory Institution_Code
  imports Prelude
begin

text \<open>
  Institution codes (\<^verbatim>\<open>primitives/cid/code.rs\<close>): the four-byte code of every institution, its
  classification (public, private, unincorporated, fixed governance body) and the parser that
  reads the code from the second segment of a CID number. Byte arrays are strings; a
  three-letter code is padded with one zero byte.
\<close>

type_synonym institution_code = string

definition code_bytes :: "string \<Rightarrow> institution_code" where
  "code_bytes t = take 4 t @ replicate (4 - length t) CHR 0x00"

definition NRC :: institution_code where "NRC = code_bytes ''NRC''"
definition PRC :: institution_code where "PRC = code_bytes ''PRC''"
definition PRB :: institution_code where "PRB = code_bytes ''PRB''"
definition FRG :: institution_code where "FRG = code_bytes ''FRG''"
definition NJD :: institution_code where "NJD = code_bytes ''NJD''"
definition PMUL :: institution_code where "PMUL = code_bytes ''PMUL''"

text \<open>The texts of the 104 registered codes, in the order of \<open>INSTITUTION_CODE_INFOS\<close>.\<close>

definition institution_code_texts :: "string list" where
  "institution_code_texts =
    [''PRS'', ''FSC'', ''FIB'', ''FSS'', ''FPR'', ''FRG'', ''MFA'', ''MDF'', ''ARM'', ''NAV'',
    ''AIR'', ''SPF'', ''JOS'', ''ARC'', ''NVC'', ''AFC'', ''SFC'', ''MHS'', ''NGB'', ''NGC'',
    ''MCW'', ''FDA'', ''MHU'', ''MAG'', ''MCM'', ''MFT'', ''MEN'', ''MTR'', ''NLG'', ''NSN'',
    ''NRP'', ''NJD'', ''NSP'', ''FAC'', ''FAU'', ''FIV'', ''NED'', ''NRC'', ''PGV'', ''PLG'',
    ''PSN'', ''PRP'', ''PJD'', ''PSP'', ''PRC'', ''PRB'', ''PDF'', ''PHS'', ''PCW'', ''PHU'',
    ''PAG'', ''PCM'', ''PFT'', ''PEN'', ''PTR'', ''CGOV'', ''CLEG'', ''CSUP'', ''CJUD'',
    ''CEDU'', ''CSLF'', ''CDEF'', ''CHSC'', ''CCWF'', ''CHUD'', ''CAGR'', ''CCOM'', ''CFIN'',
    ''CENR'', ''CTRN'', ''CREG'', ''CPOL'', ''TGOV'', ''TCWF'', ''THUD'', ''TAGR'', ''TFIN'',
    ''TDEF'', ''THSC'', ''TCOM'', ''TENR'', ''TTRN'', ''TPOL'', ''TSLF'', ''TSUP'', ''TJUD'',
    ''SFGT'', ''SFGP'', ''SFLP'', ''SFGQ'', ''SFGF'', ''SFGY'', ''SFAS'', ''GUN'', ''SUN'',
    ''JUN'', ''GSCH'', ''SFSC'', ''JSCH'', ''CTZN'', ''NATP'', ''SMTP'', ''UNIN'', ''PMUL'']"

definition institution_code_text :: "institution_code \<Rightarrow> string option" where
  "institution_code_text code = List.find (\<lambda>t. code_bytes t = code) institution_code_texts"

text \<open>\<open>cid_number.split('-').nth(1)\<close> and the code at its front.\<close>

fun split_dash :: "string \<Rightarrow> string list" where
  "split_dash [] = [[]]"
| "split_dash (c # cs) =
     (if c = CHR ''-'' then [] # split_dash cs
      else (case split_dash cs of [] \<Rightarrow> [[c]] | w # ws \<Rightarrow> (c # w) # ws))"

definition byte :: "char \<Rightarrow> nat" where
  "byte c = of_char c"

definition is_ascii_alphabetic :: "char \<Rightarrow> bool" where
  "is_ascii_alphabetic c \<longleftrightarrow> (65 \<le> byte c \<and> byte c \<le> 90) \<or> (97 \<le> byte c \<and> byte c \<le> 122)"

definition institution_code_from_cid_number :: "string \<Rightarrow> institution_code option" where
  "institution_code_from_cid_number cid =
     (case split_dash cid of
        _ # b # _ \<Rightarrow>
          if length b < 4 then None
          else Some (code_bytes (take (if is_ascii_alphabetic (b ! 3) then 4 else 3) b))
      | _ \<Rightarrow> None)"

text \<open>
  \<open>core::str::from_utf8\<close>: well-formed UTF-8, by the byte ranges of the Unicode standard.
  Invalid bytes make the caller continue with the empty string.
\<close>

definition in_range :: "nat \<Rightarrow> nat \<Rightarrow> char \<Rightarrow> bool" where
  "in_range lo hi c \<longleftrightarrow> lo \<le> byte c \<and> byte c \<le> hi"

definition utf8_second :: "nat \<Rightarrow> char \<Rightarrow> bool" where
  "utf8_second b c =
     (if b = 0xE0 then in_range 0xA0 0xBF c
      else if b = 0xED then in_range 0x80 0x9F c
      else if b = 0xF0 then in_range 0x90 0xBF c
      else if b = 0xF4 then in_range 0x80 0x8F c
      else in_range 0x80 0xBF c)"

fun utf8_valid :: "string \<Rightarrow> bool" where
  "utf8_valid [] = True"
| "utf8_valid (a # r) =
     (if byte a \<le> 0x7F then utf8_valid r
      else if in_range 0xC2 0xDF a then
        (case r of c # r' \<Rightarrow> in_range 0x80 0xBF c \<and> utf8_valid r' | _ \<Rightarrow> False)
      else if in_range 0xE0 0xEF a then
        (case r of c # d # r' \<Rightarrow> utf8_second (byte a) c \<and> in_range 0x80 0xBF d \<and> utf8_valid r'
         | _ \<Rightarrow> False)
      else if in_range 0xF0 0xF4 a then
        (case r of c # d # e # r' \<Rightarrow>
           utf8_second (byte a) c \<and> in_range 0x80 0xBF d \<and> in_range 0x80 0xBF e \<and> utf8_valid r'
         | _ \<Rightarrow> False)
      else False)"

definition from_utf8_or_default :: "string \<Rightarrow> string" where
  "from_utf8_or_default b = (if utf8_valid b then b else [])"

definition text_matches :: "institution_code \<Rightarrow> string list \<Rightarrow> bool" where
  "text_matches code values =
     (case institution_code_text code of None \<Rightarrow> False | Some t \<Rightarrow> t \<in> set values)"

definition is_unincorporated_code :: "institution_code \<Rightarrow> bool" where
  "is_unincorporated_code code = text_matches code [''SFGT'', ''SFGP'', ''UNIN'']"

definition is_private_legal_code :: "institution_code \<Rightarrow> bool" where
  "is_private_legal_code code = text_matches code
     [''SFLP'', ''SFGQ'', ''SFGF'', ''SFGY'', ''SFAS'', ''SUN'', ''JUN'', ''SFSC'', ''JSCH'']"

datatype admin_level = National | Province | City | Town

definition admin_level :: "institution_code \<Rightarrow> admin_level option" where
  "admin_level code =
     (case institution_code_text code of None \<Rightarrow> None | Some t \<Rightarrow>
       if t \<in> set
        [''PRS'', ''FSC'', ''FIB'', ''FSS'', ''FPR'', ''FRG'', ''MFA'', ''MDF'', ''ARM'',
        ''NAV'', ''AIR'', ''SPF'', ''JOS'', ''ARC'', ''NVC'', ''AFC'', ''SFC'', ''MHS'',
        ''NGB'', ''NGC'', ''MCW'', ''FDA'', ''MHU'', ''MAG'', ''MCM'', ''MFT'', ''MEN'',
        ''MTR'', ''NLG'', ''NSN'', ''NRP'', ''NJD'', ''NSP'', ''FAC'', ''FAU'', ''FIV'',
        ''NED'', ''NRC'']
       then Some National
       else if t \<in> set
        [''PGV'', ''PLG'', ''PSN'', ''PRP'', ''PJD'', ''PSP'', ''PRC'', ''PRB'', ''PDF'',
        ''PHS'', ''PCW'', ''PHU'', ''PAG'', ''PCM'', ''PFT'', ''PEN'', ''PTR'']
       then Some Province
       else if t \<in> set
        [''CGOV'', ''CLEG'', ''CSUP'', ''CJUD'', ''CEDU'', ''CSLF'', ''CDEF'', ''CHSC'',
        ''CCWF'', ''CHUD'', ''CAGR'', ''CCOM'', ''CFIN'', ''CENR'', ''CTRN'', ''CREG'',
        ''CPOL'']
       then Some City
       else if t \<in> set
        [''TGOV'', ''TCWF'', ''THUD'', ''TAGR'', ''TFIN'', ''TDEF'', ''THSC'', ''TCOM'',
        ''TENR'', ''TTRN'', ''TPOL'', ''TSLF'', ''TSUP'', ''TJUD'']
       then Some Town
       else None)"

definition is_public_legal_code :: "institution_code \<Rightarrow> bool" where
  "is_public_legal_code code \<longleftrightarrow> admin_level code \<noteq> None \<or> text_matches code [''GUN'', ''GSCH'']"

definition is_fixed_governance_code :: "institution_code \<Rightarrow> bool" where
  "is_fixed_governance_code code \<longleftrightarrow> code \<in> {NRC, PRC, PRB, FRG, NJD}"

definition fixed_governance_pass_threshold :: "institution_code \<Rightarrow> u32 option" where
  "fixed_governance_pass_threshold code =
     (if code = NRC then Some 13 else if code = PRC then Some 6 else if code = PRB then Some 6
      else if code = FRG then Some 3 else if code = NJD then Some 8 else None)"

definition is_personal_code :: "institution_code \<Rightarrow> bool" where
  "is_personal_code code \<longleftrightarrow> code = PMUL"

definition is_institution_code :: "institution_code \<Rightarrow> bool" where
  "is_institution_code code \<longleftrightarrow> \<not> is_fixed_governance_code code \<and>
     (is_public_legal_code code \<or> is_private_legal_code code \<or> is_unincorporated_code code)"

definition is_registered_multisig_code :: "institution_code \<Rightarrow> bool" where
  "is_registered_multisig_code code \<longleftrightarrow> is_personal_code code \<or> is_institution_code code"

definition is_valid_governance_code :: "institution_code \<Rightarrow> bool" where
  "is_valid_governance_code code \<longleftrightarrow>
     is_fixed_governance_code code \<or> is_registered_multisig_code code"

section \<open>The classification\<close>

lemmas fixed_code_defs = NRC_def PRC_def PRB_def FRG_def NJD_def PMUL_def code_bytes_def

lemma ascii_utf8: "list_all (\<lambda>c. byte c < 128) s \<Longrightarrow> utf8_valid s"
  by (induction s) auto

lemma fixed_codes_distinct [simp]: "distinct [NRC, PRC, PRB, FRG, NJD, PMUL]"
  by (simp add: fixed_code_defs)

lemma fixed_codes_neq [simp]:
  "NRC \<noteq> PRC" "PRC \<noteq> NRC" "NRC \<noteq> PRB" "PRB \<noteq> NRC" "PRC \<noteq> PRB" "PRB \<noteq> PRC"
  "FRG \<noteq> NRC" "FRG \<noteq> PRC" "FRG \<noteq> PRB" "NJD \<noteq> NRC" "NJD \<noteq> PRC" "NJD \<noteq> PRB" "NJD \<noteq> FRG"
  "PMUL \<noteq> NRC" "PMUL \<noteq> PRC" "PMUL \<noteq> PRB" "PMUL \<noteq> FRG" "PMUL \<noteq> NJD"
  by (simp_all add: fixed_code_defs)

lemma code_bytes_length: "length t \<le> 4 \<Longrightarrow> length (code_bytes t) = 4"
  by (simp add: code_bytes_def)

text \<open>A governance code is exactly one of: fixed body, personal multisig, other institution.\<close>

lemma governance_code_classes:
  "is_valid_governance_code code \<longleftrightarrow>
     is_fixed_governance_code code \<or> is_personal_code code \<or> is_institution_code code"
  "\<not> (is_fixed_governance_code code \<and> is_personal_code code)"
  "\<not> (is_fixed_governance_code code \<and> is_institution_code code)"
  by (auto simp: is_valid_governance_code_def is_registered_multisig_code_def
      is_institution_code_def is_fixed_governance_code_def is_personal_code_def)

text \<open>
  The code of a well-formed CID number is read back: with a four-byte-or-longer second segment
  the parser returns its first three or four bytes, padded.
\<close>

lemma split_dash_no_dash: "CHR ''-'' \<notin> set w \<Longrightarrow> split_dash (w @ CHR ''-'' # r) = w # split_dash r"
  by (induction w) auto

lemma institution_code_roundtrip:
  assumes "CHR ''-'' \<notin> set r5" and "CHR ''-'' \<notin> set code" and "CHR ''-'' \<notin> set tail5"
    and "length code = 4 \<and> is_ascii_alphabetic (code ! 3) \<or>
         length code = 3 \<and> tail5 \<noteq> [] \<and> \<not> is_ascii_alphabetic (hd tail5)"
  shows "institution_code_from_cid_number (r5 @ CHR ''-'' # code @ tail5 @ CHR ''-'' # rest)
         = Some (code_bytes code)"
proof -
  have "split_dash (r5 @ CHR ''-'' # code @ tail5 @ CHR ''-'' # rest)
        = r5 # (code @ tail5) # split_dash rest"
    using assms(1-3) split_dash_no_dash [of "code @ tail5" rest]
    by (simp add: split_dash_no_dash)
  then show ?thesis
    using assms(4) by (cases tail5) (auto simp: institution_code_from_cid_number_def nth_append)
qed

lemma fixed_threshold_iff:
  "fixed_governance_pass_threshold code \<noteq> None \<longleftrightarrow> is_fixed_governance_code code"
  by (auto simp: fixed_governance_pass_threshold_def is_fixed_governance_code_def)

end
