(* ===== verification/Cid_Number.thy ===== *)
theory Cid_Number
  imports Institution_Code
begin

text \<open>
  CID numbers (\<^verbatim>\<open>primitives/cid/number.rs\<close>, \<^verbatim>\<open>primitives/cid/generator.rs\<close> and the code tables of
  \<^verbatim>\<open>primitives/cid/code.rs\<close> they use): the checksum, the validating parser, the generator, and that
  every generated number parses back to what it was generated from. Text is a list of UTF-8
  bytes. The hash function is a parameter. Errors are the messages of the source.
\<close>

section \<open>Text\<close>

definition is_ascii_digit :: "char \<Rightarrow> bool" where
  "is_ascii_digit c \<longleftrightarrow> 48 \<le> byte c \<and> byte c \<le> 57"

definition is_ascii_uppercase :: "char \<Rightarrow> bool" where
  "is_ascii_uppercase c \<longleftrightarrow> 65 \<le> byte c \<and> byte c \<le> 90"

text \<open>\<open>str::trim\<close> removes characters with the Unicode property \<open>White_Space\<close> at both ends.\<close>

definition white_space :: "string list" where
  "white_space =
     map (\<lambda>n. [char_of (n::nat)]) [9, 10, 11, 12, 13, 32] @
     map (map (char_of :: nat \<Rightarrow> char))
       ([[0xC2, 0x85], [0xC2, 0xA0], [0xE1, 0x9A, 0x80]] @
        map (\<lambda>k. [0xE2, 0x80, 0x80 + k]) [0 ..< 11] @
        [[0xE2, 0x80, 0xA8], [0xE2, 0x80, 0xA9], [0xE2, 0x80, 0xAF], [0xE2, 0x81, 0x9F], [0xE3, 0x80, 0x80]])"

definition strip_prefix :: "string list \<Rightarrow> string \<Rightarrow> string option" where
  "strip_prefix ws s =
     map_option (\<lambda>w. drop (length w) s) (List.find (\<lambda>w. w \<noteq> [] \<and> take (length w) s = w) ws)"

lemma strip_prefix_shorter: "strip_prefix ws s = Some r \<Longrightarrow> length r < length s"
  by (auto simp: strip_prefix_def find_Some_iff)
     (metis diff_less length_greater_0_conv take_eq_Nil)

function trim_front :: "string list \<Rightarrow> string \<Rightarrow> string" where
  "trim_front ws s = (case strip_prefix ws s of None \<Rightarrow> s | Some r \<Rightarrow> trim_front ws r)"
  by pat_completeness auto
termination by (relation "measure (length \<circ> snd)") (auto dest: strip_prefix_shorter)

declare trim_front.simps [simp del]

definition trim :: "string \<Rightarrow> string" where
  "trim s = rev (trim_front (map rev white_space) (rev (trim_front white_space s)))"

text \<open>\<open>format!\<close> with \<open>{n:0w}\<close>.\<close>

fun decimal :: "nat \<Rightarrow> string" where
  "decimal n = (if n < 10 then [char_of (48 + n)] else decimal (n div 10) @ [char_of (48 + n mod 10)])"

declare decimal.simps [simp del]

definition zero_padded :: "nat \<Rightarrow> nat \<Rightarrow> string" where
  "zero_padded w n = (let d = decimal n in replicate (w - length d) (CHR ''0'') @ d)"

section \<open>The code tables\<close>

text \<open>The labels of \<open>INSTITUTION_CODE_INFOS\<close>, by code points, in UTF-8.\<close>

definition utf8_bmp :: "nat list \<Rightarrow> string" where
  "utf8_bmp ps = concat (map (\<lambda>p. [char_of (0xE0 + p div 4096), char_of (0x80 + p div 64 mod 64),
     char_of (0x80 + p mod 64)]) ps)"

definition institution_code_labels :: "string list" where
  "institution_code_labels = map utf8_bmp [
    [0x603B, 0x7EDF, 0x5E9C], [0x8054, 0x90A6, 0x5B89, 0x5168, 0x5C40],
    [0x8054, 0x90A6, 0x60C5, 0x62A5, 0x5C40], [0x8054, 0x90A6, 0x7279, 0x52E4, 0x5C40],
    [0x8054, 0x90A6, 0x4EBA, 0x4E8B, 0x5C40], [0x8054, 0x90A6, 0x6CE8, 0x518C, 0x5C40],
    [0x5916, 0x4EA4, 0x90E8], [0x56FD, 0x9632, 0x90E8], [0x9646, 0x519B, 0x90E8],
    [0x6D77, 0x519B, 0x90E8], [0x7A7A, 0x519B, 0x90E8], [0x5929, 0x519B, 0x90E8],
    [0x8054, 0x5408, 0x4F5C, 0x6218, 0x53C2, 0x8C0B, 0x90E8], [0x9646, 0x519B, 0x53F8, 0x4EE4, 0x90E8],
    [0x6D77, 0x519B, 0x53F8, 0x4EE4, 0x90E8], [0x7A7A, 0x519B, 0x53F8, 0x4EE4, 0x90E8],
    [0x5929, 0x519B, 0x53F8, 0x4EE4, 0x90E8], [0x56FD, 0x5B89, 0x90E8],
    [0x56FD, 0x6C11, 0x8B66, 0x536B, 0x5C40],
    [0x56FD, 0x6C11, 0x8B66, 0x536B, 0x961F, 0x53F8, 0x4EE4, 0x90E8], [0x6C11, 0x751F, 0x90E8],
    [0x98DF, 0x54C1, 0x836F, 0x54C1, 0x76D1, 0x7BA1, 0x5C40], [0x4F4F, 0x5EFA, 0x90E8],
    [0x519C, 0x4E1A, 0x90E8], [0x5546, 0x8D38, 0x90E8], [0x8D22, 0x7A0E, 0x90E8],
    [0x80FD, 0x6E90, 0x90E8], [0x4EA4, 0x901A, 0x90E8], [0x56FD, 0x5BB6, 0x7ACB, 0x6CD5, 0x9662],
    [0x56FD, 0x5BB6, 0x53C2, 0x8BAE, 0x4F1A], [0x56FD, 0x5BB6, 0x4F17, 0x8BAE, 0x4F1A],
    [0x56FD, 0x5BB6, 0x53F8, 0x6CD5, 0x9662], [0x56FD, 0x5BB6, 0x76D1, 0x5BDF, 0x9662],
    [0x8054, 0x90A6, 0x5EC9, 0x653F, 0x7F72], [0x8054, 0x90A6, 0x5BA1, 0x8BA1, 0x7F72],
    [0x8054, 0x90A6, 0x8C03, 0x67E5, 0x7F72], [0x56FD, 0x5BB6, 0x6559, 0x59D4, 0x4F1A],
    [0x56FD, 0x5BB6, 0x50A8, 0x59D4, 0x4F1A], [0x7701, 0x653F, 0x5E9C],
    [0x7701, 0x7ACB, 0x6CD5, 0x9662], [0x7701, 0x53C2, 0x8BAE, 0x4F1A],
    [0x7701, 0x4F17, 0x8BAE, 0x4F1A], [0x7701, 0x53F8, 0x6CD5, 0x9662],
    [0x7701, 0x76D1, 0x5BDF, 0x9662], [0x7701, 0x50A8, 0x59D4, 0x4F1A], [0x7701, 0x50A8, 0x884C],
    [0x7701, 0x56FD, 0x9632, 0x5385], [0x7701, 0x56FD, 0x5B89, 0x5385],
    [0x7701, 0x6C11, 0x751F, 0x5385], [0x7701, 0x4F4F, 0x5EFA, 0x5385],
    [0x7701, 0x519C, 0x4E1A, 0x5385], [0x7701, 0x5546, 0x8D38, 0x5385],
    [0x7701, 0x8D22, 0x7A0E, 0x5385], [0x7701, 0x80FD, 0x6E90, 0x5385],
    [0x7701, 0x4EA4, 0x901A, 0x5385], [0x5E02, 0x653F, 0x5E9C], [0x5E02, 0x7ACB, 0x6CD5, 0x4F1A],
    [0x5E02, 0x76D1, 0x5BDF, 0x9662], [0x5E02, 0x53F8, 0x6CD5, 0x9662],
    [0x5E02, 0x6559, 0x59D4, 0x4F1A], [0x5E02, 0x81EA, 0x6CBB, 0x4F1A],
    [0x5E02, 0x56FD, 0x9632, 0x5C40], [0x5E02, 0x56FD, 0x5B89, 0x5C40],
    [0x5E02, 0x6C11, 0x751F, 0x5C40], [0x5E02, 0x4F4F, 0x5EFA, 0x5C40],
    [0x5E02, 0x519C, 0x4E1A, 0x5C40], [0x5E02, 0x5546, 0x8D38, 0x5C40],
    [0x5E02, 0x8D22, 0x7A0E, 0x5C40], [0x5E02, 0x80FD, 0x6E90, 0x5C40],
    [0x5E02, 0x4EA4, 0x901A, 0x5C40], [0x5E02, 0x6CE8, 0x518C, 0x5C40],
    [0x5E02, 0x516C, 0x5B89, 0x5C40], [0x9547, 0x653F, 0x5E9C], [0x9547, 0x6C11, 0x751F, 0x79D1],
    [0x9547, 0x4F4F, 0x5EFA, 0x79D1], [0x9547, 0x519C, 0x4E1A, 0x79D1],
    [0x9547, 0x8D22, 0x7A0E, 0x79D1], [0x9547, 0x56FD, 0x9632, 0x79D1],
    [0x9547, 0x56FD, 0x5B89, 0x79D1], [0x9547, 0x5546, 0x8D38, 0x79D1],
    [0x9547, 0x80FD, 0x6E90, 0x79D1], [0x9547, 0x4EA4, 0x901A, 0x79D1],
    [0x9547, 0x516C, 0x5B89, 0x79D1], [0x9547, 0x81EA, 0x6CBB, 0x4F1A],
    [0x9547, 0x76D1, 0x5BDF, 0x9662], [0x9547, 0x53F8, 0x6CD5, 0x9662],
    [0x4E2A, 0x4F53, 0x7ECF, 0x8425], [0x65E0, 0x9650, 0x5408, 0x4F19],
    [0x6709, 0x9650, 0x5408, 0x4F19], [0x80A1, 0x6743, 0x516C, 0x53F8],
    [0x80A1, 0x4EFD, 0x516C, 0x53F8], [0x516C, 0x76CA, 0x7EC4, 0x7EC7],
    [0x6CE8, 0x518C, 0x534F, 0x4F1A], [0x516C, 0x7ACB, 0x5927, 0x5B66],
    [0x79C1, 0x7ACB, 0x5927, 0x5B66], [0x6559, 0x4F1A, 0x5927, 0x5B66],
    [0x516C, 0x7ACB, 0x5B66, 0x6821], [0x79C1, 0x7ACB, 0x5B66, 0x6821],
    [0x6559, 0x4F1A, 0x5B66, 0x6821], [0x516C, 0x6C11, 0x4EBA], [0x81EA, 0x7136, 0x4EBA],
    [0x667A, 0x80FD, 0x4EBA], [0x975E, 0x6CD5, 0x4EBA, 0x7EC4, 0x7EC7], [0x4E2A, 0x4EBA, 0x591A, 0x7B7E]]"

definition institution_code_from_str :: "string \<Rightarrow> institution_code option" where
  "institution_code_from_str value =
     (let v = trim value in
      map_option (code_bytes \<circ> fst)
        (List.find (\<lambda>(t, l). t = v \<or> l = v) (zip institution_code_texts institution_code_labels)))"

definition is_three_char_code :: "institution_code \<Rightarrow> bool" where
  "is_three_char_code code \<longleftrightarrow> map_option length (institution_code_text code) = Some 3"

datatype profit_policy_kind = NonProfit | Profit | Variable | InheritParent

definition profit_policy :: "institution_code \<Rightarrow> profit_policy_kind option" where
  "profit_policy code =
     map_option (\<lambda>t.
       if t \<in> set [''SFGT'', ''SFGP'', ''SFLP'', ''SFGQ'', ''SFGF'', ''CTZN'', ''NATP''] then Profit
       else if t \<in> set [''SFAS'', ''SMTP'', ''SUN'', ''SFSC'', ''JUN'', ''JSCH''] then Variable
       else if t = ''UNIN'' then InheritParent else NonProfit) (institution_code_text code)"

definition is_person_code :: "institution_code \<Rightarrow> bool" where
  "is_person_code code = text_matches code [''CTZN'', ''NATP'', ''SMTP'']"

section \<open>Checksums\<close>

definition CHECKSUM_ALPHABET :: string where
  "CHECKSUM_ALPHABET = ''0123456789ABCDEFGHIJKLMNOPQRSTUVWXYZ''"

definition alphabet_position :: "char \<Rightarrow> nat" where
  "alphabet_position c =
     (case List.find (\<lambda>k. CHECKSUM_ALPHABET ! k = c) [0 ..< 36] of None \<Rightarrow> 0 | Some k \<Rightarrow> k)"

text \<open>Payloads have at most 22 bytes, so the 64-bit accumulator never wraps.\<close>

definition checksum_acc :: "string \<Rightarrow> nat" where
  "checksum_acc payload =
     (\<Sum>k \<leftarrow> [0 ..< length payload]. (k + 1) * alphabet_position (payload ! k)) mod 2 ^ 64"

definition checksum_char_mod36 :: "string \<Rightarrow> char" where
  "checksum_char_mod36 payload = CHECKSUM_ALPHABET ! (checksum_acc payload mod 36)"

definition checksum_char_m1 :: "string \<Rightarrow> bool \<Rightarrow> char" where
  "checksum_char_m1 payload profit =
     (if profit then char_of (48 + checksum_acc payload mod 10)
      else char_of (65 + checksum_acc payload mod 26))"

section \<open>The parser\<close>

record cid_number_parts =
  cn_r5 :: string
  cn_institution :: institution_code
  cn_institution_code_text :: string
  cn_profit :: bool
  cn_checksum :: char
  cn_n9 :: string
  cn_d4 :: string

definition segment_ok :: "nat \<Rightarrow> (char \<Rightarrow> bool) \<Rightarrow> string \<Rightarrow> bool" where
  "segment_ok n ok seg \<longleftrightarrow> length seg = n \<and> list_all ok seg"

definition upper_or_digit :: "char \<Rightarrow> bool" where
  "upper_or_digit c \<longleftrightarrow> is_ascii_uppercase c \<or> is_ascii_digit c"

definition cid_char :: "char \<Rightarrow> bool" where
  "cid_char c \<longleftrightarrow> upper_or_digit c \<or> c = CHR ''-''"

definition policy_conflict :: "institution_code \<Rightarrow> bool \<Rightarrow> string option" where
  "policy_conflict code profit =
     (case profit_policy code of
        None \<Rightarrow> Some ''cid_number profit policy missing''
      | Some NonProfit \<Rightarrow> if profit then Some ''cid_number profit conflicts with code policy'' else None
      | Some Profit \<Rightarrow> if \<not> profit then Some ''cid_number profit conflicts with code policy'' else None
      | _ \<Rightarrow> None)"

text \<open>Layout A: three-letter code, profit digit, checksum. Layout B: four-letter code, M1.\<close>

definition parse_layout_a ::
  "string \<Rightarrow> string \<Rightarrow> string \<Rightarrow> string \<Rightarrow> string + institution_code \<times> string \<times> bool \<times> char" where
  "parse_layout_a r5 seg n9 d4 =
     (let code = take 3 seg; profit_char = seg ! 3; checksum = seg ! 4 in
      case institution_code_from_str code of
        None \<Rightarrow> Inl ''cid_number institution code invalid''
      | Some inst \<Rightarrow>
          if \<not> is_three_char_code inst then Inl ''cid_number 3-char layout code mismatch''
          else if profit_char \<noteq> CHR ''0'' \<and> profit_char \<noteq> CHR ''1''
          then Inl ''cid_number 3-char layout profit must be 0/1''
          else
            let profit = (profit_char = CHR ''1'') in
            case policy_conflict inst profit of
              Some e \<Rightarrow> Inl e
            | None \<Rightarrow>
                if checksum_char_mod36 (r5 @ code @ [profit_char] @ n9 @ d4) \<noteq> checksum
                then Inl ''cid_number checksum invalid''
                else Inr (inst, code, profit, checksum))"

definition parse_layout_b ::
  "string \<Rightarrow> string \<Rightarrow> string \<Rightarrow> string \<Rightarrow> string + institution_code \<times> string \<times> bool \<times> char" where
  "parse_layout_b r5 seg n9 d4 =
     (let code = take 4 seg; m1 = seg ! 4 in
      case institution_code_from_str code of
        None \<Rightarrow> Inl ''cid_number institution code invalid''
      | Some inst \<Rightarrow>
          if is_three_char_code inst then Inl ''cid_number 4-char layout code mismatch''
          else
            let profit = is_ascii_digit m1 in
            case policy_conflict inst profit of
              Some e \<Rightarrow> Inl e
            | None \<Rightarrow>
                if checksum_char_m1 (r5 @ code @ n9 @ d4) profit \<noteq> m1 then Inl ''cid_number checksum invalid''
                else Inr (inst, code, profit, m1))"

definition parse_segments :: "string list \<Rightarrow> string + cid_number_parts" where
  "parse_segments segs =
     (case segs of
        [r5, seg, n9, d4] \<Rightarrow>
          if \<not> segment_ok 5 upper_or_digit r5 then Inl ''cid_number r5 segment invalid''
          else if \<not> segment_ok 5 upper_or_digit seg then Inl ''cid_number core segment invalid''
          else if \<not> segment_ok 9 is_ascii_digit n9 then Inl ''cid_number n9 segment invalid''
          else if \<not> segment_ok 4 is_ascii_digit d4 then Inl ''cid_number date segment invalid''
          else
            (case (if is_ascii_digit (seg ! 3) then parse_layout_a r5 seg n9 d4
                   else parse_layout_b r5 seg n9 d4) of
               Inl e \<Rightarrow> Inl e
             | Inr (inst, code, profit, checksum) \<Rightarrow>
                 Inr \<lparr>cn_r5 = r5, cn_institution = inst, cn_institution_code_text = code,
                      cn_profit = profit, cn_checksum = checksum, cn_n9 = n9, cn_d4 = d4\<rparr>)
      | _ \<Rightarrow> Inl ''cid_number format invalid'')"

definition CID_NUMBER_MAX_BYTES :: u32 where "CID_NUMBER_MAX_BYTES = 32"

definition parse_cid_number_parts :: "string \<Rightarrow> string + cid_number_parts" where
  "parse_cid_number_parts raw =
     (let s = trim raw in
      if s = [] then Inl ''cid_number is required''
      else if \<not> list_all (\<lambda>c. byte c < 128) s then Inl ''cid_number must be ascii''
      else if CID_NUMBER_MAX_BYTES < length s then Inl ''cid_number length exceeds chain max''
      else if \<not> list_all cid_char s then Inl ''cid_number charset invalid''
      else parse_segments (split_dash s))"

definition parse_cid_number_parts_bytes :: "string \<Rightarrow> string + cid_number_parts" where
  "parse_cid_number_parts_bytes raw =
     (if utf8_valid raw then parse_cid_number_parts raw else Inl ''cid_number must be utf-8'')"

definition cid_scope_codes :: "string \<Rightarrow> string + string \<times> string" where
  "cid_scope_codes raw =
     (case parse_cid_number_parts_bytes raw of
        Inl e \<Rightarrow> Inl e
      | Inr parts \<Rightarrow>
          if is_person_code (cn_institution parts) then Inl ''person cid has no province/city scope''
          else if length (cn_r5 parts) \<noteq> 5 then Inl ''cid_number r5 segment invalid''
          else Inr (take 2 (cn_r5 parts), drop 2 (cn_r5 parts)))"

section \<open>The generator\<close>

record generate_cid_number_input =
  g_public_key :: string
  g_p1 :: string
  g_province_code :: string
  g_province_name :: string
  g_city_code :: string
  g_city_name :: string
  g_year :: string
  g_institution :: string

definition le_bytes :: "string \<Rightarrow> nat" where
  "le_bytes bs = foldr (\<lambda>b acc. byte b + 256 * acc) bs 0"

definition hash_text :: "(string \<Rightarrow> string) \<Rightarrow> string \<Rightarrow> u32" where
  "hash_text blake input = le_bytes (take 4 (blake input))"

definition hash_u64 :: "(string \<Rightarrow> string) \<Rightarrow> string \<Rightarrow> u64" where
  "hash_u64 blake input = le_bytes (take 8 (blake input))"

definition resolve_profit :: "string \<Rightarrow> string + bool" where
  "resolve_profit p1 =
     (let v = trim p1 in
      if v \<in> {''0'', utf8_bmp [0x975E, 0x76C8, 0x5229]} then Inr False
      else if v \<in> {''1'', utf8_bmp [0x76C8, 0x5229]} then Inr True
      else Inl ''p1 must be 0/1 for variable/inherit institution code'')"

definition generated_profit :: "institution_code \<Rightarrow> string \<Rightarrow> string + bool" where
  "generated_profit code p1 =
     (case profit_policy code of
        Some NonProfit \<Rightarrow> Inr False
      | Some Profit \<Rightarrow> Inr True
      | Some _ \<Rightarrow> resolve_profit p1
      | None \<Rightarrow> Inl ''institution profit policy missing'')"

text \<open>The first and third segments.\<close>

definition generated_numbers ::
  "(string \<Rightarrow> string) \<Rightarrow> generate_cid_number_input \<Rightarrow> institution_code \<Rightarrow> string \<Rightarrow> string + string \<times> string" where
  "generated_numbers blake inp code text =
     (if is_person_code code then
        (let number = hash_u64 blake (g_public_key inp @ ''|'' @ text @ ''|'' @ g_year inp) mod 1000000000000
         in Inr (''CN'' @ zero_padded 3 (number div 1000000000), zero_padded 9 (number mod 1000000000)))
      else if trim (g_province_code inp) = [] \<or> trim (g_province_name inp) = [] \<or> trim (g_city_name inp) = []
      then Inl ''province_code, province_name, city_name are required''
      else if \<not> segment_ok 2 upper_or_digit (g_province_code inp)
      then Inl ''province_code must be 2 uppercase ascii chars''
      else if \<not> segment_ok 3 upper_or_digit (g_city_code inp)
      then Inl ''city_code must be 3 uppercase ascii chars''
      else Inr (g_province_code inp @ g_city_code inp,
                zero_padded 9 (hash_text blake (g_public_key inp @ ''|'' @ text @ ''|'' @
                  g_province_name inp @ ''|'' @ g_city_name inp @ ''|'' @ g_year inp) mod 1000000000)))"

definition assemble_cid_number :: "institution_code \<Rightarrow> string \<Rightarrow> bool \<Rightarrow> string \<Rightarrow> string \<Rightarrow> string \<Rightarrow> string" where
  "assemble_cid_number code text profit r5 n9 year =
     (if is_three_char_code code then
        (let profit_char = (if profit then CHR ''1'' else CHR ''0'');
             c = checksum_char_mod36 (r5 @ text @ [profit_char] @ n9 @ year)
         in r5 @ ''-'' @ text @ [profit_char, c] @ ''-'' @ n9 @ ''-'' @ year)
      else
        (let m1 = checksum_char_m1 (r5 @ text @ n9 @ year) profit
         in r5 @ ''-'' @ text @ [m1] @ ''-'' @ n9 @ ''-'' @ year))"

definition generate_cid_number :: "(string \<Rightarrow> string) \<Rightarrow> generate_cid_number_input \<Rightarrow> string + string" where
  "generate_cid_number blake inp =
     (if trim (g_public_key inp) = [] \<or> trim (g_year inp) = [] \<or> trim (g_institution inp) = []
      then Inl ''public_key, year, institution are required''
      else if \<not> segment_ok 4 is_ascii_digit (g_year inp) then Inl ''year must be YYYY''
      else case institution_code_from_str (g_institution inp) of
        None \<Rightarrow> Inl ''institution must be a registered CID institution code''
      | Some code \<Rightarrow>
          if code = PMUL then Inl ''personal multisig (PMUL) has no cid number''
          else case generated_profit code (g_p1 inp) of
            Inl e \<Rightarrow> Inl e
          | Inr profit \<Rightarrow>
              (case institution_code_text code of
                 None \<Rightarrow> Inl ''institution code text missing''
               | Some text \<Rightarrow>
                   (case generated_numbers blake inp code text of
                      Inl e \<Rightarrow> Inl e
                    | Inr (r5, n9) \<Rightarrow> Inr (assemble_cid_number code text profit r5 n9 (g_year inp)))))"

section \<open>Text lemmas\<close>

lemmas ascii_class_defs = upper_or_digit_def is_ascii_uppercase_def is_ascii_digit_def byte_def

lemma char_of_byte: "n < 256 \<Longrightarrow> byte (char_of n) = n"
  by (simp add: byte_def)

lemma cid_char_range: "cid_char c \<Longrightarrow> byte c \<in> {45} \<union> {48..57} \<union> {65..90}"
  by (auto simp: cid_char_def ascii_class_defs)

lemma strip_prefix_none:
  assumes "\<forall>w \<in> set ws. w \<noteq> [] \<longrightarrow> s = [] \<or> hd w \<noteq> hd s"
  shows "strip_prefix ws s = None"
proof -
  have "\<not> (w \<noteq> [] \<and> take (length w) s = w)" if "w \<in> set ws" for w
    using assms that by (cases w; cases s) auto
  then show ?thesis by (auto simp: strip_prefix_def find_None_iff)
qed

lemma white_space_ends:
  "w \<in> set white_space \<Longrightarrow> \<not> cid_char (hd w)" "w \<in> set white_space \<Longrightarrow> \<not> cid_char (last w)"
  by (auto simp: white_space_def dest!: cid_char_range simp: byte_def upt_rec)

lemma trim_id: "list_all cid_char s \<Longrightarrow> trim s = s"
proof -
  assume s: "list_all cid_char s"
  have h: "s = [] \<or> cid_char (hd s)" "s = [] \<or> cid_char (last s)"
    using s by (cases s, auto) (metis last_ConsL last_ConsR last_in_set list_all_iff)
  have "strip_prefix white_space s = None"
    using h(1) white_space_ends(1) by (intro strip_prefix_none) metis
  then have 1: "trim_front white_space s = s" by (simp add: trim_front.simps)
  have "strip_prefix (map rev white_space) (rev s) = None"
    using h(2) white_space_ends(2) by (intro strip_prefix_none) (auto simp: hd_rev, metis)
  then have "trim_front (map rev white_space) (rev s) = rev s" by (simp add: trim_front.simps)
  with 1 show ?thesis by (simp add: trim_def)
qed

lemma decimal_digits: "list_all is_ascii_digit (decimal n)"
proof (induction n rule: decimal.induct)
  case (1 n)
  have "is_ascii_digit (char_of (48 + k))" if "k < 10" for k :: nat
    using that by (simp add: is_ascii_digit_def char_of_byte)
  with 1 show ?case by (cases "n < 10") (simp_all add: decimal.simps [of n])
qed

lemma decimal_length: "n < 10 ^ w \<Longrightarrow> 0 < w \<Longrightarrow> length (decimal n) \<le> w"
proof (induction n arbitrary: w rule: decimal.induct)
  case (1 n)
  show ?case
  proof (cases "n < 10")
    case False
    then have "w \<noteq> 1" using 1(2) by auto
    then obtain v where v: "w = Suc v" "0 < v" using 1(3) by (cases w) auto
    then have "n div 10 < 10 ^ v" using 1(2) by (simp add: div_less_iff_less_mult mult.commute)
    then have "length (decimal (n div 10)) \<le> v" using 1(1) False v(2) by blast
    then show ?thesis using False v(1) by (subst decimal.simps) simp
  qed (use 1(3) in \<open>subst decimal.simps, simp\<close>)
qed

lemma zero_padded_segment: "n < 10 ^ w \<Longrightarrow> 0 < w \<Longrightarrow> segment_ok w is_ascii_digit (zero_padded w n)"
  using decimal_length [of n w] decimal_digits [of n]
  by (auto simp: segment_ok_def zero_padded_def Let_def list_all_iff is_ascii_digit_def byte_def)

lemma digit_upper_or_digit: "is_ascii_digit c \<Longrightarrow> upper_or_digit c"
  by (simp add: upper_or_digit_def)

lemma upper_or_digit_no_dash: "list_all upper_or_digit s \<Longrightarrow> CHR ''-'' \<notin> set s"
  by (induction s) (auto simp: ascii_class_defs)

lemma split_dash_last: "CHR ''-'' \<notin> set w \<Longrightarrow> split_dash w = [w]"
  by (induction w) auto

lemma split_dash_four:
  assumes "list_all upper_or_digit a" "list_all upper_or_digit b" "list_all upper_or_digit c" "list_all upper_or_digit d"
  shows "split_dash (a @ ''-'' @ b @ ''-'' @ c @ ''-'' @ d) = [a, b, c, d]"
  using assms [THEN upper_or_digit_no_dash] split_dash_no_dash [of a "b @ ''-'' @ c @ ''-'' @ d"]
    split_dash_no_dash [of b "c @ ''-'' @ d"] split_dash_no_dash [of c d] split_dash_last [of d]
  by simp

section \<open>Code tables\<close>

lemma find_mem: "List.find P xs = Some x \<Longrightarrow> x \<in> set xs \<and> P x"
  by (auto simp: find_Some_iff)

lemma find_ex: "x \<in> set xs \<Longrightarrow> P x \<Longrightarrow> \<exists>y. List.find P xs = Some y"
  by (induction xs) auto

definition good_text :: "string \<Rightarrow> bool" where
  "good_text t \<longleftrightarrow> list_all is_ascii_uppercase t \<and> (length t = 3 \<or> length t = 4)"

lemma texts_good: "list_all good_text institution_code_texts"
  by (simp add: institution_code_texts_def good_text_def is_ascii_uppercase_def byte_def)

lemma texts_distinct: "distinct institution_code_texts"
  by (simp add: institution_code_texts_def)

lemma labels_length: "length institution_code_labels = length institution_code_texts"
  by (simp add: institution_code_labels_def institution_code_texts_def)

lemma labels_not_ascii: "l \<in> set institution_code_labels \<Longrightarrow> \<not> list_all upper_or_digit l"
proof -
  have "list_all (\<lambda>l. l \<noteq> [] \<and> \<not> upper_or_digit (hd l)) institution_code_labels"
    by (simp add: institution_code_labels_def utf8_bmp_def ascii_class_defs)
  moreover assume "l \<in> set institution_code_labels"
  ultimately show ?thesis by (cases l) (auto simp: list_all_iff)
qed

lemma good_text_chars: "good_text t \<Longrightarrow> list_all upper_or_digit t"
  by (auto simp: good_text_def upper_or_digit_def list_all_iff)

lemma code_bytes_text: "good_text t \<Longrightarrow> filter (\<lambda>c. c \<noteq> CHR 0x00) (code_bytes t) = t"
proof -
  assume t: "good_text t"
  then have "\<forall>c \<in> set t. c \<noteq> CHR 0x00" by (auto simp: good_text_def list_all_iff is_ascii_uppercase_def byte_def)
  then have "filter (\<lambda>c. c \<noteq> CHR 0x00) t = t" by simp
  with t show ?thesis by (auto simp: good_text_def code_bytes_def)
qed

lemma code_text: "t \<in> set institution_code_texts \<Longrightarrow> institution_code_text (code_bytes t) = Some t"
proof -
  assume t: "t \<in> set institution_code_texts"
  obtain u where u: "institution_code_text (code_bytes t) = Some u"
    using find_ex [OF t, of "\<lambda>x. code_bytes x = code_bytes t"] by (auto simp: institution_code_text_def)
  then have "u \<in> set institution_code_texts" "code_bytes u = code_bytes t"
    by (simp_all add: institution_code_text_def find_mem) (drule find_mem, simp)
  moreover have "good_text t" "good_text u" using t calculation(1) texts_good by (auto simp: list_all_iff)
  ultimately show ?thesis using u code_bytes_text by metis
qed

lemma code_from_text: "t \<in> set institution_code_texts \<Longrightarrow> institution_code_from_str t = Some (code_bytes t)"
proof -
  assume t: "t \<in> set institution_code_texts"
  then have good: "good_text t" using texts_good by (auto simp: list_all_iff)
  then have tr: "trim t = t"
    by (intro trim_id) (auto dest!: good_text_chars simp: list_all_iff cid_char_def)
  let ?z = "zip institution_code_texts institution_code_labels" and ?P = "\<lambda>(x, l). x = t \<or> l = t"
  have "t \<in> fst ` set ?z" using t by (simp add: labels_length [symmetric] flip: set_map)
  then obtain m where "(t, m) \<in> set ?z" by auto
  then obtain x l where f: "List.find ?P ?z = Some (x, l)" using find_ex [of "(t, m)" ?z ?P] by auto
  then have "(x, l) \<in> set ?z" "x = t \<or> l = t" using find_mem [OF f] by auto
  then have "x = t" using labels_not_ascii [of l] good_text_chars [OF good] by (auto dest: set_zip_rightD)
  with f show ?thesis by (simp add: institution_code_from_str_def tr Let_def)
qed

lemma code_from_str_registered:
  assumes "institution_code_from_str v = Some code"
  obtains t where "t \<in> set institution_code_texts" "code = code_bytes t" "good_text t"
    "institution_code_text code = Some t" "institution_code_from_str t = Some code"
proof -
  from assms obtain x l where "List.find (\<lambda>(t, l). t = trim v \<or> l = trim v)
      (zip institution_code_texts institution_code_labels) = Some (x, l)" and c: "code = code_bytes x"
    by (auto simp: institution_code_from_str_def Let_def)
  from find_mem [OF this(1)] have x: "x \<in> set institution_code_texts" by (auto dest: set_zip_leftD)
  moreover have "good_text x" using x texts_good by (simp add: list_all_iff)
  ultimately show ?thesis using that [of x] c code_text [OF x] code_from_text [OF x] by simp
qed

section \<open>Generated numbers parse\<close>

lemma mod36_char: "upper_or_digit (checksum_char_mod36 p)"
proof -
  have "list_all upper_or_digit CHECKSUM_ALPHABET" by (simp add: CHECKSUM_ALPHABET_def ascii_class_defs)
  moreover have "length CHECKSUM_ALPHABET = 36" by (simp add: CHECKSUM_ALPHABET_def)
  ultimately show ?thesis by (simp add: checksum_char_mod36_def list_all_length)
qed

lemma m1_char:
  "upper_or_digit (checksum_char_m1 p profit)" "is_ascii_digit (checksum_char_m1 p profit) \<longleftrightarrow> profit"
proof -
  have "checksum_acc p mod 10 \<le> 9" "checksum_acc p mod 26 \<le> 25"
    using mod_less_divisor [of 10 "checksum_acc p"] mod_less_divisor [of 26 "checksum_acc p"] by linarith+
  then show "upper_or_digit (checksum_char_m1 p profit)" "is_ascii_digit (checksum_char_m1 p profit) \<longleftrightarrow> profit"
    by (simp_all add: checksum_char_m1_def upper_or_digit_def is_ascii_uppercase_def is_ascii_digit_def char_of_byte)
qed

lemma three_char: "t \<in> set institution_code_texts \<Longrightarrow> is_three_char_code (code_bytes t) \<longleftrightarrow> length t = 3"
  by (simp add: is_three_char_code_def code_text)

lemma parse_four_segments:
  assumes "segment_ok 5 upper_or_digit a" "segment_ok 5 upper_or_digit b" "segment_ok 9 is_ascii_digit c"
    "segment_ok 4 is_ascii_digit d"
  shows "parse_cid_number_parts (a @ ''-'' @ b @ ''-'' @ c @ ''-'' @ d) = parse_segments [a, b, c, d] \<and>
     utf8_valid (a @ ''-'' @ b @ ''-'' @ c @ ''-'' @ d)"
proof -
  let ?s = "a @ ''-'' @ b @ ''-'' @ c @ ''-'' @ d"
  have seg: "list_all upper_or_digit a" "list_all upper_or_digit b" "list_all upper_or_digit c"
    "list_all upper_or_digit d" "length ?s = 26"
    using assms by (auto simp: segment_ok_def list_all_iff digit_upper_or_digit)
  then have cs: "list_all cid_char ?s" by (auto simp: cid_char_def list_all_iff)
  moreover have "list_all (\<lambda>x. byte x < 128) ?s"
    by (rule list.pred_mono_strong [OF cs]) (auto dest!: cid_char_range)
  ultimately show ?thesis
    using seg(5) trim_id [OF cs] split_dash_four [OF seg(1-4)] ascii_utf8 [of ?s]
    by (simp add: parse_cid_number_parts_def Let_def CID_NUMBER_MAX_BYTES_def)
qed

lemma assembled_parses:
  assumes t: "t \<in> set institution_code_texts" and ok: "policy_conflict (code_bytes t) profit = None"
    and seg: "segment_ok 5 upper_or_digit r5" "segment_ok 9 is_ascii_digit n9" "segment_ok 4 is_ascii_digit d4"
  shows "\<exists>ck. parse_cid_number_parts (assemble_cid_number (code_bytes t) t profit r5 n9 d4) =
     Inr \<lparr>cn_r5 = r5, cn_institution = code_bytes t, cn_institution_code_text = t, cn_profit = profit,
          cn_checksum = ck, cn_n9 = n9, cn_d4 = d4\<rparr> \<and> utf8_valid (assemble_cid_number (code_bytes t) t profit r5 n9 d4)"
proof -
  from t texts_good have good: "good_text t" by (simp add: list_all_iff)
  note chars = good_text_chars [OF good]
  show ?thesis
  proof (cases "length t = 3")
    case True
    let ?p = "if profit then CHR ''1'' else CHR ''0''"
    let ?c = "checksum_char_mod36 (r5 @ t @ [?p] @ n9 @ d4)"
    have "segment_ok 5 upper_or_digit (t @ [?p, ?c])"
      using chars True mod36_char by (simp add: segment_ok_def upper_or_digit_def is_ascii_digit_def byte_def)
    moreover have "(t @ [?p, ?c]) ! 3 = ?p" "(t @ [?p, ?c]) ! 4 = ?c" "take 3 (t @ [?p, ?c]) = t"
      using True by (simp_all add: nth_append)
    moreover have "is_ascii_digit ?p" by (simp add: is_ascii_digit_def byte_def)
    ultimately show ?thesis
      using True seg parse_four_segments [of r5 "t @ [?p, ?c]" n9 d4] ok code_from_text [OF t] three_char [OF t]
      by (cases profit) (simp_all add: assemble_cid_number_def Let_def parse_segments_def parse_layout_a_def)
  next
    case False
    let ?m = "checksum_char_m1 (r5 @ t @ n9 @ d4) profit"
    have len: "length t = 4" using good False by (simp add: good_text_def)
    have "segment_ok 5 upper_or_digit (t @ [?m])" using chars len m1_char(1) by (simp add: segment_ok_def)
    moreover have "(t @ [?m]) ! 4 = ?m" "take 4 (t @ [?m]) = t" "(t @ [?m]) ! 3 = t ! 3"
      using len by (simp_all add: nth_append)
    moreover have "\<not> is_ascii_digit (t ! 3)"
      using good len by (auto simp: good_text_def list_all_length is_ascii_uppercase_def is_ascii_digit_def
          dest!: spec [of _ 3])
    ultimately show ?thesis
      using False seg parse_four_segments [of r5 "t @ [?m]" n9 d4] ok code_from_text [OF t] three_char [OF t]
      by (simp add: assemble_cid_number_def Let_def parse_segments_def parse_layout_b_def m1_char(2))
  qed
qed

lemma generated_numbers_segments:
  assumes "generated_numbers blake inp code text = Inr (r5, n9)"
  shows "segment_ok 5 upper_or_digit r5 \<and> segment_ok 9 is_ascii_digit n9 \<and>
     (if is_person_code code then take 2 r5 = ''CN''
      else r5 = g_province_code inp @ g_city_code inp \<and> length (g_province_code inp) = 2)"
proof (cases "is_person_code code")
  case True
  define k where "k = hash_u64 blake (g_public_key inp @ ''|'' @ text @ ''|'' @ g_year inp) mod 1000000000000"
  have "k div 1000000000 < 10 ^ 3" by (simp add: k_def less_mult_imp_div_less)
  moreover have "k mod 1000000000 < 10 ^ 9" by simp
  ultimately have "segment_ok 3 is_ascii_digit (zero_padded 3 (k div 1000000000))"
    "segment_ok 9 is_ascii_digit (zero_padded 9 (k mod 1000000000))"
    using zero_padded_segment by simp_all
  with assms True show ?thesis
    by (auto simp: generated_numbers_def Let_def k_def segment_ok_def list_all_iff ascii_class_defs)
next
  case False
  with assms show ?thesis
    using zero_padded_segment [of _ 9] by (auto simp: generated_numbers_def segment_ok_def split: if_splits)
qed

lemma generated_profit_ok: "generated_profit code p1 = Inr profit \<Longrightarrow> policy_conflict code profit = None"
  by (auto simp: generated_profit_def policy_conflict_def split: option.splits profit_policy_kind.splits)


text \<open>A city government numbered in 2026, with the constant hash \<open>''abcdefgh''\<close>.\<close>

definition sample_cid_input :: generate_cid_number_input where
  "sample_cid_input = \<lparr>g_public_key = ''0XABCD'', g_p1 = ''0'', g_province_code = ''GD'', g_province_name = ''G'',
     g_city_code = ''001'', g_city_name = ''L'', g_year = ''2026'', g_institution = ''CGOV''\<rparr>"

lemma sample_cid: "\<exists>cid. generate_cid_number (\<lambda>_. ''abcdefgh'') sample_cid_input = Inr cid"
proof -
  have t: "''CGOV'' \<in> set institution_code_texts" by (simp add: institution_code_texts_def)
  have "trim ''2026'' = ''2026''" "trim ''CGOV'' = ''CGOV''" "trim ''GD'' = ''GD''" "trim ''0XABCD'' = ''0XABCD''"
    "trim ''G'' = ''G''" "trim ''L'' = ''L''"
    by (rule trim_id, simp add: cid_char_def ascii_class_defs)+
  moreover have "code_bytes ''CGOV'' \<noteq> PMUL" by (simp add: fixed_code_defs)
  ultimately show ?thesis
    by (simp add: generate_cid_number_def sample_cid_input_def segment_ok_def code_from_text [OF t]
        code_text [OF t] generated_profit_def profit_policy_def generated_numbers_def is_person_code_def
        text_matches_def ascii_class_defs)
qed


end
