(* ===== verification/Voting_Types.thy ===== *)
theory Voting_Types
  imports Cid_Number
begin

text \<open>
  Data of the voting engine (\<^verbatim>\<open>votingengine/src/types.rs\<close>, the error enums of
  \<^verbatim>\<open>votingengine\<close>, \<^verbatim>\<open>internal-vote\<close> and \<^verbatim>\<open>joint-vote\<close>, and the subject types of
  \<^verbatim>\<open>entity-primitives\<close>): proposals, vote plans with their validating constructor, proposal
  subjects, mutex states, retry states, tickets and tallies. Account ids are opaque (natural
  numbers), byte vectors are strings, block numbers are 32-bit.
\<close>

type_synonym account = nat
type_synonym block_number = u32
type_synonym proposal_id = u64
type_synonym cid_number = string
type_synonym role_code = string

section \<open>Protocol constants\<close>

definition PROPOSAL_KIND_INTERNAL :: u8 where "PROPOSAL_KIND_INTERNAL = 0"
definition PROPOSAL_KIND_JOINT :: u8 where "PROPOSAL_KIND_JOINT = 1"
definition PROPOSAL_KIND_LEGISLATION :: u8 where "PROPOSAL_KIND_LEGISLATION = 2"
definition PROPOSAL_KIND_ELECTION :: u8 where "PROPOSAL_KIND_ELECTION = 3"

definition STAGE_INTERNAL :: u8 where "STAGE_INTERNAL = 0"
definition STAGE_JOINT :: u8 where "STAGE_JOINT = 1"
definition STAGE_REFERENDUM :: u8 where "STAGE_REFERENDUM = 2"
definition STAGE_LEG_REPRESENTATIVE :: u8 where "STAGE_LEG_REPRESENTATIVE = 10"
definition STAGE_LEG_REFERENDUM :: u8 where "STAGE_LEG_REFERENDUM = 11"
definition STAGE_LEG_SIGN :: u8 where "STAGE_LEG_SIGN = 12"
definition STAGE_LEG_OVERRIDE :: u8 where "STAGE_LEG_OVERRIDE = 13"
definition STAGE_LEG_CONSTITUTION_GUARD :: u8 where "STAGE_LEG_CONSTITUTION_GUARD = 14"
definition STAGE_ELECTION_POPULAR :: u8 where "STAGE_ELECTION_POPULAR = 20"
definition STAGE_ELECTION_MUTUAL :: u8 where "STAGE_ELECTION_MUTUAL = 21"

definition STATUS_VOTING :: u8 where "STATUS_VOTING = 0"
definition STATUS_PASSED :: u8 where "STATUS_PASSED = 1"
definition STATUS_REJECTED :: u8 where "STATUS_REJECTED = 2"
definition STATUS_EXECUTED :: u8 where "STATUS_EXECUTED = 3"
definition STATUS_EXECUTION_FAILED :: u8 where "STATUS_EXECUTION_FAILED = 4"

lemmas status_defs = STATUS_VOTING_def STATUS_PASSED_def STATUS_REJECTED_def
  STATUS_EXECUTED_def STATUS_EXECUTION_FAILED_def
lemmas kind_defs = PROPOSAL_KIND_INTERNAL_def PROPOSAL_KIND_JOINT_def
  PROPOSAL_KIND_LEGISLATION_def PROPOSAL_KIND_ELECTION_def
lemmas stage_defs = STAGE_INTERNAL_def STAGE_JOINT_def STAGE_REFERENDUM_def
lemmas leg_stage_defs = STAGE_LEG_REPRESENTATIVE_def STAGE_LEG_REFERENDUM_def STAGE_LEG_SIGN_def
  STAGE_LEG_OVERRIDE_def STAGE_LEG_CONSTITUTION_GUARD_def
lemmas election_stage_defs = STAGE_ELECTION_POPULAR_def STAGE_ELECTION_MUTUAL_def

lemma status_neq [simp]:
  "STATUS_VOTING \<noteq> STATUS_PASSED" "STATUS_PASSED \<noteq> STATUS_VOTING"
  "STATUS_VOTING \<noteq> STATUS_REJECTED" "STATUS_REJECTED \<noteq> STATUS_VOTING"
  "STATUS_VOTING \<noteq> STATUS_EXECUTED" "STATUS_EXECUTED \<noteq> STATUS_VOTING"
  "STATUS_VOTING \<noteq> STATUS_EXECUTION_FAILED" "STATUS_EXECUTION_FAILED \<noteq> STATUS_VOTING"
  "STATUS_PASSED \<noteq> STATUS_REJECTED" "STATUS_REJECTED \<noteq> STATUS_PASSED"
  "STATUS_PASSED \<noteq> STATUS_EXECUTED" "STATUS_EXECUTED \<noteq> STATUS_PASSED"
  "STATUS_PASSED \<noteq> STATUS_EXECUTION_FAILED" "STATUS_EXECUTION_FAILED \<noteq> STATUS_PASSED"
  "STATUS_REJECTED \<noteq> STATUS_EXECUTED" "STATUS_EXECUTED \<noteq> STATUS_REJECTED"
  "STATUS_REJECTED \<noteq> STATUS_EXECUTION_FAILED" "STATUS_EXECUTION_FAILED \<noteq> STATUS_REJECTED"
  "STATUS_EXECUTED \<noteq> STATUS_EXECUTION_FAILED" "STATUS_EXECUTION_FAILED \<noteq> STATUS_EXECUTED"
  by (simp_all add: status_defs)

lemma kind_neq [simp]:
  "PROPOSAL_KIND_INTERNAL \<noteq> PROPOSAL_KIND_JOINT" "PROPOSAL_KIND_JOINT \<noteq> PROPOSAL_KIND_INTERNAL"
  by (simp_all add: kind_defs)

lemma stage_neq [simp]:
  "STAGE_JOINT \<noteq> STAGE_REFERENDUM" "STAGE_REFERENDUM \<noteq> STAGE_JOINT"
  by (simp_all add: stage_defs)

definition MAX_PROPOSAL_SUBJECT_CIDS :: u32 where "MAX_PROPOSAL_SUBJECT_CIDS = 256"
definition MAX_VOTE_PLAN_SUBJECTS :: u32 where "MAX_VOTE_PLAN_SUBJECTS = MAX_PROPOSAL_SUBJECT_CIDS"
definition MAX_REPRESENTATIVE_BODIES :: u32 where "MAX_REPRESENTATIVE_BODIES = 4"
definition BLOCKS_PER_DAY :: u32 where "BLOCKS_PER_DAY = 240"
definition VOTING_DURATION_DAYS :: u32 where "VOTING_DURATION_DAYS = 30"
definition VOTING_DURATION_BLOCKS :: u32 where
  "VOTING_DURATION_BLOCKS = BLOCKS_PER_DAY * VOTING_DURATION_DAYS"

definition bn_add :: "block_number \<Rightarrow> block_number \<Rightarrow> block_number" where
  "bn_add a b = sat_add 32 a b"

lemma bn_add_exact: "a + b < 2 ^ 32 \<Longrightarrow> bn_add a b = a + b"
  by (simp add: bn_add_def sat_add_exact)

lemma bn_add_ge: "a < 2 ^ 32 \<Longrightarrow> a \<le> bn_add a b"
  unfolding bn_add_def by (rule sat_add_ge_left)

lemma bn_add_mono: "a \<le> a' \<Longrightarrow> bn_add a b \<le> bn_add a' b"
  unfolding bn_add_def by (rule sat_add_mono) simp_all

section \<open>Errors\<close>

datatype ve_error =
    ProposalNotFound | InvalidProposalKind | InvalidProposalStage | InvalidProposalStatus
  | MissingAdminSnapshot | MissingVoterSnapshot | VotePlanAlreadyBound | InvalidVotePlan
  | InvalidInstitution | NoPermission | VoteClosed | VoteNotExpired | AlreadyVoted
  | ProposalAlreadyFinalized | ProposalIdOverflow | YearCounterOverflow | TooManyProposalsAtExpiry
  | ActiveProposalLimitReached | AdminSetMutationProposalActive | RegularInternalProposalActive
  | InternalProposalMutexOverflow | TooManyInternalProposalMutexBindings
  | InternalProposalMutexOwnerMismatch | ProposalOwnerMissing | ProposalOwnerMismatch
  | ProposalDataAlreadyRegistered | ProposalNotRetryable | ManualExecutionAttemptsExceeded
  | ExecutionRetryDeadlinePassed | TooManyExecutionRetryDeadlines | ProposalCancellationNotAllowed
  | CleanupQueueSequenceExhausted | PopulationDataNotReady

datatype iv_error =
    InvalidInternalCode | MissingThresholdSnapshot | InvalidThresholdSnapshot
  | InvalidDynamicThreshold | MissingDynamicThreshold

datatype jv_error =
    CitizenEligibleTotalNotSet | CitizenNotEligible | ReferendumSnapshotExhausted

text \<open>Names that two pallets share carry a prefix here.\<close>

datatype lv_error =
    InvalidRepresentativeRoute | InvalidRepresentativeRule | ProposalMetaMissing
  | LegCitizenEligibleTotalNotSet | LegCitizenNotEligible | LegReferendumSnapshotExhausted
  | NotInExpectedStage | NotLegalRepresentative | NotOverrideSigner | AlreadySigned
  | NotConstitutionGuard | InvalidGuardMembersLen | InvalidInstitutionCid

datatype el_error =
    EmptyRoleCode | EmptyCandidateSnapshot | EmptyVoterSnapshot | TooManyCandidates
  | DuplicateCandidateCid | InvalidSeatCount | InvalidTerm | ElectionMetaMissing | NotOrganizerAdmin
  | VoterNotInSnapshot | CandidateNotInSnapshot | VoterNotEligible | CandidateSubjectInvalid
  | ElectionScopeMissing | ElectionInvalidVotePlan | ElectionInvalidInstitutionCid

datatype dispatch_error =
    VotingEngine ve_error | InternalVote iv_error | JointVote jv_error
  | LegislationVote lv_error | ElectionVote el_error
  | BadOrigin | Other string | Module string

section \<open>Subjects and vote plans\<close>

record role_subject =
  rs_cid_number :: cid_number
  rs_role_code :: role_code

datatype authorization_subject = Institution role_subject | PersonalMultisig account

datatype proposal_subject = InstitutionCid cid_number | PersonalAccount account

record institution_vote_ticket =
  t_role_subject :: role_subject
  t_voter_account_id :: account

datatype voting_engine_kind = Internal | Joint | Election | Legislation

datatype vote_plan_validation_error =
    PlanOwnerMismatch | VoterSubjectsEmpty | TooManyVoterSubjects | DuplicateVoterSubject
  | AuthorizationSubjectMismatch

record business_action_id =
  module_tag :: string
  action_code :: u32

record vote_plan =
  vp_business_action_id :: business_action_id
  vp_proposal_owner :: string
  vp_proposer_subject :: authorization_subject
  vp_voter_subjects :: "authorization_subject list"
  vp_voting_engine :: voting_engine_kind
  vp_business_object_hash :: string

fun is_institution_subject :: "authorization_subject \<Rightarrow> bool" where
  "is_institution_subject (Institution _) = True"
| "is_institution_subject (PersonalMultisig _) = False"

definition vote_plan_try_new ::
  "business_action_id \<Rightarrow> string \<Rightarrow> authorization_subject \<Rightarrow> authorization_subject list \<Rightarrow>
   voting_engine_kind \<Rightarrow> string \<Rightarrow> vote_plan_validation_error + vote_plan" where
  "vote_plan_try_new action owner proposer voters engine obj_hash =
     (if module_tag action \<noteq> owner then Inl PlanOwnerMismatch
      else if voters = [] \<and> engine \<noteq> Election then Inl VoterSubjectsEmpty
      else if has_duplicate voters then Inl DuplicateVoterSubject
      else if (case proposer of
                 Institution _ \<Rightarrow> \<exists>s \<in> set voters. \<not> is_institution_subject s
               | PersonalMultisig a \<Rightarrow> length voters \<noteq> 1 \<or>
                   (case voters of PersonalMultisig b # _ \<Rightarrow> b \<noteq> a | _ \<Rightarrow> True))
        then Inl AuthorizationSubjectMismatch
      else if MAX_VOTE_PLAN_SUBJECTS < length voters then Inl TooManyVoterSubjects
      else Inr \<lparr>vp_business_action_id = action, vp_proposal_owner = owner,
                vp_proposer_subject = proposer, vp_voter_subjects = voters,
                vp_voting_engine = engine, vp_business_object_hash = obj_hash\<rparr>)"

text \<open>What every vote plan that the constructor lets through satisfies.\<close>

definition vote_plan_wf :: "vote_plan \<Rightarrow> bool" where
  "vote_plan_wf p \<longleftrightarrow>
     module_tag (vp_business_action_id p) = vp_proposal_owner p \<and>
     (vp_voter_subjects p = [] \<longrightarrow> vp_voting_engine p = Election) \<and>
     distinct (vp_voter_subjects p) \<and>
     length (vp_voter_subjects p) \<le> MAX_VOTE_PLAN_SUBJECTS \<and>
     (case vp_proposer_subject p of
        Institution _ \<Rightarrow> list_all is_institution_subject (vp_voter_subjects p)
      | PersonalMultisig a \<Rightarrow> vp_voter_subjects p = [PersonalMultisig a])"


section \<open>Proposals and their auxiliary states\<close>

datatype proposal_execution_outcome = Ignored | Executed | RetryableFailed | FatalFailed

datatype proposal_cancel_decision = CancelIgnored | CancelAllow

datatype internal_proposal_mutex_kind = Regular | AdminSetMutationExclusive

record mutex_state =
  admin_set_mutation_proposal :: "proposal_id option"
  regular_active_count :: u32

definition mutex_state_default :: mutex_state where
  "mutex_state_default = \<lparr>admin_set_mutation_proposal = None, regular_active_count = 0\<rparr>"

definition mutex_state_is_empty :: "mutex_state \<Rightarrow> bool" where
  "mutex_state_is_empty st \<longleftrightarrow> admin_set_mutation_proposal st = None \<and> regular_active_count st = 0"

record mutex_binding =
  mb_subject :: proposal_subject
  mb_kind :: internal_proposal_mutex_kind

record execution_retry_state =
  manual_attempts :: u8
  first_auto_failed_at :: block_number
  retry_deadline :: block_number
  last_attempt_at :: "block_number option"

record pending_execution_state =
  attempts :: u8
  next_attempt_at :: block_number

record proposal =
  p_kind :: u8
  p_stage :: u8
  p_status :: u8
  p_internal_code :: "institution_code option"
  p_actor_cid_number :: "cid_number option"
  p_execution_account_id :: "account option"
  p_subject_cid_numbers :: "cid_number list"
  p_start :: block_number
  p_end :: block_number

definition subject_keys :: "proposal \<Rightarrow> proposal_subject list" where
  "subject_keys p =
     (case p_actor_cid_number p of
        Some cid \<Rightarrow> [InstitutionCid cid]
      | None \<Rightarrow>
          if p_internal_code p = Some PMUL then
            (case p_execution_account_id p of Some a \<Rightarrow> [PersonalAccount a] | None \<Rightarrow> [])
          else [])"

lemma subject_keys_update [simp]:
  "subject_keys (p\<lparr>p_status := st\<rparr>) = subject_keys p"
  "subject_keys (p\<lparr>p_stage := g\<rparr>) = subject_keys p"
  "subject_keys (p\<lparr>p_start := b\<rparr>) = subject_keys p"
  "subject_keys (p\<lparr>p_end := b\<rparr>) = subject_keys p"
  by (simp_all add: subject_keys_def split: option.split)

lemma subject_keys_length: "length (subject_keys p) \<le> 1"
  by (simp add: subject_keys_def split: option.split)

record vote_count =
  yes :: nat
  no :: nat

definition vote_count_default :: vote_count where
  "vote_count_default = \<lparr>yes = 0, no = 0\<rparr>"

text \<open>A later tally: more ballots on the same tickets.\<close>

definition later_tally :: "nat \<Rightarrow> vote_count \<Rightarrow> vote_count \<Rightarrow> bool" where
  "later_tally seats_n t u \<longleftrightarrow> yes t \<le> yes u \<and> no t \<le> no u \<and> yes u + no u \<le> seats_n"

datatype pending_cleanup_stage =
    AdminSnapshots | VoterSnapshots | InstitutionTicketCounts | TrackData | ProposalObjectStage
  | FinalCleanup

record scheduled_cleanup =
  cleanup_at :: block_number
  sc_proposal_id :: proposal_id

record proposal_metadata =
  created_at :: block_number
  passed_at :: "block_number option"

record proposal_object_metadata =
  object_kind :: u8
  object_len :: u32
  object_hash :: string

record proposal_display_meta =
  display_year :: u16
  seq_in_year :: u32

text \<open>
  The citizen-identity module owns the population data; the engine reads only the total and
  passes the rest back to the identity reader.
\<close>

datatype population_scope =
    ScopeCountry | ScopeProvince string | ScopeCity string string | ScopeTown string string string

record population_data =
  eligible_total :: u64
  population_context :: string

record population_snapshot =
  ps_population_data :: population_data
  ps_created_at :: block_number

record citizen_subject =
  cs_cid_number :: cid_number
  cs_account_id :: account

record citizen_referendum_ticket =
  voter_subject :: citizen_subject
  ticket_approve :: bool

end
