(* ===== verification/Runtime_Config.thy ===== *)
theory Runtime_Config
  imports Voting_Types
begin

text \<open>
  Two-dimensional weights (reference time and proof size, 64 bits each, saturating) and the
  configuration constants of the voting engine (\<^verbatim>\<open>Config\<close> in \<^verbatim>\<open>votingengine/src/lib.rs\<close>).
  Weights decide how much the per-block hooks process, so they are part of the behaviour; the
  benchmarked values themselves are parameters. \<open>runtime_config\<close> carries the constants the
  runtime chooses (\<^verbatim>\<open>runtime/src/configs.rs\<close>).
\<close>

section \<open>Weights\<close>

record weight =
  ref_time :: u64
  proof_size :: u64

definition weight_zero :: weight where
  "weight_zero = \<lparr>ref_time = 0, proof_size = 0\<rparr>"

definition w_add :: "weight \<Rightarrow> weight \<Rightarrow> weight" where
  "w_add a b = \<lparr>ref_time = sat_add 64 (ref_time a) (ref_time b),
     proof_size = sat_add 64 (proof_size a) (proof_size b)\<rparr>"

definition w_sub :: "weight \<Rightarrow> weight \<Rightarrow> weight" where
  "w_sub a b = \<lparr>ref_time = sat_sub (ref_time a) (ref_time b),
     proof_size = sat_sub (proof_size a) (proof_size b)\<rparr>"

definition w_scale :: "weight \<Rightarrow> u64 \<Rightarrow> weight" where
  "w_scale a n = \<lparr>ref_time = sat_mul 64 (ref_time a) n, proof_size = sat_mul 64 (proof_size a) n\<rparr>"

definition w_max :: "weight \<Rightarrow> weight \<Rightarrow> weight" where
  "w_max a b = \<lparr>ref_time = max (ref_time a) (ref_time b), proof_size = max (proof_size a) (proof_size b)\<rparr>"

definition any_gt :: "weight \<Rightarrow> weight \<Rightarrow> bool" where
  "any_gt a b \<longleftrightarrow> ref_time b < ref_time a \<or> proof_size b < proof_size a"

definition block_weight_fraction :: "weight \<Rightarrow> u64 \<Rightarrow> weight" where
  "block_weight_fraction max_block divisor =
     (let d = max divisor 1 in \<lparr>ref_time = ref_time max_block div d, proof_size = proof_size max_block div d\<rparr>)"

section \<open>Configuration\<close>

record config =
  MaxAutoFinalizePerBlock :: u32
  MaxAutoFinalizeWeightPerBlock :: weight
  MaxExecutionWeightPerBlock :: weight
  MaxCleanupWeightPerBlock :: weight
  MaxProposalsPerExpiry :: u32
  MaxInternalProposalMutexBindings :: u32
  MaxActiveProposals :: u32
  MaxCleanupStepsPerBlock :: u32
  MaxCleanupActivationsPerBlock :: u32
  CleanupKeysPerStep :: u32
  MaxProposalDataLen :: u32
  MaxProposalObjectLen :: u32
  MaxModuleTagLen :: u32
  MaxManualExecutionAttempts :: u32
  ExecutionRetryGraceBlocks :: block_number
  MaxExecutionRetryDeadlinesPerBlock :: u32
  MaxPendingRetryExpirationsPerBlock :: u32
  MaxAdminsPerInstitution :: u32
  MaxElectionCandidates :: u32
  db_weight :: "nat \<Rightarrow> nat \<Rightarrow> weight"
  w_finalize_proposal :: weight
  w_process_pending_execution :: weight
  w_set_code :: weight

text \<open>Reads and writes are priced by the node's database weights.\<close>

abbreviation db_reads :: "config \<Rightarrow> nat \<Rightarrow> weight" where
  "db_reads cfg r \<equiv> db_weight cfg r 0"

abbreviation db_writes :: "config \<Rightarrow> nat \<Rightarrow> weight" where
  "db_writes cfg w \<equiv> db_weight cfg 0 w"

text \<open>
  The constants of the deployed runtime. Block weights, database weights, the benchmarked
  weights and the administrator bound of the entity modules stay parameters.
\<close>

definition runtime_config ::
  "weight \<Rightarrow> u32 \<Rightarrow> (nat \<Rightarrow> nat \<Rightarrow> weight) \<Rightarrow> weight \<Rightarrow> weight \<Rightarrow> weight \<Rightarrow> config" where
  "runtime_config max_block max_admins db wt_finalize wt_execution wt_set_code =
    \<lparr>MaxAutoFinalizePerBlock = 2048,
     MaxAutoFinalizeWeightPerBlock = block_weight_fraction max_block 4,
     MaxExecutionWeightPerBlock = block_weight_fraction max_block 4,
     MaxCleanupWeightPerBlock = block_weight_fraction max_block 8,
     MaxProposalsPerExpiry = 2048,
     MaxInternalProposalMutexBindings = 256,
     MaxActiveProposals = 10,
     MaxCleanupStepsPerBlock = 8,
     MaxCleanupActivationsPerBlock = 64,
     CleanupKeysPerStep = 256,
     MaxProposalDataLen = 100 * 1024,
     MaxProposalObjectLen = 10 * 1024 * 1024,
     MaxModuleTagLen = 32,
     MaxManualExecutionAttempts = 3,
     ExecutionRetryGraceBlocks = 21600,
     MaxExecutionRetryDeadlinesPerBlock = 2048,
     MaxPendingRetryExpirationsPerBlock = 256,
     MaxAdminsPerInstitution = max_admins, MaxElectionCandidates = 256,
     db_weight = db, w_finalize_proposal = wt_finalize,
     w_process_pending_execution = wt_execution, w_set_code = wt_set_code\<rparr>"

text \<open>
  A small configuration with every weight zero and every budget unlimited, on which concrete
  runs are evaluated.
\<close>

definition test_config :: config where
  "test_config =
     runtime_config \<lparr>ref_time = 2 ^ 60, proof_size = 2 ^ 60\<rparr> 64 (\<lambda>_ _. weight_zero)
       weight_zero weight_zero weight_zero"

lemma test_config_simps [simp]:
  "MaxAutoFinalizePerBlock test_config = 2048" "MaxProposalsPerExpiry test_config = 2048"
  "MaxInternalProposalMutexBindings test_config = 256" "MaxActiveProposals test_config = 10"
  "MaxManualExecutionAttempts test_config = 3" "ExecutionRetryGraceBlocks test_config = 21600"
  "MaxAdminsPerInstitution test_config = 64" "MaxModuleTagLen test_config = 32"
  "MaxElectionCandidates test_config = 256"
  "MaxProposalDataLen test_config = 102400" "db_weight test_config = (\<lambda>_ _. weight_zero)"
  by (simp_all add: test_config_def runtime_config_def)

lemma w_add_zero_right: "ref_time a < 2 ^ 64 \<Longrightarrow> proof_size a < 2 ^ 64 \<Longrightarrow> w_add a weight_zero = a"
  by (simp add: w_add_def weight_zero_def sat_add_exact)

lemma w_add_zero_zero [simp]: "w_add weight_zero weight_zero = weight_zero"
  by (simp add: w_add_def weight_zero_def sat_add_exact)

lemma any_gt_zero [simp]: "\<not> any_gt weight_zero b"
  by (simp add: any_gt_def weight_zero_def)

end
