(* ===== verification/Proposal_Id.thy ===== *)
theory Proposal_Id
  imports Voting_Types
begin

text \<open>
  The two-level proposal identifier (\<^verbatim>\<open>votingengine/src/id.rs\<close>): a global monotone 64-bit key
  and a display number (year, sequence in the year). The year is computed from Unix seconds by
  the loop of \<open>unix_seconds_to_year\<close>, which is proved against a calendar specification.
\<close>

section \<open>Model\<close>

record id_storage =
  current_proposal_year :: u16
  year_proposal_counter :: u32
  next_proposal_id :: proposal_id
  proposal_display_id :: "proposal_id \<rightharpoonup> proposal_display_meta"

definition id_storage_genesis :: id_storage where
  "id_storage_genesis = \<lparr>current_proposal_year = 0, year_proposal_counter = 0,
     next_proposal_id = 0, proposal_display_id = Map.empty\<rparr>"

definition is_leap_year :: "u32 \<Rightarrow> bool" where
  "is_leap_year y \<longleftrightarrow> 4 dvd y \<and> (\<not> 100 dvd y \<or> 400 dvd y)"

definition days_in_year :: "u32 \<Rightarrow> u16" where
  "days_in_year y = (if is_leap_year y then 366 else 365)"

lemma days_in_year_pos [simp]: "0 < days_in_year y"
  by (simp add: days_in_year_def)

function year_loop :: "nat \<Rightarrow> u32 \<Rightarrow> u32 option" where
  "year_loop days year =
     (if days_in_year year \<le> days then
        (case checked_add 32 year 1 of
           None \<Rightarrow> None
         | Some year' \<Rightarrow> year_loop (days - days_in_year year) year')
      else Some year)"
  by pat_completeness auto
termination
proof (relation "measure fst", goal_cases)
  case (2 days year x2)
  then show ?case using days_in_year_pos [of year] by (simp del: days_in_year_pos)
qed simp

declare year_loop.simps [simp del]

definition unix_seconds_to_year :: "u64 \<Rightarrow> ve_error + u16" where
  "unix_seconds_to_year secs =
     (let days = secs div 86400; cycles = days div 146097 in
      case try_into 32 cycles of None \<Rightarrow> Inl ProposalIdOverflow | Some c \<Rightarrow>
      case checked_mul 32 c 400 of None \<Rightarrow> Inl ProposalIdOverflow | Some c400 \<Rightarrow>
      case checked_add 32 1970 c400 of None \<Rightarrow> Inl ProposalIdOverflow | Some year \<Rightarrow>
      case year_loop (days mod 146097) year of None \<Rightarrow> Inl ProposalIdOverflow | Some y \<Rightarrow>
      case try_into 16 y of None \<Rightarrow> Inl ProposalIdOverflow | Some y16 \<Rightarrow> Inr y16)"

definition allocate_proposal_id ::
  "u128 \<Rightarrow> id_storage \<Rightarrow> (ve_error, proposal_id, id_storage) outcome" where
  "allocate_proposal_id now_ms s =
     ok_or (try_into 64 (now_ms div 1000)) ProposalIdOverflow s (\<lambda>secs.
     (case unix_seconds_to_year secs of Inl e \<Rightarrow> (Inl e, s) | Inr year \<Rightarrow>
     ok_or (checked_add 64 (next_proposal_id s) 1) ProposalIdOverflow s (\<lambda>n.
       let i = next_proposal_id s; s1 = s\<lparr>next_proposal_id := n\<rparr> in
       if current_proposal_year s1 \<noteq> year then
         (Inr i, s1\<lparr>current_proposal_year := year, year_proposal_counter := 1,
            proposal_display_id := (proposal_display_id s1)(i \<mapsto> \<lparr>display_year = year, seq_in_year = 0\<rparr>)\<rparr>)
       else
         (let c = year_proposal_counter s1 in
          ok_or (checked_add 32 c 1) YearCounterOverflow s1 (\<lambda>c'.
            (Inr i, s1\<lparr>year_proposal_counter := c',
               proposal_display_id := (proposal_display_id s1)(i \<mapsto> \<lparr>display_year = year, seq_in_year = c\<rparr>)\<rparr>))))))"

section \<open>The calendar\<close>

text \<open>Days between 1970-01-01 and the first day of a year, summed year by year.\<close>

definition days_before :: "nat \<Rightarrow> nat" where
  "days_before y = (\<Sum>k = 1970..<y. days_in_year k)"

lemma days_before_1970 [simp]: "days_before 1970 = 0"
  by (simp add: days_before_def)

lemma days_before_Suc: "1970 \<le> y \<Longrightarrow> days_before (Suc y) = days_before y + days_in_year y"
  by (simp add: days_before_def)

lemma days_before_mono: "y \<le> y' \<Longrightarrow> days_before y \<le> days_before y'"
  unfolding days_before_def by (rule sum_mono2) auto

lemma days_in_year_period: "days_in_year (k + 400) = days_in_year k"
proof -
  have "(k + 400) mod 4 = k mod 4" "(k + 400) mod 100 = k mod 100" "(k + 400) mod 400 = k mod 400"
    using mod_mult_self2 [of k 4 100] mod_mult_self2 [of k 100 4] by simp_all
  then show ?thesis by (simp add: days_in_year_def is_leap_year_def dvd_eq_mod_eq_0)
qed

lemma days_400_years: "(\<Sum>k = 1970..<2370. days_in_year k) = 146097"
proof -
  have "(\<Sum>k = 1970..<2370. days_in_year k) = sum_list (map days_in_year [1970..<2370])"
    by (simp only: interv_sum_list_conv_sum_set_nat set_upt)
  then show ?thesis by (simp add: upt_rec_numeral days_in_year_def is_leap_year_def)
qed

lemma days_before_period: "1970 \<le> y \<Longrightarrow> days_before (y + 400) = days_before y + 146097"
proof (induction y rule: nat_induct_at_least)
  case base
  show ?case using days_400_years by (simp add: days_before_def)
next
  case (Suc y)
  have "days_before (Suc y + 400) = days_before (y + 400) + days_in_year (y + 400)"
    using Suc.hyps days_before_Suc [of "y + 400"] by simp
  also have "\<dots> = days_before y + 146097 + days_in_year y"
    using Suc.IH by (simp add: days_in_year_period)
  also have "\<dots> = days_before (Suc y) + 146097"
    using Suc.hyps by (simp add: days_before_Suc)
  finally show ?case by simp
qed

lemma days_before_cycles: "days_before (1970 + c * 400) = c * 146097"
proof (induction c)
  case (Suc c)
  have "days_before (1970 + c * 400 + 400) = days_before (1970 + c * 400) + 146097"
    by (rule days_before_period) simp
  then show ?case using Suc.IH by (simp add: algebra_simps)
qed simp

text \<open>A day lies in exactly one year.\<close>

definition in_year :: "nat \<Rightarrow> nat \<Rightarrow> bool" where
  "in_year d y \<longleftrightarrow> 1970 \<le> y \<and> days_before y \<le> d \<and> d < days_before (Suc y)"

lemma in_year_unique: "in_year d y \<Longrightarrow> in_year d y' \<Longrightarrow> y = y'"
proof (rule ccontr)
  assume a: "in_year d y" "in_year d y'" "y \<noteq> y'"
  have "\<not> y < y'"
    using a days_before_mono [of "Suc y" y'] by (auto simp: in_year_def)
  moreover have "\<not> y' < y"
    using a days_before_mono [of "Suc y'" y] by (auto simp: in_year_def)
  ultimately show False using a by simp
qed

lemma year_loop_in_year:
  "1970 \<le> y \<Longrightarrow> year_loop d y = Some y' \<Longrightarrow> in_year (days_before y + d) y'"
proof (induction d y rule: year_loop.induct)
  case (1 d y)
  show ?case
  proof (cases "days_in_year y \<le> d")
    case True
    with "1.prems"(2) have s: "Suc y < 2 ^ 32"
      and r: "year_loop (d - days_in_year y) (Suc y) = Some y'"
      by (auto simp: year_loop.simps [of d y] split: option.splits)
    from s have "checked_add 32 y 1 = Some (Suc y)" by simp
    with True r "1.prems"(1) have "in_year (days_before (Suc y) + (d - days_in_year y)) y'"
      using "1.IH" by simp
    with True "1.prems"(1) show ?thesis by (simp add: days_before_Suc)
  next
    case False
    with "1.prems" show ?thesis
      by (simp add: year_loop.simps [of d y] in_year_def days_before_Suc)
  qed
qed

lemma year_loop_None:
  "1970 \<le> y \<Longrightarrow> year_loop d y = None \<Longrightarrow> in_year (days_before y + d) y' \<Longrightarrow> 2 ^ 32 \<le> y'"
proof (induction d y rule: year_loop.induct)
  case (1 d y)
  from "1.prems"(2) have ge: "days_in_year y \<le> d"
    by (auto simp: year_loop.simps [of d y] split: if_splits)
  show ?case
  proof (cases "Suc y < 2 ^ 32")
    case True
    then have next_year: "checked_add 32 y 1 = Some (Suc y)" by simp
    moreover from "1.prems"(2) ge have "year_loop (d - days_in_year y) (Suc y) = None"
      by (simp only: year_loop.simps [of d y] next_year if_True option.case)
    ultimately show ?thesis
      using "1.IH" ge "1.prems" by (simp add: days_before_Suc)
  next
    case False
    have "\<not> y' \<le> y"
      using "1.prems"(1,3) ge days_before_mono [of "Suc y'" "Suc y"]
      by (auto simp: in_year_def days_before_Suc)
    with False show ?thesis by simp
  qed
qed

lemma in_year_exists: "\<exists>y. in_year d y"
proof -
  have grow: "n \<le> days_before (1970 + n)" for n
  proof (induction n)
    case (Suc n)
    have "1 \<le> days_in_year (1970 + n)" using days_in_year_pos [of "1970 + n"] by linarith
    with Suc.IH show ?case using days_before_Suc [of "1970 + n"] by simp
  qed simp
  define y where "y = (LEAST y. d < days_before (Suc y))"
  have ex: "d < days_before (Suc (1970 + d))" using grow [of "Suc d"] by simp
  then have lt: "d < days_before (Suc y)" unfolding y_def by (rule LeastI)
  then have ge: "1970 \<le> y"
    by (rule_tac ccontr) (auto simp: days_before_def)
  have "days_before y \<le> d"
  proof (cases "y = 1970")
    case False
    with ge obtain z where z: "y = Suc z" by (metis not0_implies_Suc less_nat_zero_code not_le zero_less_numeral)
    with not_less_Least [of z "\<lambda>y. d < days_before (Suc y)"] show ?thesis by (simp add: y_def)
  qed simp
  with lt ge show ?thesis by (auto simp: in_year_def)
qed

lemma unix_seconds_to_year_eq:
  assumes y: "in_year (secs div 86400) y"
  shows "unix_seconds_to_year secs = (if y < 2 ^ 16 then Inr y else Inl ProposalIdOverflow)"
proof -
  define d where "d = secs div 86400"
  define c where "c = d div 146097"
  define r where "r = d mod 146097"
  have y: "in_year d y" using assms by (simp add: d_def)
  have d: "days_before (1970 + c * 400) + r = d"
    by (simp add: days_before_cycles c_def r_def)
  have ge: "1970 + c * 400 \<le> y"
  proof (rule ccontr)
    assume "\<not> ?thesis"
    then have "days_before (Suc y) \<le> days_before (1970 + c * 400)" by (intro days_before_mono) simp
    with d y show False by (simp add: in_year_def)
  qed
  have unfolded: "unix_seconds_to_year secs =
     (if 2 ^ 32 \<le> c \<or> 2 ^ 32 \<le> c * 400 \<or> 2 ^ 32 \<le> 1970 + c * 400 then Inl ProposalIdOverflow
      else case year_loop r (1970 + c * 400) of None \<Rightarrow> Inl ProposalIdOverflow
        | Some y \<Rightarrow> if y < 2 ^ 16 then Inr y else Inl ProposalIdOverflow)"
    by (auto simp: unix_seconds_to_year_def Let_def d_def c_def r_def try_into_def checked_mul_def
        checked_add_def split: option.splits)
  show ?thesis
  proof (cases "2 ^ 32 \<le> 1970 + c * 400")
    case True
    with ge have "\<not> y < 2 ^ 16" by simp
    with True show ?thesis using unfolded by simp
  next
    case False
    show ?thesis
    proof (cases "year_loop r (1970 + c * 400)")
      case None
      then have "\<not> y < 2 ^ 16" using year_loop_None [of "1970 + c * 400" r y] d y by simp
      with None False show ?thesis using unfolded by simp
    next
      case (Some y')
      then have "in_year d y'" using year_loop_in_year [of "1970 + c * 400" r y'] d by simp
      then have "y' = y" using y in_year_unique by blast
      with Some False show ?thesis using unfolded by simp
    qed
  qed
qed

lemma unix_seconds_to_year_in_year:
  "unix_seconds_to_year secs = Inr y \<longleftrightarrow> y < 2 ^ 16 \<and> in_year (secs div 86400) y"
proof -
  obtain z where z: "in_year (secs div 86400) z" using in_year_exists by blast
  then show ?thesis using unix_seconds_to_year_eq [OF z] in_year_unique by auto
qed

text \<open>
  C34. \<open>unix_seconds_to_year\<close> returns the UTC calendar year of its argument: the result is \<open>y\<close>
  if and only if \<open>y\<close> is the year that contains the day of that second (leap years included) and
  fits in 16 bits; it fails, always with \<open>ProposalIdOverflow\<close>, exactly when there is no such
  16-bit year.
\<close>

theorem unix_seconds_to_year_correct:
  "(unix_seconds_to_year secs = Inr y \<longleftrightarrow> y < 2 ^ 16 \<and> in_year (secs div 86400) y) \<and>
   (unix_seconds_to_year secs = Inl e \<longleftrightarrow>
      e = ProposalIdOverflow \<and> \<not> (\<exists>z < 2 ^ 16. in_year (secs div 86400) z))"
proof -
  obtain z where z: "in_year (secs div 86400) z" using in_year_exists by blast
  have "(\<exists>w < 2 ^ 16. in_year (secs div 86400) w) \<longleftrightarrow> z < 2 ^ 16"
    using z in_year_unique by blast
  then show ?thesis
    using unix_seconds_to_year_eq [OF z] by (subst unix_seconds_to_year_in_year) auto
qed

section \<open>Allocation\<close>

text \<open>
  The display index is injective, its numbers lie below the counters, and the current year is
  the largest one used. Kept by every allocation whose timestamp is not before the last one.
\<close>

definition id_inv :: "id_storage \<Rightarrow> bool" where
  "id_inv s \<longleftrightarrow>
     (\<forall>i d. proposal_display_id s i = Some d \<longrightarrow>
        i < next_proposal_id s \<and> display_year d \<le> current_proposal_year s \<and>
        (display_year d = current_proposal_year s \<longrightarrow> seq_in_year d < year_proposal_counter s)) \<and>
     (\<forall>i j d. proposal_display_id s i = Some d \<and> proposal_display_id s j = Some d \<longrightarrow> i = j)"

lemma id_inv_genesis: "id_inv id_storage_genesis"
  by (simp add: id_inv_def id_storage_genesis_def)

lemma allocate_proposal_id_ok:
  assumes "allocate_proposal_id now s = (Inr i, s')"
  obtains y where "unix_seconds_to_year (now div 1000) = Inr y" "i = next_proposal_id s"
    "next_proposal_id s' = Suc i" "current_proposal_year s' = y"
    "year_proposal_counter s' =
       (if current_proposal_year s = y then Suc (year_proposal_counter s) else 1)"
    "proposal_display_id s' = (proposal_display_id s)(i \<mapsto> \<lparr>display_year = y,
       seq_in_year = (if current_proposal_year s = y then year_proposal_counter s else 0)\<rparr>)"
  using assms
  by (auto simp: allocate_proposal_id_def Let_def split: sum.splits if_splits)

lemma id_inv_allocate:
  assumes inv: "id_inv s" and ok: "allocate_proposal_id now s = (Inr i, s')"
    and mono: "\<And>y. unix_seconds_to_year (now div 1000) = Inr y \<Longrightarrow> current_proposal_year s \<le> y"
  shows "id_inv s'"
proof -
  from ok obtain y where y: "unix_seconds_to_year (now div 1000) = Inr y" "i = next_proposal_id s"
    and s': "next_proposal_id s' = Suc i" "current_proposal_year s' = y"
      "year_proposal_counter s' =
         (if current_proposal_year s = y then Suc (year_proposal_counter s) else 1)"
      "proposal_display_id s' = (proposal_display_id s)(i \<mapsto> \<lparr>display_year = y,
         seq_in_year = (if current_proposal_year s = y then year_proposal_counter s else 0)\<rparr>)"
    by (rule allocate_proposal_id_ok)
  from mono y have le: "current_proposal_year s \<le> y" by simp
  show ?thesis using inv y s' le unfolding id_inv_def
    by (auto split: if_splits; fastforce)
qed

text \<open>A sequence of allocations at the given timestamps; failed ones are rolled back.\<close>

fun allocate_all :: "u128 list \<Rightarrow> id_storage \<Rightarrow> proposal_id list \<times> id_storage" where
  "allocate_all [] s = ([], s)"
| "allocate_all (t # ts) s =
     (case with_transaction (allocate_proposal_id t) s of
        (Inl e, s') \<Rightarrow> allocate_all ts s'
      | (Inr i, s') \<Rightarrow> (case allocate_all ts s' of (js, s'') \<Rightarrow> (i # js, s'')))"

lemma in_year_mono:
  assumes "in_year d y" "in_year d' y'" "d \<le> d'"
  shows "y \<le> y'"
proof (rule ccontr)
  assume "\<not> y \<le> y'"
  then have "days_before (Suc y') \<le> days_before y" by (intro days_before_mono) simp
  with assms show False by (simp add: in_year_def)
qed

lemma unix_seconds_to_year_mono:
  assumes "s \<le> s'" "unix_seconds_to_year s = Inr y" "unix_seconds_to_year s' = Inr y'"
  shows "y \<le> y'"
proof -
  have "s div 86400 \<le> s' div 86400" using assms(1) by (rule div_le_mono)
  with assms(2,3) show ?thesis using in_year_mono by (auto simp: unix_seconds_to_year_in_year)
qed

text \<open>The current year was written at a time not after \<open>t\<close> (or never).\<close>

definition year_not_after :: "u128 \<Rightarrow> id_storage \<Rightarrow> bool" where
  "year_not_after t s \<longleftrightarrow> current_proposal_year s = 0 \<or>
     (\<exists>t' \<le> t. unix_seconds_to_year (t' div 1000) = Inr (current_proposal_year s))"

lemma year_not_after_mono: "t \<le> t' \<Longrightarrow> year_not_after t s \<Longrightarrow> year_not_after t' s"
  by (auto simp: year_not_after_def intro: le_trans)

lemma year_not_after_le:
  assumes "year_not_after t s" "unix_seconds_to_year (t div 1000) = Inr y"
  shows "current_proposal_year s \<le> y"
proof (cases "current_proposal_year s = 0")
  case False
  with assms(1) obtain t' where t': "t' \<le> t" "unix_seconds_to_year (t' div 1000) = Inr (current_proposal_year s)"
    by (auto simp: year_not_after_def)
  then have "t' div 1000 \<le> t div 1000" by (simp add: div_le_mono)
  with t' assms(2) show ?thesis using unix_seconds_to_year_mono by blast
qed simp

text \<open>One allocation under the clock hypothesis: invariant, clock and the number it hands out.\<close>

lemma allocate_step:
  assumes "id_inv s" "year_not_after t s" "with_transaction (allocate_proposal_id t) s = (r, s')"
  shows "id_inv s' \<and> year_not_after t s' \<and>
     (case r of Inl _ \<Rightarrow> s' = s
      | Inr i \<Rightarrow> i = next_proposal_id s \<and> next_proposal_id s' = Suc i \<and>
          proposal_display_id s' i \<noteq> None \<and>
          (\<forall>j < i. proposal_display_id s' j = proposal_display_id s j))"
proof (cases r)
  case (Inl e)
  with assms show ?thesis by auto
next
  case (Inr i)
  with assms(3) have ok: "allocate_proposal_id t s = (Inr i, s')" by simp
  moreover have "id_inv s'"
    using assms(1) ok by (rule id_inv_allocate) (rule year_not_after_le [OF assms(2)])
  ultimately show ?thesis using Inr
    by (auto elim!: allocate_proposal_id_ok simp: year_not_after_def)
qed

lemma allocate_all_run:
  assumes "sorted (t # ts)" "id_inv s" "year_not_after t s" "allocate_all ts s = (ids, s')"
  shows "id_inv s' \<and> ids = [next_proposal_id s ..< next_proposal_id s'] \<and>
     next_proposal_id s \<le> next_proposal_id s' \<and>
     (\<forall>i \<in> set ids. proposal_display_id s' i \<noteq> None) \<and>
     (\<forall>i < next_proposal_id s. proposal_display_id s' i = proposal_display_id s i)"
  using assms
proof (induction ts arbitrary: t s ids)
  case (Cons t' ts)
  obtain r s1 where st: "with_transaction (allocate_proposal_id t') s = (r, s1)" by fastforce
  have "year_not_after t' s" using Cons.prems by (auto intro: year_not_after_mono)
  note step = allocate_step [OF Cons.prems(2) this st]
  have srt: "sorted (t' # ts)" using Cons.prems(1) by simp
  show ?case
  proof (cases r)
    case (Inl e)
    with Cons.prems st step show ?thesis using Cons.IH [OF srt, of s ids] by simp
  next
    case (Inr i)
    with Cons.prems(4) st obtain js where rest: "allocate_all ts s1 = (js, s')" "ids = i # js"
      by (auto split: prod.splits)
    with Cons.IH [OF srt, of s1 js] step Inr show ?thesis
      by (auto simp: upt_conv_Cons less_Suc_eq)
  qed
qed simp

text \<open>
  C21. Two-level proposal numbers never collide: over any run of allocations from genesis whose
  block timestamps do not go back (failed ones rolled back), the global ids handed out are
  exactly 0, 1, 2, ... in order, every id has a display number, and two different ids never
  share one.
\<close>

theorem allocate_all_unique:
  assumes "sorted ts" "allocate_all ts id_storage_genesis = (ids, s)"
  shows "ids = [0 ..< length ids] \<and> next_proposal_id s = length ids \<and>
     inj_on (proposal_display_id s) (set ids) \<and> None \<notin> proposal_display_id s ` set ids"
proof -
  have "id_inv s \<and> ids = [next_proposal_id id_storage_genesis ..< next_proposal_id s] \<and>
     next_proposal_id id_storage_genesis \<le> next_proposal_id s \<and>
     (\<forall>i \<in> set ids. proposal_display_id s i \<noteq> None) \<and>
     (\<forall>i < next_proposal_id id_storage_genesis.
        proposal_display_id s i = proposal_display_id id_storage_genesis i)"
    using allocate_all_run [of 0 ts id_storage_genesis ids s] assms id_inv_genesis
    by (simp add: year_not_after_def id_storage_genesis_def)
  then have inv: "id_inv s" and ids: "ids = [0 ..< next_proposal_id s]"
    and some: "\<forall>i \<in> set ids. proposal_display_id s i \<noteq> None"
    by (simp_all add: id_storage_genesis_def)
  have "inj_on (proposal_display_id s) (set ids)"
  proof (rule inj_onI)
    fix i j assume "i \<in> set ids" "j \<in> set ids" "proposal_display_id s i = proposal_display_id s j"
    with some inv show "i = j" unfolding id_inv_def by (metis option.exhaust)
  qed
  then show ?thesis using ids some by force
qed

theorem allocate_all_unique_witness:
  "allocate_all [0, 31536000000, 31536000001] id_storage_genesis = ([0, 1, 2],
     \<lparr>current_proposal_year = 1971, year_proposal_counter = 2, next_proposal_id = 3,
      proposal_display_id = [0 \<mapsto> \<lparr>display_year = 1970, seq_in_year = 0\<rparr>,
        1 \<mapsto> \<lparr>display_year = 1971, seq_in_year = 0\<rparr>,
        2 \<mapsto> \<lparr>display_year = 1971, seq_in_year = 1\<rparr>]\<rparr>) \<and>
   inj_on ([0 \<mapsto> \<lparr>display_year = 1970, seq_in_year = 0\<rparr>,
        1 \<mapsto> \<lparr>display_year = 1971, seq_in_year = 0\<rparr>,
        2 \<mapsto> \<lparr>display_year = 1971, seq_in_year = 1\<rparr>]
      :: proposal_id \<rightharpoonup> proposal_display_meta) {0, 1, 2}"
proof -
  define fin where "fin = \<lparr>current_proposal_year = 1971, year_proposal_counter = 2, next_proposal_id = 3,
      proposal_display_id = [0 \<mapsto> \<lparr>display_year = 1970, seq_in_year = 0\<rparr>,
        1 \<mapsto> \<lparr>display_year = 1971, seq_in_year = 0\<rparr>,
        2 \<mapsto> \<lparr>display_year = 1971, seq_in_year = 1\<rparr>]\<rparr>"
  have years: "unix_seconds_to_year 0 = Inr 1970" "unix_seconds_to_year 31536000 = Inr 1971"
    by (simp_all add: unix_seconds_to_year_def year_loop.simps days_in_year_def is_leap_year_def
        try_into_def checked_mul_def checked_add_def)
  have run: "allocate_all [0, 31536000000, 31536000001] id_storage_genesis = ([0, 1, 2], fin)"
    by (simp add: allocate_proposal_id_def with_transaction_def years id_storage_genesis_def fin_def
        try_into_def checked_add_def Let_def del: One_nat_def)
  from allocate_all_unique [OF _ run] run show ?thesis by (simp add: fin_def insert_commute)
qed

end
