(* ===== verification/Proposal_Locks.thy ===== *)
theory Proposal_Locks
  imports Voting_Types
begin

text \<open>
  Per-subject limits and locks (\<^verbatim>\<open>votingengine/src/limit.rs\<close>, \<^verbatim>\<open>votingengine/src/mutex.rs\<close>):
  the bounded list of active proposals of a subject, and the internal-proposal mutex under which
  regular proposals share a subject while an administrator-set mutation holds it alone. The
  invariant ties the counters stored per subject to the bindings stored per proposal.
\<close>

section \<open>Model\<close>

record lock_storage =
  active_proposals_by_subject :: "proposal_subject \<Rightarrow> proposal_id list"
  internal_proposal_mutexes :: "proposal_subject \<rightharpoonup> mutex_state"
  proposal_mutex_bindings :: "proposal_id \<Rightarrow> mutex_binding list"

definition lock_storage_genesis :: lock_storage where
  "lock_storage_genesis = \<lparr>active_proposals_by_subject = (\<lambda>_. []),
     internal_proposal_mutexes = Map.empty, proposal_mutex_bindings = (\<lambda>_. [])\<rparr>"

definition try_add_active_proposal ::
  "u32 \<Rightarrow> proposal_subject \<Rightarrow> proposal_id \<Rightarrow> lock_storage \<Rightarrow> (ve_error, unit, lock_storage) outcome" where
  "try_add_active_proposal max_active subject i s =
     (let ids = active_proposals_by_subject s subject in
      ensure (length ids < max_active) ActiveProposalLimitReached s (\<lambda>s.
      ok_or (try_push max_active ids i) ActiveProposalLimitReached s (\<lambda>ids'.
        (Inr (), s\<lparr>active_proposals_by_subject := (active_proposals_by_subject s)(subject := ids')\<rparr>))))"

fun try_add_active_proposals ::
  "u32 \<Rightarrow> proposal_subject list \<Rightarrow> proposal_id \<Rightarrow> lock_storage \<Rightarrow> (ve_error, unit, lock_storage) outcome" where
  "try_add_active_proposals max_active [] i s = (Inr (), s)"
| "try_add_active_proposals max_active (subject # subjects) i s =
     and_then (try_add_active_proposal max_active subject i s) (\<lambda>_ s.
       try_add_active_proposals max_active subjects i s)"

definition remove_active_proposal :: "proposal_subject \<Rightarrow> proposal_id \<Rightarrow> lock_storage \<Rightarrow> lock_storage" where
  "remove_active_proposal subject i s =
     s\<lparr>active_proposals_by_subject := (active_proposals_by_subject s)
         (subject := remove_id i (active_proposals_by_subject s subject))\<rparr>"

definition active_proposal_count :: "proposal_subject \<Rightarrow> lock_storage \<Rightarrow> u32" where
  "active_proposal_count subject s = length (active_proposals_by_subject s subject)"

definition mutex_at :: "(proposal_subject \<rightharpoonup> mutex_state) \<Rightarrow> proposal_subject \<Rightarrow> mutex_state" where
  "mutex_at m subject = (case m subject of None \<Rightarrow> mutex_state_default | Some st \<Rightarrow> st)"

definition acquire_state ::
  "proposal_id \<Rightarrow> internal_proposal_mutex_kind \<Rightarrow> mutex_state \<Rightarrow> ve_error + mutex_state" where
  "acquire_state i kind st =
     (case kind of
        Regular \<Rightarrow>
          if admin_set_mutation_proposal st \<noteq> None then Inl AdminSetMutationProposalActive
          else (case checked_add 32 (regular_active_count st) 1 of
                  None \<Rightarrow> Inl InternalProposalMutexOverflow
                | Some n \<Rightarrow> Inr (st\<lparr>regular_active_count := n\<rparr>))
      | AdminSetMutationExclusive \<Rightarrow>
          if admin_set_mutation_proposal st \<noteq> None then Inl AdminSetMutationProposalActive
          else if regular_active_count st \<noteq> 0 then Inl RegularInternalProposalActive
          else Inr (st\<lparr>admin_set_mutation_proposal := Some i\<rparr>))"

definition acquire_internal_proposal_mutex ::
  "nat \<Rightarrow> proposal_id \<Rightarrow> proposal_subject \<Rightarrow> internal_proposal_mutex_kind \<Rightarrow> lock_storage \<Rightarrow>
   (ve_error, unit, lock_storage) outcome" where
  "acquire_internal_proposal_mutex max_bindings i subject kind s =
     (case acquire_state i kind (mutex_at (internal_proposal_mutexes s) subject) of
        Inl e \<Rightarrow> (Inl e, s)
      | Inr st \<Rightarrow>
          let s1 = s\<lparr>internal_proposal_mutexes := (internal_proposal_mutexes s)(subject \<mapsto> st)\<rparr> in
          ok_or (try_push max_bindings (proposal_mutex_bindings s1 i) \<lparr>mb_subject = subject, mb_kind = kind\<rparr>)
            TooManyInternalProposalMutexBindings s1 (\<lambda>bs.
              (Inr (), s1\<lparr>proposal_mutex_bindings := (proposal_mutex_bindings s1)(i := bs)\<rparr>)))"

definition release_one ::
  "proposal_id \<Rightarrow> mutex_binding \<Rightarrow> (proposal_subject \<rightharpoonup> mutex_state) \<Rightarrow> proposal_subject \<rightharpoonup> mutex_state" where
  "release_one i b m =
     (case m (mb_subject b) of
        None \<Rightarrow> m
      | Some st \<Rightarrow>
          let st' = (case mb_kind b of
                 Regular \<Rightarrow> st\<lparr>regular_active_count := sat_sub (regular_active_count st) 1\<rparr>
               | AdminSetMutationExclusive \<Rightarrow>
                   if admin_set_mutation_proposal st = Some i
                   then st\<lparr>admin_set_mutation_proposal := None\<rparr> else st)
          in m(mb_subject b := if mutex_state_is_empty st' then None else Some st'))"

definition release_internal_proposal_mutexes :: "proposal_id \<Rightarrow> lock_storage \<Rightarrow> lock_storage" where
  "release_internal_proposal_mutexes i s =
     s\<lparr>proposal_mutex_bindings := (proposal_mutex_bindings s)(i := []),
       internal_proposal_mutexes :=
         fold (release_one i) (proposal_mutex_bindings s i) (internal_proposal_mutexes s)\<rparr>"

definition ensure_admin_set_mutation_lock_owner ::
  "proposal_subject \<Rightarrow> proposal_id \<Rightarrow> lock_storage \<Rightarrow> ve_error + unit" where
  "ensure_admin_set_mutation_lock_owner subject i s =
     (case internal_proposal_mutexes s subject of
        None \<Rightarrow> Inl InternalProposalMutexOwnerMismatch
      | Some st \<Rightarrow> if admin_set_mutation_proposal st = Some i then Inr ()
                   else Inl InternalProposalMutexOwnerMismatch)"

section \<open>Locks held, counted over all proposals\<close>

definition holders :: "(proposal_id \<Rightarrow> mutex_binding list) \<Rightarrow> proposal_id set" where
  "holders B = {p. B p \<noteq> []}"

definition held :: "(proposal_id \<Rightarrow> mutex_binding list) \<Rightarrow> mutex_binding \<Rightarrow> nat" where
  "held B b = (\<Sum>p \<in> holders B. count_list (B p) b)"

lemma held_superset:
  "finite A \<Longrightarrow> holders B \<subseteq> A \<Longrightarrow> held B b = (\<Sum>p \<in> A. count_list (B p) b)"
  unfolding held_def by (rule sum.mono_neutral_left) (auto simp: holders_def)

lemma finite_holders_update: "finite (holders B) \<Longrightarrow> finite (holders (B(p := bs)))"
  by (rule finite_subset [of _ "insert p (holders B)"]) (auto simp: holders_def)

lemma held_update:
  assumes fin: "finite (holders B)"
  shows "held (B(p := bs)) b + count_list (B p) b = held B b + count_list bs b"
proof -
  let ?A = "insert p (holders B)"
  have "held (B(p := bs)) b = (\<Sum>q \<in> ?A. count_list ((B(p := bs)) q) b)"
    using fin by (intro held_superset) (auto simp: holders_def)
  also have "\<dots> = count_list bs b + (\<Sum>q \<in> ?A - {p}. count_list ((B(p := bs)) q) b)"
    using fin by (simp add: sum.remove [of ?A p])
  also have "(\<Sum>q \<in> ?A - {p}. count_list ((B(p := bs)) q) b) = (\<Sum>q \<in> ?A - {p}. count_list (B q) b)"
    by (rule sum.cong) auto
  finally have l: "held (B(p := bs)) b = count_list bs b + (\<Sum>q \<in> ?A - {p}. count_list (B q) b)" .
  have "held B b = (\<Sum>q \<in> ?A. count_list (B q) b)"
    using fin by (intro held_superset) auto
  also have "\<dots> = count_list (B p) b + (\<Sum>q \<in> ?A - {p}. count_list (B q) b)"
    using fin by (simp add: sum.remove [of ?A p])
  finally show ?thesis using l by simp
qed

lemma held_pos_iff:
  assumes "finite (holders B)"
  shows "0 < held B b \<longleftrightarrow> (\<exists>p. b \<in> set (B p))"
proof -
  have "held B b = 0 \<longleftrightarrow> (\<forall>p \<in> holders B. count_list (B p) b = 0)"
    unfolding held_def using assms by simp
  also have "\<dots> \<longleftrightarrow> (\<forall>p. b \<notin> set (B p))"
    by (auto simp: holders_def count_list_0_iff) (metis empty_iff list.set(1))
  finally show ?thesis by (metis neq0_conv)
qed

lemma held_ge_two:
  assumes "finite (holders B)" "b \<in> set (B p)" "b \<in> set (B q)" "p \<noteq> q"
  shows "2 \<le> held B b"
proof -
  have "held (B(p := [])) b + count_list (B p) b = held B b"
    using held_update [OF assms(1), of p "[]" b] by simp
  moreover have "0 < held (B(p := [])) b"
    using assms finite_holders_update [OF assms(1)] by (subst held_pos_iff) (auto intro!: exI [of _ q])
  moreover have "0 < count_list (B p) b"
    using assms(2) by (metis count_list_0_iff neq0_conv)
  ultimately show ?thesis by linarith
qed

section \<open>The mutex invariant\<close>

abbreviation reg :: "proposal_subject \<Rightarrow> mutex_binding" where
  "reg sj \<equiv> \<lparr>mb_subject = sj, mb_kind = Regular\<rparr>"

abbreviation excl :: "proposal_subject \<Rightarrow> mutex_binding" where
  "excl sj \<equiv> \<lparr>mb_subject = sj, mb_kind = AdminSetMutationExclusive\<rparr>"

definition mutex_ok :: "mutex_state \<Rightarrow> (proposal_id \<Rightarrow> mutex_binding list) \<Rightarrow> proposal_subject \<Rightarrow> bool" where
  "mutex_ok st B sj \<longleftrightarrow>
     regular_active_count st = held B (reg sj) \<and>
     held B (excl sj) = (if admin_set_mutation_proposal st = None then 0 else 1) \<and>
     (\<forall>p. admin_set_mutation_proposal st = Some p \<longrightarrow> excl sj \<in> set (B p) \<and> held B (reg sj) = 0)"

definition mutex_inv :: "(proposal_subject \<rightharpoonup> mutex_state) \<Rightarrow> (proposal_id \<Rightarrow> mutex_binding list) \<Rightarrow> bool" where
  "mutex_inv m B \<longleftrightarrow> finite (holders B) \<and> (\<forall>sj. mutex_ok (mutex_at m sj) B sj) \<and>
     (\<forall>sj st. m sj = Some st \<longrightarrow> \<not> mutex_state_is_empty st)"

lemma mutex_inv_genesis: "mutex_inv Map.empty (\<lambda>_. [])"
  by (simp add: mutex_inv_def mutex_ok_def mutex_at_def mutex_state_default_def held_def holders_def)

lemma mutex_inv_acquire:
  assumes inv: "mutex_inv m B" and st: "acquire_state i k (mutex_at m sj) = Inr st"
  shows "mutex_inv (m(sj \<mapsto> st)) (B(i := B i @ [\<lparr>mb_subject = sj, mb_kind = k\<rparr>]))"
proof -
  define b where "b = \<lparr>mb_subject = sj, mb_kind = k\<rparr>"
  define B' where "B' = B(i := B i @ [b])"
  from inv have fin: "finite (holders B)" by (simp add: mutex_inv_def)
  have cnt: "held B' x = held B x + (if x = b then 1 else 0)" for x
    unfolding B'_def using held_update [OF fin, of i "B i @ [b]" x] by simp
  have old: "mutex_ok (mutex_at m t) B t" for t using inv by (simp add: mutex_inv_def)
  have mem: "set (B p) \<subseteq> set (B' p)" "b \<in> set (B' i)" for p by (auto simp: B'_def)
  have new: "mutex_ok st B' sj"
    using st old [of sj] cnt [of "reg sj"] cnt [of "excl sj"] mem(2)
    by (cases k) (auto simp: acquire_state_def mutex_ok_def b_def split: if_splits option.splits)
  have other: "mutex_ok (mutex_at m t) B' t" if "t \<noteq> sj" for t
    using old [of t] that cnt [of "reg t"] cnt [of "excl t"] mem(1)
    by (auto simp: mutex_ok_def b_def)
  have nonempty: "\<not> mutex_state_is_empty st"
    using st by (cases k) (auto simp: acquire_state_def mutex_state_is_empty_def split: if_splits option.splits)
  have at: "mutex_at (m(sj \<mapsto> st)) t = (if t = sj then st else mutex_at m t)" for t
    by (simp add: mutex_at_def)
  have "finite (holders B')" unfolding B'_def using fin by (rule finite_holders_update)
  with inv new other nonempty have "mutex_inv (m(sj \<mapsto> st)) B'"
    unfolding mutex_inv_def at by (auto split: if_splits)
  then show ?thesis by (simp add: B'_def b_def)
qed

text \<open>Only the owner of an exclusive lock has a binding for it.\<close>

lemma mutex_inv_exclusive_owner:
  assumes "mutex_inv m B" "excl sj \<in> set (B p)" "excl sj \<in> set (B q)"
  shows "p = q"
proof (rule ccontr)
  assume "p \<noteq> q"
  with assms have "2 \<le> held B (excl sj)" by (auto simp: mutex_inv_def intro: held_ge_two)
  with assms(1) show False by (auto simp: mutex_inv_def mutex_ok_def split: if_splits dest: spec [of _ sj])
qed

lemma release_state_ok:
  assumes ok: "mutex_ok st B sj" and k: "b = \<lparr>mb_subject = sj, mb_kind = k\<rparr>"
    and cnt: "\<And>x. held B x = held B' x + (if x = b then 1 else 0)"
    and owner: "\<And>p. admin_set_mutation_proposal st = Some p \<Longrightarrow> b = excl sj \<Longrightarrow> p = i"
    and m: "m sj = Some st"
  shows "mutex_ok (mutex_at (release_one i b m) sj) B' sj"
proof (cases k)
  case Regular
  then have "admin_set_mutation_proposal st = None" "regular_active_count st = Suc (held B' (reg sj))"
    "held B' (excl sj) = 0"
    using ok k cnt [of "reg sj"] cnt [of "excl sj"] by (auto simp: mutex_ok_def)
  with Regular k m show ?thesis
    by (simp add: release_one_def Let_def mutex_at_def sat_sub_def mutex_ok_def
        mutex_state_is_empty_def mutex_state_default_def)
next
  case AdminSetMutationExclusive
  then have "admin_set_mutation_proposal st = Some i" "regular_active_count st = 0"
    "held B' (excl sj) = 0" "held B' (reg sj) = 0"
    using ok k owner cnt [of "reg sj"] cnt [of "excl sj"]
    by (auto simp: mutex_ok_def split: if_splits)
  with AdminSetMutationExclusive k m show ?thesis
    by (simp add: release_one_def Let_def mutex_at_def mutex_ok_def
        mutex_state_is_empty_def mutex_state_default_def)
qed

lemma mutex_inv_release_one:
  assumes inv: "mutex_inv m B" and b: "B i = b # bs"
  shows "mutex_inv (release_one i b m) (B(i := bs))"
proof -
  define B' where "B' = B(i := bs)"
  obtain sj k where bk: "b = \<lparr>mb_subject = sj, mb_kind = k\<rparr>" by (cases b) auto
  from inv have fin: "finite (holders B)" by (simp add: mutex_inv_def)
  have cnt: "held B x = held B' x + (if x = b then 1 else 0)" for x
    unfolding B'_def using held_update [OF fin, of i bs x] b by auto
  have old: "mutex_ok (mutex_at m t) B t" for t using inv by (simp add: mutex_inv_def)
  have pos: "0 < held B b" using cnt [of b] by simp
  have "m sj \<noteq> None"
    using pos old [of sj] bk by (cases k) (auto simp: mutex_ok_def mutex_at_def mutex_state_default_def
        split: option.splits if_splits)
  then obtain st where st: "m sj = Some st" by blast
  have rel: "mutex_ok (mutex_at (release_one i b m) sj) B' sj"
  proof (rule release_state_ok [where B = B and st = st, OF _ bk cnt])
    show "m sj = Some st" by (rule st)
    show ok: "mutex_ok st B sj" using old [of sj] st by (simp add: mutex_at_def)
    show "p = i" if "admin_set_mutation_proposal st = Some p" "b = excl sj" for p
      using that ok b by (intro mutex_inv_exclusive_owner [OF inv, of sj]) (auto simp: mutex_ok_def)
  qed
  have other: "mutex_ok (mutex_at (release_one i b m) t) B' t" if "t \<noteq> sj" for t
  proof -
    have "mutex_at (release_one i b m) t = mutex_at m t"
      using that bk st by (simp add: release_one_def mutex_at_def Let_def)
    with old [of t] that bk b cnt [of "reg t"] cnt [of "excl t"] show ?thesis
      by (auto simp: mutex_ok_def B'_def)
  qed
  have "mutex_ok (mutex_at (release_one i b m) t) B' t" for t
    using rel other by (cases "t = sj") simp_all
  moreover have "\<not> mutex_state_is_empty x" if "release_one i b m t = Some x" for t x
    using that inv st bk by (auto simp: release_one_def Let_def mutex_inv_def split: if_splits)
  moreover have "finite (holders B')" unfolding B'_def using fin by (rule finite_holders_update)
  ultimately show ?thesis unfolding mutex_inv_def B'_def by blast
qed

lemma mutex_inv_release:
  "mutex_inv m B \<Longrightarrow> mutex_inv (fold (release_one i) (B i) m) (B(i := []))"
proof (induction "B i" arbitrary: m B)
  case Nil
  then show ?case by (metis fold_simps(1) fun_upd_triv)
next
  case (Cons b bs)
  have "mutex_inv (release_one i b m) (B(i := bs))"
    using Cons.prems Cons.hyps(2) by (intro mutex_inv_release_one) simp_all
  then have "mutex_inv (fold (release_one i) bs (release_one i b m)) ((B(i := bs))(i := []))"
    using Cons.hyps(1) [of "B(i := bs)" "release_one i b m"] by simp
  then show ?case using Cons.hyps(2) [symmetric] by simp
qed

section \<open>Operations on the storage\<close>

definition lock_inv :: "u32 \<Rightarrow> lock_storage \<Rightarrow> bool" where
  "lock_inv max_active s \<longleftrightarrow>
     mutex_inv (internal_proposal_mutexes s) (proposal_mutex_bindings s) \<and>
     (\<forall>sj. length (active_proposals_by_subject s sj) \<le> max_active)"

lemma lock_inv_genesis: "lock_inv ma lock_storage_genesis"
  by (simp add: lock_inv_def lock_storage_genesis_def mutex_inv_genesis)

lemma lock_inv_add_active:
  "lock_inv ma s \<Longrightarrow> keeps (lock_inv ma) (try_add_active_proposal ma sj i s)"
  by (auto simp: try_add_active_proposal_def lock_inv_def Let_def ensure_def ok_or_def try_push_def)

lemma lock_inv_add_actives:
  "lock_inv ma s \<Longrightarrow> keeps (lock_inv ma) (try_add_active_proposals ma sjs i s)"
  by (induction sjs arbitrary: s) (auto intro!: keeps_intros lock_inv_add_active)

lemma lock_inv_remove_active: "lock_inv ma s \<Longrightarrow> lock_inv ma (remove_active_proposal sj i s)"
  by (auto simp: remove_active_proposal_def lock_inv_def intro: le_trans [OF length_remove_id_le])

lemma lock_inv_acquire:
  "lock_inv ma s \<Longrightarrow> acquire_internal_proposal_mutex mb i sj k s = (Inr (), s') \<Longrightarrow> lock_inv ma s'"
  by (auto simp: acquire_internal_proposal_mutex_def lock_inv_def Let_def mutex_inv_acquire
      split: sum.splits)

lemma lock_inv_release: "lock_inv ma s \<Longrightarrow> lock_inv ma (release_internal_proposal_mutexes i s)"
  by (simp add: release_internal_proposal_mutexes_def lock_inv_def mutex_inv_release)

text \<open>What the invariant means for the readers of the storage.\<close>

lemma lock_inv_alone:
  assumes "lock_inv ma s" "excl sj \<in> set (proposal_mutex_bindings s p)"
    "b \<in> set (proposal_mutex_bindings s q)" "mb_subject b = sj"
  shows "b = excl sj \<and> q = p"
proof -
  let ?B = "proposal_mutex_bindings s"
  let ?st = "mutex_at (internal_proposal_mutexes s) sj"
  from assms(1) have inv: "mutex_inv (internal_proposal_mutexes s) ?B" by (simp add: lock_inv_def)
  then have fin: "finite (holders ?B)" and ok: "mutex_ok ?st ?B sj" by (auto simp: mutex_inv_def)
  have "0 < held ?B (excl sj)" using assms(2) held_pos_iff [OF fin] by blast
  with ok have "held ?B (reg sj) = 0" by (auto simp: mutex_ok_def split: if_splits)
  then have "b \<noteq> reg sj" using held_pos_iff [OF fin, of "reg sj"] assms(3) by auto
  with assms(4) have b: "b = excl sj"
    by (cases b) (auto intro: internal_proposal_mutex_kind.exhaust)
  with assms(2,3) show ?thesis using mutex_inv_exclusive_owner [OF inv] by blast
qed

lemma lock_owner_iff:
  assumes "lock_inv ma s"
  shows "ensure_admin_set_mutation_lock_owner sj i s = Inr () \<longleftrightarrow>
    excl sj \<in> set (proposal_mutex_bindings s i)"
proof -
  let ?B = "proposal_mutex_bindings s"
  let ?m = "internal_proposal_mutexes s"
  from assms have inv: "mutex_inv ?m ?B" by (simp add: lock_inv_def)
  then have fin: "finite (holders ?B)" and ok: "mutex_ok (mutex_at ?m sj) ?B sj"
    by (auto simp: mutex_inv_def)
  have 1: "ensure_admin_set_mutation_lock_owner sj i s = Inr () \<longleftrightarrow>
      admin_set_mutation_proposal (mutex_at ?m sj) = Some i"
    by (auto simp: ensure_admin_set_mutation_lock_owner_def mutex_at_def mutex_state_default_def
        split: option.splits)
  also have "\<dots> \<longleftrightarrow> excl sj \<in> set (?B i)"
  proof
    assume "excl sj \<in> set (?B i)"
    then have "0 < held ?B (excl sj)" using held_pos_iff [OF fin] by blast
    with ok obtain p where "admin_set_mutation_proposal (mutex_at ?m sj) = Some p"
      by (auto simp: mutex_ok_def split: if_splits)
    moreover from this ok have "excl sj \<in> set (?B p)" by (simp add: mutex_ok_def)
    ultimately show "admin_set_mutation_proposal (mutex_at ?m sj) = Some i"
      using mutex_inv_exclusive_owner [OF inv] \<open>excl sj \<in> set (?B i)\<close> by blast
  qed (use ok in \<open>simp add: mutex_ok_def\<close>)
  finally show ?thesis .
qed

section \<open>Histories of lock operations\<close>

datatype lock_op =
    AddActive "proposal_subject list" proposal_id
  | RemoveActive proposal_subject proposal_id
  | Acquire proposal_id proposal_subject internal_proposal_mutex_kind
  | Release proposal_id

text \<open>Each operation inside the storage transaction of its caller.\<close>

fun lock_apply :: "u32 \<Rightarrow> nat \<Rightarrow> lock_op \<Rightarrow> lock_storage \<Rightarrow> (ve_error, unit, lock_storage) outcome" where
  "lock_apply ma mb (AddActive sjs i) s = with_transaction (try_add_active_proposals ma sjs i) s"
| "lock_apply ma mb (RemoveActive sj i) s = (Inr (), remove_active_proposal sj i s)"
| "lock_apply ma mb (Acquire i sj k) s =
     with_transaction (acquire_internal_proposal_mutex mb i sj k) s"
| "lock_apply ma mb (Release i) s = (Inr (), release_internal_proposal_mutexes i s)"

fun lock_run :: "u32 \<Rightarrow> nat \<Rightarrow> lock_op list \<Rightarrow> lock_storage \<Rightarrow> lock_storage" where
  "lock_run ma mb [] s = s"
| "lock_run ma mb (op # ops) s = lock_run ma mb ops (snd (lock_apply ma mb op s))"

lemma lock_inv_apply: "lock_inv ma s \<Longrightarrow> lock_inv ma (snd (lock_apply ma mb op s))"
proof (cases op)
  case (AddActive sjs i)
  assume "lock_inv ma s"
  then have "keeps (lock_inv ma) (with_transaction (try_add_active_proposals ma sjs i) s)"
    by (intro keeps_with_transaction lock_inv_add_actives)
  with AddActive show ?thesis by (simp add: keeps_def)
next
  case (Acquire i sj k)
  assume inv: "lock_inv ma s"
  then have "keeps (lock_inv ma) (with_transaction (acquire_internal_proposal_mutex mb i sj k) s)"
    by (intro keeps_with_transaction_ok) (auto intro: lock_inv_acquire)
  with Acquire show ?thesis by (simp add: keeps_def)
qed (auto simp: lock_inv_remove_active lock_inv_release)

lemma lock_inv_run: "lock_inv ma s \<Longrightarrow> lock_inv ma (lock_run ma mb ops s)"
  by (induction ops arbitrary: s) (auto intro: lock_inv_apply)

text \<open>
  C20. Mutual exclusion of internal proposals: after any history of lock operations from genesis,
  if a proposal holds the exclusive (administrator-set mutation) lock of a subject, then every
  binding on that subject, of any proposal, is that one exclusive binding of that one proposal.
  In particular no regular proposal shares the subject, and the engine's owner check
  \<open>ensure_admin_set_mutation_lock_owner\<close> accepts exactly the holder.
\<close>

theorem mutex_exclusion:
  assumes "s = lock_run ma mb ops lock_storage_genesis"
    and "excl sj \<in> set (proposal_mutex_bindings s p)"
  shows "(\<forall>q b. b \<in> set (proposal_mutex_bindings s q) \<and> mb_subject b = sj \<longrightarrow> b = excl sj \<and> q = p) \<and>
     (\<forall>q. ensure_admin_set_mutation_lock_owner sj q s = Inr () \<longleftrightarrow> q = p)"
proof -
  have inv: "lock_inv ma s" using assms(1) lock_inv_genesis lock_inv_run by simp
  show ?thesis
  proof (intro conjI allI impI)
    show "b = excl sj" "q = p" if "b \<in> set (proposal_mutex_bindings s q) \<and> mb_subject b = sj" for q b
      using lock_inv_alone [OF inv assms(2)] that by blast+
    show "ensure_admin_set_mutation_lock_owner sj q s = Inr () \<longleftrightarrow> q = p" for q
      using lock_inv_alone [OF inv assms(2), of "excl sj" q] lock_owner_iff [OF inv] assms(2)
      by auto
  qed
qed

theorem mutex_exclusion_witness:
  "\<forall>q. ensure_admin_set_mutation_lock_owner (PersonalAccount 7) q
      (lock_run 10 256 [Acquire 1 (PersonalAccount 7) Regular, Release 1,
        Acquire 2 (PersonalAccount 7) AdminSetMutationExclusive,
        Acquire 3 (PersonalAccount 7) Regular] lock_storage_genesis) = Inr () \<longleftrightarrow> q = 2"
proof -
  let ?P = "PersonalAccount 7"
  let ?s1 = "lock_storage_genesis\<lparr>internal_proposal_mutexes :=
      [?P \<mapsto> \<lparr>admin_set_mutation_proposal = None, regular_active_count = 1\<rparr>],
      proposal_mutex_bindings := (\<lambda>_. [])(1 := [reg ?P])\<rparr>"
  let ?s3 = "lock_storage_genesis\<lparr>internal_proposal_mutexes :=
      [?P \<mapsto> \<lparr>admin_set_mutation_proposal = Some 2, regular_active_count = 0\<rparr>],
      proposal_mutex_bindings := (\<lambda>_. [])(2 := [excl ?P])\<rparr>"
  note defs = acquire_internal_proposal_mutex_def acquire_state_def with_transaction_def
    lock_storage_genesis_def mutex_at_def mutex_state_default_def checked_add_def try_push_def Let_def
  have 1: "snd (lock_apply 10 256 (Acquire 1 ?P Regular) lock_storage_genesis) = ?s1"
    by (simp add: defs)
  have 2: "snd (lock_apply 10 256 (Release 1) ?s1) = lock_storage_genesis"
    by (simp add: release_internal_proposal_mutexes_def release_one_def mutex_state_is_empty_def
        sat_sub_def lock_storage_genesis_def fun_eq_iff)
  have 3: "snd (lock_apply 10 256 (Acquire 2 ?P AdminSetMutationExclusive) lock_storage_genesis) = ?s3"
    by (simp add: defs)
  have 4: "snd (lock_apply 10 256 (Acquire 3 ?P Regular) ?s3) = ?s3"
    by (simp add: defs)
  have run: "?s3 = lock_run 10 256 [Acquire 1 ?P Regular, Release 1,
      Acquire 2 ?P AdminSetMutationExclusive, Acquire 3 ?P Regular] lock_storage_genesis"
    by (simp only: lock_run.simps 1 2 3 4)
  have "excl ?P \<in> set (proposal_mutex_bindings ?s3 2)" by simp
  from mutex_exclusion [OF run this] show ?thesis unfolding run by blast
qed

text \<open>
  C26. The counters are the locks: after any history of lock operations from genesis, the stored
  \<open>regular_active_count\<close> of every subject is the number of regular bindings all proposals hold on
  it (a subject without a stored state holds none), and the number of active proposals of every
  subject never exceeds the configured maximum.
\<close>

theorem lock_counters_exact:
  "regular_active_count (mutex_at (internal_proposal_mutexes (lock_run ma mb ops lock_storage_genesis)) sj)
     = held (proposal_mutex_bindings (lock_run ma mb ops lock_storage_genesis)) (reg sj) \<and>
   active_proposal_count sj (lock_run ma mb ops lock_storage_genesis) \<le> ma"
  using lock_inv_run [OF lock_inv_genesis, of ma mb ops]
  by (auto simp: lock_inv_def mutex_inv_def mutex_ok_def active_proposal_count_def)

end
