(* ===== verification/Cleanup_Queue.thy ===== *)
theory Cleanup_Queue
  imports Voting_Types
begin

text \<open>
  The two sequence-numbered queues of the cleanup pipeline (\<^verbatim>\<open>votingengine/src/cleanup.rs\<close>,
  storage in \<^verbatim>\<open>votingengine/src/lib.rs\<close>): terminal proposals wait 90 days in the delay queue,
  then join the ready queue, from which unfinished work is put back at the end. Both are
  instances of the interface \<open>fifo\<close>, whose clients get ordering and fairness.
\<close>

section \<open>Interface of a first-in first-out queue\<close>

locale fifo =
  fixes ok :: "'q \<Rightarrow> bool"
    and items :: "'q \<Rightarrow> 'a list"
    and enq :: "'a \<Rightarrow> 'q \<Rightarrow> 'q option"
    and front :: "'q \<Rightarrow> 'a option"
    and deq :: "'q \<Rightarrow> 'q"
  assumes enq_ok: "ok q \<Longrightarrow> enq x q = Some q' \<Longrightarrow> ok q'"
    and enq_items: "ok q \<Longrightarrow> enq x q = Some q' \<Longrightarrow> items q' = items q @ [x]"
    and front_items: "ok q \<Longrightarrow> front q = (case items q of [] \<Rightarrow> None | x # _ \<Rightarrow> Some x)"
    and deq_ok: "ok q \<Longrightarrow> items q \<noteq> [] \<Longrightarrow> ok (deq q)"
    and deq_items: "ok q \<Longrightarrow> items q \<noteq> [] \<Longrightarrow> items (deq q) = tl (items q)"
begin

text \<open>Take the front and put a list of new elements behind.\<close>

fun enq_all :: "'a list \<Rightarrow> 'q \<Rightarrow> 'q option" where
  "enq_all [] q = Some q"
| "enq_all (x # xs) q = (case enq x q of None \<Rightarrow> None | Some q' \<Rightarrow> enq_all xs q')"

lemma enq_all_items:
  "ok q \<Longrightarrow> enq_all xs q = Some q' \<Longrightarrow> ok q' \<and> items q' = items q @ xs"
proof (induction xs arbitrary: q)
  case (Cons x xs)
  then obtain r where r: "enq x q = Some r" "enq_all xs r = Some q'" by (auto split: option.splits)
  with Cons.prems have "ok r" "items r = items q @ [x]" using enq_ok enq_items by blast+
  with Cons.IH r show ?case by simp
qed simp

text \<open>Fairness: every round of "serve the front, put back what is left" moves everybody up by one.\<close>

lemma round_moves_up:
  assumes "ok q" "enq_all xs (deq q) = Some q'" "items q ! Suc k = x" "Suc k < length (items q)"
  shows "ok q' \<and> items q' ! k = x \<and> k < length (items q')"
proof -
  from assms(4) have ne: "items q \<noteq> []" by auto
  have "items q' = tl (items q) @ xs" "ok q'"
    using assms(1,2) ne enq_all_items [OF deq_ok, of q xs q'] by (auto simp: deq_items)
  with assms(3,4) ne show ?thesis by (auto simp: nth_append nth_tl)
qed

lemma order_kept:
  assumes "ok q" "sorted_wrt P (items q)" "enq x q = Some q'" "\<forall>y \<in> set (items q). P y x"
  shows "sorted_wrt P (items q')"
  using assms enq_items [OF assms(1,3)] by (simp add: sorted_wrt_append)

lemma deq_order_kept: "ok q \<Longrightarrow> items q \<noteq> [] \<Longrightarrow> sorted_wrt P (items q) \<Longrightarrow> sorted_wrt P (items (deq q))"
  by (cases "items q") (auto simp: deq_items)

end

section \<open>Queues by sequence number\<close>

record 'a seq_queue =
  q_items :: "u64 \<rightharpoonup> 'a"
  q_head :: u64
  q_tail :: u64

definition q_empty :: "'a seq_queue" where
  "q_empty = \<lparr>q_items = Map.empty, q_head = 0, q_tail = 0\<rparr>"

definition q_push :: "'a \<Rightarrow> 'a seq_queue \<Rightarrow> 'a seq_queue option" where
  "q_push v q =
     (let sequence = q_tail q in
      case checked_add 64 sequence 1 of
        None \<Rightarrow> None
      | Some nxt \<Rightarrow> Some (q\<lparr>q_items := (q_items q)(sequence \<mapsto> v), q_tail := nxt\<rparr>))"

definition q_front :: "'a seq_queue \<Rightarrow> 'a option" where
  "q_front q = (if q_tail q \<le> q_head q then None else q_items q (q_head q))"

definition q_pop :: "'a seq_queue \<Rightarrow> 'a seq_queue" where
  "q_pop q = q\<lparr>q_items := (q_items q)(q_head q := None), q_head := sat_add 64 (q_head q) 1\<rparr>"

definition q_ok :: "'a seq_queue \<Rightarrow> bool" where
  "q_ok q \<longleftrightarrow> q_head q \<le> q_tail q \<and> q_tail q < 2 ^ 64 \<and>
     (\<forall>k. q_items q k \<noteq> None \<longleftrightarrow> q_head q \<le> k \<and> k < q_tail q)"

definition q_list :: "'a seq_queue \<Rightarrow> 'a list" where
  "q_list q = map (\<lambda>k. the (q_items q k)) [q_head q ..< q_tail q]"

lemma q_ok_empty [simp]: "q_ok q_empty"
  by (simp add: q_ok_def q_empty_def)

lemma q_list_empty [simp]: "q_list q_empty = []"
  by (simp add: q_list_def q_empty_def)

lemma q_list_eq_Nil: "q_ok q \<Longrightarrow> q_list q = [] \<longleftrightarrow> q_tail q \<le> q_head q"
  by (auto simp: q_list_def)

lemma q_push_ok: "q_ok q \<Longrightarrow> q_push v q = Some q' \<Longrightarrow> q_ok q'"
  by (auto simp: q_push_def q_ok_def Let_def less_Suc_eq split: option.splits)

lemma q_push_list: "q_ok q \<Longrightarrow> q_push v q = Some q' \<Longrightarrow> q_list q' = q_list q @ [v]"
  by (auto simp: q_push_def q_ok_def q_list_def Let_def split: option.splits)

lemma q_front_list: "q_ok q \<Longrightarrow> q_front q = (case q_list q of [] \<Rightarrow> None | x # _ \<Rightarrow> Some x)"
proof (cases "q_head q < q_tail q")
  case True
  assume "q_ok q"
  with True have "q_items q (q_head q) \<noteq> None" by (simp add: q_ok_def)
  with True show ?thesis by (auto simp: q_front_def q_list_def upt_conv_Cons)
qed (simp add: q_front_def q_list_def)

lemma q_pop_head: "q_ok q \<Longrightarrow> q_list q \<noteq> [] \<Longrightarrow> q_head (q_pop q) = Suc (q_head q)"
  by (simp add: q_pop_def q_ok_def q_list_def sat_add_exact)

lemma q_pop_ok: "q_ok q \<Longrightarrow> q_list q \<noteq> [] \<Longrightarrow> q_ok (q_pop q)"
proof -
  assume q: "q_ok q" "q_list q \<noteq> []"
  then have "q_head (q_pop q) = Suc (q_head q)" by (rule q_pop_head)
  with q show ?thesis by (auto simp: q_ok_def q_list_def q_pop_def)
qed

lemma q_pop_list: "q_ok q \<Longrightarrow> q_list q \<noteq> [] \<Longrightarrow> q_list (q_pop q) = tl (q_list q)"
proof -
  assume q: "q_ok q" "q_list q \<noteq> []"
  then have h: "q_head (q_pop q) = Suc (q_head q)" by (rule q_pop_head)
  from q have "q_head q < q_tail q" by (simp add: q_list_def)
  then show ?thesis unfolding q_list_def h by (auto simp: q_pop_def upt_conv_Cons)
qed

interpretation sq: fifo q_ok q_list q_push q_front q_pop
  by unfold_locales (auto simp: q_push_ok q_push_list q_front_list q_pop_ok q_pop_list)

section \<open>The storage of the pipeline\<close>

record cleanup_storage =
  scheduled_cleanups :: "scheduled_cleanup seq_queue"
  pending_cleanup_queue :: "proposal_id seq_queue"
  pending_proposal_cleanups :: "proposal_id \<rightharpoonup> pending_cleanup_stage"

definition cleanup_storage_genesis :: cleanup_storage where
  "cleanup_storage_genesis = \<lparr>scheduled_cleanups = q_empty, pending_cleanup_queue = q_empty,
     pending_proposal_cleanups = Map.empty\<rparr>"

definition RETENTION_DAYS :: u32 where "RETENTION_DAYS = 90"

definition retention_blocks :: block_number where
  "retention_blocks = sat_mul 32 BLOCKS_PER_DAY RETENTION_DAYS"

lemma retention_blocks_value [simp]: "retention_blocks = 21600"
  by (simp add: retention_blocks_def BLOCKS_PER_DAY_def RETENTION_DAYS_def sat_mul_def max_of_def)

definition schedule_cleanup ::
  "proposal_id \<Rightarrow> block_number \<Rightarrow> cleanup_storage \<Rightarrow> (ve_error, unit, cleanup_storage) outcome" where
  "schedule_cleanup i current_block s =
     ok_or (q_push \<lparr>cleanup_at = bn_add current_block retention_blocks, sc_proposal_id = i\<rparr>
              (scheduled_cleanups s))
       CleanupQueueSequenceExhausted s (\<lambda>q. (Inr (), s\<lparr>scheduled_cleanups := q\<rparr>))"

definition enqueue_pending_cleanup ::
  "proposal_id \<Rightarrow> cleanup_storage \<Rightarrow> (ve_error, unit, cleanup_storage) outcome" where
  "enqueue_pending_cleanup i s =
     ok_or (q_push i (pending_cleanup_queue s)) CleanupQueueSequenceExhausted s (\<lambda>q.
       (Inr (), s\<lparr>pending_cleanup_queue := q\<rparr>))"

text \<open>
  The invariant: both queues are contiguous, the delay queue is ordered by due block (so that
  stopping at the first future task misses nothing) and no due block lies beyond one retention
  period from now.
\<close>

definition cleanup_inv :: "block_number \<Rightarrow> cleanup_storage \<Rightarrow> bool" where
  "cleanup_inv now s \<longleftrightarrow>
     q_ok (scheduled_cleanups s) \<and> q_ok (pending_cleanup_queue s) \<and>
     sorted_wrt (\<lambda>a b. cleanup_at a \<le> cleanup_at b) (q_list (scheduled_cleanups s)) \<and>
     (\<forall>t \<in> set (q_list (scheduled_cleanups s)). cleanup_at t \<le> bn_add now retention_blocks)"

lemma cleanup_inv_genesis: "cleanup_inv now cleanup_storage_genesis"
  by (simp add: cleanup_inv_def cleanup_storage_genesis_def)

lemma cleanup_inv_later: "now \<le> now' \<Longrightarrow> cleanup_inv now s \<Longrightarrow> cleanup_inv now' s"
  using bn_add_mono [of now now' retention_blocks] unfolding cleanup_inv_def
  by (auto intro: le_trans simp del: retention_blocks_value)

lemma cleanup_inv_schedule:
  assumes inv: "cleanup_inv now s"
  shows "keeps (cleanup_inv now) (schedule_cleanup i now s)"
proof (cases "q_push \<lparr>cleanup_at = bn_add now retention_blocks, sc_proposal_id = i\<rparr> (scheduled_cleanups s)")
  case None
  with inv show ?thesis by (simp add: schedule_cleanup_def)
next
  case (Some q)
  from inv have q: "q_ok (scheduled_cleanups s)" by (simp add: cleanup_inv_def)
  have "sorted_wrt (\<lambda>a b. cleanup_at a \<le> cleanup_at b) (q_list q)"
    using inv by (intro sq.order_kept [OF q _ Some]) (auto simp: cleanup_inv_def)
  with inv Some q_push_ok [OF q Some] q_push_list [OF q Some] show ?thesis
    by (auto simp: schedule_cleanup_def cleanup_inv_def simp del: retention_blocks_value)
qed

lemma cleanup_inv_enqueue: "cleanup_inv now s \<Longrightarrow> keeps (cleanup_inv now) (enqueue_pending_cleanup i s)"
  by (cases "q_push i (pending_cleanup_queue s)")
     (auto simp: enqueue_pending_cleanup_def cleanup_inv_def intro: q_push_ok)

lemma cleanup_inv_stage [simp]:
  "cleanup_inv now (s\<lparr>pending_proposal_cleanups := m\<rparr>) \<longleftrightarrow> cleanup_inv now s"
  by (simp add: cleanup_inv_def)

end
