(* ===== verification/Legislation_Types.thy ===== *)
theory Legislation_Types
  imports Voting_Types
begin

text \<open>
  The protocol types and the pure rules of legislative votes
  (\<^verbatim>\<open>legislation-vote/src/types.rs\<close>, \<^verbatim>\<open>rules.rs\<close>, the predicates of \<^verbatim>\<open>legislation/\<close>, and the referendum and
  amendment rules of \<^verbatim>\<open>primitives/src/constitution.rs\<close>).
\<close>

section \<open>Routes and procedures\<close>

type_synonym representative_body = role_subject

datatype representative_route = Single representative_body | Sequential "representative_body list"

fun route_bodies :: "representative_route \<Rightarrow> representative_body list" where
  "route_bodies (Single b) = [b]"
| "route_bodies (Sequential bs) = bs"

fun route_len :: "representative_route \<Rightarrow> nat" where
  "route_len (Single b) = 1"
| "route_len (Sequential bs) = length bs"

fun route_body :: "representative_route \<Rightarrow> u32 \<Rightarrow> representative_body option" where
  "route_body (Single b) k = (if k = 0 then Some b else None)"
| "route_body (Sequential bs) k = (if k < length bs then Some (bs ! k) else None)"

lemma route_len_bodies [simp]: "route_len r = length (route_bodies r)"
  by (cases r) simp_all

lemma route_body_nth: "route_body r k = (if k < length (route_bodies r) then Some (route_bodies r ! k) else None)"
  by (cases r) simp_all

datatype representative_vote_rule = RuleRegular | RuleMajor | RuleSpecial

datatype vote_procedure = RepresentativeOnly | LegislationProcedure

record legislation_meta =
  lm_executive :: "representative_body option"
  lm_override_signers :: "representative_body list"
  lm_needs_guard :: bool
  lm_guard :: "representative_body option"

section \<open>Thresholds\<close>

text \<open>The products are of 32-bit counts with constants below 100, in 64-bit arithmetic.\<close>

definition representative_final_passed :: "representative_vote_rule \<Rightarrow> u32 \<Rightarrow> u32 \<Rightarrow> u32 \<Rightarrow> bool" where
  "representative_final_passed rule n y m =
     (let casted = sat_add 32 y m in
      if n = 0 \<or> casted = 0 then False
      else case rule of
        RuleRegular \<Rightarrow> n * 80 < casted * 100 \<and> casted * 60 \<le> y * 100
      | RuleMajor \<Rightarrow> n * 90 < casted * 100 \<and> casted * 70 \<le> y * 100
      | RuleSpecial \<Rightarrow> casted = n \<and> n * 70 \<le> y * 100)"

definition representative_decided :: "representative_vote_rule \<Rightarrow> u32 \<Rightarrow> u32 \<Rightarrow> u32 \<Rightarrow> bool option" where
  "representative_decided rule n y m =
     (let casted = sat_add 32 y m in
      if n = 0 then Some False
      else if n \<le> casted then Some (representative_final_passed rule n y m)
      else
        let impossible = (case rule of RuleRegular \<Rightarrow> n * 40 < m * 100 | _ \<Rightarrow> n * 30 < m * 100)
        in if impossible then Some False else None)"

definition referendum_passed :: "u64 \<Rightarrow> u64 \<Rightarrow> u64 \<Rightarrow> bool" where
  "referendum_passed elig y m =
     (let casted = sat_add 64 y m in
      if elig = 0 \<or> casted = 0 then False
      else sat_mul 64 elig 70 \<le> sat_mul 64 casted 100 \<and> sat_mul 64 casted 70 \<le> sat_mul 64 y 100)"

definition CONSTITUTION_GUARD_MEMBERS :: u32 where "CONSTITUTION_GUARD_MEMBERS = 7"
definition CONSTITUTION_GUARD_APPROVAL_THRESHOLD :: u32 where "CONSTITUTION_GUARD_APPROVAL_THRESHOLD = 4"

definition guard_decided :: "nat \<Rightarrow> bool" where
  "guard_decided k \<longleftrightarrow> CONSTITUTION_GUARD_APPROVAL_THRESHOLD \<le> k"

definition guard_review_passed :: "u32 \<Rightarrow> bool" where
  "guard_review_passed k \<longleftrightarrow> CONSTITUTION_GUARD_APPROVAL_THRESHOLD \<le> k"

definition override_approved :: "nat \<Rightarrow> bool" where
  "override_approved k \<longleftrightarrow> 3 \<le> k"

definition is_expired :: "block_number \<Rightarrow> block_number \<Rightarrow> bool" where
  "is_expired now end \<longleftrightarrow> end < now"

section \<open>Amendments of the constitution\<close>

definition IMMUTABLE_CONSTITUTION_ARTICLES :: "u32 list" where
  "IMMUTABLE_CONSTITUTION_ARTICLES = [1, 2, 3, 17, 19, 24, 34, 42]"

datatype amendment_scope = NoChange | ImmutableViolation | CoreChapter | GeneralOnly

definition classify :: "u32 list \<Rightarrow> u32 list \<Rightarrow> u32 list \<Rightarrow> amendment_scope" where
  "classify changed core immutable =
     (if changed = [] then NoChange
      else if \<exists>n \<in> set changed. n \<in> set immutable then ImmutableViolation
      else if \<exists>n \<in> set changed. n \<in> set core then CoreChapter
      else GeneralOnly)"

section \<open>Early decisions\<close>

lemma final_passed_exact:
  "y + m < 2 ^ 32 \<Longrightarrow> representative_final_passed rule n y m \<longleftrightarrow>
     n \<noteq> 0 \<and> y + m \<noteq> 0 \<and>
     (case rule of
        RuleRegular \<Rightarrow> 80 * n < 100 * (y + m) \<and> 60 * (y + m) \<le> 100 * y
      | RuleMajor \<Rightarrow> 90 * n < 100 * (y + m) \<and> 70 * (y + m) \<le> 100 * y
      | RuleSpecial \<Rightarrow> y + m = n \<and> 70 * n \<le> 100 * y)"
  by (auto simp: representative_final_passed_def Let_def sat_add_exact split: representative_vote_rule.split)

lemma decided_exact:
  "y + m < 2 ^ 32 \<Longrightarrow> representative_decided rule n y m =
     (if n = 0 then Some False
      else if n \<le> y + m then Some (representative_final_passed rule n y m)
      else if (case rule of RuleRegular \<Rightarrow> 40 * n < 100 * m | _ \<Rightarrow> 30 * n < 100 * m) then Some False
      else None)"
  by (simp add: representative_decided_def Let_def sat_add_exact mult.commute split: representative_vote_rule.split)

text \<open>The most favourable continuation: every remaining ballot is a yes.\<close>

lemma best_continuation:
  assumes "n \<noteq> 0" "y + m < n" "n < 2 ^ 32" "case rule of RuleRegular \<Rightarrow> 100 * m \<le> 40 * n | _ \<Rightarrow> 100 * m \<le> 30 * n"
  shows "representative_final_passed rule n (n - m) m"
  using assms by (cases rule) (simp_all add: final_passed_exact)

lemma no_continuation:
  assumes "y' + m' \<le> n" "m \<le> m'" "n < 2 ^ 32" "case rule of RuleRegular \<Rightarrow> 40 * n < 100 * m | _ \<Rightarrow> 30 * n < 100 * m"
  shows "\<not> representative_final_passed rule n y' m'"
  using assms by (cases rule) (auto simp: final_passed_exact)

text \<open>
  C37. Early decisions of a representative body are exact: at any point of the vote
  (\<open>yes + no \<le> n\<close> seats), the rule decides against the proposal exactly when no continuation of the
  vote could still pass it, and decides for it only when every continuation passes it. So
  deciding early never changes the outcome that waiting for the end of the period would give.
\<close>

theorem representative_decision_exact:
  assumes "yes t + no t \<le> n" "n < 2 ^ 32"
  shows "(representative_decided rule n (yes t) (no t) = Some False \<longleftrightarrow>
       (\<forall>u. later_tally n t u \<longrightarrow> \<not> representative_final_passed rule n (yes u) (no u))) \<and>
     (representative_decided rule n (yes t) (no t) = Some True \<longrightarrow>
       (\<forall>u. later_tally n t u \<longrightarrow> representative_final_passed rule n (yes u) (no u)))"
proof (cases "n = 0 \<or> n \<le> yes t + no t")
  case True
  then have full: "n \<le> yes t + no t" by auto
  have only: "u = t" if "later_tally n t u" for u
    using that full by (cases u, cases t) (auto simp: later_tally_def)
  have self: "later_tally n t t" using assms(1) by (simp add: later_tally_def)
  have "representative_decided rule n (yes t) (no t) = Some (representative_final_passed rule n (yes t) (no t))"
    using full assms by (simp add: decided_exact) (simp add: representative_final_passed_def)
  with only self show ?thesis by auto
next
  case False
  let ?imp = "case rule of RuleRegular \<Rightarrow> 40 * n < 100 * no t | _ \<Rightarrow> 30 * n < 100 * no t"
  have d: "representative_decided rule n (yes t) (no t) = (if ?imp then Some False else None)"
    using False assms by (simp add: decided_exact)
  have "\<exists>u. later_tally n t u \<and> representative_final_passed rule n (yes u) (no u)" if "\<not> ?imp"
  proof -
    have "later_tally n t \<lparr>yes = n - no t, no = no t\<rparr>" using False assms by (auto simp: later_tally_def)
    moreover have "representative_final_passed rule n (n - no t) (no t)"
      using False assms that by (intro best_continuation [of n "yes t"]) (auto split: representative_vote_rule.splits)
    ultimately show ?thesis by fastforce
  qed
  moreover have "\<not> representative_final_passed rule n (yes u) (no u)" if "?imp" "later_tally n t u" for u
    using that assms(2) no_continuation [of "yes u" "no u" n "no t" rule] by (simp add: later_tally_def)
  ultimately show ?thesis using d by auto
qed

theorem representative_decision_exact_witness:
  "representative_decided RuleRegular 10 3 5 = Some False \<and>
     \<not> representative_final_passed RuleRegular 10 5 5"
proof -
  have "representative_decided RuleRegular 10 3 5 = Some False" by (simp add: representative_decided_def sat_add_exact)
  then show ?thesis
    using representative_decision_exact [of "\<lparr>yes = 3, no = 5\<rparr>" 10 RuleRegular]
    by (auto simp: later_tally_def dest!: spec [of _ "\<lparr>yes = 5, no = 5\<rparr>"])
qed

end
