(* ===== verification/Election_Types.thy ===== *)
theory Election_Types
  imports Voting_Types
begin

text \<open>
  The types of elections (\<^verbatim>\<open>election-vote/src/types.rs\<close>) and the pure counting rule
  (\<^verbatim>\<open>election-vote/src/tally.rs\<close>), with its specification.
\<close>

datatype election_mode = Popular | Mutual

fun election_mode_stage :: "election_mode \<Rightarrow> u8" where
  "election_mode_stage Popular = STAGE_ELECTION_POPULAR"
| "election_mode_stage Mutual = STAGE_ELECTION_MUTUAL"

record election_meta =
  em_mode :: election_mode
  em_population_scope :: "population_scope option"
  em_actor_cid_number :: cid_number
  em_role_code :: role_code
  em_seat_count :: u16
  em_term_start :: u32
  em_term_end :: u32

record popular_election_vote =
  pv_voter_subject :: citizen_subject
  pv_candidate_subject :: citizen_subject

datatype election_voter = CitizenVoter citizen_subject | InstitutionVoter institution_vote_ticket

record election_winner =
  ew_candidate_subject :: citizen_subject
  ew_votes :: u32
  ew_seat_index :: u16

section \<open>Counting\<close>

text \<open>The tied candidates leave the list together, in the order of the candidate snapshot.\<close>

definition seat_tied :: "nat \<Rightarrow> (citizen_subject \<times> u32) list \<Rightarrow> election_winner list" where
  "seat_tied k tied = map (\<lambda>(j, c, v). \<lparr>ew_candidate_subject = c, ew_votes = v, ew_seat_index = k + j\<rparr>)
     (enumerate 0 tied)"

function select_loop ::
  "u16 \<Rightarrow> (citizen_subject \<times> u32) list \<Rightarrow> election_winner list \<Rightarrow> u16 \<Rightarrow> unit + election_winner list" where
  "select_loop seat_count remaining winners seat_index =
     (if seat_index < seat_count then
        if remaining = [] then Inl ()
        else
          let max_votes = Max (set (map snd remaining)) in
          if max_votes = 0 then Inl ()
          else
            let tied = filter (\<lambda>c. snd c = max_votes) remaining in
            if seat_count - seat_index < length tied then Inl ()
            else select_loop seat_count (filter (\<lambda>c. snd c \<noteq> max_votes) remaining)
                   (winners @ seat_tied seat_index tied) (seat_index + length tied)
      else Inr winners)"
  by pat_completeness auto

lemma max_votes_tied: "remaining \<noteq> [] \<Longrightarrow> filter (\<lambda>c. snd c = Max (set (map snd remaining))) remaining \<noteq> []"
proof -
  assume "remaining \<noteq> []"
  then have "Max (set (map snd remaining)) \<in> set (map snd remaining)" by (intro Max_in) auto
  then show ?thesis by (force simp: filter_empty_conv)
qed

termination select_loop
proof (relation "measure (\<lambda>(n, _, _, k). n - k)")
  fix n k :: u16 and remaining :: "(citizen_subject \<times> u32) list" and winners m tied
  assume "k < n" "remaining \<noteq> []" "m = Max (set (map snd remaining))" "m \<noteq> 0"
    "tied = filter (\<lambda>c. snd c = m) remaining" "\<not> n - k < length tied"
  with max_votes_tied [of remaining] have "0 < length tied" by simp
  with \<open>k < n\<close> show "((n, filter (\<lambda>c. snd c \<noteq> m) remaining, winners @ seat_tied k tied, k + length tied),
      n, remaining, winners, k) \<in> measure (\<lambda>(n, _, _, k). n - k)" by (simp add: diff_less_mono2)
qed simp

declare select_loop.simps [simp del]

definition select_winners :: "(citizen_subject \<times> u32) list \<Rightarrow> u16 \<Rightarrow> unit + election_winner list" where
  "select_winners candidates seat_count = select_loop seat_count candidates [] 0"

section \<open>Specification\<close>

text \<open>
  A set of candidates fills \<open>n\<close> seats decisively if it has \<open>n\<close> members, all with votes, each with
  strictly more votes than everybody outside.
\<close>

definition decisive :: "(citizen_subject \<times> u32) set \<Rightarrow> nat \<Rightarrow> (citizen_subject \<times> u32) set \<Rightarrow> bool" where
  "decisive cs n W \<longleftrightarrow> W \<subseteq> cs \<and> card W = n \<and> (\<forall>w \<in> W. 0 < snd w \<and> (\<forall>l \<in> cs - W. snd l < snd w))"

definition counted_winner :: "election_winner \<Rightarrow> citizen_subject \<times> u32" where
  "counted_winner w = (ew_candidate_subject w, ew_votes w)"

lemma decisive_top:
  assumes "finite cs" "cs \<noteq> {}" "0 < n" "decisive cs n W"
  shows "{c \<in> cs. snd c = Max (snd ` cs)} \<subseteq> W"
proof
  fix c assume c: "c \<in> {c \<in> cs. snd c = Max (snd ` cs)}"
  from assms(3,4) have "W \<noteq> {}" "W \<subseteq> cs" by (auto simp: decisive_def)
  then obtain w where w: "w \<in> W" "w \<in> cs" by blast
  then have "snd w \<le> snd c" using c assms(1) by simp
  moreover have "snd c < snd w" if "c \<notin> W" using assms(4) w(1) c that unfolding decisive_def by blast
  ultimately show "c \<in> W" by fastforce
qed

lemma decisive_split:
  assumes fin: "finite cs" "cs \<noteq> {}" and T: "T = {c \<in> cs. snd c = Max (snd ` cs)}"
    and pos: "0 < Max (snd ` cs)" and n: "card T \<le> n"
  shows "decisive cs n W \<longleftrightarrow> T \<subseteq> W \<and> decisive (cs - T) (n - card T) (W - T)"
proof -
  have "Max (snd ` cs) \<in> snd ` cs" using fin by (intro Max_in) auto
  then have "T \<noteq> {}" using T by auto
  moreover have fT: "finite T" using T fin by simp
  ultimately have "0 < n" using n by (metis card_gt_0_iff gr0I le_zero_eq)
  have below: "snd c < Max (snd ` cs)" if "c \<in> cs - T" for c
    using that fin T by (auto simp: order.not_eq_order_implies_strict)
  show ?thesis
  proof
    assume d: "decisive cs n W"
    then have TW: "T \<subseteq> W" using decisive_top [OF fin \<open>0 < n\<close>] T by blast
    moreover have "card (W - T) = n - card T" using d TW fT by (simp add: decisive_def card_Diff_subset)
    ultimately show "T \<subseteq> W \<and> decisive (cs - T) (n - card T) (W - T)" using d by (auto simp: decisive_def)
  next
    assume r: "T \<subseteq> W \<and> decisive (cs - T) (n - card T) (W - T)"
    then have W: "W = T \<union> (W - T)" "W - T \<subseteq> cs - T" by (auto simp: decisive_def)
    have fW: "finite (W - T)" using W(2) fin(1) finite_subset by blast
    have "card W = card T + card (W - T)" using W(1) card_Un_disjoint [OF fT fW] by auto
    then have "card W = n" using r n by (simp add: decisive_def)
    moreover have "W \<subseteq> cs" using W T by auto
    moreover have "0 < snd w \<and> (\<forall>l \<in> cs - W. snd l < snd w)" if "w \<in> W" for w
    proof (cases "w \<in> T")
      case True
      then show ?thesis using pos T below r by auto
    next
      case False
      then show ?thesis using r that by (auto simp: decisive_def)
    qed
    ultimately show "decisive cs n W" by (auto simp: decisive_def)
  qed
qed

lemma seat_tied_facts:
  "map counted_winner (seat_tied k tied) = tied" "length (seat_tied k tied) = length tied"
  "map ew_seat_index (seat_tied k tied) = [k ..< k + length tied]"
proof -
  show len: "length (seat_tied k tied) = length tied" by (simp add: seat_tied_def)
  show "map counted_winner (seat_tied k tied) = tied"
    by (rule nth_equalityI) (simp_all add: seat_tied_def counted_winner_def nth_enumerate_eq split: prod.split)
  show "map ew_seat_index (seat_tied k tied) = [k ..< k + length tied]"
    by (rule nth_equalityI) (simp_all add: seat_tied_def nth_enumerate_eq split: prod.split)
qed

definition winners_for :: "(citizen_subject \<times> u32) list \<Rightarrow> nat \<Rightarrow> nat \<Rightarrow> election_winner list \<Rightarrow> bool" where
  "winners_for cs k n ws \<longleftrightarrow>
     decisive (set cs) (n - k) (set (map counted_winner ws)) \<and> map ew_seat_index ws = [k ..< n] \<and>
     sorted_wrt (\<lambda>a b. ew_votes b \<le> ew_votes a) ws"

lemma winners_for_step:
  assumes cs: "distinct cs" "cs \<noteq> []" and M: "M = Max (set (map snd cs))" "0 < M"
    and tied: "tied = filter (\<lambda>c. snd c = M) cs" "length tied \<le> n - k" "k < n"
    and rest: "winners_for (filter (\<lambda>c. snd c \<noteq> M) cs) (k + length tied) n ws"
  shows "winners_for cs k n (seat_tied k tied @ ws)"
proof -
  let ?T = "{c \<in> set cs. snd c = Max (snd ` set cs)}"
  have T: "set tied = ?T" "card ?T = length tied" "set (filter (\<lambda>c. snd c \<noteq> M) cs) = set cs - ?T"
    using tied(1) M(1) cs(1) by (auto simp: distinct_card [symmetric])
  let ?W = "set tied \<union> set (map counted_winner ws)"
  have sub: "set (map counted_winner ws) \<subseteq> set cs - ?T"
    using rest T(3) by (auto simp: winners_for_def decisive_def)
  then have "?W - ?T = set (map counted_winner ws)" using T(1) by auto
  then have "decisive (set cs) (n - k) ?W"
    using decisive_split [of "set cs" ?T "n - k" ?W] rest cs(2) M tied(2) T by (simp add: winners_for_def)
  moreover have "set (map counted_winner (seat_tied k tied @ ws)) = ?W"
    using seat_tied_facts(1) [of k tied] by (metis map_append set_append)
  moreover have "map ew_seat_index (seat_tied k tied @ ws) = [k ..< n]"
    using rest tied(2,3) upt_add_eq_append [of k "k + length tied" "n - (k + length tied)"]
    by (simp add: winners_for_def seat_tied_facts)
  moreover have "sorted_wrt (\<lambda>a b. ew_votes b \<le> ew_votes a) (seat_tied k tied @ ws)"
  proof -
    have tie: "ew_votes w = M" if "w \<in> set (seat_tied k tied)" for w
    proof -
      have "counted_winner w \<in> set tied" using that seat_tied_facts(1) [of k tied] by (metis image_eqI set_map)
      then show ?thesis using tied(1) by (auto simp: counted_winner_def)
    qed
    have low: "ew_votes w \<le> M" if "w \<in> set ws" for w
    proof -
      have "counted_winner w \<in> set cs" using that sub by auto
      then have "snd (counted_winner w) \<in> set (map snd cs)" by auto
      then show ?thesis unfolding M(1) by (intro Max_ge) (auto simp: counted_winner_def)
    qed
    have "sorted_wrt (\<lambda>a b. ew_votes b \<le> ew_votes a) (seat_tied k tied)"
      using tie by (auto simp: sorted_wrt_iff_nth_less)
    then show ?thesis using rest tie low by (auto simp: sorted_wrt_append winners_for_def)
  qed
  ultimately show ?thesis by (simp add: winners_for_def)
qed

lemma no_winners_step:
  assumes cs: "distinct cs" "cs \<noteq> []" and M: "M = Max (set (map snd cs))" "0 < M"
    and tied: "tied = filter (\<lambda>c. snd c = M) cs" "length tied \<le> n - k"
    and rest: "\<not> (\<exists>W. decisive (set (filter (\<lambda>c. snd c \<noteq> M) cs)) (n - (k + length tied)) W)"
  shows "\<not> decisive (set cs) (n - k) W"
proof -
  let ?T = "{c \<in> set cs. snd c = Max (snd ` set cs)}"
  have T: "card ?T = length tied" "set (filter (\<lambda>c. snd c \<noteq> M) cs) = set cs - ?T"
    using tied(1) M(1) cs(1) by (auto simp: distinct_card [symmetric])
  show ?thesis
    using decisive_split [of "set cs" ?T "n - k" W] rest cs(2) M tied(2) T by (simp add: diff_diff_eq)
qed

lemma select_loop_spec:
  assumes "distinct rem" "k \<le> n"
  shows "case select_loop n rem ws k of
      Inr r \<Rightarrow> \<exists>new. r = ws @ new \<and> winners_for rem k n new
    | Inl _ \<Rightarrow> \<not> (\<exists>W. decisive (set rem) (n - k) W)"
  using assms
proof (induction n rem ws k rule: select_loop.induct)
  case (1 n rem ws k)
  define M where "M = Max (set (map snd rem))"
  define tied where "tied = filter (\<lambda>c. snd c = M) rem"
  show ?case
  proof (cases "k < n")
    case False
    with 1(3) have "k = n" by simp
    then show ?thesis by (simp add: select_loop.simps winners_for_def decisive_def)
  next
    case k: True
    show ?thesis
    proof (cases "rem = [] \<or> M = 0 \<or> n - k < length tied")
      case True
      have "\<not> decisive (set rem) (n - k) W" for W
      proof
        assume d: "decisive (set rem) (n - k) W"
        then have "card W \<noteq> 0" using k by (simp add: decisive_def)
        then have "W \<noteq> {}" by auto
        then obtain w where "w \<in> W" by blast
        then have w: "w \<in> W" "w \<in> set rem" "0 < snd w" using d by (auto simp: decisive_def)
        then have "snd w \<le> M" unfolding M_def by (intro Max_ge) auto
        then have "rem \<noteq> []" "n - k < length tied" using True w by auto
        moreover have "set tied \<subseteq> W"
          using decisive_top [of "set rem" "n - k" W] d k \<open>rem \<noteq> []\<close> by (auto simp: tied_def M_def)
        then have "card (set tied) \<le> card W" using d by (intro card_mono) (auto simp: decisive_def intro: finite_subset)
        moreover have "card (set tied) = length tied"
          using 1(2) by (simp add: tied_def distinct_card del: set_filter)
        ultimately show False using d by (simp add: decisive_def)
      qed
      moreover have "select_loop n rem ws k = Inl ()"
        using True k by (subst select_loop.simps) (auto simp: Let_def M_def tied_def)
      ultimately show ?thesis by simp
    next
      case False
      then have ne: "rem \<noteq> []" "0 < M" "length tied \<le> n - k" by auto
      let ?rest = "filter (\<lambda>c. snd c \<noteq> M) rem"
      have step: "select_loop n rem ws k = select_loop n ?rest (ws @ seat_tied k tied) (k + length tied)"
        using k ne by (subst select_loop.simps) (simp add: Let_def M_def tied_def)
      have IH: "case select_loop n ?rest (ws @ seat_tied k tied) (k + length tied) of
          Inr r \<Rightarrow> \<exists>new. r = (ws @ seat_tied k tied) @ new \<and> winners_for ?rest (k + length tied) n new
        | Inl _ \<Rightarrow> \<not> (\<exists>W. decisive (set ?rest) (n - (k + length tied)) W)"
        using 1(1) [OF k ne(1) M_def _ tied_def] 1(2) k ne by simp
      show ?thesis
      proof (cases "select_loop n ?rest (ws @ seat_tied k tied) (k + length tied)")
        case (Inl u)
        with IH no_winners_step [OF 1(2) ne(1) M_def ne(2) tied_def ne(3)] show ?thesis by (simp add: step)
      next
        case (Inr r)
        with IH winners_for_step [OF 1(2) ne(1) M_def ne(2) tied_def ne(3) k] show ?thesis by (fastforce simp: step)
      qed
    qed
  qed
qed

text \<open>
  C36. Elections are counted correctly. For distinct candidates, \<open>select_winners\<close> succeeds exactly
  when some set of candidates fills the seats decisively (as many members as seats, everyone with at
  least one vote, and everyone with strictly more votes than every candidate left out); the
  winners are then that set with its vote counts, seated from 0 upwards in the order of falling
  votes. It fails exactly when there is no such set: too few candidates with votes, or a tie
  across the last seat.
\<close>

theorem select_winners_correct:
  assumes "distinct cs"
  shows "case select_winners cs n of
      Inr ws \<Rightarrow> decisive (set cs) n (set (map counted_winner ws)) \<and> map ew_seat_index ws = [0 ..< n] \<and>
        sorted_wrt (\<lambda>a b. ew_votes b \<le> ew_votes a) ws
    | Inl _ \<Rightarrow> \<not> (\<exists>W. decisive (set cs) n W)"
  using select_loop_spec [OF assms, of 0 n "[]"]
  by (simp add: select_winners_def winners_for_def split: sum.splits)

definition sample_citizen :: "nat \<Rightarrow> citizen_subject" where
  "sample_citizen k = \<lparr>cs_cid_number = replicate k (CHR ''c''), cs_account_id = k\<rparr>"

theorem select_winners_correct_witness:
  "\<not> (\<exists>W. decisive (set [(sample_citizen 1, 9), (sample_citizen 2, 8), (sample_citizen 3, 8)]) 2 W)"
proof -
  let ?cs = "[(sample_citizen 1, 9), (sample_citizen 2, 8), (sample_citizen 3, 8)] :: (citizen_subject \<times> u32) list"
  have "select_winners ?cs 2 = Inl ()"
    by (simp add: select_winners_def select_loop.simps Let_def)
  with select_winners_correct [of ?cs 2] show ?thesis by (simp add: sample_citizen_def)
qed

end
