(* ===== verification/Engine_State.thy ===== *)
theory Engine_State
  imports Runtime_Config Proposal_Id Proposal_Locks Cleanup_Queue Legislation_Types Election_Types
begin

text \<open>
  The storage of the voting engine (\<^verbatim>\<open>votingengine/src/lib.rs\<close>) together with the storages of
  its internal-vote, joint-vote, legislation-vote and election-vote pallets, its events, and its environment: the runtime
  configuration, the business callbacks (\<^verbatim>\<open>votingengine/src/traits\<close>), the identity,
  administrator and role providers, the hash functions and the storage host. The type variable
  \<open>'x\<close> is the storage of all the other pallets; callbacks read the engine and write only there.
  The tuple of vote tracks (\<^verbatim>\<open>votingengine/src/tracks.rs\<close>) is a list, dispatched in order.
\<close>

section \<open>Storages of the vote pallets\<close>

datatype internal_proposal_role =
    General | PersonalCreate | PersonalClose | PersonalAdminChange | InstitutionAdminChange

datatype internal_vote_ticket_claim = ClaimPersonal | ClaimInstitutionRole role_code

datatype internal_vote_ticket =
    PersonalTicket account | InstitutionTicket institution_vote_ticket

record pending_personal_admin_change_threshold =
  pac_personal_account_id :: account
  pac_new_admins_len :: u32
  pac_new_threshold :: u32

record internal_storage =
  internal_votes_by_ticket :: "proposal_id \<Rightarrow> (internal_vote_ticket \<times> bool) list"
  internal_tallies :: "proposal_id \<Rightarrow> vote_count"
  internal_threshold_snapshot :: "proposal_id \<rightharpoonup> u32"
  pending_personal_thresholds :: "proposal_id \<rightharpoonup> u32"
  active_personal_thresholds :: "account \<rightharpoonup> u32"
  pending_personal_admin_change_thresholds :: "proposal_id \<rightharpoonup> pending_personal_admin_change_threshold"
  internal_proposal_roles :: "proposal_id \<rightharpoonup> internal_proposal_role"

record joint_storage =
  joint_votes_by_ticket :: "proposal_id \<Rightarrow> (institution_vote_ticket \<times> bool) list"
  joint_institution_tallies :: "proposal_id \<Rightarrow> (cid_number \<times> vote_count) list"
  joint_votes_by_institution :: "proposal_id \<Rightarrow> (cid_number \<times> bool) list"
  joint_tallies :: "proposal_id \<Rightarrow> vote_count"
  referendum_votes_by_cid :: "proposal_id \<Rightarrow> (cid_number \<times> citizen_referendum_ticket) list"
  referendum_tallies :: "proposal_id \<Rightarrow> vote_count"

record representative_meta =
  rm_route :: representative_route
  rm_current_body :: u32
  rm_rule :: representative_vote_rule
  rm_procedure :: vote_procedure

record legislation_storage =
  representative_metas :: "proposal_id \<rightharpoonup> representative_meta"
  legislation_metas :: "proposal_id \<rightharpoonup> legislation_meta"
  representative_tallies :: "proposal_id \<Rightarrow> (u32 \<times> vote_count) list"
  representative_votes_by_ticket :: "proposal_id \<Rightarrow> ((u32 \<times> institution_vote_ticket) \<times> bool) list"
  leg_referendum_tally :: "proposal_id \<Rightarrow> vote_count"
  leg_referendum_votes_by_cid :: "proposal_id \<Rightarrow> (cid_number \<times> citizen_referendum_ticket) list"
  leg_override_signs :: "proposal_id \<Rightarrow> (account \<times> bool) list"
  leg_guard_signs :: "proposal_id \<Rightarrow> (account \<times> bool) list"

record election_storage =
  election_meta_store :: "proposal_id \<rightharpoonup> election_meta"
  election_candidates :: "proposal_id \<rightharpoonup> citizen_subject list"
  popular_election_votes_by_cid :: "proposal_id \<Rightarrow> (cid_number \<times> popular_election_vote) list"
  mutual_election_votes_by_ticket :: "proposal_id \<Rightarrow> (institution_vote_ticket \<times> citizen_subject) list"
  election_candidate_tallies :: "proposal_id \<Rightarrow> (cid_number \<times> u32) list"
  election_tally_store :: "proposal_id \<Rightarrow> u32"
  election_results :: "proposal_id \<rightharpoonup> election_winner list"

section \<open>Events\<close>

datatype event =
    ProposalCreated proposal_id u8 u8 block_number
  | ProposalAdvancedToReferendum proposal_id block_number u64
  | ProposalFinalized proposal_id u8
  | ProposalExecutionRetryScheduled proposal_id block_number
  | ProposalExecutionRetried proposal_id u8 u8
  | ProposalExecutionRetryExpired proposal_id
  | ProposalExecutionRetryExpirationQueued proposal_id block_number
  | ProposalTerminalCleanupQueued proposal_id
  | ProposalTerminalCleanupCompleted proposal_id
  | ProposalExecutionCancelled proposal_id
  | ProposalExecutionQueued proposal_id
  | ProposalExecutionDeferred proposal_id u8 block_number
  | ProposalExecutionDeadLettered proposal_id u8
  | ProposalTerminalFinalizationDeferred proposal_id u8 block_number
  | ProposalTerminalFinalizationDeadLettered proposal_id u8
  | ProposalAutoFinalizeDeferred proposal_id u8 block_number
  | ProposalAutoFinalizeDeadLettered proposal_id u8
  | InternalVoteCast proposal_id account "role_code option" bool
  | JointInstitutionTicketVoteCast proposal_id cid_number account role_code bool
  | JointInstitutionVoteFinalized proposal_id cid_number bool
  | ReferendumVoteCast proposal_id citizen_subject bool
  | RepresentativeProposalCreated proposal_id representative_vote_rule u32 vote_procedure
  | RepresentativeVoteCast proposal_id u32 account role_code bool
  | RepresentativeBodyAdvanced proposal_id u32
  | LegislationAdvancedToReferendum proposal_id u64
  | LegislationReferendumVoteCast proposal_id citizen_subject bool
  | LegislationAdvancedToSign proposal_id
  | LegislationExecutiveSigned proposal_id account bool
  | LegislationAdvancedToOverride proposal_id
  | LegislationOverrideSigned proposal_id account bool
  | LegislationAdvancedToGuard proposal_id
  | LegislationGuardVoted proposal_id account bool
  | ElectionCreated proposal_id election_mode cid_number role_code u16
  | ElectionVoteCast proposal_id election_voter citizen_subject
  | ElectionResultReady proposal_id
  | ElectionRejectedByTieOrNoVotes proposal_id

section \<open>The engine storage\<close>

record snapshot_storage =
  admin_snapshot :: "proposal_id \<Rightarrow> (proposal_subject \<times> account list) list"
  voter_snapshot :: "proposal_id \<Rightarrow> (authorization_subject \<times> account list) list"
  institution_ticket_count_snapshot :: "proposal_id \<Rightarrow> (cid_number \<times> u32) list"

record index_storage =
  proposals_by_code :: "(institution_code \<times> proposal_id) set"
  proposals_by_cid :: "(cid_number \<times> proposal_id) set"
  proposals_by_owner :: "(string \<times> proposal_id) set"
  proposals_by_year :: "(u16 \<times> proposal_id) set"

record data_storage =
  proposal_vote_plans :: "proposal_id \<rightharpoonup> vote_plan"
  proposal_data :: "proposal_id \<rightharpoonup> string"
  proposal_owner :: "proposal_id \<rightharpoonup> string"
  proposal_object :: "proposal_id \<rightharpoonup> string"
  proposal_object_meta :: "proposal_id \<rightharpoonup> proposal_object_metadata"
  proposal_meta :: "proposal_id \<rightharpoonup> proposal_metadata"
  proposal_population_snapshots :: "proposal_id \<rightharpoonup> population_snapshot"

record queue_storage =
  pending_proposal_executions :: "(proposal_id \<times> pending_execution_state) list"
  pending_terminal_finalizations :: "(proposal_id \<times> pending_execution_state) list"
  terminal_finalization_dead_letters :: "proposal_id \<rightharpoonup> u8"
  auto_finalize_retry_states :: "proposal_id \<rightharpoonup> pending_execution_state"
  auto_finalize_dead_letters :: "proposal_id \<rightharpoonup> u8"
  proposal_execution_retry_states :: "proposal_id \<rightharpoonup> execution_retry_state"
  pending_execution_retry_expirations :: "(proposal_id \<times> block_number) list"
  pending_terminal_cleanups :: "(proposal_id \<times> unit) list"
  execution_retry_deadlines :: "block_number \<Rightarrow> proposal_id list"

record 'x engine =
  block_number :: block_number
  proposals :: "proposal_id \<rightharpoonup> proposal"
  callback_execution_scopes :: "proposal_id set"
  proposals_by_expiry :: "block_number \<Rightarrow> proposal_id list"
  pending_expiry_bucket :: "block_number option"
  ids :: id_storage
  locks :: lock_storage
  cleanup :: cleanup_storage
  snapshots :: snapshot_storage
  indexes :: index_storage
  records :: data_storage
  queues :: queue_storage
  internal :: internal_storage
  joint :: joint_storage
  legislation :: legislation_storage
  election :: election_storage
  events :: "event list"
  ext :: 'x

abbreviation upd_queues :: "(queue_storage \<Rightarrow> queue_storage) \<Rightarrow> 'x engine \<Rightarrow> 'x engine" where
  "upd_queues f s \<equiv> s\<lparr>queues := f (queues s)\<rparr>"

abbreviation upd_records :: "(data_storage \<Rightarrow> data_storage) \<Rightarrow> 'x engine \<Rightarrow> 'x engine" where
  "upd_records f s \<equiv> s\<lparr>records := f (records s)\<rparr>"

abbreviation upd_snapshots :: "(snapshot_storage \<Rightarrow> snapshot_storage) \<Rightarrow> 'x engine \<Rightarrow> 'x engine" where
  "upd_snapshots f s \<equiv> s\<lparr>snapshots := f (snapshots s)\<rparr>"

abbreviation upd_locks :: "(lock_storage \<Rightarrow> lock_storage) \<Rightarrow> 'x engine \<Rightarrow> 'x engine" where
  "upd_locks f s \<equiv> s\<lparr>locks := f (locks s)\<rparr>"

abbreviation upd_internal :: "(internal_storage \<Rightarrow> internal_storage) \<Rightarrow> 'x engine \<Rightarrow> 'x engine" where
  "upd_internal f s \<equiv> s\<lparr>internal := f (internal s)\<rparr>"

abbreviation upd_joint :: "(joint_storage \<Rightarrow> joint_storage) \<Rightarrow> 'x engine \<Rightarrow> 'x engine" where
  "upd_joint f s \<equiv> s\<lparr>joint := f (joint s)\<rparr>"

abbreviation upd_legislation :: "(legislation_storage \<Rightarrow> legislation_storage) \<Rightarrow> 'x engine \<Rightarrow> 'x engine" where
  "upd_legislation f s \<equiv> s\<lparr>legislation := f (legislation s)\<rparr>"

abbreviation upd_election :: "(election_storage \<Rightarrow> election_storage) \<Rightarrow> 'x engine \<Rightarrow> 'x engine" where
  "upd_election f s \<equiv> s\<lparr>election := f (election s)\<rparr>"

definition deposit_event :: "event \<Rightarrow> 'x engine \<Rightarrow> 'x engine" where
  "deposit_event e s = s\<lparr>events := events s @ [e]\<rparr>"

definition engine_genesis :: "'x \<Rightarrow> 'x engine" where
  "engine_genesis x =
    \<lparr>block_number = 0, proposals = Map.empty, callback_execution_scopes = {},
     proposals_by_expiry = (\<lambda>_. []), pending_expiry_bucket = None,
     ids = id_storage_genesis, locks = lock_storage_genesis, cleanup = cleanup_storage_genesis,
     snapshots = \<lparr>admin_snapshot = (\<lambda>_. []), voter_snapshot = (\<lambda>_. []),
       institution_ticket_count_snapshot = (\<lambda>_. [])\<rparr>,
     indexes = \<lparr>proposals_by_code = {}, proposals_by_cid = {}, proposals_by_owner = {},
       proposals_by_year = {}\<rparr>,
     records = \<lparr>proposal_vote_plans = Map.empty, proposal_data = Map.empty,
       proposal_owner = Map.empty, proposal_object = Map.empty, proposal_object_meta = Map.empty,
       proposal_meta = Map.empty, proposal_population_snapshots = Map.empty\<rparr>,
     queues = \<lparr>pending_proposal_executions = [], pending_terminal_finalizations = [],
       terminal_finalization_dead_letters = Map.empty, auto_finalize_retry_states = Map.empty,
       auto_finalize_dead_letters = Map.empty, proposal_execution_retry_states = Map.empty,
       pending_execution_retry_expirations = [], pending_terminal_cleanups = [],
       execution_retry_deadlines = (\<lambda>_. [])\<rparr>,
     internal = \<lparr>internal_votes_by_ticket = (\<lambda>_. []), internal_tallies = (\<lambda>_. vote_count_default),
       internal_threshold_snapshot = Map.empty, pending_personal_thresholds = Map.empty,
       active_personal_thresholds = Map.empty, pending_personal_admin_change_thresholds = Map.empty,
       internal_proposal_roles = Map.empty\<rparr>,
     joint = \<lparr>joint_votes_by_ticket = (\<lambda>_. []), joint_institution_tallies = (\<lambda>_. []),
       joint_votes_by_institution = (\<lambda>_. []), joint_tallies = (\<lambda>_. vote_count_default),
       referendum_votes_by_cid = (\<lambda>_. []), referendum_tallies = (\<lambda>_. vote_count_default)\<rparr>,
     legislation = \<lparr>representative_metas = Map.empty, legislation_metas = Map.empty,
       representative_tallies = (\<lambda>_. []), representative_votes_by_ticket = (\<lambda>_. []),
       leg_referendum_tally = (\<lambda>_. vote_count_default), leg_referendum_votes_by_cid = (\<lambda>_. []),
       leg_override_signs = (\<lambda>_. []), leg_guard_signs = (\<lambda>_. [])\<rparr>,
     election = \<lparr>election_meta_store = Map.empty, election_candidates = Map.empty,
       popular_election_votes_by_cid = (\<lambda>_. []), mutual_election_votes_by_ticket = (\<lambda>_. []),
       election_candidate_tallies = (\<lambda>_. []), election_tally_store = (\<lambda>_. 0),
       election_results = Map.empty\<rparr>,
     events = [], ext = x\<rparr>"

section \<open>The environment\<close>

text \<open>
  A business callback reads the engine (within its callback scope) and returns its result and
  the business storage it leaves behind, on failure too.
\<close>

record 'x vote_callback =
  on_vote_finalized ::
    "proposal_id \<Rightarrow> bool \<Rightarrow> 'x engine \<Rightarrow> (dispatch_error + proposal_execution_outcome) \<times> 'x"
  can_cancel_passed_proposal ::
    "proposal_id \<Rightarrow> 'x engine \<Rightarrow> (dispatch_error + proposal_cancel_decision) \<times> 'x"
  on_execution_failed_terminal :: "proposal_id \<Rightarrow> 'x engine \<Rightarrow> (dispatch_error + unit) \<times> 'x"

text \<open>
  The lifecycle handler of one vote track. \<open>None\<close> means the kind is not the track's. A track
  owns its ledgers: on execution, at a terminal status and during cleanup it may change them.
\<close>

record 'x track =
  handles :: "u8 \<Rightarrow> bool"
  on_proposal_executed :: "u8 \<Rightarrow> proposal_id \<Rightarrow> 'x engine \<Rightarrow> (dispatch_error + unit) option \<times> 'x engine"
  on_proposal_terminal :: "u8 \<Rightarrow> proposal_id \<Rightarrow> u8 \<Rightarrow> 'x engine \<Rightarrow> (dispatch_error + unit) option \<times> 'x engine"
  cleanup_chunk :: "u8 \<Rightarrow> proposal_id \<Rightarrow> u32 \<Rightarrow> 'x engine \<Rightarrow> (u32 \<times> bool) option \<times> 'x engine"
  cleanup_terminal :: "u8 \<Rightarrow> proposal_id \<Rightarrow> 'x engine \<Rightarrow> unit option \<times> 'x engine"
  timeout_weight :: "u8 \<Rightarrow> weight option"
  cleanup_chunk_weight :: "u8 \<Rightarrow> u32 \<Rightarrow> weight option"
  cleanup_terminal_weight :: "u8 \<Rightarrow> weight option"

text \<open>The timeout handler of a track; it drives the engine itself.\<close>

type_synonym 'x timeout_handler =
  "proposal \<Rightarrow> proposal_id \<Rightarrow> 'x engine \<Rightarrow> (dispatch_error + unit) option \<times> 'x engine"

record 'x env =
  cfg :: config
  internal_callback :: "'x vote_callback"
  joint_callback :: "'x vote_callback"
  legislation_callback :: "'x vote_callback"
  election_callback :: "'x vote_callback"
  tracks :: "'x track list"
  unix_now_ms :: "'x \<Rightarrow> u128"
  population_data_of :: "population_scope \<Rightarrow> 'x \<Rightarrow> population_data option"
  voting_subject_at :: "account \<Rightarrow> population_data \<Rightarrow> 'x \<Rightarrow> citizen_subject option"
  candidate_subject_of :: "account \<Rightarrow> population_scope \<Rightarrow> 'x \<Rightarrow> citizen_subject option"
  resolve_institution_voter :: "cid_number \<Rightarrow> account \<Rightarrow> 'x \<Rightarrow> account option"
  get_personal_admins :: "account \<Rightarrow> 'x \<Rightarrow> account list option"
  get_pending_personal_admins :: "account \<Rightarrow> 'x \<Rightarrow> account list option"
  is_personal_admin :: "account \<Rightarrow> account \<Rightarrow> 'x \<Rightarrow> bool"
  institution_threshold :: "institution_code \<Rightarrow> cid_number \<Rightarrow> 'x \<Rightarrow> u32 option"
  active_accounts_for_role :: "cid_number \<Rightarrow> role_code \<Rightarrow> 'x \<Rightarrow> account list"
  is_active_assignment :: "cid_number \<Rightarrow> account \<Rightarrow> role_code \<Rightarrow> 'x \<Rightarrow> bool"
  hash256 :: "string \<Rightarrow> string"
  iter_order :: "proposal_id list \<Rightarrow> proposal_id list"
  clearing :: prefix_clearing

text \<open>Iterating over a storage map visits every key once, in an order of the host's choosing.\<close>

definition iterates :: "'x env \<Rightarrow> bool" where
  "iterates env \<longleftrightarrow> (\<forall>ks. set (iter_order env ks) = set ks \<and> (distinct ks \<longrightarrow> distinct (iter_order env ks)))"

section \<open>Dispatch over the tracks\<close>

definition U8_MAX :: u8 where "U8_MAX = 255"

fun tracks_finalize_timeout :: "'x timeout_handler list \<Rightarrow> 'x timeout_handler" where
  "tracks_finalize_timeout [] p i s = (None, s)"
| "tracks_finalize_timeout (h # ts) p i s =
     (case h p i s of (None, s') \<Rightarrow> tracks_finalize_timeout ts p i s' | (Some r, s') \<Rightarrow> (Some r, s'))"

fun tracks_cleanup_chunk ::
  "'x track list \<Rightarrow> u8 \<Rightarrow> proposal_id \<Rightarrow> u32 \<Rightarrow> 'x engine \<Rightarrow> (u32 \<times> bool) option \<times> 'x engine" where
  "tracks_cleanup_chunk [] kind i limit s = (None, s)"
| "tracks_cleanup_chunk (t # ts) kind i limit s =
     (case cleanup_chunk t kind i limit s of
        (None, s') \<Rightarrow> tracks_cleanup_chunk ts kind i limit s' | (Some r, s') \<Rightarrow> (Some r, s'))"

fun tracks_cleanup_terminal ::
  "'x track list \<Rightarrow> u8 \<Rightarrow> proposal_id \<Rightarrow> 'x engine \<Rightarrow> bool \<times> 'x engine" where
  "tracks_cleanup_terminal [] kind i s = (False, s)"
| "tracks_cleanup_terminal (t # ts) kind i s =
     (case cleanup_terminal t kind i s of
        (Some _, s') \<Rightarrow> (True, s') | (None, s') \<Rightarrow> tracks_cleanup_terminal ts kind i s')"

fun tracks_timeout_weight :: "'x track list \<Rightarrow> u8 \<Rightarrow> u8 \<Rightarrow> weight option" where
  "tracks_timeout_weight [] kind stage = None"
| "tracks_timeout_weight (t # ts) kind stage =
     (if handles t kind then timeout_weight t stage else tracks_timeout_weight ts kind stage)"

definition unwrap_or_default :: "weight option \<Rightarrow> weight" where
  "unwrap_or_default w = (case w of None \<Rightarrow> weight_zero | Some v \<Rightarrow> v)"

fun tracks_max_timeout_weight :: "'x track list \<Rightarrow> weight" where
  "tracks_max_timeout_weight [] = weight_zero"
| "tracks_max_timeout_weight (t # ts) =
     w_max (unwrap_or_default (timeout_weight t U8_MAX)) (tracks_max_timeout_weight ts)"

fun tracks_cleanup_chunk_weight :: "'x track list \<Rightarrow> u8 \<Rightarrow> u32 \<Rightarrow> weight option" where
  "tracks_cleanup_chunk_weight [] kind limit = None"
| "tracks_cleanup_chunk_weight (t # ts) kind limit =
     (if handles t kind then cleanup_chunk_weight t kind limit else tracks_cleanup_chunk_weight ts kind limit)"

fun tracks_max_cleanup_chunk_weight :: "'x track list \<Rightarrow> u32 \<Rightarrow> weight" where
  "tracks_max_cleanup_chunk_weight [] limit = weight_zero"
| "tracks_max_cleanup_chunk_weight (t # ts) limit =
     w_max (unwrap_or_default (cleanup_chunk_weight t U8_MAX limit)) (tracks_max_cleanup_chunk_weight ts limit)"

fun tracks_cleanup_terminal_weight :: "'x track list \<Rightarrow> u8 \<Rightarrow> weight option" where
  "tracks_cleanup_terminal_weight [] kind = None"
| "tracks_cleanup_terminal_weight (t # ts) kind =
     (if handles t kind then cleanup_terminal_weight t kind else tracks_cleanup_terminal_weight ts kind)"

fun tracks_max_cleanup_terminal_weight :: "'x track list \<Rightarrow> weight" where
  "tracks_max_cleanup_terminal_weight [] = weight_zero"
| "tracks_max_cleanup_terminal_weight (t # ts) =
     w_max (unwrap_or_default (cleanup_terminal_weight t U8_MAX)) (tracks_max_cleanup_terminal_weight ts)"

fun tracks_on_proposal_executed ::
  "'x track list \<Rightarrow> u8 \<Rightarrow> proposal_id \<Rightarrow> 'x engine \<Rightarrow> (dispatch_error + unit) option \<times> 'x engine" where
  "tracks_on_proposal_executed [] kind i s = (None, s)"
| "tracks_on_proposal_executed (t # ts) kind i s =
     (case on_proposal_executed t kind i s of
        (None, s') \<Rightarrow> tracks_on_proposal_executed ts kind i s' | (Some r, s') \<Rightarrow> (Some r, s'))"

fun tracks_on_proposal_terminal ::
  "'x track list \<Rightarrow> u8 \<Rightarrow> proposal_id \<Rightarrow> u8 \<Rightarrow> 'x engine \<Rightarrow> (dispatch_error + unit) option \<times> 'x engine" where
  "tracks_on_proposal_terminal [] kind i status s = (None, s)"
| "tracks_on_proposal_terminal (t # ts) kind i status s =
     (case on_proposal_terminal t kind i status s of
        (None, s') \<Rightarrow> tracks_on_proposal_terminal ts kind i status s' | (Some r, s') \<Rightarrow> (Some r, s'))"

end
