(* ===== verification/Proposal_Data.thy ===== *)
theory Proposal_Data
  imports Engine_State
begin

text \<open>
  What is bound to a proposal at creation (\<^verbatim>\<open>votingengine/src/data.rs\<close>, \<^verbatim>\<open>index.rs\<close>,
  \<^verbatim>\<open>snapshot.rs\<close>, and the population snapshot of \<^verbatim>\<open>lifecycle.rs\<close>): vote plan, owner, business
  data, metadata and object, the four reverse indexes, the voter snapshots with their ticket
  counts, and the population snapshot. All writes are once-only; the lemmas show that bindings
  cannot be overwritten, that cleaning the indexes is the inverse of registering them, and that
  ticket counts are the sums of the frozen seat lists.
\<close>

section \<open>Data, owner, metadata\<close>

definition bind_vote_plan :: "proposal_id \<Rightarrow> vote_plan \<Rightarrow> 'x engine \<Rightarrow> (dispatch_error, unit, 'x engine) outcome" where
  "bind_vote_plan i plan s =
     ensure (proposals s i \<noteq> None) (VotingEngine ProposalNotFound) s (\<lambda>s.
     ensure (proposal_vote_plans (records s) i = None) (VotingEngine VotePlanAlreadyBound) s (\<lambda>s.
     ensure (proposal_owner (records s) i = None) (VotingEngine ProposalDataAlreadyRegistered) s (\<lambda>s.
       (Inr (), upd_records (\<lambda>d. d\<lparr>proposal_vote_plans := (proposal_vote_plans d)(i \<mapsto> plan)\<rparr>) s))))"

definition bounded_module_tag :: "'x env \<Rightarrow> string \<Rightarrow> dispatch_error + string" where
  "bounded_module_tag env tag =
     (if length tag \<le> MaxModuleTagLen (cfg env) then Inr tag else Inl (Other ''ModuleTagTooLarge''))"

definition register_proposal_indexes ::
  "proposal_id \<Rightarrow> institution_code option \<Rightarrow> cid_number option \<Rightarrow> cid_number list \<Rightarrow> string \<Rightarrow> u16 \<Rightarrow>
   index_storage \<Rightarrow> index_storage" where
  "register_proposal_indexes i code actor cids tag year ix =
     (let ix1 = (case code of None \<Rightarrow> ix
                 | Some c \<Rightarrow> ix\<lparr>proposals_by_code := insert (c, i) (proposals_by_code ix)\<rparr>);
          ix2 = (case actor of None \<Rightarrow> ix1
                 | Some c \<Rightarrow> ix1\<lparr>proposals_by_cid := insert (c, i) (proposals_by_cid ix1)\<rparr>);
          ix3 = fold (\<lambda>c ix. ix\<lparr>proposals_by_cid := insert (c, i) (proposals_by_cid ix)\<rparr>) cids ix2;
          ix4 = ix3\<lparr>proposals_by_owner := insert (tag, i) (proposals_by_owner ix3)\<rparr>
      in ix4\<lparr>proposals_by_year := insert (year, i) (proposals_by_year ix4)\<rparr>)"

definition register_proposal_data ::
  "'x env \<Rightarrow> proposal_id \<Rightarrow> string \<Rightarrow> string \<Rightarrow> block_number \<Rightarrow> 'x engine \<Rightarrow>
   (dispatch_error, unit, 'x engine) outcome" where
  "register_proposal_data env i tag data created s =
     ensure (proposals s i \<noteq> None) (VotingEngine ProposalNotFound) s (\<lambda>s.
     ensure (proposal_owner (records s) i = None \<and> proposal_data (records s) i = None)
       (VotingEngine ProposalDataAlreadyRegistered) s (\<lambda>s.
     and_then (pure_result (bounded_module_tag env tag) s) (\<lambda>owner s.
     ensure (case proposal_vote_plans (records s) i of None \<Rightarrow> True | Some plan \<Rightarrow> vp_proposal_owner plan = owner)
       (VotingEngine ProposalOwnerMismatch) s (\<lambda>s.
     ensure (length data \<le> MaxProposalDataLen (cfg env)) (Other ''ProposalDataTooLarge'') s (\<lambda>s.
       let s1 = upd_records (\<lambda>d. d\<lparr>proposal_owner := (proposal_owner d)(i \<mapsto> owner),
                 proposal_data := (proposal_data d)(i \<mapsto> data),
                 proposal_meta := (proposal_meta d)(i \<mapsto> \<lparr>created_at = created, passed_at = None\<rparr>)\<rparr>) s
       in ok_or (proposals s1 i) (VotingEngine ProposalNotFound) s1 (\<lambda>p.
          ok_or (proposal_display_id (ids s1) i) (VotingEngine ProposalNotFound) s1 (\<lambda>display.
            (Inr (), s1\<lparr>indexes := register_proposal_indexes i (p_internal_code p)
               (p_actor_cid_number p) (p_subject_cid_numbers p) owner (display_year display) (indexes s1)\<rparr>))))))))"

definition get_proposal_data :: "proposal_id \<Rightarrow> 'x engine \<Rightarrow> string option" where
  "get_proposal_data i s = proposal_data (records s) i"

definition is_proposal_owner :: "'x env \<Rightarrow> proposal_id \<Rightarrow> string \<Rightarrow> 'x engine \<Rightarrow> bool" where
  "is_proposal_owner env i tag s =
     (case proposal_owner (records s) i of
        None \<Rightarrow> False
      | Some owner \<Rightarrow> (case bounded_module_tag env tag of Inr expected \<Rightarrow> owner = expected | Inl _ \<Rightarrow> False))"

definition store_proposal_object ::
  "'x env \<Rightarrow> proposal_id \<Rightarrow> u8 \<Rightarrow> string \<Rightarrow> 'x engine \<Rightarrow> (dispatch_error, unit, 'x engine) outcome" where
  "store_proposal_object env i kind data s =
     ok_or (try_into 32 (length data)) (Other ''ProposalObjectTooLarge'') s (\<lambda>len.
       let h = hash256 env data in
       ensure (length data \<le> MaxProposalObjectLen (cfg env)) (Other ''ProposalObjectTooLarge'') s (\<lambda>s.
         (Inr (), upd_records (\<lambda>d. d\<lparr>proposal_object := (proposal_object d)(i \<mapsto> data),
            proposal_object_meta := (proposal_object_meta d)
              (i \<mapsto> \<lparr>object_kind = kind, object_len = len, object_hash = h\<rparr>)\<rparr>) s)))"

definition get_proposal_object :: "proposal_id \<Rightarrow> 'x engine \<Rightarrow> string option" where
  "get_proposal_object i s = proposal_object (records s) i"

definition get_proposal_object_meta :: "proposal_id \<Rightarrow> 'x engine \<Rightarrow> proposal_object_metadata option" where
  "get_proposal_object_meta i s = proposal_object_meta (records s) i"

definition get_proposal_meta :: "proposal_id \<Rightarrow> 'x engine \<Rightarrow> proposal_metadata option" where
  "get_proposal_meta i s = proposal_meta (records s) i"

section \<open>Reverse indexes\<close>

definition cleanup_proposal_indexes :: "proposal_id \<Rightarrow> 'x engine \<Rightarrow> 'x engine" where
  "cleanup_proposal_indexes i s =
     (let ix = indexes s;
          ix1 = (case proposals s i of None \<Rightarrow> ix | Some p \<Rightarrow>
            (let ixa = (case p_internal_code p of None \<Rightarrow> ix
                        | Some c \<Rightarrow> ix\<lparr>proposals_by_code := proposals_by_code ix - {(c, i)}\<rparr>);
                 ixb = (case p_actor_cid_number p of None \<Rightarrow> ixa
                        | Some c \<Rightarrow> ixa\<lparr>proposals_by_cid := proposals_by_cid ixa - {(c, i)}\<rparr>)
             in fold (\<lambda>c ix. ix\<lparr>proposals_by_cid := proposals_by_cid ix - {(c, i)}\<rparr>)
                  (p_subject_cid_numbers p) ixb));
          ix2 = (case proposal_owner (records s) i of None \<Rightarrow> ix1
                 | Some ow \<Rightarrow> ix1\<lparr>proposals_by_owner := proposals_by_owner ix1 - {(ow, i)}\<rparr>);
          ix3 = (case proposal_display_id (ids s) i of None \<Rightarrow> ix2
                 | Some m \<Rightarrow> ix2\<lparr>proposals_by_year := proposals_by_year ix2 - {(display_year m, i)}\<rparr>)
      in s\<lparr>indexes := ix3,
           ids := (ids s)\<lparr>proposal_display_id := (proposal_display_id (ids s))(i := None)\<rparr>\<rparr>)"

text \<open>No index mentions the proposal.\<close>

definition unindexed :: "proposal_id \<Rightarrow> index_storage \<Rightarrow> bool" where
  "unindexed i ix \<longleftrightarrow> (\<forall>c. (c, i) \<notin> proposals_by_code ix) \<and> (\<forall>c. (c, i) \<notin> proposals_by_cid ix) \<and>
     (\<forall>t. (t, i) \<notin> proposals_by_owner ix) \<and> (\<forall>y. (y, i) \<notin> proposals_by_year ix)"

lemma fold_insert_cid:
  "fold (\<lambda>c ix. ix\<lparr>proposals_by_cid := insert (c, i) (proposals_by_cid ix)\<rparr>) cids ix =
     ix\<lparr>proposals_by_cid := (\<lambda>c. (c, i)) ` set cids \<union> proposals_by_cid ix\<rparr>"
  by (induction cids arbitrary: ix) auto

lemma fold_remove_cid:
  "fold (\<lambda>c ix. ix\<lparr>proposals_by_cid := proposals_by_cid ix - {(c, i)}\<rparr>) cids ix =
     ix\<lparr>proposals_by_cid := proposals_by_cid ix - (\<lambda>c. (c, i)) ` set cids\<rparr>"
  by (induction cids arbitrary: ix) (auto simp: Diff_insert2 [symmetric])

text \<open>
  Cleaning is the inverse of registering: once a proposal's data have been registered,
  removing its index entries restores, for every proposal that was in no index before, the four
  reverse indexes exactly, and drops its display number.
\<close>

theorem cleanup_indexes_inverse:
  assumes "unindexed i (indexes s)" "register_proposal_data env i tag data created s = (Inr (), s')"
  shows "indexes (cleanup_proposal_indexes i s') = indexes s \<and>
     proposal_display_id (ids (cleanup_proposal_indexes i s')) i = None"
proof -
  from assms(2) obtain p d where pd: "proposals s i = Some p" "proposal_display_id (ids s) i = Some d"
    "bounded_module_tag env tag = Inr tag"
    and s': "indexes s' = register_proposal_indexes i (p_internal_code p)
               (p_actor_cid_number p) (p_subject_cid_numbers p) tag (display_year d) (indexes s)"
      "proposals s' = proposals s" "ids s' = ids s" "proposal_owner (records s') i = Some tag"
    by (auto simp: register_proposal_data_def Let_def pure_result_def bounded_module_tag_def split: if_splits)
  show ?thesis
    using assms(1) pd s'
    by (cases "indexes s")
       (auto simp: cleanup_proposal_indexes_def register_proposal_indexes_def Let_def
         fold_insert_cid fold_remove_cid unindexed_def split: option.splits)
qed

section \<open>Population snapshot\<close>

definition create_population_snapshot ::
  "'x env \<Rightarrow> proposal_id \<Rightarrow> population_scope \<Rightarrow> 'x engine \<Rightarrow> (dispatch_error, u64, 'x engine) outcome" where
  "create_population_snapshot env i scope s =
     ensure (proposals s i \<noteq> None) (VotingEngine ProposalNotFound) s (\<lambda>s.
     ensure (proposal_population_snapshots (records s) i = None) (VotingEngine InvalidProposalStatus) s (\<lambda>s.
     ok_or (population_data_of env scope (ext s)) (VotingEngine PopulationDataNotReady) s (\<lambda>pd.
       (Inr (eligible_total pd),
        upd_records (\<lambda>d. d\<lparr>proposal_population_snapshots := (proposal_population_snapshots d)
          (i \<mapsto> \<lparr>ps_population_data = pd, ps_created_at = block_number s\<rparr>)\<rparr>) s))))"

definition voting_subject_at_population_snapshot ::
  "'x env \<Rightarrow> proposal_id \<Rightarrow> account \<Rightarrow> 'x engine \<Rightarrow> citizen_subject option" where
  "voting_subject_at_population_snapshot env i who s =
     (case proposal_population_snapshots (records s) i of
        None \<Rightarrow> None
      | Some snap \<Rightarrow> voting_subject_at env who (ps_population_data snap) (ext s))"

definition population_eligible_total_of :: "proposal_id \<Rightarrow> 'x engine \<Rightarrow> u64 option" where
  "population_eligible_total_of i s =
     map_option (\<lambda>snap. eligible_total (ps_population_data snap)) (proposal_population_snapshots (records s) i)"

section \<open>Voter snapshots\<close>

definition resolve_subject_voter ::
  "'x env \<Rightarrow> authorization_subject \<Rightarrow> account \<Rightarrow> 'x engine \<Rightarrow> account option" where
  "resolve_subject_voter env subject who s =
     (case subject of
        Institution rs \<Rightarrow> resolve_institution_voter env (rs_cid_number rs) who (ext s)
      | PersonalMultisig _ \<Rightarrow> Some who)"

definition is_subject_voter_in_snapshot ::
  "'x env \<Rightarrow> proposal_id \<Rightarrow> authorization_subject \<Rightarrow> account \<Rightarrow> 'x engine \<Rightarrow> bool" where
  "is_subject_voter_in_snapshot env i subject who s =
     (case map_of (voter_snapshot (snapshots s) i) subject of
        None \<Rightarrow> False
      | Some voters \<Rightarrow>
          (case resolve_subject_voter env subject who s of
             None \<Rightarrow> False
           | Some canonical \<Rightarrow> canonical \<in> set voters))"

definition subject_voters_len :: "proposal_id \<Rightarrow> authorization_subject \<Rightarrow> 'x engine \<Rightarrow> u32 option" where
  "subject_voters_len i subject s = map_option length (map_of (voter_snapshot (snapshots s) i) subject)"

definition institution_ticket_count :: "proposal_id \<Rightarrow> cid_number \<Rightarrow> 'x engine \<Rightarrow> u32 option" where
  "institution_ticket_count i cid s = map_of (institution_ticket_count_snapshot (snapshots s) i) cid"

definition is_any_institution_voter_in_snapshot ::
  "'x env \<Rightarrow> proposal_id \<Rightarrow> account \<Rightarrow> 'x engine \<Rightarrow> bool" where
  "is_any_institution_voter_in_snapshot env i who s =
     (case proposal_vote_plans (records s) i of
        None \<Rightarrow> False
      | Some plan \<Rightarrow> \<exists>subject \<in> set (vp_voter_subjects plan).
          is_institution_subject subject \<and> is_subject_voter_in_snapshot env i subject who s)"

definition ensure_valid_voter_snapshot :: "account list \<Rightarrow> ve_error + unit" where
  "ensure_valid_voter_snapshot voters =
     (if voters = [] then Inl MissingVoterSnapshot
      else if has_duplicate voters then Inl InvalidInstitution else Inr ())"

definition ensure_valid_admin_snapshot :: "account list \<Rightarrow> ve_error + unit" where
  "ensure_valid_admin_snapshot admins =
     (if admins = [] then Inl MissingAdminSnapshot
      else if has_duplicate admins then Inl InvalidInstitution else Inr ())"

definition snapshot_role_voters ::
  "'x env \<Rightarrow> proposal_id \<Rightarrow> authorization_subject \<Rightarrow> account list \<Rightarrow> 'x engine \<Rightarrow>
   (dispatch_error, unit, 'x engine) outcome" where
  "snapshot_role_voters env i subject voters s =
     (case subject of
        PersonalMultisig _ \<Rightarrow> (Inl (VotingEngine InvalidVotePlan), s)
      | Institution rs \<Rightarrow>
          let cid = rs_cid_number rs in
          ensure (\<not> kv_contains subject (voter_snapshot (snapshots s) i)) (VotingEngine VotePlanAlreadyBound) s (\<lambda>s.
          (case ensure_valid_voter_snapshot voters of Inl e \<Rightarrow> (Inl (VotingEngine e), s) | Inr _ \<Rightarrow>
          ensure (length voters \<le> MaxAdminsPerInstitution (cfg env)) (VotingEngine InvalidInstitution) s (\<lambda>s.
            let current = (case map_of (institution_ticket_count_snapshot (snapshots s) i) cid of
                             None \<Rightarrow> 0 | Some n \<Rightarrow> n) in
            ok_or (checked_add 32 current (length voters)) (VotingEngine InvalidInstitution) s (\<lambda>updated.
              (Inr (), upd_snapshots (\<lambda>n. n\<lparr>
                 voter_snapshot := (voter_snapshot n)(i := kv_insert subject voters (voter_snapshot n i)),
                 institution_ticket_count_snapshot := (institution_ticket_count_snapshot n)
                   (i := kv_insert cid updated (institution_ticket_count_snapshot n i))\<rparr>) s))))))"

definition is_admin_in_snapshot :: "proposal_id \<Rightarrow> proposal_subject \<Rightarrow> account \<Rightarrow> 'x engine \<Rightarrow> bool" where
  "is_admin_in_snapshot i subject who s =
     (case map_of (admin_snapshot (snapshots s) i) subject of None \<Rightarrow> False | Some admins \<Rightarrow> who \<in> set admins)"

definition snapshot_admins_len :: "proposal_id \<Rightarrow> proposal_subject \<Rightarrow> 'x engine \<Rightarrow> u32 option" where
  "snapshot_admins_len i subject s = map_option length (map_of (admin_snapshot (snapshots s) i) subject)"

definition insert_admin_snapshot :: "proposal_id \<Rightarrow> proposal_subject \<Rightarrow> account list \<Rightarrow> 'x engine \<Rightarrow> 'x engine" where
  "insert_admin_snapshot i subject admins s =
     upd_snapshots (\<lambda>n. n\<lparr>admin_snapshot := (admin_snapshot n)
       (i := kv_insert subject admins (admin_snapshot n i))\<rparr>) s"

definition write_admin_snapshot ::
  "'x env \<Rightarrow> proposal_id \<Rightarrow> proposal_subject \<Rightarrow> account list \<Rightarrow> 'x engine \<Rightarrow>
   (dispatch_error, unit, 'x engine) outcome" where
  "write_admin_snapshot env i subject admins s =
     (case ensure_valid_admin_snapshot admins of
        Inl e \<Rightarrow> (Inl (VotingEngine e), s)
      | Inr _ \<Rightarrow>
          if length admins \<le> MaxAdminsPerInstitution (cfg env)
          then (Inr (), insert_admin_snapshot i subject admins s)
          else (Inl (VotingEngine InvalidInstitution), s))"

definition snapshot_personal_admins ::
  "'x env \<Rightarrow> proposal_id \<Rightarrow> account \<Rightarrow> bool \<Rightarrow> 'x engine \<Rightarrow> (dispatch_error, unit, 'x engine) outcome" where
  "snapshot_personal_admins env i personal pending s =
     ok_or (if pending then get_pending_personal_admins env personal (ext s)
            else get_personal_admins env personal (ext s)) (VotingEngine InvalidInstitution) s (\<lambda>admins.
       write_admin_snapshot env i (PersonalAccount personal) admins s)"

text \<open>Freezing the roles of a vote plan one after the other, as the create operations do.\<close>

fun snapshot_all_roles ::
  "'x env \<Rightarrow> proposal_id \<Rightarrow> authorization_subject list \<Rightarrow> 'x engine \<Rightarrow>
   (dispatch_error, unit, 'x engine) outcome" where
  "snapshot_all_roles env i [] s = (Inr (), s)"
| "snapshot_all_roles env i (subject # subjects) s =
     (case subject of
        PersonalMultisig _ \<Rightarrow> (Inl (VotingEngine InvalidVotePlan), s)
      | Institution rs \<Rightarrow>
          let voters = active_accounts_for_role env (rs_cid_number rs) (rs_role_code rs) (ext s) in
          and_then (snapshot_role_voters env i subject voters s) (\<lambda>_ s.
            snapshot_all_roles env i subjects s))"

text \<open>
  The ticket count of an institution is the number of frozen seats: the sum of the lengths of
  the voter lists of its roles, each list without repetitions.
\<close>

definition seats :: "cid_number \<Rightarrow> (authorization_subject \<times> account list) list \<Rightarrow> nat" where
  "seats cid vs = sum_list (map (\<lambda>(subject, voters).
     case subject of Institution rs \<Rightarrow> if rs_cid_number rs = cid then length voters else 0
       | PersonalMultisig _ \<Rightarrow> 0) vs)"

definition tickets_exact :: "proposal_id \<Rightarrow> 'x engine \<Rightarrow> bool" where
  "tickets_exact i s \<longleftrightarrow>
     distinct (map fst (voter_snapshot (snapshots s) i)) \<and>
     (\<forall>(subject, voters) \<in> set (voter_snapshot (snapshots s) i). voters \<noteq> [] \<and> distinct voters) \<and>
     (\<forall>cid. (case institution_ticket_count i cid s of None \<Rightarrow> 0 | Some n \<Rightarrow> n) =
        seats cid (voter_snapshot (snapshots s) i))"

lemma kv_insert_new: "\<not> kv_contains k xs \<Longrightarrow> kv_insert k v xs = (k, v) # xs"
  by (induction xs) (auto simp: kv_insert_def kv_contains_def)

lemma seats_Cons:
  "seats cid ((Institution rs, voters) # vs) =
     (if rs_cid_number rs = cid then length voters else 0) + seats cid vs"
  by (simp add: seats_def)

lemma snapshot_role_voters_ok:
  assumes "snapshot_role_voters env i subject voters s = (Inr (), s')"
  obtains rs n where "subject = Institution rs" "voters \<noteq> []" "distinct voters"
    "subject \<notin> fst ` set (voter_snapshot (snapshots s) i)"
    "n = (case institution_ticket_count i (rs_cid_number rs) s of None \<Rightarrow> 0 | Some m \<Rightarrow> m)"
    "voter_snapshot (snapshots s') i = (subject, voters) # voter_snapshot (snapshots s) i"
    "\<And>cid. institution_ticket_count i cid s' =
       (if cid = rs_cid_number rs then Some (n + length voters) else institution_ticket_count i cid s)"
  using assms
  by (auto simp: snapshot_role_voters_def Let_def ensure_valid_voter_snapshot_def kv_insert_new
      kv_contains_def institution_ticket_count_def
      split: authorization_subject.splits sum.splits if_splits)

lemma tickets_exact_step:
  assumes "tickets_exact i s" "snapshot_role_voters env i subject voters s = (Inr (), s')"
  shows "tickets_exact i s'"
  using assms(2)
proof (rule snapshot_role_voters_ok)
  fix rs n
  assume a: "subject = Institution rs" "voters \<noteq> []" "distinct voters"
    "subject \<notin> fst ` set (voter_snapshot (snapshots s) i)"
    "n = (case institution_ticket_count i (rs_cid_number rs) s of None \<Rightarrow> 0 | Some m \<Rightarrow> m)"
    "voter_snapshot (snapshots s') i = (subject, voters) # voter_snapshot (snapshots s) i"
    "\<And>cid. institution_ticket_count i cid s' =
       (if cid = rs_cid_number rs then Some (n + length voters) else institution_ticket_count i cid s)"
  then show ?thesis
    using assms(1) unfolding tickets_exact_def by (simp add: seats_Cons)
qed

lemma tickets_exact_all:
  "tickets_exact i s \<Longrightarrow> snapshot_all_roles env i subjects s = (Inr (), s') \<Longrightarrow> tickets_exact i s'"
  by (induction subjects arbitrary: s)
     (auto simp: Let_def split: authorization_subject.splits intro: tickets_exact_step)

text \<open>
  C31. One seat, one ticket: when the roles of a vote plan are frozen for a proposal without
  earlier snapshots, the ticket count recorded for every institution equals the number of seats
  in the frozen voter lists of its roles, and each list is non-empty and free of repetitions, so
  no account counts twice within a role.
\<close>

theorem snapshot_tickets_exact:
  assumes "voter_snapshot (snapshots s) i = []" "institution_ticket_count_snapshot (snapshots s) i = []"
    and "snapshot_all_roles env i subjects s = (Inr (), s')"
  shows "tickets_exact i s'"
proof -
  from assms(1,2) have "tickets_exact i s"
    by (simp add: tickets_exact_def institution_ticket_count_def seats_def)
  then show ?thesis using assms(3) by (rule tickets_exact_all)
qed

section \<open>A concrete environment\<close>

text \<open>
  On which runs are evaluated: two roles of one institution with three and one members, a
  population of three citizens, callbacks that succeed, storage iterated and cleared in order.
\<close>

definition idle_callback :: "unit vote_callback" where
  "idle_callback = \<lparr>on_vote_finalized = (\<lambda>_ _ _. (Inr Executed, ())),
     can_cancel_passed_proposal = (\<lambda>_ _. (Inr CancelAllow, ())),
     on_execution_failed_terminal = (\<lambda>_ _. (Inr (), ()))\<rparr>"

definition test_env :: "unit env" where
  "test_env = \<lparr>cfg = test_config, internal_callback = idle_callback, joint_callback = idle_callback,
     legislation_callback = idle_callback, election_callback = idle_callback, tracks = [],
     unix_now_ms = (\<lambda>_. 0),
     population_data_of = (\<lambda>_ _. Some \<lparr>eligible_total = 3, population_context = []\<rparr>),
     voting_subject_at = (\<lambda>who _ _. if who < 3 then Some \<lparr>cs_cid_number = replicate who (CHR ''c''), cs_account_id = who\<rparr> else None),
     candidate_subject_of = (\<lambda>who _ _. Some \<lparr>cs_cid_number = replicate who (CHR ''c''), cs_account_id = who\<rparr>),
     resolve_institution_voter = (\<lambda>_ who _. Some who),
     get_personal_admins = (\<lambda>_ _. Some [1, 2, 3]), get_pending_personal_admins = (\<lambda>_ _. Some [1, 2, 3]),
     is_personal_admin = (\<lambda>_ who _. who \<in> {1, 2, 3}),
     institution_threshold = (\<lambda>_ _ _. Some 3),
     active_accounts_for_role = (\<lambda>_ role _. if role = ''a'' then [1, 2, 3] else [1]),
     is_active_assignment = (\<lambda>_ who _ _. who \<in> {1, 2, 3}),
     hash256 = (\<lambda>d. d), iter_order = (\<lambda>ks. ks), clearing = clear_in_order\<rparr>"

lemma iterates_test_env: "iterates test_env"
  by (simp add: iterates_def test_env_def)

theorem snapshot_tickets_exact_witness:
  "\<exists>s'. snapshot_all_roles test_env 0
       [Institution \<lparr>rs_cid_number = ''X'', rs_role_code = ''a''\<rparr>,
        Institution \<lparr>rs_cid_number = ''X'', rs_role_code = ''b''\<rparr>] (engine_genesis ()) = (Inr (), s') \<and>
     institution_ticket_count 0 ''X'' s' = Some 4 \<and> tickets_exact 0 s'"
proof -
  let ?subjects = "[Institution \<lparr>rs_cid_number = ''X'', rs_role_code = ''a''\<rparr>,
        Institution \<lparr>rs_cid_number = ''X'', rs_role_code = ''b''\<rparr>]"
  obtain s' where s': "snapshot_all_roles test_env 0 ?subjects (engine_genesis ()) = (Inr (), s')"
    and n: "institution_ticket_count 0 ''X'' s' = Some 4"
    by (simp add: snapshot_role_voters_def test_env_def engine_genesis_def test_config_def
        runtime_config_def ensure_valid_voter_snapshot_def kv_contains_def kv_insert_def
        institution_ticket_count_def checked_add_def Let_def)
  have "tickets_exact 0 s'"
    by (rule snapshot_tickets_exact [OF _ _ s']) (simp_all add: engine_genesis_def)
  with s' n show ?thesis by blast
qed

text \<open>A registered proposal, for the index property.\<close>

definition sample_proposal :: proposal where
  "sample_proposal = \<lparr>p_kind = 0, p_stage = 0, p_status = 0, p_internal_code = Some NRC,
     p_actor_cid_number = Some ''X'', p_execution_account_id = None,
     p_subject_cid_numbers = [''X'', ''Y''], p_start = 0, p_end = 7200\<rparr>"

theorem cleanup_indexes_inverse_witness:
  "\<exists>s'. register_proposal_data test_env 0 ''tag'' ''data'' 5
       ((engine_genesis ())\<lparr>proposals := [0 \<mapsto> sample_proposal],
          ids := id_storage_genesis\<lparr>proposal_display_id := [0 \<mapsto> \<lparr>display_year = 2026, seq_in_year = 0\<rparr>]\<rparr>\<rparr>)
       = (Inr (), s') \<and> (''Y'', 0) \<in> proposals_by_cid (indexes s') \<and>
     proposals_by_cid (indexes (cleanup_proposal_indexes 0 s')) = {}"
proof -
  let ?s = "(engine_genesis ())\<lparr>proposals := [0 \<mapsto> sample_proposal],
          ids := id_storage_genesis\<lparr>proposal_display_id := [0 \<mapsto> \<lparr>display_year = 2026, seq_in_year = 0\<rparr>]\<rparr>\<rparr>"
  obtain s' where s': "register_proposal_data test_env 0 ''tag'' ''data'' 5 ?s = (Inr (), s')"
    and mem: "(''Y'', 0) \<in> proposals_by_cid (indexes s')"
    by (simp add: register_proposal_data_def pure_result_def bounded_module_tag_def test_env_def
        test_config_def runtime_config_def engine_genesis_def Let_def sample_proposal_def
        register_proposal_indexes_def)
  have "indexes (cleanup_proposal_indexes 0 s') = indexes ?s"
    using cleanup_indexes_inverse [OF _ s'] by (simp add: unindexed_def engine_genesis_def)
  then have "proposals_by_cid (indexes (cleanup_proposal_indexes 0 s')) = {}"
    by (simp add: engine_genesis_def)
  with s' mem show ?thesis by blast
qed

end
