(* ===== verification/Lifecycle.thy ===== *)
theory Lifecycle
  imports Proposal_Data
begin

text \<open>
  Status transitions of proposals with their side effects (\<^verbatim>\<open>votingengine/src/lifecycle.rs\<close>):
  the transition table, \<open>set_status_and_emit\<close>, the terminal side effects (delayed cleanup, retry
  state, business notification, track hook, mutex release), callback scopes, the retry-deadline
  buckets and the queue of undelivered terminal notifications.

  Every engine operation is shown to let proposals only \<open>evolve\<close>: their status moves along the
  transition table and the identity of a proposal never changes.
\<close>

section \<open>The transition table\<close>

definition ensure_open_proposal :: "proposal_id \<Rightarrow> 'x engine \<Rightarrow> dispatch_error + proposal" where
  "ensure_open_proposal i s =
     (case proposals s i of
        None \<Rightarrow> Inl (VotingEngine ProposalNotFound)
      | Some p \<Rightarrow>
          if p_status p \<noteq> STATUS_VOTING then Inl (VotingEngine InvalidProposalStatus)
          else if \<not> block_number s \<le> p_end p then Inl (VotingEngine VoteClosed)
          else Inr p)"

definition should_release_internal_proposal_mutexes :: "u8 \<Rightarrow> u8 \<Rightarrow> u8 \<Rightarrow> bool" where
  "should_release_internal_proposal_mutexes kind stage final_status \<longleftrightarrow>
     final_status \<in> {STATUS_REJECTED, STATUS_EXECUTED, STATUS_EXECUTION_FAILED} \<or>
     kind = PROPOSAL_KIND_JOINT \<and> stage = STAGE_JOINT \<and> final_status = STATUS_PASSED"

definition valid_status_transition :: "u8 \<Rightarrow> u8 \<Rightarrow> bool" where
  "valid_status_transition old new \<longleftrightarrow>
     (old, new) \<in> {(STATUS_VOTING, STATUS_PASSED), (STATUS_VOTING, STATUS_REJECTED),
                   (STATUS_PASSED, STATUS_EXECUTED), (STATUS_PASSED, STATUS_EXECUTION_FAILED)}"

definition ensure_valid_status_transition :: "u8 \<Rightarrow> u8 \<Rightarrow> dispatch_error + unit" where
  "ensure_valid_status_transition old new =
     (if valid_status_transition old new then Inr () else Inl (VotingEngine InvalidProposalStatus))"

definition is_terminal_status :: "u8 \<Rightarrow> bool" where
  "is_terminal_status st \<longleftrightarrow> st \<in> {STATUS_REJECTED, STATUS_EXECUTED, STATUS_EXECUTION_FAILED}"

definition mark_proposal_passed_at :: "proposal_id \<Rightarrow> block_number \<Rightarrow> 'x engine \<Rightarrow> 'x engine" where
  "mark_proposal_passed_at i block s =
     (case proposal_meta (records s) i of
        None \<Rightarrow> s
      | Some m \<Rightarrow>
          if passed_at m = None
          then upd_records (\<lambda>d. d\<lparr>proposal_meta := (proposal_meta d)(i \<mapsto> m\<lparr>passed_at := Some block\<rparr>)\<rparr>) s
          else s)"

definition set_proposal_status :: "proposal_id \<Rightarrow> u8 \<Rightarrow> 'x engine \<Rightarrow> (dispatch_error, unit, 'x engine) outcome" where
  "set_proposal_status i status s =
     ok_or (proposals s i) (VotingEngine ProposalNotFound) s (\<lambda>p.
     (case ensure_valid_status_transition (p_status p) status of
        Inl e \<Rightarrow> (Inl e, s)
      | Inr _ \<Rightarrow> (Inr (), s\<lparr>proposals := (proposals s)(i \<mapsto> p\<lparr>p_status := status\<rparr>)\<rparr>)))"

section \<open>Callbacks and their scope\<close>

text \<open>A callback runs with its proposal's scope open and only the business storage changes.\<close>

definition with_callback_execution_scope ::
  "proposal_id \<Rightarrow> ('x engine \<Rightarrow> (dispatch_error + 'a) \<times> 'x) \<Rightarrow> 'x engine \<Rightarrow> (dispatch_error, 'a, 'x engine) outcome" where
  "with_callback_execution_scope i callback s =
     (let s1 = s\<lparr>callback_execution_scopes := insert i (callback_execution_scopes s)\<rparr>;
          (r, x) = callback s1
      in (r, s1\<lparr>ext := x, callback_execution_scopes := callback_execution_scopes s1 - {i}\<rparr>))"

definition is_callback_execution_scope :: "proposal_id \<Rightarrow> 'x engine \<Rightarrow> bool" where
  "is_callback_execution_scope i s \<longleftrightarrow> i \<in> callback_execution_scopes s"

definition callback_of :: "'x env \<Rightarrow> u8 \<Rightarrow> 'x vote_callback option" where
  "callback_of env kind =
     (if kind = PROPOSAL_KIND_INTERNAL then Some (internal_callback env)
      else if kind = PROPOSAL_KIND_JOINT then Some (joint_callback env)
      else if kind = PROPOSAL_KIND_LEGISLATION then Some (legislation_callback env)
      else if kind = PROPOSAL_KIND_ELECTION then Some (election_callback env)
      else None)"

definition invoke_execution_callback ::
  "'x env \<Rightarrow> proposal_id \<Rightarrow> u8 \<Rightarrow> bool \<Rightarrow> 'x engine \<Rightarrow> (dispatch_error + proposal_execution_outcome) \<times> 'x" where
  "invoke_execution_callback env i kind approved s =
     (case callback_of env kind of
        None \<Rightarrow> (Inl (VotingEngine InvalidProposalKind), ext s)
      | Some cb \<Rightarrow> on_vote_finalized cb i approved s)"

definition can_cancel_passed_proposal_by_owner ::
  "'x env \<Rightarrow> proposal_id \<Rightarrow> u8 \<Rightarrow> 'x engine \<Rightarrow> (dispatch_error, unit, 'x engine) outcome" where
  "can_cancel_passed_proposal_by_owner env i kind s =
     (case callback_of env kind of
        None \<Rightarrow> (Inl (VotingEngine InvalidProposalKind), s)
      | Some cb \<Rightarrow>
          (case can_cancel_passed_proposal cb i s of
             (Inl e, x) \<Rightarrow> (Inl e, s\<lparr>ext := x\<rparr>)
           | (Inr d, x) \<Rightarrow>
               if d = CancelAllow then (Inr (), s\<lparr>ext := x\<rparr>)
               else (Inl (VotingEngine ProposalCancellationNotAllowed), s\<lparr>ext := x\<rparr>)))"

definition notify_execution_failed_terminal ::
  "'x env \<Rightarrow> proposal_id \<Rightarrow> u8 \<Rightarrow> 'x engine \<Rightarrow> (dispatch_error + unit) \<times> 'x" where
  "notify_execution_failed_terminal env i kind s =
     (case callback_of env kind of
        None \<Rightarrow> (Inl (VotingEngine InvalidProposalKind), ext s)
      | Some cb \<Rightarrow> on_execution_failed_terminal cb i s)"

section \<open>Terminal side effects\<close>

definition remove_pending_terminal_cleanup :: "proposal_id \<Rightarrow> 'x engine \<Rightarrow> 'x engine" where
  "remove_pending_terminal_cleanup i s =
     upd_queues (\<lambda>q. q\<lparr>pending_terminal_cleanups := kv_remove i (pending_terminal_cleanups q)\<rparr>) s"

definition queue_terminal_cleanup :: "proposal_id \<Rightarrow> 'x engine \<Rightarrow> 'x engine" where
  "queue_terminal_cleanup i s =
     (let already_pending = kv_contains i (pending_terminal_cleanups (queues s));
          s1 = upd_queues (\<lambda>q. q\<lparr>pending_terminal_cleanups := kv_insert i () (pending_terminal_cleanups q)\<rparr>) s
      in if already_pending then s1 else deposit_event (ProposalTerminalCleanupQueued i) s1)"

definition notify_execution_failed_terminal_or_queue :: "'x env \<Rightarrow> proposal_id \<Rightarrow> u8 \<Rightarrow> 'x engine \<Rightarrow> 'x engine" where
  "notify_execution_failed_terminal_or_queue env i kind s =
     (case with_callback_execution_scope i (notify_execution_failed_terminal env i kind) s of
        (Inr _, s1) \<Rightarrow> remove_pending_terminal_cleanup i s1
      | (Inl _, s1) \<Rightarrow> queue_terminal_cleanup i s1)"

text \<open>\<open>.ok_or(InvalidProposalStage)??\<close> on the answer of the tracks.\<close>

definition track_result ::
  "(dispatch_error + unit) option \<times> 'x engine \<Rightarrow> (dispatch_error, unit, 'x engine) outcome" where
  "track_result m =
     (case m of
        (None, s) \<Rightarrow> (Inl (VotingEngine InvalidProposalStage), s)
      | (Some r, s) \<Rightarrow> (r, s))"

definition apply_terminal_side_effects ::
  "'x env \<Rightarrow> proposal_id \<Rightarrow> u8 \<Rightarrow> 'x engine \<Rightarrow> (dispatch_error, unit, 'x engine) outcome" where
  "apply_terminal_side_effects env i status s =
     ensure (is_terminal_status status) (VotingEngine InvalidProposalStatus) s (\<lambda>s.
     and_then (zoom VotingEngine (\<lambda>c s. s\<lparr>cleanup := c\<rparr>) (schedule_cleanup i (block_number s) (cleanup s)) s) (\<lambda>_ s.
       let s1 = upd_queues (\<lambda>q. q\<lparr>
                  proposal_execution_retry_states := (proposal_execution_retry_states q)(i := None),
                  pending_execution_retry_expirations := kv_remove i (pending_execution_retry_expirations q),
                  pending_terminal_cleanups := kv_remove i (pending_terminal_cleanups q)\<rparr>) s;
           s2 = (if status = STATUS_EXECUTION_FAILED then
                   (case proposals s1 i of
                      None \<Rightarrow> s1
                    | Some p \<Rightarrow> notify_execution_failed_terminal_or_queue env i (p_kind p) s1)
                 else s1)
       in case proposals s2 i of
            None \<Rightarrow> (Inr (), s2)
          | Some p \<Rightarrow>
              and_then (track_result (tracks_on_proposal_terminal (tracks env) (p_kind p) i status s2)) (\<lambda>_ s3.
                if should_release_internal_proposal_mutexes (p_kind p) (p_stage p) status
                then (Inr (), upd_locks (release_internal_proposal_mutexes i) s3)
                else (Inr (), s3))))"

definition finish_terminal_status ::
  "'x env \<Rightarrow> proposal_id \<Rightarrow> u8 \<Rightarrow> 'x engine \<Rightarrow> (dispatch_error, unit, 'x engine) outcome" where
  "finish_terminal_status env i status s =
     and_then (apply_terminal_side_effects env i status s) (\<lambda>_ s.
       (Inr (), deposit_event (ProposalFinalized i status) s))"

section \<open>Retry deadlines\<close>

definition queue_execution_retry_deadline ::
  "'x env \<Rightarrow> proposal_id \<Rightarrow> block_number \<Rightarrow> 'x engine \<Rightarrow> (dispatch_error, unit, 'x engine) outcome" where
  "queue_execution_retry_deadline env i target s =
     ok_or (try_push (MaxExecutionRetryDeadlinesPerBlock (cfg env)) (execution_retry_deadlines (queues s) target) i)
       (VotingEngine TooManyExecutionRetryDeadlines) s (\<lambda>b.
         (Inr (), upd_queues (\<lambda>q. q\<lparr>execution_retry_deadlines := (execution_retry_deadlines q)(target := b)\<rparr>) s))"

primrec reschedule_loop ::
  "nat \<Rightarrow> 'x env \<Rightarrow> proposal_id \<Rightarrow> block_number \<Rightarrow> 'x engine \<Rightarrow> (dispatch_error, unit, 'x engine) outcome" where
  "reschedule_loop 0 env i target s = (Inl (VotingEngine TooManyExecutionRetryDeadlines), s)"
| "reschedule_loop (Suc n) env i target s =
     (case queue_execution_retry_deadline env i target s of
        (Inr _, s') \<Rightarrow> (Inr (), s')
      | (Inl _, s') \<Rightarrow> reschedule_loop n env i (bn_add target 1) s')"

definition reschedule_execution_retry_deadline ::
  "'x env \<Rightarrow> proposal_id \<Rightarrow> block_number \<Rightarrow> 'x engine \<Rightarrow> (dispatch_error, unit, 'x engine) outcome" where
  "reschedule_execution_retry_deadline env i from_block s = reschedule_loop 100 env i from_block s"

definition queue_pending_retry_expiration :: "proposal_id \<Rightarrow> block_number \<Rightarrow> 'x engine \<Rightarrow> 'x engine" where
  "queue_pending_retry_expiration i deadline s =
     deposit_event (ProposalExecutionRetryExpirationQueued i deadline)
       (upd_queues (\<lambda>q. q\<lparr>pending_execution_retry_expirations :=
          kv_insert i deadline (pending_execution_retry_expirations q)\<rparr>) s)"

text \<open>Put the deadline in a bucket, or, if the next hundred are full, in the pending queue.\<close>

definition reschedule_or_queue ::
  "'x env \<Rightarrow> proposal_id \<Rightarrow> block_number \<Rightarrow> block_number \<Rightarrow> 'x engine \<Rightarrow> 'x engine" where
  "reschedule_or_queue env i from_block deadline s =
     (case reschedule_execution_retry_deadline env i from_block s of
        (Inr _, s') \<Rightarrow> s'
      | (Inl _, s') \<Rightarrow> queue_pending_retry_expiration i deadline s')"

definition schedule_execution_retry ::
  "'x env \<Rightarrow> proposal_id \<Rightarrow> 'x engine \<Rightarrow> (dispatch_error, unit, 'x engine) outcome" where
  "schedule_execution_retry env i s =
     (if proposal_execution_retry_states (queues s) i \<noteq> None then (Inr (), s)
      else
        let now = block_number s;
            deadline = bn_add now (ExecutionRetryGraceBlocks (cfg env));
            st = \<lparr>manual_attempts = 0, first_auto_failed_at = now, retry_deadline = deadline,
                  last_attempt_at = None\<rparr>;
            s1 = reschedule_or_queue env i deadline deadline s;
            s2 = upd_queues (\<lambda>q. q\<lparr>proposal_execution_retry_states :=
                    (proposal_execution_retry_states q)(i \<mapsto> st)\<rparr>) s1
        in (Inr (), deposit_event (ProposalExecutionRetryScheduled i deadline) s2))"

section \<open>Who may retry or cancel\<close>

definition ensure_retry_admin :: "'x env \<Rightarrow> account \<Rightarrow> proposal_id \<Rightarrow> 'x engine \<Rightarrow> dispatch_error + unit" where
  "ensure_retry_admin env who i s =
     (case proposals s i of
        None \<Rightarrow> Inl (VotingEngine ProposalNotFound)
      | Some p \<Rightarrow>
          if p_kind p = PROPOSAL_KIND_JOINT \<or>
             (p_kind p = PROPOSAL_KIND_INTERNAL \<and> p_actor_cid_number p \<noteq> None)
          then (if is_any_institution_voter_in_snapshot env i who s then Inr ()
                else Inl (VotingEngine NoPermission))
          else (case subject_keys p of
                  [] \<Rightarrow> Inl (VotingEngine InvalidInstitution)
                | subject # _ \<Rightarrow>
                    if is_admin_in_snapshot i subject who s then Inr ()
                    else Inl (VotingEngine NoPermission)))"

section \<open>Undelivered terminal notifications\<close>

fun terminal_cleanup_loop :: "'x env \<Rightarrow> proposal_id list \<Rightarrow> weight \<Rightarrow> 'x engine \<Rightarrow> weight \<times> 'x engine" where
  "terminal_cleanup_loop env [] w s = (w, s)"
| "terminal_cleanup_loop env (i # rest) w s =
     (let w1 = w_add w (db_weight (cfg env) 2 3);
          s1 = (case proposals s i of
                  None \<Rightarrow> remove_pending_terminal_cleanup i s
                | Some p \<Rightarrow>
                    if p_status p \<noteq> STATUS_EXECUTION_FAILED then remove_pending_terminal_cleanup i s
                    else (case with_callback_execution_scope i
                                 (notify_execution_failed_terminal env i (p_kind p)) s of
                            (Inr _, t) \<Rightarrow> deposit_event (ProposalTerminalCleanupCompleted i)
                                            (remove_pending_terminal_cleanup i t)
                          | (Inl _, t) \<Rightarrow> t))
      in terminal_cleanup_loop env rest w1 s1)"

definition process_pending_terminal_cleanups :: "'x env \<Rightarrow> 'x engine \<Rightarrow> weight \<times> 'x engine" where
  "process_pending_terminal_cleanups env s =
     (let w = db_reads (cfg env) 1; mx = MaxPendingRetryExpirationsPerBlock (cfg env) in
      if mx = 0 then (w, s)
      else terminal_cleanup_loop env
             (take mx (iter_order env (map fst (pending_terminal_cleanups (queues s))))) w s)"

section \<open>Setting a status\<close>

text \<open>
  \<open>set_status_and_emit\<close> in its four parts: write the status (and the time of passing), free the
  active slots, run the rejection callback or queue the execution, settle the final status.
\<close>

definition write_status :: "proposal_id \<Rightarrow> proposal \<Rightarrow> u8 \<Rightarrow> 'x engine \<Rightarrow> 'x engine" where
  "write_status i p status s =
     (let s0 = (if p_status p = STATUS_VOTING \<and> status = STATUS_PASSED
                then mark_proposal_passed_at i (block_number s) s else s)
      in s0\<lparr>proposals := (proposals s0)(i \<mapsto> p\<lparr>p_status := status\<rparr>)\<rparr>)"

definition free_active_slots :: "proposal_id \<Rightarrow> proposal \<Rightarrow> u8 \<Rightarrow> 'x engine \<Rightarrow> 'x engine" where
  "free_active_slots i p status s =
     (if status \<noteq> STATUS_VOTING then
        upd_queues (\<lambda>q. q\<lparr>
            auto_finalize_retry_states := (auto_finalize_retry_states q)(i := None),
            auto_finalize_dead_letters := (auto_finalize_dead_letters q)(i := None)\<rparr>)
          (upd_locks (\<lambda>l. fold (\<lambda>subject. remove_active_proposal subject i) (subject_keys p) l) s)
      else s)"

definition announce_status ::
  "'x env \<Rightarrow> proposal_id \<Rightarrow> proposal \<Rightarrow> u8 \<Rightarrow> 'x engine \<Rightarrow> (dispatch_error, unit, 'x engine) outcome" where
  "announce_status env i p status s =
     (let should_run_callback =
            (p_status p = STATUS_VOTING \<and> status \<in> {STATUS_PASSED, STATUS_REJECTED})
      in if should_run_callback \<and> status = STATUS_REJECTED then
           and_then (with_callback_execution_scope i
              (invoke_execution_callback env i (p_kind p) (status = STATUS_PASSED)) s) (\<lambda>_ s. (Inr (), s))
         else if should_run_callback \<and> status = STATUS_PASSED then
           (Inr (), deposit_event (ProposalExecutionQueued i)
              (upd_queues (\<lambda>q. q\<lparr>pending_proposal_executions :=
                 kv_insert i \<lparr>attempts = 0, next_attempt_at = block_number s\<rparr>
                   (pending_proposal_executions q)\<rparr>) s))
         else (Inr (), s))"

definition settle_status ::
  "'x env \<Rightarrow> proposal_id \<Rightarrow> proposal \<Rightarrow> 'x engine \<Rightarrow> (dispatch_error, unit, 'x engine) outcome" where
  "settle_status env i p s =
     ok_or (proposals s i) (VotingEngine ProposalNotFound) s (\<lambda>p'.
       let final_status = p_status p' in
       and_then
         (if is_terminal_status final_status then apply_terminal_side_effects env i final_status s
          else if should_release_internal_proposal_mutexes (p_kind p) (p_stage p) final_status
          then (Inr (), upd_locks (release_internal_proposal_mutexes i) s)
          else (Inr (), s)) (\<lambda>_ s.
         (Inr (), deposit_event (ProposalFinalized i final_status) s)))"

definition set_status_and_emit ::
  "'x env \<Rightarrow> proposal_id \<Rightarrow> u8 \<Rightarrow> 'x engine \<Rightarrow> (dispatch_error, unit, 'x engine) outcome" where
  "set_status_and_emit env i status =
     with_transaction (\<lambda>s.
       ok_or (proposals s i) (VotingEngine ProposalNotFound) s (\<lambda>p.
       and_then (pure_result (ensure_valid_status_transition (p_status p) status) s) (\<lambda>_ s.
       and_then (announce_status env i p status (free_active_slots i p status (write_status i p status s))) (\<lambda>_ s.
         settle_status env i p s))))"

end
