(* ===== verification/Evolution.thy ===== *)
theory Evolution
  imports Lifecycle
begin

text \<open>
  The engine invariant and the evolution relation, and that the lifecycle operations respect
  them. The invariant: locks and cleanup queues are well formed, no callback scope is left open,
  proposal ids are below the id counter, and whatever waits for cleanup is a terminal proposal
  (or already gone). Evolution: known ids are never reused, the status of a proposal only moves
  along the transition table and its identity is fixed.
\<close>

section \<open>Status order\<close>

definition status_le :: "u8 \<Rightarrow> u8 \<Rightarrow> bool" where
  "status_le a b \<longleftrightarrow> a = b \<or>
     (a = STATUS_VOTING \<and> b \<in> {STATUS_PASSED, STATUS_REJECTED, STATUS_EXECUTED, STATUS_EXECUTION_FAILED}) \<or>
     (a = STATUS_PASSED \<and> b \<in> {STATUS_EXECUTED, STATUS_EXECUTION_FAILED})"

lemma status_le_refl [simp]: "status_le a a"
  by (simp add: status_le_def)

lemma status_le_trans: "status_le a b \<Longrightarrow> status_le b c \<Longrightarrow> status_le a c"
  by (auto simp: status_le_def)

lemma valid_transition_le: "valid_status_transition a b \<Longrightarrow> status_le a b"
  by (auto simp: valid_status_transition_def status_le_def)

text \<open>The order is the reflexive transitive closure of the transition table.\<close>

lemma status_le_closure: "valid_status_transition\<^sup>*\<^sup>* a b \<longleftrightarrow> status_le a b"
proof
  assume "valid_status_transition\<^sup>*\<^sup>* a b"
  then show "status_le a b"
    by (induction rule: rtranclp_induct) (auto intro: status_le_trans valid_transition_le)
next
  have t: "valid_status_transition STATUS_VOTING STATUS_PASSED" "valid_status_transition STATUS_VOTING STATUS_REJECTED"
    "valid_status_transition STATUS_PASSED STATUS_EXECUTED"
    "valid_status_transition STATUS_PASSED STATUS_EXECUTION_FAILED"
    by (simp_all add: valid_status_transition_def)
  let ?R = "valid_status_transition\<^sup>*\<^sup>*"
  have one: "?R STATUS_VOTING STATUS_PASSED" "?R STATUS_VOTING STATUS_REJECTED"
    "?R STATUS_PASSED STATUS_EXECUTED" "?R STATUS_PASSED STATUS_EXECUTION_FAILED"
    by (rule r_into_rtranclp, rule t)+
  have two: "?R STATUS_VOTING STATUS_EXECUTED" "?R STATUS_VOTING STATUS_EXECUTION_FAILED"
    by (rule rtranclp_trans [OF one(1) one(3)]) (rule rtranclp_trans [OF one(1) one(4)])
  assume "status_le a b"
  with one two show "?R a b" by (auto simp: status_le_def)
qed

lemma terminal_no_transition: "is_terminal_status a \<Longrightarrow> \<not> valid_status_transition a b"
  by (auto simp: is_terminal_status_def valid_status_transition_def)

lemma terminal_le: "is_terminal_status a \<Longrightarrow> status_le a b \<longleftrightarrow> b = a"
  by (auto simp: is_terminal_status_def status_le_def)

section \<open>Evolution\<close>

definition prop_evolves :: "proposal \<Rightarrow> proposal \<Rightarrow> bool" where
  "prop_evolves p p' \<longleftrightarrow>
     status_le (p_status p) (p_status p') \<and>
     p_kind p' = p_kind p \<and>
     p_actor_cid_number p' = p_actor_cid_number p \<and>
     p_execution_account_id p' = p_execution_account_id p \<and>
     p_subject_cid_numbers p' = p_subject_cid_numbers p \<and>
     (p_status p \<noteq> STATUS_VOTING \<longrightarrow>
        p_stage p' = p_stage p \<and> p_internal_code p' = p_internal_code p \<and>
        p_start p' = p_start p \<and> p_end p' = p_end p)"

lemma prop_evolves_refl [simp]: "prop_evolves p p"
  by (simp add: prop_evolves_def)

lemma status_le_decided: "status_le a b \<Longrightarrow> a \<noteq> STATUS_VOTING \<Longrightarrow> b \<noteq> STATUS_VOTING"
  by (auto simp: status_le_def)

lemma prop_evolves_trans: "prop_evolves p q \<Longrightarrow> prop_evolves q r \<Longrightarrow> prop_evolves p r"
  unfolding prop_evolves_def using status_le_trans status_le_decided by metis

lemma prop_evolves_status:
  "valid_status_transition (p_status p) st \<Longrightarrow> prop_evolves p (p\<lparr>p_status := st\<rparr>)"
  by (simp add: prop_evolves_def valid_transition_le)

text \<open>One id: an unused id that has been passed stays unused; a proposal evolves or is removed.\<close>

fun slot_evolves :: "proposal option \<Rightarrow> proposal option \<Rightarrow> bool" where
  "slot_evolves None q = (q = None)"
| "slot_evolves (Some p) None = True"
| "slot_evolves (Some p) (Some q) = prop_evolves p q"

lemma slot_evolves_refl [simp]: "slot_evolves p p"
  by (cases p) simp_all

lemma slot_evolves_trans: "slot_evolves p q \<Longrightarrow> slot_evolves q r \<Longrightarrow> slot_evolves p r"
  by (cases p; cases q; cases r) (auto intro: prop_evolves_trans)

lemma slot_evolves_None [simp]: "slot_evolves p None"
  by (cases p) simp_all

definition evolves :: "'x engine \<Rightarrow> 'x engine \<Rightarrow> bool" where
  "evolves s s' \<longleftrightarrow>
     next_proposal_id (ids s) \<le> next_proposal_id (ids s') \<and> block_number s' = block_number s \<and>
     (\<forall>i < next_proposal_id (ids s). slot_evolves (proposals s i) (proposals s' i))"

lemma evolves_refl [simp]: "evolves s s"
  by (simp add: evolves_def)

lemma evolves_trans: "evolves s t \<Longrightarrow> evolves t u \<Longrightarrow> evolves s u"
  unfolding evolves_def by (metis le_trans less_le_trans slot_evolves_trans)

section \<open>The invariant\<close>

definition settled :: "'x engine \<Rightarrow> proposal_id \<Rightarrow> bool" where
  "settled s i \<longleftrightarrow> (\<forall>p. proposals s i = Some p \<longrightarrow> is_terminal_status (p_status p))"

definition doomed :: "cleanup_storage \<Rightarrow> proposal_id set" where
  "doomed c = sc_proposal_id ` set (q_list (scheduled_cleanups c)) \<union>
     set (q_list (pending_cleanup_queue c)) \<union> dom (pending_proposal_cleanups c)"

definition engine_inv :: "'x env \<Rightarrow> 'x engine \<Rightarrow> bool" where
  "engine_inv env s \<longleftrightarrow>
     lock_inv (MaxActiveProposals (cfg env)) (locks s) \<and> cleanup_inv (block_number s) (cleanup s) \<and>
     callback_execution_scopes s = {} \<and>
     (\<forall>i. proposals s i \<noteq> None \<longrightarrow> i < next_proposal_id (ids s)) \<and>
     (\<forall>i \<in> doomed (cleanup s). i < next_proposal_id (ids s) \<and> settled s i)"

lemma engine_inv_genesis: "engine_inv env (engine_genesis x)"
  by (simp add: engine_inv_def engine_genesis_def lock_inv_genesis cleanup_inv_genesis doomed_def
      cleanup_inv_genesis [unfolded cleanup_storage_genesis_def] cleanup_storage_genesis_def)

lemma engine_inv_fresh: "engine_inv env s \<Longrightarrow> next_proposal_id (ids s) \<le> i \<Longrightarrow> proposals s i = None"
  unfolding engine_inv_def by (metis not_le)

text \<open>What the invariant and evolution do not look at.\<close>

lemma settled_frame [simp]:
  "settled (s\<lparr>callback_execution_scopes := c\<rparr>) = settled s"
  "settled (s\<lparr>proposals_by_expiry := b\<rparr>) = settled s"
  "settled (s\<lparr>pending_expiry_bucket := pb\<rparr>) = settled s"
  "settled (s\<lparr>ids := d\<rparr>) = settled s"
  "settled (s\<lparr>locks := l\<rparr>) = settled s"
  "settled (s\<lparr>cleanup := cl\<rparr>) = settled s"
  "settled (s\<lparr>snapshots := sn\<rparr>) = settled s"
  "settled (s\<lparr>indexes := ix\<rparr>) = settled s"
  "settled (s\<lparr>records := r\<rparr>) = settled s"
  "settled (s\<lparr>queues := q\<rparr>) = settled s"
  "settled (s\<lparr>internal := iv\<rparr>) = settled s"
  "settled (s\<lparr>joint := jv\<rparr>) = settled s"
  "settled (s\<lparr>events := ev\<rparr>) = settled s"
  "settled (s\<lparr>ext := x\<rparr>) = settled s"
  "settled (s\<lparr>legislation := lv\<rparr>) = settled s"
  "settled (s\<lparr>election := el\<rparr>) = settled s"
  by (simp_all add: settled_def fun_eq_iff)

lemma engine_inv_frame [simp]:
  "engine_inv env (s\<lparr>proposals_by_expiry := b\<rparr>) = engine_inv env s"
  "engine_inv env (s\<lparr>pending_expiry_bucket := pb\<rparr>) = engine_inv env s"
  "engine_inv env (s\<lparr>snapshots := sn\<rparr>) = engine_inv env s"
  "engine_inv env (s\<lparr>indexes := ix\<rparr>) = engine_inv env s"
  "engine_inv env (s\<lparr>records := r\<rparr>) = engine_inv env s"
  "engine_inv env (s\<lparr>queues := q\<rparr>) = engine_inv env s"
  "engine_inv env (s\<lparr>internal := iv\<rparr>) = engine_inv env s"
  "engine_inv env (s\<lparr>joint := jv\<rparr>) = engine_inv env s"
  "engine_inv env (s\<lparr>events := ev\<rparr>) = engine_inv env s"
  "engine_inv env (s\<lparr>ext := x\<rparr>) = engine_inv env s"
  "engine_inv env (s\<lparr>legislation := lv\<rparr>) = engine_inv env s"
  "engine_inv env (s\<lparr>election := el\<rparr>) = engine_inv env s"
  by (simp_all add: engine_inv_def)

lemma evolves_frame [simp]:
  "evolves s0 (s\<lparr>callback_execution_scopes := c\<rparr>) = evolves s0 s"
  "evolves s0 (s\<lparr>proposals_by_expiry := b\<rparr>) = evolves s0 s"
  "evolves s0 (s\<lparr>pending_expiry_bucket := pb\<rparr>) = evolves s0 s"
  "evolves s0 (s\<lparr>locks := l\<rparr>) = evolves s0 s"
  "evolves s0 (s\<lparr>cleanup := cl\<rparr>) = evolves s0 s"
  "evolves s0 (s\<lparr>snapshots := sn\<rparr>) = evolves s0 s"
  "evolves s0 (s\<lparr>indexes := ix\<rparr>) = evolves s0 s"
  "evolves s0 (s\<lparr>records := r\<rparr>) = evolves s0 s"
  "evolves s0 (s\<lparr>queues := q\<rparr>) = evolves s0 s"
  "evolves s0 (s\<lparr>internal := iv\<rparr>) = evolves s0 s"
  "evolves s0 (s\<lparr>joint := jv\<rparr>) = evolves s0 s"
  "evolves s0 (s\<lparr>events := ev\<rparr>) = evolves s0 s"
  "evolves s0 (s\<lparr>ext := x\<rparr>) = evolves s0 s"
  "evolves s0 (s\<lparr>legislation := lv\<rparr>) = evolves s0 s"
  "evolves s0 (s\<lparr>election := el\<rparr>) = evolves s0 s"
  by (simp_all add: evolves_def)

text \<open>The combination every operation preserves, relative to a starting state.\<close>

definition sound_from :: "'x env \<Rightarrow> 'x engine \<Rightarrow> 'x engine \<Rightarrow> bool" where
  "sound_from env s0 s \<longleftrightarrow> engine_inv env s \<and> evolves s0 s"

lemma sound_from_refl: "engine_inv env s \<Longrightarrow> sound_from env s s"
  by (simp add: sound_from_def)

lemma sound_from_trans: "sound_from env s0 s \<Longrightarrow> sound_from env s t \<Longrightarrow> sound_from env s0 t"
  unfolding sound_from_def by (blast intro: evolves_trans)

lemma sound_from_inv: "sound_from env s0 s \<Longrightarrow> engine_inv env s"
  by (simp add: sound_from_def)

lemma sound_from_frame [simp]:
  "sound_from env s0 (s\<lparr>proposals_by_expiry := b\<rparr>) = sound_from env s0 s"
  "sound_from env s0 (s\<lparr>pending_expiry_bucket := pb\<rparr>) = sound_from env s0 s"
  "sound_from env s0 (s\<lparr>snapshots := sn\<rparr>) = sound_from env s0 s"
  "sound_from env s0 (s\<lparr>indexes := ix\<rparr>) = sound_from env s0 s"
  "sound_from env s0 (s\<lparr>records := r\<rparr>) = sound_from env s0 s"
  "sound_from env s0 (s\<lparr>queues := q\<rparr>) = sound_from env s0 s"
  "sound_from env s0 (s\<lparr>internal := iv\<rparr>) = sound_from env s0 s"
  "sound_from env s0 (s\<lparr>joint := jv\<rparr>) = sound_from env s0 s"
  "sound_from env s0 (s\<lparr>events := ev\<rparr>) = sound_from env s0 s"
  "sound_from env s0 (s\<lparr>ext := x\<rparr>) = sound_from env s0 s"
  "sound_from env s0 (s\<lparr>legislation := lv\<rparr>) = sound_from env s0 s"
  "sound_from env s0 (s\<lparr>election := el\<rparr>) = sound_from env s0 s"
  by (simp_all add: sound_from_def)

lemma sound_from_event [simp]: "sound_from env s0 (deposit_event e s) = sound_from env s0 s"
  by (simp add: deposit_event_def)

lemma sound_from_locks:
  "sound_from env s0 s \<Longrightarrow> lock_inv (MaxActiveProposals (cfg env)) l \<Longrightarrow> sound_from env s0 (s\<lparr>locks := l\<rparr>)"
  by (simp add: sound_from_def engine_inv_def)

lemma sound_from_lock_inv: "sound_from env s0 s \<Longrightarrow> lock_inv (MaxActiveProposals (cfg env)) (locks s)"
  by (simp add: sound_from_def engine_inv_def)

section \<open>Success-only reasoning inside transactions\<close>

definition on_ok :: "('s \<Rightarrow> bool) \<Rightarrow> ('e, 'a, 's) outcome \<Rightarrow> bool" where
  "on_ok P m \<longleftrightarrow> (\<forall>a s. m = (Inr a, s) \<longrightarrow> P s)"

named_theorems on_ok_intros

lemma on_ok_Inl [simp, intro]: "on_ok P (Inl e, s)"
  by (simp add: on_ok_def)

lemma on_ok_Inr [simp]: "on_ok P (Inr a, s) \<longleftrightarrow> P s"
  by (simp add: on_ok_def)

lemma on_ok_and_then [on_ok_intros]:
  "on_ok Q m \<Longrightarrow> (\<And>a s. m = (Inr a, s) \<Longrightarrow> Q s \<Longrightarrow> on_ok P (f a s)) \<Longrightarrow> on_ok P (and_then m f)"
  by (cases m rule: outcome_cases) auto

lemma on_ok_ensure [on_ok_intros]: "(c \<Longrightarrow> on_ok P (k s)) \<Longrightarrow> on_ok P (ensure c e s k)"
  by (simp add: ensure_def)

lemma on_ok_ok_or [on_ok_intros]: "(\<And>a. x = Some a \<Longrightarrow> on_ok P (k a)) \<Longrightarrow> on_ok P (ok_or x e s k)"
  by (cases x) auto

lemma on_ok_with_transaction [on_ok_intros]: "on_ok P (f s) \<Longrightarrow> on_ok P (with_transaction f s)"
  by (simp add: on_ok_def)

lemma on_ok_keeps: "keeps P m \<Longrightarrow> on_ok P m"
  by (cases m rule: outcome_cases) auto

lemma keeps_transaction_on_ok: "P s \<Longrightarrow> on_ok P (f s) \<Longrightarrow> keeps P (with_transaction f s)"
  by (rule keeps_with_transaction_ok) (auto simp: on_ok_def)

lemma on_ok_zoom [on_ok_intros]: "on_ok (\<lambda>p. P (put p s)) m \<Longrightarrow> on_ok P (zoom err put m s)"
  by (cases m rule: outcome_cases) auto

lemma on_ok_pure_result [on_ok_intros]: "P s \<Longrightarrow> on_ok P (pure_result r s)"
  by (cases r) (simp_all add: pure_result_def)

lemma on_okD: "on_ok P m \<Longrightarrow> m = (Inr a, s) \<Longrightarrow> P s"
  by (simp add: on_ok_def)

lemma on_ok_result [simp]: "on_ok P (r, s) \<longleftrightarrow> (case r of Inl _ \<Rightarrow> True | Inr _ \<Rightarrow> P s)"
  by (cases r) simp_all

lemma on_ok_mono: "on_ok P m \<Longrightarrow> (\<And>s. P s \<Longrightarrow> Q s) \<Longrightarrow> on_ok Q m"
  by (auto simp: on_ok_def)

section \<open>Interface of a vote track\<close>

text \<open>
  What the engine relies on: the side hooks of a track change no engine storage but the ledgers
  of the vote pallets and the other pallets' storage.
\<close>

definition same_core :: "'x engine \<Rightarrow> 'x engine \<Rightarrow> bool" where
  "same_core s s' \<longleftrightarrow>
     block_number s' = block_number s \<and> proposals s' = proposals s \<and>
     callback_execution_scopes s' = callback_execution_scopes s \<and>
     proposals_by_expiry s' = proposals_by_expiry s \<and>
     pending_expiry_bucket s' = pending_expiry_bucket s \<and>
     ids s' = ids s \<and> locks s' = locks s \<and> cleanup s' = cleanup s \<and> snapshots s' = snapshots s \<and>
     indexes s' = indexes s \<and> records s' = records s \<and> queues s' = queues s \<and> events s' = events s"

lemma same_core_refl [simp]: "same_core s s"
  by (simp add: same_core_def)

lemma same_core_trans: "same_core s t \<Longrightarrow> same_core t u \<Longrightarrow> same_core s u"
  by (simp add: same_core_def)

lemma same_core_ledgers [simp]:
  "same_core s (s\<lparr>internal := iv\<rparr>)" "same_core s (s\<lparr>joint := jv\<rparr>)" "same_core s (s\<lparr>legislation := lv\<rparr>)"
  "same_core s (s\<lparr>election := el\<rparr>)" "same_core s (s\<lparr>ext := x\<rparr>)"
  by (simp_all add: same_core_def)

lemma sound_from_same_core: "same_core s s' \<Longrightarrow> sound_from env s0 s' = sound_from env s0 s"
  by (simp add: sound_from_def engine_inv_def evolves_def settled_def same_core_def)

locale vote_track =
  fixes t :: "'x track"
  assumes executed_frame: "same_core s (snd (on_proposal_executed t k i s))"
    and terminal_frame: "same_core s (snd (on_proposal_terminal t k i st s))"
    and chunk_frame: "same_core s (snd (cleanup_chunk t k i n s))"
    and cleanup_frame: "same_core s (snd (cleanup_terminal t k i s))"
begin

lemmas frames = executed_frame terminal_frame chunk_frame cleanup_frame

end

definition tracks_framed :: "'x env \<Rightarrow> bool" where
  "tracks_framed env \<longleftrightarrow> (\<forall>t \<in> set (tracks env). vote_track t)"

lemma tracks_executed_frame:
  "\<forall>t \<in> set ts. vote_track t \<Longrightarrow> same_core s (snd (tracks_on_proposal_executed ts k i s))"
proof (induction ts arbitrary: s)
  case (Cons t ts)
  then have "same_core s (snd (on_proposal_executed t k i s))" by (simp add: vote_track.executed_frame)
  with Cons show ?case by (auto split: prod.splits option.splits intro: same_core_trans)
qed simp

lemma tracks_terminal_frame:
  "\<forall>t \<in> set ts. vote_track t \<Longrightarrow> same_core s (snd (tracks_on_proposal_terminal ts k i st s))"
proof (induction ts arbitrary: s)
  case (Cons t ts)
  then have "same_core s (snd (on_proposal_terminal t k i st s))" by (simp add: vote_track.terminal_frame)
  with Cons show ?case by (auto split: prod.splits option.splits intro: same_core_trans)
qed simp

lemma tracks_chunk_frame:
  "\<forall>t \<in> set ts. vote_track t \<Longrightarrow> same_core s (snd (tracks_cleanup_chunk ts k i n s))"
proof (induction ts arbitrary: s)
  case (Cons t ts)
  then have "same_core s (snd (cleanup_chunk t k i n s))" by (simp add: vote_track.chunk_frame)
  with Cons show ?case by (auto split: prod.splits option.splits intro: same_core_trans)
qed simp

lemma tracks_cleanup_frame:
  "\<forall>t \<in> set ts. vote_track t \<Longrightarrow> same_core s (snd (tracks_cleanup_terminal ts k i s))"
proof (induction ts arbitrary: s)
  case (Cons t ts)
  then have "same_core s (snd (cleanup_terminal t k i s))" by (simp add: vote_track.cleanup_frame)
  with Cons show ?case by (auto split: prod.splits option.splits intro: same_core_trans)
qed simp

lemma snd_track_result [simp]: "snd (track_result m) = snd m"
  by (simp add: track_result_def split: prod.splits option.splits)

section \<open>The lifecycle operations are sound\<close>

lemma set_proposal_status_ok:
  "set_proposal_status i st s = (Inr a, s') \<longleftrightarrow>
     (\<exists>p. proposals s i = Some p \<and> valid_status_transition (p_status p) st \<and>
          s' = s\<lparr>proposals := (proposals s)(i \<mapsto> p\<lparr>p_status := st\<rparr>)\<rparr>)"
  by (auto simp: set_proposal_status_def ensure_valid_status_transition_def split: if_splits)

lemma sound_from_proposal:
  assumes snd: "sound_from env s0 s" and p: "proposals s i = Some p" and ev: "prop_evolves p p'"
    and live: "\<not> is_terminal_status (p_status p) \<or> p_status p' = p_status p"
  shows "sound_from env s0 (s\<lparr>proposals := (proposals s)(i \<mapsto> p')\<rparr>)"
proof -
  let ?s = "s\<lparr>proposals := (proposals s)(i \<mapsto> p')\<rparr>"
  from snd have inv: "engine_inv env s" and e: "evolves s0 s" by (simp_all add: sound_from_def)
  have "settled ?s j" if "j \<in> doomed (cleanup s)" for j
    using inv that p live by (auto simp: engine_inv_def settled_def)
  with inv p have "engine_inv env ?s" by (auto simp: engine_inv_def)
  moreover have "evolves s ?s" using p ev by (auto simp: evolves_def)
  ultimately show ?thesis using e by (auto simp: sound_from_def intro: evolves_trans)
qed

lemma sound_from_status:
  "sound_from env s0 s \<Longrightarrow> proposals s i = Some p \<Longrightarrow> valid_status_transition (p_status p) st \<Longrightarrow>
     sound_from env s0 (s\<lparr>proposals := (proposals s)(i \<mapsto> p\<lparr>p_status := st\<rparr>)\<rparr>)"
  by (rule sound_from_proposal) (auto simp: prop_evolves_status terminal_no_transition)

lemma scope_state:
  assumes "callback_execution_scopes s = {}" "with_callback_execution_scope i f s = (r, s')"
  shows "s' = s\<lparr>ext := ext s'\<rparr>"
  using assms by (auto simp: with_callback_execution_scope_def Let_def split: prod.splits)

lemma sound_scopes: "sound_from env s0 s \<Longrightarrow> callback_execution_scopes s = {}"
  by (simp add: sound_from_def engine_inv_def)

lemma sound_scope:
  "sound_from env s0 s \<Longrightarrow> with_callback_execution_scope i f s = (r, s') \<Longrightarrow> sound_from env s0 s'"
  using scope_state [OF sound_scopes] by (metis sound_from_frame(10))

lemma scope_proposals:
  "with_callback_execution_scope i f s = (r, s') \<Longrightarrow>
     proposals s' = proposals s \<and> ids s' = ids s \<and> cleanup s' = cleanup s \<and> queues s' = queues s \<and>
     locks s' = locks s \<and> block_number s' = block_number s \<and> events s' = events s"
  by (auto simp: with_callback_execution_scope_def Let_def split: prod.splits)

lemma sound_queue_terminal_cleanup [simp]:
  "sound_from env s0 (queue_terminal_cleanup i s) = sound_from env s0 s"
  "sound_from env s0 (remove_pending_terminal_cleanup i s) = sound_from env s0 s"
  by (simp_all add: queue_terminal_cleanup_def remove_pending_terminal_cleanup_def Let_def)

lemma queue_terminal_cleanup_proposals [simp]:
  "proposals (queue_terminal_cleanup i s) = proposals s"
  "proposals (remove_pending_terminal_cleanup i s) = proposals s"
  "ids (queue_terminal_cleanup i s) = ids s"
  "ids (remove_pending_terminal_cleanup i s) = ids s"
  by (simp_all add: queue_terminal_cleanup_def remove_pending_terminal_cleanup_def Let_def deposit_event_def)

lemma sound_notify_or_queue:
  "sound_from env s0 s \<Longrightarrow> sound_from env s0 (notify_execution_failed_terminal_or_queue env' i k s)"
  by (auto simp: notify_execution_failed_terminal_or_queue_def split: prod.splits sum.splits
      dest: sound_scope)

lemma notify_or_queue_proposals [simp]:
  "proposals (notify_execution_failed_terminal_or_queue env i k s) = proposals s"
  "ids (notify_execution_failed_terminal_or_queue env i k s) = ids s"
  by (auto simp: notify_execution_failed_terminal_or_queue_def split: prod.splits sum.splits
      dest: scope_proposals)

lemma sound_schedule_cleanup:
  assumes snd: "sound_from env s0 s" and i: "i < next_proposal_id (ids s)" "settled s i"
    and sch: "schedule_cleanup i (block_number s) (cleanup s) = (Inr a, c)"
  shows "sound_from env s0 (s\<lparr>cleanup := c\<rparr>)"
proof -
  from snd have inv: "engine_inv env s" and e: "evolves s0 s" by (simp_all add: sound_from_def)
  from inv have ci: "cleanup_inv (block_number s) (cleanup s)" by (simp add: engine_inv_def)
  have "cleanup_inv (block_number s) c"
    using cleanup_inv_schedule [OF ci, of i] sch by simp
  moreover from sch obtain q where q: "c = (cleanup s)\<lparr>scheduled_cleanups := q\<rparr>"
    "q_list q = q_list (scheduled_cleanups (cleanup s)) @
       [\<lparr>cleanup_at = bn_add (block_number s) retention_blocks, sc_proposal_id = i\<rparr>]"
    using ci by (auto simp: schedule_cleanup_def cleanup_inv_def q_push_list simp del: retention_blocks_value)
  from q have "doomed c = insert i (doomed (cleanup s))" by (auto simp: doomed_def)
  ultimately have "engine_inv env (s\<lparr>cleanup := c\<rparr>)" using inv i by (auto simp: engine_inv_def)
  with e show ?thesis by (simp add: sound_from_def)
qed

lemma sound_release:
  "sound_from env s0 s \<Longrightarrow> sound_from env s0 (s\<lparr>locks := release_internal_proposal_mutexes i (locks s)\<rparr>)"
  by (simp add: sound_from_locks lock_inv_release sound_from_lock_inv)

lemma sound_track_terminal:
  assumes "tracks_framed env" "sound_from env s0 s"
  shows "keeps (sound_from env s0) (track_result (tracks_on_proposal_terminal (tracks env) k i st s))"
  using assms tracks_terminal_frame [of "tracks env" s k i st]
  by (simp add: keeps_def tracks_framed_def sound_from_same_core)

lemma sound_track_executed:
  assumes "tracks_framed env" "sound_from env s0 s"
  shows "keeps (sound_from env s0) (track_result (tracks_on_proposal_executed (tracks env) k i s))"
  using assms tracks_executed_frame [of "tracks env" s k i]
  by (simp add: keeps_def tracks_framed_def sound_from_same_core)

text \<open>The two halves of the terminal side effects: bookkeeping, then the track.\<close>

lemma sound_apply_terminal:
  assumes tf: "tracks_framed env" and s: "sound_from env s0 s"
    and i: "i < next_proposal_id (ids s)" "settled s i"
  shows "on_ok (sound_from env s0) (apply_terminal_side_effects env i st s)"
  unfolding apply_terminal_side_effects_def
proof (rule on_ok_ensure, rule on_ok_and_then [where Q = "sound_from env s0"], goal_cases)
  case 1
  show ?case
    by (rule on_ok_zoom, unfold on_ok_def) (blast intro: sound_schedule_cleanup [OF s i])
next
  case (2 a t)
  have fin: "on_ok (sound_from env s0)
      (and_then (track_result (tracks_on_proposal_terminal (tracks env) k i st' u)) (\<lambda>_ s3.
         if b then (Inr (), s3\<lparr>locks := release_internal_proposal_mutexes i (locks s3)\<rparr>) else (Inr (), s3)))"
    if "sound_from env s0 u" for k b st' u
    by (rule on_ok_and_then [OF on_ok_keeps [OF sound_track_terminal [OF tf that]]])
       (simp add: sound_release)
  from 2 show ?case
    by (auto simp: Let_def fin sound_notify_or_queue split: option.splits)
qed

lemma sound_finish_terminal:
  assumes "tracks_framed env" "sound_from env s0 s" "i < next_proposal_id (ids s)" "settled s i"
  shows "on_ok (sound_from env s0) (finish_terminal_status env i st s)"
  unfolding finish_terminal_status_def
  by (rule on_ok_and_then [OF sound_apply_terminal [OF assms]]) simp

section \<open>Retry bookkeeping touches only the queues\<close>

lemma sound_queue_deadline:
  "sound_from env s0 s \<Longrightarrow> keeps (sound_from env s0) (queue_execution_retry_deadline env' i b s)"
  by (auto simp: queue_execution_retry_deadline_def ok_or_def split: option.splits)

lemma sound_reschedule_loop:
  "sound_from env s0 s \<Longrightarrow> keeps (sound_from env s0) (reschedule_loop n env' i b s)"
proof (induction n arbitrary: b s)
  case (Suc n)
  then show ?case using sound_queue_deadline [OF Suc.prems, of env' i b]
    by (auto split: prod.splits sum.splits)
qed simp

lemma sound_reschedule:
  "sound_from env s0 s \<Longrightarrow> keeps (sound_from env s0) (reschedule_execution_retry_deadline env' i b s)"
  by (simp add: reschedule_execution_retry_deadline_def sound_reschedule_loop)

lemma sound_queue_expiration [simp]:
  "sound_from env s0 (queue_pending_retry_expiration i b s) = sound_from env s0 s"
  by (simp add: queue_pending_retry_expiration_def)

lemma sound_reschedule_or_queue:
  "sound_from env s0 s \<Longrightarrow> sound_from env s0 (reschedule_or_queue env' i b d s)"
  using sound_reschedule [of env s0 s env' i b]
  by (auto simp: reschedule_or_queue_def split: prod.splits sum.splits)

lemma sound_schedule_retry:
  "sound_from env s0 s \<Longrightarrow> keeps (sound_from env s0) (schedule_execution_retry env' i s)"
  by (simp add: schedule_execution_retry_def Let_def sound_reschedule_or_queue)

lemma sound_terminal_cleanup_loop:
  "sound_from env s0 s \<Longrightarrow> sound_from env s0 (snd (terminal_cleanup_loop env' is w s))"
proof (induction "is" arbitrary: w s)
  case (Cons i rest)
  show ?case unfolding terminal_cleanup_loop.simps Let_def
    by (rule Cons.IH)
       (use Cons.prems in \<open>auto split: option.splits prod.splits sum.splits dest: sound_scope\<close>)
qed simp

lemma sound_terminal_cleanups:
  "sound_from env s0 s \<Longrightarrow> sound_from env s0 (snd (process_pending_terminal_cleanups env' s))"
  by (simp add: process_pending_terminal_cleanups_def Let_def sound_terminal_cleanup_loop)

section \<open>Setting a status is sound\<close>

lemma lock_inv_remove_actives:
  "lock_inv ma l \<Longrightarrow> lock_inv ma (fold (\<lambda>subject. remove_active_proposal subject i) sjs l)"
  by (induction sjs arbitrary: l) (simp_all add: lock_inv_remove_active)

lemma mark_passed_sound [simp]:
  "sound_from env s0 (mark_proposal_passed_at i b s) = sound_from env s0 s"
  "proposals (mark_proposal_passed_at i b s) = proposals s"
  "ids (mark_proposal_passed_at i b s) = ids s"
  "locks (mark_proposal_passed_at i b s) = locks s"
  "queues (mark_proposal_passed_at i b s) = queues s"
  "cleanup (mark_proposal_passed_at i b s) = cleanup s"
  "block_number (mark_proposal_passed_at i b s) = block_number s"
  by (simp_all add: mark_proposal_passed_at_def split: option.splits)

lemma write_status_fields [simp]:
  "proposals (write_status i p st s) = (proposals s)(i \<mapsto> p\<lparr>p_status := st\<rparr>)"
  "ids (write_status i p st s) = ids s" "locks (write_status i p st s) = locks s"
  "queues (write_status i p st s) = queues s" "cleanup (write_status i p st s) = cleanup s"
  "block_number (write_status i p st s) = block_number s"
  by (simp_all add: write_status_def Let_def)

lemma free_active_slots_fields [simp]:
  "proposals (free_active_slots i p st s) = proposals s" "ids (free_active_slots i p st s) = ids s"
  "cleanup (free_active_slots i p st s) = cleanup s"
  "block_number (free_active_slots i p st s) = block_number s"
  "pending_proposal_executions (queues (free_active_slots i p st s)) = pending_proposal_executions (queues s)"
  by (simp_all add: free_active_slots_def)

lemma announce_status_fields:
  "announce_status env i p st s = (r, s') \<Longrightarrow> proposals s' = proposals s \<and> ids s' = ids s"
  by (auto simp: announce_status_def Let_def deposit_event_def dest: scope_proposals
      split: if_splits and_then_splits)

lemma sound_write_status:
  assumes "sound_from env s0 s" "proposals s i = Some p" "valid_status_transition (p_status p) st"
  shows "sound_from env s0 (write_status i p st s)"
  using sound_from_status [of env s0 "mark_proposal_passed_at i (block_number s) s" i p st]
    sound_from_status [OF assms] assms by (auto simp: write_status_def Let_def)

lemma sound_free_slots: "sound_from env s0 s \<Longrightarrow> sound_from env s0 (free_active_slots i p st s)"
  by (simp add: free_active_slots_def sound_from_locks lock_inv_remove_actives sound_from_lock_inv)

lemma keeps_scope:
  "sound_from env s0 s \<Longrightarrow> keeps (sound_from env s0) (with_callback_execution_scope i f s)"
  by (cases "with_callback_execution_scope i f s") (auto dest: sound_scope)

lemma sound_announce:
  assumes "sound_from env s0 s"
  shows "keeps (sound_from env s0) (announce_status env' i p st s)"
proof -
  have "keeps (sound_from env s0) (and_then (with_callback_execution_scope i f s) (\<lambda>_ s. (Inr (), s)))"
    for f :: "'a engine \<Rightarrow> (dispatch_error + proposal_execution_outcome) \<times> 'a"
    by (rule keeps_and_then [OF keeps_scope [OF assms]]) simp
  with assms show ?thesis by (auto simp: announce_status_def Let_def)
qed

lemma sound_settle:
  assumes tf: "tracks_framed env" and s: "sound_from env s0 s"
  shows "on_ok (sound_from env s0) (settle_status env i p s)"
  unfolding settle_status_def Let_def
proof (rule on_ok_ok_or, rule on_ok_and_then [where Q = "sound_from env s0"], goal_cases)
  case (1 p')
  then have "i < next_proposal_id (ids s)"
    using s by (auto simp: sound_from_def engine_inv_def)
  moreover have "settled s i" if "is_terminal_status (p_status p')"
    using 1 that by (simp add: settled_def)
  ultimately show ?case
    using s by (auto intro: sound_apply_terminal [OF tf s] simp: sound_release)
qed simp

lemma sound_set_status:
  assumes tf: "tracks_framed env" and s: "sound_from env s0 s"
  shows "keeps (sound_from env s0) (set_status_and_emit env i st s)"
  unfolding set_status_and_emit_def
proof (rule keeps_transaction_on_ok [where P = "sound_from env s0"], rule s, rule on_ok_ok_or,
    rule on_ok_and_then [where Q = "\<lambda>t. t = s"], goal_cases)
  case (1 p)
  show ?case by (rule on_ok_pure_result) simp
next
  case (2 p a t)
  then have "t = s" "valid_status_transition (p_status p) st"
    by (auto simp: pure_result_def ensure_valid_status_transition_def split: if_splits)
  with 2 s have "sound_from env s0 (free_active_slots i p st (write_status i p st t))"
    by (simp add: sound_free_slots sound_write_status)
  then show ?case
    by (intro on_ok_and_then [OF on_ok_keeps [OF sound_announce]] sound_settle [OF tf])
qed

section \<open>What a status change does\<close>

lemma release_bindings [simp]: "proposal_mutex_bindings (release_internal_proposal_mutexes i l) i = []"
  by (simp add: release_internal_proposal_mutexes_def)

lemma release_active [simp]:
  "active_proposals_by_subject (release_internal_proposal_mutexes i l) = active_proposals_by_subject l"
  by (simp add: release_internal_proposal_mutexes_def)

lemma notify_or_queue_frame:
  assumes "notify_execution_failed_terminal_or_queue env i k s = s'"
  shows "proposals s' = proposals s \<and> ids s' = ids s \<and> cleanup s' = cleanup s \<and> locks s' = locks s \<and>
    block_number s' = block_number s \<and>
    proposal_execution_retry_states (queues s') = proposal_execution_retry_states (queues s) \<and>
    pending_execution_retry_expirations (queues s') = pending_execution_retry_expirations (queues s) \<and>
    pending_proposal_executions (queues s') = pending_proposal_executions (queues s)"
  using assms
  by (auto simp: notify_execution_failed_terminal_or_queue_def queue_terminal_cleanup_def
      remove_pending_terminal_cleanup_def deposit_event_def Let_def
      split: prod.splits sum.splits if_splits dest!: scope_proposals)

definition cleanup_due :: "proposal_id \<Rightarrow> block_number \<Rightarrow> scheduled_cleanup" where
  "cleanup_due i now = \<lparr>cleanup_at = bn_add now retention_blocks, sc_proposal_id = i\<rparr>"

lemma apply_terminal_effects:
  assumes tf: "tracks_framed env" and ok: "apply_terminal_side_effects env i st s = (Inr a, s')"
  shows "is_terminal_status st \<and> proposals s' = proposals s \<and> block_number s' = block_number s \<and>
    q_push (cleanup_due i (block_number s)) (scheduled_cleanups (cleanup s)) =
      Some (scheduled_cleanups (cleanup s')) \<and>
    proposal_execution_retry_states (queues s') i = None \<and>
    active_proposals_by_subject (locks s') = active_proposals_by_subject (locks s) \<and>
    (proposals s i \<noteq> None \<longrightarrow> proposal_mutex_bindings (locks s') i = [])"
proof -
  from ok obtain c where tst: "is_terminal_status st"
    and c: "schedule_cleanup i (block_number s) (cleanup s) = (Inr (), c)"
    by (auto simp: apply_terminal_side_effects_def)
  from c have push: "q_push (cleanup_due i (block_number s)) (scheduled_cleanups (cleanup s)) = Some (scheduled_cleanups c)"
    by (auto simp: schedule_cleanup_def cleanup_due_def simp del: retention_blocks_value)
  define s1 where "s1 = upd_queues (\<lambda>q. q\<lparr>
      proposal_execution_retry_states := (proposal_execution_retry_states q)(i := None),
      pending_execution_retry_expirations := kv_remove i (pending_execution_retry_expirations q),
      pending_terminal_cleanups := kv_remove i (pending_terminal_cleanups q)\<rparr>) (s\<lparr>cleanup := c\<rparr>)"
  define s2 where "s2 = (if st = STATUS_EXECUTION_FAILED then
      (case proposals s1 i of None \<Rightarrow> s1 | Some p \<Rightarrow> notify_execution_failed_terminal_or_queue env i (p_kind p) s1)
      else s1)"
  have s1: "proposals s1 = proposals s" "cleanup s1 = c" "locks s1 = locks s" "block_number s1 = block_number s"
    "proposal_execution_retry_states (queues s1) i = None"
    by (simp_all add: s1_def)
  have s2: "proposals s2 = proposals s" "cleanup s2 = c" "locks s2 = locks s" "block_number s2 = block_number s"
    "proposal_execution_retry_states (queues s2) i = None"
    using s1 notify_or_queue_frame [of env i _ s1, OF refl]
    by (auto simp: s2_def split: option.splits)
  have rest: "(case proposals s2 i of None \<Rightarrow> (Inr (), s2)
      | Some p \<Rightarrow> and_then (track_result (tracks_on_proposal_terminal (tracks env) (p_kind p) i st s2)) (\<lambda>_ s3.
          if should_release_internal_proposal_mutexes (p_kind p) (p_stage p) st
          then (Inr (), upd_locks (release_internal_proposal_mutexes i) s3) else (Inr (), s3))) = (Inr (), s')"
    using ok c tst unfolding apply_terminal_side_effects_def s2_def s1_def Let_def by simp
  show ?thesis
  proof (cases "proposals s i")
    case None
    with rest s2 tst push show ?thesis by simp
  next
    case (Some p)
    with rest s2(1) obtain s3 where s3: "track_result (tracks_on_proposal_terminal (tracks env) (p_kind p) i st s2) = (Inr (), s3)"
      and s': "s' = upd_locks (release_internal_proposal_mutexes i) s3"
      using tst by (auto simp: should_release_internal_proposal_mutexes_def is_terminal_status_def split: if_splits)
    have "same_core s2 s3"
      using tracks_terminal_frame [of "tracks env" s2 "p_kind p" i st] tf s3
      by (metis tracks_framed_def snd_track_result snd_conv)
    with s' s2 tst push show ?thesis by (simp add: same_core_def)
  qed
qed

lemma remove_actives_gone:
  "sj \<in> set sjs \<or> i \<notin> set (active_proposals_by_subject l sj) \<Longrightarrow>
     i \<notin> set (active_proposals_by_subject (fold (\<lambda>subject. remove_active_proposal subject i) sjs l) sj)"
proof (induction sjs arbitrary: l)
  case (Cons x xs)
  then show ?case
    by (cases "sj = x") (auto simp: remove_active_proposal_def)
qed simp

lemma set_status_ok:
  assumes "set_status_and_emit env i st s = (Inr a, s')"
  obtains p t where "proposals s i = Some p" "valid_status_transition (p_status p) st"
    "announce_status env i p st (free_active_slots i p st (write_status i p st s)) = (Inr (), t)"
    "settle_status env i p t = (Inr (), s')"
  using assms
  by (auto simp: set_status_and_emit_def pure_result_def ensure_valid_status_transition_def split: if_splits)

lemma announce_frame:
  assumes "announce_status env i p st s = (r, t)"
  shows "proposals t = proposals s \<and> locks t = locks s \<and> block_number t = block_number s \<and> cleanup t = cleanup s"
  using assms by (auto simp: announce_status_def Let_def deposit_event_def dest: scope_proposals
      split: if_splits and_then_splits)

text \<open>
  C22. Setting a status is atomic and complete. If \<open>set_status_and_emit\<close> fails, nothing has
  changed. If it succeeds, the transition was in the table and only this proposal's entry
  changed; its active slots are free; and when the new status is terminal, its mutex bindings are
  released, its retry state is gone and its cleanup is queued, as the last entry, for 90 days
  (21600 blocks) from now, while a new PASSED status puts it, due at once, in the execution queue.
\<close>

theorem set_status_effects:
  assumes "tracks_framed env" "set_status_and_emit env i st s = (r, s')"
  shows "case r of
      Inl e \<Rightarrow> s' = s
    | Inr _ \<Rightarrow> \<exists>p. proposals s i = Some p \<and> valid_status_transition (p_status p) st \<and>
        proposals s' = (proposals s)(i \<mapsto> p\<lparr>p_status := st\<rparr>) \<and>
        (\<forall>sj \<in> set (subject_keys p). i \<notin> set (active_proposals_by_subject (locks s') sj)) \<and>
        (is_terminal_status st \<longrightarrow>
           proposal_mutex_bindings (locks s') i = [] \<and>
           proposal_execution_retry_states (queues s') i = None \<and>
           q_push (cleanup_due i (block_number s)) (scheduled_cleanups (cleanup s)) =
             Some (scheduled_cleanups (cleanup s'))) \<and>
        (st = STATUS_PASSED \<longrightarrow>
           map_of (pending_proposal_executions (queues s')) i =
             Some \<lparr>attempts = 0, next_attempt_at = block_number s\<rparr>)"
proof (cases r)
  case (Inl e)
  with assms(2) have "s' = s" unfolding set_status_and_emit_def by (auto dest: with_transaction_error)
  with Inl show ?thesis by simp
next
  case (Inr u)
  with assms(2) obtain p t where p: "proposals s i = Some p" "valid_status_transition (p_status p) st"
    and t: "announce_status env i p st (free_active_slots i p st (write_status i p st s)) = (Inr (), t)"
    and fin: "settle_status env i p t = (Inr (), s')" by (auto elim: set_status_ok)
  let ?m = "free_active_slots i p st (write_status i p st s)"
  have t_core: "proposals t = (proposals s)(i \<mapsto> p\<lparr>p_status := st\<rparr>)" "locks t = locks ?m"
    "block_number t = block_number s" "cleanup t = cleanup s"
    using announce_frame [OF t] by simp_all
  have not_voting: "st \<noteq> STATUS_VOTING" using p(2) by (auto simp: valid_status_transition_def)
  have slots: "\<forall>sj \<in> set (subject_keys p). i \<notin> set (active_proposals_by_subject (locks t) sj)"
    using not_voting t_core(2) by (simp add: free_active_slots_def remove_actives_gone)
  have queued: "map_of (pending_proposal_executions (queues t)) i =
      Some \<lparr>attempts = 0, next_attempt_at = block_number s\<rparr>" if "st = STATUS_PASSED"
    using t p(2) that by (auto simp: announce_status_def Let_def deposit_event_def valid_status_transition_def)
  show ?thesis
  proof (cases "is_terminal_status st")
    case True
    with fin t_core(1) obtain w where w: "apply_terminal_side_effects env i st t = (Inr (), w)"
      and s': "s' = deposit_event (ProposalFinalized i st) w"
      by (auto simp: settle_status_def)
    from apply_terminal_effects [OF assms(1) w] s' t_core p slots True Inr show ?thesis
      by (auto simp: deposit_event_def is_terminal_status_def)
  next
    case False
    with fin t_core have "s' = deposit_event (ProposalFinalized i st) t \<or>
        s' = deposit_event (ProposalFinalized i st) (upd_locks (release_internal_proposal_mutexes i) t)"
      by (auto simp: settle_status_def split: if_splits)
    with False p t_core slots queued Inr show ?thesis by (auto simp: deposit_event_def)
  qed
qed

text \<open>A track without ledgers, and the sample proposal in the voting stage.\<close>

definition idle_track :: "'x track" where
  "idle_track = \<lparr>handles = (\<lambda>_. True), on_proposal_executed = (\<lambda>_ _ s. (Some (Inr ()), s)),
     on_proposal_terminal = (\<lambda>_ _ _ s. (Some (Inr ()), s)),
     cleanup_chunk = (\<lambda>_ _ _ s. (Some (0, False), s)), cleanup_terminal = (\<lambda>_ _ s. (Some (), s)),
     timeout_weight = (\<lambda>_. Some weight_zero), cleanup_chunk_weight = (\<lambda>_ _. Some weight_zero),
     cleanup_terminal_weight = (\<lambda>_. Some weight_zero)\<rparr>"

lemma idle_track_framed: "vote_track idle_track"
  by unfold_locales (simp_all add: idle_track_def)

definition idle_env :: "unit env" where
  "idle_env = test_env\<lparr>tracks := [idle_track]\<rparr>"

lemma idle_env_simps [simp]:
  "cfg idle_env = test_config" "tracks idle_env = [idle_track]"
  by (simp_all add: idle_env_def test_env_def)

lemma idle_env_framed: "tracks_framed idle_env"
  by (simp add: tracks_framed_def idle_env_def idle_track_framed)

definition sample_state :: "u8 \<Rightarrow> unit engine" where
  "sample_state st = (engine_genesis ())\<lparr>
     proposals := [0 \<mapsto> sample_proposal\<lparr>p_status := st\<rparr>],
     ids := id_storage_genesis\<lparr>next_proposal_id := 1,
       proposal_display_id := [0 \<mapsto> \<lparr>display_year = 2026, seq_in_year = 0\<rparr>]\<rparr>\<rparr>"

lemma sample_state_inv: "engine_inv env (sample_state st)"
  by (simp add: sample_state_def engine_inv_def engine_genesis_def lock_inv_genesis
      cleanup_inv_genesis doomed_def
      cleanup_inv_genesis [unfolded cleanup_storage_genesis_def] cleanup_storage_genesis_def)

lemmas sample_defs = sample_state_def sample_proposal_def engine_genesis_def id_storage_genesis_def
  lock_storage_genesis_def cleanup_storage_genesis_def idle_env_def test_env_def test_config_def
  runtime_config_def idle_track_def idle_callback_def

lemma sample_reject: "fst (set_status_and_emit idle_env 0 STATUS_REJECTED (sample_state STATUS_VOTING)) = Inr ()"
  by (simp add: set_status_and_emit_def with_transaction_def sample_defs pure_result_def
      ensure_valid_status_transition_def valid_status_transition_def announce_status_def
      free_active_slots_def write_status_def Let_def with_callback_execution_scope_def
      invoke_execution_callback_def callback_of_def kind_defs settle_status_def is_terminal_status_def
      apply_terminal_side_effects_def schedule_cleanup_def q_push_def q_empty_def checked_add_def
      track_result_def remove_active_proposal_def subject_keys_def)

theorem set_status_effects_witness:
  "\<exists>s'. set_status_and_emit idle_env 0 STATUS_REJECTED (sample_state STATUS_VOTING) = (Inr (), s') \<and>
     proposals s' 0 = Some (sample_proposal\<lparr>p_status := STATUS_REJECTED\<rparr>) \<and>
     q_push (cleanup_due 0 0) q_empty = Some (scheduled_cleanups (cleanup s'))"
proof -
  obtain s' where s': "set_status_and_emit idle_env 0 STATUS_REJECTED (sample_state STATUS_VOTING) = (Inr (), s')"
    using sample_reject by (metis prod.collapse)
  from set_status_effects [OF idle_env_framed s'] have
    "proposals s' 0 = Some (sample_proposal\<lparr>p_status := STATUS_REJECTED\<rparr>)"
    "q_push (cleanup_due 0 0) q_empty = Some (scheduled_cleanups (cleanup s'))"
    by (auto simp: sample_state_def engine_genesis_def is_terminal_status_def cleanup_storage_genesis_def)
  with s' show ?thesis by blast
qed

end
