(* ===== verification/Execution.thy ===== *)
theory Execution
  imports Evolution
begin

text \<open>
  Execution of passed proposals (\<^verbatim>\<open>votingengine/src/execution.rs\<close>): the per-block queue with its
  weight and count budgets, exponential backoff and dead-lettering, the separate queue that
  completes terminal side effects, retry deadlines, and the manual retry and cancel entries.
\<close>

section \<open>Automatic execution\<close>

definition remove_pending_execution :: "proposal_id \<Rightarrow> 'x engine \<Rightarrow> 'x engine" where
  "remove_pending_execution i s =
     upd_queues (\<lambda>q. q\<lparr>pending_proposal_executions := kv_remove i (pending_proposal_executions q)\<rparr>) s"

definition apply_automatic_execution_outcome ::
  "'x env \<Rightarrow> proposal_id \<Rightarrow> u8 \<Rightarrow> proposal_execution_outcome \<Rightarrow> 'x engine \<Rightarrow> (dispatch_error, unit, 'x engine) outcome" where
  "apply_automatic_execution_outcome env i kind oc s =
     (case oc of
        Ignored \<Rightarrow> (Inl (VotingEngine ProposalOwnerMissing), s)
      | Executed \<Rightarrow>
          and_then (set_proposal_status i STATUS_EXECUTED s) (\<lambda>_ s.
            track_result (tracks_on_proposal_executed (tracks env) kind i s))
      | RetryableFailed \<Rightarrow>
          if kind = PROPOSAL_KIND_INTERNAL then schedule_execution_retry env i s
          else set_proposal_status i STATUS_EXECUTION_FAILED s
      | FatalFailed \<Rightarrow> set_proposal_status i STATUS_EXECUTION_FAILED s)"

definition execute_pending ::
  "'x env \<Rightarrow> proposal_id \<Rightarrow> 'x engine \<Rightarrow> (dispatch_error, unit, 'x engine) outcome" where
  "execute_pending env i s =
     ok_or (proposals s i) (VotingEngine ProposalNotFound) s (\<lambda>p.
       if p_status p \<noteq> STATUS_PASSED then (Inr (), remove_pending_execution i s)
       else
         and_then (with_callback_execution_scope i (invoke_execution_callback env i (p_kind p) True) s) (\<lambda>oc s.
         and_then (apply_automatic_execution_outcome env i (p_kind p) oc (remove_pending_execution i s)) (\<lambda>_ s.
         ok_or (proposals s i) (VotingEngine ProposalNotFound) s (\<lambda>p'.
           if is_terminal_status (p_status p') then finish_terminal_status env i (p_status p') s
           else (Inr (), s)))))"

definition retry_delay :: "u8 \<Rightarrow> block_number" where
  "retry_delay n = sat_into 32 (2 ^ min n 6)"

definition dead_letter_execution ::
  "proposal_id \<Rightarrow> u8 \<Rightarrow> block_number \<Rightarrow> 'x engine \<Rightarrow> (dispatch_error, unit, 'x engine) outcome" where
  "dead_letter_execution i n now s =
     and_then (set_proposal_status i STATUS_EXECUTION_FAILED s) (\<lambda>_ s.
       (Inr (), deposit_event (ProposalExecutionDeadLettered i n)
          (upd_queues (\<lambda>q. q\<lparr>pending_terminal_finalizations :=
             kv_insert i \<lparr>attempts = 0, next_attempt_at = now\<rparr> (pending_terminal_finalizations q)\<rparr>)
             (remove_pending_execution i s))))"

definition handle_automatic_execution_failure ::
  "'x env \<Rightarrow> proposal_id \<Rightarrow> pending_execution_state \<Rightarrow> block_number \<Rightarrow> 'x engine \<Rightarrow> 'x engine" where
  "handle_automatic_execution_failure env i st now s =
     (case proposals s i of
        None \<Rightarrow> remove_pending_execution i s
      | Some p \<Rightarrow>
          if p_status p \<noteq> STATUS_PASSED then remove_pending_execution i s
          else
            let n = sat_add 8 (attempts st) 1;
                (terminalized, s1) =
                  (if MaxManualExecutionAttempts (cfg env) \<le> n then
                     (case with_transaction (dead_letter_execution i n now) s of
                        (Inr _, t) \<Rightarrow> (True, t)
                      | (Inl _, t) \<Rightarrow> (False, t))
                   else (False, s))
            in if terminalized then s1
               else
                 let at = bn_add now (retry_delay n) in
                 deposit_event (ProposalExecutionDeferred i n at)
                   (upd_queues (\<lambda>q. q\<lparr>pending_proposal_executions :=
                      kv_insert i \<lparr>attempts = n, next_attempt_at = at\<rparr> (pending_proposal_executions q)\<rparr>) s1))"

text \<open>Selecting the due entries under the weight budget and the count limit.\<close>

fun select_due ::
  "weight \<Rightarrow> weight \<Rightarrow> weight \<Rightarrow> nat \<Rightarrow> block_number \<Rightarrow>
   (proposal_id \<times> pending_execution_state) list \<Rightarrow> nat \<Rightarrow> weight \<Rightarrow>
   (proposal_id \<times> pending_execution_state) list \<times> weight" where
  "select_due budget scan item mx now [] n w = ([], w)"
| "select_due budget scan item mx now ((i, st) # rest) n w =
     (let after_scan = w_add w scan in
      if any_gt after_scan budget then ([], w)
      else if now < next_attempt_at st then select_due budget scan item mx now rest n after_scan
      else
        let after_item = w_add after_scan item in
        if any_gt after_item budget then ([], after_scan)
        else if mx \<le> Suc n then ([(i, st)], after_item)
        else
          let (sel, w') = select_due budget scan item mx now rest (Suc n) after_item
          in ((i, st) # sel, w'))"

definition process_execution ::
  "'x env \<Rightarrow> block_number \<Rightarrow> proposal_id \<times> pending_execution_state \<Rightarrow> 'x engine \<Rightarrow> 'x engine" where
  "process_execution env now e s =
     (case with_transaction (execute_pending env (fst e)) s of
        (Inr _, s') \<Rightarrow> s'
      | (Inl _, s') \<Rightarrow> handle_automatic_execution_failure env (fst e) (snd e) now s')"

text \<open>The entries of an iterated map, in the order of the host.\<close>

definition iterate :: "'x env \<Rightarrow> (proposal_id \<times> 'v) list \<Rightarrow> (proposal_id \<times> 'v) list" where
  "iterate env xs = map (\<lambda>i. (i, the (map_of xs i))) (iter_order env (map fst xs))"

definition process_pending_proposal_executions ::
  "'x env \<Rightarrow> block_number \<Rightarrow> 'x engine \<Rightarrow> weight \<times> 'x engine" where
  "process_pending_proposal_executions env now s =
     (let mx = MaxAutoFinalizePerBlock (cfg env) in
      if mx = 0 then (weight_zero, s)
      else
        let item = w_add (w_add (w_process_pending_execution (cfg env)) (w_finalize_proposal (cfg env)))
                     (w_set_code (cfg env));
            (due, w) = select_due (MaxExecutionWeightPerBlock (cfg env)) (db_reads (cfg env) 1) item mx now
                         (iterate env (pending_proposal_executions (queues s))) 0 (db_reads (cfg env) 1)
        in (w, fold (process_execution env now) due s))"

section \<open>Completing terminal side effects\<close>

definition remove_terminal_finalization :: "proposal_id \<Rightarrow> 'x engine \<Rightarrow> 'x engine" where
  "remove_terminal_finalization i s =
     upd_queues (\<lambda>q. q\<lparr>pending_terminal_finalizations := kv_remove i (pending_terminal_finalizations q)\<rparr>) s"

definition process_terminal_finalization ::
  "'x env \<Rightarrow> block_number \<Rightarrow> proposal_id \<times> pending_execution_state \<Rightarrow> 'x engine \<Rightarrow> 'x engine" where
  "process_terminal_finalization env now e s =
     (let i = fst e; st = snd e in
      case proposals s i of
        None \<Rightarrow> remove_terminal_finalization i s
      | Some p \<Rightarrow>
          if p_status p \<noteq> STATUS_EXECUTION_FAILED then remove_terminal_finalization i s
          else
            (case with_transaction (finish_terminal_status env i STATUS_EXECUTION_FAILED) s of
               (Inr _, s1) \<Rightarrow>
                 upd_queues (\<lambda>q. q\<lparr>terminal_finalization_dead_letters :=
                    (terminal_finalization_dead_letters q)(i := None)\<rparr>) (remove_terminal_finalization i s1)
             | (Inl _, s1) \<Rightarrow>
                 let n = sat_add 8 (attempts st) 1 in
                 if MaxManualExecutionAttempts (cfg env) \<le> n then
                   deposit_event (ProposalTerminalFinalizationDeadLettered i n)
                     (upd_queues (\<lambda>q. q\<lparr>terminal_finalization_dead_letters :=
                        (terminal_finalization_dead_letters q)(i \<mapsto> n)\<rparr>) (remove_terminal_finalization i s1))
                 else
                   let at = bn_add now (retry_delay n) in
                   deposit_event (ProposalTerminalFinalizationDeferred i n at)
                     (upd_queues (\<lambda>q. q\<lparr>pending_terminal_finalizations :=
                        kv_insert i \<lparr>attempts = n, next_attempt_at = at\<rparr> (pending_terminal_finalizations q)\<rparr>) s1)))"

definition process_pending_terminal_finalizations ::
  "'x env \<Rightarrow> block_number \<Rightarrow> 'x engine \<Rightarrow> weight \<times> 'x engine" where
  "process_pending_terminal_finalizations env now s =
     (let mx = MaxPendingRetryExpirationsPerBlock (cfg env); w = db_reads (cfg env) 1 in
      if mx = 0 then (w, s)
      else
        let pending = take mx (filter (\<lambda>e. next_attempt_at (snd e) \<le> now)
                        (iterate env (pending_terminal_finalizations (queues s))))
        in (fold (\<lambda>_ w. w_add w (db_weight (cfg env) 2 3)) pending w,
            fold (process_terminal_finalization env now) pending s))"

section \<open>Retry deadlines\<close>

definition remove_retry_state :: "proposal_id \<Rightarrow> 'x engine \<Rightarrow> 'x engine" where
  "remove_retry_state i s =
     upd_queues (\<lambda>q. q\<lparr>proposal_execution_retry_states := (proposal_execution_retry_states q)(i := None)\<rparr>) s"

definition expire_retry :: "'x env \<Rightarrow> proposal_id \<Rightarrow> 'x engine \<Rightarrow> (dispatch_error, unit, 'x engine) outcome" where
  "expire_retry env i =
     with_transaction (\<lambda>s.
       and_then (set_proposal_status i STATUS_EXECUTION_FAILED s) (\<lambda>_ s.
         finish_terminal_status env i STATUS_EXECUTION_FAILED
           (deposit_event (ProposalExecutionRetryExpired i) s)))"

definition process_retry_deadline :: "'x env \<Rightarrow> block_number \<Rightarrow> proposal_id \<Rightarrow> 'x engine \<Rightarrow> 'x engine" where
  "process_retry_deadline env now i s =
     (case proposal_execution_retry_states (queues s) i of
        None \<Rightarrow> s
      | Some st \<Rightarrow>
          if now < retry_deadline st then reschedule_or_queue env i (retry_deadline st) (retry_deadline st) s
          else
            (case proposals s i of
               None \<Rightarrow> remove_retry_state i s
             | Some p \<Rightarrow>
                 if p_status p \<noteq> STATUS_PASSED then remove_retry_state i s
                 else
                   (case expire_retry env i s of
                      (Inr _, s1) \<Rightarrow> s1
                    | (Inl _, s1) \<Rightarrow> reschedule_or_queue env i (bn_add now 1) (retry_deadline st) s1)))"

definition process_execution_retry_deadlines ::
  "'x env \<Rightarrow> block_number \<Rightarrow> 'x engine \<Rightarrow> weight \<times> 'x engine" where
  "process_execution_retry_deadlines env now s =
     (let w = db_weight (cfg env) 1 1;
          queue = execution_retry_deadlines (queues s) now;
          s1 = upd_queues (\<lambda>q. q\<lparr>execution_retry_deadlines := (execution_retry_deadlines q)(now := [])\<rparr>) s
      in if queue = [] then (w, s1)
         else (fold (\<lambda>_ w. w_add w (db_weight (cfg env) 2 3)) queue w,
               fold (process_retry_deadline env now) queue s1))"

definition remove_retry_expiration :: "proposal_id \<Rightarrow> 'x engine \<Rightarrow> 'x engine" where
  "remove_retry_expiration i s =
     upd_queues (\<lambda>q. q\<lparr>pending_execution_retry_expirations := kv_remove i (pending_execution_retry_expirations q)\<rparr>) s"

definition insert_retry_expiration :: "proposal_id \<Rightarrow> block_number \<Rightarrow> 'x engine \<Rightarrow> 'x engine" where
  "insert_retry_expiration i b s =
     upd_queues (\<lambda>q. q\<lparr>pending_execution_retry_expirations := kv_insert i b (pending_execution_retry_expirations q)\<rparr>) s"

definition process_retry_expiration ::
  "'x env \<Rightarrow> block_number \<Rightarrow> proposal_id \<times> block_number \<Rightarrow> 'x engine \<Rightarrow> 'x engine" where
  "process_retry_expiration env now e s =
     (let i = fst e in
      case proposal_execution_retry_states (queues s) i of
        None \<Rightarrow> remove_retry_expiration i s
      | Some st \<Rightarrow>
          if now < retry_deadline st then
            (case reschedule_execution_retry_deadline env i (retry_deadline st) s of
               (Inr _, s1) \<Rightarrow> remove_retry_expiration i s1
             | (Inl _, s1) \<Rightarrow> insert_retry_expiration i (retry_deadline st) s1)
          else
            (case proposals s i of
               None \<Rightarrow> remove_retry_expiration i (remove_retry_state i s)
             | Some p \<Rightarrow>
                 if p_status p \<noteq> STATUS_PASSED then remove_retry_expiration i (remove_retry_state i s)
                 else
                   (case expire_retry env i s of
                      (Inr _, s1) \<Rightarrow> remove_retry_expiration i s1
                    | (Inl _, s1) \<Rightarrow> insert_retry_expiration i (snd e) s1)))"

definition process_pending_execution_retry_expirations ::
  "'x env \<Rightarrow> block_number \<Rightarrow> 'x engine \<Rightarrow> weight \<times> 'x engine" where
  "process_pending_execution_retry_expirations env now s =
     (let mx = MaxPendingRetryExpirationsPerBlock (cfg env); w = db_reads (cfg env) 1 in
      if mx = 0 then (w, s)
      else
        let pending = take mx (iterate env (pending_execution_retry_expirations (queues s)))
        in (fold (\<lambda>_ w. w_add w (db_weight (cfg env) 3 4)) pending w,
            fold (process_retry_expiration env now) pending s))"

section \<open>Manual retry and cancellation\<close>

definition retry_outcome ::
  "'x env \<Rightarrow> proposal_id \<Rightarrow> u8 \<Rightarrow> execution_retry_state \<Rightarrow> block_number \<Rightarrow> proposal_execution_outcome \<Rightarrow>
   'x engine \<Rightarrow> (dispatch_error, unit, 'x engine) outcome" where
  "retry_outcome env i kind st now oc s =
     (case oc of
        Executed \<Rightarrow>
          and_then (set_proposal_status i STATUS_EXECUTED s) (\<lambda>_ s.
          and_then (track_result (tracks_on_proposal_executed (tracks env) kind i s)) (\<lambda>_ s.
            finish_terminal_status env i STATUS_EXECUTED
              (deposit_event (ProposalExecutionRetried i (manual_attempts st) STATUS_EXECUTED) s)))
      | RetryableFailed \<Rightarrow>
          let n = sat_add 8 (manual_attempts st) 1;
              st' = st\<lparr>manual_attempts := n, last_attempt_at := Some now\<rparr>
          in if MaxManualExecutionAttempts (cfg env) \<le> n then
               and_then (set_proposal_status i STATUS_EXECUTION_FAILED s) (\<lambda>_ s.
                 finish_terminal_status env i STATUS_EXECUTION_FAILED
                   (deposit_event (ProposalExecutionRetried i n STATUS_EXECUTION_FAILED) s))
             else
               (Inr (), upd_queues (\<lambda>q. q\<lparr>proposal_execution_retry_states :=
                    (proposal_execution_retry_states q)(i \<mapsto> st')\<rparr>)
                  (deposit_event (ProposalExecutionRetried i n STATUS_PASSED) s))
      | FatalFailed \<Rightarrow>
          and_then (set_proposal_status i STATUS_EXECUTION_FAILED s) (\<lambda>_ s.
            finish_terminal_status env i STATUS_EXECUTION_FAILED
              (deposit_event (ProposalExecutionRetried i (manual_attempts st) STATUS_EXECUTION_FAILED) s))
      | Ignored \<Rightarrow> (Inl (VotingEngine ProposalOwnerMissing), s))"

definition retry_passed_proposal_inner ::
  "'x env \<Rightarrow> account \<Rightarrow> proposal_id \<Rightarrow> 'x engine \<Rightarrow> (dispatch_error, unit, 'x engine) outcome" where
  "retry_passed_proposal_inner env who i =
     with_transaction (\<lambda>s.
       and_then (pure_result (ensure_retry_admin env who i s) s) (\<lambda>_ s.
       ok_or (proposals s i) (VotingEngine ProposalNotFound) s (\<lambda>p.
       ensure (p_status p = STATUS_PASSED) (VotingEngine ProposalNotRetryable) s (\<lambda>s.
       ok_or (proposal_execution_retry_states (queues s) i) (VotingEngine ProposalNotRetryable) s (\<lambda>st.
       let now = block_number s in
       ensure (now \<le> retry_deadline st) (VotingEngine ExecutionRetryDeadlinePassed) s (\<lambda>s.
       ensure (manual_attempts st < MaxManualExecutionAttempts (cfg env))
         (VotingEngine ManualExecutionAttemptsExceeded) s (\<lambda>s.
       and_then (with_callback_execution_scope i (invoke_execution_callback env i (p_kind p) True) s) (\<lambda>oc s.
         retry_outcome env i (p_kind p) st now oc s))))))))"

definition cancel_passed_proposal_inner ::
  "'x env \<Rightarrow> account \<Rightarrow> proposal_id \<Rightarrow> 'x engine \<Rightarrow> (dispatch_error, unit, 'x engine) outcome" where
  "cancel_passed_proposal_inner env who i =
     with_transaction (\<lambda>s.
       and_then (pure_result (ensure_retry_admin env who i s) s) (\<lambda>_ s.
       ok_or (proposals s i) (VotingEngine ProposalNotFound) s (\<lambda>p.
       ensure (p_status p = STATUS_PASSED) (VotingEngine ProposalNotRetryable) s (\<lambda>s.
       and_then (can_cancel_passed_proposal_by_owner env i (p_kind p) s) (\<lambda>_ s.
       and_then (set_proposal_status i STATUS_EXECUTION_FAILED s) (\<lambda>_ s.
         finish_terminal_status env i STATUS_EXECUTION_FAILED
           (deposit_event (ProposalExecutionCancelled i) s)))))))"

section \<open>Soundness\<close>

lemma sound_removals [simp]:
  "sound_from env s0 (remove_pending_execution i s) = sound_from env s0 s"
  "sound_from env s0 (remove_terminal_finalization i s) = sound_from env s0 s"
  "sound_from env s0 (remove_retry_state i s) = sound_from env s0 s"
  "sound_from env s0 (remove_retry_expiration i s) = sound_from env s0 s"
  "sound_from env s0 (insert_retry_expiration i b s) = sound_from env s0 s"
  by (simp_all add: remove_pending_execution_def remove_terminal_finalization_def remove_retry_state_def
      remove_retry_expiration_def insert_retry_expiration_def)

lemma sound_known: "sound_from env s0 s \<Longrightarrow> proposals s i = Some p \<Longrightarrow> i < next_proposal_id (ids s)"
  by (auto simp: sound_from_def engine_inv_def)

lemma sound_set_proposal:
  assumes "sound_from env s0 s" "set_proposal_status i st s = (Inr a, s')"
  shows "sound_from env s0 s' \<and> i < next_proposal_id (ids s') \<and> proposals s' i \<noteq> None \<and>
    (\<forall>p. proposals s' i = Some p \<longrightarrow> p_status p = st)"
  using assms by (auto simp: set_proposal_status_ok sound_from_status dest: sound_known)

lemma on_ok_set_proposal:
  "sound_from env s0 s \<Longrightarrow> on_ok (sound_from env s0) (set_proposal_status i st s)"
  unfolding on_ok_def using sound_set_proposal by blast

text \<open>The pattern "set a terminal status, report, finish".\<close>

lemma sound_set_and_finish:
  assumes tf: "tracks_framed env" and s: "sound_from env s0 s" and st: "is_terminal_status st"
  shows "on_ok (sound_from env s0)
    (and_then (set_proposal_status i st s) (\<lambda>_ s. finish_terminal_status env i st' (deposit_event e s)))"
proof (rule on_ok_and_then [where Q = "sound_from env s0"])
  show "on_ok (sound_from env s0) (set_proposal_status i st s)" using s by (rule on_ok_set_proposal)
  fix a t assume t: "set_proposal_status i st s = (Inr a, t)"
  from sound_set_proposal [OF s t] st
  show "on_ok (sound_from env s0) (finish_terminal_status env i st' (deposit_event e t))"
    by (intro sound_finish_terminal [OF tf]) (auto simp: deposit_event_def settled_def)
qed

lemma sound_apply_outcome:
  assumes "tracks_framed env" "sound_from env s0 s"
  shows "on_ok (sound_from env s0) (apply_automatic_execution_outcome env i k oc s)"
proof (cases oc)
  case Executed
  have "on_ok (sound_from env s0) (and_then (set_proposal_status i STATUS_EXECUTED s) (\<lambda>_ s.
      track_result (tracks_on_proposal_executed (tracks env) k i s)))"
    by (rule on_ok_and_then [OF on_ok_set_proposal [OF assms(2)]])
       (rule on_ok_keeps [OF sound_track_executed [OF assms(1)]])
  with Executed show ?thesis by (simp add: apply_automatic_execution_outcome_def)
qed (auto simp: apply_automatic_execution_outcome_def assms on_ok_set_proposal
      on_ok_keeps [OF sound_schedule_retry [OF assms(2)]])

lemma sound_execute_pending:
  assumes tf: "tracks_framed env" and s: "sound_from env s0 s"
  shows "on_ok (sound_from env s0) (execute_pending env i s)"
proof -
  have fin: "on_ok (sound_from env s0) (ok_or (proposals t i) e t (\<lambda>p'.
      if is_terminal_status (p_status p') then finish_terminal_status env i (p_status p') t else (Inr (), t)))"
    if "sound_from env s0 t" for t e
    by (rule on_ok_ok_or)
       (use that in \<open>auto simp: settled_def dest: sound_known intro!: sound_finish_terminal [OF tf]\<close>)
  show ?thesis
    unfolding execute_pending_def
    by (rule on_ok_ok_or)
       (auto simp: s intro!: on_ok_and_then [OF on_ok_keeps [OF keeps_scope [OF s]]]
          on_ok_and_then [OF sound_apply_outcome [OF tf]] fin)
qed

lemma sound_dead_letter:
  "sound_from env s0 s \<Longrightarrow> on_ok (sound_from env s0) (dead_letter_execution i n now s)"
  unfolding dead_letter_execution_def by (rule on_ok_and_then [OF on_ok_set_proposal]) simp_all

lemma sound_handle_failure:
  assumes "sound_from env s0 s"
  shows "sound_from env s0 (handle_automatic_execution_failure env' i st now s)"
  using assms on_okD [OF sound_dead_letter [OF assms]]
  by (auto simp: handle_automatic_execution_failure_def Let_def
      split: option.splits prod.splits sum.splits if_splits)

lemma sound_process_execution:
  assumes "tracks_framed env" "sound_from env s0 s"
  shows "sound_from env s0 (process_execution env now e s)"
  using assms on_okD [OF sound_execute_pending [OF assms]]
  by (auto simp: process_execution_def split: prod.splits sum.splits intro: sound_handle_failure)

lemma sound_fold:
  assumes "\<And>e s. sound_from env s0 s \<Longrightarrow> sound_from env s0 (f e s)" "sound_from env s0 s"
  shows "sound_from env s0 (fold f es s)"
  using assms(2) by (induction es arbitrary: s) (auto intro: assms(1))

lemma sound_executions:
  assumes "tracks_framed env" "sound_from env s0 s"
  shows "sound_from env s0 (snd (process_pending_proposal_executions env now s))"
  using assms
  by (auto simp: process_pending_proposal_executions_def Let_def split: prod.splits
      intro!: sound_fold sound_process_execution)

lemma sound_terminal_finalization:
  assumes tf: "tracks_framed env" and s: "sound_from env s0 s"
  shows "sound_from env s0 (process_terminal_finalization env now e s)"
proof -
  have "sound_from env s0 t"
    if "proposals s (fst e) = Some p" "p_status p = STATUS_EXECUTION_FAILED"
      "finish_terminal_status env (fst e) STATUS_EXECUTION_FAILED s = (Inr a, t)" for p a t
    using that s by (intro on_okD [OF sound_finish_terminal [OF tf s] that(3)])
      (auto simp: settled_def is_terminal_status_def dest: sound_known)
  with s show ?thesis
    by (auto simp: process_terminal_finalization_def Let_def split: option.splits prod.splits sum.splits)
qed

lemma sound_terminal_finalizations:
  assumes "tracks_framed env" "sound_from env s0 s"
  shows "sound_from env s0 (snd (process_pending_terminal_finalizations env now s))"
  using assms by (auto simp: process_pending_terminal_finalizations_def Let_def
      intro!: sound_fold sound_terminal_finalization)

lemma sound_expire_retry:
  assumes "tracks_framed env" "sound_from env s0 s"
  shows "keeps (sound_from env s0) (expire_retry env i s)"
  unfolding expire_retry_def
  by (rule keeps_transaction_on_ok [where P = "sound_from env s0"], rule assms(2),
      rule sound_set_and_finish [OF assms]) (simp add: is_terminal_status_def)

lemma sound_retry_deadline:
  assumes "tracks_framed env" "sound_from env s0 s"
  shows "sound_from env s0 (process_retry_deadline env now i s)"
  using assms sound_expire_retry [OF assms, of i]
  by (auto simp: process_retry_deadline_def keeps_def split: option.splits prod.splits sum.splits
      intro: sound_reschedule_or_queue)

lemma sound_retry_deadlines:
  assumes "tracks_framed env" "sound_from env s0 s"
  shows "sound_from env s0 (snd (process_execution_retry_deadlines env now s))"
  using assms by (auto simp: process_execution_retry_deadlines_def Let_def
      intro!: sound_fold sound_retry_deadline)

lemma sound_retry_expiration:
  assumes "tracks_framed env" "sound_from env s0 s"
  shows "sound_from env s0 (process_retry_expiration env now e s)"
proof -
  have r: "keeps (sound_from env s0) (reschedule_execution_retry_deadline env i b s)" for i b
    using assms(2) by (rule sound_reschedule)
  show ?thesis
    using assms sound_expire_retry [OF assms, of "fst e"] r [of "fst e"]
    by (auto simp: process_retry_expiration_def Let_def keeps_def
        split: option.splits prod.splits sum.splits) (metis snd_conv)+
qed

lemma sound_retry_expirations:
  assumes "tracks_framed env" "sound_from env s0 s"
  shows "sound_from env s0 (snd (process_pending_execution_retry_expirations env now s))"
  using assms by (auto simp: process_pending_execution_retry_expirations_def Let_def
      intro!: sound_fold sound_retry_expiration)

lemma sound_retry_outcome:
  assumes tf: "tracks_framed env" and s: "sound_from env s0 s"
  shows "on_ok (sound_from env s0) (retry_outcome env i k st now oc s)"
proof (cases oc)
  case Executed
  have "on_ok (sound_from env s0)
      (and_then (track_result (tracks_on_proposal_executed (tracks env) k i t)) (\<lambda>_ u.
         finish_terminal_status env i STATUS_EXECUTED (deposit_event e u)))"
    if t: "set_proposal_status i STATUS_EXECUTED s = (Inr a, t)" for a t e
  proof (rule on_ok_and_then [OF on_ok_keeps [OF sound_track_executed [OF tf]]])
    from sound_set_proposal [OF s t] show "sound_from env s0 t" by simp
    fix b u assume u: "track_result (tracks_on_proposal_executed (tracks env) k i t) = (Inr b, u)" "sound_from env s0 u"
    have "same_core t u"
      using tracks_executed_frame [of "tracks env" t k i] tf u(1)
      by (metis tracks_framed_def snd_track_result snd_conv)
    with sound_set_proposal [OF s t] u(2)
    show "on_ok (sound_from env s0) (finish_terminal_status env i STATUS_EXECUTED (deposit_event e u))"
      by (intro sound_finish_terminal [OF tf])
         (auto simp: deposit_event_def settled_def same_core_def is_terminal_status_def)
  qed
  with Executed show ?thesis
    unfolding retry_outcome_def
    by (auto intro!: on_ok_and_then [OF on_ok_set_proposal [OF s]])
qed (auto simp: retry_outcome_def Let_def s is_terminal_status_def intro!: sound_set_and_finish [OF tf s])

lemma sound_retry_passed:
  assumes tf: "tracks_framed env" and s: "sound_from env s0 s"
  shows "keeps (sound_from env s0) (retry_passed_proposal_inner env who i s)"
  unfolding retry_passed_proposal_inner_def Let_def
  by (rule keeps_transaction_on_ok [where P = "sound_from env s0"], rule s)
     (intro on_ok_intros on_ok_and_then [where Q = "sound_from env s0"] s
        on_ok_keeps [OF keeps_scope] sound_retry_outcome [OF tf])

lemma sound_cancel_by_owner:
  "sound_from env s0 s \<Longrightarrow> keeps (sound_from env s0) (can_cancel_passed_proposal_by_owner env i k s)"
  by (simp add: can_cancel_passed_proposal_by_owner_def split: option.split prod.split sum.split)

lemma sound_cancel_passed:
  assumes tf: "tracks_framed env" and s: "sound_from env s0 s"
  shows "keeps (sound_from env s0) (cancel_passed_proposal_inner env who i s)"
  unfolding cancel_passed_proposal_inner_def
  by (rule keeps_transaction_on_ok [where P = "sound_from env s0"], rule s)
     (intro on_ok_and_then [where Q = "sound_from env s0"] on_ok_pure_result on_ok_ok_or on_ok_ensure
        on_ok_keeps [OF sound_cancel_by_owner] sound_set_and_finish [OF tf] s; simp add: is_terminal_status_def)

section \<open>Bounded retries\<close>

lemma failure_step:
  assumes "proposals s i = Some p" "p_status p = STATUS_PASSED" "attempts st < 255"
  shows "let s' = handle_automatic_execution_failure env i st now s; n = Suc (attempts st) in
     if n < MaxManualExecutionAttempts (cfg env)
     then proposals s' = proposals s \<and> ext s' = ext s \<and>
       map_of (pending_proposal_executions (queues s')) i =
         Some \<lparr>attempts = n, next_attempt_at = bn_add now (2 ^ min n 6)\<rparr>
     else proposals s' = (proposals s)(i \<mapsto> p\<lparr>p_status := STATUS_EXECUTION_FAILED\<rparr>) \<and> ext s' = ext s \<and>
       map_of (pending_proposal_executions (queues s')) i = None \<and>
       map_of (pending_terminal_finalizations (queues s')) i = Some \<lparr>attempts = 0, next_attempt_at = now\<rparr>"
proof -
  have n: "sat_add 8 (attempts st) 1 = Suc (attempts st)"
    using assms(3) by (simp add: sat_add_exact)
  have d: "retry_delay k = 2 ^ min k 6" for k
  proof -
    have "(2::nat) ^ min k 6 \<le> 2 ^ 6" by (rule power_increasing) simp_all
    also have "(2::nat) ^ 6 < 2 ^ 32" by simp
    finally show ?thesis unfolding retry_delay_def by (rule sat_into_exact)
  qed
  have dead: "with_transaction (dead_letter_execution i k now) s =
      (Inr (), deposit_event (ProposalExecutionDeadLettered i k)
         (upd_queues (\<lambda>q. q\<lparr>pending_terminal_finalizations :=
            kv_insert i \<lparr>attempts = 0, next_attempt_at = now\<rparr> (pending_terminal_finalizations q)\<rparr>)
           (remove_pending_execution i (s\<lparr>proposals := (proposals s)(i \<mapsto> p\<lparr>p_status := STATUS_EXECUTION_FAILED\<rparr>)\<rparr>))))"
    for k
    using assms by (simp add: with_transaction_def dead_letter_execution_def set_proposal_status_def
        ensure_valid_status_transition_def valid_status_transition_def)
  show ?thesis
    using assms by (auto simp: handle_automatic_execution_failure_def Let_def n [simplified] d dead
        deposit_event_def remove_pending_execution_def)
qed

text \<open>
  Exponential backoff and dead-lettering: when an automatic execution of a PASSED proposal
  fails for the \<open>n\<close>-th time, then below the limit the proposal stays PASSED and is queued again
  for block \<open>now + 2 ^ min n 6\<close> with count \<open>n\<close>; at the limit it becomes EXECUTION_FAILED, leaves the
  execution queue for good and is handed to the queue that completes its terminal side effects.
  The business storage is untouched either way.
\<close>

theorem execution_backoff:
  assumes "proposals s i = Some p" "p_status p = STATUS_PASSED" "attempts st < 255"
    and "n = Suc (attempts st)" "s' = handle_automatic_execution_failure env i st now s"
  shows "if n < MaxManualExecutionAttempts (cfg env)
     then proposals s' = proposals s \<and> ext s' = ext s \<and>
       map_of (pending_proposal_executions (queues s')) i =
         Some \<lparr>attempts = n, next_attempt_at = bn_add now (2 ^ min n 6)\<rparr>
     else proposals s' = (proposals s)(i \<mapsto> p\<lparr>p_status := STATUS_EXECUTION_FAILED\<rparr>) \<and> ext s' = ext s \<and>
       map_of (pending_proposal_executions (queues s')) i = None \<and>
       map_of (pending_terminal_finalizations (queues s')) i = Some \<lparr>attempts = 0, next_attempt_at = now\<rparr>"
  using failure_step [OF assms(1-3), of env now] assms(4,5) by (simp add: Let_def)

theorem execution_backoff_witness:
  "map_of (pending_proposal_executions (queues (handle_automatic_execution_failure idle_env 0
      \<lparr>attempts = 1, next_attempt_at = 0\<rparr> 10 (sample_state STATUS_PASSED)))) 0 =
     Some \<lparr>attempts = 2, next_attempt_at = 14\<rparr>"
proof -
  have p: "proposals (sample_state STATUS_PASSED) 0 = Some (sample_proposal\<lparr>p_status := STATUS_PASSED\<rparr>)"
    by (simp add: sample_state_def)
  show ?thesis
    using execution_backoff [OF p _ _ _ refl, of "\<lparr>attempts = 1, next_attempt_at = 0\<rparr>" 2 idle_env 10]
    by (simp add: bn_add_def sat_add_def max_of_def)
qed

text \<open>
  A proposal whose callback keeps failing, attempted at the given blocks as long as it is queued.
\<close>

fun attempt_all :: "'x env \<Rightarrow> proposal_id \<Rightarrow> block_number list \<Rightarrow> 'x engine \<Rightarrow> 'x engine" where
  "attempt_all env i [] s = s"
| "attempt_all env i (now # rest) s =
     (case map_of (pending_proposal_executions (queues s)) i of
        None \<Rightarrow> attempt_all env i rest s
      | Some st \<Rightarrow> attempt_all env i rest (process_execution env now (i, st) s))"

lemma process_execution_failing:
  assumes "proposals s i = Some p" "p_status p = STATUS_PASSED"
    and "\<And>s. \<exists>e. fst (invoke_execution_callback env i (p_kind p) True s) = Inl e"
  shows "process_execution env now (i, st) s = handle_automatic_execution_failure env i st now s"
proof -
  let ?s = "s\<lparr>callback_execution_scopes := insert i (callback_execution_scopes s)\<rparr>"
  obtain e x where "invoke_execution_callback env i (p_kind p) True ?s = (Inl e, x)"
    using assms(3) [of ?s] by (metis prod.collapse)
  then obtain u where "with_callback_execution_scope i (invoke_execution_callback env i (p_kind p) True) s = (Inl e, u)"
    by (simp add: with_callback_execution_scope_def Let_def)
  then have "execute_pending env i s = (Inl e, u)"
    using assms(1,2) by (simp add: execute_pending_def)
  then show ?thesis by (simp add: process_execution_def with_transaction_def)
qed

lemma attempt_all_done:
  "map_of (pending_proposal_executions (queues s)) i = None \<Longrightarrow> attempt_all env i ts s = s"
  by (induction ts) simp_all

lemma attempt_all_failing:
  assumes cb: "\<And>s. \<exists>e. fst (invoke_execution_callback env i (p_kind p) True s) = Inl e"
    and lim: "MaxManualExecutionAttempts (cfg env) \<le> 255"
    and "proposals s i = Some p" "p_status p = STATUS_PASSED"
    and "map_of (pending_proposal_executions (queues s)) i = Some st"
    and "attempts st < MaxManualExecutionAttempts (cfg env)"
    and "MaxManualExecutionAttempts (cfg env) \<le> attempts st + length ts"
  shows "proposals (attempt_all env i ts s) i = Some (p\<lparr>p_status := STATUS_EXECUTION_FAILED\<rparr>)"
  using assms(3-)
proof (induction ts arbitrary: s st)
  case (Cons now ts)
  have run: "attempt_all env i (now # ts) s =
      attempt_all env i ts (handle_automatic_execution_failure env i st now s)"
    using Cons.prems process_execution_failing [OF Cons.prems(1,2) cb] by simp
  note step = failure_step [OF Cons.prems(1,2), of st env now]
  show ?case
  proof (cases "Suc (attempts st) < MaxManualExecutionAttempts (cfg env)")
    case True
    then show ?thesis unfolding run
      using Cons.IH [of "handle_automatic_execution_failure env i st now s"
          "\<lparr>attempts = Suc (attempts st), next_attempt_at = bn_add now (2 ^ min (Suc (attempts st)) 6)\<rparr>"]
        step lim Cons.prems by (simp add: Let_def)
  next
    case False
    with step lim Cons.prems show ?thesis unfolding run by (simp add: Let_def attempt_all_done)
  qed
qed simp

text \<open>
  C25. A failing callback cannot loop: for a freshly passed proposal whose callback always
  fails, as many attempts as the configured limit (three in the runtime) end in
  EXECUTION_FAILED, at whatever blocks they take place.
\<close>

theorem failing_execution_terminates:
  assumes "\<forall>s. \<exists>e. fst (invoke_execution_callback env i (p_kind p) True s) = Inl e"
    and "0 < MaxManualExecutionAttempts (cfg env)" "MaxManualExecutionAttempts (cfg env) \<le> 255"
    and "proposals s i = Some p" "p_status p = STATUS_PASSED"
    and "map_of (pending_proposal_executions (queues s)) i = Some \<lparr>attempts = 0, next_attempt_at = b\<rparr>"
    and "length ts = MaxManualExecutionAttempts (cfg env)"
  shows "proposals (attempt_all env i ts s) i = Some (p\<lparr>p_status := STATUS_EXECUTION_FAILED\<rparr>)"
  by (rule attempt_all_failing [OF _ assms(3,4,5,6)]) (use assms in auto)

definition failing_env :: "unit env" where
  "failing_env = idle_env\<lparr>internal_callback := idle_callback\<lparr>on_vote_finalized := (\<lambda>_ _ _. (Inl (Other ''no''), ()))\<rparr>\<rparr>"

theorem failing_execution_terminates_witness:
  "proposals (attempt_all failing_env 0 [7, 9, 13] ((sample_state STATUS_PASSED)\<lparr>queues :=
      (queues (sample_state STATUS_PASSED))\<lparr>pending_proposal_executions := [(0, \<lparr>attempts = 0, next_attempt_at = 7\<rparr>)]\<rparr>\<rparr>)) 0 =
     Some (sample_proposal\<lparr>p_status := STATUS_EXECUTION_FAILED\<rparr>)"
proof -
  let ?s = "(sample_state STATUS_PASSED)\<lparr>queues :=
      (queues (sample_state STATUS_PASSED))\<lparr>pending_proposal_executions := [(0, \<lparr>attempts = 0, next_attempt_at = 7\<rparr>)]\<rparr>\<rparr>"
  have "proposals (attempt_all failing_env 0 [7, 9, 13] ?s) 0 =
      Some (sample_proposal\<lparr>p_status := STATUS_PASSED, p_status := STATUS_EXECUTION_FAILED\<rparr>)"
    by (rule failing_execution_terminates)
       (simp_all add: failing_env_def sample_defs invoke_execution_callback_def callback_of_def kind_defs)
  then show ?thesis by simp
qed

section \<open>Guards of the execution callback\<close>

text \<open>
  C17. Business execution happens only in the PASSED state: for a proposal with any other
  status, an entry left in the execution queue is dropped without running the callback (business
  storage and status stay as they are), and the manual entries \<open>retry_passed_proposal\<close> and
  \<open>cancel_passed_proposal\<close> fail without any effect. So an executed, failed or rejected proposal
  is never executed again.
\<close>

theorem execution_only_when_passed:
  assumes "proposals s i = Some p" "p_status p \<noteq> STATUS_PASSED"
  shows "process_execution env now (i, st) s = remove_pending_execution i s \<and>
     (\<exists>e. retry_passed_proposal_inner env who i s = (Inl e, s)) \<and>
     (\<exists>e. cancel_passed_proposal_inner env who i s = (Inl e, s))"
proof (intro conjI)
  show "process_execution env now (i, st) s = remove_pending_execution i s"
    using assms by (simp add: process_execution_def execute_pending_def with_transaction_def)
  show "\<exists>e. retry_passed_proposal_inner env who i s = (Inl e, s)"
    using assms by (cases "ensure_retry_admin env who i s")
      (auto simp: retry_passed_proposal_inner_def with_transaction_def pure_result_def)
  show "\<exists>e. cancel_passed_proposal_inner env who i s = (Inl e, s)"
    using assms by (cases "ensure_retry_admin env who i s")
      (auto simp: cancel_passed_proposal_inner_def with_transaction_def pure_result_def)
qed

theorem execution_only_when_passed_witness:
  "process_execution idle_env 5 (0, \<lparr>attempts = 0, next_attempt_at = 0\<rparr>) (sample_state STATUS_EXECUTED) =
     remove_pending_execution 0 (sample_state STATUS_EXECUTED)"
  using execution_only_when_passed [of "sample_state STATUS_EXECUTED" 0 "sample_proposal\<lparr>p_status := STATUS_EXECUTED\<rparr>"]
  by (simp add: sample_state_def)

lemma finish_terminal_effects:
  assumes "tracks_framed env" "finish_terminal_status env i st s = (Inr a, s')"
  shows "is_terminal_status st \<and> proposals s' = proposals s \<and>
    q_push (cleanup_due i (block_number s)) (scheduled_cleanups (cleanup s)) =
      Some (scheduled_cleanups (cleanup s')) \<and>
    proposal_execution_retry_states (queues s') i = None"
  using assms(2) apply_terminal_effects [OF assms(1)]
  by (fastforce simp: finish_terminal_status_def deposit_event_def)

lemma retry_outcome_effects:
  assumes tf: "tracks_framed env" and p: "proposals s i = Some p"
    and ok: "retry_outcome env i k st now oc s = (Inr a, s')"
  shows "\<exists>st'. proposals s' i = Some (p\<lparr>p_status := st'\<rparr>) \<and>
    (case oc of
       Executed \<Rightarrow> st' = STATUS_EXECUTED
     | FatalFailed \<Rightarrow> st' = STATUS_EXECUTION_FAILED
     | RetryableFailed \<Rightarrow>
         if sat_add 8 (manual_attempts st) 1 < MaxManualExecutionAttempts (cfg env)
         then st' = p_status p \<and> proposal_execution_retry_states (queues s') i =
           Some (st\<lparr>manual_attempts := sat_add 8 (manual_attempts st) 1, last_attempt_at := Some now\<rparr>)
         else st' = STATUS_EXECUTION_FAILED
     | Ignored \<Rightarrow> False)"
proof -
  have fin: "\<exists>st'. proposals s' i = Some (p\<lparr>p_status := st'\<rparr>) \<and> st' = x"
    if "set_proposal_status i x s = (Inr b, t)" "finish_terminal_status env i x (deposit_event e u) = (Inr c, s')"
      "proposals u = proposals t" for x b t e u c
    using that p finish_terminal_effects [OF tf that(2)]
    by (auto simp: set_proposal_status_ok deposit_event_def)
  have ex: "proposals u = proposals t"
    if "track_result (tracks_on_proposal_executed (tracks env) k i t) = (Inr b, u)" for t b u
    using tracks_executed_frame [of "tracks env" t k i] tf that
    by (metis tracks_framed_def snd_track_result snd_conv same_core_def)
  show ?thesis
    using ok p
    by (cases oc) (auto simp: retry_outcome_def Let_def not_less deposit_event_def dest: fin [simplified] ex
        fin [simplified, OF _ _ ex] split: if_splits)
qed

text \<open>
  A manual retry that succeeds was authorised and in time: the caller is a frozen voter or
  administrator of the proposal, the proposal is PASSED with a retry state whose deadline has not
  passed and whose failures are below the limit. Its effect is the callback's verdict: EXECUTED,
  EXECUTION_FAILED, or, on a retryable failure, one more counted attempt, the last of which fails
  the proposal.
\<close>

theorem retry_passed_effects:
  assumes "tracks_framed env" "retry_passed_proposal_inner env who i s = (Inr a, s')"
  shows "\<exists>p st oc st'.
     proposals s i = Some p \<and> p_status p = STATUS_PASSED \<and> ensure_retry_admin env who i s = Inr () \<and>
     proposal_execution_retry_states (queues s) i = Some st \<and> block_number s \<le> retry_deadline st \<and>
     manual_attempts st < MaxManualExecutionAttempts (cfg env) \<and>
     fst (with_callback_execution_scope i (invoke_execution_callback env i (p_kind p) True) s) = Inr oc \<and>
     proposals s' i = Some (p\<lparr>p_status := st'\<rparr>) \<and>
     (case oc of
        Executed \<Rightarrow> st' = STATUS_EXECUTED
      | FatalFailed \<Rightarrow> st' = STATUS_EXECUTION_FAILED
      | RetryableFailed \<Rightarrow>
          if sat_add 8 (manual_attempts st) 1 < MaxManualExecutionAttempts (cfg env)
          then st' = STATUS_PASSED \<and> proposal_execution_retry_states (queues s') i =
            Some (st\<lparr>manual_attempts := sat_add 8 (manual_attempts st) 1, last_attempt_at := Some (block_number s)\<rparr>)
          else st' = STATUS_EXECUTION_FAILED
      | Ignored \<Rightarrow> False)"
proof -
  from assms(2) obtain p st oc t where
    *: "proposals s i = Some p" "p_status p = STATUS_PASSED" "ensure_retry_admin env who i s = Inr ()"
      "proposal_execution_retry_states (queues s) i = Some st" "block_number s \<le> retry_deadline st"
      "manual_attempts st < MaxManualExecutionAttempts (cfg env)"
    and cb: "with_callback_execution_scope i (invoke_execution_callback env i (p_kind p) True) s = (Inr oc, t)"
    and fin: "retry_outcome env i (p_kind p) st (block_number s) oc t = (Inr (), s')"
    by (auto simp: retry_passed_proposal_inner_def pure_result_def Let_def)
  have "proposals t i = Some p" using scope_proposals [OF cb] * by simp
  from retry_outcome_effects [OF assms(1) this fin] show ?thesis
    using * cb by (auto split: proposal_execution_outcome.splits)
qed

definition sample_role :: authorization_subject where
  "sample_role = Institution \<lparr>rs_cid_number = ''X'', rs_role_code = ''a''\<rparr>"

definition sample_plan :: vote_plan where
  "sample_plan = \<lparr>vp_business_action_id = \<lparr>module_tag = ''tag'', action_code = 1\<rparr>,
     vp_proposal_owner = ''tag'', vp_proposer_subject = sample_role, vp_voter_subjects = [sample_role],
     vp_voting_engine = Internal, vp_business_object_hash = ''data''\<rparr>"

definition sample_retry_state :: "unit engine" where
  "sample_retry_state =
     upd_snapshots (\<lambda>n. n\<lparr>voter_snapshot := (\<lambda>_. [])(0 := [(sample_role, [1, 2, 3])])\<rparr>)
     (upd_records (\<lambda>d. d\<lparr>proposal_vote_plans := [0 \<mapsto> sample_plan]\<rparr>)
     (upd_queues (\<lambda>q. q\<lparr>proposal_execution_retry_states := [0 \<mapsto> \<lparr>manual_attempts = 2,
         first_auto_failed_at = 0, retry_deadline = 100, last_attempt_at = None\<rparr>]\<rparr>) (sample_state STATUS_PASSED)))"

lemma sample_retry_runs: "fst (retry_passed_proposal_inner idle_env 2 0 sample_retry_state) = Inr ()"
  by (simp add: sample_retry_state_def sample_role_def sample_plan_def sample_defs
      retry_passed_proposal_inner_def with_transaction_def pure_result_def ensure_retry_admin_def kind_defs
      is_any_institution_voter_in_snapshot_def is_subject_voter_in_snapshot_def resolve_subject_voter_def
      with_callback_execution_scope_def invoke_execution_callback_def callback_of_def retry_outcome_def
      set_proposal_status_def ensure_valid_status_transition_def valid_status_transition_def
      track_result_def finish_terminal_status_def apply_terminal_side_effects_def is_terminal_status_def
      schedule_cleanup_def q_push_def q_empty_def checked_add_def deposit_event_def Let_def)

theorem retry_passed_effects_witness:
  "\<exists>s' st'. retry_passed_proposal_inner idle_env 2 0 sample_retry_state = (Inr (), s') \<and>
     proposals s' 0 = Some (sample_proposal\<lparr>p_status := st'\<rparr>)"
proof -
  obtain s' where s': "retry_passed_proposal_inner idle_env 2 0 sample_retry_state = (Inr (), s')"
    using sample_retry_runs by (metis prod.collapse)
  from retry_passed_effects [OF idle_env_framed s'] obtain st'
    where "proposals s' 0 = Some ((sample_proposal\<lparr>p_status := STATUS_PASSED\<rparr>)\<lparr>p_status := st'\<rparr>)"
    by (auto simp: sample_retry_state_def sample_state_def)
  with s' show ?thesis by auto
qed

end
