(* ===== verification/Expiry.thy ===== *)
theory Expiry
  imports Execution
begin

text \<open>
  Expiry buckets and automatic finalisation (\<^verbatim>\<open>votingengine/src/expiry.rs\<close>): proposals are
  filed under the block after their last voting block; the per-block hook takes a bucket, lets
  the track of each expired proposal decide, and defers or dead-letters the ones whose track
  fails. Count and weight budgets bound the work.
\<close>

section \<open>Filing\<close>

definition track_timeout_weight :: "'x env \<Rightarrow> proposal_id \<Rightarrow> 'x engine \<Rightarrow> weight" where
  "track_timeout_weight env i s =
     (case proposals s i of
        None \<Rightarrow> weight_zero
      | Some p \<Rightarrow> unwrap_or_default (tracks_timeout_weight (tracks env) (p_kind p) (p_stage p)))"

fun bound_cids :: "string list \<Rightarrow> cid_number list \<Rightarrow> ve_error + cid_number list" where
  "bound_cids [] out = Inr out"
| "bound_cids (raw # rest) out =
     (if raw = [] then Inl InvalidInstitution
      else if CID_NUMBER_MAX_BYTES < length raw then Inl InvalidInstitution
      else if raw \<in> set out then bound_cids rest out
      else (case try_push MAX_PROPOSAL_SUBJECT_CIDS out raw of
              None \<Rightarrow> Inl InvalidInstitution
            | Some out' \<Rightarrow> bound_cids rest out'))"

definition bound_subject_cid_numbers :: "string list \<Rightarrow> ve_error + cid_number list" where
  "bound_subject_cid_numbers raws = bound_cids raws []"

definition emit_proposal_created :: "proposal_id \<Rightarrow> u8 \<Rightarrow> u8 \<Rightarrow> block_number \<Rightarrow> 'x engine \<Rightarrow> 'x engine" where
  "emit_proposal_created i kind stage end s = deposit_event (ProposalCreated i kind stage end) s"

definition emit_proposal_advanced_to_referendum :: "proposal_id \<Rightarrow> block_number \<Rightarrow> u64 \<Rightarrow> 'x engine \<Rightarrow> 'x engine" where
  "emit_proposal_advanced_to_referendum i end elig s =
     deposit_event (ProposalAdvancedToReferendum i end elig) s"

definition push_expiry :: "'x env \<Rightarrow> proposal_id \<Rightarrow> block_number \<Rightarrow> 'x engine \<Rightarrow> (dispatch_error, unit, 'x engine) outcome" where
  "push_expiry env i b s =
     ok_or (try_push (MaxProposalsPerExpiry (cfg env)) (proposals_by_expiry s b) i)
       (VotingEngine TooManyProposalsAtExpiry) s (\<lambda>ids'.
         (Inr (), s\<lparr>proposals_by_expiry := (proposals_by_expiry s)(b := ids')\<rparr>))"

definition schedule_proposal_expiry ::
  "'x env \<Rightarrow> proposal_id \<Rightarrow> block_number \<Rightarrow> 'x engine \<Rightarrow> (dispatch_error, unit, 'x engine) outcome" where
  "schedule_proposal_expiry env i end s = push_expiry env i (bn_add end 1) s"

lemma bound_cids_spec:
  "bound_cids raws out = Inr r \<Longrightarrow> distinct out \<Longrightarrow>
     distinct r \<and> set r = set out \<union> set raws \<and>
     (length out \<le> MAX_PROPOSAL_SUBJECT_CIDS \<longrightarrow> length r \<le> MAX_PROPOSAL_SUBJECT_CIDS)"
  by (induction raws out rule: bound_cids.induct) (auto split: if_splits option.splits)

section \<open>One expired proposal\<close>

definition clear_auto_finalize :: "proposal_id \<Rightarrow> 'x engine \<Rightarrow> 'x engine" where
  "clear_auto_finalize i s =
     upd_queues (\<lambda>q. q\<lparr>auto_finalize_retry_states := (auto_finalize_retry_states q)(i := None),
       auto_finalize_dead_letters := (auto_finalize_dead_letters q)(i := None)\<rparr>) s"

definition defer_auto_finalize :: "'x env \<Rightarrow> block_number \<Rightarrow> proposal_id \<Rightarrow> 'x engine \<Rightarrow> 'x engine" where
  "defer_auto_finalize env now i s =
     (let st = (case auto_finalize_retry_states (queues s) i of
                  None \<Rightarrow> \<lparr>attempts = 0, next_attempt_at = now\<rparr> | Some st \<Rightarrow> st);
          n = sat_add 8 (attempts st) 1;
          at = bn_add now (retry_delay n);
          (retry_scheduled, s1) =
            (if n < MaxManualExecutionAttempts (cfg env) then
               (case push_expiry env i at s of (Inr _, t) \<Rightarrow> (True, t) | (Inl _, t) \<Rightarrow> (False, t))
             else (False, s))
      in if retry_scheduled then
           deposit_event (ProposalAutoFinalizeDeferred i n at)
             (upd_queues (\<lambda>q. q\<lparr>auto_finalize_retry_states :=
                (auto_finalize_retry_states q)(i \<mapsto> \<lparr>attempts = n, next_attempt_at = at\<rparr>)\<rparr>) s1)
         else
           deposit_event (ProposalAutoFinalizeDeadLettered i n)
             (upd_queues (\<lambda>q. q\<lparr>auto_finalize_retry_states := (auto_finalize_retry_states q)(i := None),
                auto_finalize_dead_letters := (auto_finalize_dead_letters q)(i \<mapsto> n)\<rparr>) s1))"

definition finalize_expired ::
  "'x env \<Rightarrow> 'x timeout_handler list \<Rightarrow> block_number \<Rightarrow> proposal_id \<Rightarrow> weight \<times> 'x engine \<Rightarrow> weight \<times> 'x engine" where
  "finalize_expired env timeouts now i ws =
     (let w1 = w_add (fst ws) (db_reads (cfg env) 1); s = snd ws in
      case proposals s i of
        None \<Rightarrow> (w1, clear_auto_finalize i s)
      | Some p \<Rightarrow>
          if p_status p \<noteq> STATUS_VOTING \<or> now \<le> p_end p then (w1, clear_auto_finalize i s)
          else
            let w2 = w_add w1 (unwrap_or_default (tracks_timeout_weight (tracks env) (p_kind p) (p_stage p))) in
            (case tracks_finalize_timeout timeouts p i s of
               (Some (Inr _), s1) \<Rightarrow> (w_add w2 (db_writes (cfg env) 2), clear_auto_finalize i s1)
             | (_, s1) \<Rightarrow> (w_add w2 (db_weight (cfg env) 2 3), defer_auto_finalize env now i s1)))"

section \<open>One bucket\<close>

text \<open>How many items fit the count and, at the worst-case item weight, the weight budget.\<close>

fun reserve_items :: "weight \<Rightarrow> weight \<Rightarrow> nat \<Rightarrow> weight \<Rightarrow> nat" where
  "reserve_items max_weight item 0 reserved = 0"
| "reserve_items max_weight item (Suc n) reserved =
     (let nxt = w_add reserved item in
      if any_gt nxt max_weight then 0 else Suc (reserve_items max_weight item n nxt))"

definition auto_finalize_expiry_bucket ::
  "'x env \<Rightarrow> 'x timeout_handler list \<Rightarrow> block_number \<Rightarrow> block_number \<Rightarrow> nat \<Rightarrow> weight \<Rightarrow> 'x engine \<Rightarrow>
   (nat \<times> bool \<times> weight) \<times> 'x engine" where
  "auto_finalize_expiry_bucket env timeouts expiry now max_count max_weight s =
     (let w = db_weight (cfg env) 1 1;
          bucket = proposals_by_expiry s expiry;
          s1 = s\<lparr>proposals_by_expiry := (proposals_by_expiry s)(expiry := [])\<rparr>
      in if bucket = [] then ((0, False, w), s1)
         else
           let item = w_add (w_add (w_finalize_proposal (cfg env)) (tracks_max_timeout_weight (tracks env)))
                        (db_weight (cfg env) 4 5);
               process_count = reserve_items max_weight item (min max_count (length bucket)) w;
               (w2, s2) = fold (finalize_expired env timeouts now) (take process_count bucket) (w, s1);
               rest = drop process_count bucket;
               (w3, s3) = (if rest \<noteq> [] then (w_add w2 (db_writes (cfg env) 1),
                              s2\<lparr>proposals_by_expiry := (proposals_by_expiry s2)(expiry := rest)\<rparr>)
                           else (w2, s2))
           in ((process_count, rest \<noteq> [], w_add w3 (w_scale (w_finalize_proposal (cfg env)) process_count)), s3))"

section \<open>Interface of a timeout handler\<close>

locale timeout_track =
  fixes env :: "'x env" and h :: "'x timeout_handler"
  assumes skips: "fst (h p i s) = None \<Longrightarrow> snd (h p i s) = s"
    and sound: "engine_inv env s \<Longrightarrow> proposals s i = Some p \<Longrightarrow> sound_from env s (snd (h p i s))"
begin

lemma sound_from_any:
  "sound_from env s0 s \<Longrightarrow> proposals s i = Some p \<Longrightarrow> sound_from env s0 (snd (h p i s))"
  using sound sound_from_trans sound_from_inv by blast

end

definition timeouts_sound :: "'x env \<Rightarrow> 'x timeout_handler list \<Rightarrow> bool" where
  "timeouts_sound env hs \<longleftrightarrow> (\<forall>h \<in> set hs. timeout_track env h)"

lemma sound_tracks_timeout:
  assumes "timeouts_sound env hs" "sound_from env s0 s" "proposals s i = Some p"
  shows "sound_from env s0 (snd (tracks_finalize_timeout hs p i s))"
  using assms
proof (induction hs)
  case (Cons h hs)
  then have h: "timeout_track env h" and hs: "timeouts_sound env hs" by (simp_all add: timeouts_sound_def)
  show ?case
  proof (cases "h p i s")
    case (Pair r t)
    with h have "r = None \<Longrightarrow> t = s" using timeout_track.skips [OF h, of p i s] by simp
    moreover have "sound_from env s0 t"
      using timeout_track.sound_from_any [OF h Cons.prems(2,3)] Pair by simp
    ultimately show ?thesis using Pair Cons hs by (auto split: option.splits)
  qed
qed simp

lemma sound_clear_auto [simp]: "sound_from env s0 (clear_auto_finalize i s) = sound_from env s0 s"
  by (simp add: clear_auto_finalize_def)

lemma sound_push_expiry: "sound_from env s0 s \<Longrightarrow> keeps (sound_from env s0) (push_expiry env' i b s)"
  by (simp add: push_expiry_def ok_or_def split: option.split)

lemma sound_defer: "sound_from env s0 s \<Longrightarrow> sound_from env s0 (defer_auto_finalize env' now i s)"
  using sound_push_expiry [of env s0 s env' i]
  by (auto simp: defer_auto_finalize_def Let_def keeps_def split: prod.splits sum.splits if_splits)
     (metis snd_conv)+

lemma sound_finalize_expired:
  assumes "timeouts_sound env hs" "sound_from env s0 (snd ws)"
  shows "sound_from env s0 (snd (finalize_expired env hs now i ws))"
  using assms sound_tracks_timeout [OF assms]
  by (auto simp: finalize_expired_def Let_def split: option.splits prod.splits sum.splits
      intro: sound_defer) (metis sound_defer snd_conv)+

lemma sound_finalize_fold:
  assumes "timeouts_sound env hs"
  shows "sound_from env s0 (snd ws) \<Longrightarrow> sound_from env s0 (snd (fold (finalize_expired env hs now) is ws))"
proof (induction "is" arbitrary: ws)
  case (Cons i js)
  show ?case using Cons.IH [OF sound_finalize_expired [OF assms Cons.prems]] by simp
qed simp

lemma sound_bucket:
  assumes "timeouts_sound env hs" "sound_from env s0 s"
  shows "sound_from env s0 (snd (auto_finalize_expiry_bucket env hs e now mc mw s))"
  using assms sound_finalize_fold [OF assms(1), of s0 "(w, s\<lparr>proposals_by_expiry := b\<rparr>)" now "is" for w b "is"]
  by (auto simp: auto_finalize_expiry_bucket_def Let_def split: prod.splits) (metis snd_conv sound_from_frame(1))+

section \<open>Budgets and conservation\<close>

lemma reserve_items_le: "reserve_items mw item n r \<le> n"
  by (induction n arbitrary: r) (auto simp: Let_def)

text \<open>
  A bucket is never lost: one pass over an expiry bucket handles a prefix of at most
  \<open>max_count\<close> ids, in order, and leaves in the bucket exactly the remaining ids whenever it
  reports that some remain; it reports so exactly when the prefix is not the whole bucket.
\<close>

theorem expiry_bucket_conserved:
  assumes "auto_finalize_expiry_bucket env hs e now max_count mw s = ((k, remaining, w), s')"
  shows "k \<le> max_count \<and> k \<le> length (proposals_by_expiry s e) \<and>
     (remaining \<longleftrightarrow> k < length (proposals_by_expiry s e)) \<and>
     (remaining \<longrightarrow> proposals_by_expiry s' e = drop k (proposals_by_expiry s e))"
proof (cases "proposals_by_expiry s e = []")
  case True
  with assms show ?thesis by (auto simp: auto_finalize_expiry_bucket_def Let_def)
next
  case False
  let ?item = "w_add (w_add (w_finalize_proposal (cfg env)) (tracks_max_timeout_weight (tracks env)))
                 (db_weight (cfg env) 4 5)"
  let ?n = "min max_count (length (proposals_by_expiry s e))"
  have le: "reserve_items mw ?item ?n (db_weight (cfg env) 1 1) \<le> ?n" by (rule reserve_items_le)
  from assms False have k: "k = reserve_items mw ?item ?n (db_weight (cfg env) 1 1)"
    and r: "remaining = (drop k (proposals_by_expiry s e) \<noteq> [])"
    and b: "remaining \<Longrightarrow> proposals_by_expiry s' e = drop k (proposals_by_expiry s e)"
    by (auto simp: auto_finalize_expiry_bucket_def Let_def split: prod.splits if_splits)
  from k le have "k \<le> max_count" "k \<le> length (proposals_by_expiry s e)" by simp_all
  with r b show ?thesis by auto
qed


theorem expiry_bucket_conserved_witness:
  "\<exists>w s'. auto_finalize_expiry_bucket idle_env [] 5 5 1 weight_zero
       ((sample_state STATUS_PASSED)\<lparr>proposals_by_expiry := (\<lambda>_. [])(5 := [0, 1])\<rparr>) = ((1, True, w), s') \<and>
     proposals_by_expiry s' 5 = [1]"
proof -
  let ?s = "(sample_state STATUS_PASSED)\<lparr>proposals_by_expiry := (\<lambda>_. [])(5 := [0, 1])\<rparr>"
  have wz: "tracks_max_timeout_weight (tracks idle_env) = weight_zero"
    "w_finalize_proposal test_config = weight_zero" "w_scale weight_zero 1 = weight_zero"
    by (simp_all add: idle_track_def w_max_def weight_zero_def unwrap_or_default_def test_config_def
        runtime_config_def w_scale_def sat_mul_def)
  have one: "reserve_items weight_zero weight_zero 1 weight_zero = 1"
    by (simp add: numeral_eq_Suc)
  have run: "fst (auto_finalize_expiry_bucket idle_env [] 5 5 1 weight_zero ?s) = (1, True, weight_zero)"
    using wz one by (simp add: auto_finalize_expiry_bucket_def Let_def split: prod.splits)
      (simp add: finalize_expired_def sample_state_def engine_genesis_def numeral_eq_Suc)
  then obtain s' where s': "auto_finalize_expiry_bucket idle_env [] 5 5 1 weight_zero ?s = ((1, True, weight_zero), s')"
    by (metis prod.collapse)
  have "proposals_by_expiry s' 5 = [1]"
    using expiry_bucket_conserved [OF s'] by (simp add: numeral_eq_Suc)
  with s' show ?thesis by blast
qed


end
