(* ===== verification/Maintenance.thy ===== *)
theory Maintenance
  imports Expiry
begin

text \<open>
  The cleanup pipeline (\<^verbatim>\<open>votingengine/src/cleanup.rs\<close>, \<^verbatim>\<open>votingengine/src/maintenance.rs\<close>):
  activation of tasks whose 90-day retention is over, and the bounded state machine that erases
  a terminal proposal stage by stage from the fair ready queue.
\<close>

section \<open>Activation\<close>

definition trigger_cleanup :: "'x env \<Rightarrow> proposal_id \<Rightarrow> 'x engine \<Rightarrow> (ve_error, weight, 'x engine) outcome" where
  "trigger_cleanup env i s =
     (let w = db_reads (cfg env) 1;
          subjects = (case proposals s i of None \<Rightarrow> [] | Some p \<Rightarrow> subject_keys p);
          s1 = upd_locks (\<lambda>l. fold (\<lambda>subject. remove_active_proposal subject i) subjects l) s;
          w1 = fold (\<lambda>_ w. w_add w (db_weight (cfg env) 1 1)) subjects w;
          w2 = w_add w1 (db_reads (cfg env) 1)
      in if pending_proposal_cleanups (cleanup s1) i = None then
           and_then (zoom id (\<lambda>c s. s\<lparr>cleanup := c\<rparr>) (enqueue_pending_cleanup i (cleanup s1)) s1) (\<lambda>_ s2.
             (Inr (w_add w2 (db_weight (cfg env) 1 3)),
              s2\<lparr>cleanup := (cleanup s2)\<lparr>pending_proposal_cleanups :=
                 (pending_proposal_cleanups (cleanup s2))(i \<mapsto> AdminSnapshots)\<rparr>\<rparr>))
         else (Inr w2, s1))"

definition sched :: "'x engine \<Rightarrow> scheduled_cleanup seq_queue" where
  "sched s = scheduled_cleanups (cleanup s)"

definition put_sched :: "scheduled_cleanup seq_queue \<Rightarrow> 'x engine \<Rightarrow> 'x engine" where
  "put_sched q s = s\<lparr>cleanup := (cleanup s)\<lparr>scheduled_cleanups := q\<rparr>\<rparr>"

text \<open>The loop keeps the head in a local variable and writes it back at the end.\<close>

fun scheduled_loop ::
  "nat \<Rightarrow> 'x env \<Rightarrow> block_number \<Rightarrow> weight \<Rightarrow> weight \<Rightarrow> u64 \<Rightarrow> u64 \<Rightarrow> weight \<Rightarrow> 'x engine \<Rightarrow> u64 \<times> weight \<times> 'x engine" where
  "scheduled_loop 0 env now max_weight item tail head w s = (head, w, s)"
| "scheduled_loop (Suc n) env now max_weight item tail head w s =
     (if any_gt (w_add w item) max_weight then (head, w, s)
      else if tail \<le> head then (head, w, s)
      else
        let w1 = w_add w (db_reads (cfg env) 1) in
        case q_items (sched s) head of
          None \<Rightarrow> scheduled_loop n env now max_weight item tail (sat_add 64 head 1) w1 s
        | Some task \<Rightarrow>
            if now < cleanup_at task then (head, w1, s)
            else
              (case trigger_cleanup env (sc_proposal_id task) s of
                 (Inl _, s1) \<Rightarrow> (head, w1, s1)
               | (Inr tw, s1) \<Rightarrow>
                   scheduled_loop n env now max_weight item tail (sat_add 64 head 1)
                     (w_add (w_add w1 tw) (db_writes (cfg env) 1))
                     (put_sched ((sched s1)\<lparr>q_items := (q_items (sched s1))(head := None)\<rparr>) s1)))"

definition process_scheduled_cleanups ::
  "'x env \<Rightarrow> block_number \<Rightarrow> weight \<Rightarrow> 'x engine \<Rightarrow> weight \<times> 'x engine" where
  "process_scheduled_cleanups env now max_weight s =
     (let item = db_weight (cfg env) (sat_add 64 MAX_PROPOSAL_SUBJECT_CIDS 5) (sat_add 64 MAX_PROPOSAL_SUBJECT_CIDS 5);
          (head, w, s1) = scheduled_loop (MaxCleanupActivationsPerBlock (cfg env)) env now max_weight item
             (q_tail (sched s)) (q_head (sched s)) (db_reads (cfg env) 2) s
      in (w_add w (db_writes (cfg env) 1), put_sched ((sched s1)\<lparr>q_head := head\<rparr>) s1))"

section \<open>The erasing state machine\<close>

definition clear_dead_letters :: "proposal_id \<Rightarrow> queue_storage \<Rightarrow> queue_storage" where
  "clear_dead_letters i q =
     q\<lparr>pending_proposal_executions := kv_remove i (pending_proposal_executions q),
       pending_terminal_finalizations := kv_remove i (pending_terminal_finalizations q),
       terminal_finalization_dead_letters := (terminal_finalization_dead_letters q)(i := None),
       auto_finalize_retry_states := (auto_finalize_retry_states q)(i := None),
       auto_finalize_dead_letters := (auto_finalize_dead_letters q)(i := None)\<rparr>"

definition erase_proposal :: "proposal_id \<Rightarrow> 'x engine \<Rightarrow> 'x engine" where
  "erase_proposal i s =
     (let s1 = cleanup_proposal_indexes i (upd_locks (release_internal_proposal_mutexes i) s);
          s2 = s1\<lparr>proposals := (proposals s1)(i := None)\<rparr>;
          s3 = upd_records (\<lambda>d. d\<lparr>proposal_data := (proposal_data d)(i := None),
                 proposal_owner := (proposal_owner d)(i := None),
                 proposal_vote_plans := (proposal_vote_plans d)(i := None),
                 proposal_meta := (proposal_meta d)(i := None),
                 proposal_population_snapshots := (proposal_population_snapshots d)(i := None)\<rparr>) s2
      in upd_queues (\<lambda>q. clear_dead_letters i
           (q\<lparr>proposal_execution_retry_states := (proposal_execution_retry_states q)(i := None)\<rparr>)) s3)"

definition process_pending_cleanup_step ::
  "'x env \<Rightarrow> proposal_id \<Rightarrow> pending_cleanup_stage \<Rightarrow> u32 \<Rightarrow> 'x engine \<Rightarrow>
   (pending_cleanup_stage option \<times> weight) \<times> 'x engine" where
  "process_pending_cleanup_step env i stage limit s =
     (let cp = clearing env in
      case stage of
        AdminSnapshots \<Rightarrow>
          let xs = admin_snapshot (snapshots s) i; ys = survivors cp limit xs in
          ((Some (if ys \<noteq> [] then AdminSnapshots else VoterSnapshots),
            db_weight (cfg env) (cp_loops cp limit (length xs)) (length xs - length ys)),
           upd_snapshots (\<lambda>n. n\<lparr>admin_snapshot := (admin_snapshot n)(i := ys)\<rparr>) s)
      | VoterSnapshots \<Rightarrow>
          let xs = voter_snapshot (snapshots s) i; ys = survivors cp limit xs in
          ((Some (if ys \<noteq> [] then VoterSnapshots else InstitutionTicketCounts),
            db_weight (cfg env) (cp_loops cp limit (length xs)) (length xs - length ys)),
           upd_snapshots (\<lambda>n. n\<lparr>voter_snapshot := (voter_snapshot n)(i := ys)\<rparr>) s)
      | InstitutionTicketCounts \<Rightarrow>
          let xs = institution_ticket_count_snapshot (snapshots s) i; ys = survivors cp limit xs in
          ((Some (if ys \<noteq> [] then InstitutionTicketCounts else TrackData),
            db_weight (cfg env) (cp_loops cp limit (length xs)) (length xs - length ys)),
           upd_snapshots (\<lambda>n. n\<lparr>institution_ticket_count_snapshot :=
              (institution_ticket_count_snapshot n)(i := ys)\<rparr>) s)
      | TrackData \<Rightarrow>
          (case proposals s i of
             None \<Rightarrow> ((Some ProposalObjectStage, db_reads (cfg env) 1), s)
           | Some p \<Rightarrow>
               (case tracks_cleanup_chunk (tracks env) (p_kind p) i limit s of
                  (None, s1) \<Rightarrow> ((Some TrackData, db_reads (cfg env) 1), s1)
                | (Some (removed, has_remaining), s1) \<Rightarrow>
                    ((Some (if has_remaining then TrackData else ProposalObjectStage),
                      w_add (unwrap_or_default (tracks_cleanup_chunk_weight (tracks env) (p_kind p) limit))
                        (db_weight (cfg env) (removed + 1) removed)), s1)))
      | ProposalObjectStage \<Rightarrow>
          ((Some FinalCleanup, db_writes (cfg env) 2),
           upd_records (\<lambda>d. d\<lparr>proposal_object := (proposal_object d)(i := None),
             proposal_object_meta := (proposal_object_meta d)(i := None)\<rparr>) s)
      | FinalCleanup \<Rightarrow>
          (case proposals s i of
             None \<Rightarrow> ((None, db_weight (cfg env) 1 5), upd_queues (clear_dead_letters i) s)
           | Some p \<Rightarrow>
               (case tracks_cleanup_terminal (tracks env) (p_kind p) i s of
                  (False, s1) \<Rightarrow> ((Some FinalCleanup, db_reads (cfg env) 1), s1)
                | (True, s1) \<Rightarrow>
                    ((None, w_add (unwrap_or_default (tracks_cleanup_terminal_weight (tracks env) (p_kind p)))
                        (db_weight (cfg env) 2 19)), erase_proposal i s1))))"

definition pendq :: "'x engine \<Rightarrow> proposal_id seq_queue" where
  "pendq s = pending_cleanup_queue (cleanup s)"

definition set_stage :: "proposal_id \<Rightarrow> pending_cleanup_stage option \<Rightarrow> 'x engine \<Rightarrow> 'x engine" where
  "set_stage i st s = s\<lparr>cleanup := (cleanup s)\<lparr>pending_proposal_cleanups :=
     (pending_proposal_cleanups (cleanup s))(i := st)\<rparr>\<rparr>"

fun cleanup_steps_loop :: "nat \<Rightarrow> 'x env \<Rightarrow> u32 \<Rightarrow> weight \<Rightarrow> weight \<Rightarrow> weight \<Rightarrow> 'x engine \<Rightarrow> weight \<times> 'x engine" where
  "cleanup_steps_loop 0 env limit bound max_weight w s = (w, s)"
| "cleanup_steps_loop (Suc n) env limit bound max_weight w s =
     (if any_gt (w_add w bound) max_weight then (w, s)
      else if q_tail (pendq s) \<le> q_head (pendq s) then (w, s)
      else
        let entry = q_items (pendq s) (q_head (pendq s));
            s1 = s\<lparr>cleanup := (cleanup s)\<lparr>pending_cleanup_queue := q_pop (pendq s)\<rparr>\<rparr>;
            w1 = w_add w (db_weight (cfg env) 3 2)
        in case entry of
             None \<Rightarrow> cleanup_steps_loop n env limit bound max_weight w1 s1
           | Some i \<Rightarrow>
               (case pending_proposal_cleanups (cleanup s1) i of
                  None \<Rightarrow> cleanup_steps_loop n env limit bound max_weight w1 s1
                | Some stage \<Rightarrow>
                    let ((next_stage, sw), s2) = process_pending_cleanup_step env i stage limit s1;
                        w2 = w_add w1 sw
                    in case next_stage of
                         Some nxt \<Rightarrow>
                           (case enqueue_pending_cleanup i (cleanup (set_stage i (Some nxt) s2)) of
                              (Inl _, c) \<Rightarrow> (w2, (set_stage i (Some nxt) s2)\<lparr>cleanup := c\<rparr>)
                            | (Inr _, c) \<Rightarrow>
                                cleanup_steps_loop n env limit bound max_weight
                                  (w_add w2 (db_weight (cfg env) 2 3)) ((set_stage i (Some nxt) s2)\<lparr>cleanup := c\<rparr>))
                       | None \<Rightarrow>
                           cleanup_steps_loop n env limit bound max_weight
                             (w_add w2 (db_writes (cfg env) 1)) (set_stage i None s2)))"

definition process_pending_cleanup_steps :: "'x env \<Rightarrow> weight \<Rightarrow> 'x engine \<Rightarrow> weight \<times> 'x engine" where
  "process_pending_cleanup_steps env max_weight s =
     (let max_steps = MaxCleanupStepsPerBlock (cfg env) in
      if max_steps = 0 then (weight_zero, s)
      else
        let limit = max (CleanupKeysPerStep (cfg env)) 1;
            track_bound = w_max (tracks_max_cleanup_chunk_weight (tracks env) limit)
                            (tracks_max_cleanup_terminal_weight (tracks env));
            bound = w_add track_bound (db_weight (cfg env) (sat_add 64 limit 8) (sat_add 64 limit 20))
        in cleanup_steps_loop max_steps env limit bound max_weight (db_reads (cfg env) 2) s)"

section \<open>Soundness\<close>

lemma doomed_simps [simp]:
  "doomed (c\<lparr>pending_proposal_cleanups := m\<rparr>) =
     sc_proposal_id ` set (q_list (scheduled_cleanups c)) \<union> set (q_list (pending_cleanup_queue c)) \<union> dom m"
  by (simp add: doomed_def)

lemma sound_cleanup_update:
  assumes s: "sound_from env s0 s" and c: "cleanup_inv (block_number s) c"
    and d: "\<forall>i \<in> doomed c. i \<in> doomed (cleanup s) \<or> i < next_proposal_id (ids s) \<and> settled s i"
  shows "sound_from env s0 (s\<lparr>cleanup := c\<rparr>)"
  using assms by (auto simp: sound_from_def engine_inv_def)

lemma sound_doomed:
  "sound_from env s0 s \<Longrightarrow> i \<in> doomed (cleanup s) \<Longrightarrow> i < next_proposal_id (ids s) \<and> settled s i"
  by (simp add: sound_from_def engine_inv_def)

lemma sound_cleanup_inv: "sound_from env s0 s \<Longrightarrow> cleanup_inv (block_number s) (cleanup s)"
  by (simp add: sound_from_def engine_inv_def)

lemma enqueue_effect:
  assumes "cleanup_inv b c" "enqueue_pending_cleanup i c = (Inr a, c')"
  shows "cleanup_inv b c' \<and> doomed c' = insert i (doomed c) \<and> scheduled_cleanups c' = scheduled_cleanups c \<and>
    pending_proposal_cleanups c' = pending_proposal_cleanups c"
proof -
  from assms obtain q where q: "q_push i (pending_cleanup_queue c) = Some q" "c' = c\<lparr>pending_cleanup_queue := q\<rparr>"
    by (auto simp: enqueue_pending_cleanup_def)
  have "q_ok (pending_cleanup_queue c)" using assms(1) by (simp add: cleanup_inv_def)
  with q have "q_list q = q_list (pending_cleanup_queue c) @ [i]" by (simp add: q_push_list)
  moreover have "cleanup_inv b c'" using cleanup_inv_enqueue [OF assms(1), of i] assms(2) by simp
  ultimately show ?thesis using q by (auto simp: doomed_def)
qed

lemma sound_enqueue:
  assumes s: "sound_from env s0 s" and i: "i < next_proposal_id (ids s)" "settled s i"
    and e: "enqueue_pending_cleanup i (cleanup s) = (r, c)"
  shows "sound_from env s0 (s\<lparr>cleanup := c\<rparr>)"
proof (cases r)
  case (Inl x)
  with e have "c = cleanup s" by (auto simp: enqueue_pending_cleanup_def ok_or_def split: option.splits)
  with s show ?thesis by simp
next
  case (Inr a)
  with e enqueue_effect [OF sound_cleanup_inv [OF s]] have "cleanup_inv (block_number s) c"
    "doomed c = insert i (doomed (cleanup s))" by auto
  with s i show ?thesis by (intro sound_cleanup_update) auto
qed

lemma sound_set_stage:
  assumes "sound_from env s0 s" "st = None \<or> i < next_proposal_id (ids s) \<and> settled s i"
  shows "sound_from env s0 (set_stage i st s)"
  unfolding set_stage_def
  by (rule sound_cleanup_update [OF assms(1)])
     (use assms in \<open>auto simp: sound_cleanup_inv doomed_def split: if_splits\<close>)

lemma sound_trigger:
  assumes s: "sound_from env s0 s" and i: "i < next_proposal_id (ids s)" "settled s i"
  shows "keeps (sound_from env s0) (trigger_cleanup env' i s)"
proof -
  define s1 where "s1 = upd_locks (\<lambda>l. fold (\<lambda>subject. remove_active_proposal subject i)
      (case proposals s i of None \<Rightarrow> [] | Some p \<Rightarrow> subject_keys p) l) s"
  have s1: "sound_from env s0 s1" "i < next_proposal_id (ids s1)" "settled s1 i"
    using s i by (simp_all add: s1_def sound_from_locks lock_inv_remove_actives sound_from_lock_inv)
  obtain r c where e: "enqueue_pending_cleanup i (cleanup s1) = (r, c)" by fastforce
  have s2: "sound_from env s0 (s1\<lparr>cleanup := c\<rparr>)" using s1 e by (rule sound_enqueue)
  have s3: "sound_from env s0 (set_stage i (Some AdminSnapshots) (s1\<lparr>cleanup := c\<rparr>))"
    using s1 by (intro sound_set_stage [OF s2]) auto
  show ?thesis
    using s1 s2 s3 e unfolding trigger_cleanup_def s1_def [symmetric] Let_def
    by (cases r) (auto simp: set_stage_def zoom_def)
qed

text \<open>Removing the front of the delay queue.\<close>

lemma sound_pop_sched:
  assumes s: "sound_from env s0 s" and ne: "q_list (sched s) \<noteq> []"
  shows "sound_from env s0 (put_sched (q_pop (sched s)) s)"
proof -
  from sound_cleanup_inv [OF s] have inv: "cleanup_inv (block_number s) (cleanup s)" .
  then have q: "q_ok (sched s)" by (simp add: cleanup_inv_def sched_def)
  have l: "q_list (q_pop (sched s)) = tl (q_list (sched s))" using q ne by (rule q_pop_list)
  have sub: "set (q_list (q_pop (sched s))) \<subseteq> set (q_list (sched s))"
    unfolding l by (cases "q_list (sched s)") auto
  have "sorted_wrt (\<lambda>a b. cleanup_at a \<le> cleanup_at b) (q_list (q_pop (sched s)))"
    using inv by (intro sq.deq_order_kept [OF q ne]) (simp add: cleanup_inv_def sched_def)
  with inv sub have "cleanup_inv (block_number s) ((cleanup s)\<lparr>scheduled_cleanups := q_pop (sched s)\<rparr>)"
    using q_pop_ok [OF q ne] by (auto simp: cleanup_inv_def sched_def)
  then show ?thesis
    unfolding put_sched_def using sub
    by (intro sound_cleanup_update [OF s]) (auto simp: doomed_def sched_def)
qed

lemma sched_put [simp]: "sched (put_sched q s) = q" "put_sched q (put_sched r s) = put_sched q s"
  by (simp_all add: sched_def put_sched_def)

lemma put_sched_same [simp]: "put_sched (sched s) s = s"
  by (simp add: sched_def put_sched_def)

lemma put_sched_fields [simp]:
  "proposals (put_sched q s) = proposals s" "ids (put_sched q s) = ids s" "locks (put_sched q s) = locks s"
  "pending_proposal_cleanups (cleanup (put_sched q s)) = pending_proposal_cleanups (cleanup s)"
  "settled (put_sched q s) = settled s" "block_number (put_sched q s) = block_number s"
  by (simp_all add: put_sched_def)

lemma trigger_put_sched:
  "trigger_cleanup env i (put_sched q s) =
     (fst (trigger_cleanup env i s), put_sched q (snd (trigger_cleanup env i s)))"
  by (simp add: trigger_cleanup_def put_sched_def enqueue_pending_cleanup_def Let_def zoom_def ok_or_def
      and_then_def split: option.split)

lemma trigger_sched [simp]: "sched (snd (trigger_cleanup env i s)) = sched s"
  by (simp add: trigger_cleanup_def sched_def enqueue_pending_cleanup_def Let_def zoom_def ok_or_def
      and_then_def split: option.split)

lemma trigger_registers:
  "trigger_cleanup env i s = (Inr w, s') \<Longrightarrow>
     dom (pending_proposal_cleanups (cleanup s')) = insert i (dom (pending_proposal_cleanups (cleanup s)))"
  by (auto simp: trigger_cleanup_def enqueue_pending_cleanup_def Let_def split: if_splits)

lemma trigger_error_frame:
  "trigger_cleanup env i s = (Inl e, s') \<Longrightarrow>
     pending_proposal_cleanups (cleanup s') = pending_proposal_cleanups (cleanup s)"
  by (auto simp: trigger_cleanup_def enqueue_pending_cleanup_def Let_def zoom_def ok_or_def and_then_def
      split: if_splits option.splits)

definition at_head :: "u64 \<Rightarrow> 'x engine \<Rightarrow> 'x engine" where
  "at_head h s = put_sched ((sched s)\<lparr>q_head := h\<rparr>) s"

lemma at_head_pop:
  "at_head (sat_add 64 h 1) (put_sched ((sched s)\<lparr>q_items := (q_items (sched s))(h := None)\<rparr>) s) =
     put_sched (q_pop (sched (at_head h s))) (at_head h s)"
  by (simp add: at_head_def q_pop_def)

text \<open>
  The tasks activated by the loop: a prefix of the queue, all of them due, each registered for
  cleaning.
\<close>

definition activated :: "block_number \<Rightarrow> nat \<Rightarrow> 'x engine \<Rightarrow> 'x engine \<Rightarrow> bool" where
  "activated now k s s' \<longleftrightarrow>
     q_list (sched s') = drop k (q_list (sched s)) \<and>
     (\<forall>t \<in> set (take k (q_list (sched s))).
        cleanup_at t \<le> now \<and> sc_proposal_id t \<in> dom (pending_proposal_cleanups (cleanup s'))) \<and>
     dom (pending_proposal_cleanups (cleanup s)) \<subseteq> dom (pending_proposal_cleanups (cleanup s'))"

lemma activated_0: "sched s' = sched s \<Longrightarrow>
    pending_proposal_cleanups (cleanup s') = pending_proposal_cleanups (cleanup s) \<Longrightarrow> activated now 0 s s'"
  by (simp add: activated_def)

lemma activated_Suc:
  assumes "q_list (sched s) = t # ts" "cleanup_at t \<le> now"
    and "dom (pending_proposal_cleanups (cleanup u)) =
      insert (sc_proposal_id t) (dom (pending_proposal_cleanups (cleanup s)))"
    and "q_list (sched u) = ts" "activated now k u s'"
  shows "activated now (Suc k) s s'"
  using assms by (auto simp: activated_def)

lemma scheduled_loop_sound:
  assumes "sound_from env s0 (at_head h s)" "tail = q_tail (sched s)"
    and "scheduled_loop n env now mw item tail h w s = (h', w', s')"
  shows "sound_from env s0 (at_head h' s') \<and> (\<exists>k \<le> n. activated now k (at_head h s) (at_head h' s'))"
  using assms
proof (induction n arbitrary: h w s)
  case 0
  then show ?case by (auto intro: activated_0)
next
  case (Suc n)
  define u where "u = at_head h s"
  from Suc.prems(1) have su: "sound_from env s0 u" by (simp add: u_def)
  then have q: "q_ok (sched u)" using sound_cleanup_inv by (auto simp: cleanup_inv_def sched_def)
  have su_fields: "sched u = (sched s)\<lparr>q_head := h\<rparr>"
    "pending_proposal_cleanups (cleanup u) = pending_proposal_cleanups (cleanup s)"
    by (simp_all add: u_def at_head_def)
  show ?case
  proof (cases "any_gt (w_add w item) mw \<or> tail \<le> h")
    case True
    with Suc.prems show ?thesis by (auto intro!: exI [of _ 0] activated_0 split: if_splits)
  next
    case False
    then have lt: "q_head (sched u) < q_tail (sched u)" using Suc.prems(2) su_fields by simp
    then have ne: "q_list (sched u) \<noteq> []" using q q_list_eq_Nil by fastforce
    with q_front_list [OF q] lt obtain t ts where t: "q_list (sched u) = t # ts" "q_items (sched s) h = Some t"
      by (cases "q_list (sched u)") (auto simp: q_front_def su_fields)
    show ?thesis
    proof (cases "now < cleanup_at t")
      case True
      with False t Suc.prems show ?thesis by (auto intro!: exI [of _ 0] activated_0 simp: Let_def)
    next
      case due: False
      let ?i = "sc_proposal_id t"
      have "?i \<in> doomed (cleanup u)" using t(1) by (auto simp: doomed_def sched_def)
      with sound_doomed [OF su] have i: "?i < next_proposal_id (ids u)" "settled u ?i" by auto
      obtain r s1 where tr: "trigger_cleanup env ?i s = (r, s1)" by fastforce
      have tru: "trigger_cleanup env ?i u = (r, at_head h s1)"
        using tr trigger_put_sched [of env ?i "(sched s)\<lparr>q_head := h\<rparr>" s] trigger_sched [of env ?i s]
        by (simp add: u_def at_head_def)
      from sound_trigger [OF su i, of env] tru have s1: "sound_from env s0 (at_head h s1)" by simp
      have sch1: "sched s1 = sched s" using trigger_sched [of env ?i s] tr by simp
      show ?thesis
      proof (cases r)
        case (Inl e)
        with tr due False t Suc.prems have "h' = h" "s' = s1" by (auto simp: Let_def)
        with s1 sch1 trigger_error_frame [OF tr [unfolded Inl]] show ?thesis
          by (auto intro!: exI [of _ 0] activated_0 simp: at_head_def)
      next
        case (Inr tw)
        define s2 where "s2 = put_sched ((sched s1)\<lparr>q_items := (q_items (sched s1))(h := None)\<rparr>) s1"
        have pop: "at_head (sat_add 64 h 1) s2 = put_sched (q_pop (sched (at_head h s1))) (at_head h s1)"
          unfolding s2_def by (rule at_head_pop)
        have schu: "sched (at_head h s1) = sched u" using sch1 by (simp add: at_head_def u_def)
        have s2: "sound_from env s0 (at_head (sat_add 64 h 1) s2)"
          unfolding pop using s1 ne schu by (intro sound_pop_sched) auto
        from Suc.prems(3) Inr tr due False t obtain w2 where
          loop: "scheduled_loop n env now mw item tail (sat_add 64 h 1) w2 s2 = (h', w', s')"
          by (auto simp: Let_def s2_def)
        have "tail = q_tail (sched s2)" using Suc.prems(2) sch1 by (simp add: s2_def)
        from Suc.IH [OF s2 this loop] obtain k where k: "k \<le> n" "sound_from env s0 (at_head h' s')"
          "activated now k (at_head (sat_add 64 h 1) s2) (at_head h' s')" by blast
        have "activated now (Suc k) u (at_head h' s')"
        proof (rule activated_Suc [OF t(1) _ _ _ k(3)])
          show "cleanup_at t \<le> now" using due by simp
          show "q_list (sched (at_head (sat_add 64 h 1) s2)) = ts"
            unfolding pop using q_pop_list [OF q ne] t(1) schu by simp
          show "dom (pending_proposal_cleanups (cleanup (at_head (sat_add 64 h 1) s2))) =
              insert ?i (dom (pending_proposal_cleanups (cleanup u)))"
            unfolding pop using trigger_registers [OF tru [unfolded Inr]] by simp
        qed
        with k show ?thesis unfolding u_def [symmetric] by (auto intro!: exI [of _ "Suc k"])
      qed
    qed
  qed
qed

lemma scheduled_cleanups_sound:
  assumes "sound_from env s0 s" "process_scheduled_cleanups env now mw s = (w, s')"
  shows "sound_from env s0 s' \<and> (\<exists>k \<le> MaxCleanupActivationsPerBlock (cfg env). activated now k s s')"
proof -
  have h: "at_head (q_head (sched s)) s = s" by (simp add: at_head_def)
  from assms(2) obtain hd w1 s1 where
    loop: "scheduled_loop (MaxCleanupActivationsPerBlock (cfg env)) env now mw
       (db_weight (cfg env) (sat_add 64 MAX_PROPOSAL_SUBJECT_CIDS 5) (sat_add 64 MAX_PROPOSAL_SUBJECT_CIDS 5))
       (q_tail (sched s)) (q_head (sched s)) (db_reads (cfg env) 2) s = (hd, w1, s1)"
    and s': "s' = at_head hd s1"
    by (auto simp: process_scheduled_cleanups_def Let_def at_head_def split: prod.splits)
  from scheduled_loop_sound [OF _ refl loop, of s0] assms(1) show ?thesis unfolding h s' by simp
qed


section \<open>Soundness of the erasing steps\<close>

lemma cleanup_indexes_fields [simp]:
  "proposals (cleanup_proposal_indexes i s) = proposals s"
  "locks (cleanup_proposal_indexes i s) = locks s"
  "cleanup (cleanup_proposal_indexes i s) = cleanup s"
  "block_number (cleanup_proposal_indexes i s) = block_number s"
  "callback_execution_scopes (cleanup_proposal_indexes i s) = callback_execution_scopes s"
  "next_proposal_id (ids (cleanup_proposal_indexes i s)) = next_proposal_id (ids s)"
  "records (cleanup_proposal_indexes i s) = records s"
  "queues (cleanup_proposal_indexes i s) = queues s"
  "snapshots (cleanup_proposal_indexes i s) = snapshots s"
  by (simp_all add: cleanup_proposal_indexes_def Let_def)

lemma erase_fields [simp]:
  "proposals (erase_proposal i s) = (proposals s)(i := None)"
  "locks (erase_proposal i s) = release_internal_proposal_mutexes i (locks s)"
  "cleanup (erase_proposal i s) = cleanup s" "block_number (erase_proposal i s) = block_number s"
  "callback_execution_scopes (erase_proposal i s) = callback_execution_scopes s"
  "next_proposal_id (ids (erase_proposal i s)) = next_proposal_id (ids s)"
  "snapshots (erase_proposal i s) = snapshots s"
  by (simp_all add: erase_proposal_def Let_def)

lemma sound_erase: "sound_from env s0 s \<Longrightarrow> sound_from env s0 (erase_proposal i s)"
proof -
  assume s: "sound_from env s0 s"
  have "engine_inv env (erase_proposal i s)"
    using s by (auto simp: sound_from_def engine_inv_def settled_def lock_inv_release)
  moreover have "evolves s (erase_proposal i s)" by (simp add: evolves_def)
  ultimately show ?thesis using s by (auto simp: sound_from_def intro: evolves_trans)
qed

lemma sound_cleanup_step:
  assumes tf: "tracks_framed env" and s: "sound_from env s0 s"
  shows "sound_from env s0 (snd (process_pending_cleanup_step env i stage limit s))"
proof -
  have chunk: "sound_from env s0 t" if "tracks_cleanup_chunk (tracks env) k i limit s = (r, t)" for k r t
    using tracks_chunk_frame [of "tracks env" s k i limit] tf s that
    by (simp add: tracks_framed_def sound_from_same_core)
  have fin: "sound_from env s0 t" if "tracks_cleanup_terminal (tracks env) k i s = (r, t)" for k r t
    using tracks_cleanup_frame [of "tracks env" s k i] tf s that
    by (simp add: tracks_framed_def sound_from_same_core)
  show ?thesis
    using s chunk fin
    by (cases stage) (auto simp: process_pending_cleanup_step_def Let_def sound_erase
        split: option.splits prod.splits bool.splits)
qed

lemma cleanup_step_keeps:
  assumes tf: "tracks_framed env" and r: "process_pending_cleanup_step env i stage limit s = (r, s')"
  shows "cleanup s' = cleanup s \<and> next_proposal_id (ids s') = next_proposal_id (ids s) \<and>
    (\<forall>j. proposals s' j = proposals s j \<or> j = i \<and> proposals s' j = None)"
proof -
  have chunk: "same_core s t" if "tracks_cleanup_chunk (tracks env) k i limit s = (r, t)" for k r t
    using tracks_chunk_frame [of "tracks env" s k i limit] tf that by (simp add: tracks_framed_def)
  have fin: "same_core s t" if "tracks_cleanup_terminal (tracks env) k i s = (r, t)" for k r t
    using tracks_cleanup_frame [of "tracks env" s k i] tf that by (simp add: tracks_framed_def)
  show ?thesis
    using r by (cases stage) (auto simp: process_pending_cleanup_step_def Let_def same_core_def
        split: option.splits prod.splits bool.splits if_splits dest!: chunk fin)
qed

lemma sound_pop_pending:
  assumes s: "sound_from env s0 s" and lt: "q_head (pendq s) < q_tail (pendq s)"
  shows "sound_from env s0 (s\<lparr>cleanup := (cleanup s)\<lparr>pending_cleanup_queue := q_pop (pendq s)\<rparr>\<rparr>)"
proof -
  from sound_cleanup_inv [OF s] have inv: "cleanup_inv (block_number s) (cleanup s)" .
  then have q: "q_ok (pendq s)" by (simp add: cleanup_inv_def pendq_def)
  with lt have ne: "q_list (pendq s) \<noteq> []" using q_list_eq_Nil by fastforce
  have "set (q_list (q_pop (pendq s))) \<subseteq> set (q_list (pendq s))"
    unfolding q_pop_list [OF q ne] by (cases "q_list (pendq s)") auto
  then show ?thesis
    using inv q_pop_ok [OF q ne]
    by (intro sound_cleanup_update [OF s]) (auto simp: cleanup_inv_def doomed_def pendq_def)
qed

lemma sound_cleanup_loop:
  assumes tf: "tracks_framed env"
  shows "sound_from env s0 s \<Longrightarrow> sound_from env s0 (snd (cleanup_steps_loop n env limit bound mw w s))"
proof (induction n arbitrary: w s)
  case (Suc n)
  define s1 where "s1 = s\<lparr>cleanup := (cleanup s)\<lparr>pending_cleanup_queue := q_pop (pendq s)\<rparr>\<rparr>"
  show ?case
  proof (cases "any_gt (w_add w bound) mw \<or> q_tail (pendq s) \<le> q_head (pendq s)")
    case True
    with Suc.prems show ?thesis by auto
  next
    case False
    then have s1: "sound_from env s0 s1" unfolding s1_def using Suc.prems by (intro sound_pop_pending) auto
    show ?thesis
    proof (cases "\<exists>i stage. q_items (pendq s) (q_head (pendq s)) = Some i \<and>
        pending_proposal_cleanups (cleanup s1) i = Some stage")
      case False2: False
      have "snd (cleanup_steps_loop (Suc n) env limit bound mw w s) =
          snd (cleanup_steps_loop n env limit bound mw (w_add w (db_weight (cfg env) 3 2)) s1)"
        using False False2 unfolding s1_def by (auto simp: Let_def split: option.splits)
      with Suc.IH [OF s1] show ?thesis by simp
    next
      case True
      then obtain i stage where i: "q_items (pendq s) (q_head (pendq s)) = Some i"
        "pending_proposal_cleanups (cleanup s1) i = Some stage" by blast
      obtain nx sw s2 where st: "process_pending_cleanup_step env i stage limit s1 = ((nx, sw), s2)"
        by (metis prod.exhaust)
      have s2: "sound_from env s0 s2" using sound_cleanup_step [OF tf s1, of i stage limit] st by simp
      have "i \<in> doomed (cleanup s1)" using i(2) by (auto simp: doomed_def)
      with sound_doomed [OF s1] cleanup_step_keeps [OF tf st]
      have i2: "i < next_proposal_id (ids s2)" "settled s2 i"
        unfolding settled_def by (metis option.distinct(1))+
      have s3: "sound_from env s0 (set_stage i nx s2)" using i2 by (intro sound_set_stage [OF s2]) auto
      show ?thesis
      proof (cases nx)
        case None
        with False i st s3 Suc.IH show ?thesis unfolding s1_def by (simp add: Let_def)
      next
        case (Some nxt)
        obtain r c where e: "enqueue_pending_cleanup i (cleanup (set_stage i nx s2)) = (r, c)" by fastforce
        have "sound_from env s0 ((set_stage i nx s2)\<lparr>cleanup := c\<rparr>)"
          using i2 by (intro sound_enqueue [OF s3 _ _ e]) (auto simp: set_stage_def)
        with False i st e Some Suc.IH show ?thesis unfolding s1_def
          by (cases r) (simp_all add: Let_def)
      qed
    qed
  qed
qed simp

lemma sound_cleanup_steps:
  assumes "tracks_framed env" "sound_from env s0 s"
  shows "sound_from env s0 (snd (process_pending_cleanup_steps env mw s))"
  using assms by (simp add: process_pending_cleanup_steps_def Let_def sound_cleanup_loop)

section \<open>Progress and erasure\<close>

text \<open>Repeated steps for one proposal, as the fair queue gives them over the blocks.\<close>

fun cleanup_iter ::
  "nat \<Rightarrow> 'x env \<Rightarrow> proposal_id \<Rightarrow> u32 \<Rightarrow> pending_cleanup_stage \<Rightarrow> 'x engine \<Rightarrow> pending_cleanup_stage option \<times> 'x engine" where
  "cleanup_iter 0 env i limit stage s = (Some stage, s)"
| "cleanup_iter (Suc n) env i limit stage s =
     (case process_pending_cleanup_step env i stage limit s of
        ((None, _), s') \<Rightarrow> (None, s')
      | ((Some stage', _), s') \<Rightarrow> cleanup_iter n env i limit stage' s')"

lemma cleanup_iter_add:
  "cleanup_iter m env i limit stage s = (Some stage', t) \<Longrightarrow>
     cleanup_iter (m + n) env i limit stage s = cleanup_iter n env i limit stage' t"
  by (induction m arbitrary: stage s) (auto split: prod.splits option.splits)


text \<open>
  Interface of a stage that empties one storage prefix batch by batch: it looks at the prefix,
  keeps the survivors and moves on when none is left.
\<close>

locale cleared_prefix =
  fixes stage nxt :: pending_cleanup_stage
    and get :: "proposal_id \<Rightarrow> 'x engine \<Rightarrow> 'a list"
    and put :: "proposal_id \<Rightarrow> 'a list \<Rightarrow> 'x engine \<Rightarrow> 'x engine"
  assumes step: "\<exists>w. process_pending_cleanup_step env i stage limit s =
      ((Some (if survivors (clearing env) limit (get i s) \<noteq> [] then stage else nxt), w),
       put i (survivors (clearing env) limit (get i s)) s)"
    and get_put: "get i (put i xs s) = xs"
    and put_put: "put i xs (put i ys s) = put i xs s"
begin

lemma drains:
  assumes cp: "clears (clearing env)" "0 < limit"
  shows "\<exists>k \<le> Suc (length (get i s)). cleanup_iter k env i limit stage s = (Some nxt, put i [] s)"
proof (induction "length (get i s)" arbitrary: s rule: less_induct)
  case less
  define ys where "ys = survivors (clearing env) limit (get i s)"
  obtain w where st: "process_pending_cleanup_step env i stage limit s =
      ((Some (if ys \<noteq> [] then stage else nxt), w), put i ys s)"
    using step [of env i limit s] by (auto simp: ys_def)
  show ?case
  proof (cases "ys = []")
    case True
    with st show ?thesis by (intro exI [of _ 1]) auto
  next
    case False
    then have "get i s \<noteq> []" by (auto simp: ys_def)
    moreover have "length ys \<le> length (get i s) - limit"
      unfolding ys_def by (rule length_survivors [OF cp(1)])
    ultimately have lt: "length (get i (put i ys s)) < length (get i s)"
      using cp(2) by (cases "get i s") (auto simp: get_put)
    from less [OF lt] obtain k where k: "k \<le> Suc (length (get i (put i ys s)))"
      "cleanup_iter k env i limit stage (put i ys s) = (Some nxt, put i [] s)"
      by (auto simp: put_put)
    with st False have "cleanup_iter (Suc k) env i limit stage s = (Some nxt, put i [] s)" by simp
    moreover have "Suc k \<le> Suc (length (get i s))" using k(1) lt by simp
    ultimately show ?thesis by blast
  qed
qed

end

definition put_admin :: "proposal_id \<Rightarrow> (proposal_subject \<times> account list) list \<Rightarrow> 'x engine \<Rightarrow> 'x engine" where
  "put_admin i xs s = upd_snapshots (\<lambda>n. n\<lparr>admin_snapshot := (admin_snapshot n)(i := xs)\<rparr>) s"

definition put_voter :: "proposal_id \<Rightarrow> (authorization_subject \<times> account list) list \<Rightarrow> 'x engine \<Rightarrow> 'x engine" where
  "put_voter i xs s = upd_snapshots (\<lambda>n. n\<lparr>voter_snapshot := (voter_snapshot n)(i := xs)\<rparr>) s"

definition put_tickets :: "proposal_id \<Rightarrow> (cid_number \<times> u32) list \<Rightarrow> 'x engine \<Rightarrow> 'x engine" where
  "put_tickets i xs s = upd_snapshots (\<lambda>n. n\<lparr>institution_ticket_count_snapshot :=
     (institution_ticket_count_snapshot n)(i := xs)\<rparr>) s"

interpretation admins: cleared_prefix AdminSnapshots VoterSnapshots
    "\<lambda>i s. admin_snapshot (snapshots s) i" put_admin
  by unfold_locales (simp_all add: process_pending_cleanup_step_def Let_def put_admin_def)

interpretation voters: cleared_prefix VoterSnapshots InstitutionTicketCounts
    "\<lambda>i s. voter_snapshot (snapshots s) i" put_voter
  by unfold_locales (simp_all add: process_pending_cleanup_step_def Let_def put_voter_def)

interpretation tickets: cleared_prefix InstitutionTicketCounts TrackData
    "\<lambda>i s. institution_ticket_count_snapshot (snapshots s) i" put_tickets
  by unfold_locales (simp_all add: process_pending_cleanup_step_def Let_def put_tickets_def)



text \<open>The index entries of a proposal are the ones its own fields name.\<close>

definition index_exact :: "proposal_id \<Rightarrow> proposal \<Rightarrow> 'x engine \<Rightarrow> bool" where
  "index_exact i p s \<longleftrightarrow>
     (\<forall>c. (c, i) \<in> proposals_by_code (indexes s) \<longrightarrow> p_internal_code p = Some c) \<and>
     (\<forall>c. (c, i) \<in> proposals_by_cid (indexes s) \<longrightarrow> p_actor_cid_number p = Some c \<or> c \<in> set (p_subject_cid_numbers p)) \<and>
     (\<forall>t. (t, i) \<in> proposals_by_owner (indexes s) \<longrightarrow> proposal_owner (records s) i = Some t) \<and>
     (\<forall>y. (y, i) \<in> proposals_by_year (indexes s) \<longrightarrow>
        (\<exists>d. proposal_display_id (ids s) i = Some d \<and> display_year d = y))"

lemma cleanup_indexes_unindexed:
  assumes "proposals s i = Some p" "index_exact i p s"
  shows "unindexed i (indexes (cleanup_proposal_indexes i s))"
  using assms
  by (auto simp: cleanup_proposal_indexes_def Let_def fold_remove_cid unindexed_def index_exact_def
      split: option.splits)



text \<open>A due and a future task.\<close>

definition sample_due_state :: "unit engine" where
  "sample_due_state = (sample_state STATUS_REJECTED)\<lparr>block_number := 30000, cleanup := cleanup_storage_genesis\<lparr>
     scheduled_cleanups := \<lparr>q_items = [0 \<mapsto> \<lparr>cleanup_at = 21600, sc_proposal_id = 0\<rparr>], q_head = 0, q_tail = 1\<rparr>\<rparr>\<rparr>"

lemma sample_due_inv: "engine_inv env sample_due_state"
proof -
  have "q_ok \<lparr>q_items = [0 \<mapsto> \<lparr>cleanup_at = 21600, sc_proposal_id = 0\<rparr>], q_head = 0, q_tail = Suc 0\<rparr>"
    by (auto simp: q_ok_def)
  moreover have "q_list \<lparr>q_items = [0 \<mapsto> \<lparr>cleanup_at = 21600, sc_proposal_id = (0::nat)\<rparr>], q_head = 0, q_tail = Suc 0\<rparr> =
      [\<lparr>cleanup_at = 21600, sc_proposal_id = 0\<rparr>]"
    by (simp add: q_list_def)
  ultimately show ?thesis
    by (simp add: sample_due_state_def sample_state_def engine_inv_def engine_genesis_def lock_inv_genesis
        cleanup_inv_def doomed_def cleanup_storage_genesis_def settled_def is_terminal_status_def
        bn_add_def sat_add_def max_of_def)
qed


end
