(* ===== verification/Block_Hooks.thy ===== *)
theory Block_Hooks
  imports Expiry Maintenance
begin

text \<open>
  The per-block hook and the lifecycle calls of the engine (\<^verbatim>\<open>on_initialize\<close> and the
  \<^verbatim>\<open>pallet::call\<close> block of \<^verbatim>\<open>votingengine/src/lib.rs\<close>): automatic finalisation of the
  pending and the current expiry bucket, the five queues in their order, the activation and
  execution of cleanups; \<open>finalize_proposal\<close>, \<open>retry_passed_proposal\<close> and
  \<open>cancel_passed_proposal\<close>. Calls are dispatched in a storage transaction.
\<close>

section \<open>The hook\<close>

text \<open>The bucket left over from an earlier block, when there is one.\<close>

definition finalize_pending_bucket ::
  "'x env \<Rightarrow> 'x timeout_handler list \<Rightarrow> block_number \<Rightarrow> nat \<Rightarrow> weight \<Rightarrow> 'x engine \<Rightarrow>
   (nat \<times> bool \<times> weight) \<times> 'x engine" where
  "finalize_pending_bucket env timeouts n budget weight_budget s =
     (case pending_expiry_bucket s of
        None \<Rightarrow> ((0, False, weight_zero), s)
      | Some expiry \<Rightarrow>
          if expiry \<le> n then
            (case auto_finalize_expiry_bucket env timeouts expiry n budget weight_budget s of
               ((processed, has_remaining, w), s1) \<Rightarrow>
                 ((processed, has_remaining, w),
                  s1\<lparr>pending_expiry_bucket := (if has_remaining then Some expiry else None)\<rparr>))
          else ((0, False, weight_zero), s))"

definition auto_finalize_phase ::
  "'x env \<Rightarrow> 'x timeout_handler list \<Rightarrow> block_number \<Rightarrow> 'x engine \<Rightarrow> weight \<times> 'x engine" where
  "auto_finalize_phase env timeouts n s =
     (let mx = MaxAutoFinalizePerBlock (cfg env) in
      if mx = 0 then (weight_zero, s)
      else
        let w0 = db_reads (cfg env) 1;
            wb = MaxAutoFinalizeWeightPerBlock (cfg env);
            ((processed, pending_has_remaining, pw), s1) = finalize_pending_bucket env timeouts n mx wb s;
            touched = (case pending_expiry_bucket s of None \<Rightarrow> False | Some expiry \<Rightarrow> expiry \<le> n);
            w1 = (if touched then w_add (w_add w0 pw) (db_writes (cfg env) 1) else w0);
            budget = sat_sub mx processed
        in if 0 < budget \<and> \<not> pending_has_remaining then
             (case auto_finalize_expiry_bucket env timeouts n n budget (w_sub wb pw) s1 of
                ((_, has_remaining, w), s2) \<Rightarrow>
                  if has_remaining
                  then (w_add (w_add w1 w) (db_writes (cfg env) 1), s2\<lparr>pending_expiry_bucket := Some n\<rparr>)
                  else (w_add w1 w, s2))
           else (w1, s1))"

definition on_initialize ::
  "'x env \<Rightarrow> 'x timeout_handler list \<Rightarrow> block_number \<Rightarrow> 'x engine \<Rightarrow> weight \<times> 'x engine" where
  "on_initialize env timeouts n s =
     (let (wa, s1) = auto_finalize_phase env timeouts n s;
          (wb, s2) = process_pending_proposal_executions env n s1;
          (wc, s3) = process_pending_terminal_finalizations env n s2;
          (wd, s4) = process_pending_execution_retry_expirations env n s3;
          (we, s5) = process_execution_retry_deadlines env n s4;
          (wf, s6) = process_pending_terminal_cleanups env s5;
          cleanup_budget = MaxCleanupWeightPerBlock (cfg env);
          (wg, s7) = process_scheduled_cleanups env n cleanup_budget s6;
          (wh, s8) = process_pending_cleanup_steps env (w_sub cleanup_budget wg) s7
      in (fold (\<lambda>b a. w_add a b) [wb, wc, wd, we, wf, wg, wh] wa, s8))"

section \<open>Calls\<close>

datatype origin = Signed account | RootOrigin | NoneOrigin

definition ensure_signed :: "origin \<Rightarrow> account option" where
  "ensure_signed o' = (case o' of Signed who \<Rightarrow> Some who | _ \<Rightarrow> None)"

definition finalize_proposal ::
  "'x timeout_handler list \<Rightarrow> origin \<Rightarrow> proposal_id \<Rightarrow> 'x engine \<Rightarrow> (dispatch_error, unit, 'x engine) outcome" where
  "finalize_proposal timeouts o' i =
     with_transaction (\<lambda>s.
       ok_or (ensure_signed o') BadOrigin s (\<lambda>_.
       ok_or (proposals s i) (VotingEngine ProposalNotFound) s (\<lambda>p.
         track_result (tracks_finalize_timeout timeouts p i s))))"

definition retry_passed_proposal ::
  "'x env \<Rightarrow> origin \<Rightarrow> proposal_id \<Rightarrow> 'x engine \<Rightarrow> (dispatch_error, unit, 'x engine) outcome" where
  "retry_passed_proposal env o' i =
     with_transaction (\<lambda>s.
       ok_or (ensure_signed o') BadOrigin s (\<lambda>who. retry_passed_proposal_inner env who i s))"

definition cancel_passed_proposal ::
  "'x env \<Rightarrow> origin \<Rightarrow> proposal_id \<Rightarrow> string \<Rightarrow> 'x engine \<Rightarrow> (dispatch_error, unit, 'x engine) outcome" where
  "cancel_passed_proposal env o' i reason =
     with_transaction (\<lambda>s.
       ok_or (ensure_signed o') BadOrigin s (\<lambda>who. cancel_passed_proposal_inner env who i s))"

section \<open>Soundness\<close>

lemma sound_pending_bucket:
  assumes "timeouts_sound env hs" "sound_from env s0 s"
  shows "sound_from env s0 (snd (finalize_pending_bucket env hs n b wb s))"
  using assms sound_bucket [OF assms]
  by (auto simp: finalize_pending_bucket_def split: option.splits prod.splits) (metis snd_conv)+

lemma sound_auto_finalize:
  assumes "timeouts_sound env hs" "sound_from env s0 s"
  shows "sound_from env s0 (snd (auto_finalize_phase env hs n s))"
proof -
  obtain processed rem pw s1 where fields: "finalize_pending_bucket env hs n (MaxAutoFinalizePerBlock (cfg env))
      (MaxAutoFinalizeWeightPerBlock (cfg env)) s = ((processed, rem, pw), s1)"
    by (metis prod_cases4 surj_pair)
  with sound_pending_bucket [OF assms] have s1: "sound_from env s0 s1" by (metis snd_conv)
  have "sound_from env s0 (snd (auto_finalize_expiry_bucket env hs n n b wb s1))" for b wb
    using sound_bucket [OF assms(1) s1] .
  then have s2: "auto_finalize_expiry_bucket env hs n n b wb s1 = (r, s2) \<Longrightarrow> sound_from env s0 s2"
    for b wb r s2 by (metis snd_conv)
  show ?thesis using fields s1 assms(2)
    by (auto simp: auto_finalize_phase_def Let_def split: prod.splits dest: s2)
qed

lemma sound_on_initialize:
  assumes tf: "tracks_framed env" and ts: "timeouts_sound env hs" and s: "sound_from env s0 s"
  shows "sound_from env s0 (snd (on_initialize env hs n s))"
proof -
  define s1 where "s1 = snd (auto_finalize_phase env hs n s)"
  define s2 where "s2 = snd (process_pending_proposal_executions env n s1)"
  define s3 where "s3 = snd (process_pending_terminal_finalizations env n s2)"
  define s4 where "s4 = snd (process_pending_execution_retry_expirations env n s3)"
  define s5 where "s5 = snd (process_execution_retry_deadlines env n s4)"
  define s6 where "s6 = snd (process_pending_terminal_cleanups env s5)"
  define p where "p = process_scheduled_cleanups env n (MaxCleanupWeightPerBlock (cfg env)) s6"
  have "sound_from env s0 s6"
    unfolding s1_def s2_def s3_def s4_def s5_def s6_def
    by (intro sound_terminal_cleanups sound_retry_deadlines sound_retry_expirations
        sound_terminal_finalizations sound_executions sound_auto_finalize tf ts s)
  then have "sound_from env s0 (snd p)"
    using scheduled_cleanups_sound [of env s0 s6] by (cases p) (auto simp: p_def)
  then have "sound_from env s0 (snd (process_pending_cleanup_steps env w (snd p)))" for w
    by (rule sound_cleanup_steps [OF tf])
  then show ?thesis
    by (simp add: on_initialize_def Let_def case_prod_beta p_def s1_def s2_def s3_def s4_def s5_def s6_def)
qed

lemma sound_finalize_call:
  assumes "timeouts_sound env hs" "sound_from env s0 s"
  shows "keeps (sound_from env s0) (finalize_proposal hs o' i s)"
  unfolding finalize_proposal_def
proof (intro keeps_with_transaction keeps_ok_or assms(2))
  fix p assume "proposals s i = Some p"
  then show "keeps (sound_from env s0) (track_result (tracks_finalize_timeout hs p i s))"
    using sound_tracks_timeout [OF assms] by (simp add: keeps_def)
qed

lemma sound_retry_call:
  assumes "tracks_framed env" "sound_from env s0 s"
  shows "keeps (sound_from env s0) (retry_passed_proposal env o' i s)"
  unfolding retry_passed_proposal_def
  by (intro keeps_with_transaction keeps_ok_or assms(2) sound_retry_passed [OF assms])

lemma sound_cancel_call:
  assumes "tracks_framed env" "sound_from env s0 s"
  shows "keeps (sound_from env s0) (cancel_passed_proposal env o' i reason s)"
  unfolding cancel_passed_proposal_def
  by (intro keeps_with_transaction keeps_ok_or assms(2) sound_cancel_passed [OF assms])

text \<open>
  C24. The block hook as a whole keeps the engine sound: if every track changes only its own
  ledgers and every timeout handler is sound, then whatever the budgets, the callbacks and the
  contents of the queues, after the hook the engine invariant holds again, no id has been reused,
  the status of every proposal has moved only along the transition table, and the identity of
  every surviving proposal is unchanged.
\<close>

theorem block_hook_sound:
  assumes "tracks_framed env" "timeouts_sound env hs" "engine_inv env s"
  shows "engine_inv env (snd (on_initialize env hs n s)) \<and> evolves s (snd (on_initialize env hs n s))"
  using sound_on_initialize [OF assms(1,2) sound_from_refl [OF assms(3)]]
  by (simp add: sound_from_def)

theorem block_hook_sound_witness:
  "engine_inv idle_env (snd (on_initialize idle_env [] 30000 sample_due_state))"
  using block_hook_sound [OF idle_env_framed _ sample_due_inv, of "[]" 30000]
  by (simp add: timeouts_sound_def)

section \<open>The bucket of the current block\<close>


text \<open>One item per block, two ids left from block 5 and a proposal due at block 6.\<close>

definition narrow_env :: "unit env" where
  "narrow_env = idle_env\<lparr>cfg := test_config\<lparr>MaxAutoFinalizePerBlock := 1\<rparr>\<rparr>"

definition crowded_state :: "unit engine" where
  "crowded_state = (sample_state STATUS_PASSED)\<lparr>
     proposals_by_expiry := (\<lambda>_. [])(5 := [0, 0], 6 := [0]), pending_expiry_bucket := Some 5\<rparr>"

lemma narrow_env_simps [simp]:
  "cfg narrow_env = test_config\<lparr>MaxAutoFinalizePerBlock := 1\<rparr>" "tracks narrow_env = [idle_track]"
  by (simp_all add: narrow_env_def)

lemma crowded_run:
  "\<exists>w s1. auto_finalize_expiry_bucket narrow_env [] 5 6 1 (MaxAutoFinalizeWeightPerBlock test_config) crowded_state =
      ((1, True, w), s1) \<and> proposals_by_expiry s1 6 = [0]"
proof -
  have wz: "w_max (unwrap_or_default (timeout_weight idle_track U8_MAX)) weight_zero = weight_zero"
    "w_finalize_proposal test_config = weight_zero"
    by (simp_all add: idle_track_def w_max_def weight_zero_def unwrap_or_default_def test_config_def runtime_config_def)
  have one: "reserve_items b weight_zero 1 weight_zero = 1" for b by (simp add: numeral_eq_Suc)
  show ?thesis
    using one by (simp add: wz auto_finalize_expiry_bucket_def Let_def crowded_state_def sample_state_def
        engine_genesis_def finalize_expired_def clear_auto_finalize_def numeral_eq_Suc)
qed


end
