(* ===== verification/Ballots.thy ===== *)
theory Ballots
  imports Block_Hooks
begin

text \<open>
  What the vote pallets share: ledgers of ballots keyed by ticket with a running tally, as a
  contract (\<open>ballot_ledger\<close>) each pallet's ledger is shown to satisfy; the arithmetic of early
  decisions; and the part of the storage that records votes, which a status change leaves alone
  as long as every track keeps its ledgers at a terminal status (\<open>ledger_track\<close>).
\<close>

section \<open>Tallies\<close>

definition add_vote :: "nat \<Rightarrow> bool \<Rightarrow> vote_count \<Rightarrow> vote_count" where
  "add_vote w approve t =
     (if approve then t\<lparr>yes := sat_add w (yes t) 1\<rparr> else t\<lparr>no := sat_add w (no t) 1\<rparr>)"

definition ballots :: "('v \<Rightarrow> bool) \<Rightarrow> bool \<Rightarrow> ('k \<times> 'v) list \<Rightarrow> nat" where
  "ballots choice b xs = length (filter (\<lambda>e. choice (snd e) = b) xs)"

text \<open>No ticket twice, and the tally counts the ballots.\<close>

definition counted :: "('v \<Rightarrow> bool) \<Rightarrow> ('k \<times> 'v) list \<Rightarrow> vote_count \<Rightarrow> bool" where
  "counted choice xs t \<longleftrightarrow>
     distinct (map fst xs) \<and> yes t = ballots choice True xs \<and> no t = ballots choice False xs"

lemma ballots_Nil [simp]: "ballots choice b [] = 0"
  by (simp add: ballots_def)

lemma ballots_Cons: "ballots choice b (e # xs) = (if choice (snd e) = b then 1 else 0) + ballots choice b xs"
  by (simp add: ballots_def)

lemma ballots_length: "ballots choice True xs + ballots choice False xs = length xs"
  by (induction xs) (auto simp: ballots_Cons)

lemma counted_Nil [simp]: "counted choice [] vote_count_default"
  by (simp add: counted_def vote_count_default_def)

lemma counted_length: "counted choice xs t \<Longrightarrow> yes t + no t = length xs"
  using ballots_length [of choice xs] by (simp add: counted_def)

lemma counted_card:
  assumes "counted choice xs t" "fst ` set xs \<subseteq> set es"
  shows "yes t + no t \<le> length es"
proof -
  have "length xs = card (fst ` set xs)"
    using assms(1) distinct_card [of "map fst xs"] by (simp add: counted_def)
  also have "\<dots> \<le> card (set es)" using assms(2) by (simp add: card_mono)
  also have "\<dots> \<le> length es" by (rule card_length)
  finally show ?thesis using counted_length [OF assms(1)] by simp
qed

lemma counted_room:
  assumes "counted choice xs t" "fst ` set xs \<subseteq> set es" "k \<in> set es" "k \<notin> fst ` set xs"
  shows "length xs + 1 \<le> length es"
proof -
  have "length xs = card (fst ` set xs)"
    using assms(1) distinct_card [of "map fst xs"] by (simp add: counted_def)
  then have "length xs + 1 = card (insert k (fst ` set xs))" using assms(4) by simp
  also have "\<dots> \<le> card (set es)" using assms(2,3) by (intro card_mono) auto
  also have "\<dots> \<le> length es" by (rule card_length)
  finally show ?thesis .
qed

lemma add_vote_exact:
  assumes "yes t + no t + 1 < 2 ^ w"
  shows "add_vote w b t = (if b then t\<lparr>yes := yes t + 1\<rparr> else t\<lparr>no := no t + 1\<rparr>)"
  using assms by (simp add: add_vote_def sat_add_exact)

lemma add_vote_sum: "yes t + no t + 1 < 2 ^ w \<Longrightarrow> yes (add_vote w b t) + no (add_vote w b t) = yes t + no t + 1"
  by (simp add: add_vote_exact)

text \<open>
  A ledger: casting a fresh ticket of its own stores the ballot and bumps the tally with the
  saturating addition of the tally's width.
\<close>

locale ballot_ledger =
  fixes votes :: "'s \<Rightarrow> ('k \<times> 'v) list" and tally :: "'s \<Rightarrow> vote_count"
    and choice :: "'v \<Rightarrow> bool" and own :: "'k \<Rightarrow> bool" and cast :: "'k \<Rightarrow> 'v \<Rightarrow> 's \<Rightarrow> 's" and width :: nat
  assumes votes_cast: "own k \<Longrightarrow> k \<notin> fst ` set (votes s) \<Longrightarrow> votes (cast k v s) = (k, v) # votes s"
    and tally_cast: "own k \<Longrightarrow> tally (cast k v s) = add_vote width (choice v) (tally s)"
begin

lemma exact:
  assumes "counted choice (votes s) (tally s)" "own k" "k \<notin> fst ` set (votes s)"
    and "length (votes s) + 1 < 2 ^ width"
  shows "counted choice (votes (cast k v s)) (tally (cast k v s))"
proof -
  from assms have "yes (tally s) + no (tally s) + 1 < 2 ^ width" by (simp add: counted_length)
  then show ?thesis
    using assms by (auto simp: votes_cast tally_cast counted_def ballots_Cons add_vote_exact)
qed

lemma within:
  assumes "fst ` set (votes s) \<subseteq> E" "own k" "k \<in> E" "k \<notin> fst ` set (votes s)"
  shows "fst ` set (votes (cast k v s)) \<subseteq> E"
  using assms by (auto simp: votes_cast)

end

section \<open>Early decisions\<close>

text \<open>
  With a threshold on the yes votes and a fixed number of tickets: the outcome the pallets
  compute after a ballot.
\<close>

definition verdict :: "u32 \<Rightarrow> u32 \<Rightarrow> vote_count \<Rightarrow> u8" where
  "verdict threshold seats_n t =
     (if threshold \<le> yes t then STATUS_PASSED
      else if sat_add 32 (yes t) (sat_sub seats_n (sat_add 32 (yes t) (no t))) < threshold then STATUS_REJECTED
      else STATUS_VOTING)"

lemma verdict_exact:
  assumes "yes t + no t \<le> seats_n" "seats_n < 2 ^ 32"
  shows "verdict threshold seats_n t =
     (if threshold \<le> yes t then STATUS_PASSED
      else if seats_n - no t < threshold then STATUS_REJECTED else STATUS_VOTING)"
proof -
  from assms have "sat_add 32 (yes t) (no t) = yes t + no t"
    "sat_add 32 (yes t) (seats_n - (yes t + no t)) = seats_n - no t" by (simp_all add: sat_add_exact)
  then show ?thesis by (simp add: verdict_def sat_sub_def)
qed

text \<open>A verdict is what every continuation would give, and an open vote is really open.\<close>

lemma verdict_final:
  assumes "yes t + no t \<le> seats_n" "seats_n < 2 ^ 32"
  shows "verdict threshold seats_n t = STATUS_PASSED \<longleftrightarrow> (\<forall>u. later_tally seats_n t u \<longrightarrow> threshold \<le> yes u)"
    and "verdict threshold seats_n t = STATUS_REJECTED \<longleftrightarrow> (\<forall>u. later_tally seats_n t u \<longrightarrow> yes u < threshold)"
    and "verdict threshold seats_n t = STATUS_VOTING \<Longrightarrow> yes t + no t < seats_n"
proof -
  have most: "later_tally seats_n t \<lparr>yes = seats_n - no t, no = no t\<rparr>" and least: "later_tally seats_n t t"
    using assms(1) by (auto simp: later_tally_def)
  show "verdict threshold seats_n t = STATUS_PASSED \<longleftrightarrow> (\<forall>u. later_tally seats_n t u \<longrightarrow> threshold \<le> yes u)"
    using least by (auto simp: verdict_exact [OF assms] later_tally_def)
  show "verdict threshold seats_n t = STATUS_REJECTED \<longleftrightarrow> (\<forall>u. later_tally seats_n t u \<longrightarrow> yes u < threshold)"
  proof
    assume all: "\<forall>u. later_tally seats_n t u \<longrightarrow> yes u < threshold"
    from all least have "yes t < threshold" by blast
    moreover from all most have "seats_n - no t < threshold" by fastforce
    ultimately show "verdict threshold seats_n t = STATUS_REJECTED" by (simp add: verdict_exact [OF assms])
  qed (auto simp: verdict_exact [OF assms] later_tally_def split: if_splits)
  show "verdict threshold seats_n t = STATUS_VOTING \<Longrightarrow> yes t + no t < seats_n"
    using assms(1) by (auto simp: verdict_exact [OF assms] split: if_splits)
qed

section \<open>The vote records of a state\<close>

definition same_ballots :: "'x engine \<Rightarrow> 'x engine \<Rightarrow> bool" where
  "same_ballots s s' \<longleftrightarrow>
     snapshots s' = snapshots s \<and>
     proposal_vote_plans (records s') = proposal_vote_plans (records s) \<and>
     proposal_population_snapshots (records s') = proposal_population_snapshots (records s) \<and>
     internal_votes_by_ticket (internal s') = internal_votes_by_ticket (internal s) \<and>
     internal_tallies (internal s') = internal_tallies (internal s) \<and>
     internal_threshold_snapshot (internal s') = internal_threshold_snapshot (internal s) \<and>
     joint s' = joint s \<and> legislation s' = legislation s \<and> election s' = election s"

lemma same_ballots_refl [simp]: "same_ballots s s"
  by (simp add: same_ballots_def)

lemma same_ballots_trans: "same_ballots s t \<Longrightarrow> same_ballots t u \<Longrightarrow> same_ballots s u"
  by (simp add: same_ballots_def)

lemma same_ballots_frame [simp]:
  "same_ballots s0 (s\<lparr>proposals := pr\<rparr>) = same_ballots s0 s"
  "same_ballots s0 (s\<lparr>callback_execution_scopes := c\<rparr>) = same_ballots s0 s"
  "same_ballots s0 (s\<lparr>locks := l\<rparr>) = same_ballots s0 s"
  "same_ballots s0 (s\<lparr>cleanup := cl\<rparr>) = same_ballots s0 s"
  "same_ballots s0 (s\<lparr>queues := q\<rparr>) = same_ballots s0 s"
  "same_ballots s0 (s\<lparr>events := ev\<rparr>) = same_ballots s0 s"
  "same_ballots s0 (s\<lparr>ext := x\<rparr>) = same_ballots s0 s"
  by (simp_all add: same_ballots_def)

lemma same_ballots_event [simp]: "same_ballots s0 (deposit_event e s) = same_ballots s0 s"
  by (simp add: deposit_event_def)

text \<open>A track that leaves the ledgers alone when a proposal reaches a terminal status.\<close>

locale ledger_track = vote_track t for t :: "'x track" +
  assumes terminal_ledgers: "same_ballots s (snd (on_proposal_terminal t k i st s))"

definition tracks_keep_ledgers :: "'x env \<Rightarrow> bool" where
  "tracks_keep_ledgers env \<longleftrightarrow> (\<forall>t \<in> set (tracks env). ledger_track t)"

lemma keep_ledgers_framed: "tracks_keep_ledgers env \<Longrightarrow> tracks_framed env"
  by (simp add: tracks_keep_ledgers_def tracks_framed_def ledger_track_def)

lemma tracks_terminal_ledgers:
  "\<forall>t \<in> set ts. ledger_track t \<Longrightarrow> same_ballots s (snd (tracks_on_proposal_terminal ts k i st s))"
proof (induction ts arbitrary: s)
  case (Cons t ts)
  then have "same_ballots s (snd (on_proposal_terminal t k i st s))" by (simp add: ledger_track.terminal_ledgers)
  with Cons show ?case by (auto split: prod.splits option.splits intro: same_ballots_trans)
qed simp

lemma ballots_scope:
  "with_callback_execution_scope i f s = (r, s') \<Longrightarrow> same_ballots s0 s' = same_ballots s0 s"
  by (auto simp: with_callback_execution_scope_def Let_def split: prod.splits)

lemma ballots_notify_or_queue [simp]:
  "same_ballots s0 (notify_execution_failed_terminal_or_queue env i k s) = same_ballots s0 s"
  by (auto simp: notify_execution_failed_terminal_or_queue_def queue_terminal_cleanup_def
      remove_pending_terminal_cleanup_def Let_def ballots_scope split: prod.splits sum.splits)

lemma ballots_write_status [simp]: "same_ballots s0 (write_status i p st s) = same_ballots s0 s"
  by (simp add: write_status_def Let_def mark_proposal_passed_at_def same_ballots_def split: option.split)

lemma ballots_apply_terminal:
  assumes "tracks_keep_ledgers env" "same_ballots s0 s"
  shows "keeps (same_ballots s0) (apply_terminal_side_effects env i st s)"
proof -
  have t: "keeps (same_ballots s0) (track_result (tracks_on_proposal_terminal (tracks env) k i st s3))"
    if "same_ballots s0 s3" for k st s3
    using that tracks_terminal_ledgers [of "tracks env" s3 k i st] assms(1)
    by (auto simp: keeps_def tracks_keep_ledgers_def intro: same_ballots_trans)
  show ?thesis
    unfolding apply_terminal_side_effects_def Let_def
    by (rule keeps_ensure, rule assms(2), rule keeps_and_then, rule keeps_zoom, simp add: assms(2))
       (auto split: option.split intro!: keeps_and_then t)
qed

lemma ballots_announce:
  "same_ballots s0 s \<Longrightarrow> keeps (same_ballots s0) (announce_status env i p st s)"
  by (auto simp: announce_status_def Let_def keeps_def and_then_def ballots_scope split: prod.splits sum.splits)

lemma ballots_settle:
  assumes "tracks_keep_ledgers env" "same_ballots s0 s"
  shows "keeps (same_ballots s0) (settle_status env i p s)"
  unfolding settle_status_def Let_def
  by (rule keeps_ok_or, rule assms(2), rule keeps_and_then)
     (auto intro: ballots_apply_terminal [OF assms] simp: assms(2))

lemma ballots_set_status:
  assumes "tracks_keep_ledgers env" "same_ballots s0 s"
  shows "keeps (same_ballots s0) (set_status_and_emit env i st s)"
  unfolding set_status_and_emit_def
  by (rule keeps_with_transaction, rule assms(2), rule keeps_ok_or, rule assms(2),
      rule keeps_and_then, rule keeps_pure_result, rule assms(2), rule keeps_and_then,
      rule ballots_announce)
     (auto simp: free_active_slots_def intro: ballots_settle [OF assms(1)])

end
