(* ===== verification/Internal_Vote.thy ===== *)
theory Internal_Vote
  imports Ballots
begin

text \<open>
  The internal vote (\<^verbatim>\<open>votingengine/internal-vote/src\<close>): thresholds and their life cycle
  (\<^verbatim>\<open>threshold.rs\<close>), casting a ballot and the timeout (\<^verbatim>\<open>vote.rs\<close>), the call \<open>cast\<close>
  (\<^verbatim>\<open>lib.rs\<close>) and the track the engine drives (\<^verbatim>\<open>cleanup.rs\<close>).

  A ticket is an administrator of a personal multisig, or a seat (role of the institution,
  canonical account). Shown here: the track satisfies the contracts of the engine; the tally is
  the number of ballots and never exceeds the seats; a proposal is passed, rejected or left open
  exactly according to the threshold over any sequence of calls.
\<close>

section \<open>Thresholds\<close>

definition internal_stage_duration :: block_number where
  "internal_stage_duration = sat_into 32 VOTING_DURATION_BLOCKS"

definition ensure_all_admin_threshold :: "u32 \<Rightarrow> u32 \<Rightarrow> dispatch_error + unit" where
  "ensure_all_admin_threshold admins_len threshold =
     (if 0 < admins_len \<and> threshold = admins_len then Inr () else Inl (InternalVote InvalidThresholdSnapshot))"

definition ensure_dynamic_threshold :: "u32 \<Rightarrow> u32 \<Rightarrow> dispatch_error + unit" where
  "ensure_dynamic_threshold voter_count threshold =
     (if \<not> 2 \<le> voter_count then Inl (InternalVote InvalidDynamicThreshold)
      else if 0 < threshold \<and> threshold \<le> voter_count \<and> voter_count < sat_mul 64 threshold 2 then Inr ()
      else Inl (InternalVote InvalidDynamicThreshold))"

definition snapshot_admins_len_or_missing ::
  "proposal_id \<Rightarrow> proposal_subject \<Rightarrow> 'x engine \<Rightarrow> dispatch_error + u32" where
  "snapshot_admins_len_or_missing i subject s =
     (case snapshot_admins_len i subject s of
        None \<Rightarrow> Inl (VotingEngine MissingAdminSnapshot) | Some n \<Rightarrow> Inr n)"

definition proposal_personal_account :: "proposal_id \<Rightarrow> 'x engine \<Rightarrow> dispatch_error + account" where
  "proposal_personal_account i s =
     (case proposals s i of
        None \<Rightarrow> Inl (VotingEngine ProposalNotFound)
      | Some p \<Rightarrow>
          if p_internal_code p = Some PMUL \<and> p_actor_cid_number p = None then
            (case p_execution_account_id p of
               None \<Rightarrow> Inl (VotingEngine InvalidInstitution) | Some a \<Rightarrow> Inr a)
          else Inl (VotingEngine InvalidInstitution))"

definition apply_executed_threshold_side_effect ::
  "proposal_id \<Rightarrow> 'x engine \<Rightarrow> (dispatch_error, unit, 'x engine) outcome" where
  "apply_executed_threshold_side_effect i s =
     (case internal_proposal_roles (internal s) i of
        Some PersonalCreate \<Rightarrow>
          and_then (pure_result (proposal_personal_account i s) s) (\<lambda>personal s.
            let taken = pending_personal_thresholds (internal s) i;
                s1 = upd_internal (\<lambda>v. v\<lparr>pending_personal_thresholds := (pending_personal_thresholds v)(i := None)\<rparr>) s
            in ok_or taken (InternalVote MissingDynamicThreshold) s1 (\<lambda>threshold.
                 (Inr (), upd_internal (\<lambda>v. v\<lparr>active_personal_thresholds :=
                    (active_personal_thresholds v)(personal \<mapsto> threshold)\<rparr>) s1)))
      | Some PersonalClose \<Rightarrow>
          and_then (pure_result (proposal_personal_account i s) s) (\<lambda>personal s.
            (Inr (), upd_internal (\<lambda>v. v\<lparr>active_personal_thresholds :=
               (active_personal_thresholds v)(personal := None)\<rparr>) s))
      | Some PersonalAdminChange \<Rightarrow>
          (let taken = pending_personal_admin_change_thresholds (internal s) i;
               s1 = upd_internal (\<lambda>v. v\<lparr>pending_personal_admin_change_thresholds :=
                      (pending_personal_admin_change_thresholds v)(i := None)\<rparr>) s
           in case taken of
                None \<Rightarrow> (Inr (), s1)
              | Some pending \<Rightarrow>
                  and_then (pure_result (ensure_dynamic_threshold (pac_new_admins_len pending)
                      (pac_new_threshold pending)) s1) (\<lambda>_ s1.
                    (Inr (), upd_internal (\<lambda>v. v\<lparr>active_personal_thresholds :=
                       (active_personal_thresholds v)(pac_personal_account_id pending \<mapsto> pac_new_threshold pending)\<rparr>) s1)))
      | _ \<Rightarrow> (Inr (), s))"

definition apply_terminal_threshold_cleanup ::
  "proposal_id \<Rightarrow> u8 \<Rightarrow> 'x engine \<Rightarrow> (dispatch_error, unit, 'x engine) outcome" where
  "apply_terminal_threshold_cleanup i status s =
     (if internal_proposal_roles (internal s) i = Some PersonalCreate \<and>
         status \<in> {STATUS_REJECTED, STATUS_EXECUTION_FAILED} then
        (Inr (), upd_internal (\<lambda>v. v\<lparr>pending_personal_thresholds := (pending_personal_thresholds v)(i := None)\<rparr>) s)
      else if internal_proposal_roles (internal s) i = Some PersonalAdminChange \<and>
         status \<in> {STATUS_REJECTED, STATUS_EXECUTION_FAILED} then
        (Inr (), upd_internal (\<lambda>v. v\<lparr>pending_personal_admin_change_thresholds :=
           (pending_personal_admin_change_thresholds v)(i := None)\<rparr>) s)
      else (Inr (), s))"

section \<open>Casting\<close>

text \<open>Ticket, role, eligibility and number of tickets for a caller and its claim.\<close>

definition resolve_internal_ticket ::
  "'x env \<Rightarrow> account \<Rightarrow> proposal_id \<Rightarrow> proposal \<Rightarrow> internal_vote_ticket_claim \<Rightarrow> 'x engine \<Rightarrow>
   dispatch_error + (internal_vote_ticket \<times> role_code option \<times> bool \<times> u32)" where
  "resolve_internal_ticket env who i p claim s =
     (case p_actor_cid_number p of
        Some cid \<Rightarrow>
          (case claim of
             ClaimPersonal \<Rightarrow> Inl (VotingEngine NoPermission)
           | ClaimInstitutionRole role \<Rightarrow>
               let rs = \<lparr>rs_cid_number = cid, rs_role_code = role\<rparr>;
                   subject = Institution rs;
                   voter = (case resolve_subject_voter env subject who s of None \<Rightarrow> who | Some v \<Rightarrow> v)
               in (case institution_ticket_count i cid s of
                     None \<Rightarrow> Inl (VotingEngine MissingVoterSnapshot)
                   | Some n \<Rightarrow> Inr (InstitutionTicket \<lparr>t_role_subject = rs, t_voter_account_id = voter\<rparr>,
                       Some role, is_subject_voter_in_snapshot env i subject who s, n)))
      | None \<Rightarrow>
          if claim \<noteq> ClaimPersonal then Inl (VotingEngine NoPermission)
          else (case p_execution_account_id p of
                  None \<Rightarrow> Inl (VotingEngine InvalidInstitution)
                | Some personal \<Rightarrow>
                    let subject = PersonalAccount personal in
                    (case snapshot_admins_len i subject s of
                       None \<Rightarrow> Inl (VotingEngine MissingAdminSnapshot)
                     | Some n \<Rightarrow> Inr (PersonalTicket who, None, is_admin_in_snapshot i subject who s, n))))"

definition record_internal_vote :: "proposal_id \<Rightarrow> internal_vote_ticket \<Rightarrow> bool \<Rightarrow> 'x engine \<Rightarrow> 'x engine" where
  "record_internal_vote i ticket approve s =
     upd_internal (\<lambda>v. v\<lparr>
       internal_votes_by_ticket := (internal_votes_by_ticket v)(i := kv_insert ticket approve (internal_votes_by_ticket v i)),
       internal_tallies := (internal_tallies v)(i := add_vote 32 approve (internal_tallies v i))\<rparr>) s"

definition do_internal_vote ::
  "'x env \<Rightarrow> account \<Rightarrow> proposal_id \<Rightarrow> internal_vote_ticket_claim \<Rightarrow> bool \<Rightarrow> 'x engine \<Rightarrow>
   (dispatch_error, unit, 'x engine) outcome" where
  "do_internal_vote env who i claim approve s =
     and_then (pure_result (ensure_open_proposal i s) s) (\<lambda>p s.
     ensure (p_kind p = PROPOSAL_KIND_INTERNAL) (VotingEngine InvalidProposalKind) s (\<lambda>s.
     ensure (p_stage p = STAGE_INTERNAL) (VotingEngine InvalidProposalStage) s (\<lambda>s.
     and_then (pure_result (resolve_internal_ticket env who i p claim s) s) (\<lambda>(ticket, role, eligible, n) s.
     ensure eligible (VotingEngine NoPermission) s (\<lambda>s.
     ensure (\<not> kv_contains ticket (internal_votes_by_ticket (internal s) i)) (VotingEngine AlreadyVoted) s (\<lambda>s.
       let s1 = record_internal_vote i ticket approve s;
           tally = internal_tallies (internal s1) i;
           s2 = deposit_event (InternalVoteCast i who role approve) s1
       in ok_or (internal_threshold_snapshot (internal s2) i) (InternalVote MissingThresholdSnapshot) s2 (\<lambda>threshold.
            if threshold \<le> yes tally then set_status_and_emit env i STATUS_PASSED s2
            else
              let casted = sat_add 32 (yes tally) (no tally);
                  remaining = sat_sub n casted
              in if sat_add 32 (yes tally) remaining < threshold
                 then set_status_and_emit env i STATUS_REJECTED s2
                 else (Inr (), s2))))))))"

definition internal_cast ::
  "'x env \<Rightarrow> origin \<Rightarrow> proposal_id \<Rightarrow> internal_vote_ticket_claim \<Rightarrow> bool \<Rightarrow> 'x engine \<Rightarrow>
   (dispatch_error, unit, 'x engine) outcome" where
  "internal_cast env o' i claim approve =
     with_transaction (\<lambda>s.
       ok_or (ensure_signed o') BadOrigin s (\<lambda>who. do_internal_vote env who i claim approve s))"

definition do_finalize_internal_timeout ::
  "'x env \<Rightarrow> proposal \<Rightarrow> proposal_id \<Rightarrow> 'x engine \<Rightarrow> (dispatch_error, unit, 'x engine) outcome" where
  "do_finalize_internal_timeout env p i s =
     ensure (p_stage p = STAGE_INTERNAL) (VotingEngine InvalidProposalStage) s (\<lambda>s.
     ensure (p_status p = STATUS_VOTING) (VotingEngine ProposalAlreadyFinalized) s (\<lambda>s.
     ensure (p_end p < block_number s) (VotingEngine VoteNotExpired) s (\<lambda>s.
       set_status_and_emit env i STATUS_REJECTED s)))"

section \<open>The track\<close>

definition internal_handles :: "u8 \<Rightarrow> bool" where
  "internal_handles kind \<longleftrightarrow> kind = PROPOSAL_KIND_INTERNAL"

definition internal_finalize_timeout :: "'x env \<Rightarrow> 'x timeout_handler" where
  "internal_finalize_timeout env p i s =
     (if \<not> internal_handles (p_kind p) then (None, s)
      else if p_stage p = STAGE_INTERNAL then
        (case do_finalize_internal_timeout env p i s of (r, s') \<Rightarrow> (Some r, s'))
      else (Some (Inl (VotingEngine InvalidProposalStage)), s))"

definition cleanup_internal_votes_chunk ::
  "prefix_clearing \<Rightarrow> proposal_id \<Rightarrow> u32 \<Rightarrow> 'x engine \<Rightarrow> (u32 \<times> bool) \<times> 'x engine" where
  "cleanup_internal_votes_chunk cp i limit s =
     (let xs = internal_votes_by_ticket (internal s) i; ys = survivors cp limit xs
      in ((length xs - length ys, ys \<noteq> []),
          upd_internal (\<lambda>v. v\<lparr>internal_votes_by_ticket := (internal_votes_by_ticket v)(i := ys)\<rparr>) s))"

definition cleanup_internal_terminal :: "proposal_id \<Rightarrow> 'x engine \<Rightarrow> 'x engine" where
  "cleanup_internal_terminal i s =
     upd_internal (\<lambda>v. v\<lparr>
       internal_tallies := (internal_tallies v)(i := vote_count_default),
       internal_threshold_snapshot := (internal_threshold_snapshot v)(i := None),
       pending_personal_thresholds := (pending_personal_thresholds v)(i := None),
       pending_personal_admin_change_thresholds := (pending_personal_admin_change_thresholds v)(i := None),
       internal_proposal_roles := (internal_proposal_roles v)(i := None)\<rparr>) s"

text \<open>\<open>wt\<close> is the benchmarked weight of a timeout, \<open>db\<close> the price of reads and writes.\<close>

definition internal_track :: "prefix_clearing \<Rightarrow> (nat \<Rightarrow> nat \<Rightarrow> weight) \<Rightarrow> weight \<Rightarrow> 'x track" where
  "internal_track cp db wt =
    \<lparr>handles = internal_handles,
     on_proposal_executed = (\<lambda>kind i s. if internal_handles kind then
        (case apply_executed_threshold_side_effect i s of (r, s') \<Rightarrow> (Some r, s')) else (None, s)),
     on_proposal_terminal = (\<lambda>kind i status s. if internal_handles kind then
        (case apply_terminal_threshold_cleanup i status s of (r, s') \<Rightarrow> (Some r, s')) else (None, s)),
     cleanup_chunk = (\<lambda>kind i limit s. if internal_handles kind then
        (case cleanup_internal_votes_chunk cp i limit s of (r, s') \<Rightarrow> (Some r, s')) else (None, s)),
     cleanup_terminal = (\<lambda>kind i s. if internal_handles kind then (Some (), cleanup_internal_terminal i s) else (None, s)),
     timeout_weight = (\<lambda>stage. if stage \<in> {STAGE_INTERNAL, U8_MAX} then Some wt else None),
     cleanup_chunk_weight = (\<lambda>kind limit. if kind \<in> {PROPOSAL_KIND_INTERNAL, U8_MAX} then
        Some (w_add (w_add \<lparr>ref_time = 8000000, proof_size = 3000\<rparr>
          (w_scale \<lparr>ref_time = 1000000, proof_size = 2600\<rparr> (max limit 1))) (db (max limit 1) (max limit 1)))
        else None),
     cleanup_terminal_weight = (\<lambda>kind. if kind \<in> {PROPOSAL_KIND_INTERNAL, U8_MAX} then
        Some (w_add \<lparr>ref_time = 12000000, proof_size = 12000\<rparr> (db 4 6)) else None)\<rparr>"

section \<open>The contracts of the engine\<close>

lemma executed_effect_core: "same_core s (snd (apply_executed_threshold_side_effect i s))"
  by (auto simp: apply_executed_threshold_side_effect_def Let_def and_then_def ok_or_def pure_result_def
      split: option.splits sum.splits internal_proposal_role.splits)

lemma terminal_effect_core: "same_core s (snd (apply_terminal_threshold_cleanup i st s))"
  by (simp add: apply_terminal_threshold_cleanup_def)

lemma terminal_effect_ballots: "same_ballots s (snd (apply_terminal_threshold_cleanup i st s))"
  by (simp add: apply_terminal_threshold_cleanup_def same_ballots_def)

interpretation internal: ledger_track "internal_track cp db wt" for cp db wt
proof unfold_locales
  fix s :: "'x engine" and k st :: u8 and i :: proposal_id and n :: u32
  show "same_core s (snd (on_proposal_executed (internal_track cp db wt) k i s))"
    using executed_effect_core [of s i] by (auto simp: internal_track_def split: prod.splits)
  show "same_core s (snd (on_proposal_terminal (internal_track cp db wt) k i st s))"
    using terminal_effect_core [of s i st] by (auto simp: internal_track_def split: prod.splits)
  show "same_core s (snd (cleanup_chunk (internal_track cp db wt) k i n s))"
    by (simp add: internal_track_def cleanup_internal_votes_chunk_def Let_def)
  show "same_core s (snd (cleanup_terminal (internal_track cp db wt) k i s))"
    by (simp add: internal_track_def cleanup_internal_terminal_def)
  show "same_ballots s (snd (on_proposal_terminal (internal_track cp db wt) k i st s))"
    using terminal_effect_ballots [of s i st] by (auto simp: internal_track_def split: prod.splits)
qed

lemma internal_timeout_track:
  assumes "tracks_framed env"
  shows "timeout_track env (internal_finalize_timeout env)"
proof
  show "fst (internal_finalize_timeout env p i s) = None \<Longrightarrow> snd (internal_finalize_timeout env p i s) = s" for p i s
    by (auto simp: internal_finalize_timeout_def split: if_splits prod.splits)
  fix s i p assume inv: "engine_inv env s"
  have "keeps (sound_from env s) (do_finalize_internal_timeout env p i s)"
    unfolding do_finalize_internal_timeout_def
    by (intro keeps_ensure sound_from_refl [OF inv] sound_set_status [OF assms])
  then show "sound_from env s (snd (internal_finalize_timeout env p i s))"
    using sound_from_refl [OF inv] by (auto simp: internal_finalize_timeout_def keeps_def split: prod.splits)
qed

lemma sound_record_vote [simp]: "sound_from env s0 (record_internal_vote i k b s) = sound_from env s0 s"
  by (simp add: record_internal_vote_def)

lemma sound_internal_vote:
  assumes "tracks_framed env" "sound_from env s0 s"
  shows "keeps (sound_from env s0) (do_internal_vote env who i claim b s)"
  unfolding do_internal_vote_def Let_def
  by (intro keeps_and_then keeps_pure_result keeps_ensure keeps_ok_or assms(2))
     (auto intro!: keeps_ensure keeps_ok_or sound_set_status [OF assms(1)])

lemma sound_internal_cast:
  assumes "tracks_framed env" "sound_from env s0 s"
  shows "keeps (sound_from env s0) (internal_cast env o' i claim b s)"
  unfolding internal_cast_def
  by (intro keeps_with_transaction keeps_ok_or assms(2) sound_internal_vote [OF assms])

section \<open>Tickets and ballots\<close>

text \<open>All tickets that can be used on a proposal.\<close>

definition role_tickets :: "cid_number \<Rightarrow> authorization_subject \<times> account list \<Rightarrow> internal_vote_ticket list" where
  "role_tickets cid e =
     (case fst e of
        Institution rs \<Rightarrow>
          if rs_cid_number rs = cid
          then map (\<lambda>v. InstitutionTicket \<lparr>t_role_subject = rs, t_voter_account_id = v\<rparr>) (snd e) else []
      | PersonalMultisig _ \<Rightarrow> [])"

definition internal_seats :: "proposal \<Rightarrow> proposal_id \<Rightarrow> 'x engine \<Rightarrow> internal_vote_ticket list" where
  "internal_seats p i s =
     (case p_actor_cid_number p of
        Some cid \<Rightarrow> concat (map (role_tickets cid) (voter_snapshot (snapshots s) i))
      | None \<Rightarrow>
          (case p_execution_account_id p of
             None \<Rightarrow> []
           | Some a \<Rightarrow> (case map_of (admin_snapshot (snapshots s) i) (PersonalAccount a) of
                          None \<Rightarrow> [] | Some admins \<Rightarrow> map PersonalTicket admins)))"

text \<open>The number of tickets the code compares with.\<close>

definition internal_eligible_total :: "proposal \<Rightarrow> proposal_id \<Rightarrow> 'x engine \<Rightarrow> u32 option" where
  "internal_eligible_total p i s =
     (case p_actor_cid_number p of
        Some cid \<Rightarrow> institution_ticket_count i cid s
      | None \<Rightarrow> Option.bind (p_execution_account_id p) (\<lambda>a. snapshot_admins_len i (PersonalAccount a) s))"

lemma length_role_tickets: "length (concat (map (role_tickets cid) vs)) = seats cid vs"
  by (induction vs) (auto simp: role_tickets_def seats_def split: authorization_subject.splits prod.splits)

lemma internal_seats_count:
  assumes "tickets_exact i s" "internal_eligible_total p i s = Some n"
  shows "length (internal_seats p i s) = n"
proof (cases "p_actor_cid_number p")
  case None
  with assms(2) show ?thesis
    by (auto simp: internal_seats_def internal_eligible_total_def snapshot_admins_len_def bind_eq_Some_conv)
next
  case (Some cid)
  with assms(2) have n: "institution_ticket_count i cid s = Some n" by (simp add: internal_eligible_total_def)
  have "seats cid (voter_snapshot (snapshots s) i) =
      (case institution_ticket_count i cid s of None \<Rightarrow> 0 | Some n \<Rightarrow> n)"
    using assms(1) unfolding tickets_exact_def by simp
  with n show ?thesis by (simp add: internal_seats_def Some length_role_tickets)
qed

lemma resolved_ticket:
  assumes "resolve_internal_ticket env who i p claim s = Inr (k, role, True, m)"
  shows "k \<in> set (internal_seats p i s) \<and> internal_eligible_total p i s = Some m"
proof (cases "p_actor_cid_number p")
  case None
  with assms show ?thesis
    by (auto simp: resolve_internal_ticket_def Let_def internal_seats_def internal_eligible_total_def
        snapshot_admins_len_def is_admin_in_snapshot_def split: option.splits if_splits)
next
  case (Some cid)
  with assms obtain r v voters where
    "k = InstitutionTicket \<lparr>t_role_subject = \<lparr>rs_cid_number = cid, rs_role_code = r\<rparr>, t_voter_account_id = v\<rparr>"
    and m: "institution_ticket_count i cid s = Some m"
    and "map_of (voter_snapshot (snapshots s) i) (Institution \<lparr>rs_cid_number = cid, rs_role_code = r\<rparr>) = Some voters"
    and "v \<in> set voters"
    by (auto simp: resolve_internal_ticket_def Let_def is_subject_voter_in_snapshot_def
        split: option.splits internal_vote_ticket_claim.splits)
  then have "k \<in> set (internal_seats p i s)"
    by (auto simp: internal_seats_def Some role_tickets_def dest!: map_of_SomeD intro!: bexI)
  with m show ?thesis by (simp add: internal_eligible_total_def Some)
qed

interpretation internal_votes: ballot_ledger
    "\<lambda>s. internal_votes_by_ticket (internal s) i" "\<lambda>s. internal_tallies (internal s) i"
    "\<lambda>b. b" "\<lambda>_. True" "record_internal_vote i" 32 for i
  by unfold_locales (auto simp: record_internal_vote_def kv_insert_new kv_contains_def)

text \<open>The ledger of a proposal with \<open>n\<close> tickets and threshold \<open>th\<close>.\<close>

definition internal_ledger :: "proposal \<Rightarrow> proposal_id \<Rightarrow> u32 \<Rightarrow> u32 \<Rightarrow> 'x engine \<Rightarrow> bool" where
  "internal_ledger p i n th s \<longleftrightarrow>
     p_kind p = PROPOSAL_KIND_INTERNAL \<and> p_stage p = STAGE_INTERNAL \<and>
     counted (\<lambda>b. b) (internal_votes_by_ticket (internal s) i) (internal_tallies (internal s) i) \<and>
     fst ` set (internal_votes_by_ticket (internal s) i) \<subseteq> set (internal_seats p i s) \<and>
     length (internal_seats p i s) = n \<and> internal_eligible_total p i s = Some n \<and> n < 2 ^ 32 \<and>
     internal_threshold_snapshot (internal s) i = Some th"

lemma internal_seats_cong:
  assumes "snapshots s' = snapshots s"
  shows "internal_seats p i s' = internal_seats p i s" "internal_eligible_total p i s' = internal_eligible_total p i s"
  using assms by (simp_all add: internal_seats_def internal_eligible_total_def institution_ticket_count_def
      snapshot_admins_len_def cong: option.case_cong)

lemma internal_ledger_frame:
  assumes "same_ballots s s'" shows "internal_ledger p i n th s' = internal_ledger p i n th s"
proof -
  have "internal_seats p i s' = internal_seats p i s" "internal_eligible_total p i s' = internal_eligible_total p i s"
    using assms internal_seats_cong [of s' s] by (simp_all add: same_ballots_def)
  with assms show ?thesis by (simp add: internal_ledger_def same_ballots_def)
qed

lemma internal_seats_record [simp]:
  "internal_seats p i (record_internal_vote j k b s) = internal_seats p i s"
  "internal_eligible_total p i (record_internal_vote j k b s) = internal_eligible_total p i s"
  using internal_seats_cong [of "record_internal_vote j k b s" s] by (simp_all add: record_internal_vote_def)

lemma internal_ledger_bound:
  assumes "internal_ledger p i n th s"
  shows "yes (internal_tallies (internal s) i) + no (internal_tallies (internal s) i) \<le> n" "n < 2 ^ 32"
  using assms counted_card [of "\<lambda>b. b"] by (auto simp: internal_ledger_def)

lemma internal_ledger_record:
  assumes "internal_ledger p i n th s" "k \<in> set (internal_seats p i s)"
    and "k \<notin> fst ` set (internal_votes_by_ticket (internal s) i)"
  shows "internal_ledger p i n th (record_internal_vote i k b s)"
proof -
  have len: "length (internal_votes_by_ticket (internal s) i) + 1 < 2 ^ 32"
    using counted_room [OF _ _ assms(2,3)] assms(1) by (fastforce simp: internal_ledger_def)
  have c: "counted (\<lambda>b. b) (internal_votes_by_ticket (internal (record_internal_vote i k b s)) i)
      (internal_tallies (internal (record_internal_vote i k b s)) i)"
    using assms by (intro internal_votes.exact len) (simp_all add: internal_ledger_def)
  have w: "fst ` set (internal_votes_by_ticket (internal (record_internal_vote i k b s)) i) \<subseteq> set (internal_seats p i s)"
    using assms by (intro internal_votes.within) (simp_all add: internal_ledger_def)
  have "internal_threshold_snapshot (internal (record_internal_vote i k b s)) = internal_threshold_snapshot (internal s)"
    by (simp add: record_internal_vote_def)
  with c w assms(1) show ?thesis by (simp add: internal_ledger_def)
qed

lemma internal_ledger_other:
  "j \<noteq> i \<Longrightarrow> internal_ledger p i n th (record_internal_vote j k b s) = internal_ledger p i n th s"
  by (simp add: internal_ledger_def) (simp add: record_internal_vote_def)

section \<open>One vote\<close>

lemma internal_vote_ok:
  assumes "do_internal_vote env who j claim b s = (Inr a, s')"
  obtains p k role m th where
    "proposals s j = Some p" "p_status p = STATUS_VOTING"
    "p_kind p = PROPOSAL_KIND_INTERNAL" "p_stage p = STAGE_INTERNAL"
    "resolve_internal_ticket env who j p claim s = Inr (k, role, True, m)"
    "k \<notin> fst ` set (internal_votes_by_ticket (internal s) j)"
    "internal_threshold_snapshot (internal s) j = Some th"
    "let s2 = deposit_event (InternalVoteCast j who role b) (record_internal_vote j k b s);
         st = verdict th m (internal_tallies (internal s2) j)
     in if st = STATUS_VOTING then s' = s2 else set_status_and_emit env j st s2 = (Inr (), s')"
proof -
  from assms obtain p k role m th where
    g: "ensure_open_proposal j s = Inr p" "p_kind p = PROPOSAL_KIND_INTERNAL" "p_stage p = STAGE_INTERNAL"
    "resolve_internal_ticket env who j p claim s = Inr (k, role, True, m)"
    "\<not> kv_contains k (internal_votes_by_ticket (internal s) j)"
    and th: "internal_threshold_snapshot (internal (deposit_event (InternalVoteCast j who role b)
       (record_internal_vote j k b s))) j = Some th"
    and fin: "let s2 = deposit_event (InternalVoteCast j who role b) (record_internal_vote j k b s);
         st = verdict th m (internal_tallies (internal s2) j)
     in if st = STATUS_VOTING then s' = s2 else set_status_and_emit env j st s2 = (Inr (), s')"
    by (auto simp: do_internal_vote_def pure_result_def Let_def verdict_def deposit_event_def
        split: sum.splits if_splits prod.splits)
  moreover from g(1) have "proposals s j = Some p" "p_status p = STATUS_VOTING"
    by (auto simp: ensure_open_proposal_def split: option.splits if_splits)
  moreover from th have "internal_threshold_snapshot (internal s) j = Some th"
    by (simp add: record_internal_vote_def deposit_event_def)
  ultimately show ?thesis by (intro that) (auto simp: kv_contains_def)
qed

lemma set_status_proposals:
  assumes "tracks_framed env" "set_status_and_emit env i st s = (Inr a, s')"
  shows "\<exists>p. proposals s i = Some p \<and> valid_status_transition (p_status p) st \<and>
     proposals s' = (proposals s)(i \<mapsto> p\<lparr>p_status := st\<rparr>)"
proof -
  from assms(2) obtain p t where p: "proposals s i = Some p" "valid_status_transition (p_status p) st"
    and t: "announce_status env i p st (free_active_slots i p st (write_status i p st s)) = (Inr (), t)"
    and fin: "settle_status env i p t = (Inr (), s')" by (auto elim: set_status_ok)
  from announce_frame [OF t] have t': "proposals t = (proposals s)(i \<mapsto> p\<lparr>p_status := st\<rparr>)" by simp
  have "proposals s' = proposals t"
  proof (cases "is_terminal_status st")
    case True
    with fin t' obtain w where w: "apply_terminal_side_effects env i st t = (Inr (), w)"
      and "s' = deposit_event (ProposalFinalized i st) w" by (auto simp: settle_status_def)
    with apply_terminal_effects [OF assms(1) w] show ?thesis by (simp add: deposit_event_def)
  qed (use fin t' in \<open>auto simp: settle_status_def deposit_event_def split: if_splits\<close>)
  with t' p show ?thesis by simp
qed

lemma internal_vote_other:
  assumes tk: "tracks_keep_ledgers env" and ok: "do_internal_vote env who j claim b s = (Inr a, s')" and "j \<noteq> i"
  shows "proposals s' i = proposals s i \<and> internal_ledger p i n th s' = internal_ledger p i n th s"
  using ok
proof (rule internal_vote_ok)
  fix pj k role m th'
  define s2 where "s2 = deposit_event (InternalVoteCast j who role b) (record_internal_vote j k b s)"
  define st where "st = verdict th' m (internal_tallies (internal s2) j)"
  assume "let s2 = deposit_event (InternalVoteCast j who role b) (record_internal_vote j k b s);
         st = verdict th' m (internal_tallies (internal s2) j)
     in if st = STATUS_VOTING then s' = s2 else set_status_and_emit env j st s2 = (Inr (), s')"
  then have fin: "s' = s2 \<or> set_status_and_emit env j st s2 = (Inr (), s')"
    by (auto simp: Let_def s2_def st_def split: if_splits)
  have "same_ballots (record_internal_vote j k b s) s2" by (simp add: s2_def)
  then have l: "internal_ledger p i n th s2 = internal_ledger p i n th s"
    using internal_ledger_frame internal_ledger_other [OF \<open>j \<noteq> i\<close>] by blast
  have pr: "proposals s2 = proposals s" by (simp add: s2_def deposit_event_def record_internal_vote_def)
  from fin show ?thesis
  proof
    assume "set_status_and_emit env j st s2 = (Inr (), s')"
    moreover have "same_ballots s2 s'"
      using ballots_set_status [OF tk same_ballots_refl, of s2 j st] calculation by simp
    ultimately show ?thesis
      using set_status_proposals [OF keep_ledgers_framed [OF tk]] internal_ledger_frame pr l \<open>j \<noteq> i\<close> by fastforce
  qed (use l pr in simp)
qed

text \<open>The status of the proposal is the verdict on its tally.\<close>

definition internal_judged :: "proposal \<Rightarrow> proposal_id \<Rightarrow> u32 \<Rightarrow> u32 \<Rightarrow> 'x engine \<Rightarrow> bool" where
  "internal_judged p i n th s \<longleftrightarrow> internal_ledger p i n th s \<and>
     proposals s i = Some (p\<lparr>p_status := verdict th n (internal_tallies (internal s) i)\<rparr>)"

lemma internal_vote_judged:
  assumes tk: "tracks_keep_ledgers env" and ok: "do_internal_vote env who i claim b s = (Inr a, s')"
    and j: "internal_judged p i n th s"
  shows "internal_judged p i n th s'"
  using ok
proof (rule internal_vote_ok)
  fix q k role m th'
  define s2 where "s2 = deposit_event (InternalVoteCast i who role b) (record_internal_vote i k b s)"
  define st where "st = verdict th n (internal_tallies (internal s2) i)"
  from j have led: "internal_ledger p i n th s"
    and pr: "proposals s i = Some (p\<lparr>p_status := verdict th n (internal_tallies (internal s) i)\<rparr>)"
    by (simp_all add: internal_judged_def)
  assume q: "proposals s i = Some q" "p_status q = STATUS_VOTING"
    and k: "resolve_internal_ticket env who i q claim s = Inr (k, role, True, m)"
      "k \<notin> fst ` set (internal_votes_by_ticket (internal s) i)"
    and th: "internal_threshold_snapshot (internal s) i = Some th'"
    and f: "let s2 = deposit_event (InternalVoteCast i who role b) (record_internal_vote i k b s);
         st = verdict th' m (internal_tallies (internal s2) i)
     in if st = STATUS_VOTING then s' = s2 else set_status_and_emit env i st s2 = (Inr (), s')"
  from q pr have qp: "q = p\<lparr>p_status := STATUS_VOTING\<rparr>" by auto
  have seats: "internal_seats q i s = internal_seats p i s" "internal_eligible_total q i s = internal_eligible_total p i s"
    by (simp_all add: qp internal_seats_def internal_eligible_total_def cong: option.case_cong)
  from resolved_ticket [OF k(1)] seats led have k': "k \<in> set (internal_seats p i s)" and m: "m = n"
    by (auto simp: internal_ledger_def)
  from th led have th': "th' = th" by (simp add: internal_ledger_def)
  have "internal_ledger p i n th (record_internal_vote i k b s)" by (rule internal_ledger_record [OF led k' k(2)])
  moreover have "same_ballots (record_internal_vote i k b s) s2" by (simp add: s2_def)
  ultimately have l2: "internal_ledger p i n th s2" using internal_ledger_frame by blast
  have pr2: "proposals s2 = proposals s" by (simp add: s2_def deposit_event_def record_internal_vote_def)
  from f have fin: "if st = STATUS_VOTING then s' = s2 else set_status_and_emit env i st s2 = (Inr (), s')"
    by (simp add: Let_def s2_def st_def m th' split: if_splits)
  show ?thesis
  proof (cases "st = STATUS_VOTING")
    case True
    with fin l2 pr2 q(1) qp show ?thesis by (simp add: internal_judged_def st_def)
  next
    case False
    with fin have ss: "set_status_and_emit env i st s2 = (Inr (), s')" by simp
    then have "same_ballots s2 s'" using ballots_set_status [OF tk same_ballots_refl, of s2 i st] by simp
    moreover have "proposals s' i = Some (p\<lparr>p_status := st\<rparr>)"
      using set_status_proposals [OF keep_ledgers_framed [OF tk] ss] pr2 q(1) qp by auto
    ultimately show ?thesis
      using l2 internal_ledger_frame [of s2 s'] by (auto simp: internal_judged_def st_def same_ballots_def)
  qed
qed

section \<open>Sequences of votes\<close>

text \<open>Calls of \<open>cast\<close> by anyone, on any proposal, in any order; failed calls change nothing.\<close>

type_synonym internal_call = "origin \<times> proposal_id \<times> internal_vote_ticket_claim \<times> bool"

fun internal_casts :: "'x env \<Rightarrow> internal_call list \<Rightarrow> 'x engine \<Rightarrow> 'x engine" where
  "internal_casts env [] s = s"
| "internal_casts env ((o', i, claim, b) # calls) s =
     internal_casts env calls (snd (internal_cast env o' i claim b s))"

lemma internal_cast_judged:
  assumes "tracks_keep_ledgers env" "internal_judged p i n th s"
  shows "internal_judged p i n th (snd (internal_cast env o' j claim b s))"
proof (cases "internal_cast env o' j claim b s" rule: outcome_cases)
  case (err e t)
  then have "t = s" unfolding internal_cast_def by (rule with_transaction_error)
  with err assms(2) show ?thesis by simp
next
  case (ok a t)
  then obtain who where ok': "do_internal_vote env who j claim b s = (Inr a, t)"
    by (auto simp: internal_cast_def)
  have "internal_judged p i n th t"
  proof (cases "j = i")
    case True
    with internal_vote_judged [OF assms(1) _ assms(2)] ok' show ?thesis by simp
  next
    case False
    have "internal_tallies (internal t) i = internal_tallies (internal s) i"
    proof -
      obtain k role where "same_ballots (deposit_event (InternalVoteCast j who role b) (record_internal_vote j k b s)) t"
        using ok'
      proof (rule internal_vote_ok)
        fix pj k role m th'
        assume "let s2 = deposit_event (InternalVoteCast j who role b) (record_internal_vote j k b s);
             st = verdict th' m (internal_tallies (internal s2) j)
           in if st = STATUS_VOTING then t = s2 else set_status_and_emit env j st s2 = (Inr (), t)"
        then have "same_ballots (deposit_event (InternalVoteCast j who role b) (record_internal_vote j k b s)) t"
          using ballots_set_status [OF assms(1) same_ballots_refl] by (auto simp: Let_def keeps_def split: if_splits)
            (metis snd_conv)
        then show thesis by (rule that)
      qed
      with False show ?thesis by (simp add: same_ballots_def deposit_event_def record_internal_vote_def)
    qed
    with internal_vote_other [OF assms(1) ok' False] assms(2) show ?thesis by (simp add: internal_judged_def)
  qed
  with ok show ?thesis by simp
qed

lemma internal_casts_judged:
  assumes "tracks_keep_ledgers env"
  shows "internal_judged p i n th s \<Longrightarrow> internal_judged p i n th (internal_casts env calls s)"
proof (induction calls arbitrary: s)
  case (Cons c calls)
  then show ?case by (cases c) (simp add: internal_cast_judged [OF assms])
qed simp

text \<open>
  C2. The internal vote decides correctly. Take an open internal proposal with \<open>n\<close> tickets, no
  ballots yet and threshold \<open>0 < th \<le> n\<close>, and let anyone send any sequence of \<open>cast\<close> calls, for
  this and other proposals, valid or not. Afterwards no ticket has two ballots, only tickets of
  the frozen snapshot have one, and the tally counts them exactly. The proposal is PASSED exactly
  when the yes ballots have reached the threshold, REJECTED exactly when no continuation could
  reach it any more, and once every ticket has been used it is decided. With a threshold above
  half of the tickets, passing means a strict majority of all tickets.
\<close>

theorem internal_vote_correct:
  assumes "tracks_keep_ledgers env"
    and "proposals s i = Some p" "p_status p = STATUS_VOTING" "internal_ledger p i n th s"
    and "internal_votes_by_ticket (internal s) i = []" "0 < th" "th \<le> n"
    and "s' = internal_casts env calls s" "t = internal_tallies (internal s') i"
  shows "\<exists>p'. proposals s' i = Some p' \<and>
     counted (\<lambda>b. b) (internal_votes_by_ticket (internal s') i) t \<and>
     fst ` set (internal_votes_by_ticket (internal s') i) \<subseteq> set (internal_seats p i s') \<and> yes t + no t \<le> n \<and>
     (p_status p' = STATUS_PASSED \<longleftrightarrow> th \<le> yes t) \<and>
     (p_status p' = STATUS_REJECTED \<longleftrightarrow> (\<forall>u. later_tally n t u \<longrightarrow> yes u < th)) \<and>
     (yes t + no t = n \<longrightarrow> p_status p' \<noteq> STATUS_VOTING) \<and>
     (n < 2 * th \<longrightarrow> p_status p' = STATUS_PASSED \<longrightarrow> n < 2 * yes t)"
proof -
  have t0: "yes (internal_tallies (internal s) i) = 0" "no (internal_tallies (internal s) i) = 0"
    using assms(4,5) by (simp_all add: internal_ledger_def counted_def)
  then have "verdict th n (internal_tallies (internal s) i) = STATUS_VOTING"
    using verdict_exact [of "internal_tallies (internal s) i" n th] internal_ledger_bound [OF assms(4)] assms(6,7) by simp
  moreover have "p = p\<lparr>p_status := STATUS_VOTING\<rparr>" using assms(3) by simp
  ultimately have "internal_judged p i n th s" using assms(2,4) by (simp add: internal_judged_def)
  then have j: "internal_judged p i n th s'" unfolding assms(8) by (rule internal_casts_judged [OF assms(1)])
  then have l: "internal_ledger p i n th s'" and p': "proposals s' i = Some (p\<lparr>p_status := verdict th n t\<rparr>)"
    by (simp_all add: internal_judged_def assms(9))
  have b: "yes t + no t \<le> n" "n < 2 ^ 32" using internal_ledger_bound [OF l] by (simp_all add: assms(9))
  have passed: "verdict th n t = STATUS_PASSED \<longleftrightarrow> th \<le> yes t" by (auto simp: verdict_exact [OF b])
  have used: "yes t + no t = n \<longrightarrow> verdict th n t \<noteq> STATUS_VOTING" using verdict_final(3) [OF b] by fastforce
  show ?thesis
  proof (intro exI conjI)
    show "proposals s' i = Some (p\<lparr>p_status := verdict th n t\<rparr>)" by (rule p')
    show "p_status (p\<lparr>p_status := verdict th n t\<rparr>) = STATUS_REJECTED \<longleftrightarrow> (\<forall>u. later_tally n t u \<longrightarrow> yes u < th)"
      using verdict_final(2) [OF b] by simp
  qed (use l b used passed in \<open>simp_all add: internal_ledger_def assms(9)\<close>)
qed

text \<open>An institution with three seats and threshold two, on an engine with the internal track.\<close>

definition internal_env :: "unit env" where
  "internal_env = test_env\<lparr>tracks := [internal_track clear_in_order (\<lambda>_ _. weight_zero) weight_zero]\<rparr>"

lemma internal_env_keeps: "tracks_keep_ledgers internal_env"
  by (simp add: tracks_keep_ledgers_def internal_env_def internal.ledger_track_axioms)

definition sample_internal_state :: "unit engine" where
  "sample_internal_state = (sample_state STATUS_VOTING)\<lparr>
     snapshots := \<lparr>admin_snapshot = (\<lambda>_. []),
       voter_snapshot = (\<lambda>_. [(Institution \<lparr>rs_cid_number = ''X'', rs_role_code = ''a''\<rparr>, [1, 2, 3])]),
       institution_ticket_count_snapshot = (\<lambda>_. [(''X'', 3)])\<rparr>,
     internal := (internal (engine_genesis ()))\<lparr>internal_threshold_snapshot := [0 \<mapsto> 2]\<rparr>\<rparr>"

lemma sample_internal_ledger: "internal_ledger (sample_proposal\<lparr>p_status := STATUS_VOTING\<rparr>) 0 3 2 sample_internal_state"
  by (simp add: internal_ledger_def sample_internal_state_def sample_state_def engine_genesis_def sample_proposal_def
      internal_seats_def role_tickets_def internal_eligible_total_def institution_ticket_count_def kind_defs stage_defs)

theorem internal_vote_correct_witness:
  "\<exists>p' s'. s' = internal_casts internal_env
       [(Signed 1, 0, ClaimInstitutionRole ''a'', True), (Signed 1, 0, ClaimInstitutionRole ''a'', True),
        (Signed 2, 0, ClaimInstitutionRole ''a'', True)] sample_internal_state \<and>
     proposals s' 0 = Some p' \<and>
     (p_status p' = STATUS_PASSED \<longleftrightarrow> 2 \<le> yes (internal_tallies (internal s') 0))"
  using internal_vote_correct [OF internal_env_keeps _ _ sample_internal_ledger _ _ _ refl refl,
      of "[(Signed 1, 0, ClaimInstitutionRole ''a'', True), (Signed 1, 0, ClaimInstitutionRole ''a'', True),
           (Signed 2, 0, ClaimInstitutionRole ''a'', True)]"]
  by (fastforce simp: sample_internal_state_def sample_state_def engine_genesis_def)

end
