(* ===== verification/Internal_Proposal.thy ===== *)
theory Internal_Proposal
  imports Internal_Vote
begin

text \<open>
  Creating internal proposals (\<^verbatim>\<open>votingengine/internal-vote/src/proposal.rs\<close> and the engine
  trait of its \<^verbatim>\<open>lib.rs\<close>): institution proposals with a frozen vote plan, personal-multisig
  proposals of the four kinds, each allocating an id, taking the active slot and the mutex,
  freezing the electorate, checking the threshold, filing the expiry, registering the business
  data and casting the proposer's own vote; all in one storage transaction.
\<close>

section \<open>Shared steps\<close>

fun acquire_all ::
  "'x env \<Rightarrow> proposal_id \<Rightarrow> internal_proposal_mutex_kind \<Rightarrow> proposal_subject list \<Rightarrow> 'x engine \<Rightarrow>
   (dispatch_error, unit, 'x engine) outcome" where
  "acquire_all env i kind [] s = (Inr (), s)"
| "acquire_all env i kind (subject # subjects) s =
     and_then (zoom VotingEngine (\<lambda>l s. s\<lparr>locks := l\<rparr>)
         (acquire_internal_proposal_mutex (MaxInternalProposalMutexBindings (cfg env)) i subject kind (locks s)) s) (\<lambda>_ s.
       acquire_all env i kind subjects s)"

definition allocate_id :: "'x env \<Rightarrow> 'x engine \<Rightarrow> (dispatch_error, proposal_id, 'x engine) outcome" where
  "allocate_id env s =
     zoom VotingEngine (\<lambda>d s. s\<lparr>ids := d\<rparr>) (allocate_proposal_id (unix_now_ms env (ext s)) (ids s)) s"

definition add_active :: "'x env \<Rightarrow> proposal_subject list \<Rightarrow> proposal_id \<Rightarrow> 'x engine \<Rightarrow> (dispatch_error, unit, 'x engine) outcome" where
  "add_active env subjects i s =
     zoom VotingEngine (\<lambda>l s. s\<lparr>locks := l\<rparr>)
       (try_add_active_proposals (MaxActiveProposals (cfg env)) subjects i (locks s)) s"

definition allocate_and_lock ::
  "'x env \<Rightarrow> proposal \<Rightarrow> internal_proposal_mutex_kind \<Rightarrow> 'x engine \<Rightarrow> (dispatch_error, proposal_id, 'x engine) outcome" where
  "allocate_and_lock env p kind s =
     and_then (allocate_id env s) (\<lambda>i s.
     and_then (add_active env (subject_keys p) i s) (\<lambda>_ s.
     and_then (acquire_all env i kind (subject_keys p) s) (\<lambda>_ s. (Inr i, s))))"

definition finish_proposal_create ::
  "'x env \<Rightarrow> proposal_id \<Rightarrow> proposal \<Rightarrow> block_number \<Rightarrow> u32 \<Rightarrow> internal_proposal_role \<Rightarrow> 'x engine \<Rightarrow>
   (dispatch_error, proposal_id, 'x engine) outcome" where
  "finish_proposal_create env i p end threshold role s =
     (let s1 = upd_internal (\<lambda>v. v\<lparr>
             internal_threshold_snapshot := (internal_threshold_snapshot v)(i \<mapsto> threshold),
             internal_proposal_roles := (internal_proposal_roles v)(i \<mapsto> role)\<rparr>) s;
          s2 = s1\<lparr>proposals := (proposals s1)(i \<mapsto> p)\<rparr>
      in and_then (schedule_proposal_expiry env i end s2) (\<lambda>_ s.
           (Inr i, emit_proposal_created i PROPOSAL_KIND_INTERNAL STAGE_INTERNAL end s)))"

definition register_data_and_auto_approve ::
  "'x env \<Rightarrow> account \<Rightarrow> proposal_id \<Rightarrow> string \<Rightarrow> string \<Rightarrow> 'x engine \<Rightarrow> (dispatch_error, proposal_id, 'x engine) outcome" where
  "register_data_and_auto_approve env who i tag data s =
     and_then (register_proposal_data env i tag data (block_number s) s) (\<lambda>_ s.
     ok_or (proposals s i) (VotingEngine ProposalNotFound) s (\<lambda>p.
     and_then
       (if p_actor_cid_number p \<noteq> None then
          ok_or (proposal_vote_plans (records s) i) (VotingEngine InvalidVotePlan) s (\<lambda>plan.
            (case vp_proposer_subject plan of
               PersonalMultisig _ \<Rightarrow> (Inl (VotingEngine InvalidVotePlan), s)
             | Institution rs \<Rightarrow>
                 (Inr (if is_subject_voter_in_snapshot env i (Institution rs) who s
                       then Some (ClaimInstitutionRole (rs_role_code rs)) else None), s)))
        else (Inr (case p_execution_account_id p of
                     None \<Rightarrow> None
                   | Some a \<Rightarrow> if is_admin_in_snapshot i (PersonalAccount a) who s then Some ClaimPersonal else None), s))
       (\<lambda>claim s.
          (case claim of
             None \<Rightarrow> (Inr i, s)
           | Some c \<Rightarrow> and_then (do_internal_vote env who i c True s) (\<lambda>_ s. (Inr i, s))))))"

section \<open>Institution proposals\<close>

definition is_valid_institution_context :: "institution_code \<Rightarrow> cid_number \<Rightarrow> bool" where
  "is_valid_institution_context code cid \<longleftrightarrow>
     \<not> is_personal_code code \<and> is_valid_governance_code code \<and>
     institution_code_from_cid_number (from_utf8_or_default cid) = Some code"

definition ensure_institution_vote_plan ::
  "'x env \<Rightarrow> cid_number \<Rightarrow> account \<Rightarrow> vote_plan \<Rightarrow> 'x engine \<Rightarrow> dispatch_error + unit" where
  "ensure_institution_vote_plan env cid who plan s =
     (if vp_voting_engine plan \<noteq> Internal then Inl (VotingEngine InvalidVotePlan)
      else (case vp_proposer_subject plan of
              PersonalMultisig _ \<Rightarrow> Inl (VotingEngine InvalidVotePlan)
            | Institution rs \<Rightarrow>
                if rs_cid_number rs \<noteq> cid then Inl (VotingEngine InvalidVotePlan)
                else if \<not> is_active_assignment env (rs_cid_number rs) who (rs_role_code rs) (ext s)
                then Inl (VotingEngine NoPermission)
                else if list_all (\<lambda>subject. case subject of
                          Institution r \<Rightarrow> rs_cid_number r = cid | PersonalMultisig _ \<Rightarrow> False) (vp_voter_subjects plan)
                then Inr () else Inl (VotingEngine InvalidVotePlan)))"

definition institution_proposal ::
  "institution_code \<Rightarrow> cid_number \<Rightarrow> account option \<Rightarrow> cid_number list \<Rightarrow> block_number \<Rightarrow> proposal" where
  "institution_proposal code cid exec cids now =
     \<lparr>p_kind = PROPOSAL_KIND_INTERNAL, p_stage = STAGE_INTERNAL, p_status = STATUS_VOTING,
      p_internal_code = Some code, p_actor_cid_number = Some cid, p_execution_account_id = exec,
      p_subject_cid_numbers = cids, p_start = now, p_end = bn_add now internal_stage_duration\<rparr>"

definition do_create_institution_proposal_with_mutex ::
  "'x env \<Rightarrow> account \<Rightarrow> institution_code \<Rightarrow> string \<Rightarrow> account option \<Rightarrow> string list \<Rightarrow>
   internal_proposal_mutex_kind \<Rightarrow> internal_proposal_role \<Rightarrow> vote_plan \<Rightarrow> 'x engine \<Rightarrow>
   (dispatch_error, proposal_id, 'x engine) outcome" where
  "do_create_institution_proposal_with_mutex env who code cid exec subject_cids mutex role plan s =
     ensure (is_valid_governance_code code \<and> \<not> is_personal_code code) (InternalVote InvalidInternalCode) s (\<lambda>s.
     ensure (length cid \<le> CID_NUMBER_MAX_BYTES) (VotingEngine InvalidInstitution) s (\<lambda>s.
     ensure (is_valid_institution_context code cid) (VotingEngine InvalidInstitution) s (\<lambda>s.
     and_then (pure_result (ensure_institution_vote_plan env cid who plan s) s) (\<lambda>_ s.
     (case bound_subject_cid_numbers subject_cids of
        Inl e \<Rightarrow> (Inl (VotingEngine e), s)
      | Inr cids \<Rightarrow>
          let p = institution_proposal code cid exec cids (block_number s) in
          with_transaction (\<lambda>s.
            and_then (allocate_and_lock env p mutex s) (\<lambda>i s.
            and_then (snapshot_all_roles env i (vp_voter_subjects plan) s) (\<lambda>_ s.
            ok_or (institution_ticket_count i cid s) (VotingEngine MissingVoterSnapshot) s (\<lambda>snapshot_size.
            ok_or (institution_threshold env code cid (ext s)) (InternalVote MissingDynamicThreshold) s (\<lambda>threshold.
            and_then (pure_result (ensure_dynamic_threshold snapshot_size threshold) s) (\<lambda>_ s.
              finish_proposal_create env i p (p_end p) threshold role s)))))) s)))))"

definition do_create_institution_proposal ::
  "'x env \<Rightarrow> account \<Rightarrow> institution_code \<Rightarrow> string \<Rightarrow> account option \<Rightarrow> string list \<Rightarrow> vote_plan \<Rightarrow> 'x engine \<Rightarrow>
   (dispatch_error, proposal_id, 'x engine) outcome" where
  "do_create_institution_proposal env who code cid exec subject_cids plan s =
     do_create_institution_proposal_with_mutex env who code cid exec subject_cids Regular General plan s"

text \<open>Hash check, creation, binding of the plan, data and first vote.\<close>

definition create_with_plan ::
  "'x env \<Rightarrow> account \<Rightarrow> vote_plan \<Rightarrow> string \<Rightarrow> ('x engine \<Rightarrow> (dispatch_error, proposal_id, 'x engine) outcome) \<Rightarrow>
   'x engine \<Rightarrow> (dispatch_error, proposal_id, 'x engine) outcome" where
  "create_with_plan env who plan data create =
     with_transaction (\<lambda>s.
       ensure (hash256 env data = vp_business_object_hash plan) (VotingEngine InvalidVotePlan) s (\<lambda>s.
       and_then (create s) (\<lambda>i s.
       and_then (bind_vote_plan i plan s) (\<lambda>_ s.
         register_data_and_auto_approve env who i (vp_proposal_owner plan) data s))))"

definition create_institution_proposal_with_data ::
  "'x env \<Rightarrow> account \<Rightarrow> institution_code \<Rightarrow> string \<Rightarrow> account option \<Rightarrow> string list \<Rightarrow> vote_plan \<Rightarrow> string \<Rightarrow> 'x engine \<Rightarrow>
   (dispatch_error, proposal_id, 'x engine) outcome" where
  "create_institution_proposal_with_data env who code cid exec subject_cids plan data =
     create_with_plan env who plan data
       (do_create_institution_proposal env who code cid exec subject_cids plan)"

definition create_institution_admin_change_proposal_with_data ::
  "'x env \<Rightarrow> account \<Rightarrow> institution_code \<Rightarrow> string \<Rightarrow> vote_plan \<Rightarrow> string \<Rightarrow> 'x engine \<Rightarrow>
   (dispatch_error, proposal_id, 'x engine) outcome" where
  "create_institution_admin_change_proposal_with_data env who code cid plan data =
     create_with_plan env who plan data
       (do_create_institution_proposal_with_mutex env who code cid None [] AdminSetMutationExclusive
          InstitutionAdminChange plan)"

section \<open>Personal multisig proposals\<close>

definition personal_proposal :: "account \<Rightarrow> block_number \<Rightarrow> proposal" where
  "personal_proposal personal now =
     \<lparr>p_kind = PROPOSAL_KIND_INTERNAL, p_stage = STAGE_INTERNAL, p_status = STATUS_VOTING,
      p_internal_code = Some PMUL, p_actor_cid_number = None, p_execution_account_id = Some personal,
      p_subject_cid_numbers = [], p_start = now, p_end = bn_add now internal_stage_duration\<rparr>"

definition do_create_active_personal_proposal ::
  "'x env \<Rightarrow> account \<Rightarrow> account \<Rightarrow> internal_proposal_mutex_kind \<Rightarrow> internal_proposal_role \<Rightarrow> bool \<Rightarrow> 'x engine \<Rightarrow>
   (dispatch_error, proposal_id, 'x engine) outcome" where
  "do_create_active_personal_proposal env who personal mutex role force_all s =
     (let p = personal_proposal personal (block_number s); subject = PersonalAccount personal in
      with_transaction (\<lambda>s.
        and_then (allocate_and_lock env p mutex s) (\<lambda>i s.
        and_then (snapshot_personal_admins env i personal False s) (\<lambda>_ s.
        ensure (is_admin_in_snapshot i subject who s) (VotingEngine NoPermission) s (\<lambda>s.
        and_then (pure_result (snapshot_admins_len_or_missing i subject s) s) (\<lambda>snapshot_size s.
        ok_or (if force_all then Some snapshot_size else active_personal_thresholds (internal s) personal)
          (InternalVote MissingDynamicThreshold) s (\<lambda>threshold.
        and_then (pure_result (if force_all then ensure_all_admin_threshold snapshot_size threshold
                               else ensure_dynamic_threshold snapshot_size threshold) s) (\<lambda>_ s.
          finish_proposal_create env i p (p_end p) threshold role s))))))) s)"

definition do_create_personal_proposal ::
  "'x env \<Rightarrow> account \<Rightarrow> account \<Rightarrow> 'x engine \<Rightarrow> (dispatch_error, proposal_id, 'x engine) outcome" where
  "do_create_personal_proposal env who personal s =
     ensure (is_personal_admin env personal who (ext s)) (VotingEngine NoPermission) s (\<lambda>s.
       do_create_active_personal_proposal env who personal Regular General False s)"

definition do_create_personal_lifecycle_proposal ::
  "'x env \<Rightarrow> account \<Rightarrow> account \<Rightarrow> 'x engine \<Rightarrow> (dispatch_error, proposal_id, 'x engine) outcome" where
  "do_create_personal_lifecycle_proposal env who personal s =
     ensure (is_personal_admin env personal who (ext s)) (VotingEngine NoPermission) s (\<lambda>s.
       do_create_active_personal_proposal env who personal Regular PersonalClose True s)"

definition do_create_personal_admin_change_proposal ::
  "'x env \<Rightarrow> account \<Rightarrow> account \<Rightarrow> u32 \<Rightarrow> u32 \<Rightarrow> 'x engine \<Rightarrow> (dispatch_error, proposal_id, 'x engine) outcome" where
  "do_create_personal_admin_change_proposal env who personal new_admins_len new_threshold s =
     and_then (pure_result (ensure_dynamic_threshold new_admins_len new_threshold) s) (\<lambda>_ s.
     ensure (is_personal_admin env personal who (ext s)) (VotingEngine NoPermission) s (\<lambda>s.
     and_then (do_create_active_personal_proposal env who personal AdminSetMutationExclusive PersonalAdminChange False s) (\<lambda>i s.
       (Inr i, upd_internal (\<lambda>v. v\<lparr>pending_personal_admin_change_thresholds :=
          (pending_personal_admin_change_thresholds v)(i \<mapsto> \<lparr>pac_personal_account_id = personal,
             pac_new_admins_len = new_admins_len, pac_new_threshold = new_threshold\<rparr>)\<rparr>) s))))"

definition do_create_personal_account_create_proposal ::
  "'x env \<Rightarrow> account \<Rightarrow> account \<Rightarrow> account list \<Rightarrow> u32 \<Rightarrow> 'x engine \<Rightarrow> (dispatch_error, proposal_id, 'x engine) outcome" where
  "do_create_personal_account_create_proposal env who personal admins dynamic_threshold s =
     ensure (admins \<noteq> []) (VotingEngine MissingAdminSnapshot) s (\<lambda>s.
     ensure (who \<in> set admins) (VotingEngine NoPermission) s (\<lambda>s.
     ensure (\<not> has_duplicate admins) (VotingEngine InvalidInstitution) s (\<lambda>s.
     let admins_len = length admins mod 2 ^ 32 in
     and_then (pure_result (ensure_dynamic_threshold admins_len dynamic_threshold) s) (\<lambda>_ s.
     ensure (length admins \<le> MaxAdminsPerInstitution (cfg env)) (VotingEngine InvalidInstitution) s (\<lambda>s.
     let p = personal_proposal personal (block_number s) in
     with_transaction (\<lambda>s.
       and_then (allocate_and_lock env p Regular s) (\<lambda>i s.
         let s1 = upd_internal (\<lambda>v. v\<lparr>pending_personal_thresholds := (pending_personal_thresholds v)(i \<mapsto> dynamic_threshold)\<rparr>)
                    (insert_admin_snapshot i (PersonalAccount personal) admins s)
         in finish_proposal_create env i p (p_end p) admins_len PersonalCreate s1)) s)))))"

text \<open>Creation, data and first vote.\<close>

definition create_personal ::
  "'x env \<Rightarrow> account \<Rightarrow> string \<Rightarrow> string \<Rightarrow> ('x engine \<Rightarrow> (dispatch_error, proposal_id, 'x engine) outcome) \<Rightarrow>
   'x engine \<Rightarrow> (dispatch_error, proposal_id, 'x engine) outcome" where
  "create_personal env who tag data create =
     with_transaction (\<lambda>s. and_then (create s) (\<lambda>i s. register_data_and_auto_approve env who i tag data s))"

definition create_personal_proposal_with_data ::
  "'x env \<Rightarrow> account \<Rightarrow> account \<Rightarrow> string \<Rightarrow> string \<Rightarrow> 'x engine \<Rightarrow> (dispatch_error, proposal_id, 'x engine) outcome" where
  "create_personal_proposal_with_data env who personal tag data =
     create_personal env who tag data (do_create_personal_proposal env who personal)"

definition create_personal_lifecycle_proposal_with_data ::
  "'x env \<Rightarrow> account \<Rightarrow> account \<Rightarrow> string \<Rightarrow> string \<Rightarrow> 'x engine \<Rightarrow> (dispatch_error, proposal_id, 'x engine) outcome" where
  "create_personal_lifecycle_proposal_with_data env who personal tag data =
     create_personal env who tag data (do_create_personal_lifecycle_proposal env who personal)"

definition create_personal_account_create_proposal_with_data ::
  "'x env \<Rightarrow> account \<Rightarrow> account \<Rightarrow> account list \<Rightarrow> u32 \<Rightarrow> string \<Rightarrow> string \<Rightarrow> 'x engine \<Rightarrow>
   (dispatch_error, proposal_id, 'x engine) outcome" where
  "create_personal_account_create_proposal_with_data env who personal admins th tag data =
     create_personal env who tag data (do_create_personal_account_create_proposal env who personal admins th)"

definition create_personal_admin_change_proposal_with_data ::
  "'x env \<Rightarrow> account \<Rightarrow> account \<Rightarrow> u32 \<Rightarrow> u32 \<Rightarrow> string \<Rightarrow> string \<Rightarrow> 'x engine \<Rightarrow>
   (dispatch_error, proposal_id, 'x engine) outcome" where
  "create_personal_admin_change_proposal_with_data env who personal n th tag data =
     create_personal env who tag data (do_create_personal_admin_change_proposal env who personal n th)"

definition configured_personal_threshold :: "proposal_id \<Rightarrow> account \<Rightarrow> 'x engine \<Rightarrow> u32 option" where
  "configured_personal_threshold i personal s =
     (case pending_personal_thresholds (internal s) i of
        Some th \<Rightarrow> Some th | None \<Rightarrow> active_personal_thresholds (internal s) personal)"

section \<open>Creation is sound\<close>

text \<open>An id that has been allocated and not yet used.\<close>

definition reserved :: "'x env \<Rightarrow> 'x engine \<Rightarrow> proposal_id \<Rightarrow> 'x engine \<Rightarrow> bool" where
  "reserved env s0 i s \<longleftrightarrow> sound_from env s0 s \<and> next_proposal_id (ids s0) \<le> i \<and>
     i < next_proposal_id (ids s) \<and> i \<notin> doomed (cleanup s)"

lemma reserved_frame [simp]:
  "reserved env s0 i (s\<lparr>snapshots := sn\<rparr>) = reserved env s0 i s"
  "reserved env s0 i (s\<lparr>internal := iv\<rparr>) = reserved env s0 i s"
  "reserved env s0 i (s\<lparr>joint := jv\<rparr>) = reserved env s0 i s"
  "reserved env s0 i (s\<lparr>records := r\<rparr>) = reserved env s0 i s"
  "reserved env s0 i (s\<lparr>legislation := lv\<rparr>) = reserved env s0 i s"
  "reserved env s0 i (s\<lparr>election := el\<rparr>) = reserved env s0 i s"
  by (simp_all add: reserved_def)

lemma sound_allocate:
  assumes s: "sound_from env s0 s" and ok: "allocate_id env s = (Inr i, s')"
  shows "reserved env s0 i s'"
proof -
  from ok obtain d where d: "allocate_proposal_id (unix_now_ms env (ext s)) (ids s) = (Inr i, d)" "s' = s\<lparr>ids := d\<rparr>"
    by (auto simp: allocate_id_def)
  from allocate_proposal_id_ok [OF d(1)] have n: "i = next_proposal_id (ids s)" "next_proposal_id d = Suc i" by metis+
  from s have inv: "engine_inv env s" and ev: "evolves s0 s" by (simp_all add: sound_from_def)
  have "engine_inv env s'" using inv n by (auto simp: d(2) engine_inv_def less_Suc_eq)
  moreover have "evolves s0 s'" using ev n by (auto simp: evolves_def d(2))
  moreover have "i \<notin> doomed (cleanup s)" using inv n by (auto simp: engine_inv_def)
  moreover have "next_proposal_id (ids s0) \<le> i" using ev n by (simp add: evolves_def)
  ultimately show ?thesis using n by (simp add: reserved_def sound_from_def d(2))
qed

lemma reserved_insert:
  assumes "reserved env s0 i s"
  shows "sound_from env s0 (s\<lparr>proposals := (proposals s)(i \<mapsto> p)\<rparr>)"
proof -
  from assms have inv: "engine_inv env s" and ev: "evolves s0 s" and i: "next_proposal_id (ids s0) \<le> i"
    "i < next_proposal_id (ids s)" "i \<notin> doomed (cleanup s)" by (simp_all add: reserved_def sound_from_def)
  let ?s = "s\<lparr>proposals := (proposals s)(i \<mapsto> p)\<rparr>"
  have "settled ?s j" if "j \<in> doomed (cleanup s)" for j
    using inv that i(3) by (auto simp: engine_inv_def settled_def)
  then have "engine_inv env ?s" using inv i(2) by (auto simp: engine_inv_def)
  moreover have "evolves s0 ?s" using ev i(1) by (auto simp: evolves_def)
  ultimately show ?thesis by (simp add: sound_from_def)
qed

lemma reserved_locks:
  "reserved env s0 i s \<Longrightarrow> lock_inv (MaxActiveProposals (cfg env)) l \<Longrightarrow> reserved env s0 i (s\<lparr>locks := l\<rparr>)"
  by (simp add: reserved_def sound_from_locks)

lemma reserved_lock_inv: "reserved env s0 i s \<Longrightarrow> lock_inv (MaxActiveProposals (cfg env)) (locks s)"
  unfolding reserved_def by (blast intro: sound_from_lock_inv)

lemma on_ok_add_active: "reserved env s0 i s \<Longrightarrow> on_ok (reserved env s0 i) (add_active env sjs j s)"
  unfolding add_active_def
  by (rule on_ok_zoom, rule on_ok_mono [OF on_ok_keeps [OF lock_inv_add_actives [OF reserved_lock_inv]]])
     (auto intro: reserved_locks)

lemma on_ok_acquire_all: "reserved env s0 i s \<Longrightarrow> on_ok (reserved env s0 i) (acquire_all env j k sjs s)"
proof (induction sjs arbitrary: s)
  case (Cons sj sjs)
  have "on_ok (reserved env s0 i) (zoom VotingEngine (\<lambda>l s. s\<lparr>locks := l\<rparr>)
      (acquire_internal_proposal_mutex (MaxInternalProposalMutexBindings (cfg env)) j sj k (locks s)) s)"
    using Cons.prems lock_inv_acquire [OF reserved_lock_inv [OF Cons.prems]]
    by (intro on_ok_zoom) (auto simp: on_ok_def intro: reserved_locks)
  then show ?case using Cons.IH by (auto intro: on_ok_and_then)
qed simp

lemma reserved_allocate_and_lock:
  assumes "sound_from env s0 s" "allocate_and_lock env p mk s = (Inr i, t)"
  shows "reserved env s0 i t"
proof -
  from assms(2) obtain s1 s2 where a: "allocate_id env s = (Inr i, s1)" "add_active env (subject_keys p) i s1 = (Inr (), s2)"
    "acquire_all env i mk (subject_keys p) s2 = (Inr (), t)"
    by (auto simp: allocate_and_lock_def)
  show ?thesis
    using on_okD [OF on_ok_acquire_all [OF on_okD [OF on_ok_add_active [OF sound_allocate [OF assms(1) a(1)]] a(2)]] a(3)] .
qed

lemma sound_schedule_expiry: "sound_from env s0 s \<Longrightarrow> keeps (sound_from env s0) (schedule_proposal_expiry env' i b s)"
  by (simp add: schedule_proposal_expiry_def sound_push_expiry)

lemma sound_finish_create:
  assumes "reserved env s0 i s"
  shows "on_ok (sound_from env s0) (finish_proposal_create env i p e th role s)"
  unfolding finish_proposal_create_def Let_def
  by (rule on_ok_and_then [OF on_ok_keeps [OF sound_schedule_expiry [OF reserved_insert]]])
     (simp_all add: assms emit_proposal_created_def)

lemma reserved_snapshot_roles:
  "reserved env s0 i s \<Longrightarrow> keeps (reserved env s0 i) (snapshot_role_voters env' j sj vs s)"
  by (auto simp: snapshot_role_voters_def Let_def ensure_def ok_or_def
      split: authorization_subject.split sum.split option.split)

lemma reserved_snapshot_all:
  "reserved env s0 i s \<Longrightarrow> keeps (reserved env s0 i) (snapshot_all_roles env' j sjs s)"
proof (induction sjs arbitrary: s)
  case (Cons sj sjs)
  then show ?case
    by (auto simp: Let_def split: authorization_subject.split
        intro!: keeps_and_then reserved_snapshot_roles)
qed simp

lemma reserved_snapshot_personal:
  "reserved env s0 i s \<Longrightarrow> keeps (reserved env s0 i) (snapshot_personal_admins env' j a b s)"
  by (auto simp: snapshot_personal_admins_def write_admin_snapshot_def insert_admin_snapshot_def ok_or_def
      split: option.split sum.split)

lemma create_institution_ok:
  assumes "do_create_institution_proposal_with_mutex env who code cid exec cids mk role plan s = (Inr i, s')"
  obtains cs s1 s2 n th where "bound_subject_cid_numbers cids = Inr cs"
    "ensure_institution_vote_plan env cid who plan s = Inr ()"
    "allocate_and_lock env (institution_proposal code cid exec cs (block_number s)) mk s = (Inr i, s1)"
    "snapshot_all_roles env i (vp_voter_subjects plan) s1 = (Inr (), s2)"
    "institution_ticket_count i cid s2 = Some n" "institution_threshold env code cid (ext s2) = Some th"
    "ensure_dynamic_threshold n th = Inr ()"
    "finish_proposal_create env i (institution_proposal code cid exec cs (block_number s))
       (bn_add (block_number s) internal_stage_duration) th role s2 = (Inr i, s')"
  using assms
  by (auto simp: do_create_institution_proposal_with_mutex_def Let_def pure_result_def institution_proposal_def
      finish_proposal_create_def split: sum.splits)

lemma create_active_personal_ok:
  assumes "do_create_active_personal_proposal env who personal mk role fa s = (Inr i, s')"
  obtains s1 s2 n th where
    "allocate_and_lock env (personal_proposal personal (block_number s)) mk s = (Inr i, s1)"
    "snapshot_personal_admins env i personal False s1 = (Inr (), s2)"
    "is_admin_in_snapshot i (PersonalAccount personal) who s2"
    "snapshot_admins_len i (PersonalAccount personal) s2 = Some n"
    "if fa then th = n \<and> 0 < n else active_personal_thresholds (internal s2) personal = Some th \<and> ensure_dynamic_threshold n th = Inr ()"
    "finish_proposal_create env i (personal_proposal personal (block_number s))
       (bn_add (block_number s) internal_stage_duration) th role s2 = (Inr i, s')"
proof -
  let ?p = "personal_proposal personal (block_number s)"
  from assms obtain s1 s2 n th where
    a: "allocate_and_lock env ?p mk s = (Inr i, s1)" "snapshot_personal_admins env i personal False s1 = (Inr (), s2)"
    "is_admin_in_snapshot i (PersonalAccount personal) who s2"
    and n: "snapshot_admins_len_or_missing i (PersonalAccount personal) s2 = Inr n"
    and th: "(if fa then Some n else active_personal_thresholds (internal s2) personal) = Some th"
      "(if fa then ensure_all_admin_threshold n th else ensure_dynamic_threshold n th) = Inr ()"
    and f: "finish_proposal_create env i ?p (p_end ?p) th role s2 = (Inr i, s')"
    by (auto simp: do_create_active_personal_proposal_def Let_def pure_result_def finish_proposal_create_def)
  have "snapshot_admins_len i (PersonalAccount personal) s2 = Some n"
    using n by (simp add: snapshot_admins_len_or_missing_def split: option.splits)
  moreover have "if fa then th = n \<and> 0 < n
      else active_personal_thresholds (internal s2) personal = Some th \<and> ensure_dynamic_threshold n th = Inr ()"
    using th by (auto simp: ensure_all_admin_threshold_def split: if_splits)
  moreover have "p_end ?p = bn_add (block_number s) internal_stage_duration" by (simp add: personal_proposal_def)
  ultimately show ?thesis using a f by (intro that) simp_all
qed

lemma sound_create_institution:
  assumes "sound_from env s0 s"
    and "do_create_institution_proposal_with_mutex env who code cid exec cids mk role plan s = (Inr i, s')"
  shows "sound_from env s0 s'"
  using assms(2)
proof (rule create_institution_ok)
  fix cs s1 s2 n th
  assume a: "allocate_and_lock env (institution_proposal code cid exec cs (block_number s)) mk s = (Inr i, s1)"
    "snapshot_all_roles env i (vp_voter_subjects plan) s1 = (Inr (), s2)"
    "finish_proposal_create env i (institution_proposal code cid exec cs (block_number s))
       (bn_add (block_number s) internal_stage_duration) th role s2 = (Inr i, s')"
  have "reserved env s0 i s2"
    using reserved_snapshot_all [OF reserved_allocate_and_lock [OF assms(1) a(1)], of env i] a(2) by (metis keeps_pair)
  from on_okD [OF sound_finish_create [OF this] a(3)] show ?thesis .
qed

lemma sound_create_active_personal:
  assumes "sound_from env s0 s" "do_create_active_personal_proposal env who personal mk role fa s = (Inr i, s')"
  shows "sound_from env s0 s'"
  using assms(2)
proof (rule create_active_personal_ok)
  fix s1 s2 n th
  assume a: "allocate_and_lock env (personal_proposal personal (block_number s)) mk s = (Inr i, s1)"
    "snapshot_personal_admins env i personal False s1 = (Inr (), s2)"
    "finish_proposal_create env i (personal_proposal personal (block_number s))
       (bn_add (block_number s) internal_stage_duration) th role s2 = (Inr i, s')"
  have "reserved env s0 i s2"
    using reserved_snapshot_personal [OF reserved_allocate_and_lock [OF assms(1) a(1)], of env i] a(2) by (metis keeps_pair)
  from on_okD [OF sound_finish_create [OF this] a(3)] show ?thesis .
qed

lemma sound_create_personal_account:
  assumes "sound_from env s0 s" "do_create_personal_account_create_proposal env who personal admins th s = (Inr i, s')"
  shows "sound_from env s0 s'"
proof -
  from assms(2) obtain s1 s2 where a: "allocate_and_lock env (personal_proposal personal (block_number s)) Regular s = (Inr i, s1)"
    and s2: "s2 = upd_internal (\<lambda>v. v\<lparr>pending_personal_thresholds := (pending_personal_thresholds v)(i \<mapsto> th)\<rparr>)
                    (insert_admin_snapshot i (PersonalAccount personal) admins s1)"
    and f: "finish_proposal_create env i (personal_proposal personal (block_number s))
       (bn_add (block_number s) internal_stage_duration) (length admins mod 2 ^ 32) PersonalCreate s2 = (Inr i, s')"
    by (auto simp: do_create_personal_account_create_proposal_def Let_def pure_result_def personal_proposal_def
        finish_proposal_create_def)
  have "reserved env s0 i s2"
    using reserved_allocate_and_lock [OF assms(1) a] by (simp add: s2 insert_admin_snapshot_def)
  from on_okD [OF sound_finish_create [OF this] f] show ?thesis .
qed

lemma sound_register_data:
  assumes "sound_from env s0 s" shows "keeps (sound_from env s0) (register_proposal_data env' i tag data b s)"
  using assms by (auto simp: register_proposal_data_def Let_def ensure_def ok_or_def and_then_def pure_result_def
      split: sum.split option.split)

lemma sound_register_and_approve:
  assumes tf: "tracks_framed env" and s: "sound_from env s0 s"
  shows "keeps (sound_from env s0) (register_data_and_auto_approve env who i tag data s)"
  unfolding register_data_and_auto_approve_def
  by (intro keeps_and_then keeps_ok_or sound_register_data s)
     (auto intro!: keeps_and_then keeps_ok_or sound_internal_vote [OF tf]
        split: authorization_subject.split option.split)

lemma sound_bind_plan:
  "sound_from env s0 s \<Longrightarrow> keeps (sound_from env s0) (bind_vote_plan i plan s)"
  by (simp add: bind_vote_plan_def ensure_def)

lemma sound_create_with_plan:
  assumes "tracks_framed env" "sound_from env s0 s" "\<And>i t. create s = (Inr i, t) \<Longrightarrow> sound_from env s0 t"
  shows "keeps (sound_from env s0) (create_with_plan env who plan data create s)"
  unfolding create_with_plan_def
  by (rule keeps_transaction_on_ok [where P = "sound_from env s0"], rule assms(2), rule on_ok_ensure,
      rule on_ok_and_then [where Q = "sound_from env s0"])
     (auto simp: on_ok_def [of "sound_from env s0" "create s"] assms(3)
        intro!: on_ok_and_then [OF on_ok_keeps [OF sound_bind_plan]]
          on_ok_keeps [OF sound_register_and_approve [OF assms(1)]])

lemma sound_create_personal:
  assumes "tracks_framed env" "sound_from env s0 s" "\<And>i t. create s = (Inr i, t) \<Longrightarrow> sound_from env s0 t"
  shows "keeps (sound_from env s0) (create_personal env who tag data create s)"
  unfolding create_personal_def
  by (rule keeps_transaction_on_ok [where P = "sound_from env s0"], rule assms(2),
      rule on_ok_and_then [where Q = "sound_from env s0"])
     (auto simp: on_ok_def [of "sound_from env s0" "create s"] assms(3)
        intro!: on_ok_keeps [OF sound_register_and_approve [OF assms(1)]])

lemma sound_creates:
  assumes "tracks_framed env" "sound_from env s0 s"
  shows "keeps (sound_from env s0) (create_institution_proposal_with_data env who code cid exec cids plan data s)"
    and "keeps (sound_from env s0) (create_institution_admin_change_proposal_with_data env who code cid plan data s)"
    and "keeps (sound_from env s0) (create_personal_proposal_with_data env who a tag data s)"
    and "keeps (sound_from env s0) (create_personal_lifecycle_proposal_with_data env who a tag data s)"
    and "keeps (sound_from env s0) (create_personal_account_create_proposal_with_data env who a admins th tag data s)"
    and "keeps (sound_from env s0) (create_personal_admin_change_proposal_with_data env who a n th tag data s)"
  unfolding create_institution_proposal_with_data_def create_institution_admin_change_proposal_with_data_def
    create_personal_proposal_with_data_def create_personal_lifecycle_proposal_with_data_def
    create_personal_account_create_proposal_with_data_def create_personal_admin_change_proposal_with_data_def
  by (auto intro!: sound_create_with_plan [OF assms] sound_create_personal [OF assms]
      intro: sound_create_institution [OF assms(2)] sound_create_active_personal [OF assms(2)]
        sound_create_personal_account [OF assms(2)]
      simp: do_create_institution_proposal_def do_create_personal_proposal_def pure_result_def
        do_create_personal_lifecycle_proposal_def do_create_personal_admin_change_proposal_def)
     (rule sound_create_active_personal [OF assms(2)])

section \<open>What creation establishes\<close>

lemma snapshot_roles_frame:
  "snapshot_all_roles env i sjs s = (r, t) \<Longrightarrow> \<exists>sn. t = s\<lparr>snapshots := sn\<rparr>"
proof (induction sjs arbitrary: s)
  case Nil
  then show ?case by (intro exI [of _ "snapshots s"]) simp
next
  case (Cons sj sjs)
  show ?case
  proof (cases sj)
    case (PersonalMultisig a)
    with Cons.prems show ?thesis by (intro exI [of _ "snapshots s"]) simp
  next
    case (Institution rs)
    let ?v = "active_accounts_for_role env (rs_cid_number rs) (rs_role_code rs) (ext s)"
    have one: "\<exists>sn. u = s\<lparr>snapshots := sn\<rparr>" if "snapshot_role_voters env i sj ?v s = (q, u)" for q u
    proof -
      have "u = s \<or> (\<exists>sn. u = s\<lparr>snapshots := sn\<rparr>)"
        using that by (auto simp: snapshot_role_voters_def Let_def ensure_def ok_or_def
            split: authorization_subject.splits sum.splits option.splits if_splits)
      moreover have "s = s\<lparr>snapshots := snapshots s\<rparr>" by simp
      ultimately show ?thesis by blast
    qed
    show ?thesis
    proof (cases "snapshot_role_voters env i sj ?v s" rule: outcome_cases)
      case (err e u)
      with Cons.prems Institution have "t = u" by (simp add: Let_def)
      with one [OF err] show ?thesis by simp
    next
      case (ok a u)
      with Cons.prems Institution have "snapshot_all_roles env i sjs u = (r, t)" by (simp add: Let_def)
      from Cons.IH [OF this] one [OF ok] show ?thesis by auto
    qed
  qed
qed

text \<open>The counts of frozen seats stay within 32 bits.\<close>

definition counts_fit :: "proposal_id \<Rightarrow> 'x engine \<Rightarrow> bool" where
  "counts_fit i s \<longleftrightarrow> (\<forall>c n. institution_ticket_count i c s = Some n \<longrightarrow> n < 2 ^ 32)"

lemma counts_fit_all:
  "counts_fit i s \<Longrightarrow> snapshot_all_roles env i sjs s = (Inr (), t) \<Longrightarrow> counts_fit i t"
proof (induction sjs arbitrary: s)
  case (Cons sj sjs)
  then obtain rs u where u: "snapshot_role_voters env i (Institution rs)
      (active_accounts_for_role env (rs_cid_number rs) (rs_role_code rs) (ext s)) s = (Inr (), u)"
    "snapshot_all_roles env i sjs u = (Inr (), t)"
    by (auto simp: Let_def split: authorization_subject.splits)
  from u(1) Cons.prems(1) have "counts_fit i u"
    by (auto simp: snapshot_role_voters_def Let_def counts_fit_def institution_ticket_count_def
        split: sum.splits if_splits)
  from Cons.IH [OF this u(2)] show ?case .
qed simp

lemma allocate_and_lock_effect:
  assumes "allocate_and_lock env p mk s = (Inr i, t)" "subject_keys p = [sj]"
  shows "i = next_proposal_id (ids s) \<and> (\<exists>d l. t = s\<lparr>ids := d, locks := l\<rparr>) \<and>
     i \<in> set (active_proposals_by_subject (locks t) sj) \<and>
     \<lparr>mb_subject = sj, mb_kind = mk\<rparr> \<in> set (proposal_mutex_bindings (locks t) i)"
proof -
  from assms obtain d l m where d: "allocate_proposal_id (unix_now_ms env (ext s)) (ids s) = (Inr i, d)"
    and l: "try_add_active_proposal (MaxActiveProposals (cfg env)) sj i (locks s) = (Inr (), l)"
    and m: "acquire_internal_proposal_mutex (MaxInternalProposalMutexBindings (cfg env)) i sj mk l = (Inr (), m)"
    and t: "t = s\<lparr>ids := d, locks := m\<rparr>"
    by (auto simp: allocate_and_lock_def allocate_id_def add_active_def)
  from d have "i = next_proposal_id (ids s)" by (rule allocate_proposal_id_ok)
  moreover from l have "i \<in> set (active_proposals_by_subject l sj)"
    by (auto simp: try_add_active_proposal_def Let_def)
  moreover from m have "active_proposals_by_subject m = active_proposals_by_subject l"
    "\<lparr>mb_subject = sj, mb_kind = mk\<rparr> \<in> set (proposal_mutex_bindings m i)"
    by (auto simp: acquire_internal_proposal_mutex_def Let_def split: sum.splits)
  ultimately show ?thesis unfolding t by auto
qed

lemma dynamic_threshold_majority:
  "ensure_dynamic_threshold n th = Inr () \<Longrightarrow> 0 < th \<and> th \<le> n \<and> n < 2 * th"
  by (auto simp: ensure_dynamic_threshold_def sat_mul_def split: if_splits)

lemma finish_create_effect:
  assumes "finish_proposal_create env i p e th role s = (Inr j, s')"
  shows "j = i \<and> proposals s' = (proposals s)(i \<mapsto> p) \<and> i \<in> set (proposals_by_expiry s' (bn_add e 1)) \<and>
     snapshots s' = snapshots s \<and> locks s' = locks s \<and> records s' = records s \<and>
     internal s' = (internal s)\<lparr>internal_threshold_snapshot := (internal_threshold_snapshot (internal s))(i \<mapsto> th),
       internal_proposal_roles := (internal_proposal_roles (internal s))(i \<mapsto> role)\<rparr>"
  using assms by (auto simp: finish_proposal_create_def Let_def schedule_proposal_expiry_def push_expiry_def
      emit_proposal_created_def deposit_event_def)

text \<open>Nothing is stored under an id that has not been allocated.\<close>

definition blank :: "proposal_id \<Rightarrow> 'x engine \<Rightarrow> bool" where
  "blank i s \<longleftrightarrow> admin_snapshot (snapshots s) i = [] \<and> voter_snapshot (snapshots s) i = [] \<and>
     institution_ticket_count_snapshot (snapshots s) i = [] \<and>
     internal_votes_by_ticket (internal s) i = [] \<and> internal_tallies (internal s) i = vote_count_default"

text \<open>
  C23. A created institution proposal is ready to be voted on: it gets the next id; it is open,
  owned by its institution and ends 7200 blocks (30 days) after the current one; its electorate
  is frozen and non-empty, with the number of tickets equal to the seats of its roles; its
  threshold is a strict majority of them; it has no ballots; it holds the active slot and the
  requested mutex of its institution, and it is filed for automatic finalisation in the block
  after its end.
\<close>

theorem institution_proposal_created:
  assumes "do_create_institution_proposal_with_mutex env who code cid exec cids mk role plan s = (Inr i, s')"
    and "blank (next_proposal_id (ids s)) s"
  shows "i = next_proposal_id (ids s) \<and>
    (\<exists>cs n th p. p = institution_proposal code cid exec cs (block_number s) \<and>
       proposals s' = (proposals s)(i \<mapsto> p) \<and> p_end p = bn_add (block_number s) 7200 \<and>
       internal_ledger p i n th s' \<and> internal_votes_by_ticket (internal s') i = [] \<and>
       0 < th \<and> th \<le> n \<and> n < 2 * th \<and>
       i \<in> set (proposals_by_expiry s' (bn_add (p_end p) 1)) \<and>
       i \<in> set (active_proposals_by_subject (locks s') (InstitutionCid cid)) \<and>
       \<lparr>mb_subject = InstitutionCid cid, mb_kind = mk\<rparr> \<in> set (proposal_mutex_bindings (locks s') i))"
  using assms(1)
proof (rule create_institution_ok)
  fix cs s1 s2 n th
  let ?p = "institution_proposal code cid exec cs (block_number s)"
  assume a: "allocate_and_lock env ?p mk s = (Inr i, s1)"
    and v: "snapshot_all_roles env i (vp_voter_subjects plan) s1 = (Inr (), s2)"
    and n: "institution_ticket_count i cid s2 = Some n" and th: "ensure_dynamic_threshold n th = Inr ()"
    and f: "finish_proposal_create env i ?p (bn_add (block_number s) internal_stage_duration) th role s2 = (Inr i, s')"
  have "subject_keys ?p = [InstitutionCid cid]" by (simp add: subject_keys_def institution_proposal_def)
  from allocate_and_lock_effect [OF a this] obtain d l where al: "i = next_proposal_id (ids s)"
    "s1 = s\<lparr>ids := d, locks := l\<rparr>" "i \<in> set (active_proposals_by_subject (locks s1) (InstitutionCid cid))"
    "\<lparr>mb_subject = InstitutionCid cid, mb_kind = mk\<rparr> \<in> set (proposal_mutex_bindings (locks s1) i)" by blast
  have blank1: "blank i s1" unfolding al(2) using assms(2) al(1) by (simp add: blank_def)
  then have "tickets_exact i s1" "counts_fit i s1"
    by (simp_all add: blank_def tickets_exact_def institution_ticket_count_def seats_def counts_fit_def)
  then have te: "tickets_exact i s2" and fit: "n < 2 ^ 32"
    using tickets_exact_all [OF _ v] counts_fit_all [OF _ v] n by (auto simp: counts_fit_def)
  obtain sn where fr: "s2 = s1\<lparr>snapshots := sn\<rparr>" using snapshot_roles_frame [OF v] by blast
  note fe = finish_create_effect [OF f]
  have el: "internal_eligible_total ?p i s2 = Some n" by (simp add: internal_eligible_total_def institution_proposal_def n)
  have seats: "length (internal_seats ?p i s') = n" "internal_eligible_total ?p i s' = Some n"
    using internal_seats_count [OF te el] el internal_seats_cong [of s' s2 ?p i] fe by simp_all
  have i2: "internal s2 = internal s" "locks s2 = locks s1" "proposals s2 = proposals s"
    by (simp_all add: fr al(2))
  have led: "internal_ledger ?p i n th s'" "internal_votes_by_ticket (internal s') i = []"
    using seats fe i2 fit assms(2) al(1)
    by (simp_all add: internal_ledger_def blank_def institution_proposal_def)
  have dur: "internal_stage_duration = 7200"
    by (simp add: internal_stage_duration_def sat_into_def max_of_def VOTING_DURATION_BLOCKS_def BLOCKS_PER_DAY_def
        VOTING_DURATION_DAYS_def)
  have pe: "p_end ?p = bn_add (block_number s) 7200" by (simp add: institution_proposal_def dur)
  show ?thesis
    using al i2 fe led pe dur dynamic_threshold_majority [OF th]
    by (intro conjI exI [of _ ?p] exI [of _ cs] exI [of _ n] exI [of _ th]) simp_all
qed

text \<open>The national reserve committee proposes, with three seats and threshold three.\<close>

definition nrc_cid :: cid_number where "nrc_cid = ''LN001-NRC0G-944805165-2026''"

definition nrc_role :: authorization_subject where
  "nrc_role = Institution \<lparr>rs_cid_number = nrc_cid, rs_role_code = ''a''\<rparr>"

definition nrc_plan :: vote_plan where
  "nrc_plan = sample_plan\<lparr>vp_proposer_subject := nrc_role, vp_voter_subjects := [nrc_role]\<rparr>"

lemma nrc_context: "is_valid_governance_code NRC" "\<not> is_personal_code NRC" "is_valid_institution_context NRC nrc_cid"
  "length nrc_cid \<le> CID_NUMBER_MAX_BYTES"
  by code_simp+

lemma nrc_year: "unix_seconds_to_year 0 = Inr 1970"
  by (simp add: unix_seconds_to_year_def year_loop.simps days_in_year_def is_leap_year_def
      try_into_def checked_mul_def checked_add_def)

lemma nrc_create_runs:
  "\<exists>s'. do_create_institution_proposal_with_mutex internal_env 1 NRC nrc_cid None [] Regular General nrc_plan
     (engine_genesis ()) = (Inr 0, s')"
  using nrc_context nrc_year
  by (simp add: do_create_institution_proposal_with_mutex_def nrc_plan_def sample_plan_def nrc_role_def
      ensure_institution_vote_plan_def pure_result_def bound_subject_cid_numbers_def internal_env_def test_env_def
      with_transaction_def allocate_and_lock_def allocate_id_def add_active_def engine_genesis_def id_storage_genesis_def
      allocate_proposal_id_def try_into_def checked_add_def Let_def subject_keys_def institution_proposal_def
      try_add_active_proposal_def try_push_def lock_storage_genesis_def acquire_internal_proposal_mutex_def
      acquire_state_def mutex_at_def mutex_state_default_def snapshot_role_voters_def ensure_valid_voter_snapshot_def
      kv_contains_def kv_insert_def institution_ticket_count_def ensure_dynamic_threshold_def sat_mul_def max_of_def
      finish_proposal_create_def schedule_proposal_expiry_def push_expiry_def)

theorem institution_proposal_created_witness:
  "\<exists>s' n th p. do_create_institution_proposal_with_mutex internal_env 1 NRC nrc_cid None [] Regular General nrc_plan
       (engine_genesis ()) = (Inr 0, s') \<and> proposals s' 0 = Some p \<and> internal_ledger p 0 n th s' \<and> n < 2 * th"
proof -
  obtain s' where s': "do_create_institution_proposal_with_mutex internal_env 1 NRC nrc_cid None [] Regular General
      nrc_plan (engine_genesis ()) = (Inr 0, s')" using nrc_create_runs by blast
  have "blank (next_proposal_id (ids (engine_genesis ()))) (engine_genesis ())"
    by (simp add: blank_def engine_genesis_def)
  with institution_proposal_created [OF s'] have "\<exists>n th p. proposals s' 0 = Some p \<and> internal_ledger p 0 n th s' \<and> n < 2 * th"
    by force
  with s' show ?thesis by blast
qed

end
