(* ===== verification/Reserve_Institutions.thy ===== *)
theory Reserve_Institutions
  imports Voting_Types
begin

text \<open>
  The reserve institutions fixed at genesis (\<^verbatim>\<open>primitives/cid/china/china_cb.rs\<close> and
  \<^verbatim>\<open>china_ch.rs\<close>): the national committee and the 43 provincial committees by their CID, the 43
  provincial banks by CID, citizens and stake; and their weights in the joint vote
  (\<^verbatim>\<open>primitives/src/count_const.rs\<close>, \<^verbatim>\<open>joint-vote/src/lib.rs\<close>).
\<close>

section \<open>The constants\<close>

definition CHINA_CB :: "cid_number list" where
  "CHINA_CB =
   [''LN001-NRC0G-944805165-2026'', ''ZS001-PRC0E-016974075-2026'', ''LN001-PRC05-773405642-2026'',
    ''GD001-PRC0V-067440774-2026'', ''GX001-PRC0C-663454043-2026'', ''FJ001-PRC0I-389570546-2026'',
    ''HN001-PRC0S-545676096-2026'', ''YN001-PRC0W-145427171-2026'', ''GZ001-PRC02-969970096-2026'',
    ''HU001-PRC0P-400319700-2026'', ''JX001-PRC0J-458681566-2026'', ''ZJ001-PRC08-471270801-2026'',
    ''JS001-PRC0O-358467174-2026'', ''SD001-PRC07-027328848-2026'', ''SX001-PRC0O-104465679-2026'',
    ''HE001-PRC0S-849245626-2026'', ''HB001-PRC0W-499533387-2026'', ''HI001-PRC0D-659443961-2026'',
    ''SI001-PRC0T-711309909-2026'', ''CQ001-PRC06-478472058-2026'', ''SC001-PRC0Y-935659021-2026'',
    ''GS001-PRC0L-679051155-2026'', ''BP001-PRC0R-189323546-2026'', ''HA001-PRC0Y-214178517-2026'',
    ''SJ001-PRC09-044490898-2026'', ''LJ001-PRC08-279890045-2026'', ''JL001-PRC05-850461124-2026'',
    ''LI001-PRC0T-978545133-2026'', ''NX001-PRC0J-389752794-2026'', ''QH001-PRC0C-882026762-2026'',
    ''AH001-PRC00-589856828-2026'', ''TW001-PRC07-265218823-2026'', ''XZ001-PRC02-435616961-2026'',
    ''XJ001-PRC02-671044381-2026'', ''XK001-PRC0P-695945392-2026'', ''AL001-PRC0D-487847725-2026'',
    ''CL001-PRC0J-771698743-2026'', ''YL001-PRC0Q-293160581-2026'', ''HX001-PRC0D-475713213-2026'',
    ''KL001-PRC0O-091969119-2026'', ''HT001-PRC00-481172908-2026'', ''RH001-PRC0F-697831866-2026'',
    ''XA001-PRC0H-384161601-2026'', ''HJ001-PRC0V-963948997-2026'']"

record china_ch =
  ch_cid_number :: cid_number
  citizens_number :: u64
  stake_amount :: u128
  main_account :: account

definition CHINA_CH :: "china_ch list" where
  "CHINA_CH =
   [\<lparr>ch_cid_number = ''ZS001-PRB08-233384677-2026'', citizens_number = 10913902, stake_amount = 109139020000,
     main_account = 0xaf881a7feb5ea6653fcfc1e801308b4cc0aeedf85bd0674c992830a4e2ccfc46\<rparr>,
    \<lparr>ch_cid_number = ''LN001-PRB0K-703127075-2026'', citizens_number = 28157064, stake_amount = 281570640000,
     main_account = 0x86f1e88c787286ab371cef9ca4ada192f6d98e950cba5586de3280a0ad748c33\<rparr>,
    \<lparr>ch_cid_number = ''GD001-PRB0T-239565809-2026'', citizens_number = 106012864, stake_amount = 1060128640000,
     main_account = 0x46fb2dfc71054c9d5187772dd69f4097636454a679a14c73ff20409c000de1c8\<rparr>,
    \<lparr>ch_cid_number = ''GX001-PRB01-025559630-2026'', citizens_number = 50126804, stake_amount = 501268040000,
     main_account = 0xaece89d4edcbc584933fc22f306dd855de67fbeb9bd13223bc7c9c4d8be490f8\<rparr>,
    \<lparr>ch_cid_number = ''FJ001-PRB0V-504679612-2026'', citizens_number = 41540086, stake_amount = 415400860000,
     main_account = 0x329e53e43c1a68a6a31aa88705c576963e4ff230abbcea9a09be369f60af599e\<rparr>,
    \<lparr>ch_cid_number = ''HN001-PRB0P-723623074-2026'', citizens_number = 10081232, stake_amount = 100812320000,
     main_account = 0xe5fbc89f5366aeb575380066fc4df33f3938d1376087108787f2549cbec4a779\<rparr>,
    \<lparr>ch_cid_number = ''YN001-PRB08-692525950-2026'', citizens_number = 46821766, stake_amount = 468217660000,
     main_account = 0x5b2b6206e34cd3e0540b90fe44818c52ed4361e3425186889c29f186574b55aa\<rparr>,
    \<lparr>ch_cid_number = ''GZ001-PRB00-490015860-2026'', citizens_number = 38562148, stake_amount = 385621480000,
     main_account = 0x155dcbfa1fe28f6a085db3373c5a30e2bfb796713feb8e624d4e63d229f8e079\<rparr>,
    \<lparr>ch_cid_number = ''HU001-PRB0F-084835673-2026'', citizens_number = 66444864, stake_amount = 664448640000,
     main_account = 0xd6b3115e4b1aae55f1c3601a7b0612c304b8d9699cc7a9993fd182382e77ad0c\<rparr>,
    \<lparr>ch_cid_number = ''JX001-PRB09-243765987-2026'', citizens_number = 45188635, stake_amount = 451886350000,
     main_account = 0xde3584a03bd971117b22a746b5ce1dcea73828d76e079882bd6e0b54db126bca\<rparr>,
    \<lparr>ch_cid_number = ''ZJ001-PRB0R-296232973-2026'', citizens_number = 64567588, stake_amount = 645675880000,
     main_account = 0x4b05f4fd4e07fe55084d26a64ca7fa787681e5130dd02344851d5f1ea93e95e0\<rparr>,
    \<lparr>ch_cid_number = ''JS001-PRB01-890774605-2026'', citizens_number = 84748016, stake_amount = 847480160000,
     main_account = 0x3f75ec35139fe076e006ebc8c0352dfbba3d1a7d484a0ff33a3984426932dd4e\<rparr>,
    \<lparr>ch_cid_number = ''SD001-PRB0G-114256751-2026'', citizens_number = 101527453, stake_amount = 1015274530000,
     main_account = 0x85f850faf1f4ace6c3169a61fbe129e2486878dae1d6380a698c2a0fcd70a564\<rparr>,
    \<lparr>ch_cid_number = ''SX001-PRB0K-520132196-2026'', citizens_number = 34915616, stake_amount = 349156160000,
     main_account = 0x7cb015e5de047a799f66b33bef38f2ec28505d87ffa083e741dd498677cdf5d2\<rparr>,
    \<lparr>ch_cid_number = ''HE001-PRB03-158889343-2026'', citizens_number = 99365519, stake_amount = 993655190000,
     main_account = 0x6efbdece0985faa711ad64f07bcce5e706bac2d127aedf413f8c8f577441d397\<rparr>,
    \<lparr>ch_cid_number = ''HB001-PRB0Z-484022741-2026'', citizens_number = 56282021, stake_amount = 562820210000,
     main_account = 0x8794b9837ea3ea84b68af195ff5815bf260fc8f085dd8eec0646d3dd17a3eac4\<rparr>,
    \<lparr>ch_cid_number = ''HI001-PRB0V-514948302-2026'', citizens_number = 54543553, stake_amount = 545435530000,
     main_account = 0x0405200fc6a67d2b4a5b1602ccc55009bfa0148c7f4d7e4552a7ec6b8c561f96\<rparr>,
    \<lparr>ch_cid_number = ''SI001-PRB0N-245618374-2026'', citizens_number = 33824101, stake_amount = 338241010000,
     main_account = 0xd3d8e94d9dc2eb0457ebb871d551e46ba749cdfaae97e295ca20356add922fda\<rparr>,
    \<lparr>ch_cid_number = ''CQ001-PRB0C-694162045-2026'', citizens_number = 32054159, stake_amount = 320541590000,
     main_account = 0x8e7397e21e3c7d345b68fbeb3e479936bec8f697cb83cf90b81382d6ac5f7cab\<rparr>,
    \<lparr>ch_cid_number = ''SC001-PRB0Q-764253139-2026'', citizens_number = 80310245, stake_amount = 803102450000,
     main_account = 0x445832e057237b6c0ca00d9ed474e9fc01d28e3f6f4c7d8cc7c4a3d61785ae69\<rparr>,
    \<lparr>ch_cid_number = ''GS001-PRB08-005784877-2026'', citizens_number = 20617465, stake_amount = 206174650000,
     main_account = 0xd36f42f0b356092a5bee8d0df2d8c44fef5e4130b543aeedb4b0a4171a0ebe10\<rparr>,
    \<lparr>ch_cid_number = ''BP001-PRB0Q-434307982-2026'', citizens_number = 21893095, stake_amount = 218930950000,
     main_account = 0x5ecefffbb5c631d39618f08c952ad6bc34e0365c80ff3f73221e28bd4d6cdddf\<rparr>,
    \<lparr>ch_cid_number = ''HA001-PRB08-969179618-2026'', citizens_number = 24720871, stake_amount = 247208710000,
     main_account = 0x21723c4ffbdedfe3dc03f8f99f2be69d38974cefb8baaa5ae0dccb2aa19a2894\<rparr>,
    \<lparr>ch_cid_number = ''SJ001-PRB03-644104544-2026'', citizens_number = 24870895, stake_amount = 248708950000,
     main_account = 0x3e32836b01771c6e78ca0352f272a1c9a6f94a48c2fe43eb404ed12a28b0556f\<rparr>,
    \<lparr>ch_cid_number = ''LJ001-PRB0T-280510636-2026'', citizens_number = 22780354, stake_amount = 227803540000,
     main_account = 0x880a95a01195ecab49863ac2941da1b3e24d1498b975d8bf17fb658e27f7d355\<rparr>,
    \<lparr>ch_cid_number = ''JL001-PRB07-129935340-2026'', citizens_number = 24073453, stake_amount = 240734530000,
     main_account = 0xcfd73254a825eda01cf08614205b4175d682613604e795982af1507a40b768af\<rparr>,
    \<lparr>ch_cid_number = ''LI001-PRB0J-249814963-2026'', citizens_number = 42591407, stake_amount = 425914070000,
     main_account = 0xfe9782b1cb4961ee45717105db51d7f9dca16d87c3399125778a9140ee71b9b1\<rparr>,
    \<lparr>ch_cid_number = ''NX001-PRB0F-292327153-2026'', citizens_number = 7202654, stake_amount = 72026540000,
     main_account = 0x7e802a3dc6982cacc75bfa02e46bc8f1d074eb55f92acba831e5fbfdfa656627\<rparr>,
    \<lparr>ch_cid_number = ''QH001-PRB0V-075657014-2026'', citizens_number = 5030542, stake_amount = 50305420000,
     main_account = 0xe52d727901162c6e4cf6e03f2066e057399ad9292001820d436dabdec2ed0679\<rparr>,
    \<lparr>ch_cid_number = ''AH001-PRB0M-388477914-2026'', citizens_number = 61027171, stake_amount = 610271710000,
     main_account = 0x0003751d234a7a8afd21b2f5ec07f7bfc8232b20e38a7cd3f7b2c261bf164a7f\<rparr>,
    \<lparr>ch_cid_number = ''TW001-PRB0S-266238196-2026'', citizens_number = 23561236, stake_amount = 235612360000,
     main_account = 0x6e52e744891abe902a42b039276cbf0593989d4ed4806fda54d19c69a73cda14\<rparr>,
    \<lparr>ch_cid_number = ''XZ001-PRB06-210788637-2026'', citizens_number = 2763853, stake_amount = 27638530000,
     main_account = 0xe84daa85a070ae64eb1b7f18f75223158039349276df7e697737ee19086fe34b\<rparr>,
    \<lparr>ch_cid_number = ''XJ001-PRB0V-233325633-2026'', citizens_number = 9880442, stake_amount = 98804420000,
     main_account = 0xe3e528582c58cb319c0941bef1354b8303d2c1a9865b18f73b107e2354cee5e6\<rparr>,
    \<lparr>ch_cid_number = ''XK001-PRB0Q-300401625-2026'', citizens_number = 4513098, stake_amount = 45130980000,
     main_account = 0x0016695ce634d377fc5348f6e31bac12f89c275112bbf0683783a026e7d6e1bb\<rparr>,
    \<lparr>ch_cid_number = ''AL001-PRB0S-527686065-2026'', citizens_number = 2627999, stake_amount = 26279990000,
     main_account = 0xcd15753c666a0604b68cf9a2af1626e17f0a259da8db94c3c54d4a092fbeac9c\<rparr>,
    \<lparr>ch_cid_number = ''CL001-PRB0Q-951267669-2026'', citizens_number = 7833021, stake_amount = 78330210000,
     main_account = 0x9f5bd94ff37a8d3f04c8e90560782f5c6f20477bf813059e4d8bb3c17ae2bcc6\<rparr>,
    \<lparr>ch_cid_number = ''YL001-PRB0A-142800261-2026'', citizens_number = 5634164, stake_amount = 56341640000,
     main_account = 0x0da105fd6917c7703b6f357eeb7e05c445c63200eaab80efa93a66b1b286f9b6\<rparr>,
    \<lparr>ch_cid_number = ''HX001-PRB0F-215310265-2026'', citizens_number = 4664727, stake_amount = 46647270000,
     main_account = 0x219a983e60a6e9f684632e0783374f4fec3325f46d5c7de3cb1d05dde7599193\<rparr>,
    \<lparr>ch_cid_number = ''KL001-PRB08-682838027-2026'', citizens_number = 893415, stake_amount = 8934150000,
     main_account = 0xd2f1ca163d87fcc96546ebd5891c2487f21b6fd1702de8a1182da79651cc89a7\<rparr>,
    \<lparr>ch_cid_number = ''HT001-PRB0L-210616196-2026'', citizens_number = 12110780, stake_amount = 121107800000,
     main_account = 0x6c59fa9059358d7bf95f83b0c4eaaf6f2e4837a7151174e128ffd2acc8f23f39\<rparr>,
    \<lparr>ch_cid_number = ''RH001-PRB0C-380830938-2026'', citizens_number = 15489562, stake_amount = 154895620000,
     main_account = 0x8d59d4a31ab0cb729ce80b42d1d82f50d87a8557b1008a960a30892772a7d296\<rparr>,
    \<lparr>ch_cid_number = ''XA001-PRB0Q-928028839-2026'', citizens_number = 3991080, stake_amount = 39910800000,
     main_account = 0x4123d536f6277e041f1b983274fa77ecb004e698e8195bf81263277a3e92a750\<rparr>,
    \<lparr>ch_cid_number = ''HJ001-PRB0I-089279108-2026'', citizens_number = 8738458, stake_amount = 87384580000,
     main_account = 0xa2f41e35019070029a4fc5a56b379973d51c48a5dab940a010bdd8e28c4ec434\<rparr>]"

definition NRC_JOINT_VOTE_WEIGHT :: u32 where "NRC_JOINT_VOTE_WEIGHT = 19"
definition PRC_JOINT_VOTE_WEIGHT :: u32 where "PRC_JOINT_VOTE_WEIGHT = 1"
definition PRB_JOINT_VOTE_WEIGHT :: u32 where "PRB_JOINT_VOTE_WEIGHT = 1"
definition PRC_COUNT :: u32 where "PRC_COUNT = length CHINA_CB - 1"
definition PRB_COUNT :: u32 where "PRB_COUNT = length CHINA_CH"

definition JOINT_VOTE_TOTAL :: u32 where
  "JOINT_VOTE_TOTAL = NRC_JOINT_VOTE_WEIGHT + PRC_COUNT * PRC_JOINT_VOTE_WEIGHT + PRB_COUNT * PRB_JOINT_VOTE_WEIGHT"

definition JOINT_VOTE_PASS_THRESHOLD :: u32 where "JOINT_VOTE_PASS_THRESHOLD = 105"

section \<open>Weights\<close>

definition institution_info :: "cid_number \<Rightarrow> u32 option" where
  "institution_info cid =
     (if (case CHINA_CB of [] \<Rightarrow> False | n # _ \<Rightarrow> n = cid) then Some NRC_JOINT_VOTE_WEIGHT
      else if cid \<in> set (drop 1 CHINA_CB) then Some PRC_JOINT_VOTE_WEIGHT
      else if cid \<in> ch_cid_number ` set CHINA_CH then Some PRB_JOINT_VOTE_WEIGHT
      else None)"

definition institution_profile :: "cid_number \<Rightarrow> (institution_code \<times> u32) option" where
  "institution_profile cid =
     (if (case CHINA_CB of [] \<Rightarrow> False | n # _ \<Rightarrow> n = cid) then Some (NRC, NRC_JOINT_VOTE_WEIGHT)
      else if cid \<in> set (drop 1 CHINA_CB) then Some (PRC, PRC_JOINT_VOTE_WEIGHT)
      else if cid \<in> ch_cid_number ` set CHINA_CH then Some (PRB, PRB_JOINT_VOTE_WEIGHT)
      else None)"

text \<open>All institutions of the joint vote, in the order of \<open>joint_subject_cid_numbers\<close>.\<close>

definition joint_institutions :: "cid_number list" where
  "joint_institutions = CHINA_CB @ map ch_cid_number CHINA_CH"

lemma institution_profile_info: "institution_info cid = map_option snd (institution_profile cid)"
  by (simp add: institution_info_def institution_profile_def)

text \<open>They differ already in the nine digits of the third group.\<close>

definition cid_digits :: "cid_number \<Rightarrow> nat" where
  "cid_digits cid = foldl (\<lambda>n c. 10 * n + (of_char c - 48)) 0 (take 9 (drop 12 cid))"

lemma joint_digits: "map cid_digits joint_institutions =
    [944805165, 16974075, 773405642, 67440774, 663454043, 389570546, 545676096, 145427171, 969970096,
     400319700, 458681566, 471270801, 358467174, 27328848, 104465679, 849245626, 499533387, 659443961,
     711309909, 478472058, 935659021, 679051155, 189323546, 214178517, 44490898, 279890045, 850461124,
     978545133, 389752794, 882026762, 589856828, 265218823, 435616961, 671044381, 695945392, 487847725,
     771698743, 293160581, 475713213, 91969119, 481172908, 697831866, 384161601, 963948997, 233384677,
     703127075, 239565809, 25559630, 504679612, 723623074, 692525950, 490015860, 84835673, 243765987,
     296232973, 890774605, 114256751, 520132196, 158889343, 484022741, 514948302, 245618374, 694162045,
     764253139, 5784877, 434307982, 969179618, 644104544, 280510636, 129935340, 249814963, 292327153,
     75657014, 388477914, 266238196, 210788637, 233325633, 300401625, 527686065, 951267669, 142800261,
     215310265, 682838027, 210616196, 380830938, 928028839, 89279108]"
  by (simp add: joint_institutions_def CHINA_CB_def CHINA_CH_def cid_digits_def)

lemma joint_institutions_distinct: "distinct joint_institutions"
proof -
  have "distinct (map cid_digits joint_institutions)" unfolding joint_digits by simp
  then show ?thesis by (simp add: distinct_map)
qed

lemma joint_institutions_count: "length CHINA_CB = 44" "length CHINA_CH = 43"
  by (simp_all add: CHINA_CB_def CHINA_CH_def)

lemma joint_total: "JOINT_VOTE_TOTAL = JOINT_VOTE_PASS_THRESHOLD"
  by (simp add: JOINT_VOTE_TOTAL_def JOINT_VOTE_PASS_THRESHOLD_def NRC_JOINT_VOTE_WEIGHT_def PRC_JOINT_VOTE_WEIGHT_def
      PRB_JOINT_VOTE_WEIGHT_def PRC_COUNT_def PRB_COUNT_def joint_institutions_count)

definition joint_weight :: "cid_number \<Rightarrow> u32" where
  "joint_weight cid = (case institution_info cid of None \<Rightarrow> 0 | Some w \<Rightarrow> w)"

lemma institution_info_member: "institution_info cid \<noteq> None \<longleftrightarrow> cid \<in> set joint_institutions"
proof -
  obtain n ps where cb: "CHINA_CB = n # ps" by (cases CHINA_CB) (use joint_institutions_count in simp_all)
  show ?thesis by (auto simp: institution_info_def joint_institutions_def cb)
qed

lemma joint_weight_pos: "cid \<in> set joint_institutions \<Longrightarrow> 0 < joint_weight cid"
  unfolding institution_info_member [symmetric]
  by (auto simp: joint_weight_def institution_info_def NRC_JOINT_VOTE_WEIGHT_def PRC_JOINT_VOTE_WEIGHT_def
      PRB_JOINT_VOTE_WEIGHT_def split: if_splits)

lemma joint_weight_sum: "sum joint_weight (set joint_institutions) = 105"
proof -
  obtain n ps where cb: "CHINA_CB = n # ps" by (cases CHINA_CB) (use joint_institutions_count in simp_all)
  let ?bs = "map ch_cid_number CHINA_CH"
  have d: "n \<notin> set ps" "n \<notin> set ?bs" "set ps \<inter> set ?bs = {}" "distinct ps" "distinct ?bs"
    using joint_institutions_distinct by (auto simp: joint_institutions_def cb)
  have w: "joint_weight n = 19" "\<And>c. c \<in> set ps \<Longrightarrow> joint_weight c = 1" "\<And>c. c \<in> set ?bs \<Longrightarrow> joint_weight c = 1"
    using d by (auto simp: joint_weight_def institution_info_def cb NRC_JOINT_VOTE_WEIGHT_def
        PRC_JOINT_VOTE_WEIGHT_def PRB_JOINT_VOTE_WEIGHT_def)
  have "sum joint_weight (set joint_institutions) = joint_weight n + (sum joint_weight (set ps) + sum joint_weight (set ?bs))"
    unfolding joint_institutions_def cb using d by (simp add: sum.union_disjoint)
  also have "sum joint_weight (set ps) = card (set ps)" using w(2) by simp
  also have "sum joint_weight (set ?bs) = card (set ?bs)" using w(3) by simp
  also have "card (set ps) = 43" using distinct_card [OF d(4)] joint_institutions_count(1) unfolding cb by simp
  also have "card (set ?bs) = 43" using distinct_card [OF d(5)] joint_institutions_count(2) by simp
  finally show ?thesis using w(1) by simp
qed

lemma joint_weight_subset:
  assumes "A \<subseteq> set joint_institutions"
  shows "sum joint_weight A \<le> 105" "sum joint_weight A = 105 \<longleftrightarrow> A = set joint_institutions"
proof -
  have split: "sum joint_weight (set joint_institutions) = sum joint_weight (set joint_institutions - A) + sum joint_weight A"
    using assms by (rule sum.subset_diff) simp
  then show "sum joint_weight A \<le> 105" by (simp add: joint_weight_sum)
  have "sum joint_weight (set joint_institutions - A) = 0 \<longleftrightarrow> set joint_institutions - A = {}"
  proof
    assume "sum joint_weight (set joint_institutions - A) = 0"
    then have "joint_weight c = 0" if "c \<in> set joint_institutions - A" for c using that by simp
    then show "set joint_institutions - A = {}" using joint_weight_pos by fastforce
  qed auto
  with split assms show "sum joint_weight A = 105 \<longleftrightarrow> A = set joint_institutions"
    using joint_weight_sum by auto
qed

end
