(* ===== verification/Joint_Vote.thy ===== *)
theory Joint_Vote
  imports Internal_Proposal Reserve_Institutions
begin

text \<open>
  The joint vote (\<^verbatim>\<open>votingengine/joint-vote/src\<close>): the 87 reserve institutions vote, each by
  its seats (\<^verbatim>\<open>jointinternal.rs\<close>); unanimity (weight 105) passes the proposal at once, the
  first rejection or the timeout sends it to a referendum of the citizens
  (\<^verbatim>\<open>jointreferendum.rs\<close>); creation, calls, cleanup and the track (\<^verbatim>\<open>lib.rs\<close>).
\<close>

section \<open>Decisions\<close>

definition is_joint_unanimous :: "u32 \<Rightarrow> bool" where
  "is_joint_unanimous yes_weight \<longleftrightarrow> JOINT_VOTE_PASS_THRESHOLD \<le> yes_weight"

definition is_jointreferendum_vote_passed :: "u64 \<Rightarrow> u64 \<Rightarrow> bool" where
  "is_jointreferendum_vote_passed yes_votes elig =
     (if elig = 0 then False else sat_mul 128 elig 50 < sat_mul 128 yes_votes 100)"

definition is_jointreferendum_vote_rejected :: "u64 \<Rightarrow> u64 \<Rightarrow> bool" where
  "is_jointreferendum_vote_rejected no_votes elig =
     (if elig = 0 then False else sat_mul 128 elig 50 \<le> sat_mul 128 no_votes 100)"

definition joint_stage_duration :: block_number where
  "joint_stage_duration = sat_into 32 VOTING_DURATION_BLOCKS"

definition referendum_stage_duration :: block_number where
  "referendum_stage_duration = sat_into 32 VOTING_DURATION_BLOCKS"

section \<open>Creation\<close>

definition joint_subject_cid_numbers :: "ve_error + cid_number list" where
  "joint_subject_cid_numbers = bound_subject_cid_numbers (CHINA_CB @ map ch_cid_number CHINA_CH)"

definition ensure_joint_vote_plan ::
  "'x env \<Rightarrow> cid_number \<Rightarrow> account \<Rightarrow> vote_plan \<Rightarrow> 'x engine \<Rightarrow> dispatch_error + unit" where
  "ensure_joint_vote_plan env cid who plan s =
     (if vp_voting_engine plan \<noteq> Joint then Inl (VotingEngine InvalidVotePlan)
      else if institution_profile cid = None then Inl (VotingEngine InvalidInstitution)
      else (case vp_proposer_subject plan of
              PersonalMultisig _ \<Rightarrow> Inl (VotingEngine InvalidVotePlan)
            | Institution rs \<Rightarrow>
                if rs_cid_number rs \<noteq> cid then Inl (VotingEngine InvalidVotePlan)
                else if \<not> is_active_assignment env (rs_cid_number rs) who (rs_role_code rs) (ext s)
                then Inl (VotingEngine NoPermission)
                else (case joint_subject_cid_numbers of
                        Inl e \<Rightarrow> Inl (VotingEngine e)
                      | Inr expected \<Rightarrow>
                          if \<not> list_all (\<lambda>c. list_ex (\<lambda>subject. case subject of
                                Institution r \<Rightarrow> rs_cid_number r = c | PersonalMultisig _ \<Rightarrow> False)
                                (vp_voter_subjects plan)) expected
                          then Inl (VotingEngine InvalidVotePlan)
                          else if list_all (\<lambda>subject. case subject of
                                Institution r \<Rightarrow> rs_cid_number r \<in> set expected | PersonalMultisig _ \<Rightarrow> False)
                                (vp_voter_subjects plan)
                          then Inr () else Inl (VotingEngine InvalidVotePlan))))"

definition joint_proposal :: "cid_number \<Rightarrow> cid_number list \<Rightarrow> block_number \<Rightarrow> proposal" where
  "joint_proposal cid cids now =
     \<lparr>p_kind = PROPOSAL_KIND_JOINT, p_stage = STAGE_JOINT, p_status = STATUS_VOTING,
      p_internal_code = None, p_actor_cid_number = Some cid, p_execution_account_id = None,
      p_subject_cid_numbers = cids, p_start = now, p_end = bn_add now joint_stage_duration\<rparr>"

definition do_create_joint_proposal ::
  "'x env \<Rightarrow> account \<Rightarrow> cid_number \<Rightarrow> vote_plan \<Rightarrow> 'x engine \<Rightarrow> (dispatch_error, proposal_id, 'x engine) outcome" where
  "do_create_joint_proposal env who cid plan s =
     and_then (pure_result (ensure_joint_vote_plan env cid who plan s) s) (\<lambda>_ s.
     (case joint_subject_cid_numbers of
        Inl e \<Rightarrow> (Inl (VotingEngine e), s)
      | Inr cids \<Rightarrow>
          let p = joint_proposal cid cids (block_number s) in
          with_transaction (\<lambda>s.
            and_then (allocate_id env s) (\<lambda>i s.
            and_then (add_active env (subject_keys p) i s) (\<lambda>_ s.
            and_then (acquire_all env i Regular (subject_keys p) s) (\<lambda>_ s.
            and_then (snapshot_all_roles env i (vp_voter_subjects plan) s) (\<lambda>_ s.
            let s1 = s\<lparr>proposals := (proposals s)(i \<mapsto> p)\<rparr> in
            and_then (bind_vote_plan i plan s1) (\<lambda>_ s.
            and_then (create_population_snapshot env i ScopeCountry s) (\<lambda>elig s.
            ensure (elig \<noteq> 0) (JointVote CitizenEligibleTotalNotSet) s (\<lambda>s.
            and_then (schedule_proposal_expiry env i (p_end p) s) (\<lambda>_ s.
              (Inr i, emit_proposal_created i PROPOSAL_KIND_JOINT STAGE_JOINT (p_end p) s)))))))))) s))"

definition create_joint_proposal_with_data ::
  "'x env \<Rightarrow> account \<Rightarrow> string \<Rightarrow> vote_plan \<Rightarrow> string \<Rightarrow> 'x engine \<Rightarrow> (dispatch_error, proposal_id, 'x engine) outcome" where
  "create_joint_proposal_with_data env who cid plan data =
     with_transaction (\<lambda>s.
       ensure (length cid \<le> CID_NUMBER_MAX_BYTES) (VotingEngine InvalidInstitution) s (\<lambda>s.
       ensure (hash256 env data = vp_business_object_hash plan) (VotingEngine InvalidVotePlan) s (\<lambda>s.
       and_then (do_create_joint_proposal env who cid plan s) (\<lambda>i s.
       and_then (register_proposal_data env i (vp_proposal_owner plan) data (block_number s) s) (\<lambda>_ s.
         (Inr i, s))))))"

definition create_joint_proposal_with_data_and_object ::
  "'x env \<Rightarrow> account \<Rightarrow> string \<Rightarrow> vote_plan \<Rightarrow> string \<Rightarrow> u8 \<Rightarrow> string \<Rightarrow> 'x engine \<Rightarrow>
   (dispatch_error, proposal_id, 'x engine) outcome" where
  "create_joint_proposal_with_data_and_object env who cid plan data okind object_data =
     with_transaction (\<lambda>s.
       ensure (length cid \<le> CID_NUMBER_MAX_BYTES) (VotingEngine InvalidInstitution) s (\<lambda>s.
       ensure (hash256 env object_data = vp_business_object_hash plan) (VotingEngine InvalidVotePlan) s (\<lambda>s.
       and_then (do_create_joint_proposal env who cid plan s) (\<lambda>i s.
       and_then (register_proposal_data env i (vp_proposal_owner plan) data (block_number s) s) (\<lambda>_ s.
       and_then (store_proposal_object env i okind object_data s) (\<lambda>_ s.
         (Inr i, s)))))))"

section \<open>The institutions vote\<close>

definition advance_joint_to_referendum ::
  "'x env \<Rightarrow> proposal_id \<Rightarrow> 'x engine \<Rightarrow> (dispatch_error, unit, 'x engine) outcome" where
  "advance_joint_to_referendum env i s =
     (let now = block_number s; referendum_end = bn_add now referendum_stage_duration in
      with_transaction (\<lambda>s.
        ok_or (population_eligible_total_of i s) (JointVote CitizenEligibleTotalNotSet) s (\<lambda>elig.
        ok_or (proposals s i) (VotingEngine ProposalNotFound) s (\<lambda>p.
          let s1 = s\<lparr>proposals := (proposals s)(i \<mapsto>
                      p\<lparr>p_stage := STAGE_REFERENDUM, p_start := now, p_end := referendum_end\<rparr>)\<rparr>;
              old_expiry = bn_add (p_end p) 1;
              s2 = s1\<lparr>proposals_by_expiry := (proposals_by_expiry s1)
                      (old_expiry := remove_id i (proposals_by_expiry s1 old_expiry))\<rparr>
          in and_then (schedule_proposal_expiry env i referendum_end s2) (\<lambda>_ s.
               (Inr (), emit_proposal_advanced_to_referendum i referendum_end elig
                  (upd_locks (release_internal_proposal_mutexes i) s)))))) s)"

definition add_joint_weight :: "bool \<Rightarrow> u32 \<Rightarrow> vote_count \<Rightarrow> vote_count" where
  "add_joint_weight approved w t =
     (if approved then t\<lparr>yes := sat_add 32 (yes t) w\<rparr> else t\<lparr>no := sat_add 32 (no t) w\<rparr>)"

definition record_institution_result :: "proposal_id \<Rightarrow> cid_number \<Rightarrow> bool \<Rightarrow> u32 \<Rightarrow> 'x engine \<Rightarrow> 'x engine" where
  "record_institution_result i cid approved w s =
     upd_joint (\<lambda>v. v\<lparr>
       joint_votes_by_institution := (joint_votes_by_institution v)(i := kv_insert cid approved (joint_votes_by_institution v i)),
       joint_tallies := (joint_tallies v)(i := add_joint_weight approved w (joint_tallies v i))\<rparr>) s"

definition finalize_joint_institution_vote ::
  "'x env \<Rightarrow> proposal_id \<Rightarrow> cid_number \<Rightarrow> bool \<Rightarrow> 'x engine \<Rightarrow> (dispatch_error, unit, 'x engine) outcome" where
  "finalize_joint_institution_vote env i cid approved s =
     ensure (\<not> kv_contains cid (joint_votes_by_institution (joint s) i)) (VotingEngine AlreadyVoted) s (\<lambda>s.
     ok_or (institution_info cid) (VotingEngine InvalidInstitution) s (\<lambda>w.
       let s1 = record_institution_result i cid approved w s;
           tally = joint_tallies (joint s1) i;
           s2 = deposit_event (JointInstitutionVoteFinalized i cid approved) s1
       in if approved then
            (if is_joint_unanimous (yes tally) then set_status_and_emit env i STATUS_PASSED s2
             else if JOINT_VOTE_TOTAL \<le> sat_add 32 (yes tally) (no tally) then advance_joint_to_referendum env i s2
             else (Inr (), s2))
          else advance_joint_to_referendum env i s2))"

definition joint_institution_tally :: "proposal_id \<Rightarrow> cid_number \<Rightarrow> 'x engine \<Rightarrow> vote_count" where
  "joint_institution_tally i cid s =
     (case map_of (joint_institution_tallies (joint s) i) cid of None \<Rightarrow> vote_count_default | Some t \<Rightarrow> t)"

definition record_joint_vote ::
  "proposal_id \<Rightarrow> cid_number \<Rightarrow> institution_vote_ticket \<Rightarrow> bool \<Rightarrow> 'x engine \<Rightarrow> 'x engine" where
  "record_joint_vote i cid ticket approve s =
     upd_joint (\<lambda>v. v\<lparr>
       joint_votes_by_ticket := (joint_votes_by_ticket v)(i := kv_insert ticket approve (joint_votes_by_ticket v i)),
       joint_institution_tallies := (joint_institution_tallies v)
         (i := kv_insert cid (add_vote 32 approve (joint_institution_tally i cid s)) (joint_institution_tallies v i))\<rparr>) s"

definition do_joint_vote ::
  "'x env \<Rightarrow> account \<Rightarrow> proposal_id \<Rightarrow> cid_number \<Rightarrow> role_code \<Rightarrow> bool \<Rightarrow> 'x engine \<Rightarrow>
   (dispatch_error, unit, 'x engine) outcome" where
  "do_joint_vote env who i cid role approve s =
     and_then (pure_result (ensure_open_proposal i s) s) (\<lambda>p s.
     ensure (p_kind p = PROPOSAL_KIND_JOINT) (VotingEngine InvalidProposalKind) s (\<lambda>s.
     ensure (p_stage p = STAGE_JOINT) (VotingEngine InvalidProposalStage) s (\<lambda>s.
     ensure (\<not> kv_contains cid (joint_votes_by_institution (joint s) i)) (VotingEngine AlreadyVoted) s (\<lambda>s.
     ok_or (institution_profile cid) (VotingEngine InvalidInstitution) s (\<lambda>(code, _).
     let rs = \<lparr>rs_cid_number = cid, rs_role_code = role\<rparr>; subject = Institution rs in
     ensure (is_subject_voter_in_snapshot env i subject who s) (VotingEngine NoPermission) s (\<lambda>s.
     let voter = (case resolve_subject_voter env subject who s of None \<Rightarrow> who | Some v \<Rightarrow> v);
         ticket = \<lparr>t_role_subject = rs, t_voter_account_id = voter\<rparr> in
     ensure (\<not> kv_contains ticket (joint_votes_by_ticket (joint s) i)) (VotingEngine AlreadyVoted) s (\<lambda>s.
     let s1 = record_joint_vote i cid ticket approve s;
         tally = joint_institution_tally i cid s1;
         s2 = deposit_event (JointInstitutionTicketVoteCast i cid who role approve) s1 in
     ok_or (fixed_governance_pass_threshold code) (VotingEngine InvalidInstitution) s2 (\<lambda>threshold.
     ok_or (institution_ticket_count i cid s2) (VotingEngine InvalidInstitution) s2 (\<lambda>voters_len.
       if threshold \<le> yes tally then finalize_joint_institution_vote env i cid True s2
       else
         let casted = sat_add 32 (yes tally) (no tally); remaining = sat_sub voters_len casted in
         if sat_add 32 (yes tally) remaining < threshold
         then finalize_joint_institution_vote env i cid False s2
         else (Inr (), s2))))))))))"

definition do_finalize_joint_timeout ::
  "'x env \<Rightarrow> proposal \<Rightarrow> proposal_id \<Rightarrow> 'x engine \<Rightarrow> (dispatch_error, unit, 'x engine) outcome" where
  "do_finalize_joint_timeout env p i s =
     ensure (p_stage p = STAGE_JOINT) (VotingEngine InvalidProposalStage) s (\<lambda>s.
     ensure (p_status p = STATUS_VOTING) (VotingEngine ProposalAlreadyFinalized) s (\<lambda>s.
     ensure (p_end p < block_number s) (VotingEngine VoteNotExpired) s (\<lambda>s.
       if is_joint_unanimous (yes (joint_tallies (joint s) i)) then set_status_and_emit env i STATUS_PASSED s
       else advance_joint_to_referendum env i s)))"

section \<open>The referendum\<close>

definition record_referendum_vote :: "proposal_id \<Rightarrow> cid_number \<Rightarrow> citizen_referendum_ticket \<Rightarrow> 'x engine \<Rightarrow> 'x engine" where
  "record_referendum_vote i cid ticket s =
     upd_joint (\<lambda>v. v\<lparr>
       referendum_votes_by_cid := (referendum_votes_by_cid v)(i := kv_insert cid ticket (referendum_votes_by_cid v i)),
       referendum_tallies := (referendum_tallies v)(i := add_vote 64 (ticket_approve ticket) (referendum_tallies v i))\<rparr>) s"

definition do_jointreferendum_vote ::
  "'x env \<Rightarrow> account \<Rightarrow> proposal_id \<Rightarrow> bool \<Rightarrow> 'x engine \<Rightarrow> (dispatch_error, unit, 'x engine) outcome" where
  "do_jointreferendum_vote env who i approve s =
     and_then (pure_result (ensure_open_proposal i s) s) (\<lambda>p s.
     ensure (p_kind p = PROPOSAL_KIND_JOINT) (VotingEngine InvalidProposalKind) s (\<lambda>s.
     ensure (p_stage p = STAGE_REFERENDUM) (VotingEngine InvalidProposalStage) s (\<lambda>s.
     ok_or (population_eligible_total_of i s) (JointVote CitizenEligibleTotalNotSet) s (\<lambda>elig.
     ensure (0 < elig) (JointVote CitizenEligibleTotalNotSet) s (\<lambda>s.
     ok_or (voting_subject_at_population_snapshot env i who s) (JointVote CitizenNotEligible) s (\<lambda>subject.
     let cid = cs_cid_number subject in
     ensure (\<not> kv_contains cid (referendum_votes_by_cid (joint s) i)) (VotingEngine AlreadyVoted) s (\<lambda>s.
     let current = referendum_tallies (joint s) i in
     ensure (sat_add 64 (yes current) (no current) < elig) (JointVote ReferendumSnapshotExhausted) s (\<lambda>s.
     let s1 = record_referendum_vote i cid \<lparr>voter_subject = subject, ticket_approve = approve\<rparr> s;
         tally = referendum_tallies (joint s1) i;
         s2 = deposit_event (ReferendumVoteCast i subject approve) s1 in
     if is_jointreferendum_vote_passed (yes tally) elig then set_status_and_emit env i STATUS_PASSED s2
     else if is_jointreferendum_vote_rejected (no tally) elig then set_status_and_emit env i STATUS_REJECTED s2
     else (Inr (), s2)))))))))"

definition do_finalize_jointreferendum_timeout ::
  "'x env \<Rightarrow> proposal \<Rightarrow> proposal_id \<Rightarrow> 'x engine \<Rightarrow> (dispatch_error, unit, 'x engine) outcome" where
  "do_finalize_jointreferendum_timeout env p i s =
     ensure (p_stage p = STAGE_REFERENDUM) (VotingEngine InvalidProposalStage) s (\<lambda>s.
     ensure (p_status p = STATUS_VOTING) (VotingEngine ProposalAlreadyFinalized) s (\<lambda>s.
     ensure (p_end p < block_number s) (VotingEngine VoteNotExpired) s (\<lambda>s.
     ok_or (population_eligible_total_of i s) (JointVote CitizenEligibleTotalNotSet) s (\<lambda>elig.
       set_status_and_emit env i
         (if is_jointreferendum_vote_passed (yes (referendum_tallies (joint s) i)) elig
          then STATUS_PASSED else STATUS_REJECTED) s))))"

section \<open>Calls\<close>

definition cast_admin ::
  "'x env \<Rightarrow> origin \<Rightarrow> proposal_id \<Rightarrow> cid_number \<Rightarrow> role_code \<Rightarrow> bool \<Rightarrow> 'x engine \<Rightarrow>
   (dispatch_error, unit, 'x engine) outcome" where
  "cast_admin env o' i cid role approve =
     with_transaction (\<lambda>s.
       ok_or (ensure_signed o') BadOrigin s (\<lambda>who. do_joint_vote env who i cid role approve s))"

definition cast_referendum ::
  "'x env \<Rightarrow> origin \<Rightarrow> proposal_id \<Rightarrow> bool \<Rightarrow> 'x engine \<Rightarrow> (dispatch_error, unit, 'x engine) outcome" where
  "cast_referendum env o' i approve =
     with_transaction (\<lambda>s.
       ok_or (ensure_signed o') BadOrigin s (\<lambda>who. do_jointreferendum_vote env who i approve s))"

section \<open>The track\<close>

definition joint_handles :: "u8 \<Rightarrow> bool" where
  "joint_handles kind \<longleftrightarrow> kind = PROPOSAL_KIND_JOINT"

definition joint_finalize_timeout :: "'x env \<Rightarrow> 'x timeout_handler" where
  "joint_finalize_timeout env p i s =
     (if \<not> joint_handles (p_kind p) then (None, s)
      else if p_stage p = STAGE_JOINT then
        (case do_finalize_joint_timeout env p i s of (r, s') \<Rightarrow> (Some r, s'))
      else if p_stage p = STAGE_REFERENDUM then
        (case do_finalize_jointreferendum_timeout env p i s of (r, s') \<Rightarrow> (Some r, s'))
      else (Some (Inl (VotingEngine InvalidProposalStage)), s))"

text \<open>\<open>clear_prefix\<close> on one of the four ledgers: entries removed, whether some remain.\<close>

definition clear_ledger :: "prefix_clearing \<Rightarrow> u32 \<Rightarrow> 'a list \<Rightarrow> (u32 \<times> bool) \<times> 'a list" where
  "clear_ledger cp limit xs = (let ys = survivors cp limit xs in ((length xs - length ys, ys \<noteq> []), ys))"

definition cleanup_joint_admin_votes_chunk ::
  "prefix_clearing \<Rightarrow> proposal_id \<Rightarrow> u32 \<Rightarrow> 'x engine \<Rightarrow> (u32 \<times> bool) \<times> 'x engine" where
  "cleanup_joint_admin_votes_chunk cp i limit s =
     (case clear_ledger cp limit (joint_votes_by_ticket (joint s) i) of (r, ys) \<Rightarrow>
        (r, upd_joint (\<lambda>v. v\<lparr>joint_votes_by_ticket := (joint_votes_by_ticket v)(i := ys)\<rparr>) s))"

definition cleanup_joint_institution_votes_chunk ::
  "prefix_clearing \<Rightarrow> proposal_id \<Rightarrow> u32 \<Rightarrow> 'x engine \<Rightarrow> (u32 \<times> bool) \<times> 'x engine" where
  "cleanup_joint_institution_votes_chunk cp i limit s =
     (case clear_ledger cp limit (joint_votes_by_institution (joint s) i) of (r, ys) \<Rightarrow>
        (r, upd_joint (\<lambda>v. v\<lparr>joint_votes_by_institution := (joint_votes_by_institution v)(i := ys)\<rparr>) s))"

definition cleanup_joint_institution_tallies_chunk ::
  "prefix_clearing \<Rightarrow> proposal_id \<Rightarrow> u32 \<Rightarrow> 'x engine \<Rightarrow> (u32 \<times> bool) \<times> 'x engine" where
  "cleanup_joint_institution_tallies_chunk cp i limit s =
     (case clear_ledger cp limit (joint_institution_tallies (joint s) i) of (r, ys) \<Rightarrow>
        (r, upd_joint (\<lambda>v. v\<lparr>joint_institution_tallies := (joint_institution_tallies v)(i := ys)\<rparr>) s))"

definition cleanup_referendum_votes_chunk ::
  "prefix_clearing \<Rightarrow> proposal_id \<Rightarrow> u32 \<Rightarrow> 'x engine \<Rightarrow> (u32 \<times> bool) \<times> 'x engine" where
  "cleanup_referendum_votes_chunk cp i limit s =
     (case clear_ledger cp limit (referendum_votes_by_cid (joint s) i) of (r, ys) \<Rightarrow>
        (r, upd_joint (\<lambda>v. v\<lparr>referendum_votes_by_cid := (referendum_votes_by_cid v)(i := ys)\<rparr>) s))"

definition joint_cleanup_chunk ::
  "prefix_clearing \<Rightarrow> proposal_id \<Rightarrow> u32 \<Rightarrow> 'x engine \<Rightarrow> (u32 \<times> bool) \<times> 'x engine" where
  "joint_cleanup_chunk cp i limit0 s =
     (let limit = max limit0 1 in
      case cleanup_joint_admin_votes_chunk cp i limit s of ((n1, more1), s1) \<Rightarrow>
      let r1 = sat_add 32 0 n1 in
      if more1 \<or> limit \<le> r1 then ((r1, True), s1) else
      case cleanup_joint_institution_votes_chunk cp i (sat_sub limit r1) s1 of ((n2, more2), s2) \<Rightarrow>
      let r2 = sat_add 32 r1 n2 in
      if more2 \<or> limit \<le> r2 then ((r2, True), s2) else
      case cleanup_joint_institution_tallies_chunk cp i (sat_sub limit r2) s2 of ((n3, more3), s3) \<Rightarrow>
      let r3 = sat_add 32 r2 n3 in
      if more3 \<or> limit \<le> r3 then ((r3, True), s3) else
      case cleanup_referendum_votes_chunk cp i (sat_sub limit r3) s3 of ((n4, more4), s4) \<Rightarrow>
      ((sat_add 32 r3 n4, more4), s4))"

definition cleanup_joint_terminal :: "proposal_id \<Rightarrow> 'x engine \<Rightarrow> 'x engine" where
  "cleanup_joint_terminal i s =
     upd_joint (\<lambda>v. v\<lparr>joint_tallies := (joint_tallies v)(i := vote_count_default),
       referendum_tallies := (referendum_tallies v)(i := vote_count_default)\<rparr>) s"

definition joint_track :: "prefix_clearing \<Rightarrow> (nat \<Rightarrow> nat \<Rightarrow> weight) \<Rightarrow> weight \<Rightarrow> weight \<Rightarrow> 'x track" where
  "joint_track cp db wt_joint wt_referendum =
    \<lparr>handles = joint_handles,
     on_proposal_executed = (\<lambda>kind i s. (if joint_handles kind then Some (Inr ()) else None, s)),
     on_proposal_terminal = (\<lambda>kind i status s. (if joint_handles kind then Some (Inr ()) else None, s)),
     cleanup_chunk = (\<lambda>kind i limit s. if joint_handles kind then
        (case joint_cleanup_chunk cp i limit s of (r, s') \<Rightarrow> (Some r, s')) else (None, s)),
     cleanup_terminal = (\<lambda>kind i s. if joint_handles kind then (Some (), cleanup_joint_terminal i s) else (None, s)),
     timeout_weight = (\<lambda>stage. if stage = STAGE_JOINT then Some wt_joint
        else if stage = STAGE_REFERENDUM then Some wt_referendum
        else if stage = U8_MAX then Some (w_max wt_joint wt_referendum) else None),
     cleanup_chunk_weight = (\<lambda>kind limit. if kind \<in> {PROPOSAL_KIND_JOINT, U8_MAX} then
        Some (w_add (w_add \<lparr>ref_time = 12000000, proof_size = 6000\<rparr>
          (w_scale \<lparr>ref_time = 1200000, proof_size = 2700\<rparr> (max limit 1))) (db (sat_add 64 (max limit 1) 4) (max limit 1)))
        else None),
     cleanup_terminal_weight = (\<lambda>kind. if kind \<in> {PROPOSAL_KIND_JOINT, U8_MAX} then
        Some (w_add \<lparr>ref_time = 10000000, proof_size = 8000\<rparr> (db 0 3)) else None)\<rparr>"

section \<open>The contracts of the engine\<close>

lemma joint_chunk_core: "same_core s (snd (joint_cleanup_chunk cp i n s))"
  by (auto simp: joint_cleanup_chunk_def cleanup_joint_admin_votes_chunk_def cleanup_joint_institution_votes_chunk_def
      cleanup_joint_institution_tallies_chunk_def cleanup_referendum_votes_chunk_def clear_ledger_def Let_def)

interpretation joint: ledger_track "joint_track cp db wj wr" for cp db wj wr
proof unfold_locales
  fix s :: "'x engine" and k st :: u8 and i :: proposal_id and n :: u32
  show "same_core s (snd (cleanup_chunk (joint_track cp db wj wr) k i n s))"
    using joint_chunk_core [of s cp i n] by (auto simp: joint_track_def split: prod.splits)
qed (simp_all add: joint_track_def cleanup_joint_terminal_def)

lemma sound_advance:
  assumes s: "sound_from env s0 s" and p: "proposals s i = Some p" "p_status p = STATUS_VOTING"
  shows "keeps (sound_from env s0) (advance_joint_to_referendum env i s)"
proof -
  let ?q = "p\<lparr>p_stage := STAGE_REFERENDUM, p_start := block_number s,
      p_end := bn_add (block_number s) referendum_stage_duration\<rparr>"
  have "prop_evolves p ?q" using p(2) by (simp add: prop_evolves_def)
  then have "sound_from env s0 (s\<lparr>proposals := (proposals s)(i \<mapsto> ?q)\<rparr>)"
    by (intro sound_from_proposal [OF s p(1)]) simp_all
  then have q: "sound_from env s0 (s\<lparr>proposals := (proposals s)(i \<mapsto> ?q), proposals_by_expiry := b\<rparr>)" for b by simp
  show ?thesis
    unfolding advance_joint_to_referendum_def Let_def p(1)
    by (intro keeps_with_transaction keeps_ok_or s)
       (auto simp: p(1) emit_proposal_advanced_to_referendum_def sound_release
          intro!: keeps_and_then sound_schedule_expiry q)
qed

lemma sound_joint_records [simp]:
  "sound_from env s0 (record_institution_result i c b w s) = sound_from env s0 s"
  "sound_from env s0 (record_joint_vote i c k b s) = sound_from env s0 s"
  "sound_from env s0 (record_referendum_vote i c tk s) = sound_from env s0 s"
  by (simp_all add: record_institution_result_def record_joint_vote_def record_referendum_vote_def)

lemma joint_records_fields [simp]:
  "proposals (record_institution_result i c b w s) = proposals s"
  "proposals (record_joint_vote i c k b s) = proposals s"
  "proposals (record_referendum_vote i c tk s) = proposals s"
  "proposals (deposit_event e s) = proposals s"
  by (simp_all add: record_institution_result_def record_joint_vote_def record_referendum_vote_def deposit_event_def)

lemma sound_finalize_institution:
  assumes "tracks_framed env" "sound_from env s0 s" "proposals s i = Some p" "p_status p = STATUS_VOTING"
  shows "keeps (sound_from env s0) (finalize_joint_institution_vote env i cid b s)"
  unfolding finalize_joint_institution_vote_def Let_def
  by (intro keeps_ensure keeps_ok_or assms(2))
     (auto intro!: sound_set_status [OF assms(1)] sound_advance [OF _ _ assms(4)] simp: assms(2,3))

lemma ensure_open_ok:
  "ensure_open_proposal i s = Inr p \<Longrightarrow> proposals s i = Some p \<and> p_status p = STATUS_VOTING"
  by (auto simp: ensure_open_proposal_def split: option.splits if_splits)

lemma sound_joint_vote:
  assumes "tracks_framed env" "sound_from env s0 s"
  shows "keeps (sound_from env s0) (do_joint_vote env who i cid role b s)"
  unfolding do_joint_vote_def Let_def
  by (intro keeps_and_then keeps_pure_result assms(2))
     (auto simp: pure_result_def intro!: keeps_ensure keeps_ok_or sound_finalize_institution [OF assms(1)]
        dest!: ensure_open_ok)

lemma sound_referendum_vote:
  assumes "tracks_framed env" "sound_from env s0 s"
  shows "keeps (sound_from env s0) (do_jointreferendum_vote env who i b s)"
  unfolding do_jointreferendum_vote_def Let_def
  by (intro keeps_and_then keeps_pure_result assms(2))
     (auto intro!: keeps_ensure keeps_ok_or sound_set_status [OF assms(1)])

lemma sound_joint_calls:
  assumes "tracks_framed env" "sound_from env s0 s"
  shows "keeps (sound_from env s0) (cast_admin env o' i cid role b s)"
    and "keeps (sound_from env s0) (cast_referendum env o' i b s)"
  unfolding cast_admin_def cast_referendum_def
  by (intro keeps_with_transaction keeps_ok_or assms(2) sound_joint_vote [OF assms] sound_referendum_vote [OF assms])+

lemma joint_timeout_track:
  assumes "tracks_framed env"
  shows "timeout_track env (joint_finalize_timeout env)"
proof
  show "fst (joint_finalize_timeout env p i s) = None \<Longrightarrow> snd (joint_finalize_timeout env p i s) = s" for p i s
    by (auto simp: joint_finalize_timeout_def split: if_splits prod.splits)
  fix s i p assume inv: "engine_inv env s" and p: "proposals s i = Some p"
  note refl = sound_from_refl [OF inv]
  have "keeps (sound_from env s) (do_finalize_joint_timeout env p i s)"
    unfolding do_finalize_joint_timeout_def
    by (intro keeps_ensure refl) (auto intro: sound_set_status [OF assms refl] sound_advance [OF refl p])
  moreover have "keeps (sound_from env s) (do_finalize_jointreferendum_timeout env p i s)"
    unfolding do_finalize_jointreferendum_timeout_def
    by (intro keeps_ensure keeps_ok_or refl sound_set_status [OF assms refl])
  ultimately show "sound_from env s (snd (joint_finalize_timeout env p i s))"
    using refl by (auto simp: joint_finalize_timeout_def keeps_def split: prod.splits)
qed

lemma create_joint_ok:
  assumes "do_create_joint_proposal env who cid plan s = (Inr i, s')"
  obtains cids s1 s2 s3 s4 s5 elig where "joint_subject_cid_numbers = Inr cids"
    "ensure_joint_vote_plan env cid who plan s = Inr ()"
    "allocate_and_lock env (joint_proposal cid cids (block_number s)) Regular s = (Inr i, s1)"
    "snapshot_all_roles env i (vp_voter_subjects plan) s1 = (Inr (), s2)"
    "bind_vote_plan i plan (s2\<lparr>proposals := (proposals s2)(i \<mapsto> joint_proposal cid cids (block_number s))\<rparr>) = (Inr (), s3)"
    "create_population_snapshot env i ScopeCountry s3 = (Inr elig, s4)" "elig \<noteq> 0"
    "schedule_proposal_expiry env i (bn_add (block_number s) joint_stage_duration) s4 = (Inr (), s5)"
    "s' = emit_proposal_created i PROPOSAL_KIND_JOINT STAGE_JOINT (bn_add (block_number s) joint_stage_duration) s5"
proof -
  have "p_end (joint_proposal cid cids b) = bn_add b joint_stage_duration" for cids b by (simp add: joint_proposal_def)
  with assms that show ?thesis
    by (auto simp: do_create_joint_proposal_def Let_def pure_result_def allocate_and_lock_def split: sum.splits)
qed

lemma sound_create_joint:
  assumes s: "sound_from env s0 s" and "do_create_joint_proposal env who cid plan s = (Inr i, s')"
  shows "sound_from env s0 s'"
  using assms(2)
proof (rule create_joint_ok)
  fix cids s1 s2 s3 s4 s5 elig
  let ?p = "joint_proposal cid cids (block_number s)"
  assume a: "allocate_and_lock env ?p Regular s = (Inr i, s1)"
    "snapshot_all_roles env i (vp_voter_subjects plan) s1 = (Inr (), s2)"
    "bind_vote_plan i plan (s2\<lparr>proposals := (proposals s2)(i \<mapsto> ?p)\<rparr>) = (Inr (), s3)"
    "create_population_snapshot env i ScopeCountry s3 = (Inr elig, s4)"
    "schedule_proposal_expiry env i (bn_add (block_number s) joint_stage_duration) s4 = (Inr (), s5)"
    "s' = emit_proposal_created i PROPOSAL_KIND_JOINT STAGE_JOINT (bn_add (block_number s) joint_stage_duration) s5"
  have "reserved env s0 i s2"
    using reserved_snapshot_all [OF reserved_allocate_and_lock [OF s a(1)], of env i] a(2) by (metis keeps_pair)
  then have "sound_from env s0 s3" using sound_bind_plan [OF reserved_insert, of env s0 i s2 i plan ?p] a(3) by simp
  then have "sound_from env s0 s4" using a(4) by (auto simp: create_population_snapshot_def)
  then have "sound_from env s0 s5" using sound_schedule_expiry a(5) by (metis keeps_pair)
  then show ?thesis by (simp add: a(6) emit_proposal_created_def)
qed

lemma sound_store_object: "sound_from env s0 s \<Longrightarrow> keeps (sound_from env s0) (store_proposal_object env' i k d s)"
  by (auto simp: store_proposal_object_def Let_def ensure_def ok_or_def split: option.split)

lemma sound_joint_creates:
  assumes "sound_from env s0 s"
  shows "keeps (sound_from env s0) (create_joint_proposal_with_data env who cid plan data s)"
    and "keeps (sound_from env s0) (create_joint_proposal_with_data_and_object env who cid plan data k obj s)"
proof -
  have reg: "sound_from env s0 t'" if "sound_from env s0 t" "register_proposal_data env i tag d b t = (Inr (), t')"
    for t t' i tag d b using sound_register_data [OF that(1), of env i tag d b] that(2) by simp
  have sto: "sound_from env s0 t'" if "sound_from env s0 t" "store_proposal_object env i k d t = (Inr (), t')"
    for t t' i k d using sound_store_object [OF that(1), of env i k d] that(2) by simp
  show "keeps (sound_from env s0) (create_joint_proposal_with_data env who cid plan data s)"
    unfolding create_joint_proposal_with_data_def
    by (rule keeps_with_transaction_ok [where P = "sound_from env s0"], rule assms) (auto dest: sound_create_joint [OF assms] reg)
  show "keeps (sound_from env s0) (create_joint_proposal_with_data_and_object env who cid plan data k obj s)"
    unfolding create_joint_proposal_with_data_and_object_def
    by (rule keeps_with_transaction_ok [where P = "sound_from env s0"], rule assms) (auto dest: sound_create_joint [OF assms] reg sto)
qed

section \<open>The referendum decides by majority\<close>

lemma referendum_thresholds:
  assumes "elig < 2 ^ 64" "y \<le> elig" "n \<le> elig"
  shows "is_jointreferendum_vote_passed y elig \<longleftrightarrow> elig < 2 * y"
    and "is_jointreferendum_vote_rejected n elig \<longleftrightarrow> 0 < elig \<and> elig \<le> 2 * n"
proof -
  have "elig * 50 < 2 ^ 128" "y * 100 < 2 ^ 128" "n * 100 < 2 ^ 128" using assms by simp_all
  then show "is_jointreferendum_vote_passed y elig \<longleftrightarrow> elig < 2 * y"
    and "is_jointreferendum_vote_rejected n elig \<longleftrightarrow> 0 < elig \<and> elig \<le> 2 * n"
    using assms(2) by (auto simp: is_jointreferendum_vote_passed_def is_jointreferendum_vote_rejected_def sat_mul_exact)
qed

interpretation referendum: ballot_ledger
    "\<lambda>s. referendum_votes_by_cid (joint s) i" "\<lambda>s. referendum_tallies (joint s) i"
    ticket_approve "\<lambda>_. True" "record_referendum_vote i" 64 for i
  by unfold_locales (auto simp: record_referendum_vote_def kv_insert_new kv_contains_def)

definition referendum_ledger :: "proposal_id \<Rightarrow> u64 \<Rightarrow> 'x engine \<Rightarrow> bool" where
  "referendum_ledger i elig s \<longleftrightarrow>
     counted ticket_approve (referendum_votes_by_cid (joint s) i) (referendum_tallies (joint s) i) \<and>
     yes (referendum_tallies (joint s) i) + no (referendum_tallies (joint s) i) \<le> elig \<and>
     population_eligible_total_of i s = Some elig \<and> 0 < elig \<and> elig < 2 ^ 64"

lemma referendum_ledger_frame:
  "same_ballots s s' \<Longrightarrow> referendum_ledger i elig s' = referendum_ledger i elig s"
  by (simp add: referendum_ledger_def same_ballots_def population_eligible_total_of_def)

text \<open>The state of a referendum is the one its tally demands.\<close>

definition referendum_verdict :: "u64 \<Rightarrow> vote_count \<Rightarrow> u8" where
  "referendum_verdict elig t =
     (if elig < 2 * yes t then STATUS_PASSED else if elig \<le> 2 * no t then STATUS_REJECTED else STATUS_VOTING)"

definition referendum_judged :: "proposal \<Rightarrow> proposal_id \<Rightarrow> u64 \<Rightarrow> 'x engine \<Rightarrow> bool" where
  "referendum_judged p i elig s \<longleftrightarrow> referendum_ledger i elig s \<and>
     proposals s i = Some (p\<lparr>p_status := referendum_verdict elig (referendum_tallies (joint s) i)\<rparr>)"

lemma referendum_vote_ok:
  assumes "do_jointreferendum_vote env who j b s = (Inr a, s')"
  obtains p elig subject s2 where "proposals s j = Some p" "p_status p = STATUS_VOTING"
    "population_eligible_total_of j s = Some elig" "0 < elig"
    "cs_cid_number subject \<notin> fst ` set (referendum_votes_by_cid (joint s) j)"
    "sat_add 64 (yes (referendum_tallies (joint s) j)) (no (referendum_tallies (joint s) j)) < elig"
    "s2 = deposit_event (ReferendumVoteCast j subject b) (record_referendum_vote j (cs_cid_number subject)
        \<lparr>voter_subject = subject, ticket_approve = b\<rparr> s)"
    "if is_jointreferendum_vote_passed (yes (referendum_tallies (joint s2) j)) elig
     then set_status_and_emit env j STATUS_PASSED s2 = (Inr (), s')
     else if is_jointreferendum_vote_rejected (no (referendum_tallies (joint s2) j)) elig
     then set_status_and_emit env j STATUS_REJECTED s2 = (Inr (), s') else s' = s2"
proof -
  from assms obtain p elig subject where g: "ensure_open_proposal j s = Inr p"
    "population_eligible_total_of j s = Some elig" "0 < elig"
    "\<not> kv_contains (cs_cid_number subject) (referendum_votes_by_cid (joint s) j)"
    "sat_add 64 (yes (referendum_tallies (joint s) j)) (no (referendum_tallies (joint s) j)) < elig"
    and f: "let s1 = record_referendum_vote j (cs_cid_number subject) \<lparr>voter_subject = subject, ticket_approve = b\<rparr> s;
         tally = referendum_tallies (joint s1) j; s2 = deposit_event (ReferendumVoteCast j subject b) s1 in
     (if is_jointreferendum_vote_passed (yes tally) elig then set_status_and_emit env j STATUS_PASSED s2
     else if is_jointreferendum_vote_rejected (no tally) elig then set_status_and_emit env j STATUS_REJECTED s2
     else (Inr (), s2)) = (Inr (), s')"
    by (auto simp: do_jointreferendum_vote_def pure_result_def Let_def)
  from f have "if is_jointreferendum_vote_passed (yes (referendum_tallies (joint s2) j)) elig
     then set_status_and_emit env j STATUS_PASSED s2 = (Inr (), s')
     else if is_jointreferendum_vote_rejected (no (referendum_tallies (joint s2) j)) elig
     then set_status_and_emit env j STATUS_REJECTED s2 = (Inr (), s') else s' = s2"
    if "s2 = deposit_event (ReferendumVoteCast j subject b) (record_referendum_vote j (cs_cid_number subject)
        \<lparr>voter_subject = subject, ticket_approve = b\<rparr> s)" for s2
    using that by (auto simp: Let_def deposit_event_def split: if_splits)
  with g ensure_open_ok [OF g(1)] show ?thesis by (intro that) (auto simp: kv_contains_def)
qed

lemma referendum_set_status:
  assumes tk: "tracks_keep_ledgers env" and ss: "set_status_and_emit env i st s = (Inr (), s')"
    and p: "proposals s i = Some p"
  shows "same_ballots s s' \<and> proposals s' = (proposals s)(i \<mapsto> p\<lparr>p_status := st\<rparr>)"
  using ballots_set_status [OF tk same_ballots_refl, of s i st] ss p
    set_status_proposals [OF keep_ledgers_framed [OF tk] ss] by auto

lemma referendum_vote_judged:
  assumes tk: "tracks_keep_ledgers env" and ok: "do_jointreferendum_vote env who j b s = (Inr a, s')"
    and jd: "referendum_judged p i elig s"
  shows "referendum_judged p i elig s'"
  using ok
proof (rule referendum_vote_ok)
  fix q el subject s2
  let ?k = "cs_cid_number subject" and ?v = "\<lparr>voter_subject = subject, ticket_approve = b\<rparr>"
  assume q: "proposals s j = Some q" "p_status q = STATUS_VOTING"
    and el: "population_eligible_total_of j s = Some el" "0 < el"
    and k: "?k \<notin> fst ` set (referendum_votes_by_cid (joint s) j)"
    and room: "sat_add 64 (yes (referendum_tallies (joint s) j)) (no (referendum_tallies (joint s) j)) < el"
    and s2: "s2 = deposit_event (ReferendumVoteCast j subject b) (record_referendum_vote j ?k ?v s)"
    and fin: "if is_jointreferendum_vote_passed (yes (referendum_tallies (joint s2) j)) el
     then set_status_and_emit env j STATUS_PASSED s2 = (Inr (), s')
     else if is_jointreferendum_vote_rejected (no (referendum_tallies (joint s2) j)) el
     then set_status_and_emit env j STATUS_REJECTED s2 = (Inr (), s') else s' = s2"
  let ?t = "referendum_tallies (joint s2) j"
  let ?st = "if is_jointreferendum_vote_passed (yes ?t) el then STATUS_PASSED
    else if is_jointreferendum_vote_rejected (no ?t) el then STATUS_REJECTED else STATUS_VOTING"
  have pr2: "proposals s2 = proposals s" by (simp add: s2)
  have "q\<lparr>p_status := STATUS_VOTING\<rparr> = q" using q(2) by simp
  then have fin': "same_ballots s2 s' \<and> proposals s' = (proposals s)(j \<mapsto> q\<lparr>p_status := ?st\<rparr>)"
    using fin q(1) pr2 referendum_set_status [OF tk, of j _ s2 s' q] by (auto split: if_splits)
  from jd have led: "referendum_ledger i elig s"
    and pi: "proposals s i = Some (p\<lparr>p_status := referendum_verdict elig (referendum_tallies (joint s) i)\<rparr>)"
    by (simp_all add: referendum_judged_def)
  show ?thesis
  proof (cases "j = i")
    case False
    have tl: "referendum_votes_by_cid (joint s') i = referendum_votes_by_cid (joint s) i"
      "referendum_tallies (joint s') i = referendum_tallies (joint s) i"
      "population_eligible_total_of i s' = population_eligible_total_of i s"
      using fin' False by (simp_all add: same_ballots_def s2 deposit_event_def record_referendum_vote_def
          population_eligible_total_of_def)
    with fin' False jd show ?thesis by (simp add: referendum_judged_def referendum_ledger_def)
  next
    case True
    from led el True have e: "el = elig" by (simp add: referendum_ledger_def)
    from led have c: "counted ticket_approve (referendum_votes_by_cid (joint s) i) (referendum_tallies (joint s) i)"
      and b64: "elig < 2 ^ 64" by (simp_all add: referendum_ledger_def)
    have lt: "length (referendum_votes_by_cid (joint s) i) < elig"
      using room led True e counted_length [OF c] b64 by (simp add: referendum_ledger_def sat_add_exact)
    let ?r = "record_referendum_vote i ?k ?v s"
    have c2: "counted ticket_approve (referendum_votes_by_cid (joint ?r) i) (referendum_tallies (joint ?r) i)"
      using k True lt b64 by (intro referendum.exact c) simp_all
    have "length (referendum_votes_by_cid (joint ?r) i) = Suc (length (referendum_votes_by_cid (joint s) i))"
      using k True referendum.votes_cast [of ?k s i ?v] by simp
    with lt counted_length [OF c2] have le: "yes (referendum_tallies (joint ?r) i) + no (referendum_tallies (joint ?r) i) \<le> elig"
      by simp
    have l2: "referendum_ledger i elig s2"
      using c2 le led True by (simp add: referendum_ledger_def s2 deposit_event_def population_eligible_total_of_def)
        (simp add: record_referendum_vote_def)
    have t: "?t = referendum_tallies (joint ?r) i" by (simp add: s2 True deposit_event_def)
    have "?st = referendum_verdict elig ?t"
      using referendum_thresholds [OF b64, of "yes ?t" "no ?t"] le led
      by (simp add: t e referendum_verdict_def referendum_ledger_def)
    moreover have "q = p\<lparr>p_status := STATUS_VOTING\<rparr>" using q pi True by auto
    moreover have "referendum_tallies (joint s') i = ?t" using fin' True by (simp add: same_ballots_def)
    ultimately show ?thesis
      using l2 fin' referendum_ledger_frame [of s2 s'] True by (auto simp: referendum_judged_def)
  qed
qed

text \<open>Calls of \<open>cast_referendum\<close> in any order.\<close>

fun referendum_casts :: "'x env \<Rightarrow> (origin \<times> proposal_id \<times> bool) list \<Rightarrow> 'x engine \<Rightarrow> 'x engine" where
  "referendum_casts env [] s = s"
| "referendum_casts env ((o', i, b) # calls) s = referendum_casts env calls (snd (cast_referendum env o' i b s))"

lemma referendum_cast_judged:
  assumes "tracks_keep_ledgers env" "referendum_judged p i elig s"
  shows "referendum_judged p i elig (snd (cast_referendum env o' j b s))"
proof (cases "cast_referendum env o' j b s" rule: outcome_cases)
  case (err e t)
  then have "t = s" unfolding cast_referendum_def by (rule with_transaction_error)
  with err assms(2) show ?thesis by simp
next
  case (ok a t)
  then obtain who where "do_jointreferendum_vote env who j b s = (Inr a, t)" by (auto simp: cast_referendum_def)
  from referendum_vote_judged [OF assms(1) this assms(2)] ok show ?thesis by simp
qed

lemma referendum_casts_judged:
  assumes "tracks_keep_ledgers env"
  shows "referendum_judged p i elig s \<Longrightarrow> referendum_judged p i elig (referendum_casts env calls s)"
proof (induction calls arbitrary: s)
  case (Cons c calls)
  then show ?case by (cases c) (simp add: referendum_cast_judged [OF assms])
qed simp

text \<open>
  C4. The referendum decides by strict majority of the frozen electorate. Take a joint proposal
  that has just entered its referendum with \<open>elig > 0\<close> eligible citizens, and let anyone send any
  sequence of \<open>cast_referendum\<close> calls. Afterwards every citizen number has at most one ballot, the
  tally counts the ballots and never exceeds the electorate; the proposal is PASSED exactly when
  more than half of the electorate has voted yes, REJECTED exactly when at least half has voted
  no, and once as many ballots as eligible citizens are in it is decided.
\<close>

theorem referendum_correct:
  assumes "tracks_keep_ledgers env"
    and "proposals s i = Some p" "p_status p = STATUS_VOTING"
    and "referendum_ledger i elig s" "referendum_votes_by_cid (joint s) i = []"
    and "s' = referendum_casts env calls s" "t = referendum_tallies (joint s') i"
  shows "\<exists>p'. proposals s' i = Some p' \<and>
     counted ticket_approve (referendum_votes_by_cid (joint s') i) t \<and> yes t + no t \<le> elig \<and>
     (p_status p' = STATUS_PASSED \<longleftrightarrow> elig < 2 * yes t) \<and>
     (p_status p' = STATUS_REJECTED \<longleftrightarrow> elig \<le> 2 * no t) \<and>
     (yes t + no t = elig \<longrightarrow> p_status p' \<noteq> STATUS_VOTING)"
proof -
  have "yes (referendum_tallies (joint s) i) = 0" "no (referendum_tallies (joint s) i) = 0" "0 < elig"
    using assms(4,5) by (simp_all add: referendum_ledger_def counted_def)
  then have "referendum_verdict elig (referendum_tallies (joint s) i) = STATUS_VOTING"
    by (simp add: referendum_verdict_def)
  moreover have "p = p\<lparr>p_status := STATUS_VOTING\<rparr>" using assms(3) by simp
  ultimately have "referendum_judged p i elig s" using assms(2,4) by (simp add: referendum_judged_def)
  from referendum_casts_judged [OF assms(1) this, of calls]
  have l: "referendum_ledger i elig s'" and p': "proposals s' i = Some (p\<lparr>p_status := referendum_verdict elig t\<rparr>)"
    by (simp_all add: referendum_judged_def assms(6,7))
  from l have le: "yes t + no t \<le> elig" by (simp add: referendum_ledger_def assms(7))
  show ?thesis
    using p' l le by (auto simp: referendum_ledger_def assms(7) [symmetric] referendum_verdict_def)
qed

text \<open>A referendum with an electorate of three.\<close>

definition joint_env :: "unit env" where
  "joint_env = test_env\<lparr>tracks := [internal_track clear_in_order (\<lambda>_ _. weight_zero) weight_zero,
     joint_track clear_in_order (\<lambda>_ _. weight_zero) weight_zero weight_zero]\<rparr>"

lemma joint_env_keeps: "tracks_keep_ledgers joint_env"
  by (simp add: tracks_keep_ledgers_def joint_env_def internal.ledger_track_axioms joint.ledger_track_axioms)

definition sample_joint_proposal :: "u8 \<Rightarrow> proposal" where
  "sample_joint_proposal stage = (joint_proposal nrc_cid [] 0)\<lparr>p_stage := stage\<rparr>"

definition sample_joint_state :: "u8 \<Rightarrow> unit engine" where
  "sample_joint_state stage = (sample_state STATUS_VOTING)\<lparr>
     proposals := [0 \<mapsto> sample_joint_proposal stage],
     records := (records (engine_genesis ()))\<lparr>proposal_population_snapshots :=
       [0 \<mapsto> \<lparr>ps_population_data = \<lparr>eligible_total = 3, population_context = []\<rparr>, ps_created_at = 0\<rparr>]\<rparr>\<rparr>"

lemma sample_joint_facts:
  "proposals (sample_joint_state g) 0 = Some (sample_joint_proposal g)" "p_status (sample_joint_proposal g) = STATUS_VOTING"
  "referendum_ledger 0 3 (sample_joint_state g)" "referendum_votes_by_cid (joint (sample_joint_state g)) 0 = []"
  by (simp_all add: sample_joint_state_def sample_joint_proposal_def joint_proposal_def sample_state_def engine_genesis_def
      referendum_ledger_def population_eligible_total_of_def)
     (simp add: vote_count_default_def)

theorem referendum_correct_witness:
  "\<exists>p' s'. s' = referendum_casts joint_env [(Signed 1, 0, True), (Signed 1, 0, True), (Signed 2, 0, False)]
       (sample_joint_state STAGE_REFERENDUM) \<and> proposals s' 0 = Some p' \<and>
     (p_status p' = STATUS_PASSED \<longleftrightarrow> 3 < 2 * yes (referendum_tallies (joint s') 0))"
  using referendum_correct [OF joint_env_keeps sample_joint_facts [of STAGE_REFERENDUM] refl refl,
      of "[(Signed 1, 0, True), (Signed 1, 0, True), (Signed 2, 0, False)]"]
  by blast

section \<open>From the institutions to the referendum\<close>

definition to_referendum :: "block_number \<Rightarrow> proposal \<Rightarrow> proposal" where
  "to_referendum now p = p\<lparr>p_stage := STAGE_REFERENDUM, p_start := now, p_end := bn_add now referendum_stage_duration\<rparr>"

lemma advance_proposals:
  assumes "advance_joint_to_referendum env i s = (Inr a, s')"
  shows "\<exists>p. proposals s i = Some p \<and> proposals s' = (proposals s)(i \<mapsto> to_referendum (block_number s) p) \<and>
     same_ballots s s' \<and> block_number s' = block_number s"
  using assms
  by (auto simp: advance_joint_to_referendum_def Let_def schedule_proposal_expiry_def push_expiry_def
      emit_proposal_advanced_to_referendum_def deposit_event_def same_ballots_def to_referendum_def)

text \<open>
  Entering the referendum. When a joint proposal advances, its referendum starts now and
  ends 7200 blocks later, its status and identity are unchanged, it no longer holds any mutex, it
  is filed for automatic finalisation in the block after the new end and no longer in the block
  after the old one, and all ballots, tallies and snapshots are kept. A failed advance changes
  nothing.
\<close>

theorem referendum_entered:
  assumes "advance_joint_to_referendum env i s = (r, s')"
  shows "case r of
      Inl e \<Rightarrow> s' = s
    | Inr _ \<Rightarrow> \<exists>p q. proposals s i = Some p \<and> q = to_referendum (block_number s) p \<and>
        proposals s' = (proposals s)(i \<mapsto> q) \<and>
        p_stage q = STAGE_REFERENDUM \<and> p_end q = bn_add (block_number s) 7200 \<and> p_status q = p_status p \<and>
        proposal_mutex_bindings (locks s') i = [] \<and> same_ballots s s' \<and>
        i \<in> set (proposals_by_expiry s' (bn_add (p_end q) 1)) \<and>
        (bn_add (p_end p) 1 \<noteq> bn_add (p_end q) 1 \<longrightarrow> i \<notin> set (proposals_by_expiry s' (bn_add (p_end p) 1)))"
proof (cases r)
  case (Inl e)
  with assms show ?thesis by (auto simp: advance_joint_to_referendum_def Let_def)
next
  case (Inr u)
  have "referendum_stage_duration = 7200"
    by (simp add: referendum_stage_duration_def sat_into_def max_of_def VOTING_DURATION_BLOCKS_def BLOCKS_PER_DAY_def
        VOTING_DURATION_DAYS_def)
  with Inr assms show ?thesis
    by (auto simp: advance_joint_to_referendum_def Let_def schedule_proposal_expiry_def push_expiry_def
        emit_proposal_advanced_to_referendum_def deposit_event_def same_ballots_def to_referendum_def)
qed

lemma sample_advance_runs: "\<exists>s'. advance_joint_to_referendum joint_env 0 (sample_joint_state STAGE_JOINT) = (Inr (), s')"
  by (simp add: advance_joint_to_referendum_def Let_def with_transaction_def sample_joint_state_def sample_state_def
      engine_genesis_def population_eligible_total_of_def schedule_proposal_expiry_def push_expiry_def try_push_def
      joint_env_def test_env_def remove_id_def)

theorem referendum_entered_witness:
  "\<exists>s' q. advance_joint_to_referendum joint_env 0 (sample_joint_state STAGE_JOINT) = (Inr (), s') \<and>
     proposals s' 0 = Some q \<and> p_stage q = STAGE_REFERENDUM"
proof -
  obtain s' where s': "advance_joint_to_referendum joint_env 0 (sample_joint_state STAGE_JOINT) = (Inr (), s')"
    using sample_advance_runs by blast
  from referendum_entered [OF this] show ?thesis using s' by auto
qed

section \<open>Unanimity of the institutions\<close>

definition institutions_with :: "bool \<Rightarrow> proposal_id \<Rightarrow> 'x engine \<Rightarrow> cid_number set" where
  "institutions_with b i s = {c. (c, b) \<in> set (joint_votes_by_institution (joint s) i)}"

definition joint_results :: "proposal_id \<Rightarrow> 'x engine \<Rightarrow> bool" where
  "joint_results i s \<longleftrightarrow>
     distinct (map fst (joint_votes_by_institution (joint s) i)) \<and>
     fst ` set (joint_votes_by_institution (joint s) i) \<subseteq> set joint_institutions \<and>
     yes (joint_tallies (joint s) i) = sum joint_weight (institutions_with True i s) \<and>
     no (joint_tallies (joint s) i) = sum joint_weight (institutions_with False i s)"

lemma institutions_with_finite [simp]: "finite (institutions_with b i s)"
proof -
  have "institutions_with b i s \<subseteq> fst ` set (joint_votes_by_institution (joint s) i)"
    by (force simp: institutions_with_def)
  then show ?thesis by (rule finite_subset) simp
qed

lemma joint_results_bound: "joint_results i s \<Longrightarrow> institutions_with b i s \<subseteq> set joint_institutions"
  by (force simp: joint_results_def institutions_with_def)

lemma record_result_with:
  assumes "cid \<notin> fst ` set (joint_votes_by_institution (joint s) i)"
  shows "institutions_with b' i (record_institution_result i cid b w s) =
     (if b' = b then insert cid (institutions_with b' i s) else institutions_with b' i s)"
  using assms by (auto simp: institutions_with_def record_institution_result_def kv_insert_new kv_contains_def)

lemma record_result_results:
  assumes "joint_results i s" "cid \<notin> fst ` set (joint_votes_by_institution (joint s) i)" "institution_info cid = Some w"
  shows "joint_results i (record_institution_result i cid b w s)"
proof -
  let ?r = "record_institution_result i cid b w s"
  have mem: "cid \<in> set joint_institutions" using assms(3) institution_info_member [of cid] by simp
  have w: "w = joint_weight cid" using assms(3) by (simp add: joint_weight_def)
  have out: "cid \<notin> institutions_with b i s" using assms(2) by (force simp: institutions_with_def)
  have "insert cid (institutions_with b i s) \<subseteq> set joint_institutions"
    using joint_results_bound [OF assms(1)] mem by simp
  from joint_weight_subset(1) [OF this] out
  have "sum joint_weight (institutions_with b i s) + w < 2 ^ 32" by (simp add: w)
  then have "joint_tallies (joint ?r) i = (if b then (joint_tallies (joint s) i)\<lparr>yes := yes (joint_tallies (joint s) i) + w\<rparr>
      else (joint_tallies (joint s) i)\<lparr>no := no (joint_tallies (joint s) i) + w\<rparr>)"
    using assms(1) by (cases b) (simp_all add: record_institution_result_def add_joint_weight_def joint_results_def sat_add_exact)
  moreover have "joint_votes_by_institution (joint ?r) i = (cid, b) # joint_votes_by_institution (joint s) i"
    using assms(2) by (simp add: record_institution_result_def kv_insert_new kv_contains_def)
  ultimately show ?thesis
    using assms(1,2) mem out by (auto simp: joint_results_def record_result_with [OF assms(2)] w)
qed

text \<open>What the joint stage has come to, from a proposal \<open>p\<close> opened in it.\<close>

definition joint_outcome :: "proposal \<Rightarrow> proposal_id \<Rightarrow> 'x engine \<Rightarrow> bool" where
  "joint_outcome p i s \<longleftrightarrow> joint_results i s \<and>
     (if institutions_with False i s \<noteq> {} then
        \<exists>now. proposals s i = Some (to_referendum now p)
      else if institutions_with True i s = set joint_institutions then
        proposals s i = Some (p\<lparr>p_status := STATUS_PASSED\<rparr>)
      else proposals s i = Some p)"

lemma institution_vote_effect:
  assumes tk: "tracks_keep_ledgers env" and p: "proposals s i = Some p"
    and ok: "finalize_joint_institution_vote env i cid b s = (Inr a, s')"
  obtains w where "cid \<notin> fst ` set (joint_votes_by_institution (joint s) i)" "institution_info cid = Some w"
    "joint s' = joint (record_institution_result i cid b w s)"
    "proposals s' = (proposals s)(i \<mapsto>
       (let t = joint_tallies (joint s') i in
        if b \<and> 105 \<le> yes t then p\<lparr>p_status := STATUS_PASSED\<rparr>
        else if \<not> b \<or> 105 \<le> sat_add 32 (yes t) (no t) then to_referendum (block_number s) p else p))"
proof -
  from ok obtain w where g: "\<not> kv_contains cid (joint_votes_by_institution (joint s) i)" "institution_info cid = Some w"
    by (auto simp: finalize_joint_institution_vote_def)
  define s2 where "s2 = deposit_event (JointInstitutionVoteFinalized i cid b) (record_institution_result i cid b w s)"
  let ?t = "joint_tallies (joint s2) i"
  have s2: "joint s2 = joint (record_institution_result i cid b w s)" "proposals s2 = proposals s"
    "block_number s2 = block_number s"
    by (simp_all add: s2_def deposit_event_def) (simp add: record_institution_result_def)
  have j105: "JOINT_VOTE_TOTAL = 105" "is_joint_unanimous y \<longleftrightarrow> 105 \<le> y" for y
    by (simp_all add: joint_total is_joint_unanimous_def JOINT_VOTE_PASS_THRESHOLD_def)
  from ok g consider
      (pass) "b" "105 \<le> yes ?t" "set_status_and_emit env i STATUS_PASSED s2 = (Inr (), s')"
    | (adv) "\<not> (b \<and> 105 \<le> yes ?t)" "\<not> b \<or> 105 \<le> sat_add 32 (yes ?t) (no ?t)" "advance_joint_to_referendum env i s2 = (Inr (), s')"
    | (stay) "b" "\<not> 105 \<le> yes ?t" "\<not> 105 \<le> sat_add 32 (yes ?t) (no ?t)" "s' = s2"
    by (auto simp: finalize_joint_institution_vote_def Let_def s2_def [symmetric] j105 split: if_splits)
      (auto simp: s2_def deposit_event_def)
  then show ?thesis
  proof cases
    case pass
    with referendum_set_status [OF tk pass(3)] p s2 have "joint s' = joint s2"
      "proposals s' = (proposals s)(i \<mapsto> p\<lparr>p_status := STATUS_PASSED\<rparr>)" by (auto simp: same_ballots_def)
    with pass s2 g show ?thesis by (intro that [of w]) (auto simp: kv_contains_def Let_def)
  next
    case adv
    with advance_proposals [OF adv(3)] p s2 have "joint s' = joint s2"
      "proposals s' = (proposals s)(i \<mapsto> to_referendum (block_number s) p)" by (auto simp: same_ballots_def)
    with adv s2 g show ?thesis by (intro that [of w]) (auto simp: kv_contains_def Let_def)
  next
    case stay
    have "proposals s = (proposals s)(i \<mapsto> p)" using p by auto
    with stay s2 g show ?thesis by (intro that [of w]) (auto simp: kv_contains_def Let_def)
  qed
qed

text \<open>A ballot of a seat touches the results of no institution; a decided institution adds one.\<close>

lemma joint_vote_ok:
  assumes "do_joint_vote env who j cid role b s = (Inr a, s')"
  obtains p k s2 where "proposals s j = Some p" "p_status p = STATUS_VOTING" "p_stage p = STAGE_JOINT"
    "s2 = deposit_event (JointInstitutionTicketVoteCast j cid who role b) (record_joint_vote j cid k b s)"
    "s' = s2 \<or> (\<exists>approved. finalize_joint_institution_vote env j cid approved s2 = (Inr (), s'))"
proof -
  from assms obtain p k where g: "ensure_open_proposal j s = Inr p" "p_stage p = STAGE_JOINT"
    and f: "let s2 = deposit_event (JointInstitutionTicketVoteCast j cid who role b) (record_joint_vote j cid k b s) in
      s' = s2 \<or> (\<exists>approved. finalize_joint_institution_vote env j cid approved s2 = (Inr (), s'))"
    by (auto simp: do_joint_vote_def pure_result_def Let_def split: if_splits)
  show ?thesis using that ensure_open_ok [OF g(1)] g(2) f by (auto simp: Let_def)
qed

lemma joint_outcome_step:
  assumes j: "joint_outcome p i s" and p: "p_status p = STATUS_VOTING" "p_stage p = STAGE_JOINT"
    and q: "proposals s i = Some q" "p_status q = STATUS_VOTING" "p_stage q = STAGE_JOINT"
    and new: "cid \<notin> fst ` set (joint_votes_by_institution (joint s) i)" "institution_info cid = Some w"
    and s': "joint s' = joint (record_institution_result i cid b w s)"
      "proposals s' = (proposals s)(i \<mapsto>
       (let t = joint_tallies (joint s') i in
        if b \<and> 105 \<le> yes t then q\<lparr>p_status := STATUS_PASSED\<rparr>
        else if \<not> b \<or> 105 \<le> sat_add 32 (yes t) (no t) then to_referendum (block_number s) q else q))"
  shows "joint_outcome p i s'"
proof -
  let ?r = "record_institution_result i cid b w s"
  from j q p have nf: "institutions_with False i s = {}" and qp: "q = p"
    by (auto simp: joint_outcome_def to_referendum_def split: if_splits)
  from j have res: "joint_results i s" by (simp add: joint_outcome_def)
  from s'(1) have w': "institutions_with b' i s' = institutions_with b' i ?r" for b' by (simp add: institutions_with_def)
  have res': "joint_results i s'"
    using record_result_results [OF res new, of b] s'(1) by (simp add: joint_results_def institutions_with_def)
  have sub: "institutions_with True i s' \<subseteq> set joint_institutions" by (rule joint_results_bound [OF res'])
  show ?thesis
  proof (cases b)
    case False
    then have "institutions_with False i s' \<noteq> {}" by (simp add: w' record_result_with [OF new(1)])
    with False res' s'(2) qp show ?thesis by (auto simp: joint_outcome_def Let_def)
  next
    case True
    then have nf': "institutions_with False i s' = {}" by (simp add: w' record_result_with [OF new(1)] nf)
    have y: "yes (joint_tallies (joint s') i) = sum joint_weight (institutions_with True i s')"
      and n: "no (joint_tallies (joint s') i) = 0"
      using res' nf' by (simp_all add: joint_results_def)
    have "105 \<le> yes (joint_tallies (joint s') i) \<longleftrightarrow> institutions_with True i s' = set joint_institutions"
      using joint_weight_subset [OF sub] y by auto
    moreover have "105 \<le> sat_add 32 (yes (joint_tallies (joint s') i)) (no (joint_tallies (joint s') i)) \<longleftrightarrow>
        105 \<le> yes (joint_tallies (joint s') i)"
      using joint_weight_subset(1) [OF sub] y n by (simp add: sat_add_exact)
    ultimately show ?thesis using True res' nf' s'(2) qp by (auto simp: joint_outcome_def Let_def)
  qed
qed

lemma joint_outcome_frame:
  assumes "joint_votes_by_institution (joint s') i = joint_votes_by_institution (joint s) i"
    "joint_tallies (joint s') i = joint_tallies (joint s) i" "proposals s' i = proposals s i"
  shows "joint_outcome p i s' = joint_outcome p i s"
  using assms by (simp add: joint_outcome_def joint_results_def institutions_with_def)

lemma joint_vote_outcome:
  assumes tk: "tracks_keep_ledgers env" and ok: "do_joint_vote env who j cid role b s = (Inr a, s')"
    and o: "joint_outcome p i s" and p: "p_status p = STATUS_VOTING" "p_stage p = STAGE_JOINT"
  shows "joint_outcome p i s'"
  using ok
proof (rule joint_vote_ok)
  fix q k s2
  assume q: "proposals s j = Some q" "p_status q = STATUS_VOTING" "p_stage q = STAGE_JOINT"
    and s2: "s2 = deposit_event (JointInstitutionTicketVoteCast j cid who role b) (record_joint_vote j cid k b s)"
    and fin: "s' = s2 \<or> (\<exists>approved. finalize_joint_institution_vote env j cid approved s2 = (Inr (), s'))"
  have o2: "joint_outcome p i s2"
    using o joint_outcome_frame [of s2 i s p] by (simp add: s2 deposit_event_def record_joint_vote_def)
  from s2 q have q2: "proposals s2 j = Some q" by simp
  from fin show ?thesis
  proof
    assume "\<exists>approved. finalize_joint_institution_vote env j cid approved s2 = (Inr (), s')"
    then obtain ap where f: "finalize_joint_institution_vote env j cid ap s2 = (Inr (), s')" by blast
    show ?thesis
    proof (rule institution_vote_effect [OF tk q2 f])
      fix w assume e: "cid \<notin> fst ` set (joint_votes_by_institution (joint s2) j)" "institution_info cid = Some w"
        "joint s' = joint (record_institution_result j cid ap w s2)"
        "proposals s' = (proposals s2)(j \<mapsto>
           (let t = joint_tallies (joint s') j in
            if ap \<and> 105 \<le> yes t then q\<lparr>p_status := STATUS_PASSED\<rparr>
            else if \<not> ap \<or> 105 \<le> sat_add 32 (yes t) (no t) then to_referendum (block_number s2) q else q))"
      show ?thesis
      proof (cases "j = i")
        case True
        with joint_outcome_step [OF o2 p _ q(2,3) _ e(2)] e q2 show ?thesis by blast
      next
        case False
        with e o2 show ?thesis
          using joint_outcome_frame [of s' i s2 p] by (simp add: record_institution_result_def)
      qed
    qed
  qed (use o2 in simp)
qed

fun joint_casts :: "'x env \<Rightarrow> (origin \<times> proposal_id \<times> cid_number \<times> role_code \<times> bool) list \<Rightarrow> 'x engine \<Rightarrow> 'x engine" where
  "joint_casts env [] s = s"
| "joint_casts env ((o', i, cid, role, b) # calls) s =
     joint_casts env calls (snd (cast_admin env o' i cid role b s))"

lemma joint_casts_outcome:
  assumes tk: "tracks_keep_ledgers env" and p: "p_status p = STATUS_VOTING" "p_stage p = STAGE_JOINT"
  shows "joint_outcome p i s \<Longrightarrow> joint_outcome p i (joint_casts env calls s)"
proof (induction calls arbitrary: s)
  case (Cons c calls)
  obtain o' j cid role b where c: "c = (o', j, cid, role, b)" by (cases c) auto
  have "joint_outcome p i (snd (cast_admin env o' j cid role b s))"
  proof (cases "cast_admin env o' j cid role b s" rule: outcome_cases)
    case (err e t)
    then have "t = s" unfolding cast_admin_def by (rule with_transaction_error)
    with err Cons.prems show ?thesis by simp
  next
    case (ok a t)
    then obtain who where "do_joint_vote env who j cid role b s = (Inr a, t)" by (auto simp: cast_admin_def)
    from joint_vote_outcome [OF tk this Cons.prems p] ok show ?thesis by simp
  qed
  with Cons.IH c show ?case by simp
qed simp

text \<open>
  C3. Unanimity or referendum. Take a joint proposal just opened in its joint stage and any
  sequence of \<open>cast_admin\<close> calls by anyone. Each of the 87 institutions has at most one result and
  the weighted tallies are the sums of the weights of the approving and the rejecting
  institutions, at most 105 together. The proposal is PASSED exactly when all 87 institutions have
  approved; it is in the referendum stage exactly when some institution has rejected; otherwise it
  is untouched and still open in the joint stage.
\<close>

theorem joint_unanimity:
  assumes "tracks_keep_ledgers env"
    and "proposals s i = Some p" "p_status p = STATUS_VOTING" "p_stage p = STAGE_JOINT"
    and "joint_votes_by_institution (joint s) i = []" "joint_tallies (joint s) i = vote_count_default"
    and "s' = joint_casts env calls s"
  shows "\<exists>p'. proposals s' i = Some p' \<and>
     distinct (map fst (joint_votes_by_institution (joint s') i)) \<and>
     yes (joint_tallies (joint s') i) = sum joint_weight (institutions_with True i s') \<and>
     no (joint_tallies (joint s') i) = sum joint_weight (institutions_with False i s') \<and>
     yes (joint_tallies (joint s') i) \<le> 105 \<and>
     (p_status p' = STATUS_PASSED \<longleftrightarrow> institutions_with True i s' = set joint_institutions \<and> institutions_with False i s' = {}) \<and>
     (p_stage p' = STAGE_REFERENDUM \<longleftrightarrow> institutions_with False i s' \<noteq> {}) \<and>
     (p_stage p' = STAGE_JOINT \<and> p_status p' = STATUS_VOTING \<longrightarrow> p' = p)"
proof -
  have "set joint_institutions \<noteq> {}" using joint_institutions_count by (auto simp: joint_institutions_def)
  then have "joint_outcome p i s"
    using assms(2,5,6) by (simp add: joint_outcome_def joint_results_def institutions_with_def vote_count_default_def)
  then have o: "joint_outcome p i s'" unfolding assms(7) by (rule joint_casts_outcome [OF assms(1,3,4)])
  then have res: "joint_results i s'" by (simp add: joint_outcome_def)
  have "sum joint_weight (institutions_with True i s') \<le> 105"
    using joint_weight_subset(1) joint_results_bound [OF res] by blast
  with o assms(3,4) res show ?thesis
    by (auto simp: joint_outcome_def joint_results_def to_referendum_def split: if_splits)
qed

theorem joint_unanimity_witness:
  "\<exists>p' s'. s' = joint_casts joint_env [(Signed 1, 0, nrc_cid, ''a'', True)] (sample_joint_state STAGE_JOINT) \<and>
     proposals s' 0 = Some p' \<and> (p_stage p' = STAGE_REFERENDUM \<longleftrightarrow> institutions_with False 0 s' \<noteq> {})"
proof -
  have "p_stage (sample_joint_proposal STAGE_JOINT) = STAGE_JOINT" "joint_votes_by_institution (joint (sample_joint_state STAGE_JOINT)) 0 = []"
    "joint_tallies (joint (sample_joint_state STAGE_JOINT)) 0 = vote_count_default"
    by (simp_all add: sample_joint_proposal_def sample_joint_state_def sample_state_def engine_genesis_def)
  from joint_unanimity [OF joint_env_keeps sample_joint_facts(1,2) this refl, of "[(Signed 1, 0, nrc_cid, ''a'', True)]"]
  show ?thesis by blast
qed

end
