(* ===== verification/Legislation_Vote.thy ===== *)
theory Legislation_Vote
  imports Joint_Vote
begin

text \<open>
  The legislative vote (\<^verbatim>\<open>votingengine/legislation-vote/src\<close>): the representative bodies vote one
  after the other (\<^verbatim>\<open>representative/\<close>); a law then goes to a referendum
  (\<^verbatim>\<open>legislation/referendum.rs\<close>) or to the executive and the three countersigners
  (\<^verbatim>\<open>legislation/signing.rs\<close>), an amendment of the constitution finally to the seven justices
  (\<^verbatim>\<open>legislation/guard.rs\<close>); stage changes (\<^verbatim>\<open>result.rs\<close>), calls and creation (\<^verbatim>\<open>lib.rs\<close>),
  cleanup and the track (\<^verbatim>\<open>cleanup.rs\<close>).
\<close>

section \<open>Institutions and scopes\<close>

definition stage_duration :: block_number where
  "stage_duration = sat_into 32 VOTING_DURATION_BLOCKS"

lemma stage_7200: "stage_duration = 7200"
  by (simp add: stage_duration_def sat_into_def max_of_def VOTING_DURATION_BLOCKS_def BLOCKS_PER_DAY_def
      VOTING_DURATION_DAYS_def)

definition institution_code_for_cid :: "cid_number \<Rightarrow> dispatch_error + institution_code" where
  "institution_code_for_cid cid =
     (if \<not> utf8_valid cid then Inl (LegislationVote InvalidInstitutionCid)
      else case institution_code_from_cid_number cid of
        None \<Rightarrow> Inl (LegislationVote InvalidInstitutionCid) | Some code \<Rightarrow> Inr code)"

definition AREA_CODE_BOUND :: u32 where "AREA_CODE_BOUND = 16"

definition population_scope_for_actor :: "institution_code \<Rightarrow> cid_number \<Rightarrow> dispatch_error + population_scope" where
  "population_scope_for_actor code cid =
     (if code = code_bytes ''NRP'' \<or> code = code_bytes ''NED'' then Inr ScopeCountry
      else if code = code_bytes ''PRP'' then
        (case cid_scope_codes cid of
           Inl _ \<Rightarrow> Inl (LegislationVote InvalidInstitutionCid)
         | Inr (province, _) \<Rightarrow>
             if length province \<le> AREA_CODE_BOUND then Inr (ScopeProvince province)
             else Inl (LegislationVote InvalidInstitutionCid))
      else if code = code_bytes ''CSLF'' \<or> code = code_bytes ''CEDU'' \<or> code = code_bytes ''CLEG'' then
        (case cid_scope_codes cid of
           Inl _ \<Rightarrow> Inl (LegislationVote InvalidInstitutionCid)
         | Inr (province, city) \<Rightarrow>
             if length province \<le> AREA_CODE_BOUND \<and> length city \<le> AREA_CODE_BOUND then Inr (ScopeCity province city)
             else Inl (LegislationVote InvalidInstitutionCid))
      else Inl (LegislationVote InvalidInstitutionCid))"

definition resolve_subject_cid_numbers ::
  "cid_number \<Rightarrow> representative_route \<Rightarrow> cid_number list \<Rightarrow> representative_body list \<Rightarrow> ve_error + cid_number list" where
  "resolve_subject_cid_numbers actor route additional institutions =
     bound_subject_cid_numbers
       (additional @ [actor] @ map rs_cid_number (route_bodies route) @ map rs_cid_number institutions)"

fun first_error :: "('a \<Rightarrow> 'e + 'b) \<Rightarrow> 'a list \<Rightarrow> 'e option" where
  "first_error f [] = None"
| "first_error f (x # xs) = (case f x of Inl e \<Rightarrow> Some e | Inr _ \<Rightarrow> first_error f xs)"

definition validate_representative_route ::
  "representative_route \<Rightarrow> dispatch_error + institution_code \<times> representative_body" where
  "validate_representative_route route =
     (let bodies = route_bodies route in
      if bodies = [] then Inl (LegislationVote InvalidRepresentativeRoute)
      else if (case route of Single _ \<Rightarrow> False
                 | Sequential q \<Rightarrow> \<not> (2 \<le> length q \<and> length q \<le> MAX_REPRESENTATIVE_BODIES))
      then Inl (LegislationVote InvalidRepresentativeRoute)
      else if has_duplicate bodies then Inl (LegislationVote InvalidRepresentativeRoute)
      else case first_error (\<lambda>b. institution_code_for_cid (rs_cid_number b)) bodies of
        Some e \<Rightarrow> Inl e
      | None \<Rightarrow>
          let first_body = hd bodies in
          (case institution_code_for_cid (rs_cid_number first_body) of
             Inl e \<Rightarrow> Inl e | Inr code \<Rightarrow> Inr (code, first_body)))"

section \<open>Stages\<close>

text \<open>
  The proposal is written with its new window, moved from the expiry bucket of its old end to
  that of its new one.
\<close>

definition reschedule ::
  "'x env \<Rightarrow> proposal_id \<Rightarrow> (proposal \<Rightarrow> proposal) \<Rightarrow> 'x engine \<Rightarrow> (dispatch_error, unit, 'x engine) outcome" where
  "reschedule env i change s =
     (let now = block_number s; end = bn_add now stage_duration in
      ok_or (proposals s i) (VotingEngine ProposalNotFound) s (\<lambda>p.
        let s1 = s\<lparr>proposals := (proposals s)(i \<mapsto> (change p)\<lparr>p_start := now, p_end := end\<rparr>)\<rparr>;
            old_expiry = bn_add (p_end p) 1;
            s2 = s1\<lparr>proposals_by_expiry := (proposals_by_expiry s1)
                   (old_expiry := remove_id i (proposals_by_expiry s1 old_expiry))\<rparr>
        in schedule_proposal_expiry env i end s2))"

definition transition_stage ::
  "'x env \<Rightarrow> proposal_id \<Rightarrow> u8 \<Rightarrow> 'x engine \<Rightarrow> (dispatch_error, unit, 'x engine) outcome" where
  "transition_stage env i new_stage = with_transaction (reschedule env i (\<lambda>p. p\<lparr>p_stage := new_stage\<rparr>))"

definition advance_to_sign :: "'x env \<Rightarrow> proposal_id \<Rightarrow> 'x engine \<Rightarrow> (dispatch_error, unit, 'x engine) outcome" where
  "advance_to_sign env i s =
     and_then (transition_stage env i STAGE_LEG_SIGN s) (\<lambda>_ s.
       (Inr (), deposit_event (LegislationAdvancedToSign i) (upd_locks (release_internal_proposal_mutexes i) s)))"

definition advance_to_override :: "'x env \<Rightarrow> proposal_id \<Rightarrow> 'x engine \<Rightarrow> (dispatch_error, unit, 'x engine) outcome" where
  "advance_to_override env i s =
     (let s1 = upd_legislation (\<lambda>v. v\<lparr>leg_override_signs := (leg_override_signs v)(i := [])\<rparr>) s in
      and_then (transition_stage env i STAGE_LEG_OVERRIDE s1) (\<lambda>_ s.
        (Inr (), deposit_event (LegislationAdvancedToOverride i) s)))"

definition advance_to_guard :: "'x env \<Rightarrow> proposal_id \<Rightarrow> 'x engine \<Rightarrow> (dispatch_error, unit, 'x engine) outcome" where
  "advance_to_guard env i s =
     (let s1 = upd_legislation (\<lambda>v. v\<lparr>leg_guard_signs := (leg_guard_signs v)(i := [])\<rparr>) s in
      and_then (transition_stage env i STAGE_LEG_CONSTITUTION_GUARD s1) (\<lambda>_ s.
        (Inr (), deposit_event (LegislationAdvancedToGuard i) s)))"

definition finalize_or_guard ::
  "'x env \<Rightarrow> proposal_id \<Rightarrow> bool \<Rightarrow> 'x engine \<Rightarrow> (dispatch_error, unit, 'x engine) outcome" where
  "finalize_or_guard env i needs_guard s =
     (if needs_guard then advance_to_guard env i s else set_status_and_emit env i STATUS_PASSED s)"

definition advance_to_referendum ::
  "'x env \<Rightarrow> proposal_id \<Rightarrow> 'x engine \<Rightarrow> (dispatch_error, unit, 'x engine) outcome" where
  "advance_to_referendum env i =
     with_transaction (\<lambda>s.
       ok_or (population_eligible_total_of i s) (LegislationVote LegCitizenEligibleTotalNotSet) s (\<lambda>elig.
       and_then (reschedule env i (\<lambda>p. p\<lparr>p_stage := STAGE_LEG_REFERENDUM\<rparr>) s) (\<lambda>_ t.
         (Inr (), deposit_event (LegislationAdvancedToReferendum i elig)
            (emit_proposal_advanced_to_referendum i (bn_add (block_number s) stage_duration) elig
              (upd_locks (release_internal_proposal_mutexes i) t))))))"

section \<open>The representative bodies\<close>

definition finish_representative_route ::
  "'x env \<Rightarrow> proposal_id \<Rightarrow> 'x engine \<Rightarrow> (dispatch_error, unit, 'x engine) outcome" where
  "finish_representative_route env i s =
     ok_or (representative_metas (legislation s) i) (LegislationVote ProposalMetaMissing) s (\<lambda>m.
       case rm_procedure m of
         RepresentativeOnly \<Rightarrow> set_status_and_emit env i STATUS_PASSED s
       | LegislationProcedure \<Rightarrow>
           if rm_rule m = RuleSpecial then advance_to_referendum env i s else advance_to_sign env i s)"

definition set_current_body :: "proposal_id \<Rightarrow> u32 \<Rightarrow> 'x engine \<Rightarrow> 'x engine" where
  "set_current_body i k s =
     upd_legislation (\<lambda>v. v\<lparr>representative_metas := (representative_metas v)
       (i := map_option (\<lambda>m. m\<lparr>rm_current_body := k\<rparr>) (representative_metas v i))\<rparr>) s"

definition advance_representative_body_or_finish ::
  "'x env \<Rightarrow> proposal_id \<Rightarrow> 'x engine \<Rightarrow> (dispatch_error, unit, 'x engine) outcome" where
  "advance_representative_body_or_finish env i s =
     ok_or (representative_metas (legislation s) i) (LegislationVote ProposalMetaMissing) s (\<lambda>m.
       let next = sat_add 32 (rm_current_body m) 1 in
       if next < route_len (rm_route m) then
         ok_or (route_body (rm_route m) next) (LegislationVote InvalidRepresentativeRoute) s (\<lambda>next_body.
         and_then (pure_result (institution_code_for_cid (rs_cid_number next_body)) s) (\<lambda>code s.
           with_transaction (\<lambda>s.
             and_then (reschedule env i (\<lambda>p. p\<lparr>p_internal_code := Some code\<rparr>) (set_current_body i next s)) (\<lambda>_ s.
               (Inr (), deposit_event (RepresentativeBodyAdvanced i next) s))) s))
       else finish_representative_route env i s)"

text \<open>\<^verbatim>\<open>representative/single.rs\<close> and \<^verbatim>\<open>representative/sequential.rs\<close>, by the kind of the route.\<close>

definition body_approved ::
  "'x env \<Rightarrow> representative_meta \<Rightarrow> proposal_id \<Rightarrow> 'x engine \<Rightarrow> (dispatch_error, unit, 'x engine) outcome" where
  "body_approved env m i s =
     (case rm_route m of
        Single _ \<Rightarrow> finish_representative_route env i s
      | Sequential _ \<Rightarrow> advance_representative_body_or_finish env i s)"

definition representative_tally :: "proposal_id \<Rightarrow> u32 \<Rightarrow> 'x engine \<Rightarrow> vote_count" where
  "representative_tally i k s =
     (case map_of (representative_tallies (legislation s) i) k of None \<Rightarrow> vote_count_default | Some t \<Rightarrow> t)"

definition record_representative_vote ::
  "proposal_id \<Rightarrow> u32 \<times> institution_vote_ticket \<Rightarrow> bool \<Rightarrow> 'x engine \<Rightarrow> 'x engine" where
  "record_representative_vote i key approve s =
     upd_legislation (\<lambda>v. v\<lparr>
       representative_votes_by_ticket := (representative_votes_by_ticket v)
         (i := kv_insert key approve (representative_votes_by_ticket v i)),
       representative_tallies := (representative_tallies v)
         (i := kv_insert (fst key) (add_vote 32 approve (representative_tally i (fst key) s)) (representative_tallies v i))\<rparr>) s"

definition do_cast_representative_vote ::
  "'x env \<Rightarrow> account \<Rightarrow> proposal_id \<Rightarrow> role_code \<Rightarrow> bool \<Rightarrow> 'x engine \<Rightarrow> (dispatch_error, unit, 'x engine) outcome" where
  "do_cast_representative_vote env who i role approve s =
     and_then (pure_result (ensure_open_proposal i s) s) (\<lambda>p s.
     ensure (p_kind p = PROPOSAL_KIND_LEGISLATION) (VotingEngine InvalidProposalKind) s (\<lambda>s.
     ensure (p_stage p = STAGE_LEG_REPRESENTATIVE) (VotingEngine InvalidProposalStage) s (\<lambda>s.
     ok_or (representative_metas (legislation s) i) (LegislationVote ProposalMetaMissing) s (\<lambda>m.
     ok_or (route_body (rm_route m) (rm_current_body m)) (LegislationVote InvalidRepresentativeRoute) s (\<lambda>body.
     ensure (rs_role_code body = role) (VotingEngine NoPermission) s (\<lambda>s.
     let subject = Institution body;
         voter = (case resolve_subject_voter env subject who s of None \<Rightarrow> who | Some v \<Rightarrow> v);
         key = (rm_current_body m, \<lparr>t_role_subject = body, t_voter_account_id = voter\<rparr>) in
     ensure (\<not> kv_contains key (representative_votes_by_ticket (legislation s) i)) (VotingEngine AlreadyVoted) s (\<lambda>s.
     ensure (is_subject_voter_in_snapshot env i subject who s) (VotingEngine NoPermission) s (\<lambda>s.
     let s1 = record_representative_vote i key approve s;
         tally = representative_tally i (rm_current_body m) s1;
         s2 = deposit_event (RepresentativeVoteCast i (rm_current_body m) who role approve) s1 in
     ok_or (subject_voters_len i subject s2) (VotingEngine MissingVoterSnapshot) s2 (\<lambda>voters_len.
       case representative_decided (rm_rule m) voters_len (yes tally) (no tally) of
         Some True \<Rightarrow> body_approved env m i s2
       | Some False \<Rightarrow> set_status_and_emit env i STATUS_REJECTED s2
       | None \<Rightarrow> (Inr (), s2))))))))))"

definition do_finalize_representative_timeout ::
  "'x env \<Rightarrow> proposal \<Rightarrow> proposal_id \<Rightarrow> 'x engine \<Rightarrow> (dispatch_error, unit, 'x engine) outcome" where
  "do_finalize_representative_timeout env p i s =
     ensure (p_stage p = STAGE_LEG_REPRESENTATIVE) (VotingEngine InvalidProposalStage) s (\<lambda>s.
     ensure (p_status p = STATUS_VOTING) (VotingEngine ProposalAlreadyFinalized) s (\<lambda>s.
     ensure (p_end p < block_number s) (VotingEngine VoteNotExpired) s (\<lambda>s.
     ok_or (representative_metas (legislation s) i) (LegislationVote ProposalMetaMissing) s (\<lambda>m.
     ok_or (route_body (rm_route m) (rm_current_body m)) (LegislationVote InvalidRepresentativeRoute) s (\<lambda>body.
     ok_or (subject_voters_len i (Institution body) s) (VotingEngine MissingVoterSnapshot) s (\<lambda>voters_len.
       let tally = representative_tally i (rm_current_body m) s in
       if representative_final_passed (rm_rule m) voters_len (yes tally) (no tally) then body_approved env m i s
       else set_status_and_emit env i STATUS_REJECTED s))))))"

section \<open>The referendum\<close>

definition record_leg_referendum_vote ::
  "proposal_id \<Rightarrow> cid_number \<Rightarrow> citizen_referendum_ticket \<Rightarrow> 'x engine \<Rightarrow> 'x engine" where
  "record_leg_referendum_vote i cid ticket s =
     upd_legislation (\<lambda>v. v\<lparr>
       leg_referendum_votes_by_cid := (leg_referendum_votes_by_cid v)
         (i := kv_insert cid ticket (leg_referendum_votes_by_cid v i)),
       leg_referendum_tally := (leg_referendum_tally v)(i := add_vote 64 (ticket_approve ticket) (leg_referendum_tally v i))\<rparr>) s"

definition do_cast_referendum_vote ::
  "'x env \<Rightarrow> account \<Rightarrow> proposal_id \<Rightarrow> bool \<Rightarrow> 'x engine \<Rightarrow> (dispatch_error, unit, 'x engine) outcome" where
  "do_cast_referendum_vote env who i approve s =
     and_then (pure_result (ensure_open_proposal i s) s) (\<lambda>p s.
     ensure (p_kind p = PROPOSAL_KIND_LEGISLATION) (VotingEngine InvalidProposalKind) s (\<lambda>s.
     ensure (p_stage p = STAGE_LEG_REFERENDUM) (VotingEngine InvalidProposalStage) s (\<lambda>s.
     ok_or (population_eligible_total_of i s) (LegislationVote LegCitizenEligibleTotalNotSet) s (\<lambda>elig.
     ensure (0 < elig) (LegislationVote LegCitizenEligibleTotalNotSet) s (\<lambda>s.
     ok_or (voting_subject_at_population_snapshot env i who s) (LegislationVote LegCitizenNotEligible) s (\<lambda>subject.
     let cid = cs_cid_number subject in
     ensure (\<not> kv_contains cid (leg_referendum_votes_by_cid (legislation s) i)) (VotingEngine AlreadyVoted) s (\<lambda>s.
     let current = leg_referendum_tally (legislation s) i in
     ensure (sat_add 64 (yes current) (no current) < elig) (LegislationVote LegReferendumSnapshotExhausted) s (\<lambda>s.
       (Inr (), deposit_event (LegislationReferendumVoteCast i subject approve)
          (record_leg_referendum_vote i cid \<lparr>voter_subject = subject, ticket_approve = approve\<rparr> s))))))))))"

definition do_finalize_referendum_timeout ::
  "'x env \<Rightarrow> proposal \<Rightarrow> proposal_id \<Rightarrow> 'x engine \<Rightarrow> (dispatch_error, unit, 'x engine) outcome" where
  "do_finalize_referendum_timeout env p i s =
     ensure (p_stage p = STAGE_LEG_REFERENDUM) (VotingEngine InvalidProposalStage) s (\<lambda>s.
     ensure (p_status p = STATUS_VOTING) (VotingEngine ProposalAlreadyFinalized) s (\<lambda>s.
     ensure (p_end p < block_number s) (VotingEngine VoteNotExpired) s (\<lambda>s.
     let tally = leg_referendum_tally (legislation s) i in
     ok_or (population_eligible_total_of i s) (LegislationVote LegCitizenEligibleTotalNotSet) s (\<lambda>elig.
       if referendum_passed elig (yes tally) (no tally) then
         ok_or (legislation_metas (legislation s) i) (LegislationVote ProposalMetaMissing) s (\<lambda>lm.
           finalize_or_guard env i (lm_needs_guard lm) s)
       else set_status_and_emit env i STATUS_REJECTED s))))"

section \<open>Signatures\<close>

definition do_executive_sign ::
  "'x env \<Rightarrow> account \<Rightarrow> proposal_id \<Rightarrow> bool \<Rightarrow> 'x engine \<Rightarrow> (dispatch_error, unit, 'x engine) outcome" where
  "do_executive_sign env who i approve s =
     ok_or (proposals s i) (VotingEngine ProposalNotFound) s (\<lambda>p.
     ensure (p_status p = STATUS_VOTING) (LegislationVote NotInExpectedStage) s (\<lambda>s.
     ensure (p_stage p = STAGE_LEG_SIGN) (LegislationVote NotInExpectedStage) s (\<lambda>s.
     ok_or (legislation_metas (legislation s) i) (LegislationVote ProposalMetaMissing) s (\<lambda>lm.
     ok_or (lm_executive lm) (LegislationVote NotLegalRepresentative) s (\<lambda>executive.
     ensure (is_subject_voter_in_snapshot env i (Institution executive) who s)
       (LegislationVote NotLegalRepresentative) s (\<lambda>s.
     let s1 = deposit_event (LegislationExecutiveSigned i who approve) s in
     if approve then finalize_or_guard env i (lm_needs_guard lm) s1
     else if lm_override_signers lm \<noteq> [] then advance_to_override env i s1
     else set_status_and_emit env i STATUS_REJECTED s1))))))"

definition do_override_sign ::
  "'x env \<Rightarrow> account \<Rightarrow> proposal_id \<Rightarrow> bool \<Rightarrow> 'x engine \<Rightarrow> (dispatch_error, unit, 'x engine) outcome" where
  "do_override_sign env who i approve s =
     ok_or (proposals s i) (VotingEngine ProposalNotFound) s (\<lambda>p.
     ensure (p_status p = STATUS_VOTING) (LegislationVote NotInExpectedStage) s (\<lambda>s.
     ensure (p_stage p = STAGE_LEG_OVERRIDE) (LegislationVote NotInExpectedStage) s (\<lambda>s.
     ok_or (legislation_metas (legislation s) i) (LegislationVote ProposalMetaMissing) s (\<lambda>lm.
     ensure (list_ex (\<lambda>subject. is_subject_voter_in_snapshot env i (Institution subject) who s) (lm_override_signers lm))
       (LegislationVote NotOverrideSigner) s (\<lambda>s.
     let signs = leg_override_signs (legislation s) i in
     ensure (\<not> list_ex (\<lambda>e. fst e = who) signs) (LegislationVote AlreadySigned) s (\<lambda>s.
     let s1 = deposit_event (LegislationOverrideSigned i who approve) s in
     if \<not> approve then set_status_and_emit env i STATUS_REJECTED s1
     else ok_or (try_push 3 signs (who, True)) (LegislationVote AlreadySigned) s1 (\<lambda>signs.
       let approvals = length (filter snd signs);
           s2 = upd_legislation (\<lambda>v. v\<lparr>leg_override_signs := (leg_override_signs v)(i := signs)\<rparr>) s1 in
       if override_approved approvals then finalize_or_guard env i (lm_needs_guard lm) s2
       else (Inr (), s2))))))))"

definition do_finalize_sign_timeout ::
  "'x env \<Rightarrow> proposal \<Rightarrow> proposal_id \<Rightarrow> 'x engine \<Rightarrow> (dispatch_error, unit, 'x engine) outcome" where
  "do_finalize_sign_timeout env p i s =
     ensure (p_stage p = STAGE_LEG_SIGN) (VotingEngine InvalidProposalStage) s (\<lambda>s.
     ensure (p_status p = STATUS_VOTING) (VotingEngine ProposalAlreadyFinalized) s (\<lambda>s.
     ensure (is_expired (block_number s) (p_end p)) (VotingEngine VoteNotExpired) s (\<lambda>s.
     ok_or (legislation_metas (legislation s) i) (LegislationVote ProposalMetaMissing) s (\<lambda>lm.
       if lm_override_signers lm \<noteq> [] then advance_to_override env i s
       else finalize_or_guard env i (lm_needs_guard lm) s))))"

definition do_finalize_override_timeout ::
  "'x env \<Rightarrow> proposal \<Rightarrow> proposal_id \<Rightarrow> 'x engine \<Rightarrow> (dispatch_error, unit, 'x engine) outcome" where
  "do_finalize_override_timeout env p i s =
     ensure (p_stage p = STAGE_LEG_OVERRIDE) (VotingEngine InvalidProposalStage) s (\<lambda>s.
     ensure (p_status p = STATUS_VOTING) (VotingEngine ProposalAlreadyFinalized) s (\<lambda>s.
     ensure (is_expired (block_number s) (p_end p)) (VotingEngine VoteNotExpired) s (\<lambda>s.
       set_status_and_emit env i STATUS_REJECTED s)))"

section \<open>The justices\<close>

definition do_guard_vote ::
  "'x env \<Rightarrow> account \<Rightarrow> proposal_id \<Rightarrow> bool \<Rightarrow> 'x engine \<Rightarrow> (dispatch_error, unit, 'x engine) outcome" where
  "do_guard_vote env who i approve s =
     ok_or (proposals s i) (VotingEngine ProposalNotFound) s (\<lambda>p.
     ensure (p_status p = STATUS_VOTING) (LegislationVote NotInExpectedStage) s (\<lambda>s.
     ensure (p_stage p = STAGE_LEG_CONSTITUTION_GUARD) (LegislationVote NotInExpectedStage) s (\<lambda>s.
     ok_or (legislation_metas (legislation s) i) (LegislationVote ProposalMetaMissing) s (\<lambda>lm.
     ok_or (lm_guard lm) (LegislationVote NotConstitutionGuard) s (\<lambda>guard.
     ok_or (subject_voters_len i (Institution guard) s) (LegislationVote InvalidGuardMembersLen) s (\<lambda>members_len.
     ensure (members_len = CONSTITUTION_GUARD_MEMBERS) (LegislationVote InvalidGuardMembersLen) s (\<lambda>s.
     ensure (is_subject_voter_in_snapshot env i (Institution guard) who s) (LegislationVote NotConstitutionGuard) s (\<lambda>s.
     let signs = leg_guard_signs (legislation s) i in
     ensure (\<not> list_ex (\<lambda>e. fst e = who) signs) (LegislationVote AlreadySigned) s (\<lambda>s.
     let s1 = deposit_event (LegislationGuardVoted i who approve) s in
     ok_or (try_push CONSTITUTION_GUARD_MEMBERS signs (who, approve)) (LegislationVote AlreadySigned) s1 (\<lambda>signs.
       let yes_n = length (filter snd signs); no_n = length (filter (\<lambda>e. \<not> snd e) signs);
           s2 = upd_legislation (\<lambda>v. v\<lparr>leg_guard_signs := (leg_guard_signs v)(i := signs)\<rparr>) s1 in
       if guard_decided yes_n then set_status_and_emit env i STATUS_PASSED s2
       else if guard_decided no_n then set_status_and_emit env i STATUS_REJECTED s2
       else (Inr (), s2)))))))))))"

definition do_finalize_guard_timeout ::
  "'x env \<Rightarrow> proposal \<Rightarrow> proposal_id \<Rightarrow> 'x engine \<Rightarrow> (dispatch_error, unit, 'x engine) outcome" where
  "do_finalize_guard_timeout env p i s =
     ensure (p_stage p = STAGE_LEG_CONSTITUTION_GUARD) (VotingEngine InvalidProposalStage) s (\<lambda>s.
     ensure (p_status p = STATUS_VOTING) (VotingEngine ProposalAlreadyFinalized) s (\<lambda>s.
     ensure (is_expired (block_number s) (p_end p)) (VotingEngine VoteNotExpired) s (\<lambda>s.
       set_status_and_emit env i STATUS_REJECTED s)))"

section \<open>Calls\<close>

definition cast_representative_vote ::
  "'x env \<Rightarrow> origin \<Rightarrow> proposal_id \<Rightarrow> role_code \<Rightarrow> bool \<Rightarrow> 'x engine \<Rightarrow> (dispatch_error, unit, 'x engine) outcome" where
  "cast_representative_vote env o' i role approve =
     with_transaction (\<lambda>s.
       ok_or (ensure_signed o') BadOrigin s (\<lambda>who. do_cast_representative_vote env who i role approve s))"

definition cast_referendum_vote ::
  "'x env \<Rightarrow> origin \<Rightarrow> proposal_id \<Rightarrow> bool \<Rightarrow> 'x engine \<Rightarrow> (dispatch_error, unit, 'x engine) outcome" where
  "cast_referendum_vote env o' i approve =
     with_transaction (\<lambda>s.
       ok_or (ensure_signed o') BadOrigin s (\<lambda>who. do_cast_referendum_vote env who i approve s))"

definition executive_sign ::
  "'x env \<Rightarrow> origin \<Rightarrow> proposal_id \<Rightarrow> bool \<Rightarrow> 'x engine \<Rightarrow> (dispatch_error, unit, 'x engine) outcome" where
  "executive_sign env o' i approve =
     with_transaction (\<lambda>s.
       ok_or (ensure_signed o') BadOrigin s (\<lambda>who. do_executive_sign env who i approve s))"

definition override_sign ::
  "'x env \<Rightarrow> origin \<Rightarrow> proposal_id \<Rightarrow> bool \<Rightarrow> 'x engine \<Rightarrow> (dispatch_error, unit, 'x engine) outcome" where
  "override_sign env o' i approve =
     with_transaction (\<lambda>s.
       ok_or (ensure_signed o') BadOrigin s (\<lambda>who. do_override_sign env who i approve s))"

definition guard_vote ::
  "'x env \<Rightarrow> origin \<Rightarrow> proposal_id \<Rightarrow> bool \<Rightarrow> 'x engine \<Rightarrow> (dispatch_error, unit, 'x engine) outcome" where
  "guard_vote env o' i approve =
     with_transaction (\<lambda>s.
       ok_or (ensure_signed o') BadOrigin s (\<lambda>who. do_guard_vote env who i approve s))"

section \<open>Creation\<close>

definition additional_institutions :: "legislation_meta option \<Rightarrow> representative_body list" where
  "additional_institutions meta =
     (case meta of None \<Rightarrow> []
      | Some lm \<Rightarrow> (case lm_executive lm of None \<Rightarrow> [] | Some e \<Rightarrow> [e]) @ lm_override_signers lm
          @ (case lm_guard lm of None \<Rightarrow> [] | Some g \<Rightarrow> [g]))"

definition ensure_legislation_plan ::
  "'x env \<Rightarrow> account \<Rightarrow> cid_number \<Rightarrow> vote_plan \<Rightarrow> representative_route \<Rightarrow> representative_vote_rule \<Rightarrow>
   vote_procedure \<Rightarrow> legislation_meta option \<Rightarrow> 'x engine \<Rightarrow> dispatch_error + unit" where
  "ensure_legislation_plan env who cid plan route rule procedure meta s =
     (if vp_voting_engine plan \<noteq> Legislation then Inl (VotingEngine InvalidVotePlan)
      else case vp_proposer_subject plan of
        PersonalMultisig _ \<Rightarrow> Inl (VotingEngine InvalidVotePlan)
      | Institution proposer \<Rightarrow>
          if \<not> (rs_cid_number proposer = cid \<and> is_active_assignment env cid who (rs_role_code proposer) (ext s))
          then Inl (VotingEngine NoPermission)
          else if procedure = RepresentativeOnly \<and> rule = RuleSpecial then Inl (LegislationVote InvalidRepresentativeRule)
          else if (procedure = LegislationProcedure) \<noteq> (meta \<noteq> None) then Inl (LegislationVote ProposalMetaMissing)
          else
            let expected_voters = map Institution (route_bodies route @ additional_institutions meta) in
            if has_duplicate expected_voters then Inl (VotingEngine InvalidVotePlan)
            else if length expected_voters = length (vp_voter_subjects plan) \<and>
              list_all (\<lambda>subject. subject \<in> set (vp_voter_subjects plan)) expected_voters
            then Inr () else Inl (VotingEngine InvalidVotePlan))"

text \<open>All roles are frozen, the seven justices checked on the way.\<close>

fun snapshot_legislation_voters ::
  "'x env \<Rightarrow> proposal_id \<Rightarrow> representative_body option \<Rightarrow> authorization_subject list \<Rightarrow> 'x engine \<Rightarrow>
   (dispatch_error, unit, 'x engine) outcome" where
  "snapshot_legislation_voters env i guard [] s = (Inr (), s)"
| "snapshot_legislation_voters env i guard (subject # subjects) s =
     (case subject of
        PersonalMultisig _ \<Rightarrow> (Inl (VotingEngine InvalidVotePlan), s)
      | Institution rs \<Rightarrow>
          let voters = active_accounts_for_role env (rs_cid_number rs) (rs_role_code rs) (ext s) in
          ensure (guard = Some rs \<longrightarrow> length voters = CONSTITUTION_GUARD_MEMBERS \<and> \<not> has_duplicate voters)
            (LegislationVote InvalidGuardMembersLen) s (\<lambda>s.
          and_then (snapshot_role_voters env i subject voters s) (\<lambda>_ s.
            snapshot_legislation_voters env i guard subjects s)))"

definition representative_proposal ::
  "institution_code \<Rightarrow> cid_number \<Rightarrow> cid_number list \<Rightarrow> block_number \<Rightarrow> proposal" where
  "representative_proposal code cid cids now =
     \<lparr>p_kind = PROPOSAL_KIND_LEGISLATION, p_stage = STAGE_LEG_REPRESENTATIVE, p_status = STATUS_VOTING,
      p_internal_code = Some code, p_actor_cid_number = Some cid, p_execution_account_id = None,
      p_subject_cid_numbers = cids, p_start = now, p_end = bn_add now stage_duration\<rparr>"

definition insert_legislation_metas ::
  "proposal_id \<Rightarrow> representative_meta \<Rightarrow> legislation_meta option \<Rightarrow> 'x engine \<Rightarrow> 'x engine" where
  "insert_legislation_metas i m meta s =
     upd_legislation (\<lambda>v. v\<lparr>
       representative_metas := (representative_metas v)(i \<mapsto> m),
       legislation_metas := (case meta of None \<Rightarrow> legislation_metas v | Some lm \<Rightarrow> (legislation_metas v)(i \<mapsto> lm))\<rparr>) s"

text \<open>The population is frozen only for special laws, and must not be empty.\<close>

definition special_scope ::
  "representative_vote_rule \<Rightarrow> institution_code \<Rightarrow> cid_number \<Rightarrow> dispatch_error + population_scope option" where
  "special_scope rule code cid =
     (if rule = RuleSpecial then map_sum id Some (population_scope_for_actor code cid) else Inr None)"

definition snapshot_special_population ::
  "'x env \<Rightarrow> proposal_id \<Rightarrow> population_scope option \<Rightarrow> 'x engine \<Rightarrow> (dispatch_error, unit, 'x engine) outcome" where
  "snapshot_special_population env i scope s =
     (case scope of
        None \<Rightarrow> (Inr (), s)
      | Some sc \<Rightarrow> and_then (create_population_snapshot env i sc s) (\<lambda>elig s.
          ensure (elig \<noteq> 0) (LegislationVote LegCitizenEligibleTotalNotSet) s (\<lambda>s. (Inr (), s))))"

definition do_create_representative_proposal ::
  "'x env \<Rightarrow> account \<Rightarrow> cid_number \<Rightarrow> vote_plan \<Rightarrow> representative_route \<Rightarrow> representative_vote_rule \<Rightarrow>
   vote_procedure \<Rightarrow> cid_number list \<Rightarrow> legislation_meta option \<Rightarrow> 'x engine \<Rightarrow>
   (dispatch_error, proposal_id, 'x engine) outcome" where
  "do_create_representative_proposal env who cid plan route rule procedure additional meta s =
     and_then (pure_result (validate_representative_route route) s) (\<lambda>(first_code, _) s.
     and_then (pure_result (institution_code_for_cid cid) s) (\<lambda>actor_code s.
     and_then (pure_result (ensure_legislation_plan env who cid plan route rule procedure meta s) s) (\<lambda>_ s.
     (case resolve_subject_cid_numbers cid route additional (additional_institutions meta) of
        Inl e \<Rightarrow> (Inl (VotingEngine e), s)
      | Inr cids \<Rightarrow>
          and_then (pure_result (special_scope rule actor_code cid) s) (\<lambda>scope s.
          let p = representative_proposal first_code cid cids (block_number s) in
          with_transaction (\<lambda>s.
            and_then (allocate_id env s) (\<lambda>i s.
            and_then (add_active env (subject_keys p) i s) (\<lambda>_ s.
            and_then (acquire_all env i Regular (subject_keys p) s) (\<lambda>_ s.
            and_then (snapshot_legislation_voters env i (Option.bind meta lm_guard) (vp_voter_subjects plan) s) (\<lambda>_ s.
            let s1 = insert_legislation_metas i \<lparr>rm_route = route, rm_current_body = 0, rm_rule = rule,
                       rm_procedure = procedure\<rparr> meta s;
                s2 = s1\<lparr>proposals := (proposals s1)(i \<mapsto> p)\<rparr> in
            and_then (bind_vote_plan i plan s2) (\<lambda>_ s.
            and_then (snapshot_special_population env i scope s) (\<lambda>_ s.
            and_then (schedule_proposal_expiry env i (p_end p) s) (\<lambda>_ s.
              (Inr i, deposit_event (RepresentativeProposalCreated i rule
                  (case representative_metas (legislation s) i of None \<Rightarrow> 0 | Some m \<Rightarrow> route_len (rm_route m)) procedure)
                (emit_proposal_created i PROPOSAL_KIND_LEGISLATION STAGE_LEG_REPRESENTATIVE (p_end p) s)))))))))) s)))))"

text \<open>The proposer's own ballot, when the proposer sits in the first body.\<close>

definition cast_own_ballot ::
  "'x env \<Rightarrow> account \<Rightarrow> representative_body \<Rightarrow> proposal_id \<Rightarrow> 'x engine \<Rightarrow> (dispatch_error, proposal_id, 'x engine) outcome" where
  "cast_own_ballot env who first_body i s =
     (if is_subject_voter_in_snapshot env i (Institution first_body) who s then
        and_then (do_cast_representative_vote env who i (rs_role_code first_body) True s) (\<lambda>_ s. (Inr i, s))
      else (Inr i, s))"

definition create_representative_vote ::
  "'x env \<Rightarrow> account \<Rightarrow> cid_number \<Rightarrow> vote_plan \<Rightarrow> representative_route \<Rightarrow> representative_vote_rule \<Rightarrow>
   cid_number list \<Rightarrow> string \<Rightarrow> string \<Rightarrow> 'x engine \<Rightarrow> (dispatch_error, proposal_id, 'x engine) outcome" where
  "create_representative_vote env who cid plan route rule additional tag data s =
     and_then (pure_result (validate_representative_route route) s) (\<lambda>(_, first_body) s.
     with_transaction (\<lambda>s.
       and_then (do_create_representative_proposal env who cid plan route rule RepresentativeOnly additional None s) (\<lambda>i s.
       and_then (register_proposal_data env i tag data (block_number s) s) (\<lambda>_ s.
         cast_own_ballot env who first_body i s))) s)"

definition PROPOSAL_OBJECT_KIND_LAW_TEXT :: u8 where "PROPOSAL_OBJECT_KIND_LAW_TEXT = 2"

definition create_legislation_vote ::
  "'x env \<Rightarrow> account \<Rightarrow> cid_number \<Rightarrow> vote_plan \<Rightarrow> representative_route \<Rightarrow> representative_vote_rule \<Rightarrow>
   legislation_meta \<Rightarrow> string \<Rightarrow> string \<Rightarrow> string \<Rightarrow> 'x engine \<Rightarrow> (dispatch_error, proposal_id, 'x engine) outcome" where
  "create_legislation_vote env who cid plan route rule procedure tag data object_data s =
     and_then (pure_result (validate_representative_route route) s) (\<lambda>(_, first_body) s.
     with_transaction (\<lambda>s.
       and_then (do_create_representative_proposal env who cid plan route rule LegislationProcedure [] (Some procedure) s) (\<lambda>i s.
       and_then (register_proposal_data env i tag data (block_number s) s) (\<lambda>_ s.
       and_then (store_proposal_object env i PROPOSAL_OBJECT_KIND_LAW_TEXT object_data s) (\<lambda>_ s.
         cast_own_ballot env who first_body i s)))) s)"

definition leg_referendum_result :: "proposal_id \<Rightarrow> 'x engine \<Rightarrow> (u64 \<times> u64 \<times> u64) option" where
  "leg_referendum_result i s =
     (case population_eligible_total_of i s of
        None \<Rightarrow> None
      | Some elig \<Rightarrow> if elig = 0 then None
          else (let t = leg_referendum_tally (legislation s) i in Some (elig, yes t, no t)))"

definition guard_review_result :: "proposal_id \<Rightarrow> 'x engine \<Rightarrow> u32 option" where
  "guard_review_result i s =
     (let signs = leg_guard_signs (legislation s) i in
      if signs = [] then None else Some (length (filter snd signs)))"

section \<open>The track\<close>

definition legislation_handles :: "u8 \<Rightarrow> bool" where
  "legislation_handles kind \<longleftrightarrow> kind = PROPOSAL_KIND_LEGISLATION"

definition legislation_finalize_timeout :: "'x env \<Rightarrow> 'x timeout_handler" where
  "legislation_finalize_timeout env p i s =
     (if \<not> legislation_handles (p_kind p) then (None, s)
      else map_prod Some id
        (if p_stage p = STAGE_LEG_REPRESENTATIVE then do_finalize_representative_timeout env p i s
         else if p_stage p = STAGE_LEG_REFERENDUM then do_finalize_referendum_timeout env p i s
         else if p_stage p = STAGE_LEG_SIGN then do_finalize_sign_timeout env p i s
         else if p_stage p = STAGE_LEG_OVERRIDE then do_finalize_override_timeout env p i s
         else if p_stage p = STAGE_LEG_CONSTITUTION_GUARD then do_finalize_guard_timeout env p i s
         else (Inl (VotingEngine InvalidProposalStage), s)))"

definition cleanup_legislation_representative_votes_chunk ::
  "prefix_clearing \<Rightarrow> proposal_id \<Rightarrow> u32 \<Rightarrow> 'x engine \<Rightarrow> (u32 \<times> bool) \<times> 'x engine" where
  "cleanup_legislation_representative_votes_chunk cp i limit s =
     (case clear_ledger cp limit (representative_votes_by_ticket (legislation s) i) of (r, ys) \<Rightarrow>
        (r, upd_legislation (\<lambda>v. v\<lparr>representative_votes_by_ticket := (representative_votes_by_ticket v)(i := ys)\<rparr>) s))"

definition cleanup_legislation_referendum_votes_chunk ::
  "prefix_clearing \<Rightarrow> proposal_id \<Rightarrow> u32 \<Rightarrow> 'x engine \<Rightarrow> (u32 \<times> bool) \<times> 'x engine" where
  "cleanup_legislation_referendum_votes_chunk cp i limit s =
     (case clear_ledger cp limit (leg_referendum_votes_by_cid (legislation s) i) of (r, ys) \<Rightarrow>
        (r, upd_legislation (\<lambda>v. v\<lparr>leg_referendum_votes_by_cid := (leg_referendum_votes_by_cid v)(i := ys)\<rparr>) s))"

definition legislation_cleanup_chunk ::
  "prefix_clearing \<Rightarrow> proposal_id \<Rightarrow> u32 \<Rightarrow> 'x engine \<Rightarrow> (u32 \<times> bool) \<times> 'x engine" where
  "legislation_cleanup_chunk cp i limit0 s =
     (let limit = max limit0 1 in
      case cleanup_legislation_representative_votes_chunk cp i limit s of ((n1, more1), s1) \<Rightarrow>
      if more1 \<or> limit \<le> n1 then ((n1, True), s1) else
      case cleanup_legislation_referendum_votes_chunk cp i (sat_sub limit n1) s1 of ((n2, more2), s2) \<Rightarrow>
      ((sat_add 32 n1 n2, more2), s2))"

definition cleanup_legislation_terminal :: "prefix_clearing \<Rightarrow> proposal_id \<Rightarrow> 'x engine \<Rightarrow> 'x engine" where
  "cleanup_legislation_terminal cp i s =
     upd_legislation (\<lambda>v. v\<lparr>
       representative_metas := (representative_metas v)(i := None),
       legislation_metas := (legislation_metas v)(i := None),
       representative_tallies := (representative_tallies v)
         (i := snd (clear_ledger cp MAX_REPRESENTATIVE_BODIES (representative_tallies v i))),
       leg_referendum_tally := (leg_referendum_tally v)(i := vote_count_default),
       leg_override_signs := (leg_override_signs v)(i := []),
       leg_guard_signs := (leg_guard_signs v)(i := [])\<rparr>) s"

text \<open>The measured weights of the five calls are parameters.\<close>

record legislation_weights =
  w_cast_representative_vote :: weight
  w_cast_referendum_vote :: weight
  w_executive_sign :: weight
  w_override_sign :: weight
  w_guard_vote :: weight

definition legislation_timeout_weight :: "legislation_weights \<Rightarrow> u8 \<Rightarrow> weight option" where
  "legislation_timeout_weight w stage =
     (if stage = STAGE_LEG_REPRESENTATIVE then Some (w_cast_representative_vote w)
      else if stage = STAGE_LEG_REFERENDUM then Some (w_cast_referendum_vote w)
      else if stage = STAGE_LEG_SIGN then Some (w_executive_sign w)
      else if stage = STAGE_LEG_OVERRIDE then Some (w_override_sign w)
      else if stage = STAGE_LEG_CONSTITUTION_GUARD then Some (w_guard_vote w)
      else if stage = U8_MAX then
        Some (w_max (w_max (w_max (w_max (w_cast_representative_vote w) (w_cast_referendum_vote w))
          (w_executive_sign w)) (w_override_sign w)) (w_guard_vote w))
      else None)"

definition legislation_track :: "prefix_clearing \<Rightarrow> (nat \<Rightarrow> nat \<Rightarrow> weight) \<Rightarrow> legislation_weights \<Rightarrow> 'x track" where
  "legislation_track cp db w =
    \<lparr>handles = legislation_handles,
     on_proposal_executed = (\<lambda>kind i s. (if legislation_handles kind then Some (Inr ()) else None, s)),
     on_proposal_terminal = (\<lambda>kind i status s. (if legislation_handles kind then Some (Inr ()) else None, s)),
     cleanup_chunk = (\<lambda>kind i limit s. if legislation_handles kind then
        (case legislation_cleanup_chunk cp i limit s of (r, s') \<Rightarrow> (Some r, s')) else (None, s)),
     cleanup_terminal = (\<lambda>kind i s. if legislation_handles kind then (Some (), cleanup_legislation_terminal cp i s) else (None, s)),
     timeout_weight = legislation_timeout_weight w,
     cleanup_chunk_weight = (\<lambda>kind limit. if kind \<in> {PROPOSAL_KIND_LEGISLATION, U8_MAX} then
        Some (w_add (w_add \<lparr>ref_time = 10000000, proof_size = 5000\<rparr>
          (w_scale \<lparr>ref_time = 1100000, proof_size = 2600\<rparr> (max limit 1))) (db (sat_add 64 (max limit 1) 2) (max limit 1)))
        else None),
     cleanup_terminal_weight = (\<lambda>kind. if kind \<in> {PROPOSAL_KIND_LEGISLATION, U8_MAX} then
        Some (w_add \<lparr>ref_time = 16000000, proof_size = 18000\<rparr> (db 1 8)) else None)\<rparr>"

section \<open>The contracts of the engine\<close>

lemma legislation_chunk_core: "same_core s (snd (legislation_cleanup_chunk cp i n s))"
  by (auto simp: legislation_cleanup_chunk_def cleanup_legislation_representative_votes_chunk_def
      cleanup_legislation_referendum_votes_chunk_def clear_ledger_def Let_def)

interpretation legislation: ledger_track "legislation_track cp db w" for cp db w
proof unfold_locales
  fix s :: "'x engine" and k st :: u8 and i :: proposal_id and n :: u32
  show "same_core s (snd (cleanup_chunk (legislation_track cp db w) k i n s))"
    using legislation_chunk_core [of s cp i n] by (auto simp: legislation_track_def split: prod.splits)
qed (simp_all add: legislation_track_def cleanup_legislation_terminal_def)

text \<open>A rescheduled proposal keeps its identity and its status.\<close>

definition keeps_identity :: "(proposal \<Rightarrow> proposal) \<Rightarrow> bool" where
  "keeps_identity change \<longleftrightarrow> (\<forall>p. p_status (change p) = p_status p \<and> p_kind (change p) = p_kind p \<and>
     p_actor_cid_number (change p) = p_actor_cid_number p \<and>
     p_execution_account_id (change p) = p_execution_account_id p \<and>
     p_subject_cid_numbers (change p) = p_subject_cid_numbers p)"

lemma keeps_identity_intros [simp]:
  "keeps_identity (\<lambda>p. p\<lparr>p_stage := st\<rparr>)" "keeps_identity (\<lambda>p. p\<lparr>p_internal_code := c\<rparr>)"
  by (simp_all add: keeps_identity_def)

lemma sound_leg_reschedule:
  assumes s: "sound_from env s0 s" and p: "\<And>p. proposals s i = Some p \<Longrightarrow> p_status p = STATUS_VOTING"
    and c: "keeps_identity change"
  shows "keeps (sound_from env s0) (reschedule env' i change s)"
proof -
  let ?q = "\<lambda>p. (change p)\<lparr>p_start := block_number s, p_end := bn_add (block_number s) stage_duration\<rparr>"
  have "sound_from env s0 (s\<lparr>proposals := (proposals s)(i \<mapsto> ?q p)\<rparr>)" if "proposals s i = Some p" for p
  proof (rule sound_from_proposal [OF s that])
    show "prop_evolves p (?q p)" using c p [OF that] by (simp add: prop_evolves_def keeps_identity_def)
    show "\<not> is_terminal_status (p_status p) \<or> p_status (?q p) = p_status p" using c by (simp add: keeps_identity_def)
  qed
  then have "sound_from env s0 (s\<lparr>proposals := (proposals s)(i \<mapsto> ?q p), proposals_by_expiry := b\<rparr>)"
    if "proposals s i = Some p" for p b using that by simp
  then show ?thesis
    unfolding reschedule_def Let_def
    by (intro keeps_ok_or s sound_schedule_expiry) (simp add: fun_upd_def)
qed

lemma leg_frame [simp]:
  "proposals (s\<lparr>legislation := v\<rparr>) = proposals s" "proposals (deposit_event e s) = proposals s"
  by (simp_all add: deposit_event_def)

lemma sound_leg_stages:
  assumes s: "sound_from env s0 s" and p: "\<And>p. proposals s i = Some p \<Longrightarrow> p_status p = STATUS_VOTING"
  shows "keeps (sound_from env s0) (transition_stage env' i st s)"
    and "keeps (sound_from env s0) (advance_to_sign env' i s)"
    and "keeps (sound_from env s0) (advance_to_override env' i s)"
    and "keeps (sound_from env s0) (advance_to_guard env' i s)"
    and "keeps (sound_from env s0) (advance_to_referendum env' i s)"
proof -
  have t: "keeps (sound_from env s0) (transition_stage env' i st t)"
    if "sound_from env s0 t" "proposals t = proposals s" for t st
    unfolding transition_stage_def using that p by (intro keeps_with_transaction sound_leg_reschedule) simp_all
  show "keeps (sound_from env s0) (transition_stage env' i st s)" by (rule t [OF s refl])
  show "keeps (sound_from env s0) (advance_to_sign env' i s)"
    unfolding advance_to_sign_def by (intro keeps_and_then t s refl) (simp add: sound_release)
  show "keeps (sound_from env s0) (advance_to_override env' i s)"
    unfolding advance_to_override_def Let_def by (intro keeps_and_then t) (simp_all add: s)
  show "keeps (sound_from env s0) (advance_to_guard env' i s)"
    unfolding advance_to_guard_def Let_def by (intro keeps_and_then t) (simp_all add: s)
  show "keeps (sound_from env s0) (advance_to_referendum env' i s)"
    unfolding advance_to_referendum_def
    by (intro keeps_with_transaction keeps_ok_or keeps_and_then sound_leg_reschedule s p)
       (simp_all add: sound_release emit_proposal_advanced_to_referendum_def)
qed

lemma sound_leg_procedure:
  assumes tf: "tracks_framed env" and s: "sound_from env s0 s"
    and p: "\<And>p. proposals s i = Some p \<Longrightarrow> p_status p = STATUS_VOTING"
  shows "keeps (sound_from env s0) (finalize_or_guard env i b s)"
    and "keeps (sound_from env s0) (finish_representative_route env i s)"
    and "keeps (sound_from env s0) (advance_representative_body_or_finish env i s)"
    and "keeps (sound_from env s0) (body_approved env m i s)"
proof -
  note st = sound_leg_stages [OF s p] sound_set_status [OF tf s]
  show "keeps (sound_from env s0) (finalize_or_guard env i b s)" using st by (simp add: finalize_or_guard_def)
  show f: "keeps (sound_from env s0) (finish_representative_route env i s)"
    unfolding finish_representative_route_def
    by (rule keeps_ok_or, rule s) (use st in \<open>simp split: vote_procedure.split\<close>)
  have r: "keeps (sound_from env s0) (reschedule env i (\<lambda>p. p\<lparr>p_internal_code := c\<rparr>) (set_current_body i k s))" for c k
    by (rule sound_leg_reschedule) (simp_all add: s p set_current_body_def)
  show a: "keeps (sound_from env s0) (advance_representative_body_or_finish env i s)"
    unfolding advance_representative_body_or_finish_def Let_def
    by (rule keeps_ok_or, rule s)
       (auto simp: f s pure_result_def intro!: keeps_ok_or keeps_and_then keeps_with_transaction r)
  show "keeps (sound_from env s0) (body_approved env m i s)"
    using f a by (simp add: body_approved_def split: representative_route.split)
qed

lemma leg_records_fields [simp]:
  "proposals (record_representative_vote i k b s) = proposals s"
  "proposals (record_leg_referendum_vote i c tk s) = proposals s"
  "sound_from env s0 (record_representative_vote i k b s) = sound_from env s0 s"
  "sound_from env s0 (record_leg_referendum_vote i c tk s) = sound_from env s0 s"
  by (simp_all add: record_representative_vote_def record_leg_referendum_vote_def)

lemma sound_leg_votes:
  assumes tf: "tracks_framed env" and s: "sound_from env s0 s"
  shows "keeps (sound_from env s0) (do_cast_representative_vote env who i role b s)"
    and "keeps (sound_from env s0) (do_cast_referendum_vote env who i b s)"
    and "keeps (sound_from env s0) (do_executive_sign env who i b s)"
    and "keeps (sound_from env s0) (do_override_sign env who i b s)"
    and "keeps (sound_from env s0) (do_guard_vote env who i b s)"
proof -
  note lp = sound_leg_procedure [OF tf] sound_leg_stages sound_set_status [OF tf]
  show "keeps (sound_from env s0) (do_cast_representative_vote env who i role b s)"
    unfolding do_cast_representative_vote_def Let_def
    by (intro keeps_and_then keeps_pure_result s)
       (auto simp: pure_result_def s split: option.split bool.split intro!: keeps_ensure keeps_ok_or lp dest!: ensure_open_ok)
  show "keeps (sound_from env s0) (do_cast_referendum_vote env who i b s)"
    unfolding do_cast_referendum_vote_def Let_def
    by (intro keeps_and_then keeps_pure_result s) (auto simp: s intro!: keeps_ensure keeps_ok_or)
  show "keeps (sound_from env s0) (do_executive_sign env who i b s)"
    unfolding do_executive_sign_def Let_def by (auto simp: s intro!: keeps_ensure keeps_ok_or lp)
  show "keeps (sound_from env s0) (do_override_sign env who i b s)"
    unfolding do_override_sign_def Let_def by (auto simp: s intro!: keeps_ensure keeps_ok_or lp)
  show "keeps (sound_from env s0) (do_guard_vote env who i b s)"
    unfolding do_guard_vote_def Let_def by (auto simp: s intro!: keeps_ensure keeps_ok_or lp)
qed

lemma sound_leg_calls:
  assumes "tracks_framed env" "sound_from env s0 s"
  shows "keeps (sound_from env s0) (cast_representative_vote env o' i role b s)"
    and "keeps (sound_from env s0) (cast_referendum_vote env o' i b s)"
    and "keeps (sound_from env s0) (executive_sign env o' i b s)"
    and "keeps (sound_from env s0) (override_sign env o' i b s)"
    and "keeps (sound_from env s0) (guard_vote env o' i b s)"
  unfolding cast_representative_vote_def cast_referendum_vote_def executive_sign_def override_sign_def guard_vote_def
  by (intro keeps_with_transaction keeps_ok_or assms(2) sound_leg_votes [OF assms])+

lemma legislation_timeout_track:
  assumes tf: "tracks_framed env"
  shows "timeout_track env (legislation_finalize_timeout env)"
proof
  show "fst (legislation_finalize_timeout env p i s) = None \<Longrightarrow> snd (legislation_finalize_timeout env p i s) = s" for p i s
    by (auto simp: legislation_finalize_timeout_def split: if_splits)
  fix s i p assume inv: "engine_inv env s" and p: "proposals s i = Some p"
  note s = sound_from_refl [OF inv]
  have v: "p_status p = STATUS_VOTING \<Longrightarrow> proposals s i = Some q \<Longrightarrow> p_status q = STATUS_VOTING" for q using p by simp
  have "keeps (sound_from env s) (do_finalize_representative_timeout env p i s)"
    "keeps (sound_from env s) (do_finalize_referendum_timeout env p i s)"
    "keeps (sound_from env s) (do_finalize_sign_timeout env p i s)"
    "keeps (sound_from env s) (do_finalize_override_timeout env p i s)"
    "keeps (sound_from env s) (do_finalize_guard_timeout env p i s)"
    unfolding do_finalize_representative_timeout_def do_finalize_referendum_timeout_def do_finalize_sign_timeout_def
      do_finalize_override_timeout_def do_finalize_guard_timeout_def Let_def
    by (auto simp: s intro!: keeps_ensure keeps_ok_or sound_set_status [OF tf s] sound_leg_procedure [OF tf s]
        sound_leg_stages [OF s] dest: v)
  with s show "sound_from env s (snd (legislation_finalize_timeout env p i s))"
    by (simp add: legislation_finalize_timeout_def keeps_def)
qed

section \<open>What creation does\<close>

lemma reserved_snapshot_legislation:
  "reserved env s0 i s \<Longrightarrow> keeps (reserved env s0 i) (snapshot_legislation_voters env' j g sjs s)"
proof (induction sjs arbitrary: s)
  case (Cons sj sjs)
  then show ?case
    by (auto simp: Let_def split: authorization_subject.split
        intro!: keeps_ensure keeps_and_then reserved_snapshot_roles)
qed simp

lemma create_representative_ok:
  assumes "do_create_representative_proposal env who cid plan route rule procedure additional meta s = (Inr i, s')"
  obtains code body cids s1 s2 s3 s4 s5 scope ev where
    "validate_representative_route route = Inr (code, body)"
    "ensure_legislation_plan env who cid plan route rule procedure meta s = Inr ()"
    "allocate_and_lock env (representative_proposal code cid cids (block_number s)) Regular s = (Inr i, s1)"
    "snapshot_legislation_voters env i (Option.bind meta lm_guard) (vp_voter_subjects plan) s1 = (Inr (), s2)"
    "bind_vote_plan i plan ((insert_legislation_metas i \<lparr>rm_route = route, rm_current_body = 0, rm_rule = rule,
       rm_procedure = procedure\<rparr> meta s2)\<lparr>proposals := (proposals s2)
         (i \<mapsto> representative_proposal code cid cids (block_number s))\<rparr>) = (Inr (), s3)"
    "rule \<noteq> RuleSpecial \<longleftrightarrow> scope = None"
    "snapshot_special_population env i scope s3 = (Inr (), s4)"
    "schedule_proposal_expiry env i (bn_add (block_number s) stage_duration) s4 = (Inr (), s5)"
    "s' = deposit_event ev
       (emit_proposal_created i PROPOSAL_KIND_LEGISLATION STAGE_LEG_REPRESENTATIVE (bn_add (block_number s) stage_duration) s5)"
proof -
  have e: "p_end (representative_proposal code cid cids b) = bn_add b stage_duration" for code cids b
    by (simp add: representative_proposal_def)
  have m: "proposals (insert_legislation_metas i m mt t) = proposals t" for m mt t
    by (simp add: insert_legislation_metas_def)
  have sc: "special_scope rule ac cid = Inr scope \<Longrightarrow> rule \<noteq> RuleSpecial \<longleftrightarrow> scope = None" for ac scope
    by (cases "population_scope_for_actor ac cid") (auto simp: special_scope_def split: if_splits)
  from assms obtain cids where r: "resolve_subject_cid_numbers cid route additional (additional_institutions meta) = Inr cids"
    by (cases "resolve_subject_cid_numbers cid route additional (additional_institutions meta)")
       (auto simp: do_create_representative_proposal_def pure_result_def)
  from assms show ?thesis
    by (auto simp: do_create_representative_proposal_def Let_def pure_result_def r e m dest!: sc
        intro!: that simp: allocate_and_lock_def)
qed

lemma snapshot_special_frame:
  "snapshot_special_population env i scope s = (Inr a, s') \<Longrightarrow> \<exists>r. s' = s\<lparr>records := r\<rparr>"
  by (auto simp: snapshot_special_population_def create_population_snapshot_def split: option.splits
      intro: exI [of _ "records s"])

lemma sound_create_representative:
  fixes s :: "'x engine"
  assumes s: "sound_from env s0 s"
    and ok: "do_create_representative_proposal env who cid plan route rule procedure additional meta s = (Inr i, s')"
  shows "sound_from env s0 s'"
  using ok
proof (rule create_representative_ok)
  fix code body cids scope ev and s1 s2 s3 s4 s5 :: "'x engine"
  let ?p = "representative_proposal code cid cids (block_number s)"
  let ?m = "insert_legislation_metas i \<lparr>rm_route = route, rm_current_body = 0, rm_rule = rule, rm_procedure = procedure\<rparr> meta s2"
  assume a: "allocate_and_lock env ?p Regular s = (Inr i, s1)"
    "snapshot_legislation_voters env i (Option.bind meta lm_guard) (vp_voter_subjects plan) s1 = (Inr (), s2)"
    "bind_vote_plan i plan (?m\<lparr>proposals := (proposals s2)(i \<mapsto> ?p)\<rparr>) = (Inr (), s3)"
    "snapshot_special_population env i scope s3 = (Inr (), s4)"
    "schedule_proposal_expiry env i (bn_add (block_number s) stage_duration) s4 = (Inr (), s5)"
    "s' = deposit_event ev
       (emit_proposal_created i PROPOSAL_KIND_LEGISLATION STAGE_LEG_REPRESENTATIVE (bn_add (block_number s) stage_duration) s5)"
  have "reserved env s0 i s2"
    using reserved_snapshot_legislation [OF reserved_allocate_and_lock [OF s a(1)], of env i] a(2) by (metis keeps_pair)
  then have m: "reserved env s0 i ?m" by (simp add: insert_legislation_metas_def)
  have "proposals ?m = proposals s2" by (simp add: insert_legislation_metas_def)
  then have "sound_from env s0 s3" using sound_bind_plan [OF reserved_insert [OF m], of i plan ?p] a(3) by simp
  then have "sound_from env s0 s4" using snapshot_special_frame [OF a(4)] by auto
  then have "sound_from env s0 s5" using sound_schedule_expiry a(5) by (metis keeps_pair)
  then show ?thesis by (simp add: a(6) emit_proposal_created_def)
qed

lemma sound_own_ballot:
  "tracks_framed env \<Longrightarrow> sound_from env s0 s \<Longrightarrow> keeps (sound_from env s0) (cast_own_ballot env who b i s)"
  unfolding cast_own_ballot_def by (auto intro!: keeps_and_then sound_leg_votes)

lemma sound_leg_creates:
  assumes tf: "tracks_framed env" and s: "sound_from env s0 s"
  shows "keeps (sound_from env s0) (create_representative_vote env who cid plan route rule additional tag data s)"
    and "keeps (sound_from env s0) (create_legislation_vote env who cid plan route rule procedure tag data obj s)"
proof -
  have reg: "sound_from env s0 t'" if "sound_from env s0 t" "register_proposal_data env i tag d b t = (Inr (), t')"
    for t t' i tag d b using sound_register_data [OF that(1), of env i tag d b] that(2) by simp
  have sto: "sound_from env s0 t'" if "sound_from env s0 t" "store_proposal_object env i k d t = (Inr (), t')"
    for t t' i k d using sound_store_object [OF that(1), of env i k d] that(2) by simp
  have own: "sound_from env s0 t'" if "sound_from env s0 t" "cast_own_ballot env who b i t = (Inr j, t')" for t t' b i j
    using sound_own_ballot [OF tf that(1), of who b i] that(2) by simp
  note cr = sound_create_representative [OF s]
  show "keeps (sound_from env s0) (create_representative_vote env who cid plan route rule additional tag data s)"
    unfolding create_representative_vote_def
    by (rule keeps_and_then, rule keeps_pure_result, rule s, clarsimp simp: pure_result_def,
        rule keeps_with_transaction_ok [where P = "sound_from env s0"], rule s) (auto intro: own [OF reg [OF cr]])
  show "keeps (sound_from env s0) (create_legislation_vote env who cid plan route rule procedure tag data obj s)"
    unfolding create_legislation_vote_def
    by (rule keeps_and_then, rule keeps_pure_result, rule s, clarsimp simp: pure_result_def,
        rule keeps_with_transaction_ok [where P = "sound_from env s0"], rule s) (auto intro: own [OF sto [OF reg [OF cr]]])
qed

end
