(* ===== verification/Election_Vote.thy ===== *)
theory Election_Vote
  imports Legislation_Vote
begin

text \<open>
  The election vote (\<^verbatim>\<open>votingengine/election-vote/src\<close>): creation of popular and mutual elections
  with their candidate and voter snapshots (\<^verbatim>\<open>lib.rs\<close>, \<^verbatim>\<open>snapshot.rs\<close>, \<^verbatim>\<open>popular.rs\<close>,
  \<^verbatim>\<open>mutual.rs\<close>), ballots, the result (\<^verbatim>\<open>tally.rs\<close>), the callback, cleanup and the track
  (\<^verbatim>\<open>cleanup.rs\<close>).
\<close>

section \<open>Candidates\<close>

definition bounded_candidates ::
  "'x env \<Rightarrow> citizen_subject list \<Rightarrow> population_scope \<Rightarrow> 'x engine \<Rightarrow> dispatch_error + citizen_subject list" where
  "bounded_candidates env candidates scope s =
     (if candidates = [] then Inl (ElectionVote EmptyCandidateSnapshot)
      else if has_duplicate (map cs_cid_number candidates) then Inl (ElectionVote DuplicateCandidateCid)
      else if \<not> list_all (\<lambda>c. candidate_subject_of env (cs_account_id c) scope (ext s) = Some c) candidates
      then Inl (ElectionVote CandidateSubjectInvalid)
      else if length candidates \<le> MaxElectionCandidates (cfg env) then Inr candidates
      else Inl (ElectionVote TooManyCandidates))"

definition candidate_exists :: "proposal_id \<Rightarrow> citizen_subject \<Rightarrow> 'x engine \<Rightarrow> bool" where
  "candidate_exists i c s = (case election_candidates (election s) i of None \<Rightarrow> False | Some items \<Rightarrow> c \<in> set items)"

section \<open>Creation\<close>

definition election_subject_cid_numbers :: "cid_number \<Rightarrow> vote_plan \<Rightarrow> ve_error + cid_number list" where
  "election_subject_cid_numbers actor plan =
     bound_subject_cid_numbers (actor # concat (map (\<lambda>subject.
       case subject of Institution rs \<Rightarrow> [rs_cid_number rs] | PersonalMultisig _ \<Rightarrow> []) (vp_voter_subjects plan)))"

definition election_institution_code :: "cid_number \<Rightarrow> dispatch_error + institution_code" where
  "election_institution_code cid =
     (if \<not> utf8_valid cid then Inl (ElectionVote ElectionInvalidInstitutionCid)
      else case institution_code_from_cid_number cid of
        None \<Rightarrow> Inl (ElectionVote ElectionInvalidInstitutionCid) | Some code \<Rightarrow> Inr code)"

definition candidate_scope ::
  "election_mode \<Rightarrow> population_scope option \<Rightarrow> cid_number \<Rightarrow> vote_plan \<Rightarrow> dispatch_error + population_scope" where
  "candidate_scope mode scope actor plan =
     (case (mode, scope) of
        (Popular, Some sc) \<Rightarrow>
          if vp_voter_subjects plan = [] then Inr sc else Inl (ElectionVote ElectionInvalidVotePlan)
      | (Mutual, None) \<Rightarrow>
          if vp_voter_subjects plan \<noteq> [] \<and> list_all (\<lambda>subject.
               case subject of Institution rs \<Rightarrow> rs_cid_number rs = actor | PersonalMultisig _ \<Rightarrow> False) (vp_voter_subjects plan)
          then Inr ScopeCountry else Inl (ElectionVote ElectionInvalidVotePlan)
      | _ \<Rightarrow> Inl (ElectionVote ElectionScopeMissing))"

definition ensure_election_plan ::
  "'x env \<Rightarrow> account \<Rightarrow> vote_plan \<Rightarrow> cid_number \<Rightarrow> 'x engine \<Rightarrow> dispatch_error + unit" where
  "ensure_election_plan env who plan actor s =
     (if vp_voting_engine plan \<noteq> Election then Inl (ElectionVote ElectionInvalidVotePlan)
      else case vp_proposer_subject plan of
        PersonalMultisig _ \<Rightarrow> Inl (ElectionVote ElectionInvalidVotePlan)
      | Institution proposer \<Rightarrow>
          if rs_cid_number proposer = actor \<and> is_active_assignment env actor who (rs_role_code proposer) (ext s)
          then Inr () else Inl (ElectionVote NotOrganizerAdmin))"

definition election_proposal ::
  "election_mode \<Rightarrow> institution_code \<Rightarrow> cid_number \<Rightarrow> cid_number list \<Rightarrow> block_number \<Rightarrow> proposal" where
  "election_proposal mode code cid cids now =
     \<lparr>p_kind = PROPOSAL_KIND_ELECTION, p_stage = election_mode_stage mode, p_status = STATUS_VOTING,
      p_internal_code = Some code, p_actor_cid_number = Some cid, p_execution_account_id = None,
      p_subject_cid_numbers = cids, p_start = now, p_end = bn_add now stage_duration\<rparr>"

definition open_election_books ::
  "proposal_id \<Rightarrow> election_meta \<Rightarrow> citizen_subject list \<Rightarrow> 'x engine \<Rightarrow> 'x engine" where
  "open_election_books i meta candidates s =
     upd_election (\<lambda>v. v\<lparr>
       election_meta_store := (election_meta_store v)(i \<mapsto> meta),
       election_candidates := (election_candidates v)(i \<mapsto> candidates),
       election_tally_store := (election_tally_store v)(i := 0)\<rparr>) s"

definition snapshot_election_population ::
  "'x env \<Rightarrow> proposal_id \<Rightarrow> population_scope option \<Rightarrow> 'x engine \<Rightarrow> (dispatch_error, unit, 'x engine) outcome" where
  "snapshot_election_population env i scope s =
     (case scope of
        None \<Rightarrow> (Inr (), s)
      | Some sc \<Rightarrow> and_then (create_population_snapshot env i sc s) (\<lambda>elig s.
          ensure (elig \<noteq> 0) (ElectionVote EmptyVoterSnapshot) s (\<lambda>s. (Inr (), s))))"

fun snapshot_election_roles ::
  "'x env \<Rightarrow> proposal_id \<Rightarrow> authorization_subject list \<Rightarrow> 'x engine \<Rightarrow> (dispatch_error, unit, 'x engine) outcome" where
  "snapshot_election_roles env i [] s = (Inr (), s)"
| "snapshot_election_roles env i (subject # subjects) s =
     (case subject of
        PersonalMultisig _ \<Rightarrow> (Inl (ElectionVote ElectionInvalidVotePlan), s)
      | Institution rs \<Rightarrow>
          and_then (snapshot_role_voters env i subject
              (active_accounts_for_role env (rs_cid_number rs) (rs_role_code rs) (ext s)) s) (\<lambda>_ s.
            snapshot_election_roles env i subjects s))"

definition snapshot_mutual_voters ::
  "'x env \<Rightarrow> election_mode \<Rightarrow> proposal_id \<Rightarrow> authorization_subject list \<Rightarrow> 'x engine \<Rightarrow> (dispatch_error, unit, 'x engine) outcome" where
  "snapshot_mutual_voters env mode i subjects s =
     (if mode = Mutual then snapshot_election_roles env i subjects s else (Inr (), s))"

definition do_create_election ::
  "'x env \<Rightarrow> account \<Rightarrow> vote_plan \<Rightarrow> election_mode \<Rightarrow> cid_number \<Rightarrow> role_code \<Rightarrow> u16 \<Rightarrow> u32 \<Rightarrow> u32 \<Rightarrow>
   population_scope option \<Rightarrow> citizen_subject list \<Rightarrow> 'x engine \<Rightarrow> (dispatch_error, proposal_id, 'x engine) outcome" where
  "do_create_election env who plan mode actor role seats_n term_start term_end scope candidates s =
     ensure (role \<noteq> []) (ElectionVote EmptyRoleCode) s (\<lambda>s.
     ensure (0 < seats_n) (ElectionVote InvalidSeatCount) s (\<lambda>s.
     ensure (term_start \<le> term_end) (ElectionVote InvalidTerm) s (\<lambda>s.
     and_then (pure_result (election_institution_code actor) s) (\<lambda>actor_code s.
     and_then (pure_result (ensure_election_plan env who plan actor s) s) (\<lambda>_ s.
     and_then (pure_result (candidate_scope mode scope actor plan) s) (\<lambda>cscope s.
     and_then (pure_result (bounded_candidates env candidates cscope s) s) (\<lambda>bounded s.
     ensure (seats_n \<le> length bounded) (ElectionVote InvalidSeatCount) s (\<lambda>s.
     (case election_subject_cid_numbers actor plan of
        Inl e \<Rightarrow> (Inl (VotingEngine e), s)
      | Inr cids \<Rightarrow>
          let now = block_number s;
              p = election_proposal mode actor_code actor cids now;
              meta = \<lparr>em_mode = mode, em_population_scope = scope, em_actor_cid_number = actor, em_role_code = role,
                      em_seat_count = seats_n, em_term_start = term_start, em_term_end = term_end\<rparr> in
          with_transaction (\<lambda>s.
            and_then (allocate_id env s) (\<lambda>i s.
            and_then (add_active env (subject_keys p) i s) (\<lambda>_ s.
            let s1 = open_election_books i meta bounded (s\<lparr>proposals := (proposals s)(i \<mapsto> p)\<rparr>) in
            and_then (snapshot_mutual_voters env mode i (vp_voter_subjects plan) s1) (\<lambda>_ s.
            and_then (snapshot_election_population env i scope s) (\<lambda>_ s.
            and_then (bind_vote_plan i plan s) (\<lambda>_ s.
            and_then (register_proposal_data env i (vp_proposal_owner plan) [] now s) (\<lambda>_ s.
            and_then (schedule_proposal_expiry env i (p_end p) s) (\<lambda>_ s.
              (Inr i, deposit_event (ElectionCreated i mode actor role seats_n)
                (emit_proposal_created i PROPOSAL_KIND_ELECTION (p_stage p) (p_end p) s)))))))))) s)))))))))"

definition do_create_popular_election ::
  "'x env \<Rightarrow> account \<Rightarrow> vote_plan \<Rightarrow> cid_number \<Rightarrow> role_code \<Rightarrow> u16 \<Rightarrow> u32 \<Rightarrow> u32 \<Rightarrow>
   population_scope \<Rightarrow> citizen_subject list \<Rightarrow> 'x engine \<Rightarrow> (dispatch_error, proposal_id, 'x engine) outcome" where
  "do_create_popular_election env who plan actor role seats_n term_start term_end scope candidates =
     do_create_election env who plan Popular actor role seats_n term_start term_end (Some scope) candidates"

definition do_create_mutual_election ::
  "'x env \<Rightarrow> account \<Rightarrow> vote_plan \<Rightarrow> cid_number \<Rightarrow> role_code \<Rightarrow> u16 \<Rightarrow> u32 \<Rightarrow> u32 \<Rightarrow>
   citizen_subject list \<Rightarrow> 'x engine \<Rightarrow> (dispatch_error, proposal_id, 'x engine) outcome" where
  "do_create_mutual_election env who plan actor role seats_n term_start term_end candidates =
     do_create_election env who plan Mutual actor role seats_n term_start term_end None candidates"

section \<open>The result\<close>

definition candidate_tally :: "proposal_id \<Rightarrow> cid_number \<Rightarrow> 'x engine \<Rightarrow> u32" where
  "candidate_tally i c s = (case map_of (election_candidate_tallies (election s) i) c of None \<Rightarrow> 0 | Some n \<Rightarrow> n)"

definition finalize_election_result ::
  "'x env \<Rightarrow> proposal_id \<Rightarrow> 'x engine \<Rightarrow> (dispatch_error, unit, 'x engine) outcome" where
  "finalize_election_result env i s =
     ok_or (election_meta_store (election s) i) (ElectionVote ElectionMetaMissing) s (\<lambda>meta.
     ok_or (election_candidates (election s) i) (ElectionVote EmptyCandidateSnapshot) s (\<lambda>candidates.
       let candidate_votes = map (\<lambda>c. (c, candidate_tally i (cs_cid_number c) s)) candidates in
       (case select_winners candidate_votes (em_seat_count meta) of
          Inl _ \<Rightarrow> set_status_and_emit env i STATUS_REJECTED (deposit_event (ElectionRejectedByTieOrNoVotes i) s)
        | Inr winners \<Rightarrow>
            ensure (length winners \<le> MaxElectionCandidates (cfg env)) (ElectionVote TooManyCandidates) s (\<lambda>s.
              set_status_and_emit env i STATUS_PASSED (deposit_event (ElectionResultReady i)
                (upd_election (\<lambda>v. v\<lparr>election_results := (election_results v)(i \<mapsto> winners)\<rparr>) s))))))"

section \<open>Ballots\<close>

definition record_popular_vote :: "proposal_id \<Rightarrow> citizen_subject \<Rightarrow> citizen_subject \<Rightarrow> 'x engine \<Rightarrow> 'x engine" where
  "record_popular_vote i voter candidate s =
     upd_election (\<lambda>v. v\<lparr>popular_election_votes_by_cid := (popular_election_votes_by_cid v)
       (i := kv_insert (cs_cid_number voter) \<lparr>pv_voter_subject = voter, pv_candidate_subject = candidate\<rparr>
              (popular_election_votes_by_cid v i))\<rparr>) s"

definition record_mutual_vote :: "proposal_id \<Rightarrow> institution_vote_ticket \<Rightarrow> citizen_subject \<Rightarrow> 'x engine \<Rightarrow> 'x engine" where
  "record_mutual_vote i ticket candidate s =
     upd_election (\<lambda>v. v\<lparr>mutual_election_votes_by_ticket := (mutual_election_votes_by_ticket v)
       (i := kv_insert ticket candidate (mutual_election_votes_by_ticket v i))\<rparr>) s"

definition count_election_vote :: "proposal_id \<Rightarrow> citizen_subject \<Rightarrow> 'x engine \<Rightarrow> 'x engine" where
  "count_election_vote i candidate s =
     upd_election (\<lambda>v. v\<lparr>
       election_candidate_tallies := (election_candidate_tallies v)
         (i := kv_insert (cs_cid_number candidate) (sat_add 32 (candidate_tally i (cs_cid_number candidate) s) 1)
                (election_candidate_tallies v i)),
       election_tally_store := (election_tally_store v)(i := sat_add 32 (election_tally_store v i) 1)\<rparr>) s"

text \<open>The ballot itself: who votes, and under which key.\<close>

definition take_election_ballot ::
  "'x env \<Rightarrow> account \<Rightarrow> proposal_id \<Rightarrow> u8 \<Rightarrow> role_code option \<Rightarrow> citizen_subject \<Rightarrow> 'x engine \<Rightarrow>
   (dispatch_error, election_voter, 'x engine) outcome" where
  "take_election_ballot env who i expected_stage role candidate s =
     (if expected_stage = STAGE_ELECTION_POPULAR then
        ensure (role = None) (ElectionVote VoterNotInSnapshot) s (\<lambda>s.
        ok_or (voting_subject_at_population_snapshot env i who s) (ElectionVote VoterNotEligible) s (\<lambda>voter.
        ensure (\<not> kv_contains (cs_cid_number voter) (popular_election_votes_by_cid (election s) i))
          (VotingEngine AlreadyVoted) s (\<lambda>s.
          (Inr (CitizenVoter voter), record_popular_vote i voter candidate s))))
      else
        ok_or role (ElectionVote VoterNotInSnapshot) s (\<lambda>role_code.
        ok_or (election_meta_store (election s) i) (ElectionVote ElectionMetaMissing) s (\<lambda>meta.
        let rs = \<lparr>rs_cid_number = em_actor_cid_number meta, rs_role_code = role_code\<rparr>; subject = Institution rs in
        ensure (is_subject_voter_in_snapshot env i subject who s) (ElectionVote VoterNotInSnapshot) s (\<lambda>s.
        let voter = (case resolve_subject_voter env subject who s of None \<Rightarrow> who | Some v \<Rightarrow> v);
            ticket = \<lparr>t_role_subject = rs, t_voter_account_id = voter\<rparr> in
        ensure (\<not> kv_contains ticket (mutual_election_votes_by_ticket (election s) i)) (VotingEngine AlreadyVoted) s (\<lambda>s.
          (Inr (InstitutionVoter ticket), record_mutual_vote i ticket candidate s))))))"

definition election_eligible_total :: "proposal_id \<Rightarrow> u8 \<Rightarrow> 'x engine \<Rightarrow> dispatch_error + u64" where
  "election_eligible_total i expected_stage s =
     (if expected_stage = STAGE_ELECTION_POPULAR then
        (case population_eligible_total_of i s of None \<Rightarrow> Inl (ElectionVote EmptyVoterSnapshot) | Some n \<Rightarrow> Inr n)
      else case election_meta_store (election s) i of
        None \<Rightarrow> Inl (ElectionVote ElectionMetaMissing)
      | Some meta \<Rightarrow> (case institution_ticket_count i (em_actor_cid_number meta) s of
          None \<Rightarrow> Inl (ElectionVote EmptyVoterSnapshot) | Some n \<Rightarrow> Inr n))"

definition do_cast_election_vote ::
  "'x env \<Rightarrow> account \<Rightarrow> proposal_id \<Rightarrow> u8 \<Rightarrow> role_code option \<Rightarrow> citizen_subject \<Rightarrow> 'x engine \<Rightarrow>
   (dispatch_error, unit, 'x engine) outcome" where
  "do_cast_election_vote env who i expected_stage role candidate s =
     and_then (pure_result (ensure_open_proposal i s) s) (\<lambda>p s.
     ensure (p_kind p = PROPOSAL_KIND_ELECTION) (VotingEngine InvalidProposalKind) s (\<lambda>s.
     ensure (p_stage p = expected_stage) (VotingEngine InvalidProposalStage) s (\<lambda>s.
     ensure (candidate_exists i candidate s) (ElectionVote CandidateNotInSnapshot) s (\<lambda>s.
     and_then (take_election_ballot env who i expected_stage role candidate s) (\<lambda>voter s.
     let s1 = count_election_vote i candidate s;
         casted = election_tally_store (election s1) i;
         s2 = deposit_event (ElectionVoteCast i voter candidate) s1 in
     and_then (pure_result (election_eligible_total i expected_stage s2) s2) (\<lambda>elig s.
       if elig \<le> casted then finalize_election_result env i s else (Inr (), s)))))))"

definition do_cast_popular_vote ::
  "'x env \<Rightarrow> account \<Rightarrow> proposal_id \<Rightarrow> citizen_subject \<Rightarrow> 'x engine \<Rightarrow> (dispatch_error, unit, 'x engine) outcome" where
  "do_cast_popular_vote env who i candidate = do_cast_election_vote env who i STAGE_ELECTION_POPULAR None candidate"

definition do_cast_mutual_vote ::
  "'x env \<Rightarrow> account \<Rightarrow> proposal_id \<Rightarrow> role_code \<Rightarrow> citizen_subject \<Rightarrow> 'x engine \<Rightarrow> (dispatch_error, unit, 'x engine) outcome" where
  "do_cast_mutual_vote env who i role candidate = do_cast_election_vote env who i STAGE_ELECTION_MUTUAL (Some role) candidate"

definition cast_popular_vote ::
  "'x env \<Rightarrow> origin \<Rightarrow> proposal_id \<Rightarrow> citizen_subject \<Rightarrow> 'x engine \<Rightarrow> (dispatch_error, unit, 'x engine) outcome" where
  "cast_popular_vote env o' i candidate =
     with_transaction (\<lambda>s.
       ok_or (ensure_signed o') BadOrigin s (\<lambda>who. do_cast_popular_vote env who i candidate s))"

definition cast_mutual_vote ::
  "'x env \<Rightarrow> origin \<Rightarrow> proposal_id \<Rightarrow> role_code \<Rightarrow> citizen_subject \<Rightarrow> 'x engine \<Rightarrow> (dispatch_error, unit, 'x engine) outcome" where
  "cast_mutual_vote env o' i role candidate =
     with_transaction (\<lambda>s.
       ok_or (ensure_signed o') BadOrigin s (\<lambda>who. do_cast_mutual_vote env who i role candidate s))"

section \<open>Timeouts, the callback and the track\<close>

definition finalize_election_timeout ::
  "'x env \<Rightarrow> proposal \<Rightarrow> proposal_id \<Rightarrow> 'x engine \<Rightarrow> (dispatch_error, unit, 'x engine) outcome" where
  "finalize_election_timeout env p i s =
     ensure (p_end p < block_number s) (VotingEngine VoteNotExpired) s (\<lambda>s. finalize_election_result env i s)"

definition election_vote_callback :: "'x vote_callback" where
  "election_vote_callback = \<lparr>
     on_vote_finalized = (\<lambda>i approved s.
       (Inr (if election_meta_store (election s) i = None then Ignored
             else if approved \<and> election_results (election s) i = None then FatalFailed
             else Executed), ext s)),
     can_cancel_passed_proposal = (\<lambda>_ s. (Inr CancelIgnored, ext s)),
     on_execution_failed_terminal = (\<lambda>_ s. (Inr (), ext s))\<rparr>"

definition election_handles :: "u8 \<Rightarrow> bool" where
  "election_handles kind \<longleftrightarrow> kind = PROPOSAL_KIND_ELECTION"

definition election_finalize_timeout :: "'x env \<Rightarrow> 'x timeout_handler" where
  "election_finalize_timeout env p i s =
     (if \<not> election_handles (p_kind p) then (None, s)
      else map_prod Some id
        (if p_stage p = STAGE_ELECTION_POPULAR then finalize_election_timeout env p i s
         else if p_stage p = STAGE_ELECTION_MUTUAL then finalize_election_timeout env p i s
         else (Inl (VotingEngine InvalidProposalStage), s)))"

definition cleanup_election_votes_chunk ::
  "prefix_clearing \<Rightarrow> proposal_id \<Rightarrow> u32 \<Rightarrow> 'x engine \<Rightarrow> (u32 \<times> bool) \<times> 'x engine" where
  "cleanup_election_votes_chunk cp i limit s =
     (case clear_ledger cp limit (popular_election_votes_by_cid (election s) i) of ((n1, more1), ys) \<Rightarrow>
      let s1 = upd_election (\<lambda>v. v\<lparr>popular_election_votes_by_cid := (popular_election_votes_by_cid v)(i := ys)\<rparr>) s in
      if more1 \<or> limit \<le> n1 then ((n1, True), s1)
      else
        (case clear_ledger cp (sat_sub limit n1) (mutual_election_votes_by_ticket (election s1) i) of ((n2, more2), zs) \<Rightarrow>
          ((sat_add 32 n1 n2, more2),
           upd_election (\<lambda>v. v\<lparr>mutual_election_votes_by_ticket := (mutual_election_votes_by_ticket v)(i := zs)\<rparr>) s1)))"

definition cleanup_election_voters_chunk :: "proposal_id \<Rightarrow> u32 \<Rightarrow> 'x engine \<Rightarrow> (u32 \<times> bool) \<times> 'x engine" where
  "cleanup_election_voters_chunk i limit s = ((0, False), s)"

definition cleanup_election_tallies_chunk ::
  "prefix_clearing \<Rightarrow> proposal_id \<Rightarrow> u32 \<Rightarrow> 'x engine \<Rightarrow> (u32 \<times> bool) \<times> 'x engine" where
  "cleanup_election_tallies_chunk cp i limit s =
     (case clear_ledger cp limit (election_candidate_tallies (election s) i) of ((n, remain), ys) \<Rightarrow>
        ((n, remain), upd_election (\<lambda>v. v\<lparr>
           election_candidate_tallies := (election_candidate_tallies v)(i := ys),
           election_tally_store := (if remain then election_tally_store v else (election_tally_store v)(i := 0))\<rparr>) s))"

definition election_cleanup_chunk ::
  "prefix_clearing \<Rightarrow> proposal_id \<Rightarrow> u32 \<Rightarrow> 'x engine \<Rightarrow> (u32 \<times> bool) \<times> 'x engine" where
  "election_cleanup_chunk cp i limit0 s =
     (let limit = max limit0 1 in
      case cleanup_election_votes_chunk cp i limit s of ((n1, more1), s1) \<Rightarrow>
      if more1 \<or> limit \<le> n1 then ((n1, True), s1) else
      case cleanup_election_voters_chunk i (sat_sub limit n1) s1 of ((n2, more2), s2) \<Rightarrow>
      let removed = sat_add 32 n1 n2 in
      if more2 \<or> limit \<le> removed then ((removed, True), s2) else
      case cleanup_election_tallies_chunk cp i (sat_sub limit removed) s2 of ((n3, more3), s3) \<Rightarrow>
      ((sat_add 32 removed n3, more3), s3))"

definition cleanup_election_terminal :: "proposal_id \<Rightarrow> 'x engine \<Rightarrow> 'x engine" where
  "cleanup_election_terminal i s =
     upd_election (\<lambda>v. v\<lparr>
       election_meta_store := (election_meta_store v)(i := None),
       election_candidates := (election_candidates v)(i := None),
       election_results := (election_results v)(i := None)\<rparr>) s"

text \<open>The measured weights of the two calls, by the number of candidates, are parameters.\<close>

definition election_track ::
  "prefix_clearing \<Rightarrow> (nat \<Rightarrow> nat \<Rightarrow> weight) \<Rightarrow> u32 \<Rightarrow> (u32 \<Rightarrow> weight) \<Rightarrow> (u32 \<Rightarrow> weight) \<Rightarrow> 'x track" where
  "election_track cp db max_candidates w_popular w_mutual =
    \<lparr>handles = election_handles,
     on_proposal_executed = (\<lambda>kind i s. (if election_handles kind then Some (Inr ()) else None, s)),
     on_proposal_terminal = (\<lambda>kind i status s. (if election_handles kind then Some (Inr ()) else None, s)),
     cleanup_chunk = (\<lambda>kind i limit s. if election_handles kind then
        (case election_cleanup_chunk cp i limit s of (r, s') \<Rightarrow> (Some r, s')) else (None, s)),
     cleanup_terminal = (\<lambda>kind i s. if election_handles kind then (Some (), cleanup_election_terminal i s) else (None, s)),
     timeout_weight = (\<lambda>stage. if stage = STAGE_ELECTION_POPULAR then Some (w_popular max_candidates)
        else if stage = STAGE_ELECTION_MUTUAL then Some (w_mutual max_candidates)
        else if stage = U8_MAX then Some (w_max (w_popular max_candidates) (w_mutual max_candidates)) else None),
     cleanup_chunk_weight = (\<lambda>kind limit. if kind \<in> {PROPOSAL_KIND_ELECTION, U8_MAX} then
        Some (w_add (w_add \<lparr>ref_time = 12000000, proof_size = 6000\<rparr>
          (w_scale \<lparr>ref_time = 1200000, proof_size = 2700\<rparr> (max limit 1)))
          (db (sat_add 64 (max limit 1) 3) (sat_add 64 (max limit 1) 1)))
        else None),
     cleanup_terminal_weight = (\<lambda>kind. if kind \<in> {PROPOSAL_KIND_ELECTION, U8_MAX} then
        Some (w_add \<lparr>ref_time = 10000000, proof_size = 10000\<rparr> (db 0 3)) else None)\<rparr>"

section \<open>The contracts of the engine\<close>

lemma election_chunk_core: "same_core s (snd (election_cleanup_chunk cp i n s))"
  by (auto simp: election_cleanup_chunk_def cleanup_election_votes_chunk_def cleanup_election_voters_chunk_def
      cleanup_election_tallies_chunk_def clear_ledger_def Let_def)

interpretation election: ledger_track "election_track cp db m wp wm" for cp db m wp wm
proof unfold_locales
  fix s :: "'x engine" and k st :: u8 and i :: proposal_id and n :: u32
  show "same_core s (snd (cleanup_chunk (election_track cp db m wp wm) k i n s))"
    using election_chunk_core [of s cp i n] by (auto simp: election_track_def split: prod.splits)
qed (simp_all add: election_track_def cleanup_election_terminal_def)

lemma sound_election_result:
  assumes tf: "tracks_framed env" and s: "sound_from env s0 s"
  shows "keeps (sound_from env s0) (finalize_election_result env i s)"
  unfolding finalize_election_result_def Let_def
  by (intro keeps_ok_or s) (auto simp: s split: sum.split intro!: keeps_ensure sound_set_status [OF tf])

lemma sound_take_ballot:
  "sound_from env s0 s \<Longrightarrow> keeps (sound_from env s0) (take_election_ballot env' who i st role c s)"
  unfolding take_election_ballot_def Let_def
  by (auto simp: record_popular_vote_def record_mutual_vote_def intro!: keeps_ensure keeps_ok_or)

lemma sound_election_vote:
  assumes tf: "tracks_framed env" and s: "sound_from env s0 s"
  shows "keeps (sound_from env s0) (do_cast_election_vote env who i st role c s)"
  unfolding do_cast_election_vote_def Let_def
  by (rule keeps_and_then, rule keeps_pure_result, rule s)
     (auto simp: pure_result_def s count_election_vote_def
       intro!: keeps_ensure keeps_and_then sound_take_ballot sound_election_result [OF tf])

lemma sound_election_calls:
  assumes "tracks_framed env" "sound_from env s0 s"
  shows "keeps (sound_from env s0) (cast_popular_vote env o' i c s)"
    and "keeps (sound_from env s0) (cast_mutual_vote env o' i role c s)"
  unfolding cast_popular_vote_def cast_mutual_vote_def do_cast_popular_vote_def do_cast_mutual_vote_def
  by (intro keeps_with_transaction keeps_ok_or assms(2) sound_election_vote [OF assms])+

lemma election_timeout_track:
  assumes tf: "tracks_framed env"
  shows "timeout_track env (election_finalize_timeout env)"
proof
  show "fst (election_finalize_timeout env p i s) = None \<Longrightarrow> snd (election_finalize_timeout env p i s) = s" for p i s
    by (auto simp: election_finalize_timeout_def split: if_splits)
  fix s i p assume inv: "engine_inv env s"
  note s = sound_from_refl [OF inv]
  have "keeps (sound_from env s) (finalize_election_timeout env p i s)"
    unfolding finalize_election_timeout_def by (intro keeps_ensure s sound_election_result [OF tf s])
  with s show "sound_from env s (snd (election_finalize_timeout env p i s))"
    by (simp add: election_finalize_timeout_def keeps_def)
qed

section \<open>What creation does\<close>

definition election_meta_of ::
  "election_mode \<Rightarrow> population_scope option \<Rightarrow> cid_number \<Rightarrow> role_code \<Rightarrow> u16 \<Rightarrow> u32 \<Rightarrow> u32 \<Rightarrow> election_meta" where
  "election_meta_of mode scope actor role n t0 t1 =
     \<lparr>em_mode = mode, em_population_scope = scope, em_actor_cid_number = actor, em_role_code = role,
      em_seat_count = n, em_term_start = t0, em_term_end = t1\<rparr>"

lemma create_election_ok:
  assumes "do_create_election env who plan mode actor role n t0 t1 scope candidates s = (Inr i, s')"
  obtains code cids cscope s1 s2 s3 s4 s5 s6 s7 where
    "0 < n" "n \<le> length candidates" "candidate_scope mode scope actor plan = Inr cscope"
    "bounded_candidates env candidates cscope s = Inr candidates"
    "allocate_id env s = (Inr i, s1)"
    "add_active env (subject_keys (election_proposal mode code actor cids (block_number s))) i s1 = (Inr (), s2)"
    "snapshot_mutual_voters env mode i (vp_voter_subjects plan)
       (open_election_books i (election_meta_of mode scope actor role n t0 t1) candidates
         (s2\<lparr>proposals := (proposals s2)(i \<mapsto> election_proposal mode code actor cids (block_number s))\<rparr>)) = (Inr (), s3)"
    "snapshot_election_population env i scope s3 = (Inr (), s4)"
    "bind_vote_plan i plan s4 = (Inr (), s5)"
    "register_proposal_data env i (vp_proposal_owner plan) [] (block_number s) s5 = (Inr (), s6)"
    "schedule_proposal_expiry env i (bn_add (block_number s) stage_duration) s6 = (Inr (), s7)"
    "s' = deposit_event (ElectionCreated i mode actor role n)
       (emit_proposal_created i PROPOSAL_KIND_ELECTION (election_mode_stage mode) (bn_add (block_number s) stage_duration) s7)"
proof -
  have e: "p_end (election_proposal mode code actor cids b) = bn_add b stage_duration"
    "p_stage (election_proposal mode code actor cids b) = election_mode_stage mode" for code cids b
    by (simp_all add: election_proposal_def)
  have bc: "b = candidates" if "bounded_candidates env candidates c t = Inr b" for b c t
    using that by (simp add: bounded_candidates_def split: if_splits)
  from assms obtain cids where r: "election_subject_cid_numbers actor plan = Inr cids"
    by (cases "election_subject_cid_numbers actor plan") (auto simp: do_create_election_def pure_result_def)
  from assms obtain code cscope b where v: "0 < n" "n \<le> length b" "candidate_scope mode scope actor plan = Inr cscope"
    "bounded_candidates env candidates cscope s = Inr b" "election_institution_code actor = Inr code"
    by (auto simp: do_create_election_def pure_result_def)
  with bc [OF v(4)] assms that show ?thesis
    by (auto simp: do_create_election_def Let_def pure_result_def r e election_meta_of_def)
qed

lemma sound_snapshot_roles: "sound_from env s0 s \<Longrightarrow> keeps (sound_from env s0) (snapshot_role_voters env' j sj vs s)"
  by (auto simp: snapshot_role_voters_def Let_def ensure_def ok_or_def
      split: authorization_subject.split sum.split option.split)

lemma sound_snapshot_election_roles:
  "sound_from env s0 s \<Longrightarrow> keeps (sound_from env s0) (snapshot_election_roles env' j sjs s)"
proof (induction sjs arbitrary: s)
  case (Cons sj sjs)
  then show ?case
    by (auto split: authorization_subject.split intro!: keeps_and_then sound_snapshot_roles)
qed simp

lemma snapshot_population_frame:
  "snapshot_election_population env i scope s = (Inr a, s') \<Longrightarrow> \<exists>r. s' = s\<lparr>records := r\<rparr>"
  by (auto simp: snapshot_election_population_def create_population_snapshot_def split: option.splits
      intro: exI [of _ "records s"])

lemma sound_create_election:
  fixes s :: "'x engine"
  assumes s: "sound_from env s0 s"
    and ok: "do_create_election env who plan mode actor role n t0 t1 scope candidates s = (Inr i, s')"
  shows "sound_from env s0 s'"
  using ok
proof (rule create_election_ok)
  fix code cids cscope and s1 s2 s3 s4 s5 s6 s7 :: "'x engine"
  let ?p = "election_proposal mode code actor cids (block_number s)"
  let ?o = "open_election_books i (election_meta_of mode scope actor role n t0 t1) candidates
      (s2\<lparr>proposals := (proposals s2)(i \<mapsto> ?p)\<rparr>)"
  assume a: "allocate_id env s = (Inr i, s1)" "add_active env (subject_keys ?p) i s1 = (Inr (), s2)"
    "snapshot_mutual_voters env mode i (vp_voter_subjects plan) ?o = (Inr (), s3)"
    "snapshot_election_population env i scope s3 = (Inr (), s4)" "bind_vote_plan i plan s4 = (Inr (), s5)"
    "register_proposal_data env i (vp_proposal_owner plan) [] (block_number s) s5 = (Inr (), s6)"
    "schedule_proposal_expiry env i (bn_add (block_number s) stage_duration) s6 = (Inr (), s7)"
    "s' = deposit_event (ElectionCreated i mode actor role n)
       (emit_proposal_created i PROPOSAL_KIND_ELECTION (election_mode_stage mode) (bn_add (block_number s) stage_duration) s7)"
  have "reserved env s0 i s2" using on_okD [OF on_ok_add_active [OF sound_allocate [OF s a(1)]] a(2)] .
  then have "sound_from env s0 ?o" using reserved_insert by (simp add: open_election_books_def)
  then have "sound_from env s0 s3"
    using a(3) sound_snapshot_election_roles [of env s0 ?o env i "vp_voter_subjects plan"]
    by (auto simp: snapshot_mutual_voters_def split: if_splits)
  then have "sound_from env s0 s4" using snapshot_population_frame [OF a(4)] by auto
  then have "sound_from env s0 s5" using sound_bind_plan a(5) by (metis keeps_pair)
  then have "sound_from env s0 s6" using sound_register_data a(6) by (metis keeps_pair)
  then have "sound_from env s0 s7" using sound_schedule_expiry a(7) by (metis keeps_pair)
  then show ?thesis by (simp add: a(8) emit_proposal_created_def)
qed

lemma sound_election_creates:
  assumes s: "sound_from env s0 s"
  shows "on_ok (sound_from env s0) (do_create_popular_election env who plan actor role n t0 t1 sc candidates s)"
    and "on_ok (sound_from env s0) (do_create_mutual_election env who plan actor role n t0 t1 candidates s)"
  unfolding do_create_popular_election_def do_create_mutual_election_def on_ok_def
  using sound_create_election [OF s] by blast+

lemma create_election_error:
  "do_create_election env who plan mode actor role n t0 t1 scope candidates s = (Inl e, s') \<Longrightarrow> s' = s"
  by (auto simp: do_create_election_def Let_def pure_result_def ensure_def and_then_def
      split: if_splits sum.splits prod.splits dest: with_transaction_error)

end
