(* ===== verification/Chain.thy ===== *)
theory Chain
  imports Election_Vote
begin

text \<open>
  The engine in the chain: the calls that reach it, blocks, and everything else that happens on
  the chain (which changes only the other pallets' storage), as a step relation; what holds along
  every run.
\<close>

section \<open>Steps\<close>

datatype call =
    FinalizeProposal origin proposal_id
  | RetryPassed origin proposal_id
  | CancelPassed origin proposal_id string
  | InternalCast origin proposal_id internal_vote_ticket_claim bool
  | CastAdmin origin proposal_id cid_number role_code bool
  | CastReferendum origin proposal_id bool
  | CreateInstitution account institution_code string "account option" "string list" vote_plan string
  | CreateAdminChange account institution_code string vote_plan string
  | CreatePersonal account account string string
  | CreatePersonalLifecycle account account string string
  | CreatePersonalAccount account account "account list" u32 string string
  | CreatePersonalAdminChange account account u32 u32 string string
  | CreateJoint account string vote_plan string
  | CreateJointObject account string vote_plan string u8 string
  | VoteRepresentative origin proposal_id role_code bool
  | VoteLegReferendum origin proposal_id bool
  | SignExecutive origin proposal_id bool
  | SignOverride origin proposal_id bool
  | VoteGuard origin proposal_id bool
  | CreateRepresentative account cid_number vote_plan representative_route representative_vote_rule "cid_number list" string string
  | CreateLegislation account cid_number vote_plan representative_route representative_vote_rule legislation_meta string string string
  | VotePopular origin proposal_id citizen_subject
  | VoteMutual origin proposal_id role_code citizen_subject
  | CreatePopular account vote_plan cid_number role_code u16 u32 u32 population_scope "citizen_subject list"
  | CreateMutual account vote_plan cid_number role_code u16 u32 u32 "citizen_subject list"

text \<open>The tracks of the runtime, in the order of its configuration.\<close>

definition chain_timeouts :: "'x env \<Rightarrow> 'x timeout_handler list" where
  "chain_timeouts env = [internal_finalize_timeout env, joint_finalize_timeout env,
     legislation_finalize_timeout env, election_finalize_timeout env]"

fun dispatch :: "'x env \<Rightarrow> call \<Rightarrow> 'x engine \<Rightarrow> 'x engine" where
  "dispatch env (FinalizeProposal o' i) s = snd (finalize_proposal (chain_timeouts env) o' i s)"
| "dispatch env (RetryPassed o' i) s = snd (retry_passed_proposal env o' i s)"
| "dispatch env (CancelPassed o' i reason) s = snd (cancel_passed_proposal env o' i reason s)"
| "dispatch env (InternalCast o' i claim b) s = snd (internal_cast env o' i claim b s)"
| "dispatch env (CastAdmin o' i cid role b) s = snd (cast_admin env o' i cid role b s)"
| "dispatch env (CastReferendum o' i b) s = snd (cast_referendum env o' i b s)"
| "dispatch env (CreateInstitution who code cid exec cids plan data) s =
     snd (create_institution_proposal_with_data env who code cid exec cids plan data s)"
| "dispatch env (CreateAdminChange who code cid plan data) s =
     snd (create_institution_admin_change_proposal_with_data env who code cid plan data s)"
| "dispatch env (CreatePersonal who a tag data) s = snd (create_personal_proposal_with_data env who a tag data s)"
| "dispatch env (CreatePersonalLifecycle who a tag data) s =
     snd (create_personal_lifecycle_proposal_with_data env who a tag data s)"
| "dispatch env (CreatePersonalAccount who a admins th tag data) s =
     snd (create_personal_account_create_proposal_with_data env who a admins th tag data s)"
| "dispatch env (CreatePersonalAdminChange who a n th tag data) s =
     snd (create_personal_admin_change_proposal_with_data env who a n th tag data s)"
| "dispatch env (CreateJoint who cid plan data) s = snd (create_joint_proposal_with_data env who cid plan data s)"
| "dispatch env (CreateJointObject who cid plan data k obj) s =
     snd (create_joint_proposal_with_data_and_object env who cid plan data k obj s)"
| "dispatch env (VoteRepresentative o' i role b) s = snd (cast_representative_vote env o' i role b s)"
| "dispatch env (VoteLegReferendum o' i b) s = snd (cast_referendum_vote env o' i b s)"
| "dispatch env (SignExecutive o' i b) s = snd (executive_sign env o' i b s)"
| "dispatch env (SignOverride o' i b) s = snd (override_sign env o' i b s)"
| "dispatch env (VoteGuard o' i b) s = snd (guard_vote env o' i b s)"
| "dispatch env (CreateRepresentative who cid plan route rule additional tag data) s =
     snd (create_representative_vote env who cid plan route rule additional tag data s)"
| "dispatch env (CreateLegislation who cid plan route rule meta tag data obj) s =
     snd (create_legislation_vote env who cid plan route rule meta tag data obj s)"
| "dispatch env (VotePopular o' i c) s = snd (cast_popular_vote env o' i c s)"
| "dispatch env (VoteMutual o' i role c) s = snd (cast_mutual_vote env o' i role c s)"
| "dispatch env (CreatePopular who plan actor role n t0 t1 scope candidates) s =
     snd (do_create_popular_election env who plan actor role n t0 t1 scope candidates s)"
| "dispatch env (CreateMutual who plan actor role n t0 t1 candidates) s =
     snd (do_create_mutual_election env who plan actor role n t0 t1 candidates s)"

definition next_block :: "'x env \<Rightarrow> 'x engine \<Rightarrow> 'x engine" where
  "next_block env s =
     (let n = Suc (block_number s) in snd (on_initialize env (chain_timeouts env) n (s\<lparr>block_number := n\<rparr>)))"

inductive chain_step :: "'x env \<Rightarrow> 'x engine \<Rightarrow> 'x engine \<Rightarrow> bool"
  for env where
  step_block: "chain_step env s (next_block env s)"
| step_call: "chain_step env s (dispatch env c s)"
| step_other: "chain_step env s (s\<lparr>ext := x\<rparr>)"

inductive_cases chain_stepE: "chain_step env s s'"

section \<open>Along a run\<close>

text \<open>Time may have passed; otherwise as \<open>evolves\<close>.\<close>

definition history :: "'x engine \<Rightarrow> 'x engine \<Rightarrow> bool" where
  "history s s' \<longleftrightarrow>
     next_proposal_id (ids s) \<le> next_proposal_id (ids s') \<and> block_number s \<le> block_number s' \<and>
     (\<forall>i < next_proposal_id (ids s). slot_evolves (proposals s i) (proposals s' i))"

lemma history_refl [simp]: "history s s"
  by (simp add: history_def)

lemma history_trans: "history s t \<Longrightarrow> history t u \<Longrightarrow> history s u"
  unfolding history_def by (metis le_trans less_le_trans slot_evolves_trans)

lemma evolves_history: "evolves s s' \<Longrightarrow> history s s'"
  by (simp add: history_def evolves_def)

lemma chain_timeouts_sound:
  assumes "tracks_framed env"
  shows "timeouts_sound env (chain_timeouts env)"
  using internal_timeout_track [OF assms] joint_timeout_track [OF assms] legislation_timeout_track [OF assms]
    election_timeout_track [OF assms]
  by (simp add: timeouts_sound_def chain_timeouts_def)

text \<open>Creating an election either succeeds or changes nothing.\<close>

lemma sound_election_creates_all:
  assumes s: "sound_from env s0 s"
  shows "sound_from env s0 (snd (do_create_popular_election env who plan actor role n t0 t1 sc candidates s))"
    and "sound_from env s0 (snd (do_create_mutual_election env who plan actor role n t0 t1 candidates s))"
proof -
  have "sound_from env s0 (snd (do_create_election env who plan mode actor role n t0 t1 scope candidates s))" for mode scope
    using s sound_create_election [OF s] create_election_error
    by (cases "do_create_election env who plan mode actor role n t0 t1 scope candidates s" rule: outcome_cases) fastforce+
  then show "sound_from env s0 (snd (do_create_popular_election env who plan actor role n t0 t1 sc candidates s))"
    "sound_from env s0 (snd (do_create_mutual_election env who plan actor role n t0 t1 candidates s))"
    by (simp_all add: do_create_popular_election_def do_create_mutual_election_def)
qed

lemma dispatch_sound:
  assumes tf: "tracks_framed env" and s: "sound_from env s0 s"
  shows "sound_from env s0 (dispatch env c s)"
proof -
  note sounds = sound_finalize_call [OF chain_timeouts_sound [OF tf] s] sound_retry_call [OF tf s]
    sound_cancel_call [OF tf s] sound_internal_cast [OF tf s] sound_joint_calls [OF tf s] sound_creates [OF tf s]
    sound_joint_creates [OF s] sound_leg_calls [OF tf s] sound_leg_creates [OF tf s] sound_election_calls [OF tf s]
  show ?thesis by (cases c) (use sounds sound_election_creates_all [OF s] in \<open>simp_all add: keeps_def\<close>)
qed

lemma chain_step_history:
  assumes tf: "tracks_framed env" and inv: "engine_inv env s"
    and st: "chain_step env s s'"
  shows "engine_inv env s' \<and> history s s'"
  using st
proof (rule chain_stepE)
  let ?n = "Suc (block_number s)" and ?b = "s\<lparr>block_number := Suc (block_number s)\<rparr>"
  assume s': "s' = next_block env s"
  have "engine_inv env ?b"
    using inv cleanup_inv_later [of "block_number s" ?n] by (simp add: engine_inv_def settled_def)
  then have "sound_from env ?b s'"
    unfolding s' next_block_def Let_def
    by (intro sound_on_initialize [OF tf chain_timeouts_sound [OF tf]] sound_from_refl)
  then have "engine_inv env s'" "history ?b s'" by (simp_all add: sound_from_def evolves_history)
  moreover have "history s ?b" by (simp add: history_def)
  ultimately show ?thesis using history_trans by blast
next
  fix c assume "s' = dispatch env c s"
  then show ?thesis
    using dispatch_sound [OF tf sound_from_refl [OF inv], of c] by (simp add: sound_from_def evolves_history)
next
  fix x assume "s' = s\<lparr>ext := x\<rparr>"
  with inv show ?thesis by (simp add: history_def)
qed

lemma chain_run_history:
  assumes tf: "tracks_framed env" and inv: "engine_inv env s"
    and run: "(chain_step env)\<^sup>*\<^sup>* s s'"
  shows "engine_inv env s' \<and> history s s'"
  using run
proof (induction rule: rtranclp_induct)
  case base
  from inv show ?case by simp
next
  case (step t u)
  with chain_step_history [OF tf, of t u] show ?case using history_trans by blast
qed

section \<open>The tracks of the runtime\<close>

text \<open>
  Any environment, with the four tracks in the runtime's order and the election pallet as the
  callback of its own proposals; the measured weights are parameters.
\<close>

definition four_tracks ::
  "(nat \<Rightarrow> nat \<Rightarrow> weight) \<Rightarrow> weight \<Rightarrow> weight \<Rightarrow> weight \<Rightarrow> legislation_weights \<Rightarrow> (u32 \<Rightarrow> weight) \<Rightarrow>
   (u32 \<Rightarrow> weight) \<Rightarrow> 'x env \<Rightarrow> 'x env" where
  "four_tracks db wi wj wr wl wp wm env = env\<lparr>tracks :=
     [internal_track (clearing env) db wi, joint_track (clearing env) db wj wr, legislation_track (clearing env) db wl,
      election_track (clearing env) db (MaxElectionCandidates (cfg env)) wp wm],
     election_callback := election_vote_callback\<rparr>"

lemma four_tracks_keep_ledgers: "tracks_keep_ledgers (four_tracks db wi wj wr wl wp wm env)"
  by (simp add: tracks_keep_ledgers_def four_tracks_def internal.ledger_track_axioms joint.ledger_track_axioms
      legislation.ledger_track_axioms election.ledger_track_axioms)

lemmas four_tracks_framed = keep_ledgers_framed [OF four_tracks_keep_ledgers]

interpretation internal_timeouts: timeout_track "four_tracks db wi wj wr wl wp wm env"
    "internal_finalize_timeout (four_tracks db wi wj wr wl wp wm env)" for db wi wj wr wl wp wm env
  by (rule internal_timeout_track) (rule four_tracks_framed)

interpretation joint_timeouts: timeout_track "four_tracks db wi wj wr wl wp wm env"
    "joint_finalize_timeout (four_tracks db wi wj wr wl wp wm env)" for db wi wj wr wl wp wm env
  by (rule joint_timeout_track) (rule four_tracks_framed)

interpretation legislation_timeouts: timeout_track "four_tracks db wi wj wr wl wp wm env"
    "legislation_finalize_timeout (four_tracks db wi wj wr wl wp wm env)" for db wi wj wr wl wp wm env
  by (rule legislation_timeout_track) (rule four_tracks_framed)

interpretation election_timeouts: timeout_track "four_tracks db wi wj wr wl wp wm env"
    "election_finalize_timeout (four_tracks db wi wj wr wl wp wm env)" for db wi wj wr wl wp wm env
  by (rule election_timeout_track) (rule four_tracks_framed)

end
