(* ===== verification/Legislation_Process.thy ===== *)
theory Legislation_Process
  imports Legislation_Vote
begin

text \<open>
  The life of a bill, as an abstract machine of a dozen rules, and the proof that the
  legislation-vote pallet implements it: whatever calls are made on it, by whomever and in
  whatever order, a bill moves only along these rules, and when it is enacted every stage it had
  to pass is on record.
\<close>

section \<open>The abstract procedure\<close>

datatype bill_phase =
    InBody nat | InReferendum | AwaitingSignature | Countersigning | GuardReview | Enacted | Refused

record bill =
  bl_route :: representative_route
  bl_rule :: representative_vote_rule
  bl_procedure :: vote_procedure
  bl_meta :: "legislation_meta option"

abbreviation bodies :: "bill \<Rightarrow> representative_body list" where
  "bodies b \<equiv> route_bodies (bl_route b)"

definition after_bodies :: "bill \<Rightarrow> bill_phase" where
  "after_bodies b =
     (if bl_procedure b = RepresentativeOnly then Enacted
      else if bl_rule b = RuleSpecial then InReferendum else AwaitingSignature)"

definition after_approval :: "legislation_meta \<Rightarrow> bill_phase" where
  "after_approval lm = (if lm_needs_guard lm then GuardReview else Enacted)"

inductive bill_step :: "bill \<Rightarrow> bill_phase \<Rightarrow> bill_phase \<Rightarrow> bool" for b where
  next_body: "Suc k < length (bodies b) \<Longrightarrow> bill_step b (InBody k) (InBody (Suc k))"
| last_body: "Suc k = length (bodies b) \<Longrightarrow> bill_step b (InBody k) (after_bodies b)"
| body_refuses: "bill_step b (InBody k) Refused"
| people_approve: "bl_meta b = Some lm \<Longrightarrow> bill_step b InReferendum (after_approval lm)"
| people_refuse: "bill_step b InReferendum Refused"
| signed_or_lapsed: "bl_meta b = Some lm \<Longrightarrow> bill_step b AwaitingSignature (after_approval lm)"
| returned: "bl_meta b = Some lm \<Longrightarrow> lm_override_signers lm \<noteq> [] \<Longrightarrow> bill_step b AwaitingSignature Countersigning"
| vetoed: "bl_meta b = Some lm \<Longrightarrow> lm_override_signers lm = [] \<Longrightarrow> bill_step b AwaitingSignature Refused"
| countersigned: "bl_meta b = Some lm \<Longrightarrow> bill_step b Countersigning (after_approval lm)"
| countersign_refused: "bill_step b Countersigning Refused"
| justices_approve: "bill_step b GuardReview Enacted"
| justices_refuse: "bill_step b GuardReview Refused"

inductive_cases bill_stepE: "bill_step b a c"

text \<open>A decided bill stays decided.\<close>

lemma decided_final: "bill_step b a c \<Longrightarrow> a \<noteq> Enacted \<and> a \<noteq> Refused"
  by (erule bill_stepE) simp_all

section \<open>The bill in the engine\<close>

definition phase_of :: "representative_meta \<Rightarrow> proposal \<Rightarrow> bill_phase option" where
  "phase_of m p =
     (if p_status p = STATUS_PASSED then Some Enacted
      else if p_status p = STATUS_REJECTED then Some Refused
      else if p_status p \<noteq> STATUS_VOTING then None
      else if p_stage p = STAGE_LEG_REPRESENTATIVE then Some (InBody (rm_current_body m))
      else if p_stage p = STAGE_LEG_REFERENDUM then Some InReferendum
      else if p_stage p = STAGE_LEG_SIGN then Some AwaitingSignature
      else if p_stage p = STAGE_LEG_OVERRIDE then Some Countersigning
      else if p_stage p = STAGE_LEG_CONSTITUTION_GUARD then Some GuardReview
      else None)"

definition bill_phase :: "proposal_id \<Rightarrow> 'x engine \<Rightarrow> bill_phase option" where
  "bill_phase i s =
     (case (proposals s i, representative_metas (legislation s) i) of
        (Some p, Some m) \<Rightarrow> phase_of m p | _ \<Rightarrow> None)"

definition electorate :: "proposal_id \<Rightarrow> representative_body \<Rightarrow> 'x engine \<Rightarrow> account list option" where
  "electorate i body s = map_of (voter_snapshot (snapshots s) i) (Institution body)"

text \<open>The ballots of the \<open>k\<close>-th body, and the tickets its frozen members hold.\<close>

definition body_votes :: "proposal_id \<Rightarrow> u32 \<Rightarrow> 'x engine \<Rightarrow> ((u32 \<times> institution_vote_ticket) \<times> bool) list" where
  "body_votes i k s = filter (\<lambda>e. fst (fst e) = k) (representative_votes_by_ticket (legislation s) i)"

definition body_ticket :: "bill \<Rightarrow> u32 \<Rightarrow> account \<Rightarrow> u32 \<times> institution_vote_ticket" where
  "body_ticket b k a = (k, \<lparr>t_role_subject = bodies b ! k, t_voter_account_id = a\<rparr>)"

definition body_ledger :: "bill \<Rightarrow> proposal_id \<Rightarrow> u32 \<Rightarrow> 'x engine \<Rightarrow> bool" where
  "body_ledger b i k s \<longleftrightarrow>
     (\<exists>voters. electorate i (bodies b ! k) s = Some voters \<and> length voters < 2 ^ 32 \<and>
        counted id (body_votes i k s) (representative_tally i k s) \<and>
        fst ` set (body_votes i k s) \<subseteq> body_ticket b k ` set voters)"

definition body_passed :: "bill \<Rightarrow> proposal_id \<Rightarrow> u32 \<Rightarrow> 'x engine \<Rightarrow> bool" where
  "body_passed b i k s \<longleftrightarrow>
     (\<exists>voters. electorate i (bodies b ! k) s = Some voters \<and>
        representative_final_passed (bl_rule b) (length voters)
          (yes (representative_tally i k s)) (no (representative_tally i k s)))"

definition referendum_held :: "proposal_id \<Rightarrow> 'x engine \<Rightarrow> bool" where
  "referendum_held i s \<longleftrightarrow>
     (\<exists>elig. population_eligible_total_of i s = Some elig \<and>
        referendum_passed elig (yes (leg_referendum_tally (legislation s) i)) (no (leg_referendum_tally (legislation s) i)))"

definition guard_approvals :: "proposal_id \<Rightarrow> 'x engine \<Rightarrow> nat" where
  "guard_approvals i s = length (filter snd (leg_guard_signs (legislation s) i))"

text \<open>What is on record when a bill has come to a phase.\<close>

fun on_record :: "bill \<Rightarrow> proposal_id \<Rightarrow> 'x engine \<Rightarrow> bill_phase \<Rightarrow> bool" where
  "on_record b i s (InBody k) \<longleftrightarrow> k < length (bodies b) \<and> (\<forall>j < k. body_passed b i j s)"
| "on_record b i s Refused \<longleftrightarrow> True"
| "on_record b i s ph \<longleftrightarrow>
     (\<forall>j < length (bodies b). body_passed b i j s) \<and>
     (ph \<in> {InReferendum, AwaitingSignature, Countersigning, GuardReview} \<longrightarrow> bl_procedure b = LegislationProcedure) \<and>
     (ph = InReferendum \<longrightarrow> bl_rule b = RuleSpecial) \<and>
     (ph \<in> {AwaitingSignature, Countersigning} \<longrightarrow> bl_rule b \<noteq> RuleSpecial) \<and>
     (ph \<in> {GuardReview, Enacted} \<and> bl_procedure b = LegislationProcedure \<and> bl_rule b = RuleSpecial \<longrightarrow> referendum_held i s) \<and>
     (\<forall>lm. ph = Enacted \<and> bl_procedure b = LegislationProcedure \<and> bl_meta b = Some lm \<and> lm_needs_guard lm \<longrightarrow>
        CONSTITUTION_GUARD_APPROVAL_THRESHOLD \<le> guard_approvals i s)"

declare on_record.simps [simp del]

definition bill_at :: "bill \<Rightarrow> proposal_id \<Rightarrow> bill_phase \<Rightarrow> 'x engine \<Rightarrow> bool" where
  "bill_at b i ph s \<longleftrightarrow>
     (\<exists>p m. proposals s i = Some p \<and> p_kind p = PROPOSAL_KIND_LEGISLATION \<and>
        representative_metas (legislation s) i = Some m \<and> rm_route m = bl_route b \<and> rm_rule m = bl_rule b \<and>
        rm_procedure m = bl_procedure b \<and> legislation_metas (legislation s) i = bl_meta b \<and>
        phase_of m p = Some ph) \<and>
     length (bodies b) \<le> MAX_REPRESENTATIVE_BODIES \<and>
     (\<forall>k < length (bodies b). body_ledger b i k s)"

definition bill_ok :: "bill \<Rightarrow> proposal_id \<Rightarrow> bill_phase \<Rightarrow> 'x engine \<Rightarrow> bool" where
  "bill_ok b i ph s \<longleftrightarrow> bill_at b i ph s \<and> on_record b i s ph"

lemma bill_at_phase: "bill_at b i ph s \<Longrightarrow> bill_phase i s = Some ph"
  by (auto simp: bill_at_def bill_phase_def)

section \<open>Frames\<close>

text \<open>Everything about a bill except its proposal.\<close>

definition same_docket :: "proposal_id \<Rightarrow> 'x engine \<Rightarrow> 'x engine \<Rightarrow> bool" where
  "same_docket i s s' \<longleftrightarrow>
     voter_snapshot (snapshots s') i = voter_snapshot (snapshots s) i \<and>
     proposal_population_snapshots (records s') i = proposal_population_snapshots (records s) i \<and>
     legislation_metas (legislation s') i = legislation_metas (legislation s) i \<and>
     representative_tallies (legislation s') i = representative_tallies (legislation s) i \<and>
     representative_votes_by_ticket (legislation s') i = representative_votes_by_ticket (legislation s) i \<and>
     leg_referendum_tally (legislation s') i = leg_referendum_tally (legislation s) i"

lemma docket_refl [simp]: "same_docket i s s"
  by (simp add: same_docket_def)

lemma docket_trans: "same_docket i s t \<Longrightarrow> same_docket i t u \<Longrightarrow> same_docket i s u"
  by (simp add: same_docket_def)

lemma docket_ballots: "same_ballots s s' \<Longrightarrow> same_docket i s s'"
  by (simp add: same_docket_def same_ballots_def)

lemma docket_bodies:
  assumes "same_docket i s s'"
  shows "electorate i c s' = electorate i c s" "body_votes i k s' = body_votes i k s"
    "representative_tally i k s' = representative_tally i k s" "body_ledger b i k s' = body_ledger b i k s"
    "body_passed b i k s' = body_passed b i k s" "referendum_held i s' = referendum_held i s"
  using assms
  by (simp_all add: same_docket_def electorate_def body_votes_def representative_tally_def body_ledger_def
      body_passed_def referendum_held_def population_eligible_total_of_def)

lemma docket_event [simp]: "same_docket i s (deposit_event e s)"
  by (simp add: same_docket_def deposit_event_def)

lemmas docket_event_bodies [simp] = docket_bodies [OF docket_event]

lemma on_record_cong:
  assumes "same_docket i s s'" "leg_guard_signs (legislation s') i = leg_guard_signs (legislation s) i"
  shows "on_record b i s' ph = on_record b i s ph"
  using assms(2) by (cases ph) (simp_all add: on_record.simps docket_bodies [OF assms(1)] guard_approvals_def)

text \<open>Before the justices sit, their signatures do not matter.\<close>

lemma on_record_docket:
  "same_docket i s s' \<Longrightarrow> ph \<noteq> Enacted \<Longrightarrow> on_record b i s' ph = on_record b i s ph"
  by (cases ph) (simp_all add: on_record.simps docket_bodies)

lemma bill_at_move:
  assumes "bill_at b i ph s" "same_docket i s s'"
    and "proposals s' i = Some q" "p_kind q = PROPOSAL_KIND_LEGISLATION"
    and "\<And>m. representative_metas (legislation s) i = Some m \<Longrightarrow>
       representative_metas (legislation s') i = Some (m\<lparr>rm_current_body := f m\<rparr>) \<and>
       phase_of (m\<lparr>rm_current_body := f m\<rparr>) q = Some ph'"
  shows "bill_at b i ph' s'"
proof -
  from assms(1) obtain m where m: "representative_metas (legislation s) i = Some m" "rm_route m = bl_route b"
    "rm_rule m = bl_rule b" "rm_procedure m = bl_procedure b" "legislation_metas (legislation s) i = bl_meta b"
    "length (bodies b) \<le> MAX_REPRESENTATIVE_BODIES" "\<forall>k < length (bodies b). body_ledger b i k s"
    unfolding bill_at_def by blast
  have "legislation_metas (legislation s') i = bl_meta b" using m(5) assms(2) by (simp add: same_docket_def)
  with m assms(3,4) assms(5) [OF m(1)] show ?thesis
    unfolding bill_at_def by (simp add: docket_bodies [OF assms(2)])
qed

lemma bill_at_frame:
  assumes "same_docket i s s'" "proposals s' i = proposals s i"
    and "representative_metas (legislation s') i = representative_metas (legislation s) i"
  shows "bill_at b i ph s' = bill_at b i ph s"
  using assms by (simp add: bill_at_def docket_bodies) (simp add: same_docket_def)

section \<open>Elementary moves\<close>

definition bill_next :: "bill \<Rightarrow> proposal_id \<Rightarrow> bill_phase \<Rightarrow> 'x engine \<Rightarrow> bool" where
  "bill_next b i ph s \<longleftrightarrow> (\<exists>ph'. bill_ok b i ph' s \<and> (bill_step b)\<^sup>=\<^sup>= ph ph')"

lemma bill_nextI: "bill_step b ph ph' \<Longrightarrow> bill_at b i ph' s \<Longrightarrow> on_record b i s ph' \<Longrightarrow> bill_next b i ph s"
  by (auto simp: bill_next_def bill_ok_def)

lemma bill_next_same: "bill_at b i ph s \<Longrightarrow> on_record b i s ph \<Longrightarrow> bill_next b i ph s"
  by (auto simp: bill_next_def bill_ok_def)

lemma bill_frames [simp]:
  "bill_at b i ph (deposit_event e s) = bill_at b i ph s"
  "bill_at b i ph (s\<lparr>locks := l\<rparr>) = bill_at b i ph s"
  "bill_at b i ph (upd_legislation (\<lambda>v. v\<lparr>leg_override_signs := os\<rparr>) s) = bill_at b i ph s"
  "bill_at b i ph (upd_legislation (\<lambda>v. v\<lparr>leg_guard_signs := gs\<rparr>) s) = bill_at b i ph s"
  "on_record b i (deposit_event e s) ph = on_record b i s ph"
  "on_record b i (s\<lparr>locks := l\<rparr>) ph = on_record b i s ph"
  "on_record b i (upd_legislation (\<lambda>v. v\<lparr>leg_override_signs := os\<rparr>) s) ph = on_record b i s ph"
  by (rule bill_at_frame on_record_cong; simp add: same_docket_def deposit_event_def)+

lemma bill_next_frames [simp]:
  "bill_next b i ph (deposit_event e s) = bill_next b i ph s"
  "bill_next b i ph (s\<lparr>locks := l\<rparr>) = bill_next b i ph s"
  by (simp_all add: bill_next_def bill_ok_def)

lemma open_voting:
  assumes "bill_at b i ph s" "ph \<noteq> Enacted" "ph \<noteq> Refused"
  obtains p m where "proposals s i = Some p" "p_status p = STATUS_VOTING" "p_kind p = PROPOSAL_KIND_LEGISLATION"
    "representative_metas (legislation s) i = Some m" "phase_of m p = Some ph"
  using assms by (auto simp: bill_at_def phase_of_def split: if_splits)

definition decides :: "u8 \<Rightarrow> bill_phase \<Rightarrow> bool" where
  "decides st ph \<longleftrightarrow> st = STATUS_PASSED \<and> ph = Enacted \<or> st = STATUS_REJECTED \<and> ph = Refused"

lemma decides_simps [simp]: "decides STATUS_PASSED Enacted" "decides STATUS_REJECTED Refused"
  by (simp_all add: decides_def)

lemma next_status:
  assumes tk: "tracks_keep_ledgers env" and b: "bill_at b i ph s" and st: "bill_step b ph ph'" "decides st ph'"
    and r: "on_record b i s ph'"
  shows "on_ok (bill_next b i ph) (set_status_and_emit env i st s)"
  unfolding on_ok_def
proof clarify
  fix u s' assume ok: "set_status_and_emit env i st s = (Inr u, s')"
  obtain p m where p: "proposals s i = Some p" "p_kind p = PROPOSAL_KIND_LEGISLATION"
    using open_voting [OF b] decided_final [OF st(1)] by metis
  have e: "same_ballots s s'" "proposals s' = (proposals s)(i \<mapsto> p\<lparr>p_status := st\<rparr>)"
    using referendum_set_status [OF tk] ok p(1) by auto
  have "phase_of m (p\<lparr>p_status := st\<rparr>) = Some ph'" for m using st(2) by (auto simp: decides_def phase_of_def)
  then have "bill_at b i ph' s'"
    using e p(2) by (intro bill_at_move [OF b docket_ballots [OF e(1)], where f = rm_current_body and q = "p\<lparr>p_status := st\<rparr>"])
      (auto simp: same_ballots_def)
  moreover have "on_record b i s' ph'"
    using on_record_cong [OF docket_ballots [OF e(1)]] r e(1) by (simp add: same_ballots_def)
  ultimately show "bill_next b i ph s'" using bill_nextI [OF st(1)] by blast
qed

lemma reschedule_effect:
  assumes "reschedule env i change s = (Inr a, s')"
  obtains p where "proposals s i = Some p" "same_ballots s s'"
    "proposals s' = (proposals s)(i \<mapsto> (change p)\<lparr>p_start := block_number s, p_end := bn_add (block_number s) stage_duration\<rparr>)"
  using assms
  by (auto simp: reschedule_def Let_def schedule_proposal_expiry_def push_expiry_def same_ballots_def)

definition stage_phase :: "u8 \<Rightarrow> bill_phase \<Rightarrow> bool" where
  "stage_phase st ph \<longleftrightarrow> st = STAGE_LEG_REFERENDUM \<and> ph = InReferendum \<or> st = STAGE_LEG_SIGN \<and> ph = AwaitingSignature \<or>
     st = STAGE_LEG_OVERRIDE \<and> ph = Countersigning \<or> st = STAGE_LEG_CONSTITUTION_GUARD \<and> ph = GuardReview"

lemma stage_phase_simps [simp]:
  "stage_phase STAGE_LEG_REFERENDUM InReferendum" "stage_phase STAGE_LEG_SIGN AwaitingSignature"
  "stage_phase STAGE_LEG_OVERRIDE Countersigning" "stage_phase STAGE_LEG_CONSTITUTION_GUARD GuardReview"
  by (simp_all add: stage_phase_def)

lemma next_stage:
  assumes b: "bill_at b i ph s" and st: "bill_step b ph ph'" "stage_phase g ph'" and r: "on_record b i s ph'"
  shows "on_ok (bill_next b i ph) (reschedule env i (\<lambda>p. p\<lparr>p_stage := g\<rparr>) s)"
  unfolding on_ok_def
proof clarify
  fix u s' assume ok: "reschedule env i (\<lambda>p. p\<lparr>p_stage := g\<rparr>) s = (Inr u, s')"
  obtain p where p: "proposals s i = Some p" "p_status p = STATUS_VOTING" "p_kind p = PROPOSAL_KIND_LEGISLATION"
    using open_voting [OF b] decided_final [OF st(1)] by metis
  obtain q where e: "same_ballots s s'" "proposals s' i = Some q" "p_stage q = g" "p_status q = STATUS_VOTING"
    "p_kind q = PROPOSAL_KIND_LEGISLATION"
    using ok p by (auto elim: reschedule_effect)
  have "phase_of m q = Some ph'" for m
    using st(2) e(3,4) by (auto simp: stage_phase_def phase_of_def leg_stage_defs)
  then have "bill_at b i ph' s'"
    using e by (intro bill_at_move [OF b docket_ballots [OF e(1)], where f = rm_current_body and q = q])
      (auto simp: same_ballots_def)
  moreover have "on_record b i s' ph'"
    using on_record_cong [OF docket_ballots [OF e(1)]] r e(1) by (simp add: same_ballots_def)
  ultimately show "bill_next b i ph s'" using bill_nextI [OF st(1)] by blast
qed

text \<open>The composed moves.\<close>

lemma next_transition:
  assumes "bill_at b i ph s" "bill_step b ph ph'" "stage_phase g ph'" "on_record b i s ph'"
  shows "on_ok (bill_next b i ph) (transition_stage env i g s)"
  unfolding transition_stage_def by (rule on_ok_with_transaction) (rule next_stage [OF assms])

lemma next_approval:
  assumes tk: "tracks_keep_ledgers env" and b: "bill_at b i ph s" and lm: "bl_meta b = Some lm"
    and st: "bill_step b ph (after_approval lm)" and r: "on_record b i s GuardReview"
  shows "on_ok (bill_next b i ph) (finalize_or_guard env i (lm_needs_guard lm) s)"
proof (cases "lm_needs_guard lm")
  case True
  let ?s = "upd_legislation (\<lambda>v. v\<lparr>leg_guard_signs := (leg_guard_signs v)(i := [])\<rparr>) s"
  have "same_docket i s ?s" by (simp add: same_docket_def)
  then have "on_record b i ?s GuardReview" using r on_record_docket [of i s ?s GuardReview b] by simp
  then have "on_ok (bill_next b i ph) (transition_stage env i STAGE_LEG_CONSTITUTION_GUARD ?s)"
    using True b st by (intro next_transition [where ph' = GuardReview]) (simp_all add: after_approval_def)
  then show ?thesis
    using True by (auto simp: finalize_or_guard_def advance_to_guard_def Let_def intro: on_ok_and_then)
next
  case False
  then have "on_record b i s Enacted" using r lm by (auto simp: on_record.simps)
  with False tk b st show ?thesis
    by (simp add: finalize_or_guard_def after_approval_def) (rule next_status [where ph' = Enacted]; simp)
qed

lemma next_sign:
  assumes "bill_at b i ph s" "bill_step b ph AwaitingSignature" "on_record b i s AwaitingSignature"
  shows "on_ok (bill_next b i ph) (advance_to_sign env i s)"
  unfolding advance_to_sign_def using assms
  by (intro on_ok_and_then [OF next_transition [where ph' = AwaitingSignature]]) simp_all

lemma next_override:
  assumes "bill_at b i ph s" "bill_step b ph Countersigning" "on_record b i s Countersigning"
  shows "on_ok (bill_next b i ph) (advance_to_override env i s)"
  unfolding advance_to_override_def Let_def using assms
  by (intro on_ok_and_then [OF next_transition [where ph' = Countersigning]]) simp_all

lemma next_referendum:
  assumes "bill_at b i ph s" "bill_step b ph InReferendum" "on_record b i s InReferendum"
  shows "on_ok (bill_next b i ph) (advance_to_referendum env i s)"
  unfolding advance_to_referendum_def using assms
  by (intro on_ok_with_transaction on_ok_ok_or on_ok_and_then [OF next_stage [where ph' = InReferendum]])
     (simp_all add: emit_proposal_advanced_to_referendum_def)

lemma next_after_bodies:
  assumes tk: "tracks_keep_ledgers env" and b: "bill_at b i (InBody k) s" and k: "Suc k = length (bodies b)"
    and r: "\<forall>j < length (bodies b). body_passed b i j s"
  shows "on_ok (bill_next b i (InBody k)) (finish_representative_route env i s)"
proof -
  from b obtain m where m: "representative_metas (legislation s) i = Some m" "rm_rule m = bl_rule b"
    "rm_procedure m = bl_procedure b" by (auto simp: bill_at_def)
  have st: "bill_step b (InBody k) (after_bodies b)" using k by (rule last_body)
  show ?thesis
  proof (cases "bl_procedure b")
    case RepresentativeOnly
    with m r st b show ?thesis
      by (simp add: finish_representative_route_def after_bodies_def)
         (rule next_status [OF tk, where ph' = Enacted]; simp add: on_record.simps)
  next
    case LegislationProcedure
    with m r st b show ?thesis
      by (auto simp: finish_representative_route_def after_bodies_def on_record.simps intro!: next_referendum next_sign)
  qed
qed

lemma in_body:
  assumes "bill_at b i (InBody k) s"
  obtains p m where "proposals s i = Some p" "p_status p = STATUS_VOTING" "p_stage p = STAGE_LEG_REPRESENTATIVE"
    "p_kind p = PROPOSAL_KIND_LEGISLATION" "representative_metas (legislation s) i = Some m" "rm_current_body m = k"
    "rm_route m = bl_route b" "rm_rule m = bl_rule b" "rm_procedure m = bl_procedure b"
  using assms by (auto simp: bill_at_def phase_of_def split: if_splits)

lemma next_body_move:
  assumes b: "bill_at b i (InBody k) s" and k: "Suc k < length (bodies b)" and r: "\<forall>j \<le> k. body_passed b i j s"
    and ok: "reschedule env i (\<lambda>p. p\<lparr>p_internal_code := c\<rparr>) (set_current_body i (Suc k) s) = (Inr u, s')"
  shows "bill_next b i (InBody k) s'"
proof -
  let ?t = "set_current_body i (Suc k) s"
  obtain p m where p: "proposals s i = Some p" "p_status p = STATUS_VOTING" "p_stage p = STAGE_LEG_REPRESENTATIVE"
    "p_kind p = PROPOSAL_KIND_LEGISLATION" and m: "representative_metas (legislation s) i = Some m"
    using b by (rule in_body)
  have t: "proposals ?t = proposals s" "same_docket i s ?t"
    "representative_metas (legislation ?t) i = Some (m\<lparr>rm_current_body := Suc k\<rparr>)"
    by (simp_all add: set_current_body_def m same_docket_def)
  obtain q where q: "same_ballots ?t s'" "proposals s' i = Some q" "p_stage q = STAGE_LEG_REPRESENTATIVE"
    "p_status q = STATUS_VOTING" "p_kind q = PROPOSAL_KIND_LEGISLATION"
    using ok p t(1) by (auto elim: reschedule_effect)
  have d: "same_docket i s s'" using docket_trans [OF t(2) docket_ballots [OF q(1)]] .
  have "bill_at b i (InBody (Suc k)) s'"
    using q t(3) m by (intro bill_at_move [OF b d q(2,5), where f = "\<lambda>_. Suc k"]) (auto simp: same_ballots_def phase_of_def)
  moreover have "on_record b i s' (InBody (Suc k))"
    using k r by (simp add: on_record.simps docket_bodies [OF d] less_Suc_eq_le)
  ultimately show ?thesis using bill_nextI [OF next_body [OF k]] by blast
qed

lemma next_advance:
  assumes tk: "tracks_keep_ledgers env" and b: "bill_at b i (InBody k) s"
    and k: "k < length (bodies b)" and r: "\<forall>j \<le> k. body_passed b i j s"
  shows "on_ok (bill_next b i (InBody k)) (advance_representative_body_or_finish env i s)"
    and "(\<exists>c. bl_route b = Single c) \<Longrightarrow> on_ok (bill_next b i (InBody k)) (finish_representative_route env i s)"
proof -
  obtain m where m: "representative_metas (legislation s) i = Some m" "rm_current_body m = k" "rm_route m = bl_route b"
    using b by (rule in_body)
  have n: "sat_add 32 k 1 = Suc k"
    using b k by (simp add: bill_at_def MAX_REPRESENTATIVE_BODIES_def sat_add_exact)
  have fin: "on_ok (bill_next b i (InBody k)) (finish_representative_route env i s)" if "Suc k = length (bodies b)"
    using that r by (intro next_after_bodies [OF tk b]) auto
  show "on_ok (bill_next b i (InBody k)) (advance_representative_body_or_finish env i s)"
  proof (cases "Suc k < length (bodies b)")
    case True
    note mv = next_body_move [OF b True r]
    with m n True show ?thesis
      by (auto simp: advance_representative_body_or_finish_def Let_def pure_result_def on_ok_def)
  next
    case False
    with k have "Suc k = length (bodies b)" by simp
    with m n fin show ?thesis by (simp add: advance_representative_body_or_finish_def)
  qed
  show "(\<exists>c. bl_route b = Single c) \<Longrightarrow> on_ok (bill_next b i (InBody k)) (finish_representative_route env i s)"
    using fin k by auto
qed

lemma next_body_approved:
  assumes tk: "tracks_keep_ledgers env" and b: "bill_at b i (InBody k) s" and m: "rm_route m = bl_route b"
    and k: "k < length (bodies b)" and r: "\<forall>j \<le> k. body_passed b i j s"
  shows "on_ok (bill_next b i (InBody k)) (body_approved env m i s)"
  using next_advance [OF tk b k r] m by (simp add: body_approved_def split: representative_route.split)

section \<open>Ballots of the representatives\<close>

interpretation body_ballots: ballot_ledger "body_votes i k" "representative_tally i k" id "\<lambda>key. fst key = k"
    "record_representative_vote i" 32 for i k
proof
  fix key :: "u32 \<times> institution_vote_ticket" and s :: "'x engine" and v
  assume own: "fst key = k"
  show "representative_tally i k (record_representative_vote i key v s) = add_vote 32 (id v) (representative_tally i k s)"
    using own by (simp add: record_representative_vote_def representative_tally_def)
  assume "key \<notin> fst ` set (body_votes i k s)"
  then have "\<not> kv_contains key (representative_votes_by_ticket (legislation s) i)"
    using own by (force simp: body_votes_def kv_contains_def)
  then show "body_votes i k (record_representative_vote i key v s) = (key, v) # body_votes i k s"
    using own by (simp add: body_votes_def record_representative_vote_def kv_insert_new)
qed

text \<open>A ballot of one body leaves the others' alone.\<close>

lemma record_other_body:
  assumes "fst key \<noteq> k"
  shows "body_votes i k (record_representative_vote i key v s) = body_votes i k s"
    and "representative_tally i k (record_representative_vote i key v s) = representative_tally i k s"
proof -
  have "filter (\<lambda>e. fst e \<noteq> key \<and> fst (fst e) = k) xs = filter (\<lambda>e. fst (fst e) = k) xs"
    for xs :: "((u32 \<times> institution_vote_ticket) \<times> bool) list"
    by (rule filter_cong) (use assms in auto)
  then show "body_votes i k (record_representative_vote i key v s) = body_votes i k s"
    using assms by (simp add: body_votes_def record_representative_vote_def kv_insert_def)
  show "representative_tally i k (record_representative_vote i key v s) = representative_tally i k s"
    using assms by (simp add: record_representative_vote_def representative_tally_def)
qed

lemma record_electorate [simp]: "electorate i c (record_representative_vote j key v s) = electorate i c s"
  by (simp add: electorate_def record_representative_vote_def)

lemma record_body_ledger:
  assumes l: "body_ledger b i j s" and v: "electorate i (bodies b ! k) s = Some voters" "a \<in> set voters"
    and new: "body_ticket b k a \<notin> fst ` set (representative_votes_by_ticket (legislation s) i)"
  shows "body_ledger b i j (record_representative_vote i (body_ticket b k a) ap s)"
proof (cases "j = k")
  case False
  have "fst (body_ticket b k a) \<noteq> j" using False by (simp add: body_ticket_def)
  with l show ?thesis by (simp add: body_ledger_def record_other_body)
next
  case True
  let ?key = "body_ticket b k a" and ?es = "map (body_ticket b k) voters"
  from l True v have c: "counted id (body_votes i k s) (representative_tally i k s)"
    and sub: "fst ` set (body_votes i k s) \<subseteq> set ?es" and len: "length voters < 2 ^ 32" by (auto simp: body_ledger_def)
  have own: "fst ?key = k" by (simp add: body_ticket_def)
  have new': "?key \<notin> fst ` set (body_votes i k s)" using new by (auto simp: body_votes_def)
  have key: "?key \<in> set ?es" using v(2) by simp
  have "length (body_votes i k s) + 1 < 2 ^ 32" using counted_room [OF c sub key new'] len by simp
  from body_ballots.exact [OF c own new' this, of ap] body_ballots.within [OF sub own key new', of ap] v(1) len True
  show ?thesis by (simp add: body_ledger_def)
qed

section \<open>Every operation is a move\<close>

lemma record_vote_bill:
  assumes b: "bill_at b i (InBody k) s" and v: "electorate i (bodies b ! k) s = Some voters" "a \<in> set voters"
    and new: "body_ticket b k a \<notin> fst ` set (representative_votes_by_ticket (legislation s) i)"
  shows "bill_at b i (InBody k) (record_representative_vote i (body_ticket b k a) ap s)"
proof -
  let ?s = "record_representative_vote i (body_ticket b k a) ap s"
  have "body_ledger b i j ?s" if "j < length (bodies b)" for j
    using b that by (intro record_body_ledger [OF _ v new]) (simp add: bill_at_def)
  moreover have "proposals ?s = proposals s" "representative_metas (legislation ?s) = representative_metas (legislation s)"
    "legislation_metas (legislation ?s) = legislation_metas (legislation s)"
    by simp_all (simp_all add: record_representative_vote_def)
  ultimately show ?thesis using b by (simp add: bill_at_def)
qed

lemma record_vote_passed:
  assumes "body_passed b i j s" "j \<noteq> k"
  shows "body_passed b i j (record_representative_vote i (body_ticket b k a) ap s)"
proof -
  have "fst (body_ticket b k a) \<noteq> j" using assms(2) by (simp add: body_ticket_def)
  with assms(1) show ?thesis by (simp add: body_passed_def record_other_body)
qed

lemma decided_passed: "representative_decided r n y m = Some True \<Longrightarrow> representative_final_passed r n y m"
  by (auto simp: representative_decided_def Let_def split: if_splits)

lemma step_representative_vote:
  assumes tk: "tracks_keep_ledgers env" and b: "bill_ok b i ph s"
  shows "on_ok (bill_next b i ph) (do_cast_representative_vote env who i role ap s)"
  unfolding on_ok_def
proof clarify
  fix u s' assume ok: "do_cast_representative_vote env who i role ap s = (Inr u, s')"
  from ok obtain p where p: "proposals s i = Some p" "p_status p = STATUS_VOTING" "p_stage p = STAGE_LEG_REPRESENTATIVE"
    by (auto simp: do_cast_representative_vote_def pure_result_def dest!: ensure_open_ok)
  from b have at: "bill_at b i ph s" and rec: "on_record b i s ph" by (simp_all add: bill_ok_def)
  then obtain k where ph: "ph = InBody k" using p by (auto simp: bill_at_def phase_of_def split: if_splits)
  obtain m where m: "representative_metas (legislation s) i = Some m" "rm_current_body m = k"
    "rm_route m = bl_route b" "rm_rule m = bl_rule b"
    using at unfolding ph by (rule in_body)
  have k: "k < length (bodies b)" and prev: "\<forall>j < k. body_passed b i j s" using rec by (simp_all add: ph on_record.simps)
  then have body: "route_body (rm_route m) (rm_current_body m) = Some (bodies b ! k)"
    using m by (simp add: route_body_nth)
  from at k obtain voters where el: "electorate i (bodies b ! k) s = Some voters"
    by (auto simp: bill_at_def body_ledger_def)
  from ok m body obtain a where new: "\<not> kv_contains (body_ticket b k a) (representative_votes_by_ticket (legislation s) i)"
    and a: "a \<in> set voters"
    and f: "let s2 = deposit_event (RepresentativeVoteCast i k who role ap) (record_representative_vote i (body_ticket b k a) ap s);
        t = representative_tally i k s2 in
      (case representative_decided (bl_rule b) (length voters) (yes t) (no t) of
         Some True \<Rightarrow> body_approved env m i s2
       | Some False \<Rightarrow> set_status_and_emit env i STATUS_REJECTED s2
       | None \<Rightarrow> (Inr (), s2)) = (Inr (), s')"
    by (auto simp: do_cast_representative_vote_def Let_def pure_result_def is_subject_voter_in_snapshot_def
        subject_voters_len_def electorate_def [symmetric] el body_ticket_def representative_tally_def deposit_event_def
        split: option.splits)
  let ?r = "record_representative_vote i (body_ticket b k a) ap s"
  let ?s2 = "deposit_event (RepresentativeVoteCast i k who role ap) ?r"
  have at2: "bill_at b i (InBody k) ?s2"
    using record_vote_bill [of b i k s voters a ap] at ph el a new by (simp add: kv_contains_def)
  have prev2: "\<forall>j < k. body_passed b i j ?s2"
    using prev by (auto intro: record_vote_passed)
  have el2: "electorate i (bodies b ! k) ?s2 = Some voters" using el by simp
  show "bill_next b i ph s'"
  proof (cases "representative_decided (bl_rule b) (length voters) (yes (representative_tally i k ?s2)) (no (representative_tally i k ?s2))")
    case None
    with f have "s' = ?s2" by (simp add: Let_def)
    with at2 prev2 k show ?thesis by (auto simp: ph on_record.simps intro: bill_next_same)
  next
    case (Some d)
    show ?thesis
    proof (cases d)
      case True
      with Some have "body_passed b i k ?s2" using el2 decided_passed by (auto simp: body_passed_def)
      then have "\<forall>j \<le> k. body_passed b i j ?s2" using prev2 by (auto simp: le_less)
      from next_body_approved [OF tk at2 m(3) k this] f Some True show ?thesis by (simp add: ph Let_def on_ok_def)
    next
      case False
      with f Some have "set_status_and_emit env i STATUS_REJECTED ?s2 = (Inr (), s')" by (simp add: Let_def)
      with next_status [OF tk at2 body_refuses, of STATUS_REJECTED] show ?thesis by (simp add: ph on_ok_def on_record.simps)
    qed
  qed
qed

text \<open>The stage of a live proposal fixes the phase.\<close>

lemma phase_by_stage:
  assumes "bill_at b i ph s" "proposals s i = Some p" "p_status p = STATUS_VOTING"
  shows "p_stage p = STAGE_LEG_REPRESENTATIVE \<Longrightarrow> \<exists>k. ph = InBody k"
    and "p_stage p = STAGE_LEG_REFERENDUM \<Longrightarrow> ph = InReferendum"
    and "p_stage p = STAGE_LEG_SIGN \<Longrightarrow> ph = AwaitingSignature"
    and "p_stage p = STAGE_LEG_OVERRIDE \<Longrightarrow> ph = Countersigning"
    and "p_stage p = STAGE_LEG_CONSTITUTION_GUARD \<Longrightarrow> ph = GuardReview"
  using assms by (auto simp: bill_at_def phase_of_def leg_stage_defs split: if_splits)

lemma bill_meta: "bill_at b i ph s \<Longrightarrow> legislation_metas (legislation s) i = bl_meta b"
  by (auto simp: bill_at_def)

lemma record_referendum_bill [simp]:
  "bill_at b i ph (record_leg_referendum_vote j c tk s) = bill_at b i ph s"
proof -
  let ?s = "record_leg_referendum_vote j c tk s"
  have "electorate i x ?s = electorate i x s" "body_votes i k ?s = body_votes i k s"
    "representative_tally i k ?s = representative_tally i k s" for x k
    by (simp_all add: electorate_def body_votes_def representative_tally_def record_leg_referendum_vote_def)
  then have "body_ledger b i k ?s = body_ledger b i k s" for k by (simp add: body_ledger_def)
  then show ?thesis by (simp add: bill_at_def) (simp add: record_leg_referendum_vote_def)
qed

lemma step_referendum_vote:
  assumes b: "bill_ok b i ph s"
  shows "on_ok (bill_next b i ph) (do_cast_referendum_vote env who i ap s)"
  unfolding on_ok_def
proof clarify
  fix u s' assume ok: "do_cast_referendum_vote env who i ap s = (Inr u, s')"
  then obtain p c tk e where p: "proposals s i = Some p" "p_status p = STATUS_VOTING" "p_stage p = STAGE_LEG_REFERENDUM"
    and s': "s' = deposit_event e (record_leg_referendum_vote i c tk s)"
    by (auto simp: do_cast_referendum_vote_def pure_result_def Let_def dest!: ensure_open_ok)
  from b have at: "bill_at b i ph s" and rec: "on_record b i s ph" by (simp_all add: bill_ok_def)
  have ph: "ph = InReferendum" by (rule phase_by_stage(2) [OF at p])
  have "body_passed b i j s' = body_passed b i j s" for j
    by (simp add: s' body_passed_def electorate_def representative_tally_def record_leg_referendum_vote_def deposit_event_def)
  then show "bill_next b i ph s'" using at rec by (intro bill_next_same) (simp_all add: s' ph on_record.simps)
qed

lemma sign_record:
  "on_record b i s AwaitingSignature \<Longrightarrow> on_record b i s GuardReview \<and> on_record b i s Countersigning"
  "on_record b i s Countersigning \<Longrightarrow> on_record b i s GuardReview"
  "on_record b i s InReferendum \<Longrightarrow> referendum_held i s \<Longrightarrow> on_record b i s GuardReview"
  by (simp_all add: on_record.simps)

lemma refused_record [simp]: "on_record b i s Refused"
  by (simp add: on_record.simps)

lemma step_executive_sign:
  assumes tk: "tracks_keep_ledgers env" and b: "bill_ok b i ph s"
  shows "on_ok (bill_next b i ph) (do_executive_sign env who i ap s)"
  unfolding do_executive_sign_def Let_def
proof (intro on_ok_ok_or on_ok_ensure)
  fix p lm e
  assume p: "proposals s i = Some p" "p_status p = STATUS_VOTING" "p_stage p = STAGE_LEG_SIGN"
    and lm: "legislation_metas (legislation s) i = Some lm"
  let ?s = "deposit_event (LegislationExecutiveSigned i who ap) s"
  from b have at: "bill_at b i ph ?s" and rec: "on_record b i ?s ph" by (simp_all add: bill_ok_def)
  have ph: "ph = AwaitingSignature" using phase_by_stage(3) [of b i ph s p] b p by (simp add: bill_ok_def)
  have meta: "bl_meta b = Some lm" using lm bill_meta [of b i ph s] b by (simp add: bill_ok_def)
  have "on_ok (bill_next b i ph) (finalize_or_guard env i (lm_needs_guard lm) ?s)"
    using rec by (intro next_approval [OF tk at meta]) (simp_all add: ph signed_or_lapsed [OF meta] sign_record)
  moreover have "on_ok (bill_next b i ph) (advance_to_override env i ?s)" if "lm_override_signers lm \<noteq> []"
    using rec by (intro next_override [OF at]) (simp_all add: ph returned [OF meta that] sign_record)
  moreover have "on_ok (bill_next b i ph) (set_status_and_emit env i STATUS_REJECTED ?s)" if "lm_override_signers lm = []"
    by (intro next_status [OF tk at, where ph' = Refused]) (simp_all add: ph vetoed [OF meta that])
  ultimately show "on_ok (bill_next b i ph) (if ap then finalize_or_guard env i (lm_needs_guard lm) ?s
      else if lm_override_signers lm \<noteq> [] then advance_to_override env i ?s
      else set_status_and_emit env i STATUS_REJECTED ?s)" by (cases ap) simp_all
qed

lemma step_override_sign:
  assumes tk: "tracks_keep_ledgers env" and b: "bill_ok b i ph s"
  shows "on_ok (bill_next b i ph) (do_override_sign env who i ap s)"
  unfolding do_override_sign_def Let_def
proof (intro on_ok_ok_or on_ok_ensure, goal_cases)
  case (1 p lm)
  let ?s = "deposit_event (LegislationOverrideSigned i who ap) s"
  let ?t = "\<lambda>signs. upd_legislation (\<lambda>v. v\<lparr>leg_override_signs := (leg_override_signs v)(i := signs)\<rparr>) ?s"
  from b have at: "bill_at b i ph ?s" and rec: "on_record b i ?s ph" by (simp_all add: bill_ok_def)
  have ph: "ph = Countersigning" using phase_by_stage(4) [of b i ph s p] b 1 by (simp add: bill_ok_def)
  have meta: "bl_meta b = Some lm" using 1 bill_meta [of b i ph s] b by (simp add: bill_ok_def)
  have at': "bill_at b i ph (?t signs)" and rec': "on_record b i (?t signs) ph" for signs
    using at rec by (simp_all only: bill_frames)
  have "on_ok (bill_next b i ph) (set_status_and_emit env i STATUS_REJECTED ?s)"
    by (intro next_status [OF tk at, where ph' = Refused]) (simp_all add: ph countersign_refused)
  moreover have "on_ok (bill_next b i ph) (finalize_or_guard env i (lm_needs_guard lm) (?t signs))" for signs
    using rec' [of signs] by (intro next_approval [OF tk at' meta]) (simp_all add: ph countersigned [OF meta] sign_record)
  moreover have "bill_next b i ph (?t signs)" for signs by (rule bill_next_same [OF at' rec'])
  ultimately show ?case by (auto intro: on_ok_ok_or)
qed

lemma step_guard_vote:
  assumes tk: "tracks_keep_ledgers env" and b: "bill_ok b i ph s"
  shows "on_ok (bill_next b i ph) (do_guard_vote env who i ap s)"
  unfolding do_guard_vote_def Let_def
proof (intro on_ok_ok_or on_ok_ensure, goal_cases)
  case (1 p lm g n signs)
  let ?s = "deposit_event (LegislationGuardVoted i who ap) s"
  let ?t = "upd_legislation (\<lambda>v. v\<lparr>leg_guard_signs := (leg_guard_signs v)(i := signs)\<rparr>) ?s"
  from b have at: "bill_at b i ph ?t" and rec: "on_record b i ?s ph" by (simp_all add: bill_ok_def)
  have ph: "ph = GuardReview" using phase_by_stage(5) [of b i ph s p] b 1 by (simp add: bill_ok_def)
  have d: "same_docket i ?s ?t" by (simp add: same_docket_def)
  then have rec': "on_record b i ?t ph" using rec on_record_docket [OF d, of ph b] by (simp add: ph)
  have ga: "guard_approvals i ?t = length (filter snd signs)" by (simp add: guard_approvals_def)
  have "on_ok (bill_next b i ph) (set_status_and_emit env i STATUS_PASSED ?t)" if "guard_decided (length (filter snd signs))"
    using rec' that ga by (intro next_status [OF tk at, where ph' = Enacted])
      (simp_all add: ph justices_approve on_record.simps guard_decided_def del: bill_frames)
  moreover have "on_ok (bill_next b i ph) (set_status_and_emit env i STATUS_REJECTED ?t)"
    by (intro next_status [OF tk at, where ph' = Refused]) (simp_all add: ph justices_refuse)
  moreover have "bill_next b i ph ?t" by (rule bill_next_same [OF at rec'])
  ultimately show ?case by simp
qed

lemma step_timeout:
  assumes tk: "tracks_keep_ledgers env" and b: "bill_ok b i ph s" and p: "proposals s i = Some p"
  shows "on_ok (bill_next b i ph) (do_finalize_representative_timeout env p i s)"
    and "on_ok (bill_next b i ph) (do_finalize_referendum_timeout env p i s)"
    and "on_ok (bill_next b i ph) (do_finalize_sign_timeout env p i s)"
    and "on_ok (bill_next b i ph) (do_finalize_override_timeout env p i s)"
    and "on_ok (bill_next b i ph) (do_finalize_guard_timeout env p i s)"
proof -
  from b have at: "bill_at b i ph s" and rec: "on_record b i s ph" by (simp_all add: bill_ok_def)
  note stage = phase_by_stage [OF at p]
  have rej: "on_ok (bill_next b i ph) (set_status_and_emit env i STATUS_REJECTED s)" if "bill_step b ph Refused"
    by (rule next_status [OF tk at that]) simp_all
  have meta: "bl_meta b = Some lm" if "legislation_metas (legislation s) i = Some lm" for lm
    using that bill_meta [OF at] by simp
  show "on_ok (bill_next b i ph) (do_finalize_representative_timeout env p i s)"
    unfolding do_finalize_representative_timeout_def Let_def
  proof (intro on_ok_ok_or on_ok_ensure, goal_cases)
    case (1 m body n)
    with stage(1) obtain k where ph: "ph = InBody k" by blast
    obtain m' where m': "representative_metas (legislation s) i = Some m'" "rm_current_body m' = k"
      "rm_route m' = bl_route b" "rm_rule m' = bl_rule b" using at unfolding ph by (rule in_body)
    with 1 have m: "rm_current_body m = k" "rm_route m = bl_route b" "rm_rule m = bl_rule b" by simp_all
    have k: "k < length (bodies b)" and prev: "\<forall>j < k. body_passed b i j s" using rec by (simp_all add: ph on_record.simps)
    have "body = bodies b ! k" using 1 m k by (simp add: route_body_nth)
    then have "body_passed b i k s" if "representative_final_passed (rm_rule m) n
        (yes (representative_tally i (rm_current_body m) s)) (no (representative_tally i (rm_current_body m) s))"
      using that 1 m by (auto simp: body_passed_def subject_voters_len_def electorate_def)
    then have "on_ok (bill_next b i ph) (body_approved env m i s)" if "representative_final_passed (rm_rule m) n
        (yes (representative_tally i (rm_current_body m) s)) (no (representative_tally i (rm_current_body m) s))"
      using that prev m(2) k next_body_approved [OF tk _ m(2) k, of i s] at by (auto simp: ph le_less)
    then show ?case using rej body_refuses by (auto simp: ph)
  qed
  show "on_ok (bill_next b i ph) (do_finalize_referendum_timeout env p i s)"
    unfolding do_finalize_referendum_timeout_def Let_def
  proof (intro on_ok_ok_or on_ok_ensure, goal_cases)
    case (1 elig)
    then have ph: "ph = InReferendum" using stage(2) by blast
    have "on_ok (bill_next b i ph) (finalize_or_guard env i (lm_needs_guard lm) s)"
      if "referendum_passed elig (yes (leg_referendum_tally (legislation s) i)) (no (leg_referendum_tally (legislation s) i))"
        "legislation_metas (legislation s) i = Some lm" for lm
    proof (rule next_approval [OF tk at meta [OF that(2)]])
      show "bill_step b ph (after_approval lm)" unfolding ph by (rule people_approve [OF meta [OF that(2)]])
      have "referendum_held i s" using that(1) 1 by (auto simp: referendum_held_def)
      then show "on_record b i s GuardReview" using rec sign_record(3) by (simp add: ph)
    qed
    then show ?case using rej people_refuse by (auto simp: ph intro!: on_ok_ok_or)
  qed
  show "on_ok (bill_next b i ph) (do_finalize_sign_timeout env p i s)"
    unfolding do_finalize_sign_timeout_def
  proof (intro on_ok_ok_or on_ok_ensure, goal_cases)
    case (1 lm)
    then have ph: "ph = AwaitingSignature" using stage(3) by blast
    have lm: "bl_meta b = Some lm" using meta 1 by blast
    have "on_ok (bill_next b i ph) (finalize_or_guard env i (lm_needs_guard lm) s)"
      using rec by (intro next_approval [OF tk at lm]) (simp_all add: ph signed_or_lapsed [OF lm] sign_record)
    moreover have "on_ok (bill_next b i ph) (advance_to_override env i s)" if "lm_override_signers lm \<noteq> []"
      using rec by (intro next_override [OF at]) (simp_all add: ph returned [OF lm that] sign_record)
    ultimately show ?case by simp
  qed
  show "on_ok (bill_next b i ph) (do_finalize_override_timeout env p i s)"
    unfolding do_finalize_override_timeout_def
    by (intro on_ok_ensure rej) (use stage(4) countersign_refused in blast)
  show "on_ok (bill_next b i ph) (do_finalize_guard_timeout env p i s)"
    unfolding do_finalize_guard_timeout_def
    by (intro on_ok_ensure rej) (use stage(5) justices_refuse in blast)
qed

section \<open>Operations on other proposals\<close>

definition others_kept :: "proposal_id \<Rightarrow> 'x engine \<Rightarrow> 'x engine \<Rightarrow> bool" where
  "others_kept j s s' \<longleftrightarrow> (\<forall>i. i \<noteq> j \<longrightarrow> proposals s' i = proposals s i \<and> same_docket i s s' \<and>
     representative_metas (legislation s') i = representative_metas (legislation s) i \<and>
     leg_guard_signs (legislation s') i = leg_guard_signs (legislation s) i)"

lemma others_refl [simp]: "others_kept j s s"
  by (simp add: others_kept_def)

lemma others_trans: "others_kept j s t \<Longrightarrow> others_kept j t u \<Longrightarrow> others_kept j s u"
  unfolding others_kept_def using docket_trans by metis

lemma others_bill: "others_kept j s s' \<Longrightarrow> i \<noteq> j \<Longrightarrow> bill_ok b i ph s' = bill_ok b i ph s"
  unfolding others_kept_def bill_ok_def using bill_at_frame on_record_cong by metis

lemma others_own [simp]:
  "others_kept j s (deposit_event e s)" "others_kept j s (s\<lparr>locks := l\<rparr>)"
  "others_kept j s (record_representative_vote j key v s)" "others_kept j s (record_leg_referendum_vote j c tk s)"
  "others_kept j s (set_current_body j k s)"
  "others_kept j s (s\<lparr>legislation := (legislation s)\<lparr>leg_override_signs := (leg_override_signs (legislation s))(j := os)\<rparr>\<rparr>)"
  "others_kept j s (s\<lparr>legislation := (legislation s)\<lparr>leg_guard_signs := (leg_guard_signs (legislation s))(j := gs)\<rparr>\<rparr>)"
  "others_kept j s (emit_proposal_advanced_to_referendum j x y s)"
  by (simp_all add: others_kept_def same_docket_def deposit_event_def record_representative_vote_def
      record_leg_referendum_vote_def set_current_body_def emit_proposal_advanced_to_referendum_def)

lemma others_ballots:
  "same_ballots s s' \<Longrightarrow> proposals s' = (proposals s)(j \<mapsto> q) \<Longrightarrow> others_kept j s s'"
  by (simp add: others_kept_def docket_ballots) (simp add: same_ballots_def)

lemma others_set_status:
  assumes tk: "tracks_keep_ledgers env" and o: "others_kept j s0 s"
  shows "on_ok (others_kept j s0) (set_status_and_emit env j st s)"
  unfolding on_ok_def
proof clarify
  fix u s' assume ok: "set_status_and_emit env j st s = (Inr u, s')"
  obtain p where "proposals s j = Some p" using set_status_proposals [OF keep_ledgers_framed [OF tk] ok] by blast
  with referendum_set_status [OF tk _ this] ok have "others_kept j s s'" by (auto intro: others_ballots)
  with o show "others_kept j s0 s'" by (rule others_trans)
qed

lemma others_reschedule: "others_kept j s0 s \<Longrightarrow> on_ok (others_kept j s0) (reschedule env j change s)"
  unfolding on_ok_def by (auto elim!: reschedule_effect intro: others_trans others_ballots)

lemmas others_frames = others_trans [OF _ others_own(1)] others_trans [OF _ others_own(2)]
  others_trans [OF _ others_own(3)] others_trans [OF _ others_own(4)] others_trans [OF _ others_own(5)]
  others_trans [OF _ others_own(6)] others_trans [OF _ others_own(7)] others_trans [OF _ others_own(8)]

lemma others_stages:
  assumes o: "others_kept j s0 s"
  shows "on_ok (others_kept j s0) (transition_stage env j g s)"
    and "on_ok (others_kept j s0) (advance_to_sign env j s)"
    and "on_ok (others_kept j s0) (advance_to_override env j s)"
    and "on_ok (others_kept j s0) (advance_to_guard env j s)"
    and "on_ok (others_kept j s0) (advance_to_referendum env j s)"
proof -
  have t: "on_ok (others_kept j s0) (transition_stage env j g t)" if "others_kept j s0 t" for g t
    unfolding transition_stage_def by (intro on_ok_with_transaction others_reschedule that)
  show "on_ok (others_kept j s0) (transition_stage env j g s)" by (rule t [OF o])
  show "on_ok (others_kept j s0) (advance_to_sign env j s)"
    unfolding advance_to_sign_def by (rule on_ok_and_then [OF t [OF o]]) (auto intro!: others_frames)
  show "on_ok (others_kept j s0) (advance_to_override env j s)"
    unfolding advance_to_override_def Let_def
    by (rule on_ok_and_then [OF t], rule others_frames(6) [OF o]) (auto intro!: others_frames)
  show "on_ok (others_kept j s0) (advance_to_guard env j s)"
    unfolding advance_to_guard_def Let_def
    by (rule on_ok_and_then [OF t], rule others_frames(7) [OF o]) (auto intro!: others_frames)
  show "on_ok (others_kept j s0) (advance_to_referendum env j s)"
    unfolding advance_to_referendum_def
    by (intro on_ok_with_transaction on_ok_ok_or, rule on_ok_and_then [OF others_reschedule [OF o]]) (auto intro!: others_frames)
qed

lemma others_procedure:
  assumes tk: "tracks_keep_ledgers env" and o: "others_kept j s0 s"
  shows "on_ok (others_kept j s0) (finalize_or_guard env j g s)"
    and "on_ok (others_kept j s0) (finish_representative_route env j s)"
    and "on_ok (others_kept j s0) (advance_representative_body_or_finish env j s)"
    and "on_ok (others_kept j s0) (body_approved env m j s)"
proof -
  note st = others_stages [OF o] others_set_status [OF tk o]
  show "on_ok (others_kept j s0) (finalize_or_guard env j g s)" using st by (simp add: finalize_or_guard_def)
  show f: "on_ok (others_kept j s0) (finish_representative_route env j s)"
    unfolding finish_representative_route_def
    by (rule on_ok_ok_or) (use st in \<open>simp split: vote_procedure.split\<close>)
  have r: "on_ok (others_kept j s0) (reschedule env j c (set_current_body j k s))" for c k
    by (rule others_reschedule) (rule others_frames(5) [OF o])
  have pure: "on_ok (\<lambda>t. t = s) (pure_result q s)" for q :: "dispatch_error + institution_code"
    by (rule on_ok_pure_result) simp
  show a: "on_ok (others_kept j s0) (advance_representative_body_or_finish env j s)"
    unfolding advance_representative_body_or_finish_def Let_def
    by (rule on_ok_ok_or)
       (auto simp: f intro!: on_ok_ok_or on_ok_and_then [OF pure] on_ok_with_transaction on_ok_and_then [OF r] others_frames)
  show "on_ok (others_kept j s0) (body_approved env m j s)"
    using f a by (simp add: body_approved_def split: representative_route.split)
qed

lemma others_votes:
  assumes tk: "tracks_keep_ledgers env"
  shows "on_ok (others_kept j s) (do_cast_representative_vote env who j role ap s)"
    and "on_ok (others_kept j s) (do_cast_referendum_vote env who j ap s)"
    and "on_ok (others_kept j s) (do_executive_sign env who j ap s)"
    and "on_ok (others_kept j s) (do_override_sign env who j ap s)"
    and "on_ok (others_kept j s) (do_guard_vote env who j ap s)"
proof -
  note op = others_procedure [OF tk] others_stages others_set_status [OF tk]
  have pure: "on_ok (\<lambda>t. t = s) (pure_result r s)" for r :: "dispatch_error + proposal" by (rule on_ok_pure_result) simp
  show "on_ok (others_kept j s) (do_cast_representative_vote env who j role ap s)"
    unfolding do_cast_representative_vote_def Let_def
    by (rule on_ok_and_then [OF pure])
       (auto split: option.split bool.split intro!: on_ok_ensure on_ok_ok_or op others_frames others_refl)
  show "on_ok (others_kept j s) (do_cast_referendum_vote env who j ap s)"
    unfolding do_cast_referendum_vote_def Let_def
    by (rule on_ok_and_then [OF pure]) (auto intro!: on_ok_ensure on_ok_ok_or others_frames others_refl)
  show "on_ok (others_kept j s) (do_executive_sign env who j ap s)"
    unfolding do_executive_sign_def Let_def by (auto intro!: on_ok_ensure on_ok_ok_or op others_frames others_refl)
  show "on_ok (others_kept j s) (do_override_sign env who j ap s)"
    unfolding do_override_sign_def Let_def by (auto intro!: on_ok_ensure on_ok_ok_or op others_frames others_refl)
  show "on_ok (others_kept j s) (do_guard_vote env who j ap s)"
    unfolding do_guard_vote_def Let_def by (auto intro!: on_ok_ensure on_ok_ok_or op others_frames others_refl)
qed

lemma others_timeouts:
  assumes tk: "tracks_keep_ledgers env"
  shows "on_ok (others_kept j s) (do_finalize_representative_timeout env p j s)"
    and "on_ok (others_kept j s) (do_finalize_referendum_timeout env p j s)"
    and "on_ok (others_kept j s) (do_finalize_sign_timeout env p j s)"
    and "on_ok (others_kept j s) (do_finalize_override_timeout env p j s)"
    and "on_ok (others_kept j s) (do_finalize_guard_timeout env p j s)"
proof -
  note op = others_procedure [OF tk others_refl] others_stages [OF others_refl] others_set_status [OF tk others_refl]
  show "on_ok (others_kept j s) (do_finalize_representative_timeout env p j s)"
    unfolding do_finalize_representative_timeout_def Let_def by (auto intro!: on_ok_ensure on_ok_ok_or op)
  show "on_ok (others_kept j s) (do_finalize_referendum_timeout env p j s)"
    unfolding do_finalize_referendum_timeout_def Let_def by (auto intro!: on_ok_ensure on_ok_ok_or op)
  show "on_ok (others_kept j s) (do_finalize_sign_timeout env p j s)"
    unfolding do_finalize_sign_timeout_def by (auto intro!: on_ok_ensure on_ok_ok_or op)
  show "on_ok (others_kept j s) (do_finalize_override_timeout env p j s)"
    unfolding do_finalize_override_timeout_def by (auto intro!: on_ok_ensure op)
  show "on_ok (others_kept j s) (do_finalize_guard_timeout env p j s)"
    unfolding do_finalize_guard_timeout_def by (auto intro!: on_ok_ensure op)
qed

section \<open>Runs\<close>

datatype bill_call =
    CastRepresentative origin proposal_id role_code bool
  | CastLegReferendum origin proposal_id bool
  | ExecutiveSign origin proposal_id bool
  | OverrideSign origin proposal_id bool
  | GuardVote origin proposal_id bool
  | FinalizeBill origin proposal_id

fun bill_dispatch :: "'x env \<Rightarrow> bill_call \<Rightarrow> 'x engine \<Rightarrow> (dispatch_error, unit, 'x engine) outcome" where
  "bill_dispatch env (CastRepresentative o' i role ap) s = cast_representative_vote env o' i role ap s"
| "bill_dispatch env (CastLegReferendum o' i ap) s = cast_referendum_vote env o' i ap s"
| "bill_dispatch env (ExecutiveSign o' i ap) s = executive_sign env o' i ap s"
| "bill_dispatch env (OverrideSign o' i ap) s = override_sign env o' i ap s"
| "bill_dispatch env (GuardVote o' i ap) s = guard_vote env o' i ap s"
| "bill_dispatch env (FinalizeBill o' i) s = finalize_proposal [legislation_finalize_timeout env] o' i s"

text \<open>Calls in any order, time and everything outside the engine moving on between them.\<close>

fun bill_run :: "'x env \<Rightarrow> (bill_call \<times> block_number \<times> 'x) list \<Rightarrow> 'x engine \<Rightarrow> 'x engine" where
  "bill_run env [] s = s"
| "bill_run env ((c, n, x) # calls) s = bill_run env calls (snd (bill_dispatch env c (s\<lparr>block_number := n, ext := x\<rparr>)))"

fun call_target :: "bill_call \<Rightarrow> proposal_id" where
  "call_target (CastRepresentative o' i role ap) = i"
| "call_target (CastLegReferendum o' i ap) = i"
| "call_target (ExecutiveSign o' i ap) = i"
| "call_target (OverrideSign o' i ap) = i"
| "call_target (GuardVote o' i ap) = i"
| "call_target (FinalizeBill o' i) = i"

lemma bill_clock [simp]: "bill_ok b i ph (s\<lparr>block_number := n, ext := x\<rparr>) = bill_ok b i ph s"
proof -
  let ?s = "s\<lparr>block_number := n, ext := x\<rparr>"
  have d: "same_docket i s ?s" by (simp add: same_docket_def)
  from bill_at_frame [OF d] on_record_cong [OF d] show ?thesis by (simp add: bill_ok_def)
qed

lemma timeout_on_ok:
  assumes "\<And>p. proposals s i = Some p \<Longrightarrow> on_ok P (do_finalize_representative_timeout env p i s)"
    and "\<And>p. proposals s i = Some p \<Longrightarrow> on_ok P (do_finalize_referendum_timeout env p i s)"
    and "\<And>p. proposals s i = Some p \<Longrightarrow> on_ok P (do_finalize_sign_timeout env p i s)"
    and "\<And>p. proposals s i = Some p \<Longrightarrow> on_ok P (do_finalize_override_timeout env p i s)"
    and "\<And>p. proposals s i = Some p \<Longrightarrow> on_ok P (do_finalize_guard_timeout env p i s)"
  shows "on_ok P (finalize_proposal [legislation_finalize_timeout env] o' i s)"
  unfolding finalize_proposal_def
proof (intro on_ok_with_transaction on_ok_ok_or)
  fix p assume p: "proposals s i = Some p"
  have one: "on_ok P (track_result (case map_prod Some id m of
      (None, t) \<Rightarrow> tracks_finalize_timeout [] p i t | (Some r, t) \<Rightarrow> (Some r, t)))"
    if "on_ok P m" for m :: "(dispatch_error, unit, 'a engine) outcome"
    using that by (cases m rule: outcome_cases) (auto simp: track_result_def)
  show "on_ok P (track_result (tracks_finalize_timeout [legislation_finalize_timeout env] p i s))"
  proof (cases "legislation_handles (p_kind p)")
    case True
    with assms p show ?thesis by (simp add: legislation_finalize_timeout_def one)
  qed (simp add: legislation_finalize_timeout_def track_result_def)
qed

lemma dispatch_next:
  assumes tk: "tracks_keep_ledgers env" and b: "bill_ok b (call_target c) ph s"
  shows "on_ok (bill_next b (call_target c) ph) (bill_dispatch env c s)"
  using b
  by (cases c)
     (auto simp: cast_representative_vote_def cast_referendum_vote_def executive_sign_def override_sign_def guard_vote_def
       intro!: on_ok_with_transaction on_ok_ok_or step_representative_vote [OF tk] step_referendum_vote
         step_executive_sign [OF tk] step_override_sign [OF tk] step_guard_vote [OF tk] timeout_on_ok step_timeout [OF tk])

lemma dispatch_others:
  assumes tk: "tracks_keep_ledgers env"
  shows "on_ok (others_kept (call_target c) s) (bill_dispatch env c s)"
  by (cases c)
     (auto simp: cast_representative_vote_def cast_referendum_vote_def executive_sign_def override_sign_def guard_vote_def
       intro!: on_ok_with_transaction on_ok_ok_or others_votes [OF tk] timeout_on_ok others_timeouts [OF tk])

lemma dispatch_error: "bill_dispatch env c s = (Inl e, t) \<Longrightarrow> t = s"
  by (cases c)
     (auto simp: cast_representative_vote_def cast_referendum_vote_def executive_sign_def override_sign_def guard_vote_def
       finalize_proposal_def dest: with_transaction_error)

lemma dispatch_bill:
  assumes tk: "tracks_keep_ledgers env" and b: "bill_ok b i ph s"
  shows "bill_next b i ph (snd (bill_dispatch env c s))"
proof (cases "bill_dispatch env c s" rule: outcome_cases)
  case (err e t)
  with dispatch_error [OF err] b show ?thesis by (auto simp: bill_next_def)
next
  case (ok a t)
  show ?thesis
  proof (cases "call_target c = i")
    case True
    with dispatch_next [OF tk, of b c ph s] b ok show ?thesis by simp
  next
    case False
    with dispatch_others [OF tk, of c s] ok others_bill [of "call_target c" s t i b ph] b show ?thesis
      by (auto simp: bill_next_def)
  qed
qed

lemma run_bill:
  assumes tk: "tracks_keep_ledgers env"
  shows "bill_ok b i ph s \<Longrightarrow> \<exists>ph'. bill_ok b i ph' (bill_run env calls s) \<and> (bill_step b)\<^sup>*\<^sup>* ph ph'"
proof (induction calls arbitrary: s ph)
  case (Cons e calls)
  obtain c n x where e: "e = (c, n, x)" by (cases e)
  let ?s = "s\<lparr>block_number := n, ext := x\<rparr>"
  have "bill_ok b i ph ?s" using Cons.prems by simp
  from dispatch_bill [OF tk this, of c] obtain ph1 where
    p1: "bill_ok b i ph1 (snd (bill_dispatch env c ?s))" "(bill_step b)\<^sup>=\<^sup>= ph ph1" by (auto simp: bill_next_def)
  from Cons.IH [OF p1(1)] obtain ph2 where "bill_ok b i ph2 (bill_run env (e # calls) s)" "(bill_step b)\<^sup>*\<^sup>* ph1 ph2"
    by (auto simp: e)
  with p1(2) show ?case by (auto intro: converse_rtranclp_into_rtranclp)
qed auto

section \<open>New bills\<close>

lemma acquire_all_frame: "acquire_all env i k sjs s = (Inr u, t) \<Longrightarrow> \<exists>l. t = s\<lparr>locks := l\<rparr>"
proof (induction sjs arbitrary: s)
  case Nil
  then show ?case by (intro exI [of _ "locks s"]) simp
next
  case (Cons sj sjs)
  then obtain l where "acquire_all env i k sjs (s\<lparr>locks := l\<rparr>) = (Inr u, t)" by auto
  from Cons.IH [OF this] show ?case by auto
qed

lemma allocate_frame:
  assumes "allocate_and_lock env p mk s = (Inr i, t)"
  shows "i = next_proposal_id (ids s) \<and> (\<exists>d l. t = s\<lparr>ids := d, locks := l\<rparr>)"
proof -
  from assms obtain d l where d: "allocate_proposal_id (unix_now_ms env (ext s)) (ids s) = (Inr i, d)"
    and t: "acquire_all env i mk (subject_keys p) (s\<lparr>ids := d, locks := l\<rparr>) = (Inr (), t)"
    by (auto simp: allocate_and_lock_def allocate_id_def add_active_def)
  from d have "i = next_proposal_id (ids s)" by (rule allocate_proposal_id_ok)
  with acquire_all_frame [OF t] show ?thesis by auto
qed

lemma role_voters_effect:
  assumes "snapshot_role_voters env i sj voters s = (Inr u, s')"
  shows "(\<exists>sn. s' = s\<lparr>snapshots := sn\<rparr>) \<and> voter_snapshot (snapshots s') i = (sj, voters) # voter_snapshot (snapshots s) i \<and>
     sj \<notin> fst ` set (voter_snapshot (snapshots s) i) \<and> length voters < 2 ^ 32"
  using assms
  by (auto simp: snapshot_role_voters_def Let_def kv_insert_new kv_contains_def
      split: authorization_subject.splits sum.splits)

lemma legislation_voters_effect:
  "snapshot_legislation_voters env i g sjs s = (Inr u, s') \<Longrightarrow>
     (\<exists>sn. s' = s\<lparr>snapshots := sn\<rparr>) \<and>
     (\<forall>sj \<in> set sjs. \<exists>voters. map_of (voter_snapshot (snapshots s') i) sj = Some voters \<and> length voters < 2 ^ 32) \<and>
     (\<forall>sj voters. map_of (voter_snapshot (snapshots s) i) sj = Some voters \<longrightarrow>
        map_of (voter_snapshot (snapshots s') i) sj = Some voters)"
proof (induction sjs arbitrary: s)
  case Nil
  then show ?case by (auto intro: exI [of _ "snapshots s"])
next
  case (Cons sj sjs)
  then obtain voters t where one: "snapshot_role_voters env i sj voters s = (Inr (), t)"
    and rest: "snapshot_legislation_voters env i g sjs t = (Inr u, s')"
    by (auto simp: Let_def split: authorization_subject.splits)
  from role_voters_effect [OF one] obtain sn where t: "t = s\<lparr>snapshots := sn\<rparr>"
    "voter_snapshot (snapshots t) i = (sj, voters) # voter_snapshot (snapshots s) i"
    "sj \<notin> fst ` set (voter_snapshot (snapshots s) i)" "length voters < 2 ^ 32" by blast
  note IH = Cons.IH [OF rest]
  have "map_of (voter_snapshot (snapshots s') i) sj = Some voters" using IH t(2) by simp
  moreover have "map_of (voter_snapshot (snapshots t) i) x = Some vs" if "map_of (voter_snapshot (snapshots s) i) x = Some vs" for x vs
    using that t(2,3) by (auto simp: map_of_eq_None_iff [symmetric])
  moreover from IH t(1) have "\<exists>sn. s' = s\<lparr>snapshots := sn\<rparr>" by auto
  ultimately show ?case using IH t(4) by auto
qed

text \<open>Nothing is on the docket of an id that has not been allocated.\<close>

definition fresh_docket :: "proposal_id \<Rightarrow> 'x engine \<Rightarrow> bool" where
  "fresh_docket i s \<longleftrightarrow> representative_tallies (legislation s) i = [] \<and>
     representative_votes_by_ticket (legislation s) i = [] \<and> legislation_metas (legislation s) i = None"

lemma valid_route:
  assumes "validate_representative_route route = Inr (code, body)"
  shows "route_bodies route \<noteq> [] \<and> length (route_bodies route) \<le> MAX_REPRESENTATIVE_BODIES"
  using assms by (cases route)
    (auto simp: validate_representative_route_def Let_def MAX_REPRESENTATIVE_BODIES_def split: if_splits)

lemma created_bill:
  fixes s :: "'x engine"
  assumes ok: "do_create_representative_proposal env who cid plan route rule procedure additional meta s = (Inr i, s')"
    and fresh: "fresh_docket (next_proposal_id (ids s)) s"
  shows "i = next_proposal_id (ids s) \<and>
    bill_ok \<lparr>bl_route = route, bl_rule = rule, bl_procedure = procedure, bl_meta = meta\<rparr> i (InBody 0) s'"
  using ok
proof (rule create_representative_ok)
  fix code body cids scope ev and s1 s2 s3 s4 s5 :: "'x engine"
  let ?p = "representative_proposal code cid cids (block_number s)"
  let ?m = "\<lparr>rm_route = route, rm_current_body = 0, rm_rule = rule, rm_procedure = procedure\<rparr>"
  let ?b = "\<lparr>bl_route = route, bl_rule = rule, bl_procedure = procedure, bl_meta = meta\<rparr>"
  assume v: "validate_representative_route route = Inr (code, body)"
    and pl: "ensure_legislation_plan env who cid plan route rule procedure meta s = Inr ()"
    and a: "allocate_and_lock env ?p Regular s = (Inr i, s1)"
    "snapshot_legislation_voters env i (Option.bind meta lm_guard) (vp_voter_subjects plan) s1 = (Inr (), s2)"
    "bind_vote_plan i plan ((insert_legislation_metas i ?m meta s2)\<lparr>proposals := (proposals s2)(i \<mapsto> ?p)\<rparr>) = (Inr (), s3)"
    "snapshot_special_population env i scope s3 = (Inr (), s4)"
    "schedule_proposal_expiry env i (bn_add (block_number s) stage_duration) s4 = (Inr (), s5)"
    "s' = deposit_event ev
       (emit_proposal_created i PROPOSAL_KIND_LEGISLATION STAGE_LEG_REPRESENTATIVE (bn_add (block_number s) stage_duration) s5)"
  from allocate_frame [OF a(1)] have i: "i = next_proposal_id (ids s)" and s1: "legislation s1 = legislation s" by auto
  from legislation_voters_effect [OF a(2)] have s2: "legislation s2 = legislation s"
    and vs: "\<forall>sj \<in> set (vp_voter_subjects plan). \<exists>voters.
      map_of (voter_snapshot (snapshots s2) i) sj = Some voters \<and> length voters < 2 ^ 32" using s1 by auto
  have s': "snapshots s' = snapshots s2" "proposals s' i = Some ?p"
    "legislation s' = legislation (insert_legislation_metas i ?m meta s2)"
    using a(3,5,6) snapshot_special_frame [OF a(4)]
    by (auto simp: bind_vote_plan_def schedule_proposal_expiry_def push_expiry_def emit_proposal_created_def
        deposit_event_def insert_legislation_metas_def)
  have leg: "representative_metas (legislation s') i = Some ?m" "legislation_metas (legislation s') i = meta"
    "representative_tallies (legislation s') i = []" "representative_votes_by_ticket (legislation s') i = []"
    using s'(3) s2 fresh i by (auto simp: insert_legislation_metas_def fresh_docket_def split: option.splits)
  have "Institution (bodies ?b ! k) \<in> set (vp_voter_subjects plan)" if "k < length (bodies ?b)" for k
    using pl that by (auto simp: ensure_legislation_plan_def Let_def list_all_iff split: authorization_subject.splits if_splits)
  then have "body_ledger ?b i k s'" if "k < length (bodies ?b)" for k
    using vs that s'(1) leg by (auto simp: body_ledger_def electorate_def body_votes_def representative_tally_def)
  moreover have "phase_of ?m ?p = Some (InBody 0)" "p_kind ?p = PROPOSAL_KIND_LEGISLATION"
    by (simp_all add: phase_of_def representative_proposal_def)
  ultimately have "bill_ok ?b i (InBody 0) s'"
    using valid_route [OF v] s'(2) leg by (simp add: bill_ok_def bill_at_def on_record.simps)
  with i show ?thesis by blast
qed

lemma register_bill:
  fixes s :: "'x engine"
  shows "bill_ok b i ph s \<Longrightarrow> on_ok (bill_ok b i ph) (register_proposal_data env j tag data n s)"
    and "bill_ok b i ph s \<Longrightarrow> on_ok (bill_ok b i ph) (store_proposal_object env j k obj s)"
proof -
  assume b: "bill_ok b i ph s"
  have f: "bill_ok b i ph t" if "proposals t = proposals s" "snapshots t = snapshots s" "legislation t = legislation s"
    "proposal_population_snapshots (records t) = proposal_population_snapshots (records s)" for t :: "'x engine"
  proof -
    have d: "same_docket i s t" using that by (simp add: same_docket_def)
    with bill_at_frame [OF d] on_record_cong [OF d] b that show ?thesis by (simp add: bill_ok_def)
  qed
  show "on_ok (bill_ok b i ph) (register_proposal_data env j tag data n s)"
    unfolding on_ok_def by (auto simp: register_proposal_data_def Let_def pure_result_def intro!: f)
  show "on_ok (bill_ok b i ph) (store_proposal_object env j k obj s)"
    unfolding on_ok_def by (auto simp: store_proposal_object_def Let_def intro!: f)
qed

lemma own_ballot_bill:
  "tracks_keep_ledgers env \<Longrightarrow> bill_ok b i ph s \<Longrightarrow> on_ok (bill_next b i ph) (cast_own_ballot env who body i s)"
  unfolding cast_own_ballot_def
  by (auto simp: bill_next_def intro!: on_ok_and_then [OF step_representative_vote])

lemma legislation_bill:
  assumes tk: "tracks_keep_ledgers env" and fresh: "fresh_docket (next_proposal_id (ids s0)) s0"
    and ok: "create_legislation_vote env who cid plan route rule lm tag data obj s0 = (Inr i, s)"
  obtains ph where
    "bill_ok \<lparr>bl_route = route, bl_rule = rule, bl_procedure = LegislationProcedure, bl_meta = Some lm\<rparr> i ph s"
    "(bill_step \<lparr>bl_route = route, bl_rule = rule, bl_procedure = LegislationProcedure, bl_meta = Some lm\<rparr>)\<^sup>*\<^sup>* (InBody 0) ph"
proof -
  let ?b = "\<lparr>bl_route = route, bl_rule = rule, bl_procedure = LegislationProcedure, bl_meta = Some lm\<rparr>"
  from ok obtain body j s1 s2 s3 where
    c: "do_create_representative_proposal env who cid plan route rule LegislationProcedure [] (Some lm) s0 = (Inr j, s1)"
    and r: "register_proposal_data env j tag data (block_number s1) s1 = (Inr (), s2)"
    and o: "store_proposal_object env j PROPOSAL_OBJECT_KIND_LAW_TEXT obj s2 = (Inr (), s3)"
    and v: "cast_own_ballot env who body j s3 = (Inr i, s)"
    by (auto simp: create_legislation_vote_def pure_result_def)
  have j: "j = i" using v by (auto simp: cast_own_ballot_def split: if_splits)
  have "bill_ok ?b i (InBody 0) s1" using created_bill [OF c fresh] j by blast
  then have "bill_ok ?b i (InBody 0) s2" by (rule on_okD [OF register_bill(1) r])
  then have "bill_ok ?b i (InBody 0) s3" by (rule on_okD [OF register_bill(2) o])
  from on_okD [OF own_ballot_bill [OF tk this] v [unfolded j]]
  obtain ph where "bill_ok ?b i ph s" "(bill_step ?b)\<^sup>=\<^sup>= (InBody 0) ph" by (auto simp: bill_next_def)
  with that show ?thesis by blast
qed

text \<open>
  C5. The pallet implements the legislative procedure. Create a law and let anyone make any
  sequence of calls to the pallet (ballots of representatives and citizens, signatures of the
  executive, of the countersigners and of the justices, finalisations), on this and on other
  proposals, with time passing and the rest of the chain changing in between: the law always is
  in one of the phases of the abstract procedure, and it has got there only by the procedure's
  rules, starting in its first body.
\<close>

theorem bill_refines_procedure:
  assumes "tracks_keep_ledgers env" "fresh_docket (next_proposal_id (ids s0)) s0"
    and "create_legislation_vote env who cid plan route rule lm tag data obj s0 = (Inr i, s)"
    and "s' = bill_run env calls s"
    and "b = \<lparr>bl_route = route, bl_rule = rule, bl_procedure = LegislationProcedure, bl_meta = Some lm\<rparr>"
  shows "\<exists>ph ph'. bill_phase i s = Some ph \<and> bill_phase i s' = Some ph' \<and>
     (bill_step b)\<^sup>*\<^sup>* (InBody 0) ph \<and> (bill_step b)\<^sup>*\<^sup>* ph ph'"
proof -
  obtain ph where ph: "bill_ok b i ph s" "(bill_step b)\<^sup>*\<^sup>* (InBody 0) ph"
    using legislation_bill [OF assms(1,2,3)] assms(5) by blast
  obtain ph' where "bill_ok b i ph' s'" "(bill_step b)\<^sup>*\<^sup>* ph ph'"
    using run_bill [OF assms(1) ph(1)] assms(4) by blast
  with ph bill_at_phase show ?thesis unfolding bill_ok_def by metis
qed

text \<open>
  C6. No law without its procedure. After any such run, if the law is PASSED then every
  representative body on its route has passed it by its rule (in each body the ballots are by
  distinct seats of the frozen membership and the tally counts them); a special law has passed
  the referendum of the frozen population with at least 70% turnout and 70% approval; and an
  amendment of the constitution has at least four recorded approvals of the final review.
\<close>

theorem law_enacted_in_full:
  assumes "tracks_keep_ledgers env" "fresh_docket (next_proposal_id (ids s0)) s0"
    and "create_legislation_vote env who cid plan route rule lm tag data obj s0 = (Inr i, s)"
    and "s' = bill_run env calls s" "proposals s' i = Some p" "p_status p = STATUS_PASSED"
    and "b = \<lparr>bl_route = route, bl_rule = rule, bl_procedure = LegislationProcedure, bl_meta = Some lm\<rparr>"
  shows "(\<forall>k < length (bodies b). \<exists>voters t. electorate i (bodies b ! k) s' = Some voters \<and>
       t = representative_tally i k s' \<and> counted id (body_votes i k s') t \<and>
       fst ` set (body_votes i k s') \<subseteq> body_ticket b k ` set voters \<and> yes t + no t \<le> length voters \<and>
       representative_final_passed rule (length voters) (yes t) (no t)) \<and>
     (rule = RuleSpecial \<longrightarrow> referendum_held i s') \<and>
     (lm_needs_guard lm \<longrightarrow> CONSTITUTION_GUARD_APPROVAL_THRESHOLD \<le> guard_approvals i s')"
proof -
  obtain ph where "bill_ok b i ph s" using legislation_bill [OF assms(1,2,3)] assms(7) by blast
  from run_bill [OF assms(1) this] obtain ph' where ok: "bill_ok b i ph' s'" using assms(4) by blast
  then have "ph' = Enacted" using assms(5,6) by (auto simp: bill_ok_def bill_at_def phase_of_def)
  with ok have r: "on_record b i s' Enacted" and at: "\<forall>k < length (bodies b). body_ledger b i k s'"
    by (auto simp: bill_ok_def bill_at_def)
  have "\<exists>voters t. electorate i (bodies b ! k) s' = Some voters \<and> t = representative_tally i k s' \<and>
       counted id (body_votes i k s') t \<and> fst ` set (body_votes i k s') \<subseteq> body_ticket b k ` set voters \<and>
       yes t + no t \<le> length voters \<and> representative_final_passed rule (length voters) (yes t) (no t)"
    if "k < length (bodies b)" for k
  proof -
    from at that obtain voters where v: "electorate i (bodies b ! k) s' = Some voters"
      "counted id (body_votes i k s') (representative_tally i k s')"
      "fst ` set (body_votes i k s') \<subseteq> body_ticket b k ` set voters" by (auto simp: body_ledger_def)
    with counted_card [of id _ _ "map (body_ticket b k) voters"] have
      "yes (representative_tally i k s') + no (representative_tally i k s') \<le> length voters" by force
    moreover have "body_passed b i k s'" using r that by (simp add: on_record.simps)
    ultimately show ?thesis using v assms(7) by (auto simp: body_passed_def)
  qed
  with r assms(7) show ?thesis by (simp add: on_record.simps)
qed

text \<open>A law of one house with one member, signed by the president.\<close>

definition leg_env :: "unit env" where
  "leg_env = test_env\<lparr>tracks := [legislation_track clear_in_order (\<lambda>_ _. weight_zero)
     \<lparr>w_cast_representative_vote = weight_zero, w_cast_referendum_vote = weight_zero, w_executive_sign = weight_zero,
      w_override_sign = weight_zero, w_guard_vote = weight_zero\<rparr>]\<rparr>"

lemma leg_env_keeps: "tracks_keep_ledgers leg_env"
  by (simp add: tracks_keep_ledgers_def leg_env_def legislation.ledger_track_axioms)

definition sample_house :: representative_body where
  "sample_house = \<lparr>rs_cid_number = ''A-NRP0-'', rs_role_code = ''b''\<rparr>"

definition sample_president :: representative_body where
  "sample_president = \<lparr>rs_cid_number = ''B-NRP0-'', rs_role_code = ''b''\<rparr>"

definition sample_law :: legislation_meta where
  "sample_law = \<lparr>lm_executive = Some sample_president, lm_override_signers = [], lm_needs_guard = False, lm_guard = None\<rparr>"

definition sample_law_plan :: vote_plan where
  "sample_law_plan = nrc_plan\<lparr>vp_voting_engine := Legislation, vp_proposer_subject := Institution sample_house,
     vp_voter_subjects := [Institution sample_house, Institution sample_president], vp_proposal_owner := ''law''\<rparr>"

definition sample_calls :: "(bill_call \<times> block_number \<times> unit) list" where
  "sample_calls = [(CastRepresentative (Signed 1) 0 ''b'' True, 0, ()), (ExecutiveSign (Signed 1) 0 True, 0, ())]"

definition sample_bill :: bill where
  "sample_bill = \<lparr>bl_route = Single sample_house, bl_rule = RuleRegular, bl_procedure = LegislationProcedure,
     bl_meta = Some sample_law\<rparr>"

lemma sample_code: "institution_code_for_cid ''A-NRP0-'' = Inr (code_bytes ''NRP'')"
  by (simp add: institution_code_for_cid_def institution_code_from_cid_number_def byte_def is_ascii_alphabetic_def)

lemmas law_defs = create_legislation_vote_def do_create_representative_proposal_def pure_result_def
  validate_representative_route_def sample_law_plan_def nrc_plan_def sample_plan_def nrc_role_def
  sample_law_def sample_house_def sample_president_def ensure_legislation_plan_def additional_institutions_def
  leg_env_def test_env_def resolve_subject_cid_numbers_def bound_subject_cid_numbers_def special_scope_def
  with_transaction_def allocate_id_def add_active_def engine_genesis_def id_storage_genesis_def
  allocate_proposal_id_def try_into_def checked_add_def Let_def subject_keys_def representative_proposal_def
  try_add_active_proposal_def try_push_def lock_storage_genesis_def acquire_internal_proposal_mutex_def
  acquire_state_def mutex_at_def mutex_state_default_def snapshot_role_voters_def
  ensure_valid_voter_snapshot_def kv_contains_def kv_insert_def insert_legislation_metas_def
  bind_vote_plan_def snapshot_special_population_def schedule_proposal_expiry_def push_expiry_def
  register_proposal_data_def bounded_module_tag_def store_proposal_object_def cast_own_ballot_def
  is_subject_voter_in_snapshot_def resolve_subject_voter_def emit_proposal_created_def deposit_event_def
  register_proposal_indexes_def

lemmas law_vote_defs = cast_representative_vote_def do_cast_representative_vote_def ensure_open_proposal_def
  record_representative_vote_def subject_voters_len_def representative_tally_def representative_decided_def
  representative_final_passed_def body_approved_def finish_representative_route_def advance_to_sign_def
  transition_stage_def reschedule_def vote_count_default_def add_vote_def executive_sign_def
  do_executive_sign_def finalize_or_guard_def set_status_and_emit_def stage_7200 bn_add_def sat_add_def
  max_of_def MAX_PROPOSAL_SUBJECT_CIDS_def CID_NUMBER_MAX_BYTES_def remove_id_def
  release_internal_proposal_mutexes_def ensure_signed_def ensure_valid_status_transition_def
  valid_status_transition_def announce_status_def free_active_slots_def write_status_def settle_status_def
  is_terminal_status_def mark_proposal_passed_at_def should_release_internal_proposal_mutexes_def
  leg_stage_defs kind_defs status_defs

lemma sample_law_passes:
  "\<exists>s p. create_legislation_vote leg_env 2 ''A-NRP0-'' sample_law_plan (Single sample_house) RuleRegular sample_law
       ''law'' [] [] (engine_genesis ()) = (Inr 0, s) \<and>
     proposals (bill_run leg_env sample_calls s) 0 = Some p \<and> p_status p = STATUS_PASSED"
  using nrc_year by (simp add: law_defs sample_code law_vote_defs sample_calls_def)

lemma sample_fresh: "fresh_docket (next_proposal_id (ids (engine_genesis ()))) (engine_genesis ())"
  by (simp add: fresh_docket_def engine_genesis_def)

theorem bill_refines_procedure_witness:
  "\<exists>s ph. create_legislation_vote leg_env 2 ''A-NRP0-'' sample_law_plan (Single sample_house) RuleRegular sample_law
       ''law'' [] [] (engine_genesis ()) = (Inr 0, s) \<and>
     bill_phase 0 (bill_run leg_env sample_calls s) = Some ph \<and> (bill_step sample_bill)\<^sup>*\<^sup>* (InBody 0) ph"
proof -
  obtain s where s: "create_legislation_vote leg_env 2 ''A-NRP0-'' sample_law_plan (Single sample_house) RuleRegular sample_law
       ''law'' [] [] (engine_genesis ()) = (Inr 0, s)" using sample_law_passes by blast
  from bill_refines_procedure [OF leg_env_keeps sample_fresh s refl sample_bill_def, of sample_calls]
  obtain ph ph' where "bill_phase 0 (bill_run leg_env sample_calls s) = Some ph'"
    "(bill_step sample_bill)\<^sup>*\<^sup>* (InBody 0) ph" "(bill_step sample_bill)\<^sup>*\<^sup>* ph ph'" by blast
  with s show ?thesis by (meson rtranclp_trans)
qed

theorem law_enacted_in_full_witness:
  "\<exists>s p. create_legislation_vote leg_env 2 ''A-NRP0-'' sample_law_plan (Single sample_house) RuleRegular sample_law
       ''law'' [] [] (engine_genesis ()) = (Inr 0, s) \<and>
     proposals (bill_run leg_env sample_calls s) 0 = Some p \<and> p_status p = STATUS_PASSED \<and>
     (\<exists>n. representative_final_passed RuleRegular n
        (yes (representative_tally 0 0 (bill_run leg_env sample_calls s)))
        (no (representative_tally 0 0 (bill_run leg_env sample_calls s))))"
proof -
  obtain s p where s: "create_legislation_vote leg_env 2 ''A-NRP0-'' sample_law_plan (Single sample_house) RuleRegular sample_law
       ''law'' [] [] (engine_genesis ()) = (Inr 0, s)"
    and p: "proposals (bill_run leg_env sample_calls s) 0 = Some p" "p_status p = STATUS_PASSED" using sample_law_passes by blast
  have n: "0 < length (bodies sample_bill)" by (simp add: sample_bill_def)
  note all = law_enacted_in_full [OF leg_env_keeps sample_fresh s refl p sample_bill_def]
  from conjunct1 [OF all, rule_format, OF n]
  have "\<exists>n. representative_final_passed RuleRegular n
        (yes (representative_tally 0 0 (bill_run leg_env sample_calls s)))
        (no (representative_tally 0 0 (bill_run leg_env sample_calls s)))" by auto
  with s p show ?thesis by auto
qed

section \<open>The justices vote by wallet\<close>

text \<open>
  C39. Justices are not deduplicated by person. Representatives vote with a ticket in the name
  of the member the wallet stands for, but the final review records the wallet itself: a justice
  whose institution identity is bound to a new wallet between two calls votes twice, and both
  approvals are counted towards the four that are needed.
\<close>

theorem guard_vote_per_wallet:
  assumes "proposals s i = Some p" "p_status p = STATUS_VOTING" "p_stage p = STAGE_LEG_CONSTITUTION_GUARD"
    and "legislation_metas (legislation s) i = Some lm" "lm_guard lm = Some g"
    and "electorate i g s = Some justices" "length justices = 7" "a \<in> set justices"
    and "leg_guard_signs (legislation s) i = []"
    and "resolve_institution_voter env (rs_cid_number g) w1 x1 = Some a"
    and "resolve_institution_voter env (rs_cid_number g) w2 x2 = Some a" "w1 \<noteq> w2"
  shows "\<exists>s1 s2. guard_vote env (Signed w1) i True (s\<lparr>ext := x1\<rparr>) = (Inr (), s1) \<and>
     guard_vote env (Signed w2) i True (s1\<lparr>ext := x2\<rparr>) = (Inr (), s2) \<and>
     leg_guard_signs (legislation s2) i = [(w1, True), (w2, True)] \<and> guard_approvals i s2 = 2"
  using assms unfolding electorate_def
  by (simp add: guard_vote_def with_transaction_def ensure_signed_def do_guard_vote_def Let_def subject_voters_len_def
      is_subject_voter_in_snapshot_def resolve_subject_voter_def deposit_event_def
      CONSTITUTION_GUARD_MEMBERS_def try_push_def guard_decided_def CONSTITUTION_GUARD_APPROVAL_THRESHOLD_def
      guard_approvals_def)

definition rebinding_env :: "unit env" where
  "rebinding_env = leg_env\<lparr>resolve_institution_voter := (\<lambda>_ _ _. Some 1)\<rparr>"

definition review_state :: "unit engine" where
  "review_state = (engine_genesis ())\<lparr>
     proposals := [0 \<mapsto> (representative_proposal [] [] [] 0)\<lparr>p_stage := STAGE_LEG_CONSTITUTION_GUARD\<rparr>],
     snapshots := (snapshots (engine_genesis ()))\<lparr>voter_snapshot := (\<lambda>_. [(Institution sample_president, [1 ..< 8])])\<rparr>,
     legislation := (legislation (engine_genesis ()))\<lparr>legislation_metas := [0 \<mapsto> sample_law\<lparr>lm_guard := Some sample_president\<rparr>]\<rparr>\<rparr>"

theorem guard_vote_per_wallet_witness:
  "\<exists>s1 s2. guard_vote rebinding_env (Signed 10) 0 True review_state = (Inr (), s1) \<and>
     guard_vote rebinding_env (Signed 11) 0 True s1 = (Inr (), s2) \<and> guard_approvals 0 s2 = 2"
proof -
  have e: "s\<lparr>ext := ()\<rparr> = s" for s :: "unit engine" by simp
  from guard_vote_per_wallet [of review_state 0 "(representative_proposal [] [] [] 0)\<lparr>p_stage := STAGE_LEG_CONSTITUTION_GUARD\<rparr>"
      "sample_law\<lparr>lm_guard := Some sample_president\<rparr>" sample_president "[1 ..< 8]" 1 rebinding_env 10 "()" 11 "()"]
  show ?thesis unfolding e
    by (simp add: review_state_def representative_proposal_def electorate_def rebinding_env_def engine_genesis_def) blast
qed

end
