(* ===== verification/Election_Outcome.thy ===== *)
theory Election_Outcome
  imports Election_Vote
begin

text \<open>
  What elections come to: the ballots of any sequence of calls are counted exactly, and the
  result is the decisive set of candidates, if there is one.
\<close>

section \<open>The books of an election\<close>

definition ballots_for :: "proposal_id \<Rightarrow> cid_number \<Rightarrow> 'x engine \<Rightarrow> nat" where
  "ballots_for i c s =
     length (filter (\<lambda>e. cs_cid_number (pv_candidate_subject (snd e)) = c) (popular_election_votes_by_cid (election s) i)) +
     length (filter (\<lambda>e. cs_cid_number (snd e) = c) (mutual_election_votes_by_ticket (election s) i))"

definition ballots_cast :: "proposal_id \<Rightarrow> 'x engine \<Rightarrow> nat" where
  "ballots_cast i s =
     length (popular_election_votes_by_cid (election s) i) + length (mutual_election_votes_by_ticket (election s) i)"

definition election_counts :: "proposal_id \<Rightarrow> citizen_subject list \<Rightarrow> 'x engine \<Rightarrow> (citizen_subject \<times> u32) list" where
  "election_counts i cs s = map (\<lambda>c. (c, candidate_tally i (cs_cid_number c) s)) cs"

text \<open>One ballot per voter, every ballot for a candidate, and all of them counted.\<close>

definition election_counted :: "proposal_id \<Rightarrow> citizen_subject list \<Rightarrow> 'x engine \<Rightarrow> bool" where
  "election_counted i cs s \<longleftrightarrow>
     distinct (map fst (popular_election_votes_by_cid (election s) i)) \<and>
     distinct (map fst (mutual_election_votes_by_ticket (election s) i)) \<and>
     (\<forall>e \<in> set (popular_election_votes_by_cid (election s) i). pv_candidate_subject (snd e) \<in> set cs) \<and>
     (\<forall>e \<in> set (mutual_election_votes_by_ticket (election s) i). snd e \<in> set cs) \<and>
     (\<forall>c. candidate_tally i c s = ballots_for i c s) \<and>
     election_tally_store (election s) i = ballots_cast i s"

lemma length_by_key:
  assumes "distinct ks" "\<forall>x \<in> set xs. f x \<in> set ks"
  shows "(\<Sum>k \<leftarrow> ks. length (filter (\<lambda>x. f x = k) xs)) = length xs"
  using assms(2)
proof (induction xs)
  case (Cons x xs)
  have "(\<Sum>k \<leftarrow> ks. length (filter (\<lambda>y. f y = k) (x # xs))) =
      (\<Sum>k \<leftarrow> ks. (if f x = k then 1 else 0) + length (filter (\<lambda>y. f y = k) xs))"
    by (rule arg_cong [where f = sum_list], rule map_cong) simp_all
  also have "\<dots> = (\<Sum>k \<leftarrow> ks. if f x = k then 1 else 0) + length xs"
    using Cons by (simp add: sum_list_addf)
  also have "(\<Sum>k \<leftarrow> ks. if f x = k then 1 else 0 :: nat) = 1"
    using assms(1) Cons.prems by (simp add: sum_list_distinct_conv_sum_set)
  finally show ?case by simp
qed simp

text \<open>So the candidates' tallies add up to the ballots cast.\<close>

lemma tallies_add_up:
  assumes c: "election_counted i cs s" and d: "distinct (map cs_cid_number cs)"
  shows "sum_list (map snd (election_counts i cs s)) = ballots_cast i s"
proof -
  let ?P = "popular_election_votes_by_cid (election s) i" and ?M = "mutual_election_votes_by_ticket (election s) i"
  have "sum_list (map snd (election_counts i cs s)) = (\<Sum>k \<leftarrow> map cs_cid_number cs. ballots_for i k s)"
    using c by (simp add: election_counts_def election_counted_def comp_def)
  also have "\<dots> = (\<Sum>k \<leftarrow> map cs_cid_number cs. length (filter (\<lambda>e. cs_cid_number (pv_candidate_subject (snd e)) = k) ?P)) +
      (\<Sum>k \<leftarrow> map cs_cid_number cs. length (filter (\<lambda>e. cs_cid_number (snd e) = k) ?M))"
    by (simp add: ballots_for_def sum_list_addf comp_def)
  also have "\<dots> = length ?P + length ?M"
    using c by (subst (1 2) length_by_key [OF d]) (auto simp: election_counted_def)
  finally show ?thesis by (simp add: ballots_cast_def)
qed

section \<open>Judgement\<close>

text \<open>What the status of an election says.\<close>

definition election_verdict :: "proposal_id \<Rightarrow> citizen_subject list \<Rightarrow> u16 \<Rightarrow> u8 \<Rightarrow> 'x engine \<Rightarrow> bool" where
  "election_verdict i cs n st s \<longleftrightarrow>
     (st = STATUS_PASSED \<and> (\<exists>ws. election_results (election s) i = Some ws \<and> winners_for (election_counts i cs s) 0 n ws)) \<or>
     (st = STATUS_REJECTED \<and> \<not> (\<exists>W. decisive (set (election_counts i cs s)) n W))"

definition election_ok :: "proposal \<Rightarrow> proposal_id \<Rightarrow> u64 \<Rightarrow> citizen_subject list \<Rightarrow> u16 \<Rightarrow> 'x engine \<Rightarrow> bool" where
  "election_ok p i elig cs n s \<longleftrightarrow>
     election_counted i cs s \<and> ballots_cast i s \<le> elig \<and> elig < 2 ^ 32 \<and>
     (\<exists>meta. election_meta_store (election s) i = Some meta \<and> em_seat_count meta = n) \<and>
     election_candidates (election s) i = Some cs \<and> distinct (map cs_cid_number cs) \<and>
     election_eligible_total i (p_stage p) s = Inr elig \<and>
     (\<exists>st. proposals s i = Some (p\<lparr>p_status := st\<rparr>) \<and>
        (st = STATUS_VOTING \<and> ballots_cast i s < elig \<or> election_verdict i cs n st s))"

text \<open>Everything about election \<open>i\<close> except its proposal and its result.\<close>

definition same_books :: "proposal_id \<Rightarrow> 'x engine \<Rightarrow> 'x engine \<Rightarrow> bool" where
  "same_books i s s' \<longleftrightarrow>
     popular_election_votes_by_cid (election s') i = popular_election_votes_by_cid (election s) i \<and>
     mutual_election_votes_by_ticket (election s') i = mutual_election_votes_by_ticket (election s) i \<and>
     election_candidate_tallies (election s') i = election_candidate_tallies (election s) i \<and>
     election_tally_store (election s') i = election_tally_store (election s) i \<and>
     election_meta_store (election s') i = election_meta_store (election s) i \<and>
     election_candidates (election s') i = election_candidates (election s) i \<and>
     institution_ticket_count_snapshot (snapshots s') i = institution_ticket_count_snapshot (snapshots s) i \<and>
     proposal_population_snapshots (records s') i = proposal_population_snapshots (records s) i"

lemma books_refl [simp]: "same_books i s s"
  by (simp add: same_books_def)

lemma books_trans: "same_books i s t \<Longrightarrow> same_books i t u \<Longrightarrow> same_books i s u"
  by (simp add: same_books_def)

lemma books_ballots: "same_ballots s s' \<Longrightarrow> same_books i s s'"
  by (simp add: same_books_def same_ballots_def)

lemma books_cong:
  assumes "same_books i s s'"
  shows "candidate_tally i c s' = candidate_tally i c s" "ballots_for i c s' = ballots_for i c s"
    "ballots_cast i s' = ballots_cast i s" "election_counts i cs s' = election_counts i cs s"
    "election_counted i cs s' = election_counted i cs s" "election_eligible_total i st s' = election_eligible_total i st s"
proof -
  show *: "candidate_tally i c s' = candidate_tally i c s" "ballots_for i c s' = ballots_for i c s"
    "ballots_cast i s' = ballots_cast i s" for c
    using assms by (simp_all add: same_books_def candidate_tally_def ballots_for_def ballots_cast_def)
  show "election_counts i cs s' = election_counts i cs s" by (simp add: election_counts_def *)
  show "election_counted i cs s' = election_counted i cs s"
    using assms by (simp add: election_counted_def *) (simp add: same_books_def)
  show "election_eligible_total i st s' = election_eligible_total i st s"
    using assms by (cases "election_meta_store (election s) i")
      (simp_all add: same_books_def election_eligible_total_def population_eligible_total_of_def institution_ticket_count_def)
qed

lemma election_frame:
  assumes "same_books i s s'" "proposals s' i = proposals s i" "election_results (election s') i = election_results (election s) i"
  shows "election_ok p i elig cs n s' = election_ok p i elig cs n s"
  using assms(2,3) assms(1)
  by (simp add: election_ok_def election_verdict_def books_cong [OF assms(1)]) (simp add: same_books_def)

section \<open>The result\<close>

lemma select_winners_spec:
  assumes "distinct cs"
  shows "case select_winners cs n of Inr ws \<Rightarrow> winners_for cs 0 n ws | Inl _ \<Rightarrow> \<not> (\<exists>W. decisive (set cs) n W)"
  using select_loop_spec [OF assms, of 0 n "[]"] by (simp add: select_winners_def split: sum.splits)

lemma distinct_counts: "distinct (map cs_cid_number cs) \<Longrightarrow> distinct (election_counts i cs s)"
  by (auto simp: election_counts_def distinct_map inj_on_def)

text \<open>Books that are in order, with a live proposal: the situation in which a result is drawn.\<close>

definition books_in_order :: "proposal \<Rightarrow> proposal_id \<Rightarrow> u64 \<Rightarrow> citizen_subject list \<Rightarrow> u16 \<Rightarrow> 'x engine \<Rightarrow> bool" where
  "books_in_order p i elig cs n s \<longleftrightarrow>
     election_counted i cs s \<and> ballots_cast i s \<le> elig \<and> elig < 2 ^ 32 \<and>
     (\<exists>meta. election_meta_store (election s) i = Some meta \<and> em_seat_count meta = n) \<and>
     election_candidates (election s) i = Some cs \<and> distinct (map cs_cid_number cs) \<and>
     election_eligible_total i (p_stage p) s = Inr elig"

lemma election_ok_books:
  "election_ok p i elig cs n s \<longleftrightarrow> books_in_order p i elig cs n s \<and>
     (\<exists>st. proposals s i = Some (p\<lparr>p_status := st\<rparr>) \<and>
        (st = STATUS_VOTING \<and> ballots_cast i s < elig \<or> election_verdict i cs n st s))"
  by (auto simp: election_ok_def books_in_order_def)

lemma books_in_order_cong: "same_books i s s' \<Longrightarrow> books_in_order p i elig cs n s' = books_in_order p i elig cs n s"
  by (simp add: books_in_order_def books_cong) (simp add: same_books_def)

lemma decided_election:
  assumes tk: "tracks_keep_ledgers env" and b: "books_in_order p i elig cs n s"
    and p: "proposals s i = Some (p\<lparr>p_status := st0\<rparr>)" and v: "election_verdict i cs n st s"
  shows "on_ok (election_ok p i elig cs n) (set_status_and_emit env i st s)"
  unfolding on_ok_def
proof clarify
  fix u s' assume "set_status_and_emit env i st s = (Inr u, s')"
  with referendum_set_status [OF tk _ p] have e: "same_ballots s s'" "proposals s' i = Some (p\<lparr>p_status := st\<rparr>)" by auto
  note d = books_ballots [OF e(1), of i]
  have "election_verdict i cs n st s'"
    using v e(1) by (simp add: election_verdict_def books_cong [OF d]) (simp add: same_ballots_def)
  with b e(2) show "election_ok p i elig cs n s'" by (auto simp: election_ok_books books_in_order_cong [OF d])
qed

lemma result_election:
  assumes tk: "tracks_keep_ledgers env" and b: "books_in_order p i elig cs n s"
    and p: "proposals s i = Some (p\<lparr>p_status := st0\<rparr>)"
  shows "on_ok (election_ok p i elig cs n) (finalize_election_result env i s)"
proof -
  from b obtain meta where m: "election_meta_store (election s) i = Some meta" "em_seat_count meta = n"
    "election_candidates (election s) i = Some cs" "distinct (map cs_cid_number cs)" by (auto simp: books_in_order_def)
  note spec = select_winners_spec [OF distinct_counts [OF m(4)], of i s n]
  show ?thesis
  proof (cases "select_winners (election_counts i cs s) n")
    case (Inl u)
    let ?s = "deposit_event (ElectionRejectedByTieOrNoVotes i) s"
    have d: "same_books i s ?s" by (simp add: same_books_def deposit_event_def)
    have v: "election_verdict i cs n STATUS_REJECTED ?s"
      using spec Inl by (simp add: election_verdict_def books_cong [OF d])
    have "on_ok (election_ok p i elig cs n) (set_status_and_emit env i STATUS_REJECTED ?s)"
      using b p by (intro decided_election [OF tk _ _ v]) (simp_all add: books_in_order_cong [OF d])
    with Inl m show ?thesis by (simp add: finalize_election_result_def election_counts_def)
  next
    case (Inr ws)
    let ?s = "deposit_event (ElectionResultReady i)
      (upd_election (\<lambda>v. v\<lparr>election_results := (election_results v)(i \<mapsto> ws)\<rparr>) s)"
    have d: "same_books i s ?s" by (simp add: same_books_def deposit_event_def)
    have v: "election_verdict i cs n STATUS_PASSED ?s"
      using spec Inr by (simp add: election_verdict_def books_cong [OF d]) (simp add: deposit_event_def)
    have "on_ok (election_ok p i elig cs n) (set_status_and_emit env i STATUS_PASSED ?s)"
      using b p by (intro decided_election [OF tk _ _ v]) (simp_all add: books_in_order_cong [OF d])
    with Inr m show ?thesis
      by (auto simp: finalize_election_result_def election_counts_def intro: on_ok_ensure)
  qed
qed

section \<open>A ballot\<close>

lemma candidate_tally_count:
  "candidate_tally i c (count_election_vote i x s) =
     (if c = cs_cid_number x then sat_add 32 (candidate_tally i c s) 1 else candidate_tally i c s)"
  by (simp add: candidate_tally_def count_election_vote_def)

lemma count_fields [simp]:
  "popular_election_votes_by_cid (election (count_election_vote i x s)) = popular_election_votes_by_cid (election s)"
  "mutual_election_votes_by_ticket (election (count_election_vote i x s)) = mutual_election_votes_by_ticket (election s)"
  "election_meta_store (election (count_election_vote i x s)) = election_meta_store (election s)"
  "election_candidates (election (count_election_vote i x s)) = election_candidates (election s)"
  "proposals (count_election_vote i x s) = proposals s" "snapshots (count_election_vote i x s) = snapshots s"
  "records (count_election_vote i x s) = records s"
  "election_tally_store (election (count_election_vote i x s)) i = sat_add 32 (election_tally_store (election s) i) 1"
  by (simp_all add: count_election_vote_def)

text \<open>A fresh ballot for a candidate, stored under its voter and then counted.\<close>

lemma counted_ballot:
  assumes c: "election_counted i cs s" and x: "x \<in> set cs" and room: "ballots_cast i s + 1 < 2 ^ 32"
    and t: "t = record_popular_vote i voter x s \<and> cs_cid_number voter \<notin> fst ` set (popular_election_votes_by_cid (election s) i) \<or>
      t = record_mutual_vote i ticket x s \<and> ticket \<notin> fst ` set (mutual_election_votes_by_ticket (election s) i)"
  shows "election_counted i cs (count_election_vote i x t) \<and> ballots_cast i (count_election_vote i x t) = ballots_cast i s + 1"
proof -
  let ?t = "count_election_vote i x t"
  have le: "ballots_for i k s \<le> ballots_cast i s" for k
    unfolding ballots_for_def ballots_cast_def by (intro add_mono length_filter_le)
  have tally: "candidate_tally i k t = candidate_tally i k s" "election_tally_store (election t) i = election_tally_store (election s) i" for k
    using t by (auto simp: candidate_tally_def record_popular_vote_def record_mutual_vote_def)
  have books: "(popular_election_votes_by_cid (election t) i = (cs_cid_number voter, \<lparr>pv_voter_subject = voter, pv_candidate_subject = x\<rparr>) #
        popular_election_votes_by_cid (election s) i \<and>
      mutual_election_votes_by_ticket (election t) i = mutual_election_votes_by_ticket (election s) i \<and>
      cs_cid_number voter \<notin> fst ` set (popular_election_votes_by_cid (election s) i)) \<or>
     (popular_election_votes_by_cid (election t) i = popular_election_votes_by_cid (election s) i \<and>
      mutual_election_votes_by_ticket (election t) i = (ticket, x) # mutual_election_votes_by_ticket (election s) i \<and>
      ticket \<notin> fst ` set (mutual_election_votes_by_ticket (election s) i))"
    using t by (auto simp: record_popular_vote_def record_mutual_vote_def kv_insert_new kv_contains_def)
  have cast: "ballots_cast i ?t = ballots_cast i s + 1" using books by (auto simp: ballots_cast_def)
  have "ballots_for i k ?t = (if k = cs_cid_number x then 1 else 0) + ballots_for i k s" for k
    using books by (auto simp: ballots_for_def)
  moreover have "sat_add 32 (ballots_for i k s) 1 = ballots_for i k s + 1" for k
    using room le [of k] by (simp add: sat_add_exact)
  then have "candidate_tally i k ?t = (if k = cs_cid_number x then 1 else 0) + ballots_for i k s" for k
    using c by (simp add: candidate_tally_count tally election_counted_def)
  moreover have "election_tally_store (election ?t) i = ballots_cast i s + 1"
    using c room by (simp add: tally election_counted_def sat_add_exact)
  ultimately show ?thesis
    using c cast books x by (auto simp: election_counted_def)
qed

lemma vote_election:
  assumes tk: "tracks_keep_ledgers env" and e: "election_ok p i elig cs n s"
  shows "on_ok (election_ok p i elig cs n) (do_cast_election_vote env who i st role x s)"
  unfolding on_ok_def
proof clarify
  fix u s' assume ok: "do_cast_election_vote env who i st role x s = (Inr u, s')"
  then obtain q voter t where q: "proposals s i = Some q" "p_status q = STATUS_VOTING" "p_stage q = st"
    and x: "candidate_exists i x s" and t: "take_election_ballot env who i st role x s = (Inr voter, t)"
    and f: "let s2 = deposit_event (ElectionVoteCast i voter x) (count_election_vote i x t) in
      \<exists>el. election_eligible_total i st s2 = Inr el \<and>
        (if el \<le> election_tally_store (election s2) i then finalize_election_result env i s2 else (Inr (), s2)) = (Inr (), s')"
    by (auto simp: do_cast_election_vote_def Let_def pure_result_def deposit_event_def dest!: ensure_open_ok)
  from e q have c: "election_counted i cs s" "ballots_cast i s < elig" "elig < 2 ^ 32" "q = p\<lparr>p_status := STATUS_VOTING\<rparr>"
    and cs: "election_candidates (election s) i = Some cs"
    by (auto simp: election_ok_def election_verdict_def)
  have xs: "x \<in> set cs" using x cs by (simp add: candidate_exists_def)
  let ?s2 = "deposit_event (ElectionVoteCast i voter x) (count_election_vote i x t)"
  have fresh: "\<exists>v k. t = record_popular_vote i v x s \<and> cs_cid_number v \<notin> fst ` set (popular_election_votes_by_cid (election s) i) \<or>
      t = record_mutual_vote i k x s \<and> k \<notin> fst ` set (mutual_election_votes_by_ticket (election s) i)"
    using t by (auto simp: take_election_ballot_def Let_def kv_contains_def split: if_splits)
  have cnt: "election_counted i cs (count_election_vote i x t) \<and> ballots_cast i (count_election_vote i x t) = ballots_cast i s + 1"
    using fresh counted_ballot [OF c(1) xs, of t] c(2,3) by fastforce
  have t': "proposals t = proposals s" "snapshots t = snapshots s" "records t = records s"
    "election_meta_store (election t) = election_meta_store (election s)" "election_candidates (election t) = election_candidates (election s)"
    using fresh by (auto simp: record_popular_vote_def record_mutual_vote_def)
  have el: "election_eligible_total i g ?s2 = election_eligible_total i g s" for g
    by (cases "election_meta_store (election s) i") (simp_all add: election_eligible_total_def population_eligible_total_of_def institution_ticket_count_def deposit_event_def t')
  have d: "same_books i (count_election_vote i x t) ?s2" by (simp add: same_books_def deposit_event_def)
  have b2: "books_in_order p i elig cs n ?s2"
    using e cnt c(2) el unfolding election_ok_books books_in_order_def
    by (auto simp: books_cong [OF d]) (simp_all add: deposit_event_def t')
  have casted: "election_tally_store (election ?s2) i = ballots_cast i s + 1"
    using cnt by (simp add: election_counted_def deposit_event_def)
  have p2: "proposals ?s2 i = Some (p\<lparr>p_status := STATUS_VOTING\<rparr>)" using q c(4) t' by (simp add: deposit_event_def)
  have el2: "election_eligible_total i st ?s2 = Inr elig" using el e q c(4) by (simp add: election_ok_def)
  show "election_ok p i elig cs n s'"
  proof (cases "elig \<le> ballots_cast i s + 1")
    case True
    with f el2 casted have "finalize_election_result env i ?s2 = (Inr (), s')" by (simp add: Let_def)
    with result_election [OF tk b2 p2] show ?thesis by (simp add: on_ok_def)
  next
    case False
    with f el2 casted have s': "s' = ?s2" by (simp add: Let_def)
    have "ballots_cast i ?s2 < elig" using False cnt by (simp add: books_cong [OF d])
    with b2 p2 show ?thesis by (auto simp: s' election_ok_books)
  qed
qed

section \<open>Other elections\<close>

definition other_elections :: "proposal_id \<Rightarrow> 'x engine \<Rightarrow> 'x engine \<Rightarrow> bool" where
  "other_elections j s s' \<longleftrightarrow> (\<forall>i. i \<noteq> j \<longrightarrow> same_books i s s' \<and> proposals s' i = proposals s i \<and>
     election_results (election s') i = election_results (election s) i)"

lemma other_trans: "other_elections j s t \<Longrightarrow> other_elections j t u \<Longrightarrow> other_elections j s u"
  unfolding other_elections_def using books_trans by metis

lemma other_ok: "other_elections j s s' \<Longrightarrow> i \<noteq> j \<Longrightarrow> election_ok p i elig cs n s' = election_ok p i elig cs n s"
  unfolding other_elections_def using election_frame by metis

lemma other_own [simp]:
  "other_elections j s s" "other_elections j s (deposit_event e s)" "other_elections j s (record_popular_vote j v x s)"
  "other_elections j s (record_mutual_vote j k x s)" "other_elections j s (count_election_vote j x s)"
  "other_elections j s (upd_election (\<lambda>v. v\<lparr>election_results := (election_results v)(j \<mapsto> ws)\<rparr>) s)"
  by (simp_all add: other_elections_def same_books_def deposit_event_def record_popular_vote_def record_mutual_vote_def
      count_election_vote_def)

lemma other_set_status:
  assumes tk: "tracks_keep_ledgers env" and o: "other_elections j s0 s"
  shows "on_ok (other_elections j s0) (set_status_and_emit env j st s)"
  unfolding on_ok_def
proof clarify
  fix u s' assume ok: "set_status_and_emit env j st s = (Inr u, s')"
  obtain p where "proposals s j = Some p" using set_status_proposals [OF keep_ledgers_framed [OF tk] ok] by blast
  with referendum_set_status [OF tk _ this] ok have "same_ballots s s'" "proposals s' = (proposals s)(j \<mapsto> p\<lparr>p_status := st\<rparr>)" by auto
  then have "other_elections j s s'" by (simp add: other_elections_def books_ballots) (simp add: same_ballots_def)
  with o show "other_elections j s0 s'" by (rule other_trans)
qed

lemma other_result:
  assumes tk: "tracks_keep_ledgers env" and o: "other_elections j s0 s"
  shows "on_ok (other_elections j s0) (finalize_election_result env j s)"
  unfolding finalize_election_result_def Let_def
  by (intro on_ok_ok_or)
     (auto split: sum.split intro!: on_ok_ensure other_set_status [OF tk] other_trans [OF _ other_own(2)]
       other_trans [OF o other_own(6)] o)

lemma other_vote:
  assumes tk: "tracks_keep_ledgers env"
  shows "on_ok (other_elections j s) (do_cast_election_vote env who j st role x s)"
proof -
  have t: "on_ok (other_elections j s) (take_election_ballot env who j st role x s)" for st
    unfolding take_election_ballot_def Let_def by (auto intro!: on_ok_ensure on_ok_ok_or)
  have pure: "on_ok (\<lambda>t. t = s') (pure_result r s')" for s' and r :: "dispatch_error + 'b"
    by (rule on_ok_pure_result) simp
  show ?thesis
    unfolding do_cast_election_vote_def Let_def
    by (rule on_ok_and_then [OF pure])
       (auto intro!: on_ok_ensure on_ok_and_then [OF t] on_ok_and_then [OF pure] other_result [OF tk]
         other_trans [OF _ other_own(2)] other_trans [OF _ other_own(5)])
qed

section \<open>Runs\<close>

datatype election_call =
    CastPopular origin proposal_id citizen_subject
  | CastMutual origin proposal_id role_code citizen_subject
  | FinalizeElection origin proposal_id

fun election_dispatch :: "'x env \<Rightarrow> election_call \<Rightarrow> 'x engine \<Rightarrow> (dispatch_error, unit, 'x engine) outcome" where
  "election_dispatch env (CastPopular o' i c) s = cast_popular_vote env o' i c s"
| "election_dispatch env (CastMutual o' i role c) s = cast_mutual_vote env o' i role c s"
| "election_dispatch env (FinalizeElection o' i) s = finalize_proposal [election_finalize_timeout env] o' i s"

text \<open>Calls in any order, time and everything outside the engine moving on between them.\<close>

fun election_run :: "'x env \<Rightarrow> (election_call \<times> block_number \<times> 'x) list \<Rightarrow> 'x engine \<Rightarrow> 'x engine" where
  "election_run env [] s = s"
| "election_run env ((c, n, x) # calls) s =
     election_run env calls (snd (election_dispatch env c (s\<lparr>block_number := n, ext := x\<rparr>)))"

fun election_target :: "election_call \<Rightarrow> proposal_id" where
  "election_target (CastPopular o' i c) = i"
| "election_target (CastMutual o' i role c) = i"
| "election_target (FinalizeElection o' i) = i"

lemma election_timeout_on_ok:
  assumes r: "\<And>p. proposals s i = Some p \<Longrightarrow> on_ok P (finalize_election_result env i s)"
  shows "on_ok P (finalize_proposal [election_finalize_timeout env] o' i s)"
  unfolding finalize_proposal_def
proof (intro on_ok_with_transaction on_ok_ok_or)
  fix p assume p: "proposals s i = Some p"
  have "on_ok P (finalize_election_timeout env p i s)"
    unfolding finalize_election_timeout_def using r [OF p] by (intro on_ok_ensure)
  then show "on_ok P (track_result (tracks_finalize_timeout [election_finalize_timeout env] p i s))"
    by (cases "finalize_election_timeout env p i s" rule: outcome_cases)
       (auto simp: election_finalize_timeout_def track_result_def)
qed

lemma election_dispatch_own:
  assumes tk: "tracks_keep_ledgers env" and e: "election_ok p (election_target c) elig cs n s"
  shows "on_ok (election_ok p (election_target c) elig cs n) (election_dispatch env c s)"
proof -
  have "on_ok (election_ok p i elig cs n) (finalize_election_result env i s)" if "election_ok p i elig cs n s" for i
    using that result_election [OF tk] by (auto simp: election_ok_books)
  with e show ?thesis
    by (cases c)
       (auto simp: cast_popular_vote_def cast_mutual_vote_def do_cast_popular_vote_def do_cast_mutual_vote_def
         intro!: on_ok_with_transaction on_ok_ok_or vote_election [OF tk] election_timeout_on_ok)
qed

lemma election_dispatch_others:
  assumes tk: "tracks_keep_ledgers env"
  shows "on_ok (other_elections (election_target c) s) (election_dispatch env c s)"
  by (cases c)
     (auto simp: cast_popular_vote_def cast_mutual_vote_def do_cast_popular_vote_def do_cast_mutual_vote_def
       intro!: on_ok_with_transaction on_ok_ok_or other_vote [OF tk] election_timeout_on_ok other_result [OF tk])

lemma election_dispatch_error: "election_dispatch env c s = (Inl e, t) \<Longrightarrow> t = s"
  by (cases c)
     (auto simp: cast_popular_vote_def cast_mutual_vote_def finalize_proposal_def dest: with_transaction_error)

lemma election_clock: "election_ok p i elig cs n (s\<lparr>block_number := b, ext := x\<rparr>) = election_ok p i elig cs n s"
  by (rule election_frame) (simp_all add: same_books_def)

lemma election_dispatch_ok:
  assumes tk: "tracks_keep_ledgers env" and e: "election_ok p i elig cs n s"
  shows "election_ok p i elig cs n (snd (election_dispatch env c s))"
proof (cases "election_dispatch env c s" rule: outcome_cases)
  case (err x t)
  with election_dispatch_error [OF err] e show ?thesis by simp
next
  case (ok a t)
  show ?thesis
  proof (cases "election_target c = i")
    case True
    with election_dispatch_own [OF tk, of p c] e ok show ?thesis by fastforce
  next
    case False
    with election_dispatch_others [OF tk, of c s] ok other_ok [of "election_target c" s t i] e show ?thesis by simp
  qed
qed

lemma election_run_ok:
  assumes tk: "tracks_keep_ledgers env"
  shows "election_ok p i elig cs n s \<Longrightarrow> election_ok p i elig cs n (election_run env calls s)"
proof (induction calls arbitrary: s)
  case (Cons e calls)
  obtain c b x where e: "e = (c, b, x)" by (cases e)
  have "election_ok p i elig cs n (s\<lparr>block_number := b, ext := x\<rparr>)" using Cons.prems by (simp add: election_clock)
  from Cons.IH [OF election_dispatch_ok [OF tk this, of c]] show ?case by (simp add: e)
qed simp

section \<open>New elections\<close>

definition fresh_election :: "proposal_id \<Rightarrow> 'x engine \<Rightarrow> bool" where
  "fresh_election i s \<longleftrightarrow> popular_election_votes_by_cid (election s) i = [] \<and>
     mutual_election_votes_by_ticket (election s) i = [] \<and> election_candidate_tallies (election s) i = []"

lemma election_roles_frame:
  "snapshot_election_roles env i sjs s = (Inr u, s') \<Longrightarrow> \<exists>n. s' = s\<lparr>snapshots := n\<rparr>"
proof (induction sjs arbitrary: s)
  case Nil
  then show ?case by (intro exI [of _ "snapshots s"]) simp
next
  case (Cons sj sjs)
  then obtain rs n where "snapshot_election_roles env i sjs (s\<lparr>snapshots := n\<rparr>) = (Inr u, s')"
    by (auto simp: snapshot_role_voters_def Let_def split: authorization_subject.splits sum.splits)
  from Cons.IH [OF this] show ?case by auto
qed

text \<open>Every institution with a snapshotted role has tickets.\<close>

lemma election_roles_tickets:
  assumes "snapshot_election_roles env i sjs s = (Inr u, s')"
    and "Institution rs \<in> set sjs \<or> (\<exists>m. institution_ticket_count i (rs_cid_number rs) s = Some m \<and> 0 < m)"
  shows "\<exists>m. institution_ticket_count i (rs_cid_number rs) s' = Some m \<and> 0 < m"
  using assms
proof (induction sjs arbitrary: s)
  case (Cons sj sjs)
  then obtain rs0 s1 where sj: "sj = Institution rs0"
    and v: "snapshot_role_voters env i sj (active_accounts_for_role env (rs_cid_number rs0) (rs_role_code rs0) (ext s)) s = (Inr (), s1)"
    and r: "snapshot_election_roles env i sjs s1 = (Inr u, s')"
    by (cases sj) auto
  from v obtain n where n: "institution_ticket_count i (rs_cid_number rs0) s1 = Some n" "0 < n"
    and o: "\<And>cid. cid \<noteq> rs_cid_number rs0 \<Longrightarrow> institution_ticket_count i cid s1 = institution_ticket_count i cid s"
    by (rule snapshot_role_voters_ok) (use sj in auto)
  have "Institution rs \<in> set sjs \<or> (\<exists>m. institution_ticket_count i (rs_cid_number rs) s1 = Some m \<and> 0 < m)"
    using Cons.prems(2) n o sj by (cases "rs_cid_number rs = rs_cid_number rs0") auto
  from Cons.IH [OF r this] show ?case .
qed auto

lemma created_election:
  fixes s :: "'x engine"
  assumes ok: "do_create_election env who plan mode actor role n t0 t1 scope candidates s = (Inr i, s')"
    and fresh: "fresh_election (next_proposal_id (ids s)) s"
  shows "i = next_proposal_id (ids s) \<and>
    (\<exists>elig p. 0 < elig \<and> p_kind p = PROPOSAL_KIND_ELECTION \<and> p_stage p = election_mode_stage mode \<and>
      election_eligible_total i (election_mode_stage mode) s' = Inr elig \<and>
      (elig < 2 ^ 32 \<longrightarrow> election_ok p i elig candidates n s'))"
  using ok
proof (rule create_election_ok)
  fix code cids cscope and s1 s2 s3 s4 s5 s6 s7 :: "'x engine"
  let ?p = "election_proposal mode code actor cids (block_number s)"
  let ?m = "election_meta_of mode scope actor role n t0 t1"
  let ?o = "open_election_books i ?m candidates (s2\<lparr>proposals := (proposals s2)(i \<mapsto> ?p)\<rparr>)"
  assume v: "candidate_scope mode scope actor plan = Inr cscope" "bounded_candidates env candidates cscope s = Inr candidates"
    and a: "allocate_id env s = (Inr i, s1)" "add_active env (subject_keys ?p) i s1 = (Inr (), s2)"
    "snapshot_mutual_voters env mode i (vp_voter_subjects plan) ?o = (Inr (), s3)"
    "snapshot_election_population env i scope s3 = (Inr (), s4)" "bind_vote_plan i plan s4 = (Inr (), s5)"
    "register_proposal_data env i (vp_proposal_owner plan) [] (block_number s) s5 = (Inr (), s6)"
    "schedule_proposal_expiry env i (bn_add (block_number s) stage_duration) s6 = (Inr (), s7)"
    "s' = deposit_event (ElectionCreated i mode actor role n)
       (emit_proposal_created i PROPOSAL_KIND_ELECTION (election_mode_stage mode) (bn_add (block_number s) stage_duration) s7)"
  have i: "i = next_proposal_id (ids s)" and s2: "election s2 = election s"
    using a(1,2) allocate_proposal_id_ok by (fastforce simp: allocate_id_def add_active_def)+
  have s3: "election s3 = election ?o" "proposals s3 = proposals ?o"
    using a(3) election_roles_frame by (fastforce simp: snapshot_mutual_voters_def split: if_splits)+
  have s': "election s' = election s4" "proposals s' = proposals s4" "snapshots s' = snapshots s4"
    "proposal_population_snapshots (records s') = proposal_population_snapshots (records s4)"
    using a(5-8)
    by (auto simp: bind_vote_plan_def register_proposal_data_def Let_def pure_result_def schedule_proposal_expiry_def
        push_expiry_def emit_proposal_created_def deposit_event_def)
  have s4: "election s4 = election s3" "proposals s4 = proposals s3" "snapshots s4 = snapshots s3"
    using snapshot_population_frame [OF a(4)] by auto
  have meta: "election_meta_store (election s') i = Some ?m"
    by (simp add: s' s4 s3 open_election_books_def)
  have el: "\<exists>elig. 0 < elig \<and> election_eligible_total i (election_mode_stage mode) s' = Inr elig"
  proof (cases mode)
    case Popular
    then obtain sc where "scope = Some sc" using v(1) by (cases scope) (auto simp: candidate_scope_def)
    with a(4) Popular show ?thesis
      by (auto simp: snapshot_election_population_def create_population_snapshot_def election_eligible_total_def
          population_eligible_total_of_def s')
  next
    case Mutual
    then obtain rs where rs: "Institution rs \<in> set (vp_voter_subjects plan)" "rs_cid_number rs = actor"
      using v(1) by (cases "vp_voter_subjects plan")
        (auto simp: candidate_scope_def split: option.splits if_splits authorization_subject.splits)
    from Mutual a(3) have "snapshot_election_roles env i (vp_voter_subjects plan) ?o = (Inr (), s3)"
      by (simp add: snapshot_mutual_voters_def)
    from election_roles_tickets [OF this disjI1 [OF rs(1)]] rs(2) Mutual meta show ?thesis
      by (auto simp: election_eligible_total_def institution_ticket_count_def s' s4 election_meta_of_def
          STAGE_ELECTION_MUTUAL_def STAGE_ELECTION_POPULAR_def)
  qed
  then obtain elig where elig: "0 < elig" "election_eligible_total i (election_mode_stage mode) s' = Inr elig" by blast
  have d: "distinct (map cs_cid_number candidates)"
    using v(2) by (simp add: bounded_candidates_def split: if_splits)
  have c: "election_counted i candidates s'" "ballots_cast i s' = 0"
    using fresh i s2 by (simp_all add: election_counted_def ballots_cast_def ballots_for_def candidate_tally_def fresh_election_def
        s' s4 s3 open_election_books_def)
  have "election_ok ?p i elig candidates n s'" if "elig < 2 ^ 32"
    using that elig meta d c
    by (auto simp: election_ok_def election_meta_of_def)
       (simp_all add: s' s4 s3 open_election_books_def election_proposal_def)
  moreover have "p_kind ?p = PROPOSAL_KIND_ELECTION" "p_stage ?p = election_mode_stage mode"
    by (simp_all add: election_proposal_def)
  ultimately show ?thesis using i elig by blast
qed

text \<open>
  C16. An election is counted exactly and decided fairly. Create a popular or mutual election and
  let anyone make any sequence of calls (ballots, finalisations) on this and other elections,
  with time passing and the rest of the chain changing in between. The number of eligible voters
  was frozen at creation and is positive; as long as it fits the 32 bits of the counters, at any
  time: no citizen and no ticket has voted twice, every ballot is for a listed candidate, each
  candidate's tally is the number of their ballots and the tallies add up to the number of ballots
  cast, which is at most the number of eligible voters. The election is still open only while somebody
  eligible has not voted. It is PASSED only with a result that seats exactly the \<open>n\<close> candidates who
  each have more votes than every candidate not seated, in the order of their votes, and REJECTED
  only if there are no \<open>n\<close> such candidates. It has no other status.
\<close>

theorem election_correct:
  assumes "tracks_keep_ledgers env" "fresh_election (next_proposal_id (ids s0)) s0"
    and "do_create_election env who plan mode actor role n t0 t1 scope candidates s0 = (Inr i, s)"
    and "election_eligible_total i (election_mode_stage mode) s = Inr elig" "elig < 2 ^ 32"
    and "s' = election_run env calls s"
  shows "0 < elig \<and> election_counted i candidates s' \<and>
    sum_list (map snd (election_counts i candidates s')) = ballots_cast i s' \<and> ballots_cast i s' \<le> elig \<and>
    (\<exists>p. proposals s' i = Some p \<and> p_kind p = PROPOSAL_KIND_ELECTION \<and>
      (p_status p = STATUS_VOTING \<and> ballots_cast i s' < elig \<or>
       p_status p = STATUS_PASSED \<and> (\<exists>ws. election_results (election s') i = Some ws \<and>
         winners_for (election_counts i candidates s') 0 n ws) \<or>
       p_status p = STATUS_REJECTED \<and> \<not> (\<exists>W. decisive (set (election_counts i candidates s')) n W)))"
proof -
  from created_election [OF assms(3,2)] assms(4,5) obtain p where p: "0 < elig" "p_kind p = PROPOSAL_KIND_ELECTION"
    "election_ok p i elig candidates n s" by auto
  from election_run_ok [OF assms(1) p(3), of calls] assms(6) have e: "election_ok p i elig candidates n s'" by simp
  then have "sum_list (map snd (election_counts i candidates s')) = ballots_cast i s'"
    using tallies_add_up by (auto simp: election_ok_def)
  with e p(1,2) show ?thesis by (auto simp: election_ok_def election_verdict_def)
qed

text \<open>A popular election of one seat between two citizens, with three voters.\<close>

definition citizen :: "nat \<Rightarrow> citizen_subject" where
  "citizen k = \<lparr>cs_cid_number = replicate k (CHR ''c''), cs_account_id = k\<rparr>"

definition sample_election_plan :: vote_plan where
  "sample_election_plan = nrc_plan\<lparr>vp_voting_engine := Election,
     vp_proposer_subject := Institution \<lparr>rs_cid_number = ''A-NRP0-'', rs_role_code = ''b''\<rparr>,
     vp_voter_subjects := [], vp_proposal_owner := ''ele''\<rparr>"

definition election_env :: "unit env" where
  "election_env = test_env\<lparr>tracks := [election_track clear_in_order (\<lambda>_ _. weight_zero) 10 (\<lambda>_. weight_zero) (\<lambda>_. weight_zero)]\<rparr>"

definition sample_ballots :: "(election_call \<times> block_number \<times> unit) list" where
  "sample_ballots = [(CastPopular (Signed 1) 0 (citizen 1), 0, ()), (CastPopular (Signed 2) 0 (citizen 1), 0, ()),
     (CastPopular (Signed 2) 0 (citizen 2), 0, ())]"

lemma election_env_keeps: "tracks_keep_ledgers election_env"
  by (simp add: tracks_keep_ledgers_def election_env_def election.ledger_track_axioms)

lemma organizer_code: "election_institution_code ''A-NRP0-'' = Inr (code_bytes ''NRP'')"
  by (simp add: election_institution_code_def institution_code_from_cid_number_def byte_def is_ascii_alphabetic_def)

lemmas creation_defs = do_create_election_def pure_result_def sample_election_plan_def nrc_plan_def sample_plan_def nrc_role_def
  ensure_election_plan_def candidate_scope_def bounded_candidates_def election_subject_cid_numbers_def
  bound_subject_cid_numbers_def election_env_def test_env_def with_transaction_def allocate_id_def add_active_def
  engine_genesis_def id_storage_genesis_def allocate_proposal_id_def try_into_def checked_add_def Let_def
  subject_keys_def election_proposal_def try_add_active_proposal_def try_push_def lock_storage_genesis_def
  open_election_books_def snapshot_mutual_voters_def snapshot_election_population_def create_population_snapshot_def
  bind_vote_plan_def register_proposal_data_def bounded_module_tag_def schedule_proposal_expiry_def push_expiry_def
  register_proposal_indexes_def MAX_PROPOSAL_SUBJECT_CIDS_def CID_NUMBER_MAX_BYTES_def citizen_def

lemmas ballot_defs = election_eligible_total_def population_eligible_total_of_def emit_proposal_created_def deposit_event_def
  sample_ballots_def cast_popular_vote_def do_cast_popular_vote_def do_cast_election_vote_def ensure_open_proposal_def
  candidate_exists_def take_election_ballot_def voting_subject_at_population_snapshot_def kv_contains_def kv_insert_def
  record_popular_vote_def count_election_vote_def candidate_tally_def sat_add_def max_of_def ballots_cast_def
  ensure_signed_def bn_add_def stage_7200 kind_defs status_defs

lemma sample_election_held:
  "\<exists>s. do_create_election election_env 1 sample_election_plan Popular ''A-NRP0-'' ''b'' 1 0 1 (Some ScopeCountry)
       [citizen 1, citizen 2] (engine_genesis ()) = (Inr 0, s) \<and>
     election_eligible_total 0 (election_mode_stage Popular) s = Inr 3 \<and>
     ballots_cast 0 (election_run election_env sample_ballots s) = 2"
  using nrc_year
  by (simp add: creation_defs organizer_code ballot_defs) (simp add: numeral_2_eq_2)

theorem election_correct_witness:
  "\<exists>s. do_create_election election_env 1 sample_election_plan Popular ''A-NRP0-'' ''b'' 1 0 1 (Some ScopeCountry)
       [citizen 1, citizen 2] (engine_genesis ()) = (Inr 0, s) \<and>
     ballots_cast 0 (election_run election_env sample_ballots s) = 2 \<and>
     sum_list (map snd (election_counts 0 [citizen 1, citizen 2] (election_run election_env sample_ballots s))) = 2"
proof -
  obtain s where s: "do_create_election election_env 1 sample_election_plan Popular ''A-NRP0-'' ''b'' 1 0 1 (Some ScopeCountry)
       [citizen 1, citizen 2] (engine_genesis ()) = (Inr 0, s)"
    and elig: "election_eligible_total 0 (election_mode_stage Popular) s = Inr 3"
    and n: "ballots_cast 0 (election_run election_env sample_ballots s) = 2" using sample_election_held by blast
  have fresh: "fresh_election (next_proposal_id (ids (engine_genesis ()))) (engine_genesis ())"
    by (simp add: fresh_election_def engine_genesis_def)
  have "sum_list (map snd (election_counts 0 [citizen 1, citizen 2] (election_run election_env sample_ballots s))) =
      ballots_cast 0 (election_run election_env sample_ballots s)"
    using election_correct [OF election_env_keeps fresh s elig _ refl] by simp
  with s n show ?thesis by auto
qed

end
