(* ===== verification/Pow_Difficulty.thy ===== *)
theory Pow_Difficulty
  imports Runtime_Config
begin

text \<open>
  The proof-of-work difficulty (\<^verbatim>\<open>misc/pow-difficulty/src/lib.rs\<close>, constants of
  \<^verbatim>\<open>primitives/src/pow_const.rs\<close>): parameters staged by runtime upgrades and activated in a later
  block, the adjustment window, the retargeting rule at its end and the rejection of empty blocks.
  A panicking hook (which makes the block invalid) is the value \<open>None\<close>.
\<close>

section \<open>Parameters\<close>

definition POW_INITIAL_DIFFICULTY :: u64 where "POW_INITIAL_DIFFICULTY = 100"
definition POW_PARAMS_VERSION :: u32 where "POW_PARAMS_VERSION = 1"
definition POW_ALGORITHM_VERSION :: u16 where "POW_ALGORITHM_VERSION = 1"
definition DIFFICULTY_ADJUSTMENT_INTERVAL :: u32 where "DIFFICULTY_ADJUSTMENT_INTERVAL = 600"
definition DIFFICULTY_MAX_ADJUST_FACTOR :: u64 where "DIFFICULTY_MAX_ADJUST_FACTOR = 4"
definition DIFFICULTY_MIN_ADJUST_FACTOR :: u64 where "DIFFICULTY_MIN_ADJUST_FACTOR = 4"
definition POW_TARGET_BLOCK_TIME_MS :: u64 where "POW_TARGET_BLOCK_TIME_MS = 360000"

lemmas pow_const_defs = POW_INITIAL_DIFFICULTY_def POW_PARAMS_VERSION_def POW_ALGORITHM_VERSION_def
  DIFFICULTY_ADJUSTMENT_INTERVAL_def DIFFICULTY_MAX_ADJUST_FACTOR_def DIFFICULTY_MIN_ADJUST_FACTOR_def
  POW_TARGET_BLOCK_TIME_MS_def

record pow_difficulty_params =
  params_version :: u32
  algorithm_version :: u16
  target_block_time_ms :: u64
  adjustment_interval :: u32
  max_adjust_up_factor :: u64
  max_adjust_down_divisor :: u64

definition pow_genesis_default :: pow_difficulty_params where
  "pow_genesis_default =
     \<lparr>params_version = POW_PARAMS_VERSION, algorithm_version = POW_ALGORITHM_VERSION,
      target_block_time_ms = POW_TARGET_BLOCK_TIME_MS, adjustment_interval = DIFFICULTY_ADJUSTMENT_INTERVAL,
      max_adjust_up_factor = DIFFICULTY_MAX_ADJUST_FACTOR, max_adjust_down_divisor = DIFFICULTY_MIN_ADJUST_FACTOR\<rparr>"

datatype pow_error =
    ParamsVersionZero | AlgorithmVersionZero | TargetBlockTimeZero | AdjustmentIntervalZero
  | AdjustFactorZero | TargetWindowOverflow
  | InvalidPowParams | UnsupportedAlgorithm | PendingExists | VersionChanged | VersionNotNext

definition target_window_ms :: "pow_difficulty_params \<Rightarrow> u64 option" where
  "target_window_ms p = checked_mul 64 (target_block_time_ms p) (adjustment_interval p)"

definition validate_pow_params :: "pow_difficulty_params \<Rightarrow> pow_error + unit" where
  "validate_pow_params p =
     (if params_version p = 0 then Inl ParamsVersionZero
      else if algorithm_version p = 0 then Inl AlgorithmVersionZero
      else if target_block_time_ms p = 0 then Inl TargetBlockTimeZero
      else if adjustment_interval p = 0 then Inl AdjustmentIntervalZero
      else if max_adjust_up_factor p = 0 \<or> max_adjust_down_divisor p = 0 then Inl AdjustFactorZero
      else if target_window_ms p = None then Inl TargetWindowOverflow
      else Inr ())"

definition same_values_except_version :: "pow_difficulty_params \<Rightarrow> pow_difficulty_params \<Rightarrow> bool" where
  "same_values_except_version a b \<longleftrightarrow>
     algorithm_version a = algorithm_version b \<and> target_block_time_ms a = target_block_time_ms b \<and>
     adjustment_interval a = adjustment_interval b \<and> max_adjust_up_factor a = max_adjust_up_factor b \<and>
     max_adjust_down_divisor a = max_adjust_down_divisor b"

section \<open>State\<close>

record pending_pow_params =
  pending_params :: pow_difficulty_params
  activate_at :: u32

record difficulty_audit =
  da_block :: u32
  da_params_version :: u32
  da_old_difficulty :: u64
  da_new_difficulty :: u64
  da_window_start_block :: u32
  da_actual_window_ms :: u64

datatype pow_event =
    DifficultyAdjusted u32 u64 u64 u64 u64
  | PowParamsUnhealthy u32
  | PowWindowReset u32

record pow_storage =
  CurrentDifficulty :: u64
  WindowStartMs :: "u64 option"
  WindowStartBlock :: "u32 option"
  ActiveParams :: pow_difficulty_params
  PendingParams :: "pending_pow_params option"
  LastAdjustment :: "difficulty_audit option"
  pow_events :: "pow_event list"

definition pow_deposit :: "pow_event \<Rightarrow> pow_storage \<Rightarrow> pow_storage" where
  "pow_deposit e s = s\<lparr>pow_events := pow_events s @ [e]\<rparr>"

text \<open>The genesis block asserts that its parameters are valid and its difficulty is positive.\<close>

definition pow_genesis :: "pow_difficulty_params \<Rightarrow> u64 \<Rightarrow> pow_storage option" where
  "pow_genesis p d =
     (if validate_pow_params p = Inr () \<and> 0 < d
      then Some \<lparr>CurrentDifficulty = d, WindowStartMs = None, WindowStartBlock = None, ActiveParams = p,
             PendingParams = None, LastAdjustment = None, pow_events = []\<rparr>
      else None)"

section \<open>Hooks\<close>

record pow_weights =
  w_activate_params :: weight
  w_adjustment :: weight
  w_start_window :: weight
  w_idle :: weight

definition pow_idle_weight :: "pow_weights \<Rightarrow> u32 \<Rightarrow> pow_storage \<Rightarrow> weight" where
  "pow_idle_weight ws n s =
     (if (case WindowStartBlock s of None \<Rightarrow> False
          | Some start \<Rightarrow> sat_sub n start = adjustment_interval (ActiveParams s)) then w_adjustment ws
      else if WindowStartMs s = None then w_start_window ws else w_idle ws)"

definition pow_on_initialize :: "pow_weights \<Rightarrow> u32 \<Rightarrow> pow_storage \<Rightarrow> weight \<times> pow_storage" where
  "pow_on_initialize ws n s =
     (if n = 0 then (weight_zero, s)
      else case PendingParams s of
        Some pending \<Rightarrow>
          if activate_at pending \<le> n then
            (w_activate_params ws,
             s\<lparr>ActiveParams := pending_params pending, PendingParams := None,
               WindowStartBlock := None, WindowStartMs := None\<rparr>)
          else (pow_idle_weight ws n s, s)
      | None \<Rightarrow> (pow_idle_weight ws n s, s))"

definition clamp :: "nat \<Rightarrow> nat \<Rightarrow> nat \<Rightarrow> nat option" where
  "clamp x lo hi = (if hi < lo then None else Some (if x < lo then lo else if hi < x then hi else x))"

text \<open>The difficulty after a window of \<open>actual\<close> milliseconds.\<close>

definition retarget :: "pow_difficulty_params \<Rightarrow> u64 \<Rightarrow> u64 \<Rightarrow> u64 \<Rightarrow> u64 option" where
  "retarget p window old actual =
     (let calc = max old 1;
          new_diff = sat_into 64 (sat_mul 128 calc window div actual);
          max_diff = sat_mul 64 calc (max_adjust_up_factor p);
          min_diff = max (calc div max_adjust_down_divisor p) 1
      in clamp new_diff min_diff max_diff)"

definition start_window :: "u32 \<Rightarrow> u64 \<Rightarrow> pow_storage \<Rightarrow> pow_storage" where
  "start_window n now s = s\<lparr>WindowStartMs := Some now, WindowStartBlock := Some n\<rparr>"

definition adjust_difficulty :: "u32 \<Rightarrow> u64 \<Rightarrow> u64 \<Rightarrow> pow_storage \<Rightarrow> pow_storage option" where
  "adjust_difficulty n now window s =
     (case WindowStartMs s of
        None \<Rightarrow> Some (start_window n now s)
      | Some start_ms \<Rightarrow>
          let p = ActiveParams s; actual = max (sat_sub now start_ms) 1; old = CurrentDifficulty s in
          map_option (\<lambda>new.
            start_window n now (pow_deposit (DifficultyAdjusted n old new actual window)
              (s\<lparr>CurrentDifficulty := new,
                 LastAdjustment := Some \<lparr>da_block = n, da_params_version = params_version p, da_old_difficulty = old,
                   da_new_difficulty = new,
                   da_window_start_block = (case WindowStartBlock s of None \<Rightarrow> n | Some b \<Rightarrow> b),
                   da_actual_window_ms = actual\<rparr>\<rparr>)))
            (retarget p window old actual))"

definition pow_on_finalize :: "u32 \<Rightarrow> u64 \<Rightarrow> u32 \<Rightarrow> pow_storage \<Rightarrow> pow_storage option" where
  "pow_on_finalize n now extrinsic_count s =
     (if now = 0 then Some s
      else if extrinsic_count \<le> 1 then None
      else
        let p = ActiveParams s;
            healthy = (validate_pow_params p = Inr () \<and> algorithm_version p = POW_ALGORITHM_VERSION) in
        case (if healthy then target_window_ms p else None) of
          None \<Rightarrow> Some (pow_deposit (PowParamsUnhealthy n) s)
        | Some window \<Rightarrow>
            let elapsed = map_option (\<lambda>start. sat_sub n start) (WindowStartBlock s) in
            if (case elapsed of None \<Rightarrow> False | Some e \<Rightarrow> adjustment_interval p < e)
            then Some (start_window n now (pow_deposit (PowWindowReset n) s))
            else if elapsed = Some (adjustment_interval p) then adjust_difficulty n now window s
            else if WindowStartMs s = None \<or> WindowStartBlock s = None then Some (start_window n now s)
            else Some s)"

definition stage_params ::
  "pow_difficulty_params \<Rightarrow> u32 \<Rightarrow> pow_storage \<Rightarrow> (pow_error, unit, pow_storage) outcome" where
  "stage_params new at s =
     ensure (validate_pow_params new = Inr ()) InvalidPowParams s (\<lambda>s.
     ensure (algorithm_version new = POW_ALGORITHM_VERSION) UnsupportedAlgorithm s (\<lambda>s.
     ensure (PendingParams s = None) PendingExists s (\<lambda>s.
       let active = ActiveParams s in
       if same_values_except_version active new then
         ensure (params_version new = params_version active) VersionChanged s (\<lambda>s. (Inr (), s))
       else
         ensure (params_version new = sat_add 32 (params_version active) 1) VersionNotNext s (\<lambda>s.
           (Inr (), s\<lparr>PendingParams := Some \<lparr>pending_params = new, activate_at = at\<rparr>\<rparr>)))))"

section \<open>The retargeting rule\<close>

lemma valid_params:
  assumes "validate_pow_params p = Inr ()"
  shows "0 < adjustment_interval p" "0 < target_block_time_ms p" "0 < max_adjust_up_factor p"
    "0 < max_adjust_down_divisor p" "target_window_ms p = Some (target_block_time_ms p * adjustment_interval p)"
    "target_block_time_ms p * adjustment_interval p < 2 ^ 64"
  using assms by (auto simp: validate_pow_params_def target_window_ms_def split: if_splits)

lemma retarget_ok:
  assumes "validate_pow_params p = Inr ()" "target_window_ms p = Some window" "old < 2 ^ 64" "0 < actual"
  shows "\<exists>new. retarget p window old actual = Some new \<and> 0 < new \<and> new < 2 ^ 64 \<and>
     max old 1 div max_adjust_down_divisor p \<le> new \<and> new \<le> max old 1 * max_adjust_up_factor p \<and>
     (let exact = max old 1 * window div actual in
      max 1 (max old 1 div max_adjust_down_divisor p) \<le> exact \<and> exact \<le> max old 1 * max_adjust_up_factor p \<and> exact < 2 ^ 64 \<longrightarrow>
      new = exact)"
proof -
  let ?c = "max old 1" and ?u = "max_adjust_up_factor p" and ?d = "max_adjust_down_divisor p"
  note v = valid_params [OF assms(1)]
  have c: "0 < ?c" "?c < 2 ^ 64" using assms(3) by auto
  have w: "window < 2 ^ 64" using v(5,6) assms(2) by simp
  have "?c * window < 2 ^ 64 * 2 ^ 64" using mult_strict_mono [OF c(2) w] by simp
  then have prod: "sat_mul 128 ?c window = ?c * window" by (intro sat_mul_exact) (simp add: power_add [symmetric])
  have lo: "max (?c div ?d) 1 \<le> ?c" using c(1) by simp
  have hi: "?c \<le> sat_mul 64 ?c ?u" "sat_mul 64 ?c ?u \<le> ?c * ?u"
    using v(3) c(2) mult_le_mono2 [of 1 ?u ?c] by (simp_all add: sat_mul_def le_max_of_iff)
  let ?x = "sat_into 64 (?c * window div actual)" and ?lo = "max (?c div ?d) 1" and ?hi = "sat_mul 64 ?c ?u"
  obtain new where n: "new = (if ?x < ?lo then ?lo else if ?hi < ?x then ?hi else ?x)" by blast
  have "\<not> ?hi < ?lo" using lo hi(1) by linarith
  then have new: "retarget p window old actual = Some new"
    unfolding retarget_def Let_def prod clamp_def n by (simp only: if_False)
  have b: "?lo \<le> new" "new \<le> ?hi" using lo hi(1) unfolding n by (simp_all del: max.bounded_iff)
  have "new < 2 ^ 64" using b(2) sat_mul_fits [of 64 ?c ?u] by linarith
  moreover have "new = ?c * window div actual"
    if "max 1 (?c div ?d) \<le> ?c * window div actual" "?c * window div actual \<le> ?c * ?u" "?c * window div actual < 2 ^ 64"
  proof -
    have "?c * window div actual \<le> sat_mul 64 ?c ?u" using that(2,3) by (simp add: sat_mul_def le_max_of_iff)
    moreover have "?x = ?c * window div actual" using that(3) by (rule sat_into_exact)
    ultimately show ?thesis using that(1) unfolding n by (auto simp: not_less)
  qed
  moreover have "0 < new" "?c div ?d \<le> new" "new \<le> ?c * ?u" using b hi(2) by simp_all
  ultimately show ?thesis using new unfolding Let_def by blast
qed

text \<open>
  Retargeting is bounded and exact. With valid parameters and a non-empty window, a
  retarget never fails: the new difficulty is positive, fits 64 bits, and lies between the old one
  divided and multiplied by the configured factors (an old value of zero counts as one; the upper
  end saturates). Where \<open>old * target / actual\<close> is inside these limits and fits 64 bits it is the
  result: the products of 64-bit values are computed in 128 bits and never wrap.
\<close>

theorem retarget_bounds:
  assumes "validate_pow_params p = Inr ()" "target_window_ms p = Some window" "old < 2 ^ 64" "0 < actual"
  shows "\<exists>new. retarget p window old actual = Some new \<and> 0 < new \<and> new < 2 ^ 64 \<and>
     max old 1 div max_adjust_down_divisor p \<le> new \<and> new \<le> max old 1 * max_adjust_up_factor p \<and>
     (let exact = max old 1 * window div actual in
      max 1 (max old 1 div max_adjust_down_divisor p) \<le> exact \<and> exact \<le> max old 1 * max_adjust_up_factor p \<and> exact < 2 ^ 64 \<longrightarrow>
      new = exact)"
  by (rule retarget_ok [OF assms])

theorem retarget_bounds_witness:
  "retarget pow_genesis_default 216000000 100 100000000 = Some 216 \<and>
   (\<exists>new. retarget pow_genesis_default 216000000 100 1 = Some new \<and> 0 < new \<and> new \<le> 400)"
proof -
  have v: "validate_pow_params pow_genesis_default = Inr ()" "target_window_ms pow_genesis_default = Some 216000000"
    by (simp_all add: validate_pow_params_def pow_genesis_default_def target_window_ms_def pow_const_defs checked_mul_def)
  from retarget_bounds [OF v, of 100 100000000] retarget_bounds [OF v, of 100 1] show ?thesis
    by (auto simp: pow_genesis_default_def pow_const_defs Let_def)
qed

section \<open>Runs of blocks\<close>

record pow_block =
  pb_timestamp :: u64
  pb_extrinsic_count :: u32
  pb_stagings :: "(pow_difficulty_params \<times> u32) list"

definition pow_import :: "pow_weights \<Rightarrow> u32 \<Rightarrow> pow_block \<Rightarrow> pow_storage \<Rightarrow> pow_storage option" where
  "pow_import ws n b s =
     pow_on_finalize n (pb_timestamp b) (pb_extrinsic_count b)
       (fold (\<lambda>(p, at) s. snd (stage_params p at s)) (pb_stagings b) (snd (pow_on_initialize ws n s)))"

text \<open>Blocks \<open>n + 1, n + 2, \<dots>\<close>; an invalid block is no part of the chain.\<close>

fun pow_chain :: "pow_weights \<Rightarrow> u32 \<Rightarrow> pow_block list \<Rightarrow> pow_storage \<Rightarrow> pow_storage option" where
  "pow_chain ws n [] s = Some s"
| "pow_chain ws n (b # bs) s = Option.bind (pow_import ws (Suc n) b s) (pow_chain ws (Suc n) bs)"

definition good_params :: "pow_difficulty_params \<Rightarrow> bool" where
  "good_params p \<longleftrightarrow> validate_pow_params p = Inr () \<and> algorithm_version p = POW_ALGORITHM_VERSION"

definition adjusted_by_rule :: "pow_event \<Rightarrow> bool" where
  "adjusted_by_rule e \<longleftrightarrow> (\<exists>n old new actual window p. e = DifficultyAdjusted n old new actual window \<and> good_params p \<and>
     target_window_ms p = Some window \<and> 0 < old \<and> 0 < actual \<and> retarget p window old actual = Some new)"

definition pow_core :: "pow_storage \<Rightarrow> bool" where
  "pow_core s \<longleftrightarrow> 0 < CurrentDifficulty s \<and> CurrentDifficulty s < 2 ^ 64 \<and> good_params (ActiveParams s) \<and>
     (\<forall>q. PendingParams s = Some q \<longrightarrow> good_params (pending_params q) \<and>
        params_version (pending_params q) = sat_add 32 (params_version (ActiveParams s)) 1) \<and>
     (\<forall>e \<in> set (pow_events s). adjusted_by_rule e)"

text \<open>In the block \<open>n\<close> at most \<open>k\<close> blocks have passed since the window began.\<close>

definition window_within :: "u32 \<Rightarrow> u32 \<Rightarrow> pow_storage \<Rightarrow> bool" where
  "window_within k n s \<longleftrightarrow> (WindowStartMs s = None \<longleftrightarrow> WindowStartBlock s = None) \<and>
     (\<forall>b. WindowStartBlock s = Some b \<longrightarrow> b \<le> n \<and> n - b \<le> k)"

definition pow_inv :: "u32 \<Rightarrow> pow_storage \<Rightarrow> bool" where
  "pow_inv n s \<longleftrightarrow> pow_core s \<and> window_within (adjustment_interval (ActiveParams s) - 1) n s"

definition pow_mid :: "u32 \<Rightarrow> pow_storage \<Rightarrow> bool" where
  "pow_mid n s \<longleftrightarrow> pow_core s \<and> window_within (adjustment_interval (ActiveParams s)) n s"

lemma pow_mid_stages: "pow_mid n s \<Longrightarrow> pow_mid n (fold (\<lambda>(p, at) s. snd (stage_params p at s)) ps s)"
proof (induction ps arbitrary: s)
  case (Cons a ps)
  have "pow_mid n (snd (stage_params p at s))" for p at
    using Cons.prems by (auto simp: stage_params_def Let_def ensure_def pow_mid_def pow_core_def good_params_def window_within_def)
  with Cons.IH show ?case by (simp add: case_prod_beta)
qed simp

lemma pow_initialize_mid: "pow_inv n s \<Longrightarrow> pow_mid (Suc n) (snd (pow_on_initialize ws (Suc n) s))"
proof -
  assume i: "pow_inv n s"
  then have "0 < adjustment_interval (ActiveParams s)" using valid_params by (auto simp: pow_inv_def pow_core_def good_params_def)
  with i have "window_within (adjustment_interval (ActiveParams s)) (Suc n) s"
    by (auto simp: pow_inv_def window_within_def le_SucI)
  with i show ?thesis
    by (auto simp: pow_on_initialize_def pow_inv_def pow_mid_def pow_core_def window_within_def split: option.splits)
qed

lemma started_window: "pow_core s \<Longrightarrow> pow_inv n (start_window n now s)"
  by (simp add: pow_inv_def pow_core_def window_within_def start_window_def)

lemma pow_finalize_inv:
  assumes "pow_mid n s" "0 < now" "1 < cnt"
  shows "\<exists>s'. pow_on_finalize n now cnt s = Some s' \<and> pow_inv n s'"
proof -
  let ?p = "ActiveParams s"
  from assms(1) have g: "good_params ?p" and c: "pow_core s" and w: "window_within (adjustment_interval ?p) n s"
    by (auto simp: pow_mid_def pow_core_def)
  then obtain window where win: "target_window_ms ?p = Some window" using valid_params(5) by (auto simp: good_params_def)
  have "\<exists>s'. adjust_difficulty n now window s = Some s' \<and> pow_inv n s'"
  proof (cases "WindowStartMs s")
    case None
    with c started_window show ?thesis by (auto simp: adjust_difficulty_def)
  next
    case (Some ms)
    let ?actual = "max (sat_sub now ms) 1" and ?old = "CurrentDifficulty s"
    have "validate_pow_params ?p = Inr ()" "?old < 2 ^ 64" "0 < ?actual" using g c by (simp_all add: good_params_def pow_core_def)
    from retarget_ok [OF this(1) win this(2,3)] obtain new
      where new: "retarget ?p window ?old ?actual = Some new" "0 < new" "new < 2 ^ 64" by blast
    have "adjusted_by_rule (DifficultyAdjusted n ?old new ?actual window)"
      using new(1) g win c by (auto simp: adjusted_by_rule_def pow_core_def)
    with c new have "pow_core (pow_deposit (DifficultyAdjusted n ?old new ?actual window) (s\<lparr>CurrentDifficulty := new, LastAdjustment := a\<rparr>))" for a
      by (simp add: pow_core_def pow_deposit_def)
    with Some new(1) started_window show ?thesis by (auto simp: adjust_difficulty_def Let_def)
  qed
  moreover have "pow_inv n s" if "sat_sub n b \<noteq> adjustment_interval ?p" "WindowStartBlock s = Some b" for b
    using c w that by (auto simp: pow_inv_def window_within_def sat_sub_def)
  moreover have "pow_on_finalize n now cnt s =
     (case WindowStartBlock s of None \<Rightarrow> Some (start_window n now s)
      | Some b \<Rightarrow> if sat_sub n b = adjustment_interval ?p then adjust_difficulty n now window s else Some s)"
    using assms(2,3) g win w by (cases "WindowStartBlock s") (auto simp: pow_on_finalize_def good_params_def Let_def window_within_def sat_sub_def)
  ultimately show ?thesis using started_window [OF c] by (cases "WindowStartBlock s") auto
qed

lemma pow_import_inv:
  assumes "pow_inv n s" "0 < pb_timestamp b" "pow_import ws (Suc n) b s = Some s'"
  shows "pow_inv (Suc n) s'"
proof -
  let ?t = "fold (\<lambda>(p, at) s. snd (stage_params p at s)) (pb_stagings b) (snd (pow_on_initialize ws (Suc n) s))"
  have "pow_mid (Suc n) ?t" by (intro pow_mid_stages pow_initialize_mid assms(1))
  moreover have "1 < pb_extrinsic_count b"
    using assms(2,3) by (auto simp: pow_import_def pow_on_finalize_def split: if_splits)
  ultimately obtain u where "pow_import ws (Suc n) b s = Some u" "pow_inv (Suc n) u"
    using pow_finalize_inv [of "Suc n" ?t "pb_timestamp b" "pb_extrinsic_count b"] assms(2) by (auto simp: pow_import_def)
  with assms(3) show ?thesis by simp
qed

lemma pow_chain_inv:
  "pow_inv n s \<Longrightarrow> \<forall>b \<in> set bs. 0 < pb_timestamp b \<Longrightarrow> pow_chain ws n bs s = Some s' \<Longrightarrow> pow_inv (n + length bs) s'"
proof (induction bs arbitrary: n s)
  case (Cons b bs)
  then obtain t where "pow_import ws (Suc n) b s = Some t" "pow_chain ws (Suc n) bs t = Some s'"
    by (auto simp: bind_eq_Some_conv)
  with Cons.IH [of "Suc n" t] pow_import_inv [of n s b ws t] Cons.prems show ?case by simp
qed simp

text \<open>
  C13. The difficulty is always sound. On every chain of valid blocks from a genesis with the
  supported algorithm, with any parameters staged by runtime upgrades in any block: the difficulty
  is positive and fits 64 bits, the active and the pending parameters are valid and supported, the
  pending version is the next one, a window never runs over its interval, and every event is an
  adjustment by the retargeting rule; so the defences against damaged state (unhealthy parameters,
  window reset) are never triggered. A block with a timestamp is valid exactly when it contains an
  extrinsic besides the timestamp: no staging can make the hooks reject a block.
\<close>

theorem difficulty_always_sound:
  assumes "pow_genesis p d = Some s0" "algorithm_version p = POW_ALGORITHM_VERSION" "d < 2 ^ 64"
    and "pow_chain ws 0 bs s0 = Some s" "\<forall>b \<in> set bs. 0 < pb_timestamp b" "0 < pb_timestamp b"
  shows "pow_inv (length bs) s \<and> (pow_import ws (Suc (length bs)) b s = None \<longleftrightarrow> pb_extrinsic_count b \<le> 1)"
proof -
  have "pow_inv 0 s0"
    using assms(1,2,3) by (auto simp: pow_genesis_def pow_inv_def pow_core_def good_params_def window_within_def split: if_splits)
  from pow_chain_inv [OF this assms(5,4)] have inv: "pow_inv (length bs) s" by simp
  let ?t = "fold (\<lambda>(p, at) s. snd (stage_params p at s)) (pb_stagings b) (snd (pow_on_initialize ws (Suc (length bs)) s))"
  have "pow_mid (Suc (length bs)) ?t" by (intro pow_mid_stages pow_initialize_mid inv)
  note fin = pow_finalize_inv [OF this assms(6), of "pb_extrinsic_count b"]
  show ?thesis
  proof (cases "pb_extrinsic_count b \<le> 1")
    case True
    then have "pow_import ws (Suc (length bs)) b s = None" using assms(6) by (simp add: pow_import_def pow_on_finalize_def)
    with True inv show ?thesis by blast
  next
    case False
    with fin obtain u where "pow_import ws (Suc (length bs)) b s = Some u" by (auto simp: pow_import_def)
    with False inv show ?thesis by simp
  qed
qed

definition free_weights :: pow_weights where
  "free_weights = \<lparr>w_activate_params = weight_zero, w_adjustment = weight_zero, w_start_window = weight_zero, w_idle = weight_zero\<rparr>"

definition sample_pow_block :: pow_block where
  "sample_pow_block = \<lparr>pb_timestamp = 1000, pb_extrinsic_count = 2, pb_stagings = []\<rparr>"

theorem difficulty_always_sound_witness:
  "\<exists>s0 s. pow_genesis pow_genesis_default POW_INITIAL_DIFFICULTY = Some s0 \<and>
     pow_chain free_weights 0 [sample_pow_block] s0 = Some s \<and> pow_inv 1 s"
proof -
  have v: "validate_pow_params pow_genesis_default = Inr ()" "target_window_ms pow_genesis_default = Some 216000000"
    by (simp_all add: validate_pow_params_def pow_genesis_default_def target_window_ms_def pow_const_defs checked_mul_def)
  have g0: "algorithm_version pow_genesis_default = POW_ALGORITHM_VERSION" by (simp add: pow_genesis_default_def)
  from v obtain s0 where g: "pow_genesis pow_genesis_default POW_INITIAL_DIFFICULTY = Some s0"
    and s0: "s0 = \<lparr>CurrentDifficulty = 100, WindowStartMs = None, WindowStartBlock = None, ActiveParams = pow_genesis_default,
             PendingParams = None, LastAdjustment = None, pow_events = []\<rparr>"
    by (simp add: pow_genesis_def pow_const_defs)
  obtain s where s: "pow_chain free_weights 0 [sample_pow_block] s0 = Some s"
    using v g0 by (simp add: s0 pow_import_def sample_pow_block_def pow_on_initialize_def pow_on_finalize_def start_window_def Let_def)
  have "pow_inv (length [sample_pow_block]) s"
    using difficulty_always_sound [OF g _ _ s, of sample_pow_block]
    by (simp add: sample_pow_block_def pow_genesis_default_def POW_INITIAL_DIFFICULTY_def)
  with g s show ?thesis by auto
qed

end
