(* ===== verification/Currency.thy ===== *)
theory Currency
  imports Voting_Types
begin

text \<open>
  The interface of the balances module, which the runtime takes from the framework: the
  operations the modelled pallets call, on a balance storage \<open>'b\<close> left open, and the documented
  behaviour they rely on, as the predicate \<open>lawful_currency\<close>. The error of a failed operation is not
  used by any caller, so success is a truth value.
\<close>

record 'b currency =
  free_balance :: "account \<Rightarrow> 'b \<Rightarrow> u128"
  transfer_keep_alive :: "account \<Rightarrow> account \<Rightarrow> u128 \<Rightarrow> 'b \<Rightarrow> bool \<times> 'b"
  withdraw_keep_alive :: "account \<Rightarrow> u128 \<Rightarrow> 'b \<Rightarrow> bool \<times> 'b"
  can_withdraw :: "account \<Rightarrow> u128 \<Rightarrow> 'b \<Rightarrow> bool"
  resolve_credit :: "account \<Rightarrow> u128 \<Rightarrow> 'b \<Rightarrow> bool \<times> 'b"
  deposit_creating :: "account \<Rightarrow> u128 \<Rightarrow> 'b \<Rightarrow> u128 \<times> 'b"

text \<open>A successful operation moves exactly its amount; a failed one moves nothing.\<close>

definition moves_out :: "'b currency \<Rightarrow> account \<Rightarrow> u128 \<Rightarrow> 'b \<Rightarrow> bool \<times> 'b \<Rightarrow> bool" where
  "moves_out c a n b r \<longleftrightarrow>
     (fst r \<longrightarrow> n \<le> free_balance c a b \<and> (\<forall>x. free_balance c x (snd r) = (if x = a then free_balance c a b - n else free_balance c x b))) \<and>
     (\<not> fst r \<longrightarrow> (\<forall>x. free_balance c x (snd r) = free_balance c x b))"

definition moves_in :: "'b currency \<Rightarrow> account \<Rightarrow> u128 \<Rightarrow> 'b \<Rightarrow> bool \<times> 'b \<Rightarrow> bool" where
  "moves_in c a n b r \<longleftrightarrow>
     (\<forall>x. free_balance c x (snd r) = free_balance c x b + (if fst r \<and> x = a then n else 0))"

definition moves_over :: "'b currency \<Rightarrow> account \<Rightarrow> account \<Rightarrow> u128 \<Rightarrow> 'b \<Rightarrow> bool \<times> 'b \<Rightarrow> bool" where
  "moves_over c a d n b r \<longleftrightarrow>
     (fst r \<and> a \<noteq> d \<longrightarrow> n \<le> free_balance c a b \<and> (\<forall>x. free_balance c x (snd r) =
        (if x = a then free_balance c a b - n else if x = d then free_balance c d b + n else free_balance c x b))) \<and>
     (\<not> fst r \<or> a = d \<longrightarrow> (\<forall>x. free_balance c x (snd r) = free_balance c x b))"

definition lawful_currency :: "'b currency \<Rightarrow> bool" where
  "lawful_currency c \<longleftrightarrow>
     (\<forall>a b. free_balance c a b < 2 ^ 128) \<and>
     (\<forall>a d n b. moves_over c a d n b (transfer_keep_alive c a d n b)) \<and>
     (\<forall>a n b. moves_out c a n b (withdraw_keep_alive c a n b)) \<and>
     (\<forall>a n b. moves_in c a n b (resolve_credit c a n b)) \<and>
     (\<forall>a n b. fst (deposit_creating c a n b) \<le> n \<and>
        moves_in c a (fst (deposit_creating c a n b)) b (True, snd (deposit_creating c a n b)))"

lemma lawful_fits: "lawful_currency c \<Longrightarrow> free_balance c a b < 2 ^ 128"
  by (simp add: lawful_currency_def)

lemma lawful_withdraw:
  assumes "lawful_currency c" "withdraw_keep_alive c a n b = (True, b')"
  shows "n \<le> free_balance c a b"
    "free_balance c x b' = (if x = a then free_balance c a b - n else free_balance c x b)"
proof -
  have "moves_out c a n b (withdraw_keep_alive c a n b)" using assms(1) by (simp add: lawful_currency_def)
  with assms(2) show "n \<le> free_balance c a b" "free_balance c x b' = (if x = a then free_balance c a b - n else free_balance c x b)"
    by (simp_all add: moves_out_def)
qed

lemma lawful_withdraw_failed:
  assumes "lawful_currency c" "withdraw_keep_alive c a n b = (False, b')"
  shows "free_balance c x b' = free_balance c x b"
proof -
  have "moves_out c a n b (withdraw_keep_alive c a n b)" using assms(1) by (simp add: lawful_currency_def)
  with assms(2) show ?thesis by (simp add: moves_out_def)
qed

lemma lawful_resolve:
  assumes "lawful_currency c" "resolve_credit c a n b = (ok, b')"
  shows "free_balance c x b' = free_balance c x b + (if ok \<and> x = a then n else 0)"
proof -
  have "moves_in c a n b (resolve_credit c a n b)" using assms(1) by (simp add: lawful_currency_def)
  with assms(2) show ?thesis by (simp add: moves_in_def)
qed

lemma lawful_transfer:
  assumes "lawful_currency c" "transfer_keep_alive c a d n b = (True, b')" "a \<noteq> d"
  shows "n \<le> free_balance c a b"
    "free_balance c x b' = (if x = a then free_balance c a b - n else if x = d then free_balance c d b + n else free_balance c x b)"
proof -
  have "moves_over c a d n b (transfer_keep_alive c a d n b)" using assms(1) by (simp add: lawful_currency_def)
  with assms(2,3) show "n \<le> free_balance c a b"
    "free_balance c x b' = (if x = a then free_balance c a b - n else if x = d then free_balance c d b + n else free_balance c x b)"
    by (simp_all add: moves_over_def)
qed

lemma lawful_deposit:
  assumes "lawful_currency c" "deposit_creating c a n b = (m, b')"
  shows "m \<le> n" "free_balance c x b' = free_balance c x b + (if x = a then m else 0)"
proof -
  have "fst (deposit_creating c a n b) \<le> n \<and>
      moves_in c a (fst (deposit_creating c a n b)) b (True, snd (deposit_creating c a n b))"
    using assms(1) by (simp add: lawful_currency_def)
  with assms(2) show "m \<le> n" "free_balance c x b' = free_balance c x b + (if x = a then m else 0)"
    by (simp_all add: moves_in_def)
qed

section \<open>A currency that keeps the contract\<close>

text \<open>Balances as a map with a smallest balance, 111 in the chain: below it an account cannot exist.\<close>

definition put :: "account \<Rightarrow> u128 \<Rightarrow> (account \<Rightarrow> u128) \<Rightarrow> account \<Rightarrow> u128" where
  "put a n b = b(a := n mod 2 ^ 128)"

text \<open>Accounts of a storage that could hold more than 128 bits read as empty, so that every storage is legal.\<close>

definition plain_balance :: "account \<Rightarrow> (account \<Rightarrow> u128) \<Rightarrow> u128" where
  "plain_balance a b = b a mod 2 ^ 128"

definition plain_currency :: "(account \<Rightarrow> u128) currency" where
  "plain_currency = \<lparr>
     free_balance = plain_balance,
     transfer_keep_alive = (\<lambda>a d n b.
       if a = d then (True, b)
       else if n + 111 \<le> plain_balance a b \<and> 111 \<le> plain_balance d b + n \<and> plain_balance d b + n < 2 ^ 128
       then (True, put d (plain_balance d b + n) (put a (plain_balance a b - n) b)) else (False, b)),
     withdraw_keep_alive = (\<lambda>a n b.
       if n + 111 \<le> plain_balance a b then (True, put a (plain_balance a b - n) b) else (False, b)),
     can_withdraw = (\<lambda>a n b. n + 111 \<le> plain_balance a b),
     resolve_credit = (\<lambda>a n b.
       if 111 \<le> plain_balance a b + n \<and> plain_balance a b + n < 2 ^ 128
       then (True, put a (plain_balance a b + n) b) else (False, b)),
     deposit_creating = (\<lambda>a n b.
       if 111 \<le> plain_balance a b + n \<and> plain_balance a b + n < 2 ^ 128
       then (n, put a (plain_balance a b + n) b) else (0, b))\<rparr>"

lemma plain_small: "plain_balance a b < 2 ^ 128"
  unfolding plain_balance_def by (rule mod_less_divisor) simp

lemma plain_put: "n < 2 ^ 128 \<Longrightarrow> plain_balance x (put a n b) = (if x = a then n else plain_balance x b)"
  unfolding plain_balance_def put_def by (cases "x = a") (simp_all del: power_numeral)

lemma plain_put_less: "plain_balance x (put a (plain_balance a b - n) b) = (if x = a then plain_balance a b - n else plain_balance x b)"
  by (rule plain_put) (rule le_less_trans [OF diff_le_self plain_small])

lemma plain_transfer: "moves_over plain_currency a d n b (transfer_keep_alive plain_currency a d n b)"
proof (cases "a \<noteq> d \<and> n + 111 \<le> plain_balance a b \<and> 111 \<le> plain_balance d b + n \<and> plain_balance d b + n < 2 ^ 128")
  case True
  then have s: "plain_balance d b + n < 2 ^ 128" by blast
  from True have "transfer_keep_alive plain_currency a d n b =
      (True, put d (plain_balance d b + n) (put a (plain_balance a b - n) b))"
    unfolding plain_currency_def currency.select_convs by (simp only: if_True if_False simp_thms)
  with True show ?thesis
    unfolding moves_over_def by (simp only: plain_currency_def currency.select_convs plain_put [OF s] plain_put_less fst_conv snd_conv) auto
next
  case False
  then have "a = d \<or> \<not> fst (transfer_keep_alive plain_currency a d n b)" "snd (transfer_keep_alive plain_currency a d n b) = b"
    unfolding plain_currency_def currency.select_convs by (auto simp del: power_numeral)
  then show ?thesis unfolding moves_over_def by metis
qed

lemma plain_withdraw: "moves_out plain_currency a n b (withdraw_keep_alive plain_currency a n b)"
  by (simp add: moves_out_def plain_currency_def plain_put_less)

lemma plain_resolve: "moves_in plain_currency a n b (resolve_credit plain_currency a n b)"
  unfolding moves_in_def plain_currency_def currency.select_convs using plain_put [of "plain_balance a b + n"]
  by (simp del: power_numeral)

lemma plain_lawful: "lawful_currency plain_currency"
proof -
  have "fst (deposit_creating plain_currency a n b) \<le> n \<and>
      moves_in plain_currency a (fst (deposit_creating plain_currency a n b)) b (True, snd (deposit_creating plain_currency a n b))" for a n b
    unfolding moves_in_def plain_currency_def currency.select_convs using plain_put [of "plain_balance a b + n"]
    by (simp del: power_numeral)
  moreover have "free_balance plain_currency a b < 2 ^ 128" for a b
    unfolding plain_currency_def currency.select_convs by (rule plain_small)
  ultimately show ?thesis
    unfolding lawful_currency_def using plain_transfer plain_withdraw plain_resolve by blast
qed

end
