(* ===== verification/Fee_Policy.thy ===== *)
theory Fee_Policy
  imports Currency
begin

text \<open>
  Transaction fees: the fee schedule and the five fee routes (\<^verbatim>\<open>primitives/src/fee_policy.rs\<close>), and
  the pallet that charges and distributes fees and carries plain transfers
  (\<^verbatim>\<open>transaction/onchain/src/lib.rs\<close>).
\<close>

section \<open>The fee schedule\<close>

definition ONCHAIN_FEE_RATE :: u32 where "ONCHAIN_FEE_RATE = 1000000"
definition ONCHAIN_MIN_FEE :: u128 where "ONCHAIN_MIN_FEE = 10"
definition VOTE_FLAT_FEE :: u128 where "VOTE_FLAT_FEE = 100"
definition ONCHAIN_FEE_FULLNODE_PERCENT :: u32 where "ONCHAIN_FEE_FULLNODE_PERCENT = 80"
definition ONCHAIN_FEE_NRC_PERCENT :: u32 where "ONCHAIN_FEE_NRC_PERCENT = 10"
definition ONCHAIN_FEE_SAFETY_FUND_PERCENT :: u32 where "ONCHAIN_FEE_SAFETY_FUND_PERCENT = 10"
definition OFFCHAIN_MIN_FEE :: u128 where "OFFCHAIN_MIN_FEE = 1"
definition OFFCHAIN_FEE_RATE_MIN :: u32 where "OFFCHAIN_FEE_RATE_MIN = 100000"
definition OFFCHAIN_FEE_RATE_MAX :: u32 where "OFFCHAIN_FEE_RATE_MAX = 1000000"

lemmas fee_const_defs = ONCHAIN_FEE_RATE_def ONCHAIN_MIN_FEE_def VOTE_FLAT_FEE_def ONCHAIN_FEE_FULLNODE_PERCENT_def
  ONCHAIN_FEE_NRC_PERCENT_def ONCHAIN_FEE_SAFETY_FUND_PERCENT_def OFFCHAIN_MIN_FEE_def OFFCHAIN_FEE_RATE_MIN_def
  OFFCHAIN_FEE_RATE_MAX_def

text \<open>
  A rate is a number of billionths. The product of the remainder is not checked in the source:
  it wraps at 128 bits.
\<close>

definition mul_perbill_round :: "u128 \<Rightarrow> u32 \<Rightarrow> u128" where
  "mul_perbill_round amount parts =
     (let whole_component = sat_mul 128 (amount div 1000000000) parts;
          remainder_component = sat_add 128 (amount mod 1000000000 * parts mod 2 ^ 128) 500000000 div 1000000000
      in sat_add 128 whole_component remainder_component)"

definition calculate_onchain_fee :: "u128 \<Rightarrow> u128" where
  "calculate_onchain_fee amount = max (mul_perbill_round amount ONCHAIN_FEE_RATE) ONCHAIN_MIN_FEE"

datatype fee_route =
    FreeRoute
  | OnchainRoute u128 account
  | OffchainRoute u128
  | VoteRoute account
  | RejectRoute

datatype invalid_transaction = PaymentInvalid | CallInvalid

definition charge_details :: "fee_route \<Rightarrow> u128 \<Rightarrow> invalid_transaction + (account \<times> u128) option" where
  "charge_details route tip =
     (if tip \<noteq> 0 then Inl PaymentInvalid
      else case route of
        OnchainRoute amount payer \<Rightarrow> Inr (Some (payer, calculate_onchain_fee amount))
      | VoteRoute payer \<Rightarrow> Inr (Some (payer, VOTE_FLAT_FEE))
      | OffchainRoute _ \<Rightarrow> Inr None
      | FreeRoute \<Rightarrow> Inr None
      | RejectRoute \<Rightarrow> Inl CallInvalid)"

section \<open>State\<close>

datatype burn_reason =
    AuthorMissing | RewardAccountUnbound | FullnodeResolveFailed | NrcMissing | NrcResolveFailed | SafetyFundResolveFailed

datatype fee_event =
    FeePaid account u128
  | FeeShareBurnt burn_reason u128
  | TransferWithRemark account account u128 string

record 'b money =
  balances :: 'b
  fee_events :: "fee_event list"

text \<open>
  What the pallet reads elsewhere: the currency, the author of the block, the bindings of the block
  reward pallet, the two institutional accounts, and how the framework divides an amount in a ratio.
\<close>

record 'b fee_env =
  currency_of :: "'b currency"
  block_author :: "account option"
  reward_account_of :: "account \<Rightarrow> account option"
  nrc_account :: "account option"
  safety_fund_account :: account
  ration :: "u32 \<Rightarrow> u32 \<Rightarrow> u128 \<Rightarrow> u128 \<times> u128"

definition fee_deposit :: "fee_event \<Rightarrow> 'b money \<Rightarrow> 'b money" where
  "fee_deposit e m = m\<lparr>fee_events := fee_events m @ [e]\<rparr>"

section \<open>Distribution\<close>

definition emit_fee_share_burn :: "burn_reason \<Rightarrow> u128 \<Rightarrow> 'b money \<Rightarrow> 'b money" where
  "emit_fee_share_burn reason amount m =
     (if amount = 0 then m else fee_deposit (FeeShareBurnt reason amount) m)"

definition resolve_or_burn :: "'b fee_env \<Rightarrow> account \<Rightarrow> u128 \<Rightarrow> burn_reason \<Rightarrow> 'b money \<Rightarrow> 'b money" where
  "resolve_or_burn fe a amount reason m =
     (case resolve_credit (currency_of fe) a amount (balances m) of
        (True, b) \<Rightarrow> m\<lparr>balances := b\<rparr>
      | (False, b) \<Rightarrow> emit_fee_share_burn reason amount (m\<lparr>balances := b\<rparr>))"

definition pay_fullnode :: "'b fee_env \<Rightarrow> u128 \<Rightarrow> 'b money \<Rightarrow> 'b money" where
  "pay_fullnode fe amount m =
     (case block_author fe of
        None \<Rightarrow> emit_fee_share_burn AuthorMissing amount m
      | Some miner \<Rightarrow> (case reward_account_of fe miner of
          None \<Rightarrow> emit_fee_share_burn RewardAccountUnbound amount m
        | Some a \<Rightarrow> resolve_or_burn fe a amount FullnodeResolveFailed m))"

definition pay_nrc :: "'b fee_env \<Rightarrow> u128 \<Rightarrow> 'b money \<Rightarrow> 'b money" where
  "pay_nrc fe amount m =
     (case nrc_account fe of
        None \<Rightarrow> emit_fee_share_burn NrcMissing amount m
      | Some a \<Rightarrow> resolve_or_burn fe a amount NrcResolveFailed m)"

definition on_nonzero_unbalanced :: "'b fee_env \<Rightarrow> u128 \<Rightarrow> 'b money \<Rightarrow> 'b money" where
  "on_nonzero_unbalanced fe amount m =
     (let full = ONCHAIN_FEE_FULLNODE_PERCENT; nrc = ONCHAIN_FEE_NRC_PERCENT; safety = ONCHAIN_FEE_SAFETY_FUND_PERCENT;
          whole = sat_add 32 (sat_add 32 full nrc) safety in
      if whole \<noteq> 100 then m
      else
        let (fullnode_credit, remainder) = ration fe full (sat_sub whole full) amount;
            (nrc_credit, safety_credit) = ration fe nrc safety remainder in
        resolve_or_burn fe (safety_fund_account fe) safety_credit SafetyFundResolveFailed
          (pay_nrc fe nrc_credit (pay_fullnode fe fullnode_credit m)))"

definition on_unbalanced :: "'b fee_env \<Rightarrow> u128 \<Rightarrow> 'b money \<Rightarrow> 'b money" where
  "on_unbalanced fe amount m = (if amount = 0 then m else on_nonzero_unbalanced fe amount m)"

section \<open>Charging\<close>

definition withdraw_fee ::
  "'b fee_env \<Rightarrow> fee_route \<Rightarrow> u128 \<Rightarrow> 'b money \<Rightarrow> (invalid_transaction, u128 option, 'b money) outcome" where
  "withdraw_fee fe route tip m =
     (case charge_details route tip of
        Inl e \<Rightarrow> (Inl e, m)
      | Inr None \<Rightarrow> (Inr None, m)
      | Inr (Some (payer, fee)) \<Rightarrow>
          (case withdraw_keep_alive (currency_of fe) payer fee (balances m) of
             (True, b) \<Rightarrow> (Inr (Some fee), fee_deposit (FeePaid payer fee) (m\<lparr>balances := b\<rparr>))
           | (False, b) \<Rightarrow> (Inl PaymentInvalid, m\<lparr>balances := b\<rparr>)))"

definition can_withdraw_fee :: "'b fee_env \<Rightarrow> fee_route \<Rightarrow> u128 \<Rightarrow> 'b money \<Rightarrow> invalid_transaction + unit" where
  "can_withdraw_fee fe route tip m =
     (case charge_details route tip of
        Inl e \<Rightarrow> Inl e
      | Inr None \<Rightarrow> Inr ()
      | Inr (Some (payer, fee)) \<Rightarrow>
          if can_withdraw (currency_of fe) payer fee (balances m) then Inr () else Inl PaymentInvalid)"

definition correct_and_deposit_fee :: "'b fee_env \<Rightarrow> u128 option \<Rightarrow> 'b money \<Rightarrow> 'b money" where
  "correct_and_deposit_fee fe credit m = (case credit of None \<Rightarrow> m | Some fee \<Rightarrow> on_unbalanced fe fee m)"

text \<open>The fee of an execution decided by a vote, which has no transaction of its own.\<close>

definition charge :: "'b fee_env \<Rightarrow> account \<Rightarrow> u128 \<Rightarrow> 'b money \<Rightarrow> (unit, u128, 'b money) outcome" where
  "charge fe payer amount m =
     (let fee = calculate_onchain_fee amount in
      case withdraw_keep_alive (currency_of fe) payer fee (balances m) of
        (True, b) \<Rightarrow> (Inr fee, fee_deposit (FeePaid payer fee) (on_unbalanced fe fee (m\<lparr>balances := b\<rparr>)))
      | (False, b) \<Rightarrow> (Inl (), m\<lparr>balances := b\<rparr>))"

datatype onchain_error = ZeroAmount | SelfTransferNotAllowed | TransferFailed | NotSigned

definition transfer_with_remark ::
  "'b fee_env \<Rightarrow> account option \<Rightarrow> account \<Rightarrow> u128 \<Rightarrow> string \<Rightarrow> 'b money \<Rightarrow> (onchain_error, unit, 'b money) outcome" where
  "transfer_with_remark fe signer beneficiary amount remark =
     with_transaction (\<lambda>m.
       ok_or signer NotSigned m (\<lambda>from.
       ensure (amount \<noteq> 0) ZeroAmount m (\<lambda>m.
       ensure (from \<noteq> beneficiary) SelfTransferNotAllowed m (\<lambda>m.
       (case transfer_keep_alive (currency_of fe) from beneficiary amount (balances m) of
          (False, b) \<Rightarrow> (Inl TransferFailed, m\<lparr>balances := b\<rparr>)
        | (True, b) \<Rightarrow> (Inr (), fee_deposit (TransferWithRemark from beneficiary amount remark) (m\<lparr>balances := b\<rparr>)))))))"

section \<open>The amount of a fee\<close>

lemma perbill_round_exact:
  assumes "amount < 2 ^ 128" "parts \<le> 1000000000"
  shows "mul_perbill_round amount parts = (amount * parts + 500000000) div 1000000000"
proof -
  let ?w = "amount div 1000000000" and ?r = "amount mod 1000000000"
  have "?r * parts \<le> 1000000000 * 1000000000" using assms(2) by (intro mult_le_mono) simp_all
  then have r: "?r * parts mod 2 ^ 128 = ?r * parts" "?r * parts + 500000000 < 2 ^ 128" by simp_all
  have split: "amount * parts + 500000000 = 1000000000 * (?w * parts) + (?r * parts + 500000000)"
  proof -
    have "amount * parts = (1000000000 * ?w + ?r) * parts" by (simp only: mult_div_mod_eq)
    then show ?thesis by (simp only: add_mult_distrib mult.assoc add.assoc)
  qed
  have whole: "(amount * parts + 500000000) div 1000000000 = ?w * parts + (?r * parts + 500000000) div 1000000000"
    unfolding split by (rule div_mult_self4) simp
  have "(amount * parts + 500000000) div 1000000000 \<le> (amount * 1000000000 + 500000000) div 1000000000"
    using assms(2) by (intro div_le_mono add_le_mono mult_le_mono) simp_all
  also have "\<dots> = amount" by simp
  finally have "?w * parts + (?r * parts + 500000000) div 1000000000 < 2 ^ 128" using assms(1) whole by linarith
  then show ?thesis
    unfolding mul_perbill_round_def Let_def r(1)
    by (subst whole, subst sat_add_exact [OF r(2)]) (subst sat_mul_exact, simp, subst sat_add_exact, simp_all)
qed

lemma onchain_fee_exact:
  assumes "a < 2 ^ 128"
  shows "calculate_onchain_fee a = max 10 ((a + 500) div 1000)"
proof -
  have "(a * 1000000 + 500000000) div 1000000000 = (a + 500) * 1000000 div (1000 * 1000000)" by (simp add: algebra_simps)
  then have "(a * 1000000 + 500000000) div 1000000000 = (a + 500) div 1000" by (simp only: div_mult_mult2)
  with perbill_round_exact [OF assms, of 1000000] show ?thesis by (simp add: calculate_onchain_fee_def fee_const_defs max.commute)
qed

text \<open>
  C40. Fees are exact and bounded for every amount of 128 bits: the fee is the thousandth part
  rounded half up, but at least 10; it never overflows or saturates, it never exceeds the amount by
  more than the minimum, and a larger amount never costs less.
\<close>

theorem onchain_fee_bounds:
  assumes "amount < 2 ^ 128"
  shows "calculate_onchain_fee amount = max 10 ((amount + 500) div 1000) \<and>
     calculate_onchain_fee amount \<le> max 10 amount \<and>
     (\<forall>more \<ge> amount. more < 2 ^ 128 \<longrightarrow> calculate_onchain_fee amount \<le> calculate_onchain_fee more)"
proof -
  have "max 10 ((amount + 500) div 1000) \<le> max 10 amount" by auto
  moreover have "max 10 ((amount + 500) div 1000) \<le> max 10 ((a + 500) div 1000)" if "amount \<le> a" for a
    using div_le_mono [of "amount + 500" "a + 500" 1000] that by (auto simp: max_def)
  ultimately show ?thesis using onchain_fee_exact assms by simp
qed

theorem onchain_fee_bounds_witness:
  "calculate_onchain_fee (2 ^ 128 - 1) = max 10 ((2 ^ 128 - 1 + 500) div 1000)"
  using onchain_fee_bounds [of "2 ^ 128 - 1"] by simp

section \<open>Conservation\<close>

definition burnt_in :: "fee_event list \<Rightarrow> u128" where
  "burnt_in es = (\<Sum>e \<leftarrow> es. case e of FeeShareBurnt _ n \<Rightarrow> n | _ \<Rightarrow> 0)"

text \<open>The framework divides an amount in the given ratio, the first part rounded down.\<close>

definition lawful_ration :: "'b fee_env \<Rightarrow> bool" where
  "lawful_ration fe \<longleftrightarrow> (\<forall>a b x. 0 < a + b \<and> x * a < 2 ^ 128 \<longrightarrow>
     ration fe a b x = (x * a div (a + b), x - x * a div (a + b)))"

text \<open>What the accounts of \<open>A\<close> hold together with what has been burnt.\<close>

definition held_by :: "'b fee_env \<Rightarrow> account set \<Rightarrow> 'b money \<Rightarrow> nat" where
  "held_by fe A m = (\<Sum>a \<in> A. free_balance (currency_of fe) a (balances m)) + burnt_in (fee_events m)"

lemma burnt_append [simp]: "burnt_in (es @ [e]) = burnt_in es + (case e of FeeShareBurnt _ n \<Rightarrow> n | _ \<Rightarrow> 0)"
  by (simp add: burnt_in_def)

lemma sum_bump:
  assumes "finite A" "a \<in> A" "\<And>x. g x = f x + (if x = a then n else 0)"
  shows "(\<Sum>x \<in> A. g x) = (\<Sum>x \<in> A. f x) + (n :: nat)"
  using assms by (simp add: sum.distrib)

lemma held_burn [simp]: "held_by fe A (emit_fee_share_burn r n m) = held_by fe A m + n"
  by (simp add: held_by_def emit_fee_share_burn_def fee_deposit_def)

lemma held_resolve:
  assumes "lawful_currency (currency_of fe)" "finite A" "a \<in> A"
  shows "held_by fe A (resolve_or_burn fe a n r m) = held_by fe A m + n"
proof (cases "resolve_credit (currency_of fe) a n (balances m)")
  case (Pair ok b)
  note f = lawful_resolve [OF assms(1) Pair]
  show ?thesis
  proof (cases ok)
    case True
    with f have "(\<Sum>x \<in> A. free_balance (currency_of fe) x b) = (\<Sum>x \<in> A. free_balance (currency_of fe) x (balances m)) + n"
      by (intro sum_bump [OF assms(2,3)]) simp
    with Pair True show ?thesis by (simp add: resolve_or_burn_def held_by_def)
  next
    case False
    then have "held_by fe A (m\<lparr>balances := b\<rparr>) = held_by fe A m" using f by (simp add: held_by_def)
    with Pair False show ?thesis by (simp add: resolve_or_burn_def)
  qed
qed

lemma held_unbalanced:
  assumes "lawful_currency (currency_of fe)" "lawful_ration fe" "finite A" "safety_fund_account fe \<in> A"
    and "\<forall>a. nrc_account fe = Some a \<longrightarrow> a \<in> A"
    and "\<forall>d a. block_author fe = Some d \<longrightarrow> reward_account_of fe d = Some a \<longrightarrow> a \<in> A"
    and "fee * 100 < 2 ^ 128"
  shows "held_by fe A (on_unbalanced fe fee m) = held_by fe A m + fee"
proof -
  let ?full = "fee * 80 div 100" let ?rest = "fee - ?full" let ?nrc = "?rest * 10 div 20"
  have "fee * 80 < 2 ^ 128" "?rest * 10 < 2 ^ 128" using assms(7) by simp_all
  then have r: "ration fe 80 20 fee = (?full, ?rest)" "ration fe 10 10 ?rest = (?nrc, ?rest - ?nrc)"
    using assms(2) unfolding lawful_ration_def by (auto simp del: div_mult_self1_is_m)
  have full: "held_by fe A (pay_fullnode fe n t) = held_by fe A t + n" for n t
    using held_resolve [OF assms(1,3)] assms(6) by (auto simp: pay_fullnode_def split: option.splits)
  have nrc: "held_by fe A (pay_nrc fe n t) = held_by fe A t + n" for n t
    using held_resolve [OF assms(1,3)] assms(5) by (auto simp: pay_nrc_def split: option.splits)
  have "?full + (?nrc + (?rest - ?nrc)) = fee" by auto
  then show ?thesis
    using r held_resolve [OF assms(1,3,4)]
    by (simp add: on_unbalanced_def on_nonzero_unbalanced_def fee_const_defs sat_add_def sat_sub_def max_of_def Let_def full nrc)
qed

text \<open>The distribution of a fee takes money from no one.\<close>

lemma resolve_or_burn_mono:
  assumes "lawful_currency (currency_of fe)"
  shows "free_balance (currency_of fe) x (balances m) \<le> free_balance (currency_of fe) x (balances (resolve_or_burn fe a n r m))"
proof (cases "resolve_credit (currency_of fe) a n (balances m)")
  case (Pair ok b)
  with lawful_resolve [OF assms Pair, of x] show ?thesis
    by (cases ok) (simp_all add: resolve_or_burn_def emit_fee_share_burn_def fee_deposit_def)
qed

lemma on_unbalanced_mono:
  assumes "lawful_currency (currency_of fe)"
  shows "free_balance (currency_of fe) x (balances m) \<le> free_balance (currency_of fe) x (balances (on_unbalanced fe n m))"
proof -
  note r = resolve_or_burn_mono [OF assms, of x]
  have burn: "balances (emit_fee_share_burn reason k m) = balances m" for reason k m
    by (simp add: emit_fee_share_burn_def fee_deposit_def)
  have full: "free_balance (currency_of fe) x (balances m) \<le> free_balance (currency_of fe) x (balances (pay_fullnode fe k m))" for k m
    using r by (simp add: pay_fullnode_def burn split: option.split)
  have nrc: "free_balance (currency_of fe) x (balances m) \<le> free_balance (currency_of fe) x (balances (pay_nrc fe k m))" for k m
    using r by (simp add: pay_nrc_def burn split: option.split)
  have "free_balance (currency_of fe) x (balances m) \<le>
      free_balance (currency_of fe) x (balances (resolve_or_burn fe a k3 reason (pay_nrc fe k2 (pay_fullnode fe k1 m))))" for a k1 k2 k3 reason
    using full nrc r order_trans by meson
  then show ?thesis
    by (simp add: on_unbalanced_def on_nonzero_unbalanced_def Let_def split: prod.split)
qed

text \<open>
  C12. No fee is lost or made up. When a transaction is charged and its fee distributed, the
  payer of the route is debited exactly the scheduled fee, and what the payer, the block author's
  reward account, the reserve commission and the safety fund hold, together with the amounts
  reported as burnt, is the same before and after: the three shares add up to the fee, whichever of them
  cannot be paid out (amounts below \<open>2 ^ 120\<close>, since the framework divides in 128 bits). A route that is free or settled elsewhere charges nothing, and a tip or a
  rejected route is refused with balances unchanged.
\<close>

theorem fee_conserved:
  assumes "lawful_currency (currency_of fe)" "lawful_ration fe" "finite A" "safety_fund_account fe \<in> A"
    and "\<forall>a. nrc_account fe = Some a \<longrightarrow> a \<in> A"
    and "\<forall>d a. block_author fe = Some d \<longrightarrow> reward_account_of fe d = Some a \<longrightarrow> a \<in> A"
    and "\<forall>n a. route = OnchainRoute n a \<longrightarrow> a \<in> A \<and> n < 2 ^ 120" "\<forall>a. route = VoteRoute a \<longrightarrow> a \<in> A"
    and "withdraw_fee fe route tip m = (r, m1)"
  shows "case r of
       Inl _ \<Rightarrow> (\<forall>x. free_balance (currency_of fe) x (balances m1) = free_balance (currency_of fe) x (balances m))
     | Inr None \<Rightarrow> route \<in> {FreeRoute} \<union> range OffchainRoute \<and> m1 = m
     | Inr (Some fee) \<Rightarrow> held_by fe A (correct_and_deposit_fee fe (Some fee) m1) = held_by fe A m \<and>
         (\<exists>payer. ((\<exists>n. route = OnchainRoute n payer \<and> fee = calculate_onchain_fee n) \<or> route = VoteRoute payer \<and> fee = VOTE_FLAT_FEE) \<and>
           fee \<le> free_balance (currency_of fe) payer (balances m) \<and>
           (\<forall>x. free_balance (currency_of fe) x (balances m1) =
              free_balance (currency_of fe) x (balances m) - (if x = payer then fee else 0)))"
proof (cases "charge_details route tip")
  case (Inl e)
  with assms(9) show ?thesis by (auto simp: withdraw_fee_def)
next
  case (Inr c)
  show ?thesis
  proof (cases c)
    case None
    with Inr assms(9) show ?thesis by (auto simp: withdraw_fee_def charge_details_def split: if_splits fee_route.splits)
  next
    case (Some pf)
    obtain payer fee where pf: "pf = (payer, fee)" by (cases pf)
    from Inr Some pf assms(7,8) have payer: "payer \<in> A"
      and cd: "(\<exists>n. route = OnchainRoute n payer \<and> fee = calculate_onchain_fee n) \<or> route = VoteRoute payer \<and> fee = VOTE_FLAT_FEE"
      by (auto simp: charge_details_def split: if_splits fee_route.splits)
    have small: "fee * 100 < 2 ^ 128"
    proof (cases route)
      case (OnchainRoute n a)
      with assms(7) have n: "n < 2 ^ 120" by blast
      with OnchainRoute Inr Some pf have "fee = max 10 ((n + 500) div 1000)"
        by (simp add: charge_details_def onchain_fee_exact split: if_splits)
      with n show ?thesis by simp
    qed (use Inr Some pf in \<open>auto simp: charge_details_def VOTE_FLAT_FEE_def split: if_splits\<close>)
    show ?thesis
    proof (cases "withdraw_keep_alive (currency_of fe) payer fee (balances m)")
      case (Pair ok b)
      show ?thesis
      proof (cases ok)
        case True
        have "withdraw_keep_alive (currency_of fe) payer fee (balances m) = (True, b)" using Pair True by simp
        note w = lawful_withdraw [OF assms(1) this]
        have "(\<Sum>x \<in> A. free_balance (currency_of fe) x (balances m)) = (\<Sum>x \<in> A. free_balance (currency_of fe) x b) + fee"
          using w by (intro sum_bump [OF assms(3) payer]) auto
        then have "held_by fe A m = held_by fe A m1 + fee"
          using assms(9) Inr Some pf Pair True by (auto simp: withdraw_fee_def held_by_def fee_deposit_def)
        moreover have r: "r = Inr (Some fee)" "balances m1 = b"
          using assms(9) Inr Some pf Pair True by (auto simp: withdraw_fee_def fee_deposit_def)
        ultimately have "held_by fe A (correct_and_deposit_fee fe (Some fee) m1) = held_by fe A m"
          using held_unbalanced [OF assms(1-6) small, of m1] by (simp add: correct_and_deposit_fee_def)
        moreover have "\<forall>x. free_balance (currency_of fe) x b = free_balance (currency_of fe) x (balances m) - (if x = payer then fee else 0)"
          using w(2) by simp
        ultimately show ?thesis using cd w(1) r by auto
      next
        case False
        with lawful_withdraw_failed [OF assms(1)] Pair assms(9) Inr Some pf show ?thesis
          by (auto simp: withdraw_fee_def)
      qed
    qed
  qed
qed

definition sample_fee_env :: "(account \<Rightarrow> u128) fee_env" where
  "sample_fee_env = \<lparr>currency_of = plain_currency, block_author = Some 7, reward_account_of = (\<lambda>_. Some 8),
     nrc_account = Some 9, safety_fund_account = 10, ration = (\<lambda>a b x. (x * a div (a + b), x - x * a div (a + b)))\<rparr>"

theorem fee_conserved_witness:
  "\<exists>m1. withdraw_fee sample_fee_env (OnchainRoute 50000 1) 0 \<lparr>balances = (\<lambda>_. 1000), fee_events = []\<rparr> = (Inr (Some 50), m1) \<and>
     held_by sample_fee_env {1, 8, 9, 10} (correct_and_deposit_fee sample_fee_env (Some 50) m1) = 4000"
proof -
  let ?m = "\<lparr>balances = (\<lambda>_. 1000), fee_events = []\<rparr> :: (account \<Rightarrow> u128) money"
  have fee: "calculate_onchain_fee 50000 = 50" by (simp add: onchain_fee_exact)
  obtain m1 where m1: "withdraw_fee sample_fee_env (OnchainRoute 50000 1) 0 ?m = (Inr (Some 50), m1)"
    by (simp add: withdraw_fee_def charge_details_def fee sample_fee_env_def plain_currency_def plain_balance_def)
  have l: "lawful_currency (currency_of sample_fee_env)" "lawful_ration sample_fee_env"
    by (simp_all add: sample_fee_env_def plain_lawful lawful_ration_def)
  have "held_by sample_fee_env {1, 8, 9, 10} ?m = 4000"
    by (simp add: held_by_def sample_fee_env_def plain_currency_def plain_balance_def burnt_in_def)
  with fee_conserved [OF l, of "{1, 8, 9, 10}" "OnchainRoute 50000 1" 0 ?m] m1 show ?thesis
    by (simp add: sample_fee_env_def)
qed

end
