(* ===== verification/Issuance.thy ===== *)
theory Issuance
  imports Currency Reserve_Institutions
begin

text \<open>
  Scheduled issuance of money: block rewards (\<^verbatim>\<open>issuance/fullnode-issuance/src/lib.rs\<close>), certification
  rewards of citizens (\<^verbatim>\<open>issuance/citizen-issuance/src/lib.rs\<close>) and the yearly interest of the
  provincial banks (\<^verbatim>\<open>issuance/provincialbank-interest/src/lib.rs\<close>), over the currency interface. The
  storage of the three pallets and the balances they credit are one record.
\<close>

section \<open>Constants\<close>

definition FULLNODE_BLOCK_REWARD :: u128 where "FULLNODE_BLOCK_REWARD = 999900"
definition FULLNODE_REWARD_START_BLOCK :: u32 where "FULLNODE_REWARD_START_BLOCK = 1"
definition FULLNODE_REWARD_END_BLOCK :: u32 where "FULLNODE_REWARD_END_BLOCK = 9999999"
definition FULLNODE_REWARD_BLOCK_COUNT :: u32 where
  "FULLNODE_REWARD_BLOCK_COUNT = FULLNODE_REWARD_END_BLOCK - FULLNODE_REWARD_START_BLOCK + 1"
definition FULLNODE_TOTAL_ISSUANCE :: u128 where
  "FULLNODE_TOTAL_ISSUANCE = FULLNODE_BLOCK_REWARD * FULLNODE_REWARD_BLOCK_COUNT"
definition GENESIS_CITIZEN_MAX :: u64 where "GENESIS_CITIZEN_MAX = 1443497378"
definition CITIZEN_ISSUANCE_MAX_COUNT :: u64 where "CITIZEN_ISSUANCE_MAX_COUNT = GENESIS_CITIZEN_MAX"
definition CITIZEN_ISSUANCE_HIGH_REWARD_COUNT :: u64 where "CITIZEN_ISSUANCE_HIGH_REWARD_COUNT = 14436417"
definition CITIZEN_ISSUANCE_HIGH_REWARD :: u128 where "CITIZEN_ISSUANCE_HIGH_REWARD = 999900"
definition CITIZEN_ISSUANCE_NORMAL_REWARD :: u128 where "CITIZEN_ISSUANCE_NORMAL_REWARD = 99900"
definition PROVINCIALBANK_INITIAL_INTEREST_BP :: u32 where "PROVINCIALBANK_INITIAL_INTEREST_BP = 100"
definition PROVINCIALBANK_INTEREST_DECREASE_BP :: u32 where "PROVINCIALBANK_INTEREST_DECREASE_BP = 1"
definition PROVINCIALBANK_INTEREST_DURATION_YEARS :: u32 where "PROVINCIALBANK_INTEREST_DURATION_YEARS = 100"
definition BASIS_POINTS_DENOMINATOR :: u128 where "BASIS_POINTS_DENOMINATOR = 10000"
definition BLOCKS_PER_YEAR :: u64 where "BLOCKS_PER_YEAR = 87600"

lemmas issuance_const_defs = FULLNODE_BLOCK_REWARD_def FULLNODE_REWARD_START_BLOCK_def FULLNODE_REWARD_END_BLOCK_def
  FULLNODE_REWARD_BLOCK_COUNT_def FULLNODE_TOTAL_ISSUANCE_def GENESIS_CITIZEN_MAX_def CITIZEN_ISSUANCE_MAX_COUNT_def
  CITIZEN_ISSUANCE_HIGH_REWARD_COUNT_def CITIZEN_ISSUANCE_HIGH_REWARD_def CITIZEN_ISSUANCE_NORMAL_REWARD_def
  PROVINCIALBANK_INITIAL_INTEREST_BP_def PROVINCIALBANK_INTEREST_DECREASE_BP_def PROVINCIALBANK_INTEREST_DURATION_YEARS_def
  BASIS_POINTS_DENOMINATOR_def

section \<open>Storage\<close>

datatype skip_reason = DuplicateCitizenIdentity | MaxCountReached | AccountAlreadyRewarded | ZeroRewardConfigured

datatype issuance_event =
    RewardAccountBound account account
  | FullnodeIssuanceIssued u32 account account u128
  | FullnodeIssuanceSkippedNoAuthor u32
  | RewardAccountRebound account account
  | CertificationRewardIssued account cid_number u128
  | CertificationRewardSkipped account cid_number skip_reason
  | ProvincialBankInterestMinted u32 account u128
  | ProvincialBankYearSettled u32 u32 u128

record pending_certification_reward =
  pc_account_id :: account
  pc_cid_number :: cid_number

record provincial_bank_interest_audit =
  audit_year :: u32
  audit_bank_count :: u32
  audit_total_interest :: u128

text \<open>Balances and announcements, extended by the storage of the three pallets in turn.\<close>

record 'b minting =
  mint_balances :: 'b
  mint_events :: "issuance_event list"

record 'b fullnode_storage = "'b minting" +
  RewardAccountIdByMiner :: "account \<rightharpoonup> account"
  LastAuthoredBlockByMiner :: "account \<rightharpoonup> u32"
  RewardedBlockCount :: u32
  TotalFullnodeIssued :: u128
  LastRewardAudit :: "(u32 \<times> account \<times> account \<times> u128) option"

record 'b citizen_storage = "'b fullnode_storage" +
  RewardedCount :: u64
  IdentityRewardClaimed :: "cid_number set"
  AccountRewarded :: "account set"
  PendingRewardCount :: u32
  PendingRewards :: "u32 \<rightharpoonup> pending_certification_reward"
  PendingIdentityRewardClaimed :: "cid_number set"
  PendingAccountRewarded :: "account set"

record 'b issuance = "'b citizen_storage" +
  LastSettledYear :: u32
  TotalProvincialBankInterestIssued :: u128
  LastProvincialBankInterestAudit :: "provincial_bank_interest_audit option"

definition issuance_genesis :: "'b \<Rightarrow> 'b issuance" where
  "issuance_genesis b =
     \<lparr>mint_balances = b, mint_events = [], RewardAccountIdByMiner = Map.empty, LastAuthoredBlockByMiner = Map.empty,
      RewardedBlockCount = 0, TotalFullnodeIssued = 0, LastRewardAudit = None,
      RewardedCount = 0, IdentityRewardClaimed = {}, AccountRewarded = {},
      PendingRewardCount = 0, PendingRewards = Map.empty, PendingIdentityRewardClaimed = {}, PendingAccountRewarded = {},
      LastSettledYear = 0, TotalProvincialBankInterestIssued = 0, LastProvincialBankInterestAudit = None\<rparr>"

definition mint_event :: "issuance_event \<Rightarrow> 'b issuance \<Rightarrow> 'b issuance" where
  "mint_event e s = s\<lparr>mint_events := mint_events s @ [e]\<rparr>"

text \<open>\<open>deposit_creating\<close>, whose imbalance is dropped by every caller.\<close>

definition mint :: "'b currency \<Rightarrow> account \<Rightarrow> u128 \<Rightarrow> 'b issuance \<Rightarrow> 'b issuance" where
  "mint c a n s = s\<lparr>mint_balances := snd (deposit_creating c a n (mint_balances s))\<rparr>"

section \<open>Block rewards\<close>

text \<open>
  The author of a block: the first readable public key among the digest items of the proof-of-work
  engine. A key is 32 bytes, read as an account in big-endian order.
\<close>

definition account_of_bytes :: "u8 list \<Rightarrow> account" where
  "account_of_bytes bs = foldl (\<lambda>a b. a * 256 + b) 0 bs"

fun find_author :: "'e \<Rightarrow> ('e \<times> u8 list) list \<Rightarrow> account option" where
  "find_author pow_engine [] = None"
| "find_author pow_engine ((engine, data) # ds) =
     (if engine = pow_engine \<and> 32 \<le> length data then Some (account_of_bytes (take 32 data))
      else find_author pow_engine ds)"

datatype fullnode_error =
  RewardAccountAlreadyBound | RewardAccountNotBound | RewardAccountCannotBeMiner | RewardAccountUnchanged | FullnodeBadOrigin

definition bind_reward_account ::
  "account option \<Rightarrow> account \<Rightarrow> 'b issuance \<Rightarrow> (fullnode_error, unit, 'b issuance) outcome" where
  "bind_reward_account signer reward = with_transaction (\<lambda>s.
     ok_or signer FullnodeBadOrigin s (\<lambda>miner.
     ensure (RewardAccountIdByMiner s miner = None) RewardAccountAlreadyBound s (\<lambda>s.
     ensure (reward \<noteq> miner) RewardAccountCannotBeMiner s (\<lambda>s.
     (Inr (), mint_event (RewardAccountBound miner reward)
        (s\<lparr>RewardAccountIdByMiner := (RewardAccountIdByMiner s)(miner \<mapsto> reward)\<rparr>))))))"

definition rebind_reward_account ::
  "account option \<Rightarrow> account \<Rightarrow> 'b issuance \<Rightarrow> (fullnode_error, unit, 'b issuance) outcome" where
  "rebind_reward_account signer reward = with_transaction (\<lambda>s.
     ok_or signer FullnodeBadOrigin s (\<lambda>miner.
     ok_or (RewardAccountIdByMiner s miner) RewardAccountNotBound s (\<lambda>current.
     ensure (reward \<noteq> miner) RewardAccountCannotBeMiner s (\<lambda>s.
     ensure (reward \<noteq> current) RewardAccountUnchanged s (\<lambda>s.
     (Inr (), mint_event (RewardAccountRebound miner reward)
        (s\<lparr>RewardAccountIdByMiner := (RewardAccountIdByMiner s)(miner \<mapsto> reward)\<rparr>)))))))"

definition reward_author :: "'b currency \<Rightarrow> u32 \<Rightarrow> account \<Rightarrow> 'b issuance \<Rightarrow> 'b issuance" where
  "reward_author c n author s =
     (let recipient = (case RewardAccountIdByMiner s author of None \<Rightarrow> author | Some a \<Rightarrow> a);
          reward = sat_into 128 FULLNODE_BLOCK_REWARD;
          s = mint c recipient reward (s\<lparr>LastAuthoredBlockByMiner := (LastAuthoredBlockByMiner s)(author \<mapsto> n)\<rparr>)
      in mint_event (FullnodeIssuanceIssued n author recipient reward)
           (s\<lparr>RewardedBlockCount := sat_add 32 (RewardedBlockCount s) 1,
              TotalFullnodeIssued := sat_add 128 (TotalFullnodeIssued s) reward,
              LastRewardAudit := Some (n, author, recipient, reward)\<rparr>))"

definition fullnode_on_finalize :: "'b currency \<Rightarrow> u32 \<Rightarrow> account option \<Rightarrow> 'b issuance \<Rightarrow> 'b issuance" where
  "fullnode_on_finalize c n author s =
     (if n < FULLNODE_REWARD_START_BLOCK \<or> FULLNODE_REWARD_END_BLOCK < n then s
      else case author of
        None \<Rightarrow> mint_event (FullnodeIssuanceSkippedNoAuthor n) s
      | Some a \<Rightarrow> reward_author c n a s)"

section \<open>Certification rewards\<close>

definition reward_amount_at :: "u64 \<Rightarrow> u128" where
  "reward_amount_at n =
     (if n < CITIZEN_ISSUANCE_HIGH_REWARD_COUNT then CITIZEN_ISSUANCE_HIGH_REWARD else CITIZEN_ISSUANCE_NORMAL_REWARD)"

definition try_queue_certification_reward ::
  "account \<Rightarrow> cid_number \<Rightarrow> 'b issuance \<Rightarrow> (skip_reason, u128, 'b issuance) outcome" where
  "try_queue_certification_reward a cid s =
     ensure (cid \<notin> IdentityRewardClaimed s \<and> cid \<notin> PendingIdentityRewardClaimed s) DuplicateCitizenIdentity s (\<lambda>s.
     ensure (a \<notin> AccountRewarded s \<and> a \<notin> PendingAccountRewarded s) AccountAlreadyRewarded s (\<lambda>s.
     let pending = PendingRewardCount s; effective = sat_add 64 (RewardedCount s) pending in
     ensure (effective < CITIZEN_ISSUANCE_MAX_COUNT) MaxCountReached s (\<lambda>s.
     let reward = sat_into 128 (reward_amount_at effective) in
     ensure (reward \<noteq> 0) ZeroRewardConfigured s (\<lambda>s.
     ok_or (checked_add 32 pending 1) MaxCountReached s (\<lambda>next.
     (Inr reward,
      s\<lparr>PendingRewards := (PendingRewards s)(pending \<mapsto> \<lparr>pc_account_id = a, pc_cid_number = cid\<rparr>),
        PendingIdentityRewardClaimed := insert cid (PendingIdentityRewardClaimed s),
        PendingAccountRewarded := insert a (PendingAccountRewarded s),
        PendingRewardCount := next\<rparr>))))))"

definition on_voting_identity_registered :: "account \<Rightarrow> cid_number \<Rightarrow> 'b issuance \<Rightarrow> 'b issuance" where
  "on_voting_identity_registered a cid s =
     (case try_queue_certification_reward a cid s of
        (Inr _, t) \<Rightarrow> t
      | (Inl reason, t) \<Rightarrow> mint_event (CertificationRewardSkipped a cid reason) t)"

definition pay_pending :: "'b currency \<Rightarrow> u32 \<Rightarrow> 'b issuance \<Rightarrow> 'b issuance" where
  "pay_pending c index s =
     (case PendingRewards s index of
        None \<Rightarrow> s
      | Some p \<Rightarrow>
          let s = s\<lparr>PendingRewards := (PendingRewards s)(index := None)\<rparr>;
              count = RewardedCount s;
              reward = sat_into 128 (reward_amount_at count);
              s = mint c (pc_account_id p) reward s
          in mint_event (CertificationRewardIssued (pc_account_id p) (pc_cid_number p) reward)
               (s\<lparr>RewardedCount := sat_add 64 count 1,
                  IdentityRewardClaimed := insert (pc_cid_number p) (IdentityRewardClaimed s),
                  AccountRewarded := insert (pc_account_id p) (AccountRewarded s),
                  PendingIdentityRewardClaimed := PendingIdentityRewardClaimed s - {pc_cid_number p},
                  PendingAccountRewarded := PendingAccountRewarded s - {pc_account_id p}\<rparr>))"

definition citizen_on_finalize :: "'b currency \<Rightarrow> 'b issuance \<Rightarrow> 'b issuance" where
  "citizen_on_finalize c s = fold (pay_pending c) [0 ..< PendingRewardCount s] (s\<lparr>PendingRewardCount := 0\<rparr>)"

section \<open>Interest of the provincial banks\<close>

datatype settlement_error =
  InvalidBlocksPerYear | PreviousYearMismatch | AccountDecodeFailed | InterestOverflow | TotalInterestOverflow

definition settlement_year :: "u64 \<Rightarrow> u32 \<Rightarrow> u32 option" where
  "settlement_year per_year block =
     (if per_year = 0 \<or> block = 0 \<or> block mod per_year \<noteq> 0 then None
      else case try_into 32 (block div per_year) of
        None \<Rightarrow> None
      | Some year \<Rightarrow> if year \<le> PROVINCIALBANK_INTEREST_DURATION_YEARS then Some year else None)"

definition interest_bp_for_year :: "u32 \<Rightarrow> u32" where
  "interest_bp_for_year year =
     sat_sub PROVINCIALBANK_INITIAL_INTEREST_BP (sat_mul 32 (sat_sub year 1) PROVINCIALBANK_INTEREST_DECREASE_BP)"

definition interest_for_principal :: "u128 \<Rightarrow> u32 \<Rightarrow> u128 option" where
  "interest_for_principal capital year =
     map_option (\<lambda>gross. gross div BASIS_POINTS_DENOMINATOR) (checked_mul 128 capital (interest_bp_for_year year))"

fun add_interests :: "u32 \<Rightarrow> china_ch list \<Rightarrow> u128 \<Rightarrow> u128 option" where
  "add_interests year [] acc = Some acc"
| "add_interests year (bank # banks) acc =
     (case interest_for_principal (stake_amount bank) year of
        None \<Rightarrow> None
      | Some i \<Rightarrow> (case checked_add 128 acc i of None \<Rightarrow> None | Some acc' \<Rightarrow> add_interests year banks acc'))"

definition expected_audit :: "u32 \<Rightarrow> provincial_bank_interest_audit option" where
  "expected_audit year =
     (case add_interests year CHINA_CH 0 of
        None \<Rightarrow> None
      | Some t \<Rightarrow> (case try_into 32 (length CHINA_CH) of
          None \<Rightarrow> None
        | Some n \<Rightarrow> Some \<lparr>audit_year = year, audit_bank_count = n, audit_total_interest = t\<rparr>))"

fun expected_total_through_year :: "u32 \<Rightarrow> u128 option" where
  "expected_total_through_year 0 = Some 0"
| "expected_total_through_year (Suc y) =
     (case expected_total_through_year y of
        None \<Rightarrow> None
      | Some t \<Rightarrow> (case expected_audit (Suc y) of None \<Rightarrow> None | Some a \<Rightarrow> checked_add 128 t (audit_total_interest a)))"

text \<open>An account is decoded from its 32 bytes.\<close>

definition decode_account :: "nat \<Rightarrow> account option" where
  "decode_account n = (if n < 2 ^ 256 then Some n else None)"

fun credit_banks ::
  "'b currency \<Rightarrow> u32 \<Rightarrow> china_ch list \<Rightarrow> u128 \<Rightarrow> 'b issuance \<Rightarrow> (settlement_error, u128, 'b issuance) outcome" where
  "credit_banks c year [] issued s = (Inr issued, s)"
| "credit_banks c year (bank # banks) issued s =
     ok_or (decode_account (main_account bank)) AccountDecodeFailed s (\<lambda>a.
     ok_or (interest_for_principal (stake_amount bank) year) InterestOverflow s (\<lambda>interest.
     let s = mint c a interest s in
     ok_or (checked_add 128 issued interest) TotalInterestOverflow s (\<lambda>issued.
     credit_banks c year banks issued (mint_event (ProvincialBankInterestMinted year a interest) s))))"

definition settle_year ::
  "'b currency \<Rightarrow> u64 \<Rightarrow> u32 \<Rightarrow> 'b issuance \<Rightarrow> (settlement_error, unit, 'b issuance) outcome" where
  "settle_year c per_year year s =
     ensure (per_year \<noteq> 0) InvalidBlocksPerYear s (\<lambda>s.
     ensure (LastSettledYear s = sat_sub year 1) PreviousYearMismatch s (\<lambda>s.
     ok_or (expected_audit year) TotalInterestOverflow s (\<lambda>audit.
     and_then (credit_banks c year CHINA_CH 0 s) (\<lambda>issued s.
     ensure (issued = audit_total_interest audit) TotalInterestOverflow s (\<lambda>s.
     ok_or (checked_add 128 (TotalProvincialBankInterestIssued s) issued) TotalInterestOverflow s (\<lambda>t.
     (Inr (), mint_event (ProvincialBankYearSettled year (audit_bank_count audit) (audit_total_interest audit))
        (s\<lparr>TotalProvincialBankInterestIssued := t, LastSettledYear := year,
           LastProvincialBankInterestAudit := Some audit\<rparr>))))))))"

text \<open>A failed settlement is rolled back and logged.\<close>

definition interest_on_finalize :: "'b currency \<Rightarrow> u64 \<Rightarrow> u32 \<Rightarrow> 'b issuance \<Rightarrow> 'b issuance" where
  "interest_on_finalize c per_year n s =
     (case settlement_year per_year n of
        None \<Rightarrow> s
      | Some year \<Rightarrow> snd (with_transaction (settle_year c per_year year) s))"

text \<open>The self-check of the pallet at a block.\<close>

definition interest_try_state :: "u64 \<Rightarrow> u32 \<Rightarrow> 'b issuance \<Rightarrow> bool" where
  "interest_try_state per_year block s \<longleftrightarrow>
     0 < per_year \<and>
     (let expected_year = min (block div per_year mod 2 ^ 32) PROVINCIALBANK_INTEREST_DURATION_YEARS; last = LastSettledYear s in
      last = expected_year \<and>
      Some (TotalProvincialBankInterestIssued s) = expected_total_through_year last \<and>
      (if last = 0 then LastProvincialBankInterestAudit s = None
       else expected_audit last \<noteq> None \<and> LastProvincialBankInterestAudit s = expected_audit last))"

section \<open>Blocks\<close>

text \<open>
  What reaches these pallets in a block: the calls of miners, the callback of citizen registration, and
  whatever else happens to balances. The block ends with the three hooks in the order of the runtime.
\<close>

datatype 'b issuance_call =
    BindCall "account option" account
  | RebindCall "account option" account
  | RegisterCall account cid_number
  | Elsewhere "'b \<Rightarrow> 'b"

fun run_issuance_call :: "'b issuance_call \<Rightarrow> 'b issuance \<Rightarrow> 'b issuance" where
  "run_issuance_call (BindCall signer a) s = snd (bind_reward_account signer a s)"
| "run_issuance_call (RebindCall signer a) s = snd (rebind_reward_account signer a s)"
| "run_issuance_call (RegisterCall a cid) s = on_voting_identity_registered a cid s"
| "run_issuance_call (Elsewhere f) s = s\<lparr>mint_balances := f (mint_balances s)\<rparr>"

definition issuance_finalize :: "'b currency \<Rightarrow> u64 \<Rightarrow> u32 \<Rightarrow> account option \<Rightarrow> 'b issuance \<Rightarrow> 'b issuance" where
  "issuance_finalize c per_year n author s =
     citizen_on_finalize c (fullnode_on_finalize c n author (interest_on_finalize c per_year n s))"

record ('e, 'b) block_content =
  blk_calls :: "'b issuance_call list"
  blk_digest :: "('e \<times> u8 list) list"

definition issuance_block :: "'b currency \<Rightarrow> u64 \<Rightarrow> 'e \<Rightarrow> u32 \<Rightarrow> ('e, 'b) block_content \<Rightarrow> 'b issuance \<Rightarrow> 'b issuance" where
  "issuance_block c per_year engine n blk s =
     issuance_finalize c per_year n (find_author engine (blk_digest blk)) (fold run_issuance_call (blk_calls blk) s)"

definition issuance_run :: "'b currency \<Rightarrow> u64 \<Rightarrow> 'e \<Rightarrow> ('e, 'b) block_content list \<Rightarrow> 'b issuance \<Rightarrow> 'b issuance" where
  "issuance_run c per_year engine blks s = fold (\<lambda>(n, blk). issuance_block c per_year engine n blk) (enumerate 1 blks) s"

section \<open>Amounts of interest\<close>

definition bank_interest :: "u32 \<Rightarrow> china_ch \<Rightarrow> u128" where
  "bank_interest year b = stake_amount b * (101 - year) div 10000"

definition year_interest :: "u32 \<Rightarrow> u128" where
  "year_interest year = (\<Sum>b\<leftarrow>CHINA_CH. bank_interest year b)"

lemma bank_facts:
  assumes "b \<in> set CHINA_CH"
  shows "1000000000 \<le> stake_amount b" "stake_amount b < 2 ^ 41" "main_account b < 2 ^ 256"
proof -
  have "\<forall>b \<in> set CHINA_CH. 1000000000 \<le> stake_amount b \<and> stake_amount b < 2 ^ 41 \<and> main_account b < 2 ^ 256"
    by (simp add: CHINA_CH_def)
  with assms show "1000000000 \<le> stake_amount b" "stake_amount b < 2 ^ 41" "main_account b < 2 ^ 256" by simp_all
qed

lemma bp_for_year: "1 \<le> y \<Longrightarrow> y \<le> 100 \<Longrightarrow> interest_bp_for_year y = 101 - y"
  by (simp add: interest_bp_for_year_def sat_sub_def sat_mul_def max_of_def issuance_const_defs)

lemma bank_interest_bounds:
  assumes "b \<in> set CHINA_CH" "1 \<le> y" "y \<le> 100"
  shows "111 \<le> bank_interest y b" "bank_interest y b < 2 ^ 41"
proof -
  note f = bank_facts [OF assms(1)]
  have "1000000000 * 1 \<le> stake_amount b * (101 - y)" using assms(3) f(1) by (intro mult_le_mono) simp_all
  then have "1000000000 * 1 div 10000 \<le> bank_interest y b" unfolding bank_interest_def by (rule div_le_mono)
  then show "111 \<le> bank_interest y b" by simp
  have "bank_interest y b \<le> stake_amount b * 10000 div 10000"
    unfolding bank_interest_def by (intro div_le_mono mult_le_mono) simp_all
  then show "bank_interest y b < 2 ^ 41" using f(2) by simp
qed

lemma interest_exact:
  assumes "b \<in> set CHINA_CH" "1 \<le> y" "y \<le> 100"
  shows "interest_for_principal (stake_amount b) y = Some (bank_interest y b)"
proof -
  have "stake_amount b * (101 - y) \<le> 2 ^ 41 * 100"
    using bank_facts(2) [OF assms(1)] assms(2) by (intro mult_le_mono) simp_all
  then show ?thesis
    using assms(2,3) by (simp add: interest_for_principal_def bp_for_year bank_interest_def issuance_const_defs checked_mul_def)
qed

lemma add_interests_exact:
  assumes "set banks \<subseteq> set CHINA_CH" "1 \<le> y" "y \<le> 100" "acc + length banks * 2 ^ 41 < 2 ^ 128"
  shows "add_interests y banks acc = Some (acc + (\<Sum>b\<leftarrow>banks. bank_interest y b))"
  using assms(1,4)
proof (induction banks arbitrary: acc)
  case (Cons b banks)
  have i: "interest_for_principal (stake_amount b) y = Some (bank_interest y b)" "bank_interest y b < 2 ^ 41"
    using Cons.prems(1) assms(2,3) interest_exact bank_interest_bounds by simp_all
  have s: "acc + bank_interest y b + length banks * 2 ^ 41 < 2 ^ 128" using Cons.prems(2) i(2) by simp
  then have "acc + bank_interest y b < 2 ^ 128" by linarith
  then show ?case using Cons.IH [OF _ s] Cons.prems(1) i(1) by (simp add: checked_add_def add.assoc)
qed simp

lemma expected_audit_exact:
  assumes "1 \<le> y" "y \<le> 100"
  shows "expected_audit y = Some \<lparr>audit_year = y, audit_bank_count = 43, audit_total_interest = year_interest y\<rparr>"
  using add_interests_exact [of CHINA_CH y 0] assms
  by (simp add: expected_audit_def year_interest_def joint_institutions_count(2) try_into_def)

lemma year_interest_small: "1 \<le> y \<Longrightarrow> y \<le> 100 \<Longrightarrow> year_interest y \<le> 43 * 2 ^ 41"
proof -
  assume y: "1 \<le> y" "y \<le> 100"
  have "(\<Sum>b\<leftarrow>banks. bank_interest y b) \<le> length banks * 2 ^ 41" if "set banks \<subseteq> set CHINA_CH" for banks
    using that
  proof (induction banks)
    case (Cons b bs)
    then have "bank_interest y b < 2 ^ 41" using bank_interest_bounds(2) y by simp
    with Cons show ?case by simp
  qed simp
  from this [of CHINA_CH] show ?thesis by (simp add: year_interest_def joint_institutions_count(2))
qed

definition interest_through :: "u32 \<Rightarrow> u128" where
  "interest_through y = (\<Sum>i = 1..y. year_interest i)"

lemma interest_through_small: "y \<le> 100 \<Longrightarrow> interest_through y \<le> y * (43 * 2 ^ 41)"
proof (induction y)
  case (Suc y)
  then show ?case using year_interest_small [of "Suc y"] by (simp add: interest_through_def)
qed (simp add: interest_through_def)

lemma expected_total_exact: "y \<le> 100 \<Longrightarrow> expected_total_through_year y = Some (interest_through y)"
proof (induction y)
  case (Suc y)
  have "interest_through y + year_interest (Suc y) = interest_through (Suc y)" by (simp add: interest_through_def)
  then have "interest_through y + year_interest (Suc y) < 2 ^ 128" using interest_through_small [OF Suc.prems] Suc.prems by simp
  with Suc show ?case by (simp add: expected_audit_exact checked_add_def interest_through_def)
qed (simp add: interest_through_def)

end
