(* ===== verification/Issuance_Schedule.thy ===== *)
theory Issuance_Schedule
  imports Issuance
begin

text \<open>
  What the issuance pallets come to over whole chains of blocks: the schedule is kept to the unit,
  every citizen and every account is rewarded at most once, and what is announced is what is paid.
\<close>

section \<open>Money and announcements\<close>

definition ACCOUNT_EXISTENTIAL_DEPOSIT :: u128 where "ACCOUNT_EXISTENTIAL_DEPOSIT = 111"

text \<open>
  Documented behaviour of the balances module: an amount that can create an account is deposited in full,
  unless the balance would leave its 128 bits.
\<close>

definition deposits_in_full :: "'b currency \<Rightarrow> bool" where
  "deposits_in_full c \<longleftrightarrow>
     (\<forall>a n b. ACCOUNT_EXISTENTIAL_DEPOSIT \<le> n \<and> free_balance c a b + n < 2 ^ 128 \<longrightarrow> fst (deposit_creating c a n b) = n)"

lemma plain_deposits_in_full: "deposits_in_full plain_currency"
  unfolding deposits_in_full_def plain_currency_def currency.select_convs ACCOUNT_EXISTENTIAL_DEPOSIT_def
  by (simp del: power_numeral)

fun credit_to :: "account \<Rightarrow> issuance_event \<Rightarrow> nat" where
  "credit_to x (FullnodeIssuanceIssued _ _ a n) = (if x = a then n else 0)"
| "credit_to x (CertificationRewardIssued a _ n) = (if x = a then n else 0)"
| "credit_to x (ProvincialBankInterestMinted _ a n) = (if x = a then n else 0)"
| "credit_to x _ = 0"

definition credited :: "account \<Rightarrow> issuance_event list \<Rightarrow> nat" where
  "credited x evs = (\<Sum>e\<leftarrow>evs. credit_to x e)"

lemma credited_simps [simp]:
  "credited x [] = 0" "credited x (e # evs) = credit_to x e + credited x evs"
  "credited x (evs @ evs') = credited x evs + credited x evs'"
  by (simp_all add: credited_def)

abbreviation held :: "'b currency \<Rightarrow> account \<Rightarrow> 'b issuance \<Rightarrow> nat" where
  "held c x s \<equiv> free_balance c x (mint_balances s)"

text \<open>From \<open>s\<close> to \<open>t\<close> the events \<open>evs\<close> were announced and exactly what they announce was credited.\<close>

definition mints :: "'b currency \<Rightarrow> issuance_event list \<Rightarrow> 'b issuance \<Rightarrow> 'b issuance \<Rightarrow> bool" where
  "mints c evs s t \<longleftrightarrow> mint_events t = mint_events s @ evs \<and>
     ((\<forall>x. held c x s + credited x evs < 2 ^ 128) \<longrightarrow> (\<forall>x. held c x t = held c x s + credited x evs))"

lemma mints_refl: "mint_events t = mint_events s \<Longrightarrow> mint_balances t = mint_balances s \<Longrightarrow> mints c [] s t"
  by (simp add: mints_def)

lemma mints_trans:
  assumes "mints c e s t" "mints c e' t u"
  shows "mints c (e @ e') s u"
proof -
  have "held c x u = held c x s + credited x (e @ e')"
    if "\<forall>x. held c x s + credited x (e @ e') < 2 ^ 128" for x
  proof -
    have "\<forall>x. held c x s + credited x e < 2 ^ 128"
    proof
      fix x show "held c x s + credited x e < 2 ^ 128" using spec [OF that, of x] unfolding credited_simps by linarith
    qed
    then have t: "\<forall>x. held c x t = held c x s + credited x e" using assms(1) by (simp only: mints_def simp_thms)
    then have "\<forall>x. held c x t + credited x e' < 2 ^ 128" using that unfolding credited_simps by (simp only: add.assoc simp_thms)
    then have "held c x u = held c x t + credited x e'" using assms(2) by (simp only: mints_def simp_thms)
    then show ?thesis using t by (simp only: credited_simps add.assoc)
  qed
  then show ?thesis using assms by (simp add: mints_def del: power_numeral credited_simps)
qed

lemma mints_nothing:
  assumes "mint_events t = mint_events s @ evs" "mint_balances t = mint_balances s" "\<And>x. credited x evs = 0"
  shows "mints c evs s t"
  using assms by (simp add: mints_def)

lemma mints_one:
  assumes "lawful_currency c" "deposits_in_full c" "ACCOUNT_EXISTENTIAL_DEPOSIT \<le> n" "\<And>x. credit_to x e = (if x = a then n else 0)"
    and "mint_events t = mint_events s @ [e]" "mint_balances t = mint_balances (mint c a n s)"
  shows "mints c [e] s t"
proof -
  have "held c x t = held c x s + credited x [e]" if room: "\<forall>x. held c x s + credited x [e] < 2 ^ 128" for x
  proof -
    obtain m b' where d: "deposit_creating c a n (mint_balances s) = (m, b')" by fastforce
    have "held c a s + n < 2 ^ 128" using spec [OF room, of a] by (simp only: credited_simps assms(4) if_True add_0_right simp_thms)
    with assms(2,3) have "fst (deposit_creating c a n (mint_balances s)) = n" unfolding deposits_in_full_def by blast
    then have "m = n" using d by simp
    then have "held c x t = held c x s + (if x = a then n else 0)"
      using lawful_deposit(2) [OF assms(1) d, of x] d assms(6) by (simp add: mint_def)
    then show ?thesis by (simp only: credited_simps assms(4) add_0_right)
  qed
  then show ?thesis using assms(5) unfolding mints_def by blast
qed

section \<open>Interest\<close>

definition interest_events :: "u32 \<Rightarrow> issuance_event list" where
  "interest_events y = map (\<lambda>b. ProvincialBankInterestMinted y (main_account b) (bank_interest y b)) CHINA_CH @
     [ProvincialBankYearSettled y 43 (year_interest y)]"

text \<open>Everything but balances and announcements.\<close>

definition same_books :: "'b issuance \<Rightarrow> 'b issuance \<Rightarrow> bool" where
  "same_books s t \<longleftrightarrow> (\<exists>b e. t = s\<lparr>mint_balances := b, mint_events := e\<rparr>)"

lemma same_books_trans: "same_books s t \<Longrightarrow> same_books t u \<Longrightarrow> same_books s u"
  unfolding same_books_def by (elim exE) (simp, blast)

lemma same_books_refl: "same_books s s"
  unfolding same_books_def by (rule exI [of _ "mint_balances s"], rule exI [of _ "mint_events s"]) simp

lemma same_books_mint [simp]: "same_books s (mint_event e (mint c a n s))" "same_books s (mint_event e s)"
proof -
  show "same_books s (mint_event e (mint c a n s))" unfolding same_books_def mint_event_def mint_def
    by (intro exI [of _ "snd (deposit_creating c a n (mint_balances s))"] exI [of _ "mint_events s @ [e]"]) simp
  show "same_books s (mint_event e s)" unfolding same_books_def mint_event_def
    by (intro exI [of _ "mint_balances s"] exI [of _ "mint_events s @ [e]"]) simp
qed

lemma same_books_fields:
  assumes "same_books s t"
  shows "RewardAccountIdByMiner t = RewardAccountIdByMiner s" "LastAuthoredBlockByMiner t = LastAuthoredBlockByMiner s"
    "RewardedBlockCount t = RewardedBlockCount s" "TotalFullnodeIssued t = TotalFullnodeIssued s"
    "LastRewardAudit t = LastRewardAudit s" "RewardedCount t = RewardedCount s"
    "IdentityRewardClaimed t = IdentityRewardClaimed s" "AccountRewarded t = AccountRewarded s"
    "PendingRewardCount t = PendingRewardCount s" "PendingRewards t = PendingRewards s"
    "PendingIdentityRewardClaimed t = PendingIdentityRewardClaimed s" "PendingAccountRewarded t = PendingAccountRewarded s"
    "LastSettledYear t = LastSettledYear s" "TotalProvincialBankInterestIssued t = TotalProvincialBankInterestIssued s"
    "LastProvincialBankInterestAudit t = LastProvincialBankInterestAudit s"
proof -
  obtain b e where t: "t = s\<lparr>mint_balances := b, mint_events := e\<rparr>" using assms unfolding same_books_def by blast
  show "RewardAccountIdByMiner t = RewardAccountIdByMiner s" "LastAuthoredBlockByMiner t = LastAuthoredBlockByMiner s"
    "RewardedBlockCount t = RewardedBlockCount s" "TotalFullnodeIssued t = TotalFullnodeIssued s"
    "LastRewardAudit t = LastRewardAudit s" "RewardedCount t = RewardedCount s"
    "IdentityRewardClaimed t = IdentityRewardClaimed s" "AccountRewarded t = AccountRewarded s"
    "PendingRewardCount t = PendingRewardCount s" "PendingRewards t = PendingRewards s"
    "PendingIdentityRewardClaimed t = PendingIdentityRewardClaimed s" "PendingAccountRewarded t = PendingAccountRewarded s"
    "LastSettledYear t = LastSettledYear s" "TotalProvincialBankInterestIssued t = TotalProvincialBankInterestIssued s"
    "LastProvincialBankInterestAudit t = LastProvincialBankInterestAudit s"
    by (simp_all add: t)
qed

lemma credit_banks_ok:
  assumes "set banks \<subseteq> set CHINA_CH" "1 \<le> y" "y \<le> 100" "acc + length banks * 2 ^ 41 < 2 ^ 128"
  shows "\<exists>t. credit_banks c y banks acc s = (Inr (acc + (\<Sum>b\<leftarrow>banks. bank_interest y b)), t) \<and> same_books s t \<and>
     mint_events t = mint_events s @ map (\<lambda>b. ProvincialBankInterestMinted y (main_account b) (bank_interest y b)) banks \<and>
     (lawful_currency c \<and> deposits_in_full c \<longrightarrow>
      mints c (map (\<lambda>b. ProvincialBankInterestMinted y (main_account b) (bank_interest y b)) banks) s t)"
  using assms(1,4)
proof (induction banks arbitrary: acc s)
  case Nil
  then show ?case by (simp add: same_books_refl mints_refl)
next
  case (Cons b banks)
  let ?i = "bank_interest y b" and ?e = "ProvincialBankInterestMinted y (main_account b) (bank_interest y b)"
  let ?u = "mint_event ?e (mint c (main_account b) ?i s)"
  have b: "b \<in> set CHINA_CH" and bs: "set banks \<subseteq> set CHINA_CH" using Cons.prems(1) by simp_all
  note i = interest_exact [OF b assms(2,3)] bank_interest_bounds [OF b assms(2,3)]
  have r: "acc + ?i + length banks * 2 ^ 41 < 2 ^ 128" using Cons.prems(2) i(3) by simp
  then have "acc + ?i < 2 ^ 128" by linarith
  then have step: "credit_banks c y (b # banks) acc s = credit_banks c y banks (acc + ?i) ?u"
    using i(1) bank_facts(3) [OF b] by (simp add: decode_account_def checked_add_def Let_def)
  have first: "lawful_currency c \<and> deposits_in_full c \<Longrightarrow> mints c [?e] s ?u"
    using i(2) by (intro mints_one [where a = "main_account b" and n = ?i]) (simp_all add: mint_event_def mint_def ACCOUNT_EXISTENTIAL_DEPOSIT_def)
  have books: "same_books s ?u" and ev: "mint_events ?u = mint_events s @ [?e]"
    by (rule same_books_mint, simp add: mint_event_def mint_def)
  from Cons.IH [OF bs r, of ?u] obtain t where t: "credit_banks c y banks (acc + ?i) ?u = (Inr (acc + ?i + (\<Sum>b\<leftarrow>banks. bank_interest y b)), t)"
    "same_books ?u t" "mint_events t = mint_events ?u @ map (\<lambda>b. ProvincialBankInterestMinted y (main_account b) (bank_interest y b)) banks"
    and m: "lawful_currency c \<and> deposits_in_full c \<Longrightarrow>
      mints c (map (\<lambda>b. ProvincialBankInterestMinted y (main_account b) (bank_interest y b)) banks) ?u t"
    by blast
  have "lawful_currency c \<and> deposits_in_full c \<Longrightarrow>
      mints c (map (\<lambda>b. ProvincialBankInterestMinted y (main_account b) (bank_interest y b)) (b # banks)) s t"
    using mints_trans [OF first m] by simp
  moreover have "same_books s t" using books t(2) by (rule same_books_trans)
  moreover have "credit_banks c y (b # banks) acc s = (Inr (acc + (\<Sum>b\<leftarrow>b # banks. bank_interest y b)), t)"
    unfolding step t(1) by (simp only: list.map sum_list.Cons add.assoc)
  moreover have "mint_events t = mint_events s @ map (\<lambda>b. ProvincialBankInterestMinted y (main_account b) (bank_interest y b)) (b # banks)"
    unfolding t(3) ev by (simp only: list.map append_assoc append_Cons append_Nil)
  ultimately show ?case by blast
qed

lemma settle_year_ok:
  assumes "per_year \<noteq> 0" "1 \<le> y" "y \<le> 100" "LastSettledYear s = y - 1" "TotalProvincialBankInterestIssued s = interest_through (y - 1)"
  shows "\<exists>t. settle_year c per_year y s = (Inr (), t) \<and>
     same_books (s\<lparr>TotalProvincialBankInterestIssued := interest_through y, LastSettledYear := y, LastProvincialBankInterestAudit := expected_audit y\<rparr>) t \<and>
     mint_events t = mint_events s @ interest_events y \<and>
     (lawful_currency c \<and> deposits_in_full c \<longrightarrow> mints c (interest_events y) s t)"
proof -
  have "(0::nat) + length CHINA_CH * 2 ^ 41 < 2 ^ 128" by (simp add: joint_institutions_count(2))
  from credit_banks_ok [OF subset_refl assms(2,3) this, of c s] obtain u where
    u: "credit_banks c y CHINA_CH 0 s = (Inr (year_interest y), u)" "same_books s u"
      "mint_events u = mint_events s @ map (\<lambda>b. ProvincialBankInterestMinted y (main_account b) (bank_interest y b)) CHINA_CH"
    and mu: "lawful_currency c \<and> deposits_in_full c \<Longrightarrow>
      mints c (map (\<lambda>b. ProvincialBankInterestMinted y (main_account b) (bank_interest y b)) CHINA_CH) s u"
    by (auto simp: year_interest_def)
  let ?t = "mint_event (ProvincialBankYearSettled y 43 (year_interest y))
    (u\<lparr>TotalProvincialBankInterestIssued := interest_through y, LastSettledYear := y, LastProvincialBankInterestAudit := expected_audit y\<rparr>)"
  obtain z where z: "y = Suc z" using assms(2) by (cases y) simp_all
  have sum: "interest_through (y - 1) + year_interest y = interest_through y" by (simp add: interest_through_def z)
  then have "interest_through (y - 1) + year_interest y < 2 ^ 128" using interest_through_small [OF assms(3)] assms(3) by simp
  then have "settle_year c per_year y s = (Inr (), ?t)"
    using assms(1,4,5) u(1) expected_audit_exact [OF assms(2,3)] same_books_fields [OF u(2)] sum
    by (simp add: settle_year_def sat_sub_def checked_add_def)
  moreover have "same_books (s\<lparr>TotalProvincialBankInterestIssued := interest_through y, LastSettledYear := y, LastProvincialBankInterestAudit := expected_audit y\<rparr>) ?t"
  proof -
    obtain b e where u': "u = s\<lparr>mint_balances := b, mint_events := e\<rparr>" using u(2) unfolding same_books_def by blast
    show ?thesis unfolding same_books_def mint_event_def u'
      by (intro exI [of _ b] exI [of _ "e @ [ProvincialBankYearSettled y 43 (year_interest y)]"]) simp
  qed
  moreover have "mint_events ?t = mint_events s @ interest_events y" using u(3) by (simp add: mint_event_def interest_events_def)
  moreover have "lawful_currency c \<and> deposits_in_full c \<Longrightarrow> mints c (interest_events y) s ?t"
    unfolding interest_events_def
    by (rule mints_trans [OF mu mints_nothing]) (simp_all add: mint_event_def)
  ultimately show ?thesis by blast
qed

definition interest_due :: "u64 \<Rightarrow> u32 \<Rightarrow> issuance_event list" where
  "interest_due per_year n = (case settlement_year per_year n of None \<Rightarrow> [] | Some y \<Rightarrow> interest_events y)"

text \<open>The books of the banks after block \<open>n\<close>.\<close>

definition interest_books :: "u64 \<Rightarrow> u32 \<Rightarrow> 'b issuance \<Rightarrow> bool" where
  "interest_books per_year n s \<longleftrightarrow> (let y = min (n div per_year) 100 in
     LastSettledYear s = y \<and> TotalProvincialBankInterestIssued s = interest_through y \<and>
     LastProvincialBankInterestAudit s = (if y = 0 then None else expected_audit y))"

lemma settlement_year_Some:
  assumes "settlement_year per_year n = Some y"
  shows "per_year \<noteq> 0" "1 \<le> y" "y \<le> 100" "y = n div per_year" "(n - 1) div per_year = y - 1"
proof -
  from assms have p: "per_year \<noteq> 0" "0 < n" "n mod per_year = 0" "y = n div per_year" "y \<le> 100"
    by (auto simp: settlement_year_def issuance_const_defs split: if_splits option.splits)
  then obtain k where k: "n = per_year * k" by (metis mod_0_imp_dvd dvdE)
  then have kp: "0 < k" "y = k" using p by simp_all
  then obtain j where j: "k = Suc j" by (cases k) simp_all
  have "n - 1 = per_year * j + (per_year - 1)" using k j p(1) by simp
  then have "(n - 1) div per_year = j" using p(1) by (metis Suc_pred add.commute add_diff_cancel_left' div_mult_self4 div_less lessI neq0_conv plus_1_eq_Suc add_0_right)
  then show "per_year \<noteq> 0" "1 \<le> y" "y \<le> 100" "y = n div per_year" "(n - 1) div per_year = y - 1" using p kp j by simp_all
qed

lemma settlement_year_None:
  assumes "settlement_year per_year n = None" "0 < n" "n < 2 ^ 32"
  shows "min (n div per_year) 100 = min ((n - 1) div per_year) 100"
proof (cases "per_year = 0 \<or> n mod per_year \<noteq> 0")
  case True
  then show ?thesis
  proof (cases "per_year = 0")
    case False
    with True have "n mod per_year \<noteq> 0" by simp
    then have "n div per_year = (n - 1) div per_year"
      using assms(2) False by (metis Suc_pred' div_Suc)
    then show ?thesis by simp
  qed simp
next
  case False
  then have "100 < n div per_year"
    using assms by (auto simp: settlement_year_def issuance_const_defs try_into_def split: if_splits option.splits)
  moreover have "n div per_year \<le> Suc ((n - 1) div per_year)"
    using assms(2) by (metis Suc_pred' div_Suc le_SucI order_refl)
  ultimately show ?thesis by simp
qed

lemma interest_hook:
  assumes "interest_books per_year (n - 1) s" "0 < n" "n < 2 ^ 32"
  shows "\<exists>t. interest_on_finalize c per_year n s = t \<and> interest_books per_year n t \<and>
     same_books (s\<lparr>TotalProvincialBankInterestIssued := TotalProvincialBankInterestIssued t, LastSettledYear := LastSettledYear t,
       LastProvincialBankInterestAudit := LastProvincialBankInterestAudit t\<rparr>) t \<and>
     mint_events t = mint_events s @ interest_due per_year n \<and>
     (lawful_currency c \<and> deposits_in_full c \<longrightarrow> mints c (interest_due per_year n) s t)"
proof (cases "settlement_year per_year n")
  case None
  from settlement_year_None [OF None assms(2,3)] have "interest_books per_year n s"
    using assms(1) by (simp add: interest_books_def)
  with None show ?thesis by (simp add: interest_on_finalize_def interest_due_def same_books_refl mints_refl)
next
  case (Some y)
  note y = settlement_year_Some [OF Some]
  have "LastSettledYear s = y - 1" "TotalProvincialBankInterestIssued s = interest_through (y - 1)"
    using assms(1) y(3,5) by (simp_all add: interest_books_def Let_def)
  from settle_year_ok [OF y(1,2,3) this, of c] obtain t where
    t: "settle_year c per_year y s = (Inr (), t)"
      "same_books (s\<lparr>TotalProvincialBankInterestIssued := interest_through y, LastSettledYear := y, LastProvincialBankInterestAudit := expected_audit y\<rparr>) t"
      "mint_events t = mint_events s @ interest_events y"
    and m: "lawful_currency c \<and> deposits_in_full c \<longrightarrow> mints c (interest_events y) s t" by blast
  note f = same_books_fields [OF t(2)]
  have "interest_books per_year n t" using f(13-15) y(2-4) by (simp add: interest_books_def Let_def)
  moreover have "interest_on_finalize c per_year n s = t" using Some t(1) by (simp add: interest_on_finalize_def with_transaction_def)
  ultimately show ?thesis using t(2,3) m f(13-15) Some by (simp add: interest_due_def)
qed

section \<open>Block rewards\<close>

definition fullnode_due :: "u32 \<Rightarrow> account option \<Rightarrow> 'b issuance \<Rightarrow> issuance_event list" where
  "fullnode_due n author s =
     (if n < 1 \<or> 9999999 < n then []
      else case author of
        None \<Rightarrow> [FullnodeIssuanceSkippedNoAuthor n]
      | Some a \<Rightarrow> [FullnodeIssuanceIssued n a (case RewardAccountIdByMiner s a of None \<Rightarrow> a | Some r \<Rightarrow> r) 999900])"

definition rewarded_block :: "u32 \<Rightarrow> account option \<Rightarrow> bool" where
  "rewarded_block n author \<longleftrightarrow> 1 \<le> n \<and> n \<le> 9999999 \<and> author \<noteq> None"

definition fullnode_books :: "nat \<Rightarrow> 'b issuance \<Rightarrow> bool" where
  "fullnode_books k s \<longleftrightarrow> RewardedBlockCount s = k \<and> TotalFullnodeIssued s = 999900 * k"

lemma fullnode_hook:
  assumes "fullnode_books k s" "k < 2 ^ 32 - 1"
  shows "\<exists>t. fullnode_on_finalize c n author s = t \<and> fullnode_books (k + (if rewarded_block n author then 1 else 0)) t \<and>
     same_books (s\<lparr>RewardedBlockCount := RewardedBlockCount t, TotalFullnodeIssued := TotalFullnodeIssued t,
       LastRewardAudit := LastRewardAudit t, LastAuthoredBlockByMiner := LastAuthoredBlockByMiner t\<rparr>) t \<and>
     mint_events t = mint_events s @ fullnode_due n author s \<and>
     (lawful_currency c \<and> deposits_in_full c \<longrightarrow> mints c (fullnode_due n author s) s t)"
proof (cases "rewarded_block n author")
  case True
  then obtain a where a: "author = Some a" "1 \<le> n" "n \<le> 9999999" by (auto simp: rewarded_block_def)
  let ?r = "case RewardAccountIdByMiner s a of None \<Rightarrow> a | Some r \<Rightarrow> r"
  let ?t = "reward_author c n a s"
  have reward: "sat_into 128 FULLNODE_BLOCK_REWARD = 999900" by (simp add: issuance_const_defs sat_into_def max_of_def)
  have t: "fullnode_on_finalize c n author s = ?t" using a by (simp add: fullnode_on_finalize_def issuance_const_defs)
  have due: "fullnode_due n author s = [FullnodeIssuanceIssued n a ?r 999900]" using a by (simp add: fullnode_due_def)
  have "fullnode_books (k + 1) ?t"
    using assms by (simp add: fullnode_books_def reward_author_def reward Let_def mint_event_def mint_def sat_add_def max_of_def)
  moreover have "same_books (s\<lparr>RewardedBlockCount := RewardedBlockCount ?t, TotalFullnodeIssued := TotalFullnodeIssued ?t,
       LastRewardAudit := LastRewardAudit ?t, LastAuthoredBlockByMiner := LastAuthoredBlockByMiner ?t\<rparr>) ?t"
    unfolding same_books_def
    by (rule exI [of _ "mint_balances ?t"], rule exI [of _ "mint_events ?t"])
      (simp add: reward_author_def reward Let_def mint_event_def mint_def)
  moreover have "mint_events ?t = mint_events s @ [FullnodeIssuanceIssued n a ?r 999900]"
    by (simp add: reward_author_def reward Let_def mint_event_def mint_def)
  moreover have "lawful_currency c \<and> deposits_in_full c \<Longrightarrow> mints c [FullnodeIssuanceIssued n a ?r 999900] s ?t"
    by (rule mints_one [where a = ?r and n = 999900])
      (simp_all add: reward_author_def reward Let_def mint_event_def mint_def ACCOUNT_EXISTENTIAL_DEPOSIT_def)
  ultimately show ?thesis using True t due by simp
next
  case False
  then have f: "fullnode_on_finalize c n author s = (if n < 1 \<or> 9999999 < n then s else mint_event (FullnodeIssuanceSkippedNoAuthor n) s)"
    "fullnode_due n author s = (if n < 1 \<or> 9999999 < n then [] else [FullnodeIssuanceSkippedNoAuthor n])"
    by (auto simp: rewarded_block_def fullnode_on_finalize_def fullnode_due_def issuance_const_defs split: option.splits)
  have m: "mints c [FullnodeIssuanceSkippedNoAuthor n] s (mint_event (FullnodeIssuanceSkippedNoAuthor n) s)"
    by (rule mints_nothing) (simp_all add: mint_event_def)
  show ?thesis
  proof (cases "n < 1 \<or> 9999999 < n")
    case idle: True
    have "same_books (s\<lparr>RewardedBlockCount := RewardedBlockCount s, TotalFullnodeIssued := TotalFullnodeIssued s,
       LastRewardAudit := LastRewardAudit s, LastAuthoredBlockByMiner := LastAuthoredBlockByMiner s\<rparr>) s"
      using same_books_refl [of s] by simp
    with idle f show ?thesis using False assms(1) by (simp only: if_True if_False simp_thms add_0_right append_Nil2 mints_refl)
  next
    case idle: False
    let ?t = "mint_event (FullnodeIssuanceSkippedNoAuthor n) s"
    have "same_books (s\<lparr>RewardedBlockCount := RewardedBlockCount ?t, TotalFullnodeIssued := TotalFullnodeIssued ?t,
       LastRewardAudit := LastRewardAudit ?t, LastAuthoredBlockByMiner := LastAuthoredBlockByMiner ?t\<rparr>) ?t"
      using same_books_mint(2) [of s "FullnodeIssuanceSkippedNoAuthor n"] by (simp add: mint_event_def)
    moreover have "mint_events ?t = mint_events s @ [FullnodeIssuanceSkippedNoAuthor n]" "fullnode_books k ?t"
      using assms(1) by (simp_all add: mint_event_def fullnode_books_def)
    ultimately show ?thesis using idle f m False by (simp only: if_True if_False simp_thms add_0_right)
  qed
qed

section \<open>Certification rewards\<close>

text \<open>The reference: a registration is rewarded if its number and its account are new and places are left.\<close>

fun admit :: "'b issuance_call \<Rightarrow> (account \<times> cid_number) list \<Rightarrow> (account \<times> cid_number) list" where
  "admit (RegisterCall a cid) rs =
     (if cid \<notin> snd ` set rs \<and> a \<notin> fst ` set rs \<and> length rs < 1443497378 then rs @ [(a, cid)] else rs)"
| "admit _ rs = rs"

definition admitted :: "'b issuance_call list \<Rightarrow> (account \<times> cid_number) list" where
  "admitted calls = fold admit calls []"

lemma admitted_snoc: "admitted (calls @ [x]) = admit x (admitted calls)"
  by (simp add: admitted_def)

lemma admitted_distinct:
  "distinct (map fst (admitted calls)) \<and> distinct (map snd (admitted calls)) \<and> length (admitted calls) \<le> 1443497378"
proof (induction calls rule: rev_induct)
  case (snoc x calls)
  then show ?case by (cases x) (auto simp: admitted_snoc)
qed (simp add: admitted_def)

fun cert_of :: "issuance_event \<Rightarrow> (account \<times> cid_number \<times> u128) list" where
  "cert_of (CertificationRewardIssued a cid n) = [(a, cid, n)]"
| "cert_of _ = []"

definition certified :: "'b issuance \<Rightarrow> (account \<times> cid_number \<times> u128) list" where
  "certified s = concat (map cert_of (mint_events s))"

definition pair_of :: "pending_certification_reward \<Rightarrow> account \<times> cid_number" where
  "pair_of p = (pc_account_id p, pc_cid_number p)"

text \<open>Paid so far \<open>rs\<close>, still to be paid \<open>ps\<close>.\<close>

definition citizen_core :: "(account \<times> cid_number) list \<Rightarrow> pending_certification_reward list \<Rightarrow> 'b issuance \<Rightarrow> bool" where
  "citizen_core rs ps s \<longleftrightarrow>
     certified s = map (\<lambda>i. (fst (rs ! i), snd (rs ! i), reward_amount_at i)) [0 ..< length rs] \<and>
     RewardedCount s = length rs \<and> length rs + length ps \<le> 1443497378 \<and>
     IdentityRewardClaimed s = snd ` set rs \<and> AccountRewarded s = fst ` set rs \<and>
     PendingIdentityRewardClaimed s = pc_cid_number ` set ps \<and> PendingAccountRewarded s = pc_account_id ` set ps \<and>
     distinct (map fst rs @ map pc_account_id ps) \<and> distinct (map snd rs @ map pc_cid_number ps)"

definition queued :: "u32 \<Rightarrow> pending_certification_reward list \<Rightarrow> 'b issuance \<Rightarrow> bool" where
  "queued m ps s \<longleftrightarrow> (\<forall>i. PendingRewards s i = (if m \<le> i \<and> i < m + length ps then Some (ps ! (i - m)) else None))"

definition citizen_books :: "(account \<times> cid_number) list \<Rightarrow> pending_certification_reward list \<Rightarrow> 'b issuance \<Rightarrow> bool" where
  "citizen_books rs ps s \<longleftrightarrow> citizen_core rs ps s \<and> queued 0 ps s \<and> PendingRewardCount s = length ps"

lemma citizen_books_frame:
  assumes "citizen_books rs ps s" "certified t = certified s" "RewardedCount t = RewardedCount s"
    "IdentityRewardClaimed t = IdentityRewardClaimed s" "AccountRewarded t = AccountRewarded s"
    "PendingRewardCount t = PendingRewardCount s" "PendingRewards t = PendingRewards s"
    "PendingIdentityRewardClaimed t = PendingIdentityRewardClaimed s" "PendingAccountRewarded t = PendingAccountRewarded s"
  shows "citizen_books rs ps t"
  using assms by (simp add: citizen_books_def citizen_core_def queued_def)

lemma reward_amount_small [simp]: "sat_into 128 (reward_amount_at n) = reward_amount_at n" "0 < reward_amount_at n"
  "111 \<le> reward_amount_at n"
  by (simp_all add: reward_amount_at_def issuance_const_defs sat_into_def max_of_def)

lemma register_books:
  assumes "citizen_books rs ps s"
  shows "\<exists>ps'. citizen_books rs ps' (on_voting_identity_registered a cid s) \<and>
     rs @ map pair_of ps' = admit (RegisterCall a cid) (rs @ map pair_of ps)"
proof -
  let ?p = "\<lparr>pc_account_id = a, pc_cid_number = cid\<rparr>"
  have fst_all: "fst ` set (rs @ map pair_of ps) = AccountRewarded s \<union> PendingAccountRewarded s"
    and snd_all: "snd ` set (rs @ map pair_of ps) = IdentityRewardClaimed s \<union> PendingIdentityRewardClaimed s"
    using assms by (simp_all add: citizen_books_def citizen_core_def pair_of_def image_Un image_image)
  have count: "sat_add 64 (RewardedCount s) (PendingRewardCount s) = length rs + length ps" "PendingRewardCount s = length ps"
    "length ps < 2 ^ 32 - 1"
    using assms by (simp_all add: citizen_books_def citizen_core_def sat_add_def max_of_def)
  show ?thesis
  proof (cases "cid \<notin> snd ` set (rs @ map pair_of ps) \<and> a \<notin> fst ` set (rs @ map pair_of ps) \<and> length (rs @ map pair_of ps) < 1443497378")
    case True
    let ?t = "s\<lparr>PendingRewards := (PendingRewards s)(length ps \<mapsto> ?p),
        PendingIdentityRewardClaimed := insert cid (PendingIdentityRewardClaimed s),
        PendingAccountRewarded := insert a (PendingAccountRewarded s), PendingRewardCount := length ps + 1\<rparr>"
    have "try_queue_certification_reward a cid s = (Inr (reward_amount_at (length rs + length ps)), ?t)"
      using True count unfolding fst_all snd_all
      by (simp add: try_queue_certification_reward_def issuance_const_defs Let_def checked_add_def)
    then have t: "on_voting_identity_registered a cid s = ?t" by (simp add: on_voting_identity_registered_def)
    have "citizen_core rs (ps @ [?p]) ?t"
      using assms True unfolding fst_all snd_all by (auto simp: citizen_books_def citizen_core_def certified_def)
    moreover have "queued 0 (ps @ [?p]) ?t"
      using assms by (auto simp: citizen_books_def queued_def nth_append less_Suc_eq)
    ultimately have "citizen_books rs (ps @ [?p]) ?t" by (simp add: citizen_books_def)
    moreover have "rs @ map pair_of (ps @ [?p]) = admit (RegisterCall a cid) (rs @ map pair_of ps)"
      using True by (simp add: pair_of_def)
    ultimately show ?thesis unfolding t by blast
  next
    case False
    have "\<exists>e. try_queue_certification_reward a cid s = (Inl e, s)"
      using False count(1) unfolding fst_all snd_all
      by (auto simp: try_queue_certification_reward_def ensure_def issuance_const_defs Let_def)
    then obtain e where "try_queue_certification_reward a cid s = (Inl e, s)" by blast
    then have "citizen_books rs ps (on_voting_identity_registered a cid s)"
      by (intro citizen_books_frame [OF assms])
        (simp_all add: on_voting_identity_registered_def mint_event_def certified_def)
    moreover have "admit (RegisterCall a cid) (rs @ map pair_of ps) = rs @ map pair_of ps" using False by (simp only: admit.simps if_False)
    ultimately show ?thesis by metis
  qed
qed

text \<open>What every call but a registration leaves alone.\<close>

lemma other_calls:
  assumes "\<And>a cid. x \<noteq> RegisterCall a cid"
  shows "\<exists>b m e. run_issuance_call x s = s\<lparr>mint_balances := b, RewardAccountIdByMiner := m, mint_events := mint_events s @ e\<rparr> \<and>
     concat (map cert_of e) = []"
proof (cases x)
  case (BindCall signer a)
  have "snd (bind_reward_account signer a s) = s \<or> (\<exists>miner. snd (bind_reward_account signer a s) =
      mint_event (RewardAccountBound miner a) (s\<lparr>RewardAccountIdByMiner := (RewardAccountIdByMiner s)(miner \<mapsto> a)\<rparr>))"
    by (auto simp: bind_reward_account_def with_transaction_def ensure_def ok_or_def split: option.splits)
  then consider "run_issuance_call x s = s"
    | miner where "run_issuance_call x s = mint_event (RewardAccountBound miner a) (s\<lparr>RewardAccountIdByMiner := (RewardAccountIdByMiner s)(miner \<mapsto> a)\<rparr>)"
    unfolding BindCall by auto
  then show ?thesis
  proof cases
    case 1
    then show ?thesis by (intro exI [of _ "mint_balances s"] exI [of _ "RewardAccountIdByMiner s"] exI [of _ "[]"]) simp
  next
    case 2
    then show ?thesis
      by (intro exI [of _ "mint_balances s"] exI [of _ "(RewardAccountIdByMiner s)(miner \<mapsto> a)"] exI [of _ "[RewardAccountBound miner a]"])
        (simp add: mint_event_def)
  qed
next
  case (RebindCall signer a)
  have "snd (rebind_reward_account signer a s) = s \<or> (\<exists>miner. snd (rebind_reward_account signer a s) =
      mint_event (RewardAccountRebound miner a) (s\<lparr>RewardAccountIdByMiner := (RewardAccountIdByMiner s)(miner \<mapsto> a)\<rparr>))"
    by (auto simp: rebind_reward_account_def with_transaction_def ensure_def ok_or_def split: option.splits)
  then consider "run_issuance_call x s = s"
    | miner where "run_issuance_call x s = mint_event (RewardAccountRebound miner a) (s\<lparr>RewardAccountIdByMiner := (RewardAccountIdByMiner s)(miner \<mapsto> a)\<rparr>)"
    unfolding RebindCall by auto
  then show ?thesis
  proof cases
    case 1
    then show ?thesis by (intro exI [of _ "mint_balances s"] exI [of _ "RewardAccountIdByMiner s"] exI [of _ "[]"]) simp
  next
    case 2
    then show ?thesis
      by (intro exI [of _ "mint_balances s"] exI [of _ "(RewardAccountIdByMiner s)(miner \<mapsto> a)"] exI [of _ "[RewardAccountRebound miner a]"])
        (simp add: mint_event_def)
  qed
next
  case (Elsewhere f)
  then show ?thesis by (intro exI [of _ "f (mint_balances s)"] exI [of _ "RewardAccountIdByMiner s"] exI [of _ "[]"]) simp
qed (use assms in simp)

lemma call_books:
  assumes "citizen_books rs ps s"
  shows "\<exists>ps'. citizen_books rs ps' (run_issuance_call x s) \<and> rs @ map pair_of ps' = admit x (rs @ map pair_of ps)"
proof (cases "\<exists>a cid. x = RegisterCall a cid")
  case True
  then show ?thesis using register_books [OF assms] by auto
next
  case False
  then obtain b m e where e: "run_issuance_call x s = s\<lparr>mint_balances := b, RewardAccountIdByMiner := m, mint_events := mint_events s @ e\<rparr>"
    "concat (map cert_of e) = []" using other_calls by metis
  have "citizen_books rs ps (run_issuance_call x s)"
    unfolding e(1) by (rule citizen_books_frame [OF assms]) (simp_all add: certified_def e(2))
  moreover have "admit x (rs @ map pair_of ps) = rs @ map pair_of ps" using False by (cases x) auto
  ultimately show ?thesis by metis
qed

lemma calls_books:
  assumes "citizen_books rs ps s"
  shows "\<exists>ps'. citizen_books rs ps' (fold run_issuance_call calls s) \<and> rs @ map pair_of ps' = fold admit calls (rs @ map pair_of ps)"
  using assms
proof (induction calls arbitrary: s ps)
  case (Cons x calls)
  from call_books [OF Cons.prems, of x] obtain ps' where "citizen_books rs ps' (run_issuance_call x s)"
    "rs @ map pair_of ps' = admit x (rs @ map pair_of ps)" by blast
  with Cons.IH [OF this(1)] show ?case by simp
qed auto

text \<open>Announcements for the citizens \<open>ps\<close>, of whom \<open>k\<close> were rewarded before.\<close>

fun certification_events :: "nat \<Rightarrow> pending_certification_reward list \<Rightarrow> issuance_event list" where
  "certification_events k [] = []"
| "certification_events k (p # ps) =
     CertificationRewardIssued (pc_account_id p) (pc_cid_number p) (reward_amount_at k) # certification_events (Suc k) ps"

lemma pay_head:
  assumes "citizen_core rs (p # ps) s" "queued m (p # ps) s"
  shows "citizen_core (rs @ [pair_of p]) ps (pay_pending c m s)" "queued (Suc m) ps (pay_pending c m s)"
    "mint_events (pay_pending c m s) = mint_events s @ certification_events (length rs) [p]"
    "lawful_currency c \<and> deposits_in_full c \<Longrightarrow> mints c (certification_events (length rs) [p]) s (pay_pending c m s)"
proof -
  let ?n = "reward_amount_at (length rs)" and ?t = "pay_pending c m s"
  have q: "PendingRewards s m = Some p" using assms(2) by (simp add: queued_def)
  have r: "RewardedCount s = length rs" "length rs + Suc (length ps) \<le> 1443497378" using assms(1) by (simp_all add: citizen_core_def)
  note unf = pay_pending_def q r(1) Let_def mint_event_def mint_def
  show ev: "mint_events ?t = mint_events s @ certification_events (length rs) [p]" by (simp add: unf)
  have "sat_add 64 (length rs) 1 = Suc (length rs)" using r(2) by (simp add: sat_add_def max_of_def)
  moreover have "certified ?t = certified s @ [(pc_account_id p, pc_cid_number p, ?n)]" by (simp add: certified_def ev)
  moreover have "map (\<lambda>i. (fst ((rs @ [pair_of p]) ! i), snd ((rs @ [pair_of p]) ! i), reward_amount_at i)) [0 ..< Suc (length rs)] =
      map (\<lambda>i. (fst (rs ! i), snd (rs ! i), reward_amount_at i)) [0 ..< length rs] @ [(pc_account_id p, pc_cid_number p, ?n)]"
    by (simp add: nth_append pair_of_def)
  ultimately show "citizen_core (rs @ [pair_of p]) ps ?t"
    using assms(1) by (auto simp: citizen_core_def unf pair_of_def)
  show "queued (Suc m) ps ?t" using assms(2) by (auto simp: queued_def unf nth_Cons' not_less_eq_eq Suc_diff_le split: nat.splits)
  show "lawful_currency c \<and> deposits_in_full c \<Longrightarrow> mints c (certification_events (length rs) [p]) s ?t"
    unfolding certification_events.simps
    by (rule mints_one [where a = "pc_account_id p" and n = ?n]) (simp_all add: unf ACCOUNT_EXISTENTIAL_DEPOSIT_def)
qed

lemma pay_pending_books: "same_books (s\<lparr>PendingRewards := PendingRewards (pay_pending c m s), RewardedCount := RewardedCount (pay_pending c m s),
    IdentityRewardClaimed := IdentityRewardClaimed (pay_pending c m s), AccountRewarded := AccountRewarded (pay_pending c m s),
    PendingIdentityRewardClaimed := PendingIdentityRewardClaimed (pay_pending c m s),
    PendingAccountRewarded := PendingAccountRewarded (pay_pending c m s)\<rparr>) (pay_pending c m s)"
proof (cases "PendingRewards s m")
  case None
  then show ?thesis using same_books_refl [of s] by (simp add: pay_pending_def)
next
  case (Some p)
  then show ?thesis unfolding same_books_def
    by (intro exI [of _ "mint_balances (pay_pending c m s)"] exI [of _ "mint_events (pay_pending c m s)"])
      (simp add: pay_pending_def Let_def mint_event_def mint_def)
qed

text \<open>The fields of the other two pallets, untouched by the citizens' loop.\<close>

definition other_books :: "'b issuance \<Rightarrow> (account \<rightharpoonup> account) \<times> (account \<rightharpoonup> u32) \<times> u32 \<times> u128 \<times>
    (u32 \<times> account \<times> account \<times> u128) option \<times> u32 \<times> u128 \<times> provincial_bank_interest_audit option" where
  "other_books s = (RewardAccountIdByMiner s, LastAuthoredBlockByMiner s, RewardedBlockCount s, TotalFullnodeIssued s,
     LastRewardAudit s, LastSettledYear s, TotalProvincialBankInterestIssued s, LastProvincialBankInterestAudit s)"

lemma pay_pending_other: "other_books (pay_pending c m s) = other_books s" "PendingRewardCount (pay_pending c m s) = PendingRewardCount s"
  using same_books_fields [OF pay_pending_books [of c m s]] by (simp_all add: other_books_def)

lemma pay_all:
  assumes "citizen_core rs ps s" "queued m ps s"
  shows "\<exists>t. fold (pay_pending c) [m ..< m + length ps] s = t \<and> citizen_core (rs @ map pair_of ps) [] t \<and> queued (m + length ps) [] t \<and>
     mint_events t = mint_events s @ certification_events (length rs) ps \<and> other_books t = other_books s \<and>
     PendingRewardCount t = PendingRewardCount s \<and>
     (lawful_currency c \<and> deposits_in_full c \<longrightarrow> mints c (certification_events (length rs) ps) s t)"
  using assms
proof (induction ps arbitrary: m rs s)
  case Nil
  then show ?case by (simp add: mints_refl)
next
  case (Cons p ps)
  let ?u = "pay_pending c m s"
  note h = pay_head [OF Cons.prems, of c]
  from Cons.IH [OF h(1,2)] obtain t where t: "fold (pay_pending c) [Suc m ..< Suc m + length ps] ?u = t"
    "citizen_core ((rs @ [pair_of p]) @ map pair_of ps) [] t" "queued (Suc m + length ps) [] t"
    "mint_events t = mint_events ?u @ certification_events (length (rs @ [pair_of p])) ps" "other_books t = other_books ?u"
    "PendingRewardCount t = PendingRewardCount ?u"
    and mt: "lawful_currency c \<and> deposits_in_full c \<Longrightarrow> mints c (certification_events (length (rs @ [pair_of p])) ps) ?u t"
    by blast
  have split: "certification_events (length rs) (p # ps) = certification_events (length rs) [p] @ certification_events (length (rs @ [pair_of p])) ps"
    by simp
  have "fold (pay_pending c) [m ..< m + length (p # ps)] s = t" proof -
    have "[m ..< m + length (p # ps)] = m # [Suc m ..< Suc m + length ps]" by (subst upt_conv_Cons) simp_all
    with t(1) show ?thesis by (simp only: fold_simps)
  qed
  moreover have "lawful_currency c \<and> deposits_in_full c \<Longrightarrow> mints c (certification_events (length rs) (p # ps)) s t"
    unfolding split by (rule mints_trans [OF h(4) mt])
  ultimately show ?case using t(2-6) h(3) pay_pending_other [of c m s] by simp
qed

lemma citizen_hook:
  assumes "citizen_books rs ps s"
  shows "\<exists>t. citizen_on_finalize c s = t \<and> citizen_books (rs @ map pair_of ps) [] t \<and> other_books t = other_books s \<and>
     mint_events t = mint_events s @ certification_events (length rs) ps \<and>
     (lawful_currency c \<and> deposits_in_full c \<longrightarrow> mints c (certification_events (length rs) ps) s t)"
proof -
  let ?s = "s\<lparr>PendingRewardCount := 0\<rparr>"
  have "citizen_core rs ps ?s" "queued 0 ps ?s" "PendingRewardCount s = length ps"
    using assms by (simp_all add: citizen_books_def citizen_core_def queued_def certified_def)
  from pay_all [OF this(1,2), of c] this(3) show ?thesis
    by (auto simp: citizen_on_finalize_def citizen_books_def queued_def other_books_def mints_def)
qed

section \<open>Blocks and chains\<close>

definition author_of :: "'e \<Rightarrow> ('e, 'b) block_content \<Rightarrow> account option" where
  "author_of engine blk = find_author engine (blk_digest blk)"

definition rewarded_blocks :: "'e \<Rightarrow> ('e, 'b) block_content list \<Rightarrow> nat" where
  "rewarded_blocks engine blks = length (filter (\<lambda>(n, blk). rewarded_block n (author_of engine blk)) (enumerate 1 blks))"

definition all_calls :: "('e, 'b) block_content list \<Rightarrow> 'b issuance_call list" where
  "all_calls blks = concat (map blk_calls blks)"

definition issuance_inv :: "u64 \<Rightarrow> u32 \<Rightarrow> nat \<Rightarrow> (account \<times> cid_number) list \<Rightarrow> pending_certification_reward list \<Rightarrow> 'b issuance \<Rightarrow> bool" where
  "issuance_inv per_year n k rs ps s \<longleftrightarrow> interest_books per_year n s \<and> fullnode_books k s \<and> citizen_books rs ps s"

lemma certified_append: "mint_events t = mint_events s @ evs \<Longrightarrow> concat (map cert_of evs) = [] \<Longrightarrow> certified t = certified s"
  by (simp add: certified_def)

lemma interest_due_uncertified: "concat (map cert_of (interest_due per_year n)) = []"
  by (auto simp: interest_due_def interest_events_def split: option.splits)

lemma fullnode_due_uncertified: "concat (map cert_of (fullnode_due n author s)) = []"
  by (auto simp: fullnode_due_def split: option.splits)

text \<open>Announcements at the end of block \<open>n\<close>.\<close>

definition block_events :: "u64 \<Rightarrow> u32 \<Rightarrow> account option \<Rightarrow> (account \<rightharpoonup> account) \<Rightarrow> nat \<Rightarrow> (account \<times> cid_number) list \<Rightarrow> issuance_event list" where
  "block_events per_year n author bound k newcomers = interest_due per_year n @
     (if n < 1 \<or> 9999999 < n then []
      else case author of
        None \<Rightarrow> [FullnodeIssuanceSkippedNoAuthor n]
      | Some a \<Rightarrow> [FullnodeIssuanceIssued n a (case bound a of None \<Rightarrow> a | Some r \<Rightarrow> r) 999900]) @
     map (\<lambda>(i, a, cid). CertificationRewardIssued a cid (reward_amount_at i)) (enumerate k newcomers)"

lemma certification_events_enumerate:
  "certification_events k ps = map (\<lambda>(i, a, cid). CertificationRewardIssued a cid (reward_amount_at i)) (enumerate k (map pair_of ps))"
  by (induction ps arbitrary: k) (simp_all add: pair_of_def)

lemma finalize_block:
  assumes "issuance_inv per_year (n - 1) k rs ps s" "0 < n" "n < 2 ^ 32" "k < 2 ^ 32 - 1"
  shows "\<exists>t. issuance_finalize c per_year n author s = t \<and>
     issuance_inv per_year n (k + (if rewarded_block n author then 1 else 0)) (rs @ map pair_of ps) [] t \<and>
     RewardAccountIdByMiner t = RewardAccountIdByMiner s \<and>
     mint_events t = mint_events s @ block_events per_year n author (RewardAccountIdByMiner s) (length rs) (map pair_of ps) \<and>
     (lawful_currency c \<and> deposits_in_full c \<longrightarrow>
      mints c (block_events per_year n author (RewardAccountIdByMiner s) (length rs) (map pair_of ps)) s t)"
proof -
  have inv: "interest_books per_year (n - 1) s" "fullnode_books k s" "citizen_books rs ps s" using assms(1) by (simp_all add: issuance_inv_def)
  from interest_hook [OF inv(1) assms(2,3), of c] obtain u where
    u: "interest_on_finalize c per_year n s = u" "interest_books per_year n u"
      "same_books (s\<lparr>TotalProvincialBankInterestIssued := TotalProvincialBankInterestIssued u, LastSettledYear := LastSettledYear u,
       LastProvincialBankInterestAudit := LastProvincialBankInterestAudit u\<rparr>) u" "mint_events u = mint_events s @ interest_due per_year n"
    and mu: "lawful_currency c \<and> deposits_in_full c \<longrightarrow> mints c (interest_due per_year n) s u" by blast
  note fu = same_books_fields [OF u(3), simplified]
  have "fullnode_books k u" using inv(2) fu by (simp add: fullnode_books_def)
  from fullnode_hook [OF this assms(4), of c n author] obtain v where
    v: "fullnode_on_finalize c n author u = v" "fullnode_books (k + (if rewarded_block n author then 1 else 0)) v"
      "same_books (u\<lparr>RewardedBlockCount := RewardedBlockCount v, TotalFullnodeIssued := TotalFullnodeIssued v,
       LastRewardAudit := LastRewardAudit v, LastAuthoredBlockByMiner := LastAuthoredBlockByMiner v\<rparr>) v"
      "mint_events v = mint_events u @ fullnode_due n author u"
    and mv: "lawful_currency c \<and> deposits_in_full c \<longrightarrow> mints c (fullnode_due n author u) u v" by blast
  note fv = same_books_fields [OF v(3), simplified]
  have "certified v = certified s"
    using certified_append [OF u(4) interest_due_uncertified] certified_append [OF v(4) fullnode_due_uncertified] by simp
  then have "citizen_books rs ps v" using fu fv by (intro citizen_books_frame [OF inv(3)]) simp_all
  from citizen_hook [OF this, of c] obtain t where
    t: "citizen_on_finalize c v = t" "citizen_books (rs @ map pair_of ps) [] t" "other_books t = other_books v"
      "mint_events t = mint_events v @ certification_events (length rs) ps"
    and mt: "lawful_currency c \<and> deposits_in_full c \<longrightarrow> mints c (certification_events (length rs) ps) v t" by blast
  have evs: "block_events per_year n author (RewardAccountIdByMiner s) (length rs) (map pair_of ps) =
      (interest_due per_year n @ fullnode_due n author u) @ certification_events (length rs) ps"
    using fu(1) by (simp add: block_events_def fullnode_due_def certification_events_enumerate split: option.split)
  have "lawful_currency c \<and> deposits_in_full c \<Longrightarrow> mints c ((interest_due per_year n @ fullnode_due n author u) @ certification_events (length rs) ps) s t"
    using mu mv mt mints_trans by blast
  moreover have "issuance_inv per_year n (k + (if rewarded_block n author then 1 else 0)) (rs @ map pair_of ps) [] t"
    using t(2,3) v(2) u(2) fv by (simp add: issuance_inv_def other_books_def fullnode_books_def interest_books_def Let_def)
  moreover have "RewardAccountIdByMiner t = RewardAccountIdByMiner s" using t(3) fu fv by (simp add: other_books_def)
  ultimately show ?thesis unfolding evs using u(1,4) v(1,4) t(1,4) by (simp add: issuance_finalize_def)
qed

lemma call_frame:
  "RewardedBlockCount (run_issuance_call x s) = RewardedBlockCount s"
  "TotalFullnodeIssued (run_issuance_call x s) = TotalFullnodeIssued s"
  "LastSettledYear (run_issuance_call x s) = LastSettledYear s"
  "TotalProvincialBankInterestIssued (run_issuance_call x s) = TotalProvincialBankInterestIssued s"
  "LastProvincialBankInterestAudit (run_issuance_call x s) = LastProvincialBankInterestAudit s"
proof -
  have "\<exists>t. run_issuance_call x s = t \<and> RewardedBlockCount t = RewardedBlockCount s \<and> TotalFullnodeIssued t = TotalFullnodeIssued s \<and>
      LastSettledYear t = LastSettledYear s \<and> TotalProvincialBankInterestIssued t = TotalProvincialBankInterestIssued s \<and>
      LastProvincialBankInterestAudit t = LastProvincialBankInterestAudit s"
  proof (cases "\<exists>a cid. x = RegisterCall a cid")
    case True
    then show ?thesis
      by (auto simp: on_voting_identity_registered_def try_queue_certification_reward_def ensure_def ok_or_def Let_def mint_event_def
          split: option.split)
  next
    case False
    then obtain b m e where "run_issuance_call x s = s\<lparr>mint_balances := b, RewardAccountIdByMiner := m, mint_events := mint_events s @ e\<rparr>"
      using other_calls by metis
    then show ?thesis by simp
  qed
  then show "RewardedBlockCount (run_issuance_call x s) = RewardedBlockCount s"
    "TotalFullnodeIssued (run_issuance_call x s) = TotalFullnodeIssued s"
    "LastSettledYear (run_issuance_call x s) = LastSettledYear s"
    "TotalProvincialBankInterestIssued (run_issuance_call x s) = TotalProvincialBankInterestIssued s"
    "LastProvincialBankInterestAudit (run_issuance_call x s) = LastProvincialBankInterestAudit s" by simp_all
qed

lemma calls_inv:
  assumes "issuance_inv per_year n k rs [] s"
  shows "\<exists>ps. issuance_inv per_year n k rs ps (fold run_issuance_call calls s) \<and> rs @ map pair_of ps = fold admit calls rs"
proof -
  have "interest_books per_year n (fold run_issuance_call calls s) \<and> fullnode_books k (fold run_issuance_call calls s)"
    if "interest_books per_year n s" "fullnode_books k s" for s
    using that by (induction calls arbitrary: s) (simp_all add: interest_books_def fullnode_books_def call_frame)
  moreover have "citizen_books rs [] s" using assms by (simp add: issuance_inv_def)
  from calls_books [OF this, of calls] obtain ps where "citizen_books rs ps (fold run_issuance_call calls s)"
    "rs @ map pair_of ps = fold admit calls rs" by auto
  ultimately show ?thesis using assms unfolding issuance_inv_def by blast
qed

lemma rewarded_blocks_snoc:
  "rewarded_blocks engine (blks @ [blk]) =
     rewarded_blocks engine blks + (if rewarded_block (Suc (length blks)) (author_of engine blk) then 1 else 0)"
  by (simp add: rewarded_blocks_def enumerate_append_eq)

lemma rewarded_blocks_bounds: "rewarded_blocks engine blks \<le> length blks \<and> rewarded_blocks engine blks \<le> 9999999"
proof (induction blks rule: rev_induct)
  case (snoc blk blks)
  then show ?case by (auto simp: rewarded_blocks_snoc rewarded_block_def)
qed (simp add: rewarded_blocks_def)

lemma run_snoc:
  "issuance_run c per_year engine (blks @ [blk]) s = issuance_block c per_year engine (Suc (length blks)) blk (issuance_run c per_year engine blks s)"
  by (simp add: issuance_run_def enumerate_append_eq)

lemma admitted_append: "admitted (xs @ ys) = fold admit ys (admitted xs)"
  by (simp add: admitted_def)

lemma genesis_inv: "issuance_inv per_year 0 0 [] [] (issuance_genesis b)"
  by (simp add: issuance_inv_def interest_books_def fullnode_books_def citizen_books_def citizen_core_def queued_def
      issuance_genesis_def certified_def interest_through_def)

lemma run_inv:
  assumes "length blks < 2 ^ 32"
  shows "issuance_inv per_year (length blks) (rewarded_blocks engine blks) (admitted (all_calls blks)) []
     (issuance_run c per_year engine blks (issuance_genesis b))"
  using assms
proof (induction blks rule: rev_induct)
  case Nil
  then show ?case using genesis_inv [of per_year b] by (simp add: rewarded_blocks_def admitted_def all_calls_def issuance_run_def)
next
  case (snoc blk blks)
  let ?s = "issuance_run c per_year engine blks (issuance_genesis b)" and ?k = "rewarded_blocks engine blks" and ?n = "Suc (length blks)"
  have "issuance_inv per_year (length blks) ?k (admitted (all_calls blks)) [] ?s" using snoc by simp
  from calls_inv [OF this, of "blk_calls blk"] obtain ps where
    ps: "issuance_inv per_year (?n - 1) ?k (admitted (all_calls blks)) ps (fold run_issuance_call (blk_calls blk) ?s)"
      "admitted (all_calls blks) @ map pair_of ps = admitted (all_calls (blks @ [blk]))"
    by (auto simp: all_calls_def admitted_append)
  have "?k < 2 ^ 32 - 1" using rewarded_blocks_bounds [of engine blks] by simp
  from finalize_block [OF ps(1) _ _ this, of c "author_of engine blk"] snoc.prems ps(2) show ?case
    by (simp add: run_snoc issuance_block_def author_of_def rewarded_blocks_snoc)
qed

text \<open>
  C14. The issuance schedule is kept to the unit. After any chain of blocks from genesis, with any
  calls of miners, registrations of citizens and other activity: the number of rewarded blocks is the
  number of blocks up to 9,999,999 whose author is known, each worth the fixed reward, so that the total never exceeds its
  cap; the provincial banks have been settled for exactly the full years passed, at most 100,
  and the total interest is the sum over years and banks of one percent less one basis point a year; the
  pallet's self-check succeeds; and the certification rewards paid are exactly those of the first
  registrations, in their order (a new number, a new account, places left), each once per citizen and once
  per account, with the amount of its place in the queue, and nothing is left pending.
\<close>

theorem issuance_schedule:
  assumes "length blks < 2 ^ 32" "0 < per_year"
  shows "let s = issuance_run c per_year engine blks (issuance_genesis b);
       k = rewarded_blocks engine blks; y = min (length blks div per_year) 100; rs = admitted (all_calls blks) in
     RewardedBlockCount s = k \<and> TotalFullnodeIssued s = FULLNODE_BLOCK_REWARD * k \<and> TotalFullnodeIssued s \<le> FULLNODE_TOTAL_ISSUANCE \<and>
     LastSettledYear s = y \<and>
     TotalProvincialBankInterestIssued s = (\<Sum>i = 1..y. \<Sum>bank\<leftarrow>CHINA_CH. stake_amount bank * (101 - i) div 10000) \<and>
     interest_try_state per_year (length blks) s \<and>
     certified s = map (\<lambda>i. (fst (rs ! i), snd (rs ! i), reward_amount_at i)) [0 ..< length rs] \<and>
     RewardedCount s = length rs \<and> length rs \<le> CITIZEN_ISSUANCE_MAX_COUNT \<and>
     distinct (map fst rs) \<and> distinct (map snd rs) \<and> PendingRewardCount s = 0"
proof -
  let ?s = "issuance_run c per_year engine blks (issuance_genesis b)"
  have inv: "interest_books per_year (length blks) ?s" "fullnode_books (rewarded_blocks engine blks) ?s"
    "citizen_books (admitted (all_calls blks)) [] ?s"
    using run_inv [OF assms(1), of per_year engine c b] by (simp_all add: issuance_inv_def)
  let ?y = "min (length blks div per_year) 100"
  have "length blks div per_year < 2 ^ 32" using assms(1) div_le_dividend [of "length blks" per_year] by linarith
  then have "interest_try_state per_year (length blks) ?s"
    using inv(1) assms(2) expected_total_exact [of ?y] expected_audit_exact [of ?y]
    by (auto simp: interest_try_state_def interest_books_def Let_def issuance_const_defs)
  moreover have "TotalProvincialBankInterestIssued ?s = (\<Sum>i = 1..?y. \<Sum>bank\<leftarrow>CHINA_CH. stake_amount bank * (101 - i) div 10000)"
    using inv(1) by (simp add: interest_books_def interest_through_def year_interest_def bank_interest_def Let_def)
  ultimately show ?thesis
    using inv rewarded_blocks_bounds [of engine blks] admitted_distinct [of "all_calls blks"]
    by (simp add: Let_def fullnode_books_def citizen_books_def citizen_core_def interest_books_def issuance_const_defs)
qed

definition sample_block :: "(unit, account \<Rightarrow> u128) block_content" where
  "sample_block = \<lparr>blk_calls = [RegisterCall 5 ''A'', RegisterCall 6 ''A'', RegisterCall 5 ''B''], blk_digest = [((), replicate 32 1)]\<rparr>"

theorem issuance_schedule_witness:
  "let s = issuance_run plain_currency BLOCKS_PER_YEAR () [sample_block] (issuance_genesis (\<lambda>_. 0)) in
   RewardedBlockCount s = 1 \<and> TotalFullnodeIssued s = 999900 \<and> LastSettledYear s = 0 \<and>
   RewardedCount s = 1 \<and> certified s = [(5, ''A'', 999900)]"
proof -
  have "rewarded_blocks () [sample_block] = 1"
    by (simp add: rewarded_blocks_def rewarded_block_def author_of_def sample_block_def)
  moreover have "admitted (all_calls [sample_block]) = [(5, ''A'')]" by (simp add: admitted_def all_calls_def sample_block_def)
  moreover have "reward_amount_at 0 = 999900" by (simp add: reward_amount_at_def issuance_const_defs)
  ultimately show ?thesis
    using issuance_schedule [of "[sample_block]" BLOCKS_PER_YEAR plain_currency "()" "\<lambda>_. 0"]
    by (simp add: Let_def BLOCKS_PER_YEAR_def FULLNODE_BLOCK_REWARD_def)
qed

section \<open>What is announced is paid\<close>

lemma credited_le: "(\<And>e. e \<in> set evs \<Longrightarrow> credit_to x e \<le> m) \<Longrightarrow> credited x evs \<le> m * length evs"
proof (induction evs)
  case (Cons e evs)
  have "credit_to x e \<le> m" "credited x evs \<le> m * length evs" using Cons by simp_all
  then show ?case by simp
qed simp

lemma block_events_credit: "e \<in> set (block_events per_year n author bound k newcomers) \<Longrightarrow> credit_to x e \<le> 2 ^ 41"
proof -
  have "reward_amount_at i \<le> 2 ^ 41" for i by (simp add: reward_amount_at_def issuance_const_defs)
  moreover have "credit_to x e \<le> 2 ^ 41" if "e \<in> set (interest_due per_year n)"
  proof (cases "settlement_year per_year n")
    case (Some y)
    with that settlement_year_Some [OF Some] bank_interest_bounds(2) [THEN less_imp_le] show ?thesis
      by (auto simp: interest_due_def interest_events_def)
  qed (use that in \<open>simp add: interest_due_def\<close>)
  ultimately show "e \<in> set (block_events per_year n author bound k newcomers) \<Longrightarrow> credit_to x e \<le> 2 ^ 41"
    by (auto simp: block_events_def split: if_splits option.splits)
qed

lemma block_events_length: "length (block_events per_year n author bound k newcomers) \<le> 45 + length newcomers"
proof -
  have "length (interest_due per_year n) \<le> 44"
    by (simp add: interest_due_def interest_events_def joint_institutions_count(2) split: option.split)
  then show ?thesis by (auto simp: block_events_def split: option.split)
qed

lemma room_for_block:
  assumes "length newcomers \<le> 1443497378" "held c x t < 2 ^ 127"
  shows "held c x t + credited x (block_events per_year n author bound k newcomers) < 2 ^ 128"
proof -
  let ?evs = "block_events per_year n author bound k newcomers"
  have "credited x ?evs \<le> 2 ^ 41 * length ?evs" by (rule credited_le) (rule block_events_credit)
  also have "\<dots> \<le> 2 ^ 41 * (45 + 1443497378)" using block_events_length [of per_year n author bound k newcomers] assms(1) by simp
  also have "\<dots> < 2 ^ 127" by simp
  finally show ?thesis using assms(2) by simp
qed

text \<open>
  C15. What is announced is paid, and nothing else. At the end of any block of any chain, the three
  hooks announce: in the last block of one of the first hundred years, the interest of each provincial bank to its main account;
  up to block 9,999,999, the block reward to the account bound to the author, or to the author; and the reward of
  each citizen first registered in this block, in order. Every account's balance grows by exactly
  the sum announced for it and no other balance changes.
\<close>

theorem issuance_paid:
  assumes "lawful_currency c" "deposits_in_full c" "length blks + 1 < 2 ^ 32"
    and "t = fold run_issuance_call calls (issuance_run c per_year engine blks (issuance_genesis b))" "\<forall>x. held c x t < 2 ^ 127"
  shows "let old = admitted (all_calls blks); newcomers = drop (length old) (admitted (all_calls blks @ calls));
       u = issuance_finalize c per_year (length blks + 1) author t;
       evs = block_events per_year (length blks + 1) author (RewardAccountIdByMiner t) (length old) newcomers in
     admitted (all_calls blks @ calls) = old @ newcomers \<and> mint_events u = mint_events t @ evs \<and>
     (\<forall>x. held c x u = held c x t + credited x evs)"
proof -
  let ?k = "rewarded_blocks engine blks" and ?n = "length blks + 1" and ?old = "admitted (all_calls blks)"
  have "length blks < 2 ^ 32" using assms(3) by simp
  from calls_inv [OF run_inv [OF this, of per_year engine c b], of calls] obtain ps where
    ps: "issuance_inv per_year (?n - 1) ?k ?old ps t" "?old @ map pair_of ps = admitted (all_calls blks @ calls)"
    by (auto simp: admitted_append assms(4))
  have k: "?k < 2 ^ 32 - 1" using rewarded_blocks_bounds [of engine blks] by simp
  have new: "drop (length ?old) (admitted (all_calls blks @ calls)) = map pair_of ps" using ps(2) [symmetric] by simp
  let ?evs = "block_events per_year ?n author (RewardAccountIdByMiner t) (length ?old) (map pair_of ps)"
  from finalize_block [OF ps(1) _ assms(3) k, of c author] have ev: "mint_events (issuance_finalize c per_year ?n author t) = mint_events t @ ?evs"
    and m: "mints c ?evs t (issuance_finalize c per_year ?n author t)" using assms(1,2) by auto
  have "length (map pair_of ps) \<le> 1443497378"
    using admitted_distinct [of "all_calls blks @ calls"] ps(2) [symmetric] by simp
  then have "\<forall>x. held c x t + credited x ?evs < 2 ^ 128" using room_for_block assms(5) by blast
  then have "\<forall>x. held c x (issuance_finalize c per_year ?n author t) = held c x t + credited x ?evs" using m unfolding mints_def by blast
  then show ?thesis unfolding Let_def new using ev ps(2) by simp
qed

theorem issuance_paid_witness:
  "let t = fold run_issuance_call [BindCall (Some 7) 8, RegisterCall 5 ''A''] (issuance_genesis (\<lambda>_. 1000));
       u = issuance_finalize plain_currency 1 1 (Some 7) t in
   held plain_currency 8 u = 1000900 \<and> held plain_currency 5 u = 1000900 \<and> held plain_currency 7 u = 1000"
proof -
  let ?calls = "[BindCall (Some 7) 8, RegisterCall 5 ''A''] :: (account \<Rightarrow> u128) issuance_call list"
  define t where "t = fold run_issuance_call ?calls (issuance_genesis (\<lambda>_. 1000))"
  have t: "mint_balances t = (\<lambda>_. 1000)" "RewardAccountIdByMiner t 7 = Some 8"
    by (simp_all add: t_def issuance_genesis_def bind_reward_account_def with_transaction_def mint_event_def on_voting_identity_registered_def
        try_queue_certification_reward_def Let_def sat_add_def checked_add_def issuance_const_defs reward_amount_at_def sat_into_def max_of_def)
  have held: "held plain_currency x t = 1000" for x by (simp add: t(1) plain_currency_def plain_balance_def)
  have run: "t = fold run_issuance_call ?calls (issuance_run plain_currency 1 () [] (issuance_genesis (\<lambda>_. 1000)))"
    by (simp add: issuance_run_def t_def)
  have new: "admitted (all_calls ([] :: (unit, account \<Rightarrow> u128) block_content list) @ ?calls) = [(5, ''A'')]"
    "admitted (all_calls ([] :: (unit, account \<Rightarrow> u128) block_content list)) = []"
    by (simp_all add: admitted_def all_calls_def)
  have banks: "credited x (interest_events 1) = 0" if "x \<in> {5, 7, 8}" for x
  proof -
    have far: "\<forall>b \<in> set CHINA_CH. 100 < main_account b" by (simp add: CHINA_CH_def)
    have "credit_to x e \<le> 0" if "e \<in> set (interest_events 1)" for e
      using that \<open>x \<in> {5, 7, 8}\<close> far by (auto simp: interest_events_def)
    from credited_le [OF this] show ?thesis by simp
  qed
  have due: "interest_due 1 1 = interest_events 1"
    by (simp add: interest_due_def settlement_year_def issuance_const_defs try_into_def)
  have rw: "reward_amount_at 0 = 999900" by (simp add: reward_amount_at_def issuance_const_defs)
  have small: "\<forall>x. held plain_currency x t < 2 ^ 127" by (simp only: held) simp
  have "\<forall>x. held plain_currency x (issuance_finalize plain_currency 1 1 (Some 7) t) = held plain_currency x t +
      credited x (block_events 1 1 (Some 7) (RewardAccountIdByMiner t) 0 [(5, ''A'')])"
    using issuance_paid [OF plain_lawful plain_deposits_in_full _ run small, of "Some 7"] unfolding new
    by (simp add: Let_def)
  then show ?thesis unfolding Let_def t_def [symmetric] using banks [of 5] banks [of 7] banks [of 8] by (simp add: block_events_def due [simplified] held t(2) rw)
qed

end
