(* ===== verification/Institution_Funds.thy ===== *)
theory Institution_Funds
  imports Voting_Types
begin

text \<open>
  Accounts of institutions: the reserved account names (\<^verbatim>\<open>primitives/src/account_derive.rs\<close>) and the
  rule that says what may be spent from which account (\<^verbatim>\<open>primitives/src/institution_asset.rs\<close>,
  \<open>RuntimeInstitutionAsset\<close> of \<^verbatim>\<open>src/configs.rs\<close>).
\<close>

type_synonym account_name = "u8 list"

text \<open>The reserved account names, in UTF-8.\<close>

definition ACCOUNT_NAME_MAIN :: account_name where
  "ACCOUNT_NAME_MAIN = [0xE4, 0xB8, 0xBB, 0xE8, 0xB4, 0xA6, 0xE6, 0x88, 0xB7]"
definition ACCOUNT_NAME_FEE :: account_name where
  "ACCOUNT_NAME_FEE = [0xE8, 0xB4, 0xB9, 0xE7, 0x94, 0xA8, 0xE8, 0xB4, 0xA6, 0xE6, 0x88, 0xB7]"
definition ACCOUNT_NAME_CLEARING :: account_name where
  "ACCOUNT_NAME_CLEARING = [0xE6, 0xB8, 0x85, 0xE7, 0xAE, 0x97, 0xE8, 0xB4, 0xA6, 0xE6, 0x88, 0xB7]"

datatype institution_asset_action =
    InstitutionCreateFunding | MultisigTransferExecute | MultisigCloseExecute | OffchainFeeSweepExecute
  | NrcSafetyFundTransfer | L3DepositIn | L3WithdrawOut | L2ClearingDebit

text \<open>The classes of accounts the runtime distinguishes; they come from its tables and registries.\<close>

record account_classes =
  is_stake_account :: "account \<Rightarrow> bool"
  is_reserved_fee_account :: "account \<Rightarrow> bool"
  is_cb_fee_account :: "account \<Rightarrow> bool"
  is_citizenchain_fee_account :: "account \<Rightarrow> bool"
  SAFETY_FUND_ACCOUNT :: account
  is_reserved_main_account :: "account \<Rightarrow> bool"
  is_clearing_account :: "account \<Rightarrow> bool"
  is_federal_citizen_security_fund_account :: "account \<Rightarrow> bool"

definition can_spend :: "account_classes \<Rightarrow> account \<Rightarrow> institution_asset_action \<Rightarrow> bool" where
  "can_spend k source act =
     (if is_stake_account k source then False
      else if is_reserved_fee_account k source then act = OffchainFeeSweepExecute
      else if is_cb_fee_account k source then act = OffchainFeeSweepExecute
      else if is_citizenchain_fee_account k source then act = OffchainFeeSweepExecute
      else if source = SAFETY_FUND_ACCOUNT k then act = NrcSafetyFundTransfer
      else if is_reserved_main_account k source then act \<in> {InstitutionCreateFunding, MultisigTransferExecute, MultisigCloseExecute}
      else if is_clearing_account k source then act \<in> {L2ClearingDebit, L3WithdrawOut}
      else if is_federal_citizen_security_fund_account k source then act = MultisigTransferExecute
      else True)"

text \<open>What the rule comes to, account class by account class.\<close>

lemma can_spend_stake: "is_stake_account k a \<Longrightarrow> \<not> can_spend k a act"
  by (simp add: can_spend_def)

lemma can_spend_by_transfer:
  "can_spend k a MultisigTransferExecute \<longleftrightarrow>
     \<not> is_stake_account k a \<and> \<not> is_reserved_fee_account k a \<and> \<not> is_cb_fee_account k a \<and> \<not> is_citizenchain_fee_account k a \<and>
     a \<noteq> SAFETY_FUND_ACCOUNT k \<and> (is_reserved_main_account k a \<or> \<not> is_clearing_account k a)"
  by (auto simp: can_spend_def)

lemma can_spend_safety_fund: "can_spend k (SAFETY_FUND_ACCOUNT k) act \<Longrightarrow> act \<in> {NrcSafetyFundTransfer, OffchainFeeSweepExecute}"
  by (auto simp: can_spend_def split: if_splits)

end
