(* ===== verification/Clearing.thy ===== *)
theory Clearing
  imports Fee_Policy Runtime_Config Institution_Funds "HOL-Library.Char_ord" "HOL-Library.List_Lexorder"
begin

text \<open>
  Clearing banks for scan-to-pay (\<^verbatim>\<open>transaction/offchain/src\<close>): users bind to a bank, deposit and
  withdraw; banks settle batches of signed payments and set their fee rate; banks declare their
  nodes. The registry of institutions, signatures and hashes are parameters.
\<close>

section \<open>Data\<close>

type_synonym role_code = string
type_synonym hash = nat
type_synonym signature = "u8 list"

definition ACTION_OFFCHAIN_SUBMIT_BATCH :: u32 where "ACTION_OFFCHAIN_SUBMIT_BATCH = 34"
definition ACTION_OFFCHAIN_PROPOSE_FEE_RATE :: u32 where "ACTION_OFFCHAIN_PROPOSE_FEE_RATE = 40"
definition ACTION_OFFCHAIN_REGISTER_BANK :: u32 where "ACTION_OFFCHAIN_REGISTER_BANK = 50"
definition ACTION_OFFCHAIN_UPDATE_BANK_ENDPOINT :: u32 where "ACTION_OFFCHAIN_UPDATE_BANK_ENDPOINT = 51"
definition ACTION_OFFCHAIN_UNREGISTER_BANK :: u32 where "ACTION_OFFCHAIN_UNREGISTER_BANK = 52"

record payment_intent =
  pi_tx_id :: hash
  pi_payer_account_id :: account
  pi_payer_bank_cid :: cid_number
  pi_recipient_account_id :: account
  pi_recipient_bank_cid :: cid_number
  pi_amount :: u128
  pi_fee :: u128
  pi_nonce :: u64
  pi_expires_at :: u32

record offchain_batch_item =
  tx_id :: hash
  payer_account_id :: account
  payer_bank_cid :: cid_number
  recipient_account_id :: account
  recipient_bank_cid :: cid_number
  transfer_amount :: u128
  fee_amount :: u128
  payer_sig :: signature
  payer_nonce :: u64
  expires_at :: u32

definition to_intent :: "offchain_batch_item \<Rightarrow> payment_intent" where
  "to_intent x = \<lparr>pi_tx_id = tx_id x, pi_payer_account_id = payer_account_id x, pi_payer_bank_cid = payer_bank_cid x,
     pi_recipient_account_id = recipient_account_id x, pi_recipient_bank_cid = recipient_bank_cid x,
     pi_amount = transfer_amount x, pi_fee = fee_amount x, pi_nonce = payer_nonce x, pi_expires_at = expires_at x\<rparr>"

record clearing_bank_node_info =
  node_peer_id :: string
  rpc_domain :: string
  rpc_port :: u16
  registered_at :: u32
  registrar_account_id :: account

datatype clearing_error =
    InvalidTransferAmount | InvalidFeeAmount | SelfPaymentNotAllowed | TransferAmountTooLarge | EmptyBatch
  | InstitutionMismatch | UnauthorizedAdmin | ExpiredIntent | L2FeeRateNotConfigured | InvalidL3Signature
  | InvalidL2FeeRate | SolvencyProtected | TxAlreadyProcessed | InvalidBatchSignature | InvalidBatchSeq | UserBankMismatch
  | NotRegisteredClearingBank | NotMainAccount | NotPrivateInstitution | ClearingBankAccountNotFound
  | FeeAccountNameTooLong | FeeAccountNotFound | ClearingAccountNotFound | AlreadyHasBank | NoOpenedBank
  | NewBankSameAsCurrent | MustClearBalanceFirst | DepositAmountTooSmall | WithdrawAmountTooSmall | InsufficientDepositBalance
  | InsufficientBankLiquidity | DepositForbidden | WithdrawForbidden | ClearingDebitForbidden | L3NonceOverflow | InvalidL3Nonce
  | EmptyActorCidNumber | EmptyPeerId | InvalidPeerIdFormat | EmptyRpcDomain | InvalidRpcDomainFormat | InvalidRpcPort
  | NotEligibleForClearingBank | ClearingBankAlreadyRegistered | ClearingBankNodeNotFound | PeerIdAlreadyRegistered
  | ClearingBankNotRegisteredAsNode | ClearingBatchOnchainFeeUnpaid
  | BalancesError | BadClearingOrigin

datatype offchain_event =
    BankBound account cid_number
  | Deposited account cid_number u128
  | Withdrawn account cid_number u128
  | BankSwitched account cid_number cid_number
  | L2FeeRateProposedEvent cid_number u32 u32
  | L2FeeRateActivated cid_number u32
  | MaxL2FeeRateUpdated u32
  | PaymentSettled hash account cid_number account cid_number u128 u128
  | ClearingBankBatchSettled cid_number account u32 u128
  | ClearingBankRegistered cid_number string string u16 account
  | ClearingBankEndpointUpdated cid_number string u16 account
  | ClearingBankUnregistered cid_number account

section \<open>Storage and environment\<close>

record 'b clearing =
  purse :: "'b money"
  UserBank :: "account \<rightharpoonup> cid_number"
  DepositBalance :: "cid_number \<Rightarrow> (account \<times> u128) list"
  BankTotalDeposits :: "cid_number \<Rightarrow> u128"
  L3PaymentNonce :: "account \<Rightarrow> u64"
  L2FeeRateBp :: "cid_number \<Rightarrow> u32"
  L2FeeRateProposed :: "(cid_number \<times> u32 \<times> u32) list"
  MaxL2FeeRateBp :: u32
  ProcessedOffchainTx :: "(string \<times> hash) set"
  ProcessedOffchainTxAt :: "string \<times> hash \<rightharpoonup> u32"
  LastClearingBatchSeq :: "cid_number \<Rightarrow> u64"
  ClearingBankNodes :: "cid_number \<rightharpoonup> clearing_bank_node_info"
  NodePeerToInstitution :: "string \<rightharpoonup> cid_number"
  clearing_events :: "offchain_event list"

text \<open>
  The environment of one call: the fee machinery with its currency, the account classes, the registry of
  institutions and roles, hashing and signature verification, the block number and the order in which the
  storage layer iterates.
\<close>

record 'b clearing_env =
  fees :: "'b fee_env"
  classes :: account_classes
  account_info :: "account \<Rightarrow> (cid_number \<times> account_name) option"
  find_account :: "cid_number \<Rightarrow> account_name \<Rightarrow> account option"
  account_exists :: "account \<Rightarrow> bool"
  is_institution_role_authorized :: "cid_number \<Rightarrow> role_code \<Rightarrow> account \<Rightarrow> u32 \<Rightarrow> bool"
  signing_hash :: "payment_intent \<Rightarrow> hash"
  batch_signing_hash :: "cid_number \<Rightarrow> role_code \<Rightarrow> account \<Rightarrow> u64 \<Rightarrow> offchain_batch_item list \<Rightarrow> hash"
  sr25519_verify :: "signature \<Rightarrow> hash \<Rightarrow> account \<Rightarrow> bool"
  block_now :: u32
  rate_iter :: "(cid_number \<times> u32 \<times> u32) list \<Rightarrow> (cid_number \<times> u32 \<times> u32) list"
  clearing_db_weight :: "nat \<Rightarrow> nat \<Rightarrow> weight"

abbreviation cur :: "'b clearing_env \<Rightarrow> 'b currency" where
  "cur ce \<equiv> currency_of (fees ce)"

definition clearing_event :: "offchain_event \<Rightarrow> 'b clearing \<Rightarrow> 'b clearing" where
  "clearing_event e s = s\<lparr>clearing_events := clearing_events s @ [e]\<rparr>"

definition deposit_of :: "cid_number \<Rightarrow> account \<Rightarrow> 'b clearing \<Rightarrow> u128" where
  "deposit_of cid u s = (case map_of (DepositBalance s cid) u of None \<Rightarrow> 0 | Some d \<Rightarrow> d)"

definition set_deposit :: "cid_number \<Rightarrow> account \<Rightarrow> u128 \<Rightarrow> 'b clearing \<Rightarrow> 'b clearing" where
  "set_deposit cid u d s = s\<lparr>DepositBalance := (DepositBalance s)(cid := kv_insert u d (DepositBalance s cid))\<rparr>"

definition set_bank_total :: "cid_number \<Rightarrow> u128 \<Rightarrow> 'b clearing \<Rightarrow> 'b clearing" where
  "set_bank_total cid t s = s\<lparr>BankTotalDeposits := (BankTotalDeposits s)(cid := t)\<rparr>"

text \<open>\<open>Currency::transfer\<close> with \<open>KeepAlive\<close>, on the purse.\<close>

definition pay :: "'b clearing_env \<Rightarrow> account \<Rightarrow> account \<Rightarrow> u128 \<Rightarrow> clearing_error \<Rightarrow> 'b clearing \<Rightarrow> (clearing_error, unit, 'b clearing) outcome" where
  "pay ce a d n e s =
     (case transfer_keep_alive (cur ce) a d n (balances (purse s)) of
        (True, b) \<Rightarrow> (Inr (), s\<lparr>purse := (purse s)\<lparr>balances := b\<rparr>\<rparr>)
      | (False, b) \<Rightarrow> (Inl e, s\<lparr>purse := (purse s)\<lparr>balances := b\<rparr>\<rparr>))"

section \<open>Which banks can be bound\<close>

definition subject_property_is_private_institution :: "cid_number \<Rightarrow> bool" where
  "subject_property_is_private_institution cid \<longleftrightarrow> 6 < length cid \<and> cid ! 5 = CHR ''-'' \<and> cid ! 6 \<in> {CHR ''S'', CHR ''F''}"

definition clearing_account_of :: "'b clearing_env \<Rightarrow> cid_number \<Rightarrow> account option" where
  "clearing_account_of ce cid = find_account ce cid ACCOUNT_NAME_CLEARING"

definition fee_account_of :: "'b clearing_env \<Rightarrow> cid_number \<Rightarrow> account option" where
  "fee_account_of ce cid = find_account ce cid ACCOUNT_NAME_FEE"

text \<open>Eligibility on chain is registration of the account.\<close>

definition is_clearing_bank_eligible :: "'b clearing_env \<Rightarrow> account \<Rightarrow> bool" where
  "is_clearing_bank_eligible ce a = account_exists ce a"

definition is_registered_clearing_node :: "'b clearing_env \<Rightarrow> account \<Rightarrow> 'b clearing \<Rightarrow> bool" where
  "is_registered_clearing_node ce bank s =
     (case account_info ce bank of
        None \<Rightarrow> False
      | Some (cid, _) \<Rightarrow> length cid \<le> CID_NUMBER_MAX_BYTES \<and> ClearingBankNodes s cid \<noteq> None)"

definition ensure_can_be_bound :: "'b clearing_env \<Rightarrow> cid_number \<Rightarrow> 'b clearing \<Rightarrow> (clearing_error, unit, 'b clearing) outcome" where
  "ensure_can_be_bound ce cid s =
     ensure (subject_property_is_private_institution cid) NotPrivateInstitution s (\<lambda>s.
     ok_or (find_account ce cid ACCOUNT_NAME_MAIN) NotRegisteredClearingBank s (\<lambda>main.
     ensure (account_exists ce main) ClearingBankAccountNotFound s (\<lambda>s.
     ensure (is_clearing_bank_eligible ce main) NotEligibleForClearingBank s (\<lambda>s.
     ensure (is_registered_clearing_node ce main s) ClearingBankNotRegisteredAsNode s (\<lambda>s.
     ok_or (clearing_account_of ce cid) ClearingAccountNotFound s (\<lambda>_.
     (Inr (), s)))))))"

definition ensure_institution_account ::
  "'b clearing_env \<Rightarrow> cid_number \<Rightarrow> account \<Rightarrow> account_name \<Rightarrow> 'b clearing \<Rightarrow> (clearing_error, unit, 'b clearing) outcome" where
  "ensure_institution_account ce cid a name s =
     ok_or (account_info ce a) NotRegisteredClearingBank s (\<lambda>(c, n).
     ensure (c = cid) InstitutionMismatch s (\<lambda>s.
     ensure (n = name) NotMainAccount s (\<lambda>s.
     ensure (account_exists ce a) ClearingBankAccountNotFound s (\<lambda>s.
     (Inr (), s)))))"

definition is_clearing_bank_account :: "'b clearing_env \<Rightarrow> account \<Rightarrow> bool" where
  "is_clearing_bank_account ce a =
     (case account_info ce a of
        Some (cid, _) \<Rightarrow> subject_property_is_private_institution cid \<and> account_exists ce a
      | None \<Rightarrow> False)"

section \<open>Binding, deposits and withdrawals\<close>

definition do_bind_clearing_bank :: "'b clearing_env \<Rightarrow> account \<Rightarrow> cid_number \<Rightarrow> 'b clearing \<Rightarrow> (clearing_error, unit, 'b clearing) outcome" where
  "do_bind_clearing_bank ce user cid s =
     ensure (UserBank s user = None) AlreadyHasBank s (\<lambda>s.
     and_then (ensure_can_be_bound ce cid s) (\<lambda>_ s.
     (Inr (), clearing_event (BankBound user cid)
        (set_deposit cid user 0 (s\<lparr>UserBank := (UserBank s)(user \<mapsto> cid)\<rparr>)))))"

definition do_deposit :: "'b clearing_env \<Rightarrow> account \<Rightarrow> u128 \<Rightarrow> 'b clearing \<Rightarrow> (clearing_error, unit, 'b clearing) outcome" where
  "do_deposit ce user amount s =
     ensure (0 < amount) DepositAmountTooSmall s (\<lambda>s.
     ok_or (UserBank s user) NoOpenedBank s (\<lambda>cid.
     ok_or (clearing_account_of ce cid) ClearingAccountNotFound s (\<lambda>pool.
     ensure (can_spend (classes ce) user L3DepositIn) DepositForbidden s (\<lambda>s.
     and_then (pay ce user pool amount BalancesError s) (\<lambda>_ s.
     let s = set_deposit cid user (sat_add 128 (deposit_of cid user s) amount) s;
         s = set_bank_total cid (sat_add 128 (BankTotalDeposits s cid) amount) s
     in (Inr (), clearing_event (Deposited user cid amount) s))))))"

definition do_withdraw :: "'b clearing_env \<Rightarrow> account \<Rightarrow> u128 \<Rightarrow> 'b clearing \<Rightarrow> (clearing_error, unit, 'b clearing) outcome" where
  "do_withdraw ce user amount s =
     ensure (0 < amount) WithdrawAmountTooSmall s (\<lambda>s.
     ok_or (UserBank s user) NoOpenedBank s (\<lambda>cid.
     ensure (amount \<le> deposit_of cid user s) InsufficientDepositBalance s (\<lambda>s.
     ok_or (clearing_account_of ce cid) ClearingAccountNotFound s (\<lambda>pool.
     ensure (can_spend (classes ce) pool L3WithdrawOut) WithdrawForbidden s (\<lambda>s.
     and_then (pay ce pool user amount InsufficientBankLiquidity s) (\<lambda>_ s.
     let s = set_deposit cid user (sat_sub (deposit_of cid user s) amount) s;
         s = set_bank_total cid (sat_sub (BankTotalDeposits s cid) amount) s
     in (Inr (), clearing_event (Withdrawn user cid amount) s)))))))"

definition do_switch_bank :: "'b clearing_env \<Rightarrow> account \<Rightarrow> cid_number \<Rightarrow> 'b clearing \<Rightarrow> (clearing_error, unit, 'b clearing) outcome" where
  "do_switch_bank ce user new s =
     ok_or (UserBank s user) NoOpenedBank s (\<lambda>old.
     ensure (old \<noteq> new) NewBankSameAsCurrent s (\<lambda>s.
     ensure (deposit_of old user s = 0) MustClearBalanceFirst s (\<lambda>s.
     and_then (ensure_can_be_bound ce new s) (\<lambda>_ s.
     let s = s\<lparr>DepositBalance := (DepositBalance s)(old := kv_remove user (DepositBalance s old)), UserBank := (UserBank s)(user \<mapsto> new)\<rparr>
     in (Inr (), clearing_event (BankSwitched user old new) (set_deposit new user 0 s))))))"

section \<open>Solvency and nonces\<close>

definition ensure_can_debit :: "'b clearing_env \<Rightarrow> cid_number \<Rightarrow> u128 \<Rightarrow> 'b clearing \<Rightarrow> (clearing_error, unit, 'b clearing) outcome" where
  "ensure_can_debit ce cid debit s =
     ok_or (clearing_account_of ce cid) ClearingAccountNotFound s (\<lambda>pool.
     let onchain = free_balance (cur ce) pool (balances (purse s)); deposits = BankTotalDeposits s cid in
     ok_or (checked_sub onchain debit) InsufficientBankLiquidity s (\<lambda>left.
     ensure (deposits \<le> left) SolvencyProtected s (\<lambda>s. (Inr (), s))))"

definition solvency_ratio_bp :: "'b clearing_env \<Rightarrow> cid_number \<Rightarrow> 'b clearing \<Rightarrow> u32" where
  "solvency_ratio_bp ce cid s =
     (case clearing_account_of ce cid of
        None \<Rightarrow> 0
      | Some pool \<Rightarrow>
          let onchain = free_balance (cur ce) pool (balances (purse s)); deposits = BankTotalDeposits s cid in
          if deposits = 0 then max_of 32 else min (sat_mul 128 onchain 10000 div deposits) (max_of 32))"

definition consume_nonce :: "account \<Rightarrow> u64 \<Rightarrow> 'b clearing \<Rightarrow> (clearing_error, unit, 'b clearing) outcome" where
  "consume_nonce payer submitted s =
     ok_or (checked_add 64 (L3PaymentNonce s payer) 1) L3NonceOverflow s (\<lambda>expected.
     if submitted \<noteq> expected then (Inl InvalidL3Nonce, s)
     else (Inr (), s\<lparr>L3PaymentNonce := (L3PaymentNonce s)(payer := submitted)\<rparr>))"

definition next_nonce :: "account \<Rightarrow> 'b clearing \<Rightarrow> u64" where
  "next_nonce payer s = sat_add 64 (L3PaymentNonce s payer) 1"

section \<open>Fee rates\<close>

definition L2_FEE_RATE_BP_MIN :: u32 where "L2_FEE_RATE_BP_MIN = OFFCHAIN_FEE_RATE_MIN div 100000"
definition L2_FEE_RATE_BP_MAX :: u32 where "L2_FEE_RATE_BP_MAX = OFFCHAIN_FEE_RATE_MAX div 100000"
definition RATE_CHANGE_DELAY_BLOCKS :: u64 where "RATE_CHANGE_DELAY_BLOCKS = 7 * BLOCKS_PER_DAY"
definition MAX_L2_FEE_ACTIVATIONS_PER_BLOCK :: nat where "MAX_L2_FEE_ACTIVATIONS_PER_BLOCK = 32"

definition do_propose_l2_fee_rate ::
  "'b clearing_env \<Rightarrow> account \<Rightarrow> cid_number \<Rightarrow> role_code \<Rightarrow> account \<Rightarrow> u32 \<Rightarrow> 'b clearing \<Rightarrow> (clearing_error, unit, 'b clearing) outcome" where
  "do_propose_l2_fee_rate ce who cid role inst rate s =
     and_then (ensure_institution_account ce cid inst ACCOUNT_NAME_MAIN s) (\<lambda>_ s.
     and_then (ensure_can_be_bound ce cid s) (\<lambda>_ s.
     ensure (is_institution_role_authorized ce cid role who ACTION_OFFCHAIN_PROPOSE_FEE_RATE) UnauthorizedAdmin s (\<lambda>s.
     let upper = max (MaxL2FeeRateBp s) L2_FEE_RATE_BP_MAX in
     ensure (L2_FEE_RATE_BP_MIN \<le> rate \<and> rate \<le> upper) InvalidL2FeeRate s (\<lambda>s.
     let effective = sat_add 32 (block_now ce) (sat_into 32 RATE_CHANGE_DELAY_BLOCKS) in
     (Inr (), clearing_event (L2FeeRateProposedEvent cid rate effective)
        (s\<lparr>L2FeeRateProposed := kv_insert cid (rate, effective) (L2FeeRateProposed s)\<rparr>))))))"

text \<open>The first loop of the block hook: the due proposals, at most 32, and the number of entries read.\<close>

fun collect_due :: "u32 \<Rightarrow> nat \<Rightarrow> (cid_number \<times> u32 \<times> u32) list \<Rightarrow> (cid_number \<times> u32) list \<times> nat" where
  "collect_due now room [] = ([], 0)"
| "collect_due now room ((bank, rate, effective) # rest) =
     (if effective \<le> now then
        (if room \<le> 1 then ([(bank, rate)], 1)
         else case collect_due now (room - 1) rest of (due, reads) \<Rightarrow> ((bank, rate) # due, Suc reads))
      else case collect_due now room rest of (due, reads) \<Rightarrow> (due, Suc reads))"

definition activate_rate :: "cid_number \<times> u32 \<Rightarrow> 'b clearing \<Rightarrow> 'b clearing" where
  "activate_rate = (\<lambda>(bank, rate) s. clearing_event (L2FeeRateActivated bank rate)
     (s\<lparr>L2FeeRateBp := (L2FeeRateBp s)(bank := rate), L2FeeRateProposed := kv_remove bank (L2FeeRateProposed s)\<rparr>))"

definition activate_pending_rates :: "'b clearing_env \<Rightarrow> 'b clearing \<Rightarrow> weight \<times> 'b clearing" where
  "activate_pending_rates ce s =
     (case collect_due (block_now ce) MAX_L2_FEE_ACTIVATIONS_PER_BLOCK (rate_iter ce (L2FeeRateProposed s)) of
        (due, reads) \<Rightarrow>
          (((\<lambda>w. w_add w (clearing_db_weight ce 0 3)) ^^ length due) (((\<lambda>w. w_add w (clearing_db_weight ce 1 0)) ^^ reads) weight_zero),
           fold activate_rate due s))"

definition do_set_max_l2_fee_rate :: "u32 \<Rightarrow> 'b clearing \<Rightarrow> (clearing_error, unit, 'b clearing) outcome" where
  "do_set_max_l2_fee_rate new_max s =
     ensure (L2_FEE_RATE_BP_MIN \<le> new_max \<and> new_max \<le> L2_FEE_RATE_BP_MAX) InvalidL2FeeRate s (\<lambda>s.
     (Inr (), clearing_event (MaxL2FeeRateUpdated new_max) (s\<lparr>MaxL2FeeRateBp := new_max\<rparr>)))"

definition current_rate_bp :: "cid_number \<Rightarrow> 'b clearing \<Rightarrow> u32" where
  "current_rate_bp cid s = L2FeeRateBp s cid"

section \<open>Settlement\<close>

definition calc_fee :: "u128 \<Rightarrow> u32 \<Rightarrow> u128 option" where
  "calc_fee amount rate =
     (case checked_mul 128 amount rate of
        None \<Rightarrow> None
      | Some numerator \<Rightarrow>
          let rounded = (if 5000 \<le> numerator mod 10000 then numerator div 10000 + 1 else numerator div 10000)
          in Some (max rounded OFFCHAIN_MIN_FEE))"

text \<open>The sums per paying bank, in a map ordered by key.\<close>

fun btree_add :: "cid_number \<Rightarrow> u128 \<Rightarrow> (cid_number \<times> u128) list \<Rightarrow> (cid_number \<times> u128) list" where
  "btree_add k d [] = [(k, sat_add 128 0 d)]"
| "btree_add k d ((j, t) # rest) =
     (if k < j then (k, sat_add 128 0 d) # (j, t) # rest
      else if k = j then (j, sat_add 128 t d) # rest
      else (j, t) # btree_add k d rest)"

definition item_debit :: "offchain_batch_item \<Rightarrow> u128" where
  "item_debit x = (if payer_bank_cid x = recipient_bank_cid x then fee_amount x else sat_add 128 (transfer_amount x) (fee_amount x))"

definition check_item :: "'b clearing_env \<Rightarrow> cid_number \<Rightarrow> offchain_batch_item \<Rightarrow> 'b clearing \<Rightarrow> (clearing_error, unit, 'b clearing) outcome" where
  "check_item ce actor x s =
     ensure (recipient_bank_cid x = actor) InstitutionMismatch s (\<lambda>s.
     ensure (0 < transfer_amount x) InvalidTransferAmount s (\<lambda>s.
     ensure (payer_account_id x \<noteq> recipient_account_id x) SelfPaymentNotAllowed s (\<lambda>s.
     ensure (block_now ce \<le> expires_at x) ExpiredIntent s (\<lambda>s.
     ensure (UserBank s (payer_account_id x) = Some (payer_bank_cid x)) UserBankMismatch s (\<lambda>s.
     ensure (UserBank s (recipient_account_id x) = Some (recipient_bank_cid x)) UserBankMismatch s (\<lambda>s.
     and_then (if payer_bank_cid x \<noteq> recipient_bank_cid x then ensure_can_be_bound ce (payer_bank_cid x) s else (Inr (), s)) (\<lambda>_ s.
     let rate = current_rate_bp (recipient_bank_cid x) s in
     ensure (0 < rate) L2FeeRateNotConfigured s (\<lambda>s.
     ok_or (calc_fee (transfer_amount x) rate) TransferAmountTooLarge s (\<lambda>expected.
     ensure (fee_amount x = expected) InvalidFeeAmount s (\<lambda>s.
     (Inr (), s)))))))))))"

fun check_items ::
  "'b clearing_env \<Rightarrow> cid_number \<Rightarrow> offchain_batch_item list \<Rightarrow> (cid_number \<times> u128) list \<Rightarrow> u128 \<Rightarrow> 'b clearing \<Rightarrow>
   (clearing_error, (cid_number \<times> u128) list \<times> u128, 'b clearing) outcome" where
  "check_items ce actor [] debits fee s = (Inr (debits, fee), s)"
| "check_items ce actor (x # xs) debits fee s =
     and_then (check_item ce actor x s) (\<lambda>_ s.
     check_items ce actor xs (btree_add (payer_bank_cid x) (item_debit x) debits) (sat_add 128 fee (fee_amount x)) s)"

fun check_solvency ::
  "'b clearing_env \<Rightarrow> (cid_number \<times> u128) list \<Rightarrow> u128 \<Rightarrow> 'b clearing \<Rightarrow> (clearing_error, u128, 'b clearing) outcome" where
  "check_solvency ce [] debit s = (Inr debit, s)"
| "check_solvency ce ((cid, d) # rest) debit s =
     and_then (ensure_can_debit ce cid d s) (\<lambda>_ s. check_solvency ce rest (sat_add 128 debit d) s)"

definition province_shard_from_cid :: "cid_number \<Rightarrow> string option" where
  "province_shard_from_cid cid = (if length cid < 2 then None else Some (take 2 cid))"

definition settle_same_bank ::
  "'b clearing_env \<Rightarrow> offchain_batch_item \<Rightarrow> account \<Rightarrow> account \<Rightarrow> u128 \<Rightarrow> 'b clearing \<Rightarrow> (clearing_error, unit, 'b clearing) outcome" where
  "settle_same_bank ce x pool fee_account debit s =
     (let cid = payer_bank_cid x;
          s = set_deposit cid (payer_account_id x) (sat_sub (deposit_of cid (payer_account_id x) s) debit) s;
          s = set_deposit cid (recipient_account_id x) (sat_add 128 (deposit_of cid (recipient_account_id x) s) (transfer_amount x)) s;
          s = set_bank_total cid (sat_sub (BankTotalDeposits s cid) (fee_amount x)) s
      in pay ce pool fee_account (fee_amount x) BalancesError s)"

definition settle_cross_bank ::
  "'b clearing_env \<Rightarrow> offchain_batch_item \<Rightarrow> account \<Rightarrow> account \<Rightarrow> u128 \<Rightarrow> 'b clearing \<Rightarrow> (clearing_error, unit, 'b clearing) outcome" where
  "settle_cross_bank ce x pool fee_account debit s =
     ok_or (clearing_account_of ce (recipient_bank_cid x)) ClearingAccountNotFound s (\<lambda>recipient_pool.
     and_then (pay ce pool recipient_pool (transfer_amount x) BalancesError s) (\<lambda>_ s.
     and_then (pay ce pool fee_account (fee_amount x) BalancesError s) (\<lambda>_ s.
     let p = payer_bank_cid x; r = recipient_bank_cid x;
         s = set_deposit p (payer_account_id x) (sat_sub (deposit_of p (payer_account_id x) s) debit) s;
         s = set_deposit r (recipient_account_id x) (sat_add 128 (deposit_of r (recipient_account_id x) s) (transfer_amount x)) s;
         s = set_bank_total p (sat_sub (BankTotalDeposits s p) debit) s;
         s = set_bank_total r (sat_add 128 (BankTotalDeposits s r) (transfer_amount x)) s
     in (Inr (), s))))"

definition execute_single_item :: "'b clearing_env \<Rightarrow> offchain_batch_item \<Rightarrow> 'b clearing \<Rightarrow> (clearing_error, unit, 'b clearing) outcome" where
  "execute_single_item ce x s =
     ensure (length (payer_sig x) = 64) InvalidL3Signature s (\<lambda>s.
     ensure (sr25519_verify ce (payer_sig x) (signing_hash ce (to_intent x)) (payer_account_id x)) InvalidL3Signature s (\<lambda>s.
     and_then (consume_nonce (payer_account_id x) (payer_nonce x) s) (\<lambda>_ s.
     ok_or (province_shard_from_cid (payer_bank_cid x)) InstitutionMismatch s (\<lambda>shard.
     ensure ((shard, tx_id x) \<notin> ProcessedOffchainTx s) TxAlreadyProcessed s (\<lambda>s.
     ok_or (clearing_account_of ce (payer_bank_cid x)) ClearingAccountNotFound s (\<lambda>pool.
     ok_or (fee_account_of ce (recipient_bank_cid x)) FeeAccountNotFound s (\<lambda>fee_account.
     ensure (can_spend (classes ce) pool L2ClearingDebit) ClearingDebitForbidden s (\<lambda>s.
     let debit = sat_add 128 (transfer_amount x) (fee_amount x) in
     ensure (debit \<le> deposit_of (payer_bank_cid x) (payer_account_id x) s) InsufficientDepositBalance s (\<lambda>s.
     and_then (if payer_bank_cid x = recipient_bank_cid x then settle_same_bank ce x pool fee_account debit s
               else settle_cross_bank ce x pool fee_account debit s) (\<lambda>_ s.
     (Inr (), clearing_event (PaymentSettled (tx_id x) (payer_account_id x) (payer_bank_cid x) (recipient_account_id x)
          (recipient_bank_cid x) (transfer_amount x) (fee_amount x))
        (s\<lparr>ProcessedOffchainTx := insert (shard, tx_id x) (ProcessedOffchainTx s),
           ProcessedOffchainTxAt := (ProcessedOffchainTxAt s)((shard, tx_id x) \<mapsto> block_now ce)\<rparr>))))))))))))"

fun execute_items :: "'b clearing_env \<Rightarrow> offchain_batch_item list \<Rightarrow> 'b clearing \<Rightarrow> (clearing_error, unit, 'b clearing) outcome" where
  "execute_items ce [] s = (Inr (), s)"
| "execute_items ce (x # xs) s = and_then (execute_single_item ce x s) (\<lambda>_ s. execute_items ce xs s)"

definition charge_batch_fee :: "'b clearing_env \<Rightarrow> account \<Rightarrow> u128 \<Rightarrow> 'b clearing \<Rightarrow> (clearing_error, unit, 'b clearing) outcome" where
  "charge_batch_fee ce payer basis s =
     (case charge (fees ce) payer basis (purse s) of
        (Inl _, m) \<Rightarrow> (Inl ClearingBatchOnchainFeeUnpaid, s\<lparr>purse := m\<rparr>)
      | (Inr _, m) \<Rightarrow> (Inr (), s\<lparr>purse := m\<rparr>))"

definition execute_clearing_bank_batch ::
  "'b clearing_env \<Rightarrow> account \<Rightarrow> cid_number \<Rightarrow> role_code \<Rightarrow> account \<Rightarrow> offchain_batch_item list \<Rightarrow> 'b clearing \<Rightarrow>
   (clearing_error, unit, 'b clearing) outcome" where
  "execute_clearing_bank_batch ce submitter actor role inst batch s =
     and_then (ensure_institution_account ce actor inst ACCOUNT_NAME_MAIN s) (\<lambda>_ s.
     ensure (is_institution_role_authorized ce actor role submitter ACTION_OFFCHAIN_SUBMIT_BATCH) UnauthorizedAdmin s (\<lambda>s.
     and_then (check_items ce actor batch [] 0 s) (\<lambda>(debits, fee) s.
     and_then (check_solvency ce debits 0 s) (\<lambda>debit s.
     and_then (execute_items ce batch s) (\<lambda>_ s.
     ok_or (fee_account_of ce actor) FeeAccountNotFound s (\<lambda>fee_account.
     and_then (charge_batch_fee ce fee_account fee s) (\<lambda>_ s.
     (Inr (), clearing_event (ClearingBankBatchSettled actor submitter (length batch mod 2 ^ 32) debit) s))))))))"

definition verify_batch_signature ::
  "'b clearing_env \<Rightarrow> account \<Rightarrow> cid_number \<Rightarrow> role_code \<Rightarrow> account \<Rightarrow> u64 \<Rightarrow> offchain_batch_item list \<Rightarrow> signature \<Rightarrow> 'b clearing \<Rightarrow>
   (clearing_error, unit, 'b clearing) outcome" where
  "verify_batch_signature ce submitter actor role inst seq batch sig s =
     ensure (length sig = 64) InvalidBatchSignature s (\<lambda>s.
     ensure (sr25519_verify ce sig (batch_signing_hash ce actor role inst seq batch) submitter) InvalidBatchSignature s (\<lambda>s.
     (Inr (), s)))"

section \<open>Nodes of the banks\<close>

definition is_ascii_alphanumeric :: "char \<Rightarrow> bool" where
  "is_ascii_alphanumeric c \<longleftrightarrow> is_ascii_alphabetic c \<or> (48 \<le> byte c \<and> byte c \<le> 57)"

definition validate_peer_id_bytes :: "string \<Rightarrow> clearing_error option" where
  "validate_peer_id_bytes p =
     (if length p < 46 then Some InvalidPeerIdFormat
      else if take 8 p \<noteq> ''12D3KooW'' then Some InvalidPeerIdFormat
      else if \<not> list_all is_ascii_alphanumeric p then Some InvalidPeerIdFormat
      else None)"

definition validate_rpc_domain_bytes :: "string \<Rightarrow> clearing_error option" where
  "validate_rpc_domain_bytes d =
     (if d = [] then Some EmptyRpcDomain
      else if \<not> list_all (\<lambda>c. (97 \<le> byte c \<and> byte c \<le> 122) \<or> (48 \<le> byte c \<and> byte c \<le> 57) \<or> c = CHR ''.'' \<or> c = CHR ''-'') d
      then Some InvalidRpcDomainFormat else None)"

definition validated :: "clearing_error option \<Rightarrow> 'b clearing \<Rightarrow> ('b clearing \<Rightarrow> (clearing_error, unit, 'b clearing) outcome) \<Rightarrow> (clearing_error, unit, 'b clearing) outcome" where
  "validated v s k = (case v of Some e \<Rightarrow> (Inl e, s) | None \<Rightarrow> k s)"

definition do_register_clearing_bank ::
  "'b clearing_env \<Rightarrow> account \<Rightarrow> cid_number \<Rightarrow> role_code \<Rightarrow> string \<Rightarrow> string \<Rightarrow> u16 \<Rightarrow> 'b clearing \<Rightarrow> (clearing_error, unit, 'b clearing) outcome" where
  "do_register_clearing_bank ce who cid role peer domain port s =
     ensure (cid \<noteq> []) EmptyActorCidNumber s (\<lambda>s.
     ensure (peer \<noteq> []) EmptyPeerId s (\<lambda>s.
     ensure (1024 \<le> port) InvalidRpcPort s (\<lambda>s.
     validated (validate_peer_id_bytes peer) s (\<lambda>s.
     validated (validate_rpc_domain_bytes domain) s (\<lambda>s.
     ok_or (find_account ce cid ACCOUNT_NAME_MAIN) NotRegisteredClearingBank s (\<lambda>main.
     ensure (account_exists ce main) ClearingBankAccountNotFound s (\<lambda>s.
     ensure (is_institution_role_authorized ce cid role who ACTION_OFFCHAIN_REGISTER_BANK) UnauthorizedAdmin s (\<lambda>s.
     ensure (is_clearing_bank_eligible ce main) NotEligibleForClearingBank s (\<lambda>s.
     ensure (ClearingBankNodes s cid = None) ClearingBankAlreadyRegistered s (\<lambda>s.
     ensure (NodePeerToInstitution s peer = None) PeerIdAlreadyRegistered s (\<lambda>s.
     (Inr (), clearing_event (ClearingBankRegistered cid peer domain port who)
        (s\<lparr>ClearingBankNodes := (ClearingBankNodes s)(cid \<mapsto> \<lparr>node_peer_id = peer, rpc_domain = domain, rpc_port = port,
             registered_at = block_now ce, registrar_account_id = who\<rparr>),
           NodePeerToInstitution := (NodePeerToInstitution s)(peer \<mapsto> cid)\<rparr>)))))))))))))"

definition do_update_clearing_bank_endpoint ::
  "'b clearing_env \<Rightarrow> account \<Rightarrow> cid_number \<Rightarrow> role_code \<Rightarrow> string \<Rightarrow> u16 \<Rightarrow> 'b clearing \<Rightarrow> (clearing_error, unit, 'b clearing) outcome" where
  "do_update_clearing_bank_endpoint ce who cid role domain port s =
     ensure (cid \<noteq> []) EmptyActorCidNumber s (\<lambda>s.
     ensure (1024 \<le> port) InvalidRpcPort s (\<lambda>s.
     validated (validate_rpc_domain_bytes domain) s (\<lambda>s.
     ok_or (ClearingBankNodes s cid) ClearingBankNodeNotFound s (\<lambda>info.
     ensure (is_institution_role_authorized ce cid role who ACTION_OFFCHAIN_UPDATE_BANK_ENDPOINT) UnauthorizedAdmin s (\<lambda>s.
     (Inr (), clearing_event (ClearingBankEndpointUpdated cid domain port who)
        (s\<lparr>ClearingBankNodes := (ClearingBankNodes s)(cid \<mapsto> info\<lparr>rpc_domain := domain, rpc_port := port\<rparr>)\<rparr>)))))))"

definition do_unregister_clearing_bank ::
  "'b clearing_env \<Rightarrow> account \<Rightarrow> cid_number \<Rightarrow> role_code \<Rightarrow> 'b clearing \<Rightarrow> (clearing_error, unit, 'b clearing) outcome" where
  "do_unregister_clearing_bank ce who cid role s =
     ensure (cid \<noteq> []) EmptyActorCidNumber s (\<lambda>s.
     ok_or (ClearingBankNodes s cid) ClearingBankNodeNotFound s (\<lambda>info.
     ensure (is_institution_role_authorized ce cid role who ACTION_OFFCHAIN_UNREGISTER_BANK) UnauthorizedAdmin s (\<lambda>s.
     (Inr (), clearing_event (ClearingBankUnregistered cid who)
        (s\<lparr>ClearingBankNodes := (ClearingBankNodes s)(cid := None),
           NodePeerToInstitution := (NodePeerToInstitution s)(node_peer_id info := None)\<rparr>)))))"

section \<open>Extrinsics\<close>

text \<open>The caller is a signed account, or root, or neither; every extrinsic is a storage transaction.\<close>

datatype clearing_origin = ClearingSigned account | ClearingRoot | ClearingNone

definition signer_of :: "clearing_origin \<Rightarrow> account option" where
  "signer_of origin = (case origin of ClearingSigned a \<Rightarrow> Some a | _ \<Rightarrow> None)"

definition signed_call :: "clearing_origin \<Rightarrow> (account \<Rightarrow> 'b clearing \<Rightarrow> (clearing_error, unit, 'b clearing) outcome) \<Rightarrow> 'b clearing \<Rightarrow> (clearing_error, unit, 'b clearing) outcome" where
  "signed_call origin f = with_transaction (\<lambda>s. ok_or (signer_of origin) BadClearingOrigin s (\<lambda>who. f who s))"

definition bind_clearing_bank :: "'b clearing_env \<Rightarrow> clearing_origin \<Rightarrow> cid_number \<Rightarrow> 'b clearing \<Rightarrow> (clearing_error, unit, 'b clearing) outcome" where
  "bind_clearing_bank ce origin cid = signed_call origin (\<lambda>user. do_bind_clearing_bank ce user cid)"

definition deposit :: "'b clearing_env \<Rightarrow> clearing_origin \<Rightarrow> u128 \<Rightarrow> 'b clearing \<Rightarrow> (clearing_error, unit, 'b clearing) outcome" where
  "deposit ce origin amount = signed_call origin (\<lambda>user. do_deposit ce user amount)"

definition withdraw :: "'b clearing_env \<Rightarrow> clearing_origin \<Rightarrow> u128 \<Rightarrow> 'b clearing \<Rightarrow> (clearing_error, unit, 'b clearing) outcome" where
  "withdraw ce origin amount = signed_call origin (\<lambda>user. do_withdraw ce user amount)"

definition switch_bank :: "'b clearing_env \<Rightarrow> clearing_origin \<Rightarrow> cid_number \<Rightarrow> 'b clearing \<Rightarrow> (clearing_error, unit, 'b clearing) outcome" where
  "switch_bank ce origin cid = signed_call origin (\<lambda>user. do_switch_bank ce user cid)"

definition submit_offchain_batch ::
  "'b clearing_env \<Rightarrow> clearing_origin \<Rightarrow> cid_number \<Rightarrow> role_code \<Rightarrow> account \<Rightarrow> u64 \<Rightarrow> offchain_batch_item list \<Rightarrow> signature \<Rightarrow>
   'b clearing \<Rightarrow> (clearing_error, unit, 'b clearing) outcome" where
  "submit_offchain_batch ce origin actor role inst seq batch sig = signed_call origin (\<lambda>submitter s.
     ensure (batch \<noteq> []) EmptyBatch s (\<lambda>s.
     and_then (ensure_institution_account ce actor inst ACCOUNT_NAME_MAIN s) (\<lambda>_ s.
     ensure (is_institution_role_authorized ce actor role submitter ACTION_OFFCHAIN_SUBMIT_BATCH) UnauthorizedAdmin s (\<lambda>s.
     and_then (verify_batch_signature ce submitter actor role inst seq batch sig s) (\<lambda>_ s.
     ensure (seq = sat_add 64 (LastClearingBatchSeq s actor) 1) InvalidBatchSeq s (\<lambda>s.
     with_transaction (\<lambda>s.
       and_then (execute_clearing_bank_batch ce submitter actor role inst batch s) (\<lambda>_ s.
       (Inr (), s\<lparr>LastClearingBatchSeq := (LastClearingBatchSeq s)(actor := seq)\<rparr>))) s))))))"

definition propose_l2_fee_rate ::
  "'b clearing_env \<Rightarrow> clearing_origin \<Rightarrow> cid_number \<Rightarrow> role_code \<Rightarrow> account \<Rightarrow> u32 \<Rightarrow> 'b clearing \<Rightarrow> (clearing_error, unit, 'b clearing) outcome" where
  "propose_l2_fee_rate ce origin cid role inst rate = signed_call origin (\<lambda>who. do_propose_l2_fee_rate ce who cid role inst rate)"

definition set_max_l2_fee_rate :: "clearing_origin \<Rightarrow> u32 \<Rightarrow> 'b clearing \<Rightarrow> (clearing_error, unit, 'b clearing) outcome" where
  "set_max_l2_fee_rate origin new_max = with_transaction (\<lambda>s.
     ensure (origin = ClearingRoot) BadClearingOrigin s (\<lambda>s. do_set_max_l2_fee_rate new_max s))"

definition register_clearing_bank ::
  "'b clearing_env \<Rightarrow> clearing_origin \<Rightarrow> cid_number \<Rightarrow> role_code \<Rightarrow> string \<Rightarrow> string \<Rightarrow> u16 \<Rightarrow> 'b clearing \<Rightarrow> (clearing_error, unit, 'b clearing) outcome" where
  "register_clearing_bank ce origin cid role peer domain port = signed_call origin (\<lambda>who. do_register_clearing_bank ce who cid role peer domain port)"

definition update_clearing_bank_endpoint ::
  "'b clearing_env \<Rightarrow> clearing_origin \<Rightarrow> cid_number \<Rightarrow> role_code \<Rightarrow> string \<Rightarrow> u16 \<Rightarrow> 'b clearing \<Rightarrow> (clearing_error, unit, 'b clearing) outcome" where
  "update_clearing_bank_endpoint ce origin cid role domain port = signed_call origin (\<lambda>who. do_update_clearing_bank_endpoint ce who cid role domain port)"

definition unregister_clearing_bank ::
  "'b clearing_env \<Rightarrow> clearing_origin \<Rightarrow> cid_number \<Rightarrow> role_code \<Rightarrow> 'b clearing \<Rightarrow> (clearing_error, unit, 'b clearing) outcome" where
  "unregister_clearing_bank ce origin cid role = signed_call origin (\<lambda>who. do_unregister_clearing_bank ce who cid role)"

end
