(* ===== verification/Clearing_Safety.thy ===== *)
theory Clearing_Safety
  imports Clearing
begin

text \<open>
  Clearing banks are fully reserved: over any sequence of calls the deposits of every bank add up to
  its recorded total, and its clearing account holds at least that. No payment is settled twice.
\<close>

section \<open>The books\<close>

definition deposits_sum :: "'b clearing \<Rightarrow> cid_number \<Rightarrow> nat" where
  "deposits_sum s cid = sum_list (map snd (DepositBalance s cid))"

definition reserve :: "'b currency \<Rightarrow> (cid_number \<Rightarrow> account_name \<Rightarrow> account) \<Rightarrow> cid_number \<Rightarrow> 'b clearing \<Rightarrow> nat" where
  "reserve c derive cid s = free_balance c (derive cid ACCOUNT_NAME_CLEARING) (balances (purse s))"

definition balanced :: "'b clearing \<Rightarrow> bool" where
  "balanced s \<longleftrightarrow> (\<forall>cid. distinct (map fst (DepositBalance s cid)) \<and> BankTotalDeposits s cid = deposits_sum s cid)"

definition backed :: "'b currency \<Rightarrow> (cid_number \<Rightarrow> account_name \<Rightarrow> account) \<Rightarrow> 'b clearing \<Rightarrow> bool" where
  "backed c derive s \<longleftrightarrow> (\<forall>cid. BankTotalDeposits s cid \<le> reserve c derive cid s)"

text \<open>A user keeps money only at the bank the user is bound to.\<close>

definition at_own_bank :: "'b clearing \<Rightarrow> bool" where
  "at_own_bank s \<longleftrightarrow> (\<forall>cid u. 0 < deposit_of cid u s \<longrightarrow> UserBank s u = Some cid)"

definition clearing_inv :: "'b currency \<Rightarrow> (cid_number \<Rightarrow> account_name \<Rightarrow> account) \<Rightarrow> 'b clearing \<Rightarrow> bool" where
  "clearing_inv c derive s \<longleftrightarrow> balanced s \<and> backed c derive s \<and> at_own_bank s"

text \<open>
  Documented behaviour of the registry and of account derivation: an institution's account of a given name is
  the derived one, clearing accounts of different institutions differ and are nobody's fee account.
\<close>

definition derives_apart :: "(cid_number \<Rightarrow> account_name \<Rightarrow> account) \<Rightarrow> bool" where
  "derives_apart derive \<longleftrightarrow>
     (\<forall>a b. derive a ACCOUNT_NAME_CLEARING = derive b ACCOUNT_NAME_CLEARING \<longrightarrow> a = b) \<and>
     (\<forall>a b. derive a ACCOUNT_NAME_FEE \<noteq> derive b ACCOUNT_NAME_CLEARING)"

definition registry_of :: "'b currency \<Rightarrow> (cid_number \<Rightarrow> account_name \<Rightarrow> account) \<Rightarrow> 'b clearing_env \<Rightarrow> bool" where
  "registry_of c derive ce \<longleftrightarrow> cur ce = c \<and> (\<forall>cid name a. find_account ce cid name = Some a \<longrightarrow> a = derive cid name)"

definition no_pool :: "(cid_number \<Rightarrow> account_name \<Rightarrow> account) \<Rightarrow> account \<Rightarrow> bool" where
  "no_pool derive u \<longleftrightarrow> (\<forall>cid. u \<noteq> derive cid ACCOUNT_NAME_CLEARING)"

lemma clearing_account_derived:
  "registry_of c derive ce \<Longrightarrow> clearing_account_of ce cid = Some a \<Longrightarrow> a = derive cid ACCOUNT_NAME_CLEARING"
  "registry_of c derive ce \<Longrightarrow> fee_account_of ce cid = Some a \<Longrightarrow> a = derive cid ACCOUNT_NAME_FEE"
  by (simp_all add: registry_of_def clearing_account_of_def fee_account_of_def)

lemma kv_sum_insert:
  assumes "distinct (map fst xs)"
  shows "sum_list (map snd (kv_insert k v xs)) + (case map_of xs k of None \<Rightarrow> 0 | Some d \<Rightarrow> d) = sum_list (map snd xs) + (v :: nat)"
proof -
  have "sum_list (map snd (filter (\<lambda>e. fst e \<noteq> k) xs)) + (case map_of xs k of None \<Rightarrow> 0 | Some d \<Rightarrow> d) = sum_list (map snd xs)"
    using assms
  proof (induction xs)
    case (Cons e xs)
    show ?case
    proof (cases "fst e = k")
      case True
      then have "filter (\<lambda>e. fst e \<noteq> k) xs = xs" using Cons.prems by (auto simp: filter_id_conv image_iff)
      with True show ?thesis by (cases e) (simp cong: filter_cong)
    next
      case False
      with Cons show ?thesis by (cases e) auto
    qed
  qed simp
  then show ?thesis by (simp add: kv_insert_def)
qed

lemma deposit_of_set [simp]:
  "deposit_of cid u (set_deposit cid' u' d s) = (if cid = cid' \<and> u = u' then d else deposit_of cid u s)"
  by (simp add: deposit_of_def set_deposit_def)

lemma set_deposit_frame [simp]:
  "purse (set_deposit cid u d s) = purse s" "UserBank (set_deposit cid u d s) = UserBank s"
  "BankTotalDeposits (set_deposit cid u d s) = BankTotalDeposits s"
  "purse (set_bank_total cid t s) = purse s" "UserBank (set_bank_total cid t s) = UserBank s"
  "DepositBalance (set_bank_total cid t s) = DepositBalance s" "deposit_of cid' u (set_bank_total cid t s) = deposit_of cid' u s"
  "BankTotalDeposits (set_bank_total cid t s) = (BankTotalDeposits s)(cid := t)"
  by (simp_all add: set_deposit_def set_bank_total_def deposit_of_def)

lemma clearing_event_frame [simp]:
  "purse (clearing_event e s) = purse s" "UserBank (clearing_event e s) = UserBank s"
  "BankTotalDeposits (clearing_event e s) = BankTotalDeposits s" "DepositBalance (clearing_event e s) = DepositBalance s"
  "deposit_of cid u (clearing_event e s) = deposit_of cid u s"
  by (simp_all add: clearing_event_def deposit_of_def)

lemma sum_set_deposit:
  assumes "distinct (map fst (DepositBalance s cid))"
  shows "deposits_sum (set_deposit cid u d s) cid = deposits_sum s cid + d - deposit_of cid u s"
    "deposit_of cid u s \<le> deposits_sum s cid"
    "distinct (map fst (DepositBalance (set_deposit cid u d s) cid))"
proof -
  note k = kv_sum_insert [OF assms, of u]
  show "deposits_sum (set_deposit cid u d s) cid = deposits_sum s cid + d - deposit_of cid u s"
    using k [of d] by (simp add: deposits_sum_def set_deposit_def deposit_of_def)
  show "deposit_of cid u s \<le> deposits_sum s cid" using k [of 0] by (simp add: deposits_sum_def deposit_of_def)
  show "distinct (map fst (DepositBalance (set_deposit cid u d s) cid))" using assms by (simp add: set_deposit_def)
qed

lemma set_deposit_other [simp]: "cid \<noteq> cid' \<Longrightarrow> DepositBalance (set_deposit cid u d s) cid' = DepositBalance s cid'"
  by (simp add: set_deposit_def)

text \<open>A deposit and its bank's total changed together.\<close>

lemma balanced_move:
  assumes "balanced s" "BankTotalDeposits s cid + d = t + deposit_of cid u s"
  shows "balanced (set_bank_total cid t (set_deposit cid u d s))"
proof -
  have b: "distinct (map fst (DepositBalance s cid'))" "BankTotalDeposits s cid' = deposits_sum s cid'" for cid'
    using assms(1) by (simp_all add: balanced_def)
  note m = sum_set_deposit [OF b(1) [of cid], of u]
  show ?thesis unfolding balanced_def
  proof (intro allI conjI)
    fix cid'
    show "distinct (map fst (DepositBalance (set_bank_total cid t (set_deposit cid u d s)) cid'))"
      using b(1) m(3) by (cases "cid' = cid") simp_all
    show "BankTotalDeposits (set_bank_total cid t (set_deposit cid u d s)) cid' = deposits_sum (set_bank_total cid t (set_deposit cid u d s)) cid'"
    proof (cases "cid' = cid")
      case True
      have "deposits_sum (set_bank_total cid t (set_deposit cid u d s)) cid = deposits_sum s cid + d - deposit_of cid u s"
        using m(1) by (simp add: deposits_sum_def)
      with True assms(2) b(2) [of cid] m(2) show ?thesis by simp
    qed (use b(2) in \<open>simp add: deposits_sum_def\<close>)
  qed
qed

lemma deposit_le_total: "balanced s \<Longrightarrow> deposit_of cid u s \<le> BankTotalDeposits s cid"
  using sum_set_deposit(2) [of s cid u] by (simp add: balanced_def)

lemma two_deposits:
  assumes "distinct (map fst (DepositBalance s cid))" "u \<noteq> v"
  shows "deposit_of cid u s + deposit_of cid v s \<le> deposits_sum s cid"
proof -
  note d = sum_set_deposit [OF assms(1), of u]
  have "deposit_of cid v (set_deposit cid u 0 s) \<le> deposits_sum (set_deposit cid u 0 s) cid" using sum_set_deposit(2) [OF d(3)] .
  with d(1) [of 0] d(2) assms(2) show ?thesis by auto
qed

section \<open>Payments\<close>

lemma pay_ok:
  assumes "pay ce a d n e s = (Inr x, t)"
  shows "\<exists>b. transfer_keep_alive (cur ce) a d n (balances (purse s)) = (True, b) \<and> t = s\<lparr>purse := (purse s)\<lparr>balances := b\<rparr>\<rparr>"
  using assms by (auto simp: pay_def split: prod.splits bool.splits)

lemma pay_moves:
  assumes "lawful_currency c" "cur ce = c" "pay ce a d n e s = (Inr x, t)" "a \<noteq> d"
  shows "n \<le> free_balance c a (balances (purse s))"
    "free_balance c y (balances (purse t)) =
     (if y = a then free_balance c a (balances (purse s)) - n else if y = d then free_balance c d (balances (purse s)) + n
      else free_balance c y (balances (purse s)))"
    "DepositBalance t = DepositBalance s" "BankTotalDeposits t = BankTotalDeposits s" "UserBank t = UserBank s"
    "deposit_of cid u t = deposit_of cid u s"
proof -
  from pay_ok [OF assms(3)] obtain b where b: "transfer_keep_alive (cur ce) a d n (balances (purse s)) = (True, b)"
    and t: "t = s\<lparr>purse := (purse s)\<lparr>balances := b\<rparr>\<rparr>" by blast
  note m = lawful_transfer [OF assms(1) b [unfolded assms(2)] assms(4)]
  show "n \<le> free_balance c a (balances (purse s))" by (rule m(1))
  show "free_balance c y (balances (purse t)) =
     (if y = a then free_balance c a (balances (purse s)) - n else if y = d then free_balance c d (balances (purse s)) + n
      else free_balance c y (balances (purse s)))" using m(2) [of y] by (simp add: t)
  show "DepositBalance t = DepositBalance s" "BankTotalDeposits t = BankTotalDeposits s" "UserBank t = UserBank s"
    "deposit_of cid u t = deposit_of cid u s" by (simp_all add: t deposit_of_def)
qed

section \<open>Binding, deposits and withdrawals\<close>

lemma inv_frame:
  assumes "clearing_inv c derive s" "DepositBalance t = DepositBalance s" "BankTotalDeposits t = BankTotalDeposits s"
    "UserBank t = UserBank s" "\<And>cid. reserve c derive cid s \<le> reserve c derive cid t"
  shows "clearing_inv c derive t"
proof -
  have "deposit_of cid u t = deposit_of cid u s" for cid u by (simp add: deposit_of_def assms(2))
  then have "at_own_bank t" "balanced t"
    using assms(1-4) by (simp_all add: clearing_inv_def balanced_def at_own_bank_def deposits_sum_def)
  moreover have "BankTotalDeposits s cid \<le> reserve c derive cid s" for cid
    using assms(1) by (simp add: clearing_inv_def backed_def)
  then have "backed c derive t" unfolding backed_def assms(3) using assms(5) le_trans by blast
  ultimately show ?thesis by (simp add: clearing_inv_def)
qed

lemma ensure_can_be_bound_same: "ensure_can_be_bound ce cid s = (Inr x, t) \<Longrightarrow> t = s"
  by (auto simp: ensure_can_be_bound_def)

lemma fresh_deposit_zero: "balanced s \<Longrightarrow> at_own_bank s \<Longrightarrow> UserBank s u \<noteq> Some cid \<Longrightarrow> deposit_of cid u s = 0"
  by (auto simp: at_own_bank_def)

lemma empty_deposit_inv:
  assumes "balanced s" "deposit_of cid u s = 0"
  shows "balanced (set_deposit cid u 0 s)"
  using balanced_move [OF assms(1), of cid 0 "BankTotalDeposits s cid" u] assms(2)
  by (simp add: balanced_def deposits_sum_def)

lemma bind_inv:
  assumes "clearing_inv c derive s" "do_bind_clearing_bank ce u cid s = (Inr x, t)"
  shows "clearing_inv c derive t"
proof -
  from assms(2) have n: "UserBank s u = None"
    and t: "t = clearing_event (BankBound u cid) (set_deposit cid u 0 (s\<lparr>UserBank := (UserBank s)(u \<mapsto> cid)\<rparr>))"
    by (auto simp: do_bind_clearing_bank_def dest: ensure_can_be_bound_same)
  let ?s = "s\<lparr>UserBank := (UserBank s)(u \<mapsto> cid)\<rparr>"
  have i: "balanced s" "backed c derive s" "at_own_bank s" using assms(1) by (simp_all add: clearing_inv_def)
  have z: "deposit_of cid' u s = 0" for cid' using fresh_deposit_zero [OF i(1,3)] n by simp
  have d: "deposit_of cid' v ?s = deposit_of cid' v s" for cid' v by (simp add: deposit_of_def)
  have "balanced ?s" using i(1) by (simp add: balanced_def deposits_sum_def)
  then have "balanced (set_deposit cid u 0 ?s)" using z d by (intro empty_deposit_inv) simp_all
  then have "balanced t" by (simp add: t balanced_def deposits_sum_def)
  moreover have "backed c derive t" using i(2) by (simp add: t backed_def reserve_def)
  moreover have "at_own_bank t" using i(3) z d by (auto simp: t at_own_bank_def)
  ultimately show ?thesis by (simp add: clearing_inv_def)
qed

lemma kv_remove_zero:
  assumes "distinct (map fst xs)" "(case map_of xs k of None \<Rightarrow> 0 | Some d \<Rightarrow> d) = (0::nat)"
  shows "sum_list (map snd (kv_remove k xs)) = sum_list (map snd xs)"
  using kv_sum_insert [OF assms(1), of k 0] assms(2) by (simp add: kv_insert_def kv_remove_def)

lemma switch_inv:
  assumes "clearing_inv c derive s" "do_switch_bank ce u new s = (Inr x, t)"
  shows "clearing_inv c derive t"
proof -
  from assms(2) obtain old where o: "UserBank s u = Some old" "old \<noteq> new" "deposit_of old u s = 0"
    and t: "t = clearing_event (BankSwitched u old new) (set_deposit new u 0
        (s\<lparr>DepositBalance := (DepositBalance s)(old := kv_remove u (DepositBalance s old)), UserBank := (UserBank s)(u \<mapsto> new)\<rparr>))"
    by (auto simp: do_switch_bank_def Let_def dest: ensure_can_be_bound_same)
  let ?s = "s\<lparr>DepositBalance := (DepositBalance s)(old := kv_remove u (DepositBalance s old)), UserBank := (UserBank s)(u \<mapsto> new)\<rparr>"
  have i: "balanced s" "backed c derive s" "at_own_bank s" using assms(1) by (simp_all add: clearing_inv_def)
  have z: "deposit_of cid u s = 0" for cid using fresh_deposit_zero [OF i(1,3), of u cid] o(1,3) by (cases "cid = old") auto
  have d: "deposit_of cid v ?s = (if v = u then 0 else deposit_of cid v s)" for cid v
    using z [of cid] by (auto simp: deposit_of_def)
  have "sum_list (map snd (kv_remove u (DepositBalance s old))) = sum_list (map snd (DepositBalance s old))"
    using i(1) o(3) by (intro kv_remove_zero) (simp_all add: balanced_def deposit_of_def)
  then have "balanced ?s" using i(1) by (simp add: balanced_def deposits_sum_def)
  then have "balanced (set_deposit new u 0 ?s)" using d by (intro empty_deposit_inv) simp_all
  then have "balanced t" by (simp add: t balanced_def deposits_sum_def)
  moreover have "backed c derive t" using i(2) by (simp add: t backed_def reserve_def)
  moreover have "at_own_bank t" using i(3) d by (auto simp: t at_own_bank_def)
  ultimately show ?thesis by (simp add: clearing_inv_def)
qed

lemma deposit_inv:
  assumes "clearing_inv c derive s" "lawful_currency c" "registry_of c derive ce" "derives_apart derive" "no_pool derive u"
    and "do_deposit ce u n s = (Inr x, t)"
  shows "clearing_inv c derive t"
proof -
  from assms(6) obtain cid pool s1 where o: "UserBank s u = Some cid" "clearing_account_of ce cid = Some pool"
    and p: "pay ce u pool n BalancesError s = (Inr (), s1)"
    and t: "t = clearing_event (Deposited u cid n) (set_bank_total cid (sat_add 128 (BankTotalDeposits s1 cid) n)
        (set_deposit cid u (sat_add 128 (deposit_of cid u s1) n) s1))"
    by (auto simp: do_deposit_def Let_def)
  have pool: "pool = derive cid ACCOUNT_NAME_CLEARING" using clearing_account_derived(1) [OF assms(3) o(2)] .
  have c: "cur ce = c" using assms(3) by (simp add: registry_of_def)
  have "u \<noteq> pool" using assms(5) pool by (simp add: no_pool_def)
  note m = pay_moves [OF assms(2) c p this]
  have i: "balanced s" "backed c derive s" "at_own_bank s" using assms(1) by (simp_all add: clearing_inv_def)
  have r: "reserve c derive cid' s1 = reserve c derive cid' s + (if cid' = cid then n else 0)" for cid'
    using m(2) assms(4,5) by (auto simp: reserve_def pool no_pool_def derives_apart_def)
  have b: "BankTotalDeposits s cid \<le> reserve c derive cid s" using i(2) by (simp add: backed_def)
  then have fits: "BankTotalDeposits s cid + n < 2 ^ 128"
    using r [of cid] lawful_fits [OF assms(2), of pool "balances (purse s1)"] by (simp add: reserve_def pool)
  then have f2: "deposit_of cid u s + n < 2 ^ 128" using deposit_le_total [OF i(1), of cid u] by linarith
  have e: "sat_add 128 (BankTotalDeposits s1 cid) n = BankTotalDeposits s cid + n" "sat_add 128 (deposit_of cid u s1) n = deposit_of cid u s + n"
    using sat_add_exact [OF fits] sat_add_exact [OF f2] m(4,6) by simp_all
  have b1: "balanced s1" using i(1) m(3,4) by (simp add: balanced_def deposits_sum_def)
  have "balanced (set_bank_total cid (BankTotalDeposits s cid + n) (set_deposit cid u (deposit_of cid u s + n) s1))"
    by (rule balanced_move [OF b1]) (simp add: m(4,6))
  then have "balanced t" unfolding t e by (simp add: balanced_def deposits_sum_def)
  moreover have "backed c derive t" using i(2) r b m(4) unfolding t e by (simp add: backed_def reserve_def)
  moreover have "at_own_bank t" using i(3) o(1) m(5,6) unfolding t e by (auto simp: at_own_bank_def)
  ultimately show ?thesis by (simp add: clearing_inv_def)
qed

lemma withdraw_inv:
  assumes "clearing_inv c derive s" "lawful_currency c" "registry_of c derive ce" "derives_apart derive" "no_pool derive u"
    and "do_withdraw ce u n s = (Inr x, t)"
  shows "clearing_inv c derive t"
proof -
  from assms(6) obtain cid pool s1 where o: "UserBank s u = Some cid" "n \<le> deposit_of cid u s" "clearing_account_of ce cid = Some pool"
    and p: "pay ce pool u n InsufficientBankLiquidity s = (Inr (), s1)"
    and t: "t = clearing_event (Withdrawn u cid n) (set_bank_total cid (sat_sub (BankTotalDeposits s1 cid) n)
        (set_deposit cid u (sat_sub (deposit_of cid u s1) n) s1))"
    by (auto simp: do_withdraw_def Let_def)
  have pool: "pool = derive cid ACCOUNT_NAME_CLEARING" using clearing_account_derived(1) [OF assms(3) o(3)] .
  have c: "cur ce = c" using assms(3) by (simp add: registry_of_def)
  have "pool \<noteq> u" using assms(5) pool by (auto simp: no_pool_def)
  note m = pay_moves [OF assms(2) c p this]
  have i: "balanced s" "backed c derive s" "at_own_bank s" using assms(1) by (simp_all add: clearing_inv_def)
  have r: "reserve c derive cid' s1 = reserve c derive cid' s - (if cid' = cid then n else 0)" for cid'
    using m(2) assms(4,5) by (auto simp: reserve_def pool no_pool_def derives_apart_def)
  have le: "n \<le> BankTotalDeposits s cid" using o(2) deposit_le_total [OF i(1), of cid u] by linarith
  have b1: "balanced s1" using i(1) m(3,4) by (simp add: balanced_def deposits_sum_def)
  have "balanced (set_bank_total cid (BankTotalDeposits s cid - n) (set_deposit cid u (deposit_of cid u s - n) s1))"
    by (rule balanced_move [OF b1]) (use le o(2) in \<open>simp add: m(4,6)\<close>)
  then have "balanced t" unfolding t sat_sub_def m(4,6) by (simp add: balanced_def deposits_sum_def)
  moreover have "BankTotalDeposits s cid' \<le> reserve c derive cid' s" for cid' using i(2) by (simp add: backed_def)
  then have "backed c derive t" using r m(4) unfolding t sat_sub_def by (simp add: backed_def reserve_def diff_le_mono)
  moreover have "at_own_bank t" using i(3) o(1) m(5,6) unfolding t by (auto simp: at_own_bank_def)
  ultimately show ?thesis by (simp add: clearing_inv_def)
qed

section \<open>Settlement\<close>

text \<open>What a bank holds beyond its deposits; no item of a batch changes it.\<close>

definition slack :: "'b currency \<Rightarrow> (cid_number \<Rightarrow> account_name \<Rightarrow> account) \<Rightarrow> cid_number \<Rightarrow> 'b clearing \<Rightarrow> nat" where
  "slack c derive cid s = reserve c derive cid s - BankTotalDeposits s cid"

text \<open>The debit of a payment does not saturate when the paying bank holds more than its deposits.\<close>

lemma debit_exact:
  assumes "clearing_inv c derive s" "lawful_currency c" "0 < slack c derive cid s"
    and "sat_add 128 a f \<le> deposit_of cid u s"
  shows "sat_add 128 a f = a + f"
proof (rule ccontr)
  assume "sat_add 128 a f \<noteq> a + f"
  then have "sat_add 128 a f = max_of 128" by (simp add: sat_add_def min_def split: if_splits)
  moreover have "deposit_of cid u s \<le> BankTotalDeposits s cid" using assms(1) deposit_le_total [of s cid u] by (simp add: clearing_inv_def)
  moreover have "BankTotalDeposits s cid < reserve c derive cid s" using assms(3) by (simp add: slack_def)
  moreover have "reserve c derive cid s \<le> max_of 128"
    unfolding reserve_def le_max_of_iff by (rule lawful_fits [OF assms(2)])
  ultimately show False using assms(4) by linarith
qed

lemma same_bank_inv:
  assumes "clearing_inv c derive s" "lawful_currency c" "registry_of c derive ce" "derives_apart derive"
    and "pool = derive (payer_bank_cid x) ACCOUNT_NAME_CLEARING" "fee_account = derive (recipient_bank_cid x) ACCOUNT_NAME_FEE"
    and "payer_bank_cid x = recipient_bank_cid x" "payer_account_id x \<noteq> recipient_account_id x"
    and "UserBank s (recipient_account_id x) = Some (recipient_bank_cid x)"
    and "debit = transfer_amount x + fee_amount x" "debit \<le> deposit_of (payer_bank_cid x) (payer_account_id x) s"
    and "settle_same_bank ce x pool fee_account debit s = (Inr r, t)"
  shows "clearing_inv c derive t \<and> (\<forall>cid. slack c derive cid t = slack c derive cid s) \<and> UserBank t = UserBank s"
proof -
  let ?cid = "payer_bank_cid x" and ?p = "payer_account_id x" and ?r = "recipient_account_id x"
  let ?a = "transfer_amount x" and ?f = "fee_amount x"
  have i: "balanced s" "backed c derive s" "at_own_bank s" using assms(1) by (simp_all add: clearing_inv_def)
  have bk: "BankTotalDeposits s cid \<le> reserve c derive cid s" for cid using i(2) by (simp add: backed_def)
  let ?s1 = "set_deposit ?cid ?p (deposit_of ?cid ?p s - debit) s"
  have sum: "deposit_of ?cid ?p s + deposit_of ?cid ?r s \<le> BankTotalDeposits s ?cid"
    using two_deposits [OF _ assms(8), of s ?cid] i(1) by (simp add: balanced_def)
  have "reserve c derive ?cid s < 2 ^ 128" unfolding reserve_def by (rule lawful_fits [OF assms(2)])
  then have small: "deposit_of ?cid ?r s + ?a < 2 ^ 128" using sum bk [of ?cid] assms(10,11) by linarith
  let ?s2 = "set_deposit ?cid ?r (deposit_of ?cid ?r s + ?a) ?s1"
  let ?s3 = "set_bank_total ?cid (BankTotalDeposits s ?cid - ?f) ?s2"
  have pay: "pay ce pool fee_account ?f BalancesError ?s3 = (Inr r, t)"
    using assms(8,12) sat_add_exact [OF small] by (simp add: settle_same_bank_def Let_def sat_sub_def)
  have fle: "?f \<le> BankTotalDeposits s ?cid" using assms(10,11) sum by linarith
  have m1: "balanced (set_bank_total ?cid (BankTotalDeposits s ?cid - debit) ?s1)"
    by (rule balanced_move [OF i(1)]) (use assms(11) sum in simp)
  have "balanced (set_bank_total ?cid (BankTotalDeposits s ?cid - ?f) (set_deposit ?cid ?r (deposit_of ?cid ?r s + ?a) (set_bank_total ?cid (BankTotalDeposits s ?cid - debit) ?s1)))"
    by (rule balanced_move [OF m1]) (use assms(8,10,11) sum in simp)
  then have b3: "balanced ?s3" by (simp add: balanced_def deposits_sum_def set_bank_total_def set_deposit_def)
  have c: "cur ce = c" using assms(3) by (simp add: registry_of_def)
  have "pool \<noteq> fee_account" using assms(4) unfolding assms(5,6) derives_apart_def by metis
  note m = pay_moves [OF assms(2) c pay this]
  have res: "reserve c derive cid t = reserve c derive cid s - (if cid = ?cid then ?f else 0)" for cid
  proof -
    have "free_balance c y (balances (purse t)) = (if y = pool then free_balance c pool (balances (purse s)) - ?f
        else if y = fee_account then free_balance c fee_account (balances (purse s)) + ?f else free_balance c y (balances (purse s)))" for y
      using m(2) [of y] by simp
    moreover have "derive cid ACCOUNT_NAME_CLEARING \<noteq> fee_account" "derive cid ACCOUNT_NAME_CLEARING = pool \<longleftrightarrow> cid = ?cid"
      using assms(4) unfolding assms(5,6) derives_apart_def by metis+
    ultimately show ?thesis unfolding reserve_def by (auto simp: assms(5) [symmetric])
  qed
  have tot: "BankTotalDeposits t = (BankTotalDeposits s)(?cid := BankTotalDeposits s ?cid - ?f)" using m(4) by simp
  have "balanced t" using b3 m(3,4) by (simp add: balanced_def deposits_sum_def)
  moreover have "backed c derive t" using bk by (simp add: backed_def tot res diff_le_mono)
  moreover have "at_own_bank t" using i(3) assms(7,9) m(5,6) unfolding at_own_bank_def by auto
  moreover have "slack c derive cid t = slack c derive cid s" for cid
    using bk [of cid] fle by (simp add: slack_def tot res)
  ultimately show ?thesis using m(5) by (simp add: clearing_inv_def)
qed

lemma cross_bank_inv:
  assumes "clearing_inv c derive s" "lawful_currency c" "registry_of c derive ce" "derives_apart derive"
    and "pool = derive (payer_bank_cid x) ACCOUNT_NAME_CLEARING" "fee_account = derive (recipient_bank_cid x) ACCOUNT_NAME_FEE"
    and "payer_bank_cid x \<noteq> recipient_bank_cid x"
    and "UserBank s (recipient_account_id x) = Some (recipient_bank_cid x)"
    and "debit = transfer_amount x + fee_amount x" "debit \<le> deposit_of (payer_bank_cid x) (payer_account_id x) s"
    and "settle_cross_bank ce x pool fee_account debit s = (Inr r, t)"
  shows "clearing_inv c derive t \<and> (\<forall>cid. slack c derive cid t = slack c derive cid s) \<and> UserBank t = UserBank s"
proof -
  let ?p = "payer_bank_cid x" and ?q = "recipient_bank_cid x" and ?u = "payer_account_id x" and ?v = "recipient_account_id x"
  let ?a = "transfer_amount x" and ?f = "fee_amount x"
  have i: "balanced s" "backed c derive s" "at_own_bank s" using assms(1) by (simp_all add: clearing_inv_def)
  have bk: "BankTotalDeposits s cid \<le> reserve c derive cid s" for cid using i(2) by (simp add: backed_def)
  have c: "cur ce = c" using assms(3) by (simp add: registry_of_def)
  from assms(11) obtain qp s1 s2 where q: "clearing_account_of ce ?q = Some qp"
    and p1: "pay ce pool qp ?a BalancesError s = (Inr (), s1)" and p2: "pay ce pool fee_account ?f BalancesError s1 = (Inr (), s2)"
    and t: "t = set_bank_total ?q (sat_add 128 (BankTotalDeposits s2 ?q) ?a) (set_bank_total ?p (sat_sub (BankTotalDeposits s2 ?p) debit)
        (set_deposit ?q ?v (sat_add 128 (deposit_of ?q ?v s2) ?a) (set_deposit ?p ?u (sat_sub (deposit_of ?p ?u s2) debit) s2)))"
    using assms(7) by (auto simp: settle_cross_bank_def Let_def)
  have qp: "qp = derive ?q ACCOUNT_NAME_CLEARING" using clearing_account_derived(1) [OF assms(3) q] .
  have ne: "pool \<noteq> qp" "pool \<noteq> fee_account" "qp \<noteq> fee_account" using assms(4,7) unfolding assms(5,6) qp derives_apart_def by metis+
  note m1 = pay_moves [OF assms(2) c p1 ne(1)] and m2 = pay_moves [OF assms(2) c p2 ne(2)]
  have res: "reserve c derive cid s2 = (if cid = ?p then reserve c derive cid s - debit else if cid = ?q then reserve c derive cid s + ?a else reserve c derive cid s)" for cid
  proof -
    have apart: "derive cid ACCOUNT_NAME_CLEARING \<noteq> fee_account" "derive cid ACCOUNT_NAME_CLEARING = pool \<longleftrightarrow> cid = ?p"
      "derive cid ACCOUNT_NAME_CLEARING = qp \<longleftrightarrow> cid = ?q"
      using assms(4) unfolding assms(5,6) qp derives_apart_def by metis+
    show ?thesis
      unfolding reserve_def m2(2) m1(2) using apart assms(7,9) ne by (auto simp: assms(5) [symmetric] qp [symmetric])
  qed
  have tot2: "BankTotalDeposits s2 = BankTotalDeposits s" and dep2: "deposit_of cid u s2 = deposit_of cid u s" for cid u
    using m1(4,6) m2(4,6) by simp_all
  have "reserve c derive ?q s2 < 2 ^ 128" unfolding reserve_def by (rule lawful_fits [OF assms(2)])
  then have f1: "BankTotalDeposits s ?q + ?a < 2 ^ 128" using res [of ?q] bk [of ?q] assms(7) by simp
  then have f2: "deposit_of ?q ?v s + ?a < 2 ^ 128" using deposit_le_total [OF i(1), of ?q ?v] by linarith
  have le: "debit \<le> BankTotalDeposits s ?p" using assms(10) deposit_le_total [OF i(1), of ?p ?u] by linarith
  let ?s3 = "set_deposit ?p ?u (deposit_of ?p ?u s - debit) s2"
  let ?s4 = "set_deposit ?q ?v (deposit_of ?q ?v s + ?a) ?s3"
  have t': "t = set_bank_total ?q (BankTotalDeposits s ?q + ?a) (set_bank_total ?p (BankTotalDeposits s ?p - debit) ?s4)"
    unfolding t tot2 dep2 sat_sub_def sat_add_exact [OF f1] sat_add_exact [OF f2] ..
  have b2: "balanced s2" using i(1) m1(3,4) m2(3,4) by (simp add: balanced_def deposits_sum_def)
  have b3: "balanced (set_bank_total ?p (BankTotalDeposits s ?p - debit) ?s3)"
    by (rule balanced_move [OF b2]) (use le assms(10) in \<open>simp add: tot2 dep2\<close>)
  have "balanced (set_bank_total ?q (BankTotalDeposits s ?q + ?a) (set_deposit ?q ?v (deposit_of ?q ?v s + ?a) (set_bank_total ?p (BankTotalDeposits s ?p - debit) ?s3)))"
    by (rule balanced_move [OF b3]) (use assms(7) in \<open>simp add: tot2 dep2\<close>)
  then have "balanced t" by (simp add: t' balanced_def deposits_sum_def set_bank_total_def set_deposit_def)
  moreover have tot: "BankTotalDeposits t = (BankTotalDeposits s)(?p := BankTotalDeposits s ?p - debit, ?q := BankTotalDeposits s ?q + ?a)"
    by (simp add: t' tot2)
  have rt: "reserve c derive cid t = reserve c derive cid s2" for cid by (simp add: t' reserve_def)
  have "backed c derive t" using bk assms(7) by (auto simp: backed_def tot rt res diff_le_mono)
  moreover have "at_own_bank t" using i(3) assms(8) m1(5) m2(5) dep2 unfolding at_own_bank_def t' by auto
  moreover have "slack c derive cid t = slack c derive cid s" for cid
    using bk [of cid] le assms(7) by (auto simp: slack_def tot rt res)
  ultimately show ?thesis using m1(5) m2(5) by (simp add: clearing_inv_def t')
qed

text \<open>What the check of an item guarantees.\<close>

lemma check_item_ok:
  assumes "check_item ce actor x s = (Inr r, t)"
  shows "t = s" "payer_account_id x \<noteq> recipient_account_id x" "UserBank s (recipient_account_id x) = Some (recipient_bank_cid x)"
    "UserBank s (payer_account_id x) = Some (payer_bank_cid x)" "recipient_bank_cid x = actor" "0 < item_debit x"
proof -
  from assms have "0 < transfer_amount x" "\<exists>rate. calc_fee (transfer_amount x) rate = Some (fee_amount x)"
    by (auto simp: check_item_def Let_def)
  then have pos: "0 < transfer_amount x" "0 < fee_amount x"
    by (auto simp: calc_fee_def Let_def OFFCHAIN_MIN_FEE_def split: option.splits)
  then have "0 < max_of 128" by (simp add: max_of_def)
  with pos show "0 < item_debit x" by (simp add: item_debit_def sat_add_def)
  show "t = s" "payer_account_id x \<noteq> recipient_account_id x" "UserBank s (recipient_account_id x) = Some (recipient_bank_cid x)"
    "UserBank s (payer_account_id x) = Some (payer_bank_cid x)" "recipient_bank_cid x = actor"
    using assms by (auto simp: check_item_def Let_def dest: ensure_can_be_bound_same split: if_splits)
qed

text \<open>The item is between two users of the banks it names.\<close>

definition item_between :: "offchain_batch_item \<Rightarrow> 'b clearing \<Rightarrow> bool" where
  "item_between x s \<longleftrightarrow> payer_account_id x \<noteq> recipient_account_id x \<and> UserBank s (recipient_account_id x) = Some (recipient_bank_cid x)"

lemma btree_add_keys:
  assumes "0 < d"
  shows "\<exists>t. (k, t) \<in> set (btree_add k d xs) \<and> 0 < t"
    "(j, t) \<in> set xs \<Longrightarrow> 0 < t \<Longrightarrow> \<exists>t'. (j, t') \<in> set (btree_add k d xs) \<and> 0 < t'"
proof -
  have pos: "0 < sat_add 128 a d" for a using assms by (simp add: sat_add_def max_of_def)
  show "\<exists>t. (k, t) \<in> set (btree_add k d xs) \<and> 0 < t" 
  proof (induction xs)
    case (Cons y xs)
    then show ?case using pos by (cases y) (auto split: if_splits)
  qed (use pos in auto)
  show "(j, t) \<in> set xs \<Longrightarrow> 0 < t \<Longrightarrow> \<exists>t'. (j, t') \<in> set (btree_add k d xs) \<and> 0 < t'"
  proof (induction xs)
    case (Cons y xs)
    then show ?case using pos by (cases y) (auto split: if_splits)
  qed simp
qed

lemma check_items_ok:
  assumes "check_items ce actor xs debits fee s = (Inr (ds, f), t)"
  shows "t = s" "\<forall>x \<in> set xs. item_between x s" "\<forall>x \<in> set xs. \<exists>d. (payer_bank_cid x, d) \<in> set ds \<and> 0 < d"
    "(j, d) \<in> set debits \<Longrightarrow> 0 < d \<Longrightarrow> \<exists>d. (j, d) \<in> set ds \<and> 0 < d"
proof -
  have "t = s \<and> (\<forall>x \<in> set xs. item_between x s) \<and> (\<forall>x \<in> set xs. \<exists>d. (payer_bank_cid x, d) \<in> set ds \<and> 0 < d) \<and>
      (\<forall>j d. (j, d) \<in> set debits \<and> 0 < d \<longrightarrow> (\<exists>d. (j, d) \<in> set ds \<and> 0 < d))"
    using assms
  proof (induction xs arbitrary: debits fee)
    case (Cons x xs)
    from Cons.prems obtain u where u: "check_item ce actor x s = (Inr (), u)"
      and rest: "check_items ce actor xs (btree_add (payer_bank_cid x) (item_debit x) debits) (sat_add 128 fee (fee_amount x)) u = (Inr (ds, f), t)"
      by auto
    note k = check_item_ok [OF u]
    note b = btree_add_keys [OF k(6), where k = "payer_bank_cid x" and xs = debits]
    from Cons.IH [OF rest [unfolded k(1)]] b k(2,3) show ?case unfolding item_between_def by (metis set_ConsD)
  qed auto
  then show "t = s" "\<forall>x \<in> set xs. item_between x s" "\<forall>x \<in> set xs. \<exists>d. (payer_bank_cid x, d) \<in> set ds \<and> 0 < d"
    "(j, d) \<in> set debits \<Longrightarrow> 0 < d \<Longrightarrow> \<exists>d. (j, d) \<in> set ds \<and> 0 < d" by blast+
qed

lemma check_solvency_ok:
  assumes "registry_of c derive ce" "check_solvency ce ds acc s = (Inr r, t)"
  shows "t = s" "(cid, d) \<in> set ds \<Longrightarrow> 0 < d \<Longrightarrow> 0 < slack c derive cid s"
proof -
  have "t = s \<and> (\<forall>cid d. (cid, d) \<in> set ds \<and> 0 < d \<longrightarrow> 0 < slack c derive cid s)"
    using assms(2)
  proof (induction ds arbitrary: acc)
    case (Cons y ds)
    obtain cid d where y: "y = (cid, d)" by (cases y)
    from Cons.prems obtain pool where p: "clearing_account_of ce cid = Some pool"
      "d \<le> free_balance (cur ce) pool (balances (purse s))" "BankTotalDeposits s cid \<le> free_balance (cur ce) pool (balances (purse s)) - d"
      and rest: "check_solvency ce ds (sat_add 128 acc d) s = (Inr r, t)"
      by (auto simp: y ensure_can_debit_def Let_def)
    have "0 < d \<Longrightarrow> 0 < slack c derive cid s"
      using p clearing_account_derived(1) [OF assms(1) p(1)] assms(1) by (simp add: slack_def reserve_def registry_of_def)
    with Cons.IH [OF rest] show ?case by (auto simp: y)
  qed simp
  then show "t = s" "(cid, d) \<in> set ds \<Longrightarrow> 0 < d \<Longrightarrow> 0 < slack c derive cid s" by blast+
qed

end
