(* ===== verification/Clearing_Runs.thy ===== *)
theory Clearing_Runs
  imports Clearing_Safety
begin

text \<open>
  Batches, calls and runs of the clearing pallet: every call keeps the invariant of the books,
  whatever happens in between as long as it does not take money out of a clearing account.
\<close>

section \<open>Items and batches\<close>

lemma item_effect:
  assumes "execute_single_item ce x s = (Inr r, t)"
  shows "\<exists>pool fee_account u. clearing_account_of ce (payer_bank_cid x) = Some pool \<and> fee_account_of ce (recipient_bank_cid x) = Some fee_account \<and>
     (take 2 (payer_bank_cid x), tx_id x) \<notin> ProcessedOffchainTx s \<and>
     sat_add 128 (transfer_amount x) (fee_amount x) \<le> deposit_of (payer_bank_cid x) (payer_account_id x) s \<and>
     (if payer_bank_cid x = recipient_bank_cid x
      then settle_same_bank ce x pool fee_account (sat_add 128 (transfer_amount x) (fee_amount x))
      else settle_cross_bank ce x pool fee_account (sat_add 128 (transfer_amount x) (fee_amount x)))
        (s\<lparr>L3PaymentNonce := (L3PaymentNonce s)(payer_account_id x := L3PaymentNonce s (payer_account_id x) + 1)\<rparr>) = (Inr (), u) \<and>
     t = clearing_event (PaymentSettled (tx_id x) (payer_account_id x) (payer_bank_cid x) (recipient_account_id x)
          (recipient_bank_cid x) (transfer_amount x) (fee_amount x))
        (u\<lparr>ProcessedOffchainTx := insert (take 2 (payer_bank_cid x), tx_id x) (ProcessedOffchainTx u),
           ProcessedOffchainTxAt := (ProcessedOffchainTxAt u)((take 2 (payer_bank_cid x), tx_id x) \<mapsto> block_now ce)\<rparr>)"
  using assms
  by (auto simp: execute_single_item_def Let_def consume_nonce_def province_shard_from_cid_def checked_add_def deposit_of_def split: if_splits)

lemma item_inv:
  assumes "clearing_inv c derive s" "lawful_currency c" "registry_of c derive ce" "derives_apart derive"
    and "item_between x s" "0 < slack c derive (payer_bank_cid x) s" "execute_single_item ce x s = (Inr r, t)"
  shows "clearing_inv c derive t \<and> (\<forall>cid. slack c derive cid t = slack c derive cid s) \<and> UserBank t = UserBank s"
proof -
  let ?d = "sat_add 128 (transfer_amount x) (fee_amount x)"
  let ?s = "s\<lparr>L3PaymentNonce := (L3PaymentNonce s)(payer_account_id x := L3PaymentNonce s (payer_account_id x) + 1)\<rparr>"
  from item_effect [OF assms(7)] obtain pool fee_account u where
    a: "clearing_account_of ce (payer_bank_cid x) = Some pool" "fee_account_of ce (recipient_bank_cid x) = Some fee_account"
    and d: "?d \<le> deposit_of (payer_bank_cid x) (payer_account_id x) s"
    and e: "(if payer_bank_cid x = recipient_bank_cid x then settle_same_bank ce x pool fee_account ?d else settle_cross_bank ce x pool fee_account ?d) ?s = (Inr (), u)"
    and t: "t = clearing_event (PaymentSettled (tx_id x) (payer_account_id x) (payer_bank_cid x) (recipient_account_id x)
          (recipient_bank_cid x) (transfer_amount x) (fee_amount x))
        (u\<lparr>ProcessedOffchainTx := insert (take 2 (payer_bank_cid x), tx_id x) (ProcessedOffchainTx u),
           ProcessedOffchainTxAt := (ProcessedOffchainTxAt u)((take 2 (payer_bank_cid x), tx_id x) \<mapsto> block_now ce)\<rparr>)" by blast
  note a = clearing_account_derived(1) [OF assms(3) a(1)] clearing_account_derived(2) [OF assms(3) a(2)]
  have i: "clearing_inv c derive ?s" by (rule inv_frame [OF assms(1)]) (simp_all add: reserve_def)
  have d': "?d \<le> deposit_of (payer_bank_cid x) (payer_account_id x) ?s" using d by (simp add: deposit_of_def)
  have x: "?d = transfer_amount x + fee_amount x" by (rule debit_exact [OF assms(1,2,6) d])
  have b: "payer_account_id x \<noteq> recipient_account_id x" "UserBank ?s (recipient_account_id x) = Some (recipient_bank_cid x)"
    using assms(5) by (simp_all add: item_between_def)
  have "clearing_inv c derive u \<and> (\<forall>cid. slack c derive cid u = slack c derive cid ?s) \<and> UserBank u = UserBank ?s"
  proof (cases "payer_bank_cid x = recipient_bank_cid x")
    case True
    with e have "settle_same_bank ce x pool fee_account ?d ?s = (Inr (), u)" by simp
    from same_bank_inv [OF i assms(2-4) a True b x d' this] show ?thesis .
  next
    case False
    with e have "settle_cross_bank ce x pool fee_account ?d ?s = (Inr (), u)" by simp
    from cross_bank_inv [OF i assms(2-4) a False b(2) x d' this] show ?thesis .
  qed
  then have u: "clearing_inv c derive u" "\<forall>cid. slack c derive cid u = slack c derive cid s" "UserBank u = UserBank s"
    by (simp_all add: slack_def reserve_def)
  have "clearing_inv c derive t" by (rule inv_frame [OF u(1)]) (simp_all add: t reserve_def)
  with u(2,3) show ?thesis by (simp add: t slack_def reserve_def)
qed

lemma items_inv:
  assumes "lawful_currency c" "registry_of c derive ce" "derives_apart derive"
    and "clearing_inv c derive s" "\<forall>x \<in> set xs. item_between x s \<and> 0 < slack c derive (payer_bank_cid x) s"
    and "execute_items ce xs s = (Inr r, t)"
  shows "clearing_inv c derive t"
  using assms(4-6)
proof (induction xs arbitrary: s)
  case (Cons x xs)
  from Cons.prems(3) obtain u where u: "execute_single_item ce x s = (Inr (), u)" "execute_items ce xs u = (Inr r, t)" by auto
  from item_inv [OF Cons.prems(1) assms(1-3) _ _ u(1)] Cons.prems(2)
  have i: "clearing_inv c derive u" "\<forall>cid. slack c derive cid u = slack c derive cid s" "UserBank u = UserBank s" by auto
  from Cons.prems(2) i(2,3) have "\<forall>x \<in> set xs. item_between x u \<and> 0 < slack c derive (payer_bank_cid x) u"
    by (simp add: item_between_def)
  from Cons.IH [OF i(1) this u(2)] show ?case .
qed simp

section \<open>The fee of a batch\<close>

text \<open>Whoever the shares of a fee go to, nobody's balance falls.\<close>

lemma charge_mono:
  assumes "lawful_currency (currency_of fe)" "charge fe payer n m = (r, m')" "x \<noteq> payer"
  shows "free_balance (currency_of fe) x (balances m) \<le> free_balance (currency_of fe) x (balances m')"
proof (cases "withdraw_keep_alive (currency_of fe) payer (calculate_onchain_fee n) (balances m)")
  case (Pair ok b)
  show ?thesis
  proof (cases ok)
    case True
    with Pair lawful_withdraw(2) [OF assms(1), of payer _ "balances m" b x] assms(3)
    have "free_balance (currency_of fe) x b = free_balance (currency_of fe) x (balances m)" by simp
    with True Pair assms(2) on_unbalanced_mono [OF assms(1), of x "m\<lparr>balances := b\<rparr>"] show ?thesis
      by (auto simp: charge_def Let_def fee_deposit_def)
  next
    case False
    with Pair lawful_withdraw_failed [OF assms(1), of payer _ "balances m" b x] assms(2) show ?thesis
      by (auto simp: charge_def Let_def)
  qed
qed

lemma batch_fee_inv:
  assumes "clearing_inv c derive s" "lawful_currency c" "registry_of c derive ce" "derives_apart derive"
    and "payer = derive cid ACCOUNT_NAME_FEE" "charge_batch_fee ce payer n s = (Inr r, t)"
  shows "clearing_inv c derive t"
proof -
  obtain f m where m: "charge (fees ce) payer n (purse s) = (f, m)" and t: "t = s\<lparr>purse := m\<rparr>"
    using assms(6) by (auto simp: charge_batch_fee_def split: prod.splits sum.splits)
  have c: "cur ce = c" using assms(3) by (simp add: registry_of_def)
  have ne: "derive cid' ACCOUNT_NAME_CLEARING \<noteq> payer" for cid' using assms(4,5) unfolding derives_apart_def by metis
  have mono: "reserve c derive cid' s \<le> reserve c derive cid' t" for cid'
    using charge_mono [of "fees ce" payer n "purse s" f m "derive cid' ACCOUNT_NAME_CLEARING"] m assms(2) ne c by (simp add: reserve_def t)
  show ?thesis by (rule inv_frame [OF assms(1)]) (simp_all add: t mono [unfolded t])
qed

lemma institution_account_same: "ensure_institution_account ce cid a name s = (Inr x, t) \<Longrightarrow> t = s"
  by (auto simp: ensure_institution_account_def split: prod.splits)

lemma batch_inv:
  assumes "clearing_inv c derive s" "lawful_currency c" "registry_of c derive ce" "derives_apart derive"
    and "execute_clearing_bank_batch ce submitter actor role inst batch s = (Inr r, t)"
  shows "clearing_inv c derive t"
proof -
  from assms(5) obtain s1 ds fee s2 dbt s3 s4 fa s5 where
    o: "ensure_institution_account ce actor inst ACCOUNT_NAME_MAIN s = (Inr (), s1)"
    "check_items ce actor batch [] 0 s1 = (Inr (ds, fee), s2)" "check_solvency ce ds 0 s2 = (Inr dbt, s3)"
    "execute_items ce batch s3 = (Inr (), s4)" "fee_account_of ce actor = Some fa" "charge_batch_fee ce fa fee s4 = (Inr (), s5)"
    and t: "t = clearing_event (ClearingBankBatchSettled actor submitter (length batch mod 2 ^ 32) dbt) s5"
    by (auto simp: execute_clearing_bank_batch_def split: prod.splits)
  note s1 = institution_account_same [OF o(1)]
  note k = check_items_ok [OF o(2)]
  note v = check_solvency_ok [OF assms(3) o(3)]
  have "\<forall>x \<in> set batch. item_between x s3 \<and> 0 < slack c derive (payer_bank_cid x) s3"
    using k(1,2,3) v by blast
  moreover have "clearing_inv c derive s3" using assms(1) s1 k(1) v(1) by simp
  ultimately have "clearing_inv c derive s4" using items_inv [OF assms(2-4) _ _ o(4)] by blast
  from batch_fee_inv [OF this assms(2-4) clearing_account_derived(2) [OF assms(3) o(5)] o(6)]
  have "clearing_inv c derive s5" .
  from inv_frame [OF this] show ?thesis by (simp add: t reserve_def)
qed

section \<open>Calls and runs\<close>

datatype clearing_call =
    BindClearingBank cid_number
  | Deposit u128
  | Withdraw u128
  | SwitchBank cid_number
  | SubmitOffchainBatch cid_number role_code account u64 "offchain_batch_item list" signature
  | ProposeL2FeeRate cid_number role_code account u32
  | SetMaxL2FeeRate u32
  | RegisterClearingBank cid_number role_code string string u16
  | UpdateClearingBankEndpoint cid_number role_code string u16
  | UnregisterClearingBank cid_number role_code

fun dispatch_clearing :: "'b clearing_env \<Rightarrow> clearing_origin \<Rightarrow> clearing_call \<Rightarrow> 'b clearing \<Rightarrow> (clearing_error, unit, 'b clearing) outcome" where
  "dispatch_clearing ce o' (BindClearingBank cid) s = bind_clearing_bank ce o' cid s"
| "dispatch_clearing ce o' (Deposit n) s = deposit ce o' n s"
| "dispatch_clearing ce o' (Withdraw n) s = withdraw ce o' n s"
| "dispatch_clearing ce o' (SwitchBank cid) s = switch_bank ce o' cid s"
| "dispatch_clearing ce o' (SubmitOffchainBatch cid role inst seq batch sig) s = submit_offchain_batch ce o' cid role inst seq batch sig s"
| "dispatch_clearing ce o' (ProposeL2FeeRate cid role inst rate) s = propose_l2_fee_rate ce o' cid role inst rate s"
| "dispatch_clearing ce o' (SetMaxL2FeeRate n) s = set_max_l2_fee_rate o' n s"
| "dispatch_clearing ce o' (RegisterClearingBank cid role peer domain port) s = register_clearing_bank ce o' cid role peer domain port s"
| "dispatch_clearing ce o' (UpdateClearingBankEndpoint cid role domain port) s = update_clearing_bank_endpoint ce o' cid role domain port s"
| "dispatch_clearing ce o' (UnregisterClearingBank cid role) s = unregister_clearing_bank ce o' cid role s"

text \<open>
  One step: a call, signed by an account that is not a clearing account; the block hook; or anything else that
  happens to the balances, which takes nothing out of a clearing account.
\<close>

inductive clearing_step :: "'b currency \<Rightarrow> (cid_number \<Rightarrow> account_name \<Rightarrow> account) \<Rightarrow> 'b clearing \<Rightarrow> 'b clearing \<Rightarrow> bool"
  for c derive where
  Call: "registry_of c derive ce \<Longrightarrow> (\<forall>u. signer_of origin = Some u \<longrightarrow> no_pool derive u) \<Longrightarrow>
     dispatch_clearing ce origin call s = (r, t) \<Longrightarrow> clearing_step c derive s t"
| Hook: "activate_pending_rates ce s = (w, t) \<Longrightarrow> clearing_step c derive s t"
| Elsewhere: "(\<forall>cid. reserve c derive cid s \<le> reserve c derive cid (s\<lparr>purse := m\<rparr>)) \<Longrightarrow> clearing_step c derive s (s\<lparr>purse := m\<rparr>)"

definition clearing_genesis :: "'b money \<Rightarrow> 'b clearing" where
  "clearing_genesis m = \<lparr>purse = m, UserBank = Map.empty, DepositBalance = (\<lambda>_. []), BankTotalDeposits = (\<lambda>_. 0),
     L3PaymentNonce = (\<lambda>_. 0), L2FeeRateBp = (\<lambda>_. 0), L2FeeRateProposed = [], MaxL2FeeRateBp = 0,
     ProcessedOffchainTx = {}, ProcessedOffchainTxAt = Map.empty, LastClearingBatchSeq = (\<lambda>_. 0),
     ClearingBankNodes = Map.empty, NodePeerToInstitution = Map.empty, clearing_events = []\<rparr>"

lemma signed_call_cases:
  assumes "signed_call origin f s = (r, t)"
  shows "t = s \<or> (\<exists>who. signer_of origin = Some who \<and> f who s = (Inr (), t))"
  using assms by (cases r) (auto simp: signed_call_def)

lemma signed_keeps:
  assumes "signed_call origin f s = (r, t)" "P s" "\<And>who. signer_of origin = Some who \<Longrightarrow> f who s = (Inr (), t) \<Longrightarrow> P t"
  shows "P t"
  using signed_call_cases [OF assms(1)] assms(2,3) by blast

text \<open>Calls that only touch fee rates or nodes, and say so in the events.\<close>

fun is_ledger_event :: "offchain_event \<Rightarrow> bool" where
  "is_ledger_event (PaymentSettled _ _ _ _ _ _ _) = True"
| "is_ledger_event (ClearingBankBatchSettled _ _ _ _) = True"
| "is_ledger_event _ = False"

definition administrative :: "'b clearing \<Rightarrow> 'b clearing \<Rightarrow> bool" where
  "administrative s t \<longleftrightarrow> purse t = purse s \<and> UserBank t = UserBank s \<and> DepositBalance t = DepositBalance s \<and>
     BankTotalDeposits t = BankTotalDeposits s \<and> L3PaymentNonce t = L3PaymentNonce s \<and>
     ProcessedOffchainTx t = ProcessedOffchainTx s \<and> LastClearingBatchSeq t = LastClearingBatchSeq s \<and>
     (\<exists>es. clearing_events t = clearing_events s @ es \<and> \<not> list_ex is_ledger_event es)"

definition same_nodes :: "'b clearing \<Rightarrow> 'b clearing \<Rightarrow> bool" where
  "same_nodes s t \<longleftrightarrow> ClearingBankNodes t = ClearingBankNodes s \<and> NodePeerToInstitution t = NodePeerToInstitution s"

lemma administrative_refl: "administrative s s"
  by (simp add: administrative_def)

lemma administrative_trans: "administrative s t \<Longrightarrow> administrative t u \<Longrightarrow> administrative s u"
  by (auto simp: administrative_def)

lemma administrative_event:
  assumes "administrative s t" "\<not> is_ledger_event e"
  shows "administrative s (clearing_event e t)"
proof -
  from assms(1) obtain es where "clearing_events t = clearing_events s @ es" "\<not> list_ex is_ledger_event es"
    by (auto simp: administrative_def)
  with assms show ?thesis by (auto simp: administrative_def clearing_event_def intro!: exI [of _ "es @ [e]"])
qed

lemma propose_effect:
  "do_propose_l2_fee_rate ce who cid role inst rate s = (Inr x, t) \<Longrightarrow> administrative s t \<and> same_nodes s t"
  "do_set_max_l2_fee_rate n s = (Inr x, t) \<Longrightarrow> administrative s t \<and> same_nodes s t"
  by (auto simp: do_propose_l2_fee_rate_def do_set_max_l2_fee_rate_def Let_def administrative_def same_nodes_def clearing_event_def
      dest!: institution_account_same ensure_can_be_bound_same)

lemma activate_effect:
  assumes "activate_pending_rates ce s = (w, t)"
  shows "administrative s t \<and> same_nodes s t"
proof -
  have "administrative s (fold activate_rate due s) \<and> same_nodes s (fold activate_rate due s)" for due
  proof (induction due arbitrary: s)
    case (Cons d due)
    obtain b r where d: "d = (b, r)" by (cases d)
    have "administrative s (activate_rate d s) \<and> same_nodes s (activate_rate d s)"
      by (auto simp: d activate_rate_def administrative_def same_nodes_def clearing_event_def)
    with Cons.IH [of "activate_rate d s"] administrative_trans show ?case by (auto simp: same_nodes_def)
  qed (simp add: administrative_refl same_nodes_def)
  with assms show ?thesis by (auto simp: activate_pending_rates_def split: prod.splits)
qed

lemma validated_ok [simp]: "validated v s k = (Inr x, t) \<longleftrightarrow> v = None \<and> k s = (Inr x, t)"
  by (simp add: validated_def split: option.split)

lemma node_calls_administrative:
  "do_register_clearing_bank ce who cid role peer domain port s = (Inr x, t) \<Longrightarrow> administrative s t"
  "do_update_clearing_bank_endpoint ce who cid role domain port s = (Inr x, t) \<Longrightarrow> administrative s t"
  "do_unregister_clearing_bank ce who cid role s = (Inr x, t) \<Longrightarrow> administrative s t"
  by (auto simp: do_register_clearing_bank_def do_update_clearing_bank_endpoint_def do_unregister_clearing_bank_def
      administrative_def clearing_event_def)

section \<open>Invariants of runs\<close>

text \<open>What is kept by the operations of the pallet is kept by every run.\<close>

locale clearing_law =
  fixes c :: "'b currency" and derive :: "cid_number \<Rightarrow> account_name \<Rightarrow> account" and P :: "'b clearing \<Rightarrow> bool"
  assumes bind_keeps: "P s \<Longrightarrow> do_bind_clearing_bank ce u cid s = (Inr (), t) \<Longrightarrow> P t"
    and switch_keeps: "P s \<Longrightarrow> do_switch_bank ce u cid s = (Inr (), t) \<Longrightarrow> P t"
    and deposit_keeps: "P s \<Longrightarrow> registry_of c derive ce \<Longrightarrow> no_pool derive u \<Longrightarrow> do_deposit ce u n s = (Inr (), t) \<Longrightarrow> P t"
    and withdraw_keeps: "P s \<Longrightarrow> registry_of c derive ce \<Longrightarrow> no_pool derive u \<Longrightarrow> do_withdraw ce u n s = (Inr (), t) \<Longrightarrow> P t"
    and batch_keeps: "P s \<Longrightarrow> registry_of c derive ce \<Longrightarrow>
      execute_clearing_bank_batch ce u actor role inst batch s = (Inr (), t) \<Longrightarrow>
      P (t\<lparr>LastClearingBatchSeq := (LastClearingBatchSeq t)(actor := sat_add 64 (LastClearingBatchSeq s actor) 1)\<rparr>)"
    and rates_keep: "P s \<Longrightarrow> administrative s t \<Longrightarrow> same_nodes s t \<Longrightarrow> P t"
    and register_keeps: "P s \<Longrightarrow> do_register_clearing_bank ce u cid role peer domain port s = (Inr (), t) \<Longrightarrow> P t"
    and update_keeps: "P s \<Longrightarrow> do_update_clearing_bank_endpoint ce u cid role domain port s = (Inr (), t) \<Longrightarrow> P t"
    and unregister_keeps: "P s \<Longrightarrow> do_unregister_clearing_bank ce u cid role s = (Inr (), t) \<Longrightarrow> P t"
    and elsewhere_keeps: "P s \<Longrightarrow> (\<And>cid. reserve c derive cid s \<le> reserve c derive cid (s\<lparr>purse := m\<rparr>)) \<Longrightarrow> P (s\<lparr>purse := m\<rparr>)"
begin

lemma submit_keeps:
  assumes "P s" "registry_of c derive ce" "submit_offchain_batch ce origin actor role inst seq batch sig s = (r, t)"
  shows "P t"
proof -
  from signed_call_cases [OF assms(3) [unfolded submit_offchain_batch_def]] show ?thesis
  proof (elim disjE exE conjE)
    assume "t = s" then show ?thesis using assms(1) by simp
  next
    fix who
    assume "ensure (batch \<noteq> []) EmptyBatch s (\<lambda>s.
     and_then (ensure_institution_account ce actor inst ACCOUNT_NAME_MAIN s) (\<lambda>_ s.
     ensure (is_institution_role_authorized ce actor role who ACTION_OFFCHAIN_SUBMIT_BATCH) UnauthorizedAdmin s (\<lambda>s.
     and_then (verify_batch_signature ce who actor role inst seq batch sig s) (\<lambda>_ s.
     ensure (seq = sat_add 64 (LastClearingBatchSeq s actor) 1) InvalidBatchSeq s (\<lambda>s.
     with_transaction (\<lambda>s.
       and_then (execute_clearing_bank_batch ce who actor role inst batch s) (\<lambda>_ s.
       (Inr (), s\<lparr>LastClearingBatchSeq := (LastClearingBatchSeq s)(actor := seq)\<rparr>))) s))))) = (Inr (), t)"
    then obtain u where "execute_clearing_bank_batch ce who actor role inst batch s = (Inr (), u)"
      and t: "t = u\<lparr>LastClearingBatchSeq := (LastClearingBatchSeq u)(actor := sat_add 64 (LastClearingBatchSeq s actor) 1)\<rparr>"
      by (auto simp: verify_batch_signature_def dest!: institution_account_same)
    from batch_keeps [OF assms(1,2) this(1)] show ?thesis by (simp add: t)
  qed
qed

lemma set_max_keeps: "P s \<Longrightarrow> set_max_l2_fee_rate origin n s = (r, t) \<Longrightarrow> P t"
  by (cases r) (auto simp: set_max_l2_fee_rate_def intro: rates_keep dest!: propose_effect(2))

lemma call_keeps:
  assumes "P s" "registry_of c derive ce" "\<forall>u. signer_of origin = Some u \<longrightarrow> no_pool derive u"
    and "dispatch_clearing ce origin call s = (r, t)"
  shows "P t"
proof (cases call)
  case (SubmitOffchainBatch a b d e f g)
  with assms submit_keeps show ?thesis by simp
next
  case (SetMaxL2FeeRate n)
  with assms set_max_keeps show ?thesis by simp
next
  case (BindClearingBank a)
  from assms(4) show ?thesis unfolding BindClearingBank dispatch_clearing.simps bind_clearing_bank_def
    by (rule signed_keeps [where P = P, OF _ assms(1)]) (rule bind_keeps [OF assms(1)])
next
  case (Deposit a)
  from assms(4) show ?thesis unfolding Deposit dispatch_clearing.simps deposit_def
    by (rule signed_keeps [where P = P, OF _ assms(1)]) (use deposit_keeps [OF assms(1,2)] assms(3) in blast)
next
  case (Withdraw a)
  from assms(4) show ?thesis unfolding Withdraw dispatch_clearing.simps withdraw_def
    by (rule signed_keeps [where P = P, OF _ assms(1)]) (use withdraw_keeps [OF assms(1,2)] assms(3) in blast)
next
  case (SwitchBank a)
  from assms(4) show ?thesis unfolding SwitchBank dispatch_clearing.simps switch_bank_def
    by (rule signed_keeps [where P = P, OF _ assms(1)]) (rule switch_keeps [OF assms(1)])
next
  case (ProposeL2FeeRate a b d e)
  from assms(4) show ?thesis unfolding ProposeL2FeeRate dispatch_clearing.simps propose_l2_fee_rate_def
    by (rule signed_keeps [where P = P, OF _ assms(1)]) (use rates_keep [OF assms(1)] propose_effect(1) in blast)
next
  case (RegisterClearingBank a b d e f)
  from assms(4) show ?thesis unfolding RegisterClearingBank dispatch_clearing.simps register_clearing_bank_def
    by (rule signed_keeps [where P = P, OF _ assms(1)]) (rule register_keeps [OF assms(1)])
next
  case (UpdateClearingBankEndpoint a b d e)
  from assms(4) show ?thesis unfolding UpdateClearingBankEndpoint dispatch_clearing.simps update_clearing_bank_endpoint_def
    by (rule signed_keeps [where P = P, OF _ assms(1)]) (rule update_keeps [OF assms(1)])
next
  case (UnregisterClearingBank a b)
  from assms(4) show ?thesis unfolding UnregisterClearingBank dispatch_clearing.simps unregister_clearing_bank_def
    by (rule signed_keeps [where P = P, OF _ assms(1)]) (rule unregister_keeps [OF assms(1)])
qed

lemma run_keeps: "(clearing_step c derive)\<^sup>*\<^sup>* s t \<Longrightarrow> P s \<Longrightarrow> P t"
proof (induction rule: rtranclp_induct)
  case (step y z)
  from step.hyps(2) step.IH [OF step.prems] show ?case
  proof (cases rule: clearing_step.cases)
    case (Call ce origin call r)
    with call_keeps step.IH step.prems show ?thesis by blast
  next
    case (Hook ce w)
    with activate_effect rates_keep step.IH step.prems show ?thesis by blast
  next
    case (Elsewhere m)
    with elsewhere_keeps step.IH step.prems show ?thesis by blast
  qed
qed

end

interpretation books: clearing_law c derive "\<lambda>s. lawful_currency c \<and> derives_apart derive \<longrightarrow> clearing_inv c derive s"
  for c :: "'b currency" and derive
proof (unfold_locales, goal_cases)
  case (1 s ce u cid t) then show ?case using bind_inv by blast
next
  case (2 s ce u cid t) then show ?case using switch_inv by blast
next
  case (3 s ce u n t) then show ?case using deposit_inv by blast
next
  case (4 s ce u n t) then show ?case using withdraw_inv by blast
next
  case (5 s ce u actor role inst batch t)
  show ?case
  proof
    assume "lawful_currency c \<and> derives_apart derive"
    with 5 batch_inv have "clearing_inv c derive t" by blast
    from inv_frame [OF this] show "clearing_inv c derive
      (t\<lparr>LastClearingBatchSeq := (LastClearingBatchSeq t)(actor := sat_add 64 (LastClearingBatchSeq s actor) 1)\<rparr>)"
      by (simp add: reserve_def)
  qed
next
  case (6 s t) then show ?case using inv_frame [of c derive s t] by (simp add: administrative_def reserve_def)
next
  case (7 s ce u cid role peer domain port t)
  with node_calls_administrative(1) [OF 7(2)] show ?case using inv_frame [of c derive s t] by (simp add: administrative_def reserve_def)
next
  case (8 s ce u cid role domain port t)
  with node_calls_administrative(2) [OF 8(2)] show ?case using inv_frame [of c derive s t] by (simp add: administrative_def reserve_def)
next
  case (9 s ce u cid role t)
  with node_calls_administrative(3) [OF 9(2)] show ?case using inv_frame [of c derive s t] by (simp add: administrative_def reserve_def)
next
  case (10 s m) then show ?case using inv_frame [of c derive s "s\<lparr>purse := m\<rparr>"] by simp
qed

section \<open>Records of payments\<close>

definition settled_keys :: "offchain_event list \<Rightarrow> (string \<times> hash) list" where
  "settled_keys es = concat (map (\<lambda>e. case e of PaymentSettled tx _ cid _ _ _ _ \<Rightarrow> [(take 2 cid, tx)] | _ \<Rightarrow> []) es)"

definition paid_by :: "account \<Rightarrow> offchain_event list \<Rightarrow> nat" where
  "paid_by u es = length (filter (\<lambda>e. case e of PaymentSettled _ p _ _ _ _ _ \<Rightarrow> p = u | _ \<Rightarrow> False) es)"

definition batches_of :: "cid_number \<Rightarrow> offchain_event list \<Rightarrow> nat" where
  "batches_of cid es = length (filter (\<lambda>e. case e of ClearingBankBatchSettled a _ _ _ \<Rightarrow> a = cid | _ \<Rightarrow> False) es)"

definition once_inv :: "'b clearing \<Rightarrow> bool" where
  "once_inv s \<longleftrightarrow> distinct (settled_keys (clearing_events s)) \<and> set (settled_keys (clearing_events s)) = ProcessedOffchainTx s \<and>
     (\<forall>u. L3PaymentNonce s u = paid_by u (clearing_events s))"

definition seq_inv :: "'b clearing \<Rightarrow> bool" where
  "seq_inv s \<longleftrightarrow> (\<forall>cid. LastClearingBatchSeq s cid = min (batches_of cid (clearing_events s)) (max_of 64))"

lemma quiet_events:
  assumes "\<not> list_ex is_ledger_event es"
  shows "settled_keys (xs @ es) = settled_keys xs" "paid_by u (xs @ es) = paid_by u xs" "batches_of cid (xs @ es) = batches_of cid xs"
proof -
  have "settled_keys es = [] \<and> paid_by u es = 0 \<and> batches_of cid es = 0"
    using assms
  proof (induction es)
    case (Cons e es)
    then show ?case by (cases e) (simp_all add: settled_keys_def paid_by_def batches_of_def)
  qed (simp add: settled_keys_def paid_by_def batches_of_def)
  then show "settled_keys (xs @ es) = settled_keys xs" "paid_by u (xs @ es) = paid_by u xs" "batches_of cid (xs @ es) = batches_of cid xs"
    by (simp_all add: settled_keys_def paid_by_def batches_of_def)
qed

text \<open>Operations that neither settle nor close a batch.\<close>

definition quiet :: "'b clearing \<Rightarrow> 'b clearing \<Rightarrow> bool" where
  "quiet s t \<longleftrightarrow> L3PaymentNonce t = L3PaymentNonce s \<and> ProcessedOffchainTx t = ProcessedOffchainTx s \<and>
     LastClearingBatchSeq t = LastClearingBatchSeq s \<and> (\<exists>es. clearing_events t = clearing_events s @ es \<and> \<not> list_ex is_ledger_event es)"

lemma quiet_inv: "quiet s t \<Longrightarrow> once_inv s \<Longrightarrow> once_inv t" "quiet s t \<Longrightarrow> seq_inv s \<Longrightarrow> seq_inv t"
  by (auto simp: quiet_def once_inv_def seq_inv_def quiet_events)

lemma administrative_quiet: "administrative s t \<Longrightarrow> quiet s t"
  by (simp add: administrative_def quiet_def)

lemma user_calls_quiet:
  "do_bind_clearing_bank ce u cid s = (Inr x, t) \<Longrightarrow> quiet s t \<and> same_nodes s t"
  "do_switch_bank ce u cid s = (Inr x, t) \<Longrightarrow> quiet s t \<and> same_nodes s t"
  "do_deposit ce u n s = (Inr x, t) \<Longrightarrow> quiet s t \<and> same_nodes s t"
  "do_withdraw ce u n s = (Inr x, t) \<Longrightarrow> quiet s t \<and> same_nodes s t"
  by (auto simp: do_bind_clearing_bank_def do_switch_bank_def do_deposit_def do_withdraw_def Let_def quiet_def same_nodes_def
      set_deposit_def set_bank_total_def clearing_event_def dest!: ensure_can_be_bound_same pay_ok)

lemma settle_frame:
  "settle_same_bank ce x pool fee_account d s = (Inr r, t) \<Longrightarrow> quiet s t \<and> clearing_events t = clearing_events s \<and> same_nodes s t"
  "settle_cross_bank ce x pool fee_account d s = (Inr r, t) \<Longrightarrow> quiet s t \<and> clearing_events t = clearing_events s \<and> same_nodes s t"
  by (auto simp: settle_same_bank_def settle_cross_bank_def Let_def quiet_def same_nodes_def set_deposit_def set_bank_total_def dest!: pay_ok)

lemma item_records:
  assumes "execute_single_item ce x s = (Inr r, t)" "once_inv s"
  shows "once_inv t" "LastClearingBatchSeq t = LastClearingBatchSeq s"
    "batches_of cid (clearing_events t) = batches_of cid (clearing_events s)" "same_nodes s t"
proof -
  let ?s = "s\<lparr>L3PaymentNonce := (L3PaymentNonce s)(payer_account_id x := L3PaymentNonce s (payer_account_id x) + 1)\<rparr>"
  let ?k = "(take 2 (payer_bank_cid x), tx_id x)"
  let ?e = "PaymentSettled (tx_id x) (payer_account_id x) (payer_bank_cid x) (recipient_account_id x)
          (recipient_bank_cid x) (transfer_amount x) (fee_amount x)"
  from item_effect [OF assms(1)] obtain pool fee_account d u where new: "?k \<notin> ProcessedOffchainTx s"
    and u: "(if payer_bank_cid x = recipient_bank_cid x then settle_same_bank ce x pool fee_account d else settle_cross_bank ce x pool fee_account d) ?s = (Inr (), u)"
    and t: "t = clearing_event ?e (u\<lparr>ProcessedOffchainTx := insert ?k (ProcessedOffchainTx u),
           ProcessedOffchainTxAt := (ProcessedOffchainTxAt u)(?k \<mapsto> block_now ce)\<rparr>)" by blast
  from u settle_frame have q: "quiet ?s u" "clearing_events u = clearing_events s" "same_nodes ?s u" by (fastforce split: if_splits)+
  then have f: "L3PaymentNonce t = (L3PaymentNonce s)(payer_account_id x := L3PaymentNonce s (payer_account_id x) + 1)"
    "ProcessedOffchainTx t = insert ?k (ProcessedOffchainTx s)" "clearing_events t = clearing_events s @ [?e]"
    by (simp_all add: t quiet_def clearing_event_def)
  show "LastClearingBatchSeq t = LastClearingBatchSeq s" "same_nodes s t"
    using q by (simp_all add: t quiet_def clearing_event_def same_nodes_def)
  show "batches_of cid (clearing_events t) = batches_of cid (clearing_events s)" by (simp add: f(3) batches_of_def)
  show "once_inv t" using assms(2) new by (simp add: once_inv_def f settled_keys_def paid_by_def)
qed

lemma items_records:
  assumes "execute_items ce xs s = (Inr r, t)" "once_inv s"
  shows "once_inv t \<and> LastClearingBatchSeq t = LastClearingBatchSeq s \<and>
    (\<forall>cid. batches_of cid (clearing_events t) = batches_of cid (clearing_events s)) \<and> same_nodes s t"
  using assms
proof (induction xs arbitrary: s)
  case (Cons x xs)
  from Cons.prems(1) obtain u where u: "execute_single_item ce x s = (Inr (), u)" "execute_items ce xs u = (Inr r, t)" by auto
  note k = item_records [OF u(1) Cons.prems(2)]
  from Cons.IH [OF u(2) k(1)] k(2-) show ?case by (auto simp: same_nodes_def)
qed (simp add: same_nodes_def)

lemma batch_records:
  assumes "registry_of c derive ce" "execute_clearing_bank_batch ce submitter actor role inst batch s = (Inr r, t)" "once_inv s" "seq_inv s"
  shows "once_inv (t\<lparr>LastClearingBatchSeq := (LastClearingBatchSeq t)(actor := sat_add 64 (LastClearingBatchSeq s actor) 1)\<rparr>)"
    "seq_inv (t\<lparr>LastClearingBatchSeq := (LastClearingBatchSeq t)(actor := sat_add 64 (LastClearingBatchSeq s actor) 1)\<rparr>)"
    "same_nodes s t"
proof -
  from assms(2) obtain s1 ds fee s2 dbt s3 s4 fa s5 where
    o: "ensure_institution_account ce actor inst ACCOUNT_NAME_MAIN s = (Inr (), s1)"
    "check_items ce actor batch [] 0 s1 = (Inr (ds, fee), s2)" "check_solvency ce ds 0 s2 = (Inr dbt, s3)"
    "execute_items ce batch s3 = (Inr (), s4)" "charge_batch_fee ce fa fee s4 = (Inr (), s5)"
    and t: "t = clearing_event (ClearingBankBatchSettled actor submitter (length batch mod 2 ^ 32) dbt) s5"
    by (auto simp: execute_clearing_bank_batch_def split: prod.splits)
  have s3: "s3 = s" using institution_account_same [OF o(1)] check_items_ok(1) [OF o(2)] check_solvency_ok(1) [OF assms(1) o(3)] by simp
  note k = items_records [OF o(4) [unfolded s3] assms(3)]
  obtain m where "s5 = s4\<lparr>purse := m\<rparr>"
    using o(5) by (auto simp: charge_batch_fee_def split: prod.splits sum.splits)
  then have t5: "t = clearing_event (ClearingBankBatchSettled actor submitter (length batch mod 2 ^ 32) dbt) (s4\<lparr>purse := m\<rparr>)"
    by (simp add: t)
  show "same_nodes s t" using k by (simp add: same_nodes_def t5 clearing_event_def)
  show "once_inv (t\<lparr>LastClearingBatchSeq := (LastClearingBatchSeq t)(actor := sat_add 64 (LastClearingBatchSeq s actor) 1)\<rparr>)"
    using k by (simp add: t5 once_inv_def clearing_event_def settled_keys_def paid_by_def)
  have b: "batches_of cid (clearing_events t) = batches_of cid (clearing_events s) + (if cid = actor then 1 else 0)" for cid
    using k by (simp add: t5 clearing_event_def batches_of_def)
  have l: "LastClearingBatchSeq t = LastClearingBatchSeq s" using k by (simp add: t5 clearing_event_def)
  have "sat_add 64 (min n (max_of 64)) 1 = min (n + 1) (max_of 64)" for n by (simp add: sat_add_def)
  then show "seq_inv (t\<lparr>LastClearingBatchSeq := (LastClearingBatchSeq t)(actor := sat_add 64 (LastClearingBatchSeq s actor) 1)\<rparr>)"
    using assms(4) by (simp add: seq_inv_def b l)
qed

section \<open>The index of nodes\<close>

definition indexed :: "'b clearing \<Rightarrow> bool" where
  "indexed s \<longleftrightarrow> (\<forall>cid peer. NodePeerToInstitution s peer = Some cid \<longleftrightarrow>
     (\<exists>info. ClearingBankNodes s cid = Some info \<and> node_peer_id info = peer))"

lemma indexed_same: "same_nodes s t \<Longrightarrow> indexed s \<Longrightarrow> indexed t"
  by (simp add: same_nodes_def indexed_def)

lemma node_calls_indexed:
  "indexed s \<Longrightarrow> do_register_clearing_bank ce u cid role peer domain port s = (Inr x, t) \<Longrightarrow> indexed t"
  "indexed s \<Longrightarrow> do_update_clearing_bank_endpoint ce u cid role domain port s = (Inr x, t) \<Longrightarrow> indexed t"
  "indexed s \<Longrightarrow> do_unregister_clearing_bank ce u cid role s = (Inr x, t) \<Longrightarrow> indexed t"
proof -
  assume "indexed s"
  then have i: "NodePeerToInstitution s q = Some d \<longleftrightarrow> (\<exists>info. ClearingBankNodes s d = Some info \<and> node_peer_id info = q)" for q d
    by (simp add: indexed_def)
  { assume "do_register_clearing_bank ce u cid role peer domain port s = (Inr x, t)"
    then obtain info where f: "ClearingBankNodes t = (ClearingBankNodes s)(cid \<mapsto> info)" "NodePeerToInstitution t = (NodePeerToInstitution s)(peer \<mapsto> cid)"
      "node_peer_id info = peer" "ClearingBankNodes s cid = None" "NodePeerToInstitution s peer = None"
      by (auto simp: do_register_clearing_bank_def clearing_event_def)
    have "NodePeerToInstitution t q = Some d \<longleftrightarrow> (\<exists>info. ClearingBankNodes t d = Some info \<and> node_peer_id info = q)" for q d
      using f i [of q d] by (cases "q = peer"; cases "d = cid") auto
    then show "indexed t" by (simp add: indexed_def) }
  { assume "do_update_clearing_bank_endpoint ce u cid role domain port s = (Inr x, t)"
    then obtain info info' where f: "ClearingBankNodes t = (ClearingBankNodes s)(cid \<mapsto> info')" "NodePeerToInstitution t = NodePeerToInstitution s"
      "node_peer_id info' = node_peer_id info" "ClearingBankNodes s cid = Some info"
      by (auto simp: do_update_clearing_bank_endpoint_def clearing_event_def)
    have "NodePeerToInstitution t q = Some d \<longleftrightarrow> (\<exists>info. ClearingBankNodes t d = Some info \<and> node_peer_id info = q)" for q d
      using f i [of q d] by (cases "d = cid") auto
    then show "indexed t" by (simp add: indexed_def) }
  { assume "do_unregister_clearing_bank ce u cid role s = (Inr x, t)"
    then obtain info where f: "ClearingBankNodes t = (ClearingBankNodes s)(cid := None)" "ClearingBankNodes s cid = Some info"
      "NodePeerToInstitution t = (NodePeerToInstitution s)(node_peer_id info := None)"
      by (auto simp: do_unregister_clearing_bank_def clearing_event_def)
    have "NodePeerToInstitution t q = Some d \<longleftrightarrow> (\<exists>info. ClearingBankNodes t d = Some info \<and> node_peer_id info = q)" for q d
      using f i [of q d] i [of "node_peer_id info" cid] by (cases "q = node_peer_id info"; cases "d = cid") auto
    then show "indexed t" by (simp add: indexed_def) }
qed

interpretation receipts: clearing_law c derive "\<lambda>s. once_inv s \<and> seq_inv s \<and> indexed s" for c :: "'b currency" and derive
proof (unfold_locales, goal_cases)
  case (5 s ce u actor role inst batch t)
  then have i: "once_inv s" "seq_inv s" "indexed s" by simp_all
  note b = batch_records [OF 5(2,3) i(1,2)]
  have "indexed t" by (rule indexed_same [OF b(3) i(3)])
  then show ?case using b(1,2) by (simp add: indexed_def)
next
  case (10 s m) then show ?case by (simp add: once_inv_def seq_inv_def indexed_def)
qed (blast dest: user_calls_quiet node_calls_administrative administrative_quiet intro: quiet_inv indexed_same node_calls_indexed)+

section \<open>A bank at work\<close>

text \<open>
  Concrete accounts and a run: a bank registers its node, two users bind to it, one deposits, the bank sets its
  rate, the rate takes effect, and a batch with one payment is settled.
\<close>

fun string_code :: "string \<Rightarrow> nat" where
  "string_code [] = 0"
| "string_code (x # xs) = Suc (byte x) + 257 * string_code xs"

definition plain_derive :: "cid_number \<Rightarrow> account_name \<Rightarrow> account" where
  "plain_derive cid name = 4 * string_code cid + (if name = ACCOUNT_NAME_CLEARING then 1 else if name = ACCOUNT_NAME_FEE then 2
     else if name = ACCOUNT_NAME_MAIN then 3 else 0)"

lemma string_code_inj: "string_code xs = string_code ys \<Longrightarrow> xs = ys"
proof (induction xs arbitrary: ys)
  case Nil
  then show ?case by (cases ys) simp_all
next
  case (Cons x xs)
  then obtain y ys' where ys: "ys = y # ys'" by (cases ys) simp_all
  have "byte z < 257" for z
  proof -
    have "byte z = byte z mod 256" by (simp add: byte_def)
    also have "\<dots> < 256" by (rule mod_less_divisor) simp
    finally show ?thesis by simp
  qed
  then have "byte x < 257" "byte y < 257" by blast+
  then have m: "(byte x + 257 * k) mod 257 = byte x" "(byte y + 257 * k) mod 257 = byte y" for k by simp_all
  have e: "byte x + 257 * string_code xs = byte y + 257 * string_code ys'" using Cons.prems by (simp add: ys)
  then have "byte x = byte y" using m(1) [of "string_code xs"] m(2) [of "string_code ys'"] by simp
  with e have "byte x = byte y \<and> string_code xs = string_code ys'" by simp
  then show ?case using Cons.IH by (simp add: ys byte_def)
qed

lemma plain_apart: "derives_apart plain_derive"
proof -
  have "ACCOUNT_NAME_FEE \<noteq> ACCOUNT_NAME_CLEARING" by (simp add: ACCOUNT_NAME_FEE_def ACCOUNT_NAME_CLEARING_def)
  moreover have "4 * a + 2 \<noteq> 4 * b + (1::nat)" for a b by presburger
  ultimately show ?thesis using string_code_inj by (simp add: derives_apart_def plain_derive_def)
qed

definition plain_bank :: cid_number where "plain_bank = ''GD001-SFGQA''"

definition plain_main :: account where "plain_main = plain_derive plain_bank ACCOUNT_NAME_MAIN"

definition plain_env :: "u32 \<Rightarrow> (account \<Rightarrow> u128) clearing_env" where
  "plain_env now = \<lparr>
     fees = \<lparr>currency_of = plain_currency, block_author = None, reward_account_of = (\<lambda>_. None), nrc_account = None,
       safety_fund_account = 0, ration = (\<lambda>a b x. (x * a div (a + b), x - x * a div (a + b)))\<rparr>,
     classes = \<lparr>is_stake_account = (\<lambda>_. False), is_reserved_fee_account = (\<lambda>_. False), is_cb_fee_account = (\<lambda>_. False),
       is_citizenchain_fee_account = (\<lambda>_. False), SAFETY_FUND_ACCOUNT = 0, is_reserved_main_account = (\<lambda>_. False),
       is_clearing_account = (\<lambda>a. a = plain_derive plain_bank ACCOUNT_NAME_CLEARING), is_federal_citizen_security_fund_account = (\<lambda>_. False)\<rparr>,
     account_info = (\<lambda>a. if a = plain_main then Some (plain_bank, ACCOUNT_NAME_MAIN) else None),
     find_account = (\<lambda>cid name. if cid = plain_bank then Some (plain_derive cid name) else None),
     account_exists = (\<lambda>a. a = plain_main),
     is_institution_role_authorized = (\<lambda>cid role who act. who = 4),
     signing_hash = (\<lambda>_. 0), batch_signing_hash = (\<lambda>_ _ _ _ _. 0), sr25519_verify = (\<lambda>_ _ _. True),
     block_now = now, rate_iter = (\<lambda>xs. xs), clearing_db_weight = (\<lambda>_ _. weight_zero)\<rparr>"

definition plain_peer :: string where
  "plain_peer = ''12D3KooWAAAAAAAAAAAAAAAAAAAAAAAAAAAAAAAAAAAAAAAAAA''"

definition plain_item :: offchain_batch_item where
  "plain_item = \<lparr>tx_id = 77, payer_account_id = 8, payer_bank_cid = plain_bank, recipient_account_id = 12, recipient_bank_cid = plain_bank,
     transfer_amount = 10000, fee_amount = 5, payer_sig = replicate 64 0, payer_nonce = 1, expires_at = max_of 32\<rparr>"

definition plain_start :: "(account \<Rightarrow> u128) clearing" where
  "plain_start = clearing_genesis \<lparr>balances = (\<lambda>a. 50000), fee_events = []\<rparr>"

lemma plain_registry: "registry_of plain_currency plain_derive (plain_env now)"
  by (simp add: registry_of_def plain_env_def)

lemmas plain_names = ACCOUNT_NAME_CLEARING_def ACCOUNT_NAME_FEE_def ACCOUNT_NAME_MAIN_def

lemma plain_accounts:
  "plain_derive plain_bank ACCOUNT_NAME_CLEARING = 4 * string_code plain_bank + 1"
  "plain_derive plain_bank ACCOUNT_NAME_FEE = 4 * string_code plain_bank + 2"
  "plain_main = 4 * string_code plain_bank + 3"
  by (simp_all add: plain_derive_def plain_names plain_main_def)

lemma plain_code_large: "100 < string_code plain_bank"
  by (simp add: plain_bank_def byte_def)

lemma bank_private: "subject_property_is_private_institution plain_bank" "length plain_bank = 11" "plain_bank \<noteq> []" "take 2 plain_bank = ''GD''"
  by (simp_all add: plain_bank_def subject_property_is_private_institution_def)

lemma peer_valid: "validate_peer_id_bytes plain_peer = None" "plain_peer \<noteq> []" "validate_rpc_domain_bytes ''bank.cn'' = None"
  by (simp_all add: validate_peer_id_bytes_def validate_rpc_domain_bytes_def plain_peer_def is_ascii_alphanumeric_def is_ascii_alphabetic_def byte_def)

lemmas plain_call_defs = signed_call_def with_transaction_def signer_of_def plain_env_def is_clearing_bank_eligible_def
  ensure_can_be_bound_def ensure_institution_account_def is_registered_clearing_node_def clearing_account_of_def fee_account_of_def CID_NUMBER_MAX_BYTES_def
  ensure_def le_max_iff_disj

lemma plain_registers:
  assumes "ClearingBankNodes s plain_bank = None" "NodePeerToInstitution s plain_peer = None"
  shows "dispatch_clearing (plain_env 1) (ClearingSigned 4) (RegisterClearingBank plain_bank [] plain_peer ''bank.cn'' 8443) s =
    (Inr (), clearing_event (ClearingBankRegistered plain_bank plain_peer ''bank.cn'' 8443 4)
        (s\<lparr>ClearingBankNodes := (ClearingBankNodes s)(plain_bank \<mapsto> \<lparr>node_peer_id = plain_peer, rpc_domain = ''bank.cn'', rpc_port = 8443,
             registered_at = 1, registrar_account_id = 4\<rparr>),
           NodePeerToInstitution := (NodePeerToInstitution s)(plain_peer \<mapsto> plain_bank)\<rparr>))"
  using assms peer_valid bank_private
  by (auto simp: register_clearing_bank_def do_register_clearing_bank_def plain_call_defs plain_main_def validated_def)

lemma plain_binds:
  assumes "UserBank s u = None" "ClearingBankNodes s plain_bank \<noteq> None"
  shows "dispatch_clearing (plain_env n) (ClearingSigned u) (BindClearingBank plain_bank) s =
    (Inr (), clearing_event (BankBound u plain_bank) (set_deposit plain_bank u 0 (s\<lparr>UserBank := (UserBank s)(u \<mapsto> plain_bank)\<rparr>)))"
  using assms bank_private
  by (auto simp: bind_clearing_bank_def do_bind_clearing_bank_def plain_call_defs plain_main_def)

lemma plain_deposits:
  assumes "UserBank s 8 = Some plain_bank" "balances (purse s) = (\<lambda>a. 50000)" "deposit_of plain_bank 8 s = 0" "BankTotalDeposits s plain_bank = 0"
  shows "dispatch_clearing (plain_env n) (ClearingSigned 8) (Deposit 20000) s =
    (Inr (), clearing_event (Deposited 8 plain_bank 20000) (set_bank_total plain_bank 20000 (set_deposit plain_bank 8 20000
       (s\<lparr>purse := (purse s)\<lparr>balances := put (plain_derive plain_bank ACCOUNT_NAME_CLEARING) 70000 (put 8 30000 (\<lambda>a. 50000))\<rparr>\<rparr>))))"
proof -
  have "8 \<noteq> plain_derive plain_bank ACCOUNT_NAME_CLEARING" "0 \<noteq> plain_derive plain_bank ACCOUNT_NAME_CLEARING"
    using plain_code_large by (simp_all add: plain_accounts)
  then have "pay (plain_env n) 8 (plain_derive plain_bank ACCOUNT_NAME_CLEARING) 20000 BalancesError s =
      (Inr (), s\<lparr>purse := (purse s)\<lparr>balances := put (plain_derive plain_bank ACCOUNT_NAME_CLEARING) 70000 (put 8 30000 (\<lambda>a. 50000))\<rparr>\<rparr>)"
    using assms(2) by (simp add: pay_def plain_env_def plain_currency_def plain_balance_def)
  moreover have "can_spend (classes (plain_env n)) 8 L3DepositIn" using \<open>8 \<noteq> _\<close> by (simp add: can_spend_def plain_env_def)
  ultimately show ?thesis using assms
    by (simp add: deposit_def do_deposit_def signed_call_def with_transaction_def signer_of_def clearing_account_of_def Let_def
        sat_add_def max_of_def deposit_of_def set_deposit_def set_bank_total_def) (simp add: plain_env_def)
qed

lemma plain_proposes:
  assumes "ClearingBankNodes s plain_bank \<noteq> None"
  shows "dispatch_clearing (plain_env 1) (ClearingSigned 4) (ProposeL2FeeRate plain_bank [] plain_main 5) s =
    (Inr (), clearing_event (L2FeeRateProposedEvent plain_bank 5 (sat_add 32 1 (sat_into 32 RATE_CHANGE_DELAY_BLOCKS)))
       (s\<lparr>L2FeeRateProposed := kv_insert plain_bank (5, sat_add 32 1 (sat_into 32 RATE_CHANGE_DELAY_BLOCKS)) (L2FeeRateProposed s)\<rparr>))"
  using assms bank_private
  by (auto simp: propose_l2_fee_rate_def do_propose_l2_fee_rate_def plain_call_defs plain_main_def Let_def
      L2_FEE_RATE_BP_MIN_def L2_FEE_RATE_BP_MAX_def OFFCHAIN_FEE_RATE_MIN_def OFFCHAIN_FEE_RATE_MAX_def)

lemma plain_activates:
  assumes "L2FeeRateProposed s = [(plain_bank, 5, e)]" "e \<le> max_of 32"
  shows "snd (activate_pending_rates (plain_env (max_of 32)) s) = clearing_event (L2FeeRateActivated plain_bank 5)
     (s\<lparr>L2FeeRateBp := (L2FeeRateBp s)(plain_bank := 5), L2FeeRateProposed := []\<rparr>)"
  using assms by (simp add: activate_pending_rates_def plain_env_def MAX_L2_FEE_ACTIVATIONS_PER_BLOCK_def activate_rate_def kv_remove_def)

definition plain_pool :: account where "plain_pool = plain_derive plain_bank ACCOUNT_NAME_CLEARING"
definition plain_fee :: account where "plain_fee = plain_derive plain_bank ACCOUNT_NAME_FEE"

lemma plain_lookups:
  "clearing_account_of (plain_env n) plain_bank = Some plain_pool" "fee_account_of (plain_env n) plain_bank = Some plain_fee"
  "cur (plain_env n) = plain_currency"
  by (simp_all add: clearing_account_of_def fee_account_of_def plain_env_def plain_pool_def plain_fee_def)

lemma plain_differ [simp]:
  "plain_pool \<noteq> plain_fee" "plain_pool \<noteq> 0" "plain_fee \<noteq> 0" "plain_pool \<noteq> 8" "plain_fee \<noteq> 8" "plain_fee \<noteq> plain_pool" "8 \<noteq> plain_pool" "8 \<noteq> plain_fee"
  using plain_code_large plain_accounts by (simp_all add: plain_pool_def plain_fee_def)

lemma plain_checks:
  assumes "UserBank s 8 = Some plain_bank" "UserBank s 12 = Some plain_bank" "L2FeeRateBp s plain_bank = 5"
  shows "check_items (plain_env n) plain_bank [plain_item] [] 0 s = (if n \<le> max_of 32 then Inr ([(plain_bank, 5)], 5) else Inl ExpiredIntent, s)"
  using assms
  by (simp add: check_item_def plain_item_def current_rate_bp_def calc_fee_def Let_def checked_mul_def max_of_def item_debit_def sat_add_def
      OFFCHAIN_MIN_FEE_def plain_env_def ensure_def)

lemma plain_solvent:
  assumes "balances (purse s) = put plain_pool 70000 (put 8 30000 (\<lambda>a. 50000))" "BankTotalDeposits s plain_bank = 20000"
  shows "check_solvency (plain_env n) [(plain_bank, 5)] 0 s = (Inr 5, s)"
  using assms by (simp add: ensure_can_debit_def plain_lookups Let_def plain_currency_def plain_balance_def put_def checked_sub_def sat_add_def max_of_def)

definition plain_after :: "u32 \<Rightarrow> (account \<Rightarrow> u128) clearing \<Rightarrow> (account \<Rightarrow> u128) clearing" where
  "plain_after n s = clearing_event (PaymentSettled 77 8 plain_bank 12 plain_bank 10000 5)
     (s\<lparr>L3PaymentNonce := (L3PaymentNonce s)(8 := 1),
        DepositBalance := (DepositBalance s)(plain_bank := kv_insert 12 10000 (kv_insert 8 9995 (DepositBalance s plain_bank))),
        BankTotalDeposits := (BankTotalDeposits s)(plain_bank := 19995),
        purse := (purse s)\<lparr>balances := put plain_fee 50005 (put plain_pool 69995 (balances (purse s)))\<rparr>,
        ProcessedOffchainTx := insert (''GD'', 77) (ProcessedOffchainTx s),
        ProcessedOffchainTxAt := (ProcessedOffchainTxAt s)((''GD'', 77) \<mapsto> n)\<rparr>)"

lemma plain_executes:
  assumes "balances (purse s) = put plain_pool 70000 (put 8 30000 (\<lambda>a. 50000))" "BankTotalDeposits s plain_bank = 20000"
    and "deposit_of plain_bank 8 s = 20000" "deposit_of plain_bank 12 s = 0" "L3PaymentNonce s 8 = 0" "ProcessedOffchainTx s = {}"
  shows "execute_items (plain_env n) [plain_item] s = (Inr (), plain_after n s)"
proof -
  have spend: "can_spend (classes (plain_env n)) plain_pool L2ClearingDebit"
    by (simp add: can_spend_def plain_env_def plain_pool_def [symmetric])
  have sig: "sr25519_verify (plain_env n) = (\<lambda>_ _ _. True)" "block_now (plain_env n) = n"
    by (simp_all add: plain_env_def)
  have pay: "pay (plain_env n) plain_pool plain_fee 5 BalancesError t =
      (Inr (), t\<lparr>purse := (purse t)\<lparr>balances := put plain_fee 50005 (put plain_pool 69995 (balances (purse t)))\<rparr>\<rparr>)"
    if "balances (purse t) = put plain_pool 70000 (put 8 30000 (\<lambda>a. 50000))" for t :: "(account \<Rightarrow> u128) clearing"
    using that by (simp add: pay_def plain_lookups plain_currency_def plain_balance_def put_def)
  show ?thesis
    using assms
    by (simp add: execute_single_item_def plain_item_def Let_def sig spend consume_nonce_def checked_add_def max_of_def
        province_shard_from_cid_def bank_private plain_lookups sat_add_def ensure_def settle_same_bank_def sat_sub_def pay
        set_deposit_def set_bank_total_def deposit_of_def plain_after_def clearing_event_def)
qed

lemma plain_charges:
  assumes "balances (purse s) = put plain_fee 50005 b"
  shows "\<exists>m. charge_batch_fee (plain_env n) plain_fee 5 s = (Inr (), s\<lparr>purse := m\<rparr>)"
  using assms
  by (simp add: charge_batch_fee_def charge_def plain_env_def plain_currency_def plain_balance_def put_def calculate_onchain_fee_def
      mul_perbill_round_def sat_add_def sat_mul_def max_of_def fee_const_defs) (rule exI, rule refl)

lemma plain_settles:
  assumes "UserBank s 8 = Some plain_bank" "UserBank s 12 = Some plain_bank" "L2FeeRateBp s plain_bank = 5"
    and "balances (purse s) = put plain_pool 70000 (put 8 30000 (\<lambda>a. 50000))" "BankTotalDeposits s plain_bank = 20000"
    and "deposit_of plain_bank 8 s = 20000" "deposit_of plain_bank 12 s = 0" "L3PaymentNonce s 8 = 0" "ProcessedOffchainTx s = {}"
    and "LastClearingBatchSeq s plain_bank = 0" "n \<le> max_of 32"
  shows "\<exists>m. dispatch_clearing (plain_env n) (ClearingSigned 4) (SubmitOffchainBatch plain_bank [] plain_main 1 [plain_item] (replicate 64 0)) s =
    (Inr (), (clearing_event (ClearingBankBatchSettled plain_bank 4 1 5) ((plain_after n s)\<lparr>purse := m\<rparr>))
       \<lparr>LastClearingBatchSeq := (LastClearingBatchSeq s)(plain_bank := 1)\<rparr>)"
proof -
  have inst: "ensure_institution_account (plain_env n) plain_bank plain_main ACCOUNT_NAME_MAIN s = (Inr (), s)"
    by (simp add: ensure_institution_account_def plain_env_def)
  have auth: "is_institution_role_authorized (plain_env n) = (\<lambda>_ _ w _. w = 4)" "sr25519_verify (plain_env n) = (\<lambda>_ _ _. True)"
    by (simp_all add: plain_env_def)
  obtain m where m: "charge_batch_fee (plain_env n) plain_fee 5 (plain_after n s) = (Inr (), (plain_after n s)\<lparr>purse := m\<rparr>)"
    using plain_charges [of "plain_after n s"] by (auto simp: plain_after_def)
  have "execute_clearing_bank_batch (plain_env n) 4 plain_bank [] plain_main [plain_item] s =
      (Inr (), clearing_event (ClearingBankBatchSettled plain_bank 4 1 5) ((plain_after n s)\<lparr>purse := m\<rparr>))"
    using inst plain_checks [OF assms(1-3), of n] plain_solvent [OF assms(4,5), of n] plain_executes [OF assms(4-9), of n] assms(11) m
    by (simp add: execute_clearing_bank_batch_def auth ensure_def plain_lookups del: execute_items.simps check_items.simps check_solvency.simps)
  then show ?thesis using inst assms(10)
    by (intro exI [of _ m]) (simp add: submit_offchain_batch_def signed_call_def signer_of_def with_transaction_def ensure_def auth
        verify_batch_signature_def sat_add_def max_of_def clearing_event_def plain_after_def)
qed

text \<open>The whole run: the state before the batch is settled, and what it holds.\<close>

definition plain_run :: "(account \<Rightarrow> u128) clearing \<Rightarrow> bool" where
  "plain_run s \<longleftrightarrow> (clearing_step plain_currency plain_derive)\<^sup>*\<^sup>* plain_start s"

lemma plain_call:
  assumes "plain_run s" "dispatch_clearing (plain_env n) (ClearingSigned u) call s = (Inr (), t)" "u mod 4 = 0"
  shows "plain_run t"
proof -
  have "no_pool plain_derive u"
  proof -
    have "u \<noteq> 4 * k + 1" for k using assms(3) by presburger
    then show ?thesis by (simp add: no_pool_def plain_derive_def)
  qed
  then have "clearing_step plain_currency plain_derive s t"
    using clearing_step.Call [OF plain_registry _ assms(2)] by (simp add: signer_of_def)
  with assms(1) show ?thesis unfolding plain_run_def by (rule rtranclp.rtrancl_into_rtrancl)
qed

lemma plain_ready:
  "\<exists>s. plain_run s \<and> UserBank s 8 = Some plain_bank \<and> UserBank s 12 = Some plain_bank \<and> L2FeeRateBp s plain_bank = 5 \<and>
     balances (purse s) = put plain_pool 70000 (put 8 30000 (\<lambda>a. 50000)) \<and> BankTotalDeposits s plain_bank = 20000 \<and>
     deposit_of plain_bank 8 s = 20000 \<and> deposit_of plain_bank 12 s = 0 \<and> L3PaymentNonce s 8 = 0 \<and> ProcessedOffchainTx s = {} \<and>
     LastClearingBatchSeq s plain_bank = 0 \<and> settled_keys (clearing_events s) = []"
proof -
  let ?e = "sat_add 32 1 (sat_into 32 RATE_CHANGE_DELAY_BLOCKS)"
  let ?n = "\<lparr>node_peer_id = plain_peer, rpc_domain = ''bank.cn'', rpc_port = 8443, registered_at = 1, registrar_account_id = 4\<rparr>"
  define s1 where "s1 = clearing_event (ClearingBankRegistered plain_bank plain_peer ''bank.cn'' 8443 4)
    (plain_start\<lparr>ClearingBankNodes := [plain_bank \<mapsto> ?n], NodePeerToInstitution := [plain_peer \<mapsto> plain_bank]\<rparr>)"
  define s2 where "s2 = clearing_event (BankBound 8 plain_bank) (set_deposit plain_bank 8 0 (s1\<lparr>UserBank := [8 \<mapsto> plain_bank]\<rparr>))"
  define s3 where "s3 = clearing_event (BankBound 12 plain_bank) (set_deposit plain_bank 12 0 (s2\<lparr>UserBank := [8 \<mapsto> plain_bank, 12 \<mapsto> plain_bank]\<rparr>))"
  define s4 where "s4 = clearing_event (Deposited 8 plain_bank 20000) (set_bank_total plain_bank 20000 (set_deposit plain_bank 8 20000
       (s3\<lparr>purse := (purse s3)\<lparr>balances := put plain_pool 70000 (put 8 30000 (\<lambda>a. 50000))\<rparr>\<rparr>)))"
  define s5 where "s5 = clearing_event (L2FeeRateProposedEvent plain_bank 5 ?e) (s4\<lparr>L2FeeRateProposed := [(plain_bank, 5, ?e)]\<rparr>)"
  define s6 where "s6 = clearing_event (L2FeeRateActivated plain_bank 5) (s5\<lparr>L2FeeRateBp := (\<lambda>_. 0)(plain_bank := 5), L2FeeRateProposed := []\<rparr>)"
  note e = clearing_event_def set_deposit_def set_bank_total_def deposit_of_def plain_start_def clearing_genesis_def kv_insert_def
  have "plain_run plain_start" by (simp add: plain_run_def)
  from plain_call [OF this plain_registers] have "plain_run s1" by (simp add: s1_def e)
  from plain_call [OF this plain_binds, of 8] have "plain_run s2" by (simp add: s2_def s1_def e)
  from plain_call [OF this plain_binds, of 12] have "plain_run s3" by (simp add: s3_def s2_def s1_def e)
  from plain_call [OF this plain_deposits] have "plain_run s4" by (simp add: s4_def s3_def s2_def s1_def e plain_pool_def)
  from plain_call [OF this plain_proposes] have r5: "plain_run s5" by (simp add: s5_def s4_def s3_def s2_def s1_def e)
  have "?e \<le> max_of 32" by (simp add: sat_add_def)
  then have "snd (activate_pending_rates (plain_env (max_of 32)) s5) = s6"
    by (subst plain_activates) (simp_all add: s6_def s5_def s4_def s3_def s2_def s1_def e)
  then have "clearing_step plain_currency plain_derive s5 s6"
    using clearing_step.Hook [of "plain_env (max_of 32)" s5] by (metis prod.collapse)
  with r5 have "plain_run s6" unfolding plain_run_def by (rule rtranclp.rtrancl_into_rtrancl)
  then show ?thesis by (intro exI [of _ s6]) (simp add: s6_def s5_def s4_def s3_def s2_def s1_def e settled_keys_def)
qed

lemma plain_done:
  "\<exists>s. plain_run s \<and> deposit_of plain_bank 8 s = 9995 \<and> deposit_of plain_bank 12 s = 10000 \<and> BankTotalDeposits s plain_bank = 19995 \<and>
     settled_keys (clearing_events s) = [(''GD'', 77)]"
proof -
  obtain s where s: "plain_run s" "UserBank s 8 = Some plain_bank" "UserBank s 12 = Some plain_bank" "L2FeeRateBp s plain_bank = 5"
    "balances (purse s) = put plain_pool 70000 (put 8 30000 (\<lambda>a. 50000))" "BankTotalDeposits s plain_bank = 20000"
    "deposit_of plain_bank 8 s = 20000" "deposit_of plain_bank 12 s = 0" "L3PaymentNonce s 8 = 0" "ProcessedOffchainTx s = {}"
    "LastClearingBatchSeq s plain_bank = 0" "settled_keys (clearing_events s) = []"
    using plain_ready by blast
  from plain_settles [OF s(2-11) order.refl] obtain m where
    d: "dispatch_clearing (plain_env (max_of 32)) (ClearingSigned 4) (SubmitOffchainBatch plain_bank [] plain_main 1 [plain_item] (replicate 64 0)) s =
      (Inr (), (clearing_event (ClearingBankBatchSettled plain_bank 4 1 5) ((plain_after (max_of 32) s)\<lparr>purse := m\<rparr>))
       \<lparr>LastClearingBatchSeq := (LastClearingBatchSeq s)(plain_bank := 1)\<rparr>)" by blast
  let ?t = "(clearing_event (ClearingBankBatchSettled plain_bank 4 1 5) ((plain_after (max_of 32) s)\<lparr>purse := m\<rparr>))
       \<lparr>LastClearingBatchSeq := (LastClearingBatchSeq s)(plain_bank := 1)\<rparr>"
  have "plain_run ?t" by (rule plain_call [OF s(1) d]) simp
  moreover have "deposit_of plain_bank 8 ?t = 9995" "deposit_of plain_bank 12 ?t = 10000" "BankTotalDeposits ?t plain_bank = 19995"
    "settled_keys (clearing_events ?t) = [(''GD'', 77)]"
    using s(12) by (simp_all add: plain_after_def clearing_event_def deposit_of_def settled_keys_def bank_private)
  ultimately show ?thesis by blast
qed

section \<open>What holds after every run\<close>

lemma clearing_genesis_inv: "clearing_inv c derive (clearing_genesis m)" "once_inv (clearing_genesis m)" "seq_inv (clearing_genesis m)" "indexed (clearing_genesis m)"
  by (simp_all add: clearing_genesis_def clearing_inv_def balanced_def backed_def at_own_bank_def deposits_sum_def deposit_of_def
      once_inv_def seq_inv_def indexed_def settled_keys_def paid_by_def batches_of_def)

text \<open>
  C9. Clearing banks are fully reserved. After any sequence of calls (binding, depositing, withdrawing,
  switching, settling batches within one bank or between two, fee rates, nodes, successful or refused), of block
  hooks and of other activity that takes nothing out of clearing accounts, the balances of a bank's users
  add up to the recorded total of the bank, the clearing account of the bank holds at least that total, and a
  user has money only at the bank the user is bound to.
\<close>

theorem clearing_solvent:
  assumes "lawful_currency c" "derives_apart derive" "(clearing_step c derive)\<^sup>*\<^sup>* (clearing_genesis m) s"
  shows "distinct (map fst (DepositBalance s cid)) \<and> BankTotalDeposits s cid = (\<Sum>(u, d) \<leftarrow> DepositBalance s cid. d) \<and>
     BankTotalDeposits s cid \<le> free_balance c (derive cid ACCOUNT_NAME_CLEARING) (balances (purse s)) \<and>
     (0 < deposit_of cid u s \<longrightarrow> UserBank s u = Some cid)"
proof -
  from books.run_keeps [OF assms(3)] clearing_genesis_inv(1) assms(1,2) have i: "clearing_inv c derive s" by blast
  have "(\<Sum>(u, d) \<leftarrow> DepositBalance s cid. d) = deposits_sum s cid" by (simp add: deposits_sum_def case_prod_beta')
  with i show ?thesis unfolding clearing_inv_def balanced_def backed_def reserve_def at_own_bank_def by metis
qed

theorem clearing_solvent_witness:
  "\<exists>s. (clearing_step plain_currency plain_derive)\<^sup>*\<^sup>* plain_start s \<and>
     deposit_of plain_bank 8 s = 9995 \<and> deposit_of plain_bank 12 s = 10000 \<and> BankTotalDeposits s plain_bank = 19995 \<and>
     UserBank s 12 = Some plain_bank \<and> 19995 \<le> free_balance plain_currency (plain_derive plain_bank ACCOUNT_NAME_CLEARING) (balances (purse s))"
proof -
  obtain s where s: "plain_run s" "deposit_of plain_bank 8 s = 9995" "deposit_of plain_bank 12 s = 10000" "BankTotalDeposits s plain_bank = 19995"
    using plain_done by blast
  from clearing_solvent [OF plain_lawful plain_apart s(1) [unfolded plain_run_def plain_start_def], of plain_bank 12] s
  show ?thesis unfolding plain_run_def by auto
qed

text \<open>
  C10. No payment is settled twice. After any run the settled payments have pairwise different
  transaction ids within the province of the paying bank, and those are the ids recorded as processed; the nonce
  of a payer is the number of that payer's settled payments, so a signed payment cannot be replayed; the
  sequence number of a bank is the number of its settled batches, as far as 64 bits count; and the two tables of
  nodes are inverse to each other.
\<close>

theorem settlement_once:
  assumes "(clearing_step c derive)\<^sup>*\<^sup>* (clearing_genesis m) s"
  shows "distinct (settled_keys (clearing_events s)) \<and> set (settled_keys (clearing_events s)) = ProcessedOffchainTx s \<and>
     L3PaymentNonce s u = paid_by u (clearing_events s) \<and>
     LastClearingBatchSeq s cid = min (batches_of cid (clearing_events s)) (max_of 64) \<and>
     (NodePeerToInstitution s peer = Some cid \<longleftrightarrow> (\<exists>info. ClearingBankNodes s cid = Some info \<and> node_peer_id info = peer))"
proof -
  from receipts.run_keeps [OF assms] clearing_genesis_inv(2-4) have "once_inv s" "seq_inv s" "indexed s" by blast+
  then show ?thesis by (simp add: once_inv_def seq_inv_def indexed_def)
qed

theorem settlement_once_witness:
  "\<exists>s. (clearing_step plain_currency plain_derive)\<^sup>*\<^sup>* plain_start s \<and>
     settled_keys (clearing_events s) = [(''GD'', 77)] \<and> ProcessedOffchainTx s = {(''GD'', 77)}"
proof -
  obtain s where s: "plain_run s" "settled_keys (clearing_events s) = [(''GD'', 77)]" using plain_done by blast
  from settlement_once [OF s(1) [unfolded plain_run_def plain_start_def]] s show ?thesis unfolding plain_run_def by auto
qed

section \<open>Two rules of the source that bind differently from their description\<close>

text \<open>The cap set by governance lies between 1 and 10 basis points, and the check of a proposed rate takes the larger of it and 10.\<close>

lemma governed_cap_ineffective:
  assumes "do_propose_l2_fee_rate ce who cid role inst rate s = (Inr x, t)" "do_set_max_l2_fee_rate cap s = (Inr y, s')"
    and "L2_FEE_RATE_BP_MIN \<le> rate'" "rate' \<le> L2_FEE_RATE_BP_MAX"
  shows "\<exists>t'. do_propose_l2_fee_rate ce who cid role inst rate' s' = (Inr (), t')"
proof -
  from assms(1) obtain s1 s2 where o: "ensure_institution_account ce cid inst ACCOUNT_NAME_MAIN s = (Inr (), s1)" "ensure_can_be_bound ce cid s1 = (Inr (), s2)"
    "is_institution_role_authorized ce cid role who ACTION_OFFCHAIN_PROPOSE_FEE_RATE"
    by (auto simp: do_propose_l2_fee_rate_def)
  have same: "s1 = s" "s2 = s" using institution_account_same [OF o(1)] ensure_can_be_bound_same [OF o(2)] by simp_all
  have s': "s' = clearing_event (MaxL2FeeRateUpdated cap) (s\<lparr>MaxL2FeeRateBp := cap\<rparr>)" using assms(2) by (auto simp: do_set_max_l2_fee_rate_def)
  have "ensure_institution_account ce cid inst ACCOUNT_NAME_MAIN s' = (Inr (), s')"
    using o(1) by (auto simp: ensure_institution_account_def same)
  moreover have "ensure_can_be_bound ce cid s' = (Inr (), s')"
    using o(2) by (auto simp: ensure_can_be_bound_def same is_registered_clearing_node_def s' clearing_event_def split: option.splits)
  ultimately show ?thesis using o(3) assms(3,4) by (simp add: do_propose_l2_fee_rate_def Let_def ensure_def le_max_iff_disj)
qed

text \<open>The number of an unincorporated organisation has the letter U in seventh place; no such organisation can be bound.\<close>

lemma unincorporated_never_bound:
  assumes "cid ! 6 = CHR ''U''"
  shows "ensure_can_be_bound ce cid s = (Inl NotPrivateInstitution, s)"
  using assms by (simp add: ensure_can_be_bound_def subject_property_is_private_institution_def ensure_def)

end
