(* ===== verification/Business.thy ===== *)
theory Business
  imports Internal_Proposal Joint_Vote Fee_Policy Institution_Funds Pow_Difficulty
begin

text \<open>
  What the business pallets around the voting engine share: the storage they keep outside the engine, the
  registries and framework services they call, the construction of vote plans, and the dispatch of the engine's
  callbacks to them (\<^verbatim>\<open>votingengine/src/traits/callbacks.rs\<close>, \<^verbatim>\<open>src/configs.rs\<close>). Encoding
  of proposal data, hashing and the registries are parameters.
\<close>

section \<open>Data of the pallets\<close>

datatype role_permission_operation = ProposeOperation | VoteOperation

record transfer_action =
  ta_actor_cid_number :: "cid_number option"
  ta_funding_account_id :: account
  ta_beneficiary_account_id :: account
  ta_amount :: u128
  ta_remark :: string
  ta_proposer_account_id :: account

record safety_fund_action =
  sf_actor_cid_number :: cid_number
  sf_institution_account_id :: account
  sf_beneficiary_account_id :: account
  sf_amount :: u128
  sf_remark :: string
  sf_proposer_account_id :: account

record sweep_action =
  sw_actor_cid_number :: cid_number
  sw_institution_account_id :: account
  sw_amount :: u128
  sw_proposer_account_id :: account

record destroy_action =
  da_actor_cid_number :: cid_number
  da_institution_account_id :: account
  da_amount :: u128

record recipient_amount =
  recipient_account_id :: account
  ra_amount :: u128

record issuance_proposal_data =
  ip_actor_cid_number :: cid_number
  ip_proposer_role_code :: role_code
  ip_proposer_account_id :: account
  ip_reason :: string
  ip_total_amount :: u128
  ip_allocations :: "recipient_amount list"

record upgrade_proposal =
  up_actor_cid_number :: cid_number
  up_actor_role_code :: role_code
  up_proposer_account_id :: account
  up_reason :: string
  up_code_hash :: string
  up_expected_pow_params_hash :: string
  up_new_pow_params :: pow_difficulty_params

datatype upgrade_execution_path = JointVotePath | DeveloperDirectPath

record runtime_upgrade_audit =
  ua_proposal_id :: "proposal_id option"
  ua_execution_path :: upgrade_execution_path
  ua_code_hash :: string
  ua_old_pow_params_hash :: string
  ua_new_pow_params_hash :: string
  ua_executed_at :: u32
  ua_activate_at :: u32
  ua_developer :: "account option"

datatype business_event =
    TransferProposed proposal_id institution_code "cid_number option" account account account u128 string block_number
  | TransferExecutionFailed proposal_id account
  | TransferExecuted proposal_id account account account u128 u128
  | SafetyFundTransferProposed proposal_id cid_number account account account u128 string block_number
  | SafetyFundTransferExecuted proposal_id account account u128 u128
  | SafetyFundExecutionFailed proposal_id
  | SweepToMainProposed proposal_id cid_number account account account u128 block_number
  | SweepToMainExecuted proposal_id cid_number account u128 u128 u128
  | SweepExecutionFailed proposal_id
  | DestroyProposed proposal_id institution_code account account u128
  | DestroyExecutionFailed proposal_id
  | DestroyExecuted proposal_id account account u128 u128
  | ResolutionIssuanceProposed proposal_id cid_number role_code account u128 u32
  | JointVoteFinalized proposal_id bool
  | IssuanceExecutionTriggered proposal_id u128
  | IssuanceExecutionFailed proposal_id
  | ResolutionIssuanceExecuted proposal_id u128 u32 string string
  | RuntimeUpgradeProposed proposal_id cid_number role_code account string string
  | UpgradeVoteFinalized proposal_id bool
  | RuntimeUpgradeExecuted proposal_id string
  | RuntimeUpgradeExecutionFailed proposal_id string
  | DeveloperDirectUpgradeExecuted account string

datatype multisig_error =
    InvalidInstitutionAccount | InstitutionCodeMismatch | UnauthorizedAdmin | InstitutionSpendNotAllowed | ZeroTransferAmount
  | AmountBelowExistentialDeposit | SelfTransferRefused | BeneficiaryIsProtectedAddress | ProposalActionNotFound
  | InsufficientBalance | ProposalNotPassed | SafetyFundProposalNotFound | SafetyFundInsufficientBalance
  | SafetyFundProposalNotPassed | SweepProposalNotFound | InvalidSweepAmount | InsufficientFeeReserve | SweepAmountExceedsCap
  | SweepProposalNotPassed | FeeAccountMissing | InsufficientFeeBalance

datatype destroy_error =
    DestroyInvalidInstitution | DestroyInstitutionCodeMismatch | DestroyUnauthorizedAdmin | DestroyZeroAmount
  | DestroyActionNotFound | DestroyNotPassed | DestroyInsufficientBalance | DestroyFeeAccountMissing | FeeWithdrawFailed

datatype resolution_issuance_error =
    EmptyReason | EmptyAllocations | InvalidAllocationCount | DuplicateRecipient | InvalidRecipientSet | ZeroIssuance
  | AllocationOverflow | TotalMismatch | IssuanceProposalNotFound | JointVoteCreateFailed | RecipientsNotConfigured
  | DuplicateAllowedRecipient | RecipientNotInChinaCb | VotingProposalCountOverflow | VotingProposalCountUnderflow | AlreadyExecuted
  | TotalIssuedOverflow | ReasonTooLong | BelowExistentialDeposit | DepositFailed | ExceedsTotalIssuanceCap
  | ExceedsSingleIssuanceCap | ProposalNotFinalizable | InvalidActorCid | UnauthorizedActorRole

datatype upgrade_error =
    UpgradeEmptyReason | EmptyRuntimeCode | UpgradeInvalidActorCid | UpgradeUnauthorizedRole | UpgradeProposalNotFound
  | ProposalNotVoting | UpgradeVoteCreateFailed | RuntimeCodeMissing | DeveloperUpgradeDisabled

datatype business_error =
    MultisigError multisig_error | DestroyError destroy_error | ResolutionIssuanceError resolution_issuance_error
  | UpgradeError upgrade_error | PowError pow_error | EngineError dispatch_error | OtherError string
  | CurrencyError | SetCodeError | NotSignedError

text \<open>The engine hands on the errors of other modules without looking at them.\<close>

definition dispatch_of :: "business_error \<Rightarrow> dispatch_error" where
  "dispatch_of e = (case e of EngineError d \<Rightarrow> d | OtherError m \<Rightarrow> Other m | _ \<Rightarrow> Module ''business'')"

section \<open>Storage and environment\<close>

text \<open>The registries of institutions, roles and personal accounts are storage that these pallets only read.\<close>

record ('b, 'r) business =
  funds :: "'b money"
  registries :: 'r
  SafetyFundProposalActions :: "proposal_id \<rightharpoonup> safety_fund_action"
  SweepProposalActions :: "proposal_id \<rightharpoonup> sweep_action"
  AllowedRecipients :: "account list"
  VotingProposalCount :: u32
  ExecutedAt :: "proposal_id \<rightharpoonup> block_number"
  EverExecuted :: "proposal_id set"
  TotalIssued :: u128
  pow :: pow_storage
  runtime_code :: string
  LastRuntimeUpgradeAudit :: "runtime_upgrade_audit option"
  business_events :: "business_event list"

record ('b, 'r) business_env =
  b_fees :: "'b fee_env"
  minimum_balance :: u128
  slash :: "account \<Rightarrow> u128 \<Rightarrow> 'b \<Rightarrow> u128 \<times> 'b"
  lookup_org :: "account \<Rightarrow> 'r \<Rightarrow> institution_code option"
  lookup_cid :: "account \<Rightarrow> 'r \<Rightarrow> cid_number option"
  lookup_institution_account :: "cid_number \<Rightarrow> account_name \<Rightarrow> 'r \<Rightarrow> account option"
  institution_account_exists :: "account \<Rightarrow> 'r \<Rightarrow> bool"
  personal_is_active :: "account \<Rightarrow> 'r \<Rightarrow> bool"
  is_authorized :: "account \<Rightarrow> role_subject \<Rightarrow> business_action_id \<Rightarrow> role_permission_operation \<Rightarrow> 'r \<Rightarrow> bool"
  role_subjects_with_permission :: "cid_number \<Rightarrow> business_action_id \<Rightarrow> role_permission_operation \<Rightarrow> 'r \<Rightarrow> role_subject list"
  account_classes_of :: "'r \<Rightarrow> account_classes"
  is_protected :: "account \<Rightarrow> 'r \<Rightarrow> bool"
  encode_transfer :: "transfer_action \<Rightarrow> string"
  decode_transfer :: "string \<Rightarrow> transfer_action option"
  encode_destroy :: "destroy_action \<Rightarrow> string"
  decode_destroy :: "string \<Rightarrow> destroy_action option"
  encode_issuance :: "issuance_proposal_data \<Rightarrow> string"
  decode_issuance :: "string \<Rightarrow> (issuance_proposal_data \<times> string) option"
  hash_allocations :: "recipient_amount list \<Rightarrow> string"
  encode_upgrade :: "upgrade_proposal \<Rightarrow> string"
  decode_upgrade :: "string \<Rightarrow> upgrade_proposal option"
  hash_pow_params :: "pow_difficulty_params \<Rightarrow> string"
  set_code :: "string \<Rightarrow> string \<Rightarrow> bool \<times> string"
  joint_proposer :: "account option \<Rightarrow> 'r \<Rightarrow> account option"
  nrc_admin :: "account option \<Rightarrow> 'r \<Rightarrow> account option"
  developer_upgrade_enabled :: "'r \<Rightarrow> bool"
  MaxUpgradeReasonLen :: u32
  MaxRuntimeCodeSize :: u32
  MaxReasonLen :: u32
  MaxAllocations :: u32
  MaxTotalIssuance :: u128
  MaxSingleIssuance :: u128

abbreviation bcur :: "('b, 'r) business_env \<Rightarrow> 'b currency" where
  "bcur be \<equiv> currency_of (b_fees be)"

abbreviation balance_of :: "('b, 'r) business_env \<Rightarrow> account \<Rightarrow> ('b, 'r) business \<Rightarrow> u128" where
  "balance_of be a x \<equiv> free_balance (bcur be) a (balances (funds x))"

definition announce :: "business_event \<Rightarrow> ('b, 'r) business \<Rightarrow> ('b, 'r) business" where
  "announce e x = x\<lparr>business_events := business_events x @ [e]\<rparr>"

text \<open>Operations of the framework on the money of the storage.\<close>

definition charge_fee :: "('b, 'r) business_env \<Rightarrow> account \<Rightarrow> u128 \<Rightarrow> ('b, 'r) business \<Rightarrow> (unit, u128, ('b, 'r) business) outcome" where
  "charge_fee be payer amount x =
     (case charge (b_fees be) payer amount (funds x) of (r, m) \<Rightarrow> (r, x\<lparr>funds := m\<rparr>))"

definition transfer_funds :: "('b, 'r) business_env \<Rightarrow> account \<Rightarrow> account \<Rightarrow> u128 \<Rightarrow> ('b, 'r) business \<Rightarrow> (unit, unit, ('b, 'r) business) outcome" where
  "transfer_funds be a d n x =
     (case transfer_keep_alive (bcur be) a d n (balances (funds x)) of
        (ok, b) \<Rightarrow> (if ok then Inr () else Inl (), x\<lparr>funds := (funds x)\<lparr>balances := b\<rparr>\<rparr>))"

text \<open>The error of an inner operation replaced by the caller's own.\<close>

definition map_err :: "'f \<Rightarrow> ('e, 'a, 's) outcome \<Rightarrow> ('f, 'a, 's) outcome" where
  "map_err f m = (case m of (Inl _, s) \<Rightarrow> (Inl f, s) | (Inr a, s) \<Rightarrow> (Inr a, s))"

lemma map_err_Inr [simp]: "map_err f m = (Inr a, s) \<longleftrightarrow> m = (Inr a, s)"
  by (auto simp: map_err_def split: prod.splits sum.splits)

lemma map_err_Inl: "map_err f m = (Inl e, s) \<longleftrightarrow> e = f \<and> (\<exists>e'. m = (Inl e', s))"
  by (auto simp: map_err_def split: prod.splits sum.splits)

section \<open>Vote plans of institutions\<close>

definition ROLE_CODE_COMMITTEE_MEMBER :: role_code where "ROLE_CODE_COMMITTEE_MEMBER = ''COMMITTEE_MEMBER''"
definition ROLE_CODE_DIRECTOR :: role_code where "ROLE_CODE_DIRECTOR = ''DIRECTOR''"
definition INSTITUTION_ROLE_CODE_MAX_BYTES :: nat where "INSTITUTION_ROLE_CODE_MAX_BYTES = 64"
definition BUSINESS_MODULE_TAG_MAX_BYTES :: nat where "BUSINESS_MODULE_TAG_MAX_BYTES = 32"

definition bounded_subject :: "role_subject \<Rightarrow> bool" where
  "bounded_subject r \<longleftrightarrow> length (rs_cid_number r) \<le> CID_NUMBER_MAX_BYTES \<and> length (rs_role_code r) \<le> INSTITUTION_ROLE_CODE_MAX_BYTES"

definition build_institution_vote_plan ::
  "('b, 'r) business_env \<Rightarrow> string \<Rightarrow> u32 \<Rightarrow> business_error \<Rightarrow> account \<Rightarrow> cid_number \<Rightarrow> role_code \<Rightarrow> string \<Rightarrow> 'r \<Rightarrow> business_error + vote_plan" where
  "build_institution_vote_plan be tag act refusal who cid role obj_hash rg =
     (let action_id = \<lparr>module_tag = tag, action_code = act\<rparr>; proposer = \<lparr>rs_cid_number = cid, rs_role_code = role\<rparr>;
          voters = role_subjects_with_permission be cid action_id VoteOperation rg in
      if \<not> is_authorized be who proposer action_id ProposeOperation rg then Inl refusal
      else if \<not> list_all bounded_subject voters then Inl (EngineError (VotingEngine InvalidVotePlan))
      else if BUSINESS_MODULE_TAG_MAX_BYTES < length tag then Inl (EngineError (VotingEngine InvalidVotePlan))
      else if \<not> bounded_subject proposer then Inl (EngineError (VotingEngine InvalidVotePlan))
      else (case vote_plan_try_new action_id tag (Institution proposer) (map Institution voters) Internal obj_hash of
              Inl _ \<Rightarrow> Inl (EngineError (VotingEngine InvalidVotePlan))
            | Inr plan \<Rightarrow> Inr plan))"

text \<open>
  The fixed plan of the joint votes: the committee members of the reserve commissions and the directors of the
  provincial banks vote.
\<close>

definition joint_voters :: "authorization_subject list" where
  "joint_voters =
     map (\<lambda>cid. Institution \<lparr>rs_cid_number = cid, rs_role_code = ROLE_CODE_COMMITTEE_MEMBER\<rparr>) CHINA_CB @
     map (\<lambda>b. Institution \<lparr>rs_cid_number = ch_cid_number b, rs_role_code = ROLE_CODE_DIRECTOR\<rparr>) CHINA_CH"

definition bounded_voters :: "authorization_subject list \<Rightarrow> bool" where
  "bounded_voters vs \<longleftrightarrow> list_all (\<lambda>v. case v of Institution r \<Rightarrow> bounded_subject r | _ \<Rightarrow> True) vs"

definition build_joint_vote_plan ::
  "string \<Rightarrow> u32 \<Rightarrow> business_error \<Rightarrow> business_error \<Rightarrow> role_subject \<Rightarrow> string \<Rightarrow> business_error + vote_plan" where
  "build_joint_vote_plan tag act invalid refused proposer obj_hash =
     (if \<not> bounded_subject proposer then Inl invalid
      else if \<not> bounded_voters joint_voters then Inl invalid
      else if BUSINESS_MODULE_TAG_MAX_BYTES < length tag then Inl refused
      else (case vote_plan_try_new \<lparr>module_tag = tag, action_code = act\<rparr> tag (Institution proposer) joint_voters Joint obj_hash of
              Inl _ \<Rightarrow> Inl refused
            | Inr plan \<Rightarrow> Inr plan))"

text \<open>An operation of the engine run by a business call: its state is the engine with the business storage inside.\<close>

definition via_engine :: "(dispatch_error, 'a, 'x engine) outcome \<Rightarrow> (business_error, 'a, 'x engine) outcome" where
  "via_engine m = (case m of (Inl e, s) \<Rightarrow> (Inl (EngineError e), s) | (Inr a, s) \<Rightarrow> (Inr a, s))"

lemma via_engine_Inr [simp]: "via_engine m = (Inr a, s) \<longleftrightarrow> m = (Inr a, s)"
  by (auto simp: via_engine_def split: prod.splits sum.splits)

definition result_or :: "('e + 'a) \<Rightarrow> 's \<Rightarrow> ('a \<Rightarrow> ('e, 'b, 's) outcome) \<Rightarrow> ('e, 'b, 's) outcome" where
  "result_or r s k = (case r of Inl e \<Rightarrow> (Inl e, s) | Inr a \<Rightarrow> k a)"

lemma result_or_Inr [simp]: "result_or r s k = (Inr b, t) \<longleftrightarrow> (\<exists>a. r = Inr a \<and> k a = (Inr b, t))"
  by (simp add: result_or_def split: sum.split)

lemma case_error_Inr [simp]: "(case r of Inl e \<Rightarrow> Inl (f e) | Inr a \<Rightarrow> Inr a) = Inr b \<longleftrightarrow> r = Inr b"
  by (cases r) simp_all

abbreviation upd_ext :: "('x \<Rightarrow> 'x) \<Rightarrow> 'x engine \<Rightarrow> 'x engine" where
  "upd_ext f s \<equiv> s\<lparr>ext := f (ext s)\<rparr>"

section \<open>Callbacks\<close>

fun merge_execution_outcome :: "proposal_execution_outcome \<Rightarrow> proposal_execution_outcome \<Rightarrow> proposal_execution_outcome" where
  "merge_execution_outcome Ignored b = b"
| "merge_execution_outcome a Ignored = a"
| "merge_execution_outcome FatalFailed b = FatalFailed"
| "merge_execution_outcome a FatalFailed = FatalFailed"
| "merge_execution_outcome RetryableFailed b = RetryableFailed"
| "merge_execution_outcome a RetryableFailed = RetryableFailed"
| "merge_execution_outcome Executed Executed = Executed"

fun merge_cancel_decision :: "proposal_cancel_decision \<Rightarrow> proposal_cancel_decision \<Rightarrow> proposal_cancel_decision" where
  "merge_cancel_decision CancelIgnored CancelIgnored = CancelIgnored"
| "merge_cancel_decision a b = CancelAllow"

text \<open>A tuple of callbacks: the members in order, each on the storage the one before left; the first error ends the round.\<close>

fun tuple_on_vote_finalized ::
  "'x vote_callback list \<Rightarrow> proposal_execution_outcome \<Rightarrow> proposal_id \<Rightarrow> bool \<Rightarrow> 'x engine \<Rightarrow> (dispatch_error + proposal_execution_outcome) \<times> 'x" where
  "tuple_on_vote_finalized [] acc i approved s = (Inr acc, ext s)"
| "tuple_on_vote_finalized (c # cs) acc i approved s =
     (case on_vote_finalized c i approved s of
        (Inl e, x) \<Rightarrow> (Inl e, x)
      | (Inr oc, x) \<Rightarrow> tuple_on_vote_finalized cs (merge_execution_outcome acc oc) i approved (s\<lparr>ext := x\<rparr>))"

fun tuple_can_cancel ::
  "'x vote_callback list \<Rightarrow> proposal_cancel_decision \<Rightarrow> proposal_id \<Rightarrow> 'x engine \<Rightarrow> (dispatch_error + proposal_cancel_decision) \<times> 'x" where
  "tuple_can_cancel [] acc i s = (Inr acc, ext s)"
| "tuple_can_cancel (c # cs) acc i s =
     (case can_cancel_passed_proposal c i s of
        (Inl e, x) \<Rightarrow> (Inl e, x)
      | (Inr d, x) \<Rightarrow> tuple_can_cancel cs (merge_cancel_decision acc d) i (s\<lparr>ext := x\<rparr>))"

fun tuple_on_execution_failed :: "'x vote_callback list \<Rightarrow> proposal_id \<Rightarrow> 'x engine \<Rightarrow> (dispatch_error + unit) \<times> 'x" where
  "tuple_on_execution_failed [] i s = (Inr (), ext s)"
| "tuple_on_execution_failed (c # cs) i s =
     (case on_execution_failed_terminal c i s of
        (Inl e, x) \<Rightarrow> (Inl e, x)
      | (Inr _, x) \<Rightarrow> tuple_on_execution_failed cs i (s\<lparr>ext := x\<rparr>))"

definition tuple_callback :: "'x vote_callback list \<Rightarrow> 'x vote_callback" where
  "tuple_callback cs = \<lparr>
     on_vote_finalized = tuple_on_vote_finalized cs Ignored,
     can_cancel_passed_proposal = tuple_can_cancel cs CancelIgnored,
     on_execution_failed_terminal = tuple_on_execution_failed cs\<rparr>"

text \<open>The defaults of the callback trait.\<close>

definition default_callback :: "'x vote_callback" where
  "default_callback = \<lparr>on_vote_finalized = (\<lambda>_ _ s. (Inr Ignored, ext s)),
     can_cancel_passed_proposal = (\<lambda>_ s. (Inr CancelIgnored, ext s)),
     on_execution_failed_terminal = (\<lambda>_ s. (Inr (), ext s))\<rparr>"

section \<open>One owner per proposal\<close>

text \<open>A member ignores a proposal when its result says so and it leaves its storage as it is.\<close>

definition ignores :: "'x vote_callback \<Rightarrow> proposal_id \<Rightarrow> bool \<Rightarrow> 'x engine \<Rightarrow> bool" where
  "ignores c i approved s \<longleftrightarrow> on_vote_finalized c i approved s = (Inr Ignored, ext s)"

lemma merge_ignored [simp]: "merge_execution_outcome a Ignored = a"
  by (cases a) simp_all

lemma merge_assoc: "merge_execution_outcome (merge_execution_outcome a b) c = merge_execution_outcome a (merge_execution_outcome b c)"
  by (cases a; cases b; cases c) simp_all

lemma merge_cancel_assoc: "merge_cancel_decision (merge_cancel_decision a b) c = merge_cancel_decision a (merge_cancel_decision b c)"
  by (cases a; cases b; cases c) simp_all

lemma tuple_skip:
  "\<forall>c \<in> set cs. ignores c i approved s \<Longrightarrow>
     tuple_on_vote_finalized (cs @ ds) acc i approved s = tuple_on_vote_finalized ds acc i approved s"
  by (induction cs) (simp_all add: ignores_def)

lemma tuple_all_ignore:
  "\<forall>c \<in> set cs. ignores c i approved s \<Longrightarrow> tuple_on_vote_finalized cs acc i approved s = (Inr acc, ext s)"
  using tuple_skip [of cs i approved s "[]"] by simp

lemma tuple_one_owner:
  assumes "\<forall>d \<in> set before. ignores d i approved s"
    and "\<forall>d \<in> set after. \<forall>x. ignores d i approved (s\<lparr>ext := x\<rparr>)"
  shows "on_vote_finalized (tuple_callback (before @ c # after)) i approved s = on_vote_finalized c i approved s"
  using assms by (auto simp: tuple_callback_def tuple_skip tuple_all_ignore split: prod.split sum.split)

lemma tuple_ignores:
  "\<forall>d \<in> set cs. ignores d i approved s \<Longrightarrow> ignores (tuple_callback cs) i approved s"
  by (simp add: ignores_def tuple_callback_def tuple_all_ignore)

section \<open>Operations that fail without a trace\<close>

definition fails_clean :: "'s \<Rightarrow> ('e, 'a, 's) outcome \<Rightarrow> bool" where
  "fails_clean s m \<longleftrightarrow> (\<forall>e t. m = (Inl e, t) \<longrightarrow> t = s)"

named_theorems clean_intros

lemma clean_Inr [simp, clean_intros]: "fails_clean s (Inr a, t)"
  by (simp add: fails_clean_def)

lemma clean_Inl [simp, clean_intros]: "fails_clean s (Inl e, s)"
  by (simp add: fails_clean_def)

lemma clean_ok_or [clean_intros]: "(\<And>a. v = Some a \<Longrightarrow> fails_clean s (k a)) \<Longrightarrow> fails_clean s (ok_or v e s k)"
  by (cases v) simp_all

lemma clean_ensure [clean_intros]: "(c \<Longrightarrow> fails_clean s (k s)) \<Longrightarrow> fails_clean s (ensure c e s k)"
  by (cases c) simp_all

lemma clean_result_or [clean_intros]: "(\<And>a. r = Inr a \<Longrightarrow> fails_clean s (k a)) \<Longrightarrow> fails_clean s (result_or r s k)"
  by (cases r) (simp_all add: result_or_def)

lemma clean_if [clean_intros]: "(c \<Longrightarrow> fails_clean s a) \<Longrightarrow> (\<not> c \<Longrightarrow> fails_clean s b) \<Longrightarrow> fails_clean s (if c then a else b)"
  by simp

lemma clean_transaction [clean_intros]: "fails_clean s (with_transaction f s)"
  by (simp add: fails_clean_def)

lemma clean_then_ok [clean_intros]: "fails_clean s m \<Longrightarrow> fails_clean s (and_then m (\<lambda>a t. (Inr (f a t), g a t)))"
  by (cases m; cases "fst m") (auto simp: fails_clean_def)

lemma fails_cleanD: "fails_clean s m \<Longrightarrow> m = (Inl e, t) \<Longrightarrow> t = s"
  by (simp add: fails_clean_def)

section \<open>Charging a fee\<close>

text \<open>
  A fee that is charged leaves the payer poorer by at most the fee, nobody else poorer, and together with what is
  reported as burnt nothing is lost.
\<close>

definition fee_receivers_in :: "'b fee_env \<Rightarrow> account set \<Rightarrow> bool" where
  "fee_receivers_in fe A \<longleftrightarrow> finite A \<and> safety_fund_account fe \<in> A \<and> (\<forall>a. nrc_account fe = Some a \<longrightarrow> a \<in> A) \<and>
     (\<forall>d a. block_author fe = Some d \<longrightarrow> reward_account_of fe d = Some a \<longrightarrow> a \<in> A)"

lemma held_charge:
  assumes "lawful_currency (currency_of fe)" "lawful_ration fe" "fee_receivers_in fe A" "payer \<in> A" "amount < 2 ^ 120"
    and "charge fe payer amount m = (Inr fee, m')"
  shows "fee = calculate_onchain_fee amount" "fee \<le> free_balance (currency_of fe) payer (balances m)"
    "held_by fe A m' = held_by fe A m"
proof -
  from assms(6) obtain b where b: "withdraw_keep_alive (currency_of fe) payer fee (balances m) = (True, b)"
    and fee: "fee = calculate_onchain_fee amount" and m': "m' = fee_deposit (FeePaid payer fee) (on_unbalanced fe fee (m\<lparr>balances := b\<rparr>))"
    by (auto simp: charge_def Let_def split: prod.splits bool.splits)
  note w = lawful_withdraw [OF assms(1) b]
  have small: "fee * 100 < 2 ^ 128"
    using assms(5) fee by (simp add: onchain_fee_exact)
  have A: "finite A" "payer \<in> A" using assms(3,4) by (simp_all add: fee_receivers_in_def)
  have "(\<Sum>x \<in> A. free_balance (currency_of fe) x (balances m)) = (\<Sum>x \<in> A. free_balance (currency_of fe) x b) + fee"
    using w by (intro sum_bump [OF A]) auto
  then have "held_by fe A m = held_by fe A (m\<lparr>balances := b\<rparr>) + fee" by (simp add: held_by_def)
  moreover have "held_by fe A (on_unbalanced fe fee (m\<lparr>balances := b\<rparr>)) = held_by fe A (m\<lparr>balances := b\<rparr>) + fee"
    using assms(3) by (intro held_unbalanced [OF assms(1,2) _ _ _ _ small]) (simp_all add: fee_receivers_in_def)
  moreover have "held_by fe A (fee_deposit (FeePaid payer fee) t) = held_by fe A t" for t
    by (simp add: held_by_def fee_deposit_def)
  ultimately show "held_by fe A m' = held_by fe A m" by (simp add: m')
  show "fee = calculate_onchain_fee amount" by (rule fee)
  show "fee \<le> free_balance (currency_of fe) payer (balances m)" by (rule w(1))
qed

lemma charge_others:
  assumes "lawful_currency (currency_of fe)" "charge fe payer amount m = (Inr fee, m')"
  shows "free_balance (currency_of fe) x (balances m) - (if x = payer then fee else 0) \<le> free_balance (currency_of fe) x (balances m')"
proof -
  from assms(2) obtain b where b: "withdraw_keep_alive (currency_of fe) payer fee (balances m) = (True, b)"
    and m': "balances m' = balances (on_unbalanced fe fee (m\<lparr>balances := b\<rparr>))"
    by (auto simp: charge_def Let_def fee_deposit_def split: prod.splits bool.splits)
  from lawful_withdraw [OF assms(1) b] on_unbalanced_mono [OF assms(1), of x "m\<lparr>balances := b\<rparr>" fee]
  show ?thesis unfolding m' by (simp split: if_splits)
qed

end
