(* ===== verification/Multisig.thy ===== *)
theory Multisig
  imports Business
begin

text \<open>
  Payments decided by a vote (\<^verbatim>\<open>transaction/multisig/src/lib.rs\<close>): transfers from accounts of institutions
  and from personal multi-signature accounts, transfers from the safety fund, and the sweep of an institution's
  fee account to its main account. Proposals are opened in the engine; the callback of the engine executes them.
\<close>

section \<open>Constants and accounts\<close>

definition MULTISIG_TAG :: string where "MULTISIG_TAG = ''multisig''"
definition SAFETY_FUND_OWNER_DATA :: string where "SAFETY_FUND_OWNER_DATA = ''multisig:safety''"
definition SWEEP_OWNER_DATA :: string where "SWEEP_OWNER_DATA = ''multisig:sweep''"
definition FEE_SWEEP_MAX_PERCENT :: u128 where "FEE_SWEEP_MAX_PERCENT = 80"
definition ACTION_MULTISIG_TRANSFER :: u32 where "ACTION_MULTISIG_TRANSFER = 0"
definition ACTION_SAFETY_FUND_TRANSFER :: u32 where "ACTION_SAFETY_FUND_TRANSFER = 1"
definition ACTION_FEE_SWEEP_TO_MAIN :: u32 where "ACTION_FEE_SWEEP_TO_MAIN = 2"

definition nrc_cid :: cid_number where
  "nrc_cid = CHINA_CB ! 0"

definition resolve_funding_authority ::
  "('b, 'r) business_env \<Rightarrow> cid_number option \<Rightarrow> account \<Rightarrow> 'r \<Rightarrow> multisig_error + institution_code \<times> cid_number list" where
  "resolve_funding_authority be actor a rg =
     (case actor of
        None \<Rightarrow> if personal_is_active be a rg then Inr (PMUL, []) else Inl InvalidInstitutionAccount
      | Some cid \<Rightarrow>
          if \<not> institution_account_exists be a rg then Inl InvalidInstitutionAccount
          else (case lookup_cid be a rg of
            None \<Rightarrow> Inl InvalidInstitutionAccount
          | Some stored \<Rightarrow>
              if stored \<noteq> cid then Inl InvalidInstitutionAccount
              else if \<not> utf8_valid cid then Inl InvalidInstitutionAccount
              else (case institution_code_from_cid_number cid of
                None \<Rightarrow> Inl InvalidInstitutionAccount
              | Some code \<Rightarrow>
                  (case lookup_org be a rg of
                     None \<Rightarrow> Inl InvalidInstitutionAccount
                   | Some stored_code \<Rightarrow> if stored_code \<noteq> code then Inl InstitutionCodeMismatch else Inr (code, [cid])))))"

definition resolve_sweep_org :: "cid_number \<Rightarrow> multisig_error + institution_code" where
  "resolve_sweep_org cid =
     (if \<not> utf8_valid cid then Inl InvalidInstitutionAccount
      else case institution_code_from_cid_number cid of
        None \<Rightarrow> Inl InvalidInstitutionAccount
      | Some code \<Rightarrow> if code \<in> {NRC, PRB} then Inr code else Inl InvalidInstitutionAccount)"

definition resolve_fee_account :: "('b, 'r) business_env \<Rightarrow> cid_number \<Rightarrow> 'r \<Rightarrow> multisig_error + account" where
  "resolve_fee_account be cid rg =
     (case lookup_institution_account be cid ACCOUNT_NAME_FEE rg of None \<Rightarrow> Inl FeeAccountMissing | Some a \<Rightarrow> Inr a)"

definition resolve_main_account :: "('b, 'r) business_env \<Rightarrow> cid_number \<Rightarrow> 'r \<Rightarrow> multisig_error + account" where
  "resolve_main_account be cid rg =
     (case lookup_institution_account be cid ACCOUNT_NAME_MAIN rg of None \<Rightarrow> Inl InvalidInstitutionAccount | Some a \<Rightarrow> Inr a)"

section \<open>Execution\<close>

text \<open>That the passed proposal is this module's, of this institution and for this account.\<close>

definition ensure_internal_business_proposal ::
  "'x env \<Rightarrow> proposal_id \<Rightarrow> institution_code \<Rightarrow> cid_number option \<Rightarrow> account \<Rightarrow> cid_number list \<Rightarrow> 'x engine \<Rightarrow> multisig_error + unit" where
  "ensure_internal_business_proposal env i code actor a subject_cids s =
     (case proposals s i of
        None \<Rightarrow> Inl ProposalActionNotFound
      | Some p \<Rightarrow>
          if is_callback_execution_scope i s \<and> is_proposal_owner env i MULTISIG_TAG s \<and>
             p_kind p = PROPOSAL_KIND_INTERNAL \<and> p_stage p = STAGE_INTERNAL \<and> p_status p = STATUS_PASSED \<and>
             p_internal_code p = Some code \<and> p_actor_cid_number p = actor \<and> p_execution_account_id p = Some a \<and>
             length (p_subject_cid_numbers p) = length subject_cids \<and>
             list_all (\<lambda>cid. cid \<in> set (p_subject_cid_numbers p)) subject_cids
          then Inr () else Inl ProposalNotPassed)"

text \<open>The fee and the payment in one storage transaction; the errors are those of the two steps.\<close>

definition pay_with_fee ::
  "('b, 'r) business_env \<Rightarrow> account \<Rightarrow> account \<Rightarrow> account \<Rightarrow> u128 \<Rightarrow> business_error \<Rightarrow> business_error \<Rightarrow> ('b, 'r) business \<Rightarrow>
   (business_error, unit, ('b, 'r) business) outcome" where
  "pay_with_fee be payer source dest amount fee_error pay_error =
     with_transaction (\<lambda>x.
       and_then (map_err fee_error (charge_fee be payer amount x)) (\<lambda>_ x.
       map_err pay_error (transfer_funds be source dest amount x)))"

text \<open>The two reserves an institution's payment needs: the principal's account and the fee account.\<close>

definition ensure_principal :: "('b, 'r) business_env \<Rightarrow> account \<Rightarrow> u128 \<Rightarrow> multisig_error \<Rightarrow> ('b, 'r) business \<Rightarrow> multisig_error + unit" where
  "ensure_principal be a amount e x =
     (case checked_add 128 amount (minimum_balance be) of
        None \<Rightarrow> Inl e
      | Some required \<Rightarrow> if required \<le> balance_of be a x then Inr () else Inl e)"

definition ensure_fee_reserve :: "('b, 'r) business_env \<Rightarrow> account \<Rightarrow> u128 \<Rightarrow> ('b, 'r) business \<Rightarrow> multisig_error + unit" where
  "ensure_fee_reserve be a fee x =
     (case checked_add 128 fee (minimum_balance be) of
        None \<Rightarrow> Inl InsufficientFeeBalance
      | Some required \<Rightarrow> if required \<le> balance_of be a x then Inr () else Inl InsufficientFeeBalance)"

text \<open>Who pays the fee of a transfer, once both reserves are there.\<close>

definition resolve_fee_payer ::
  "('b, 'r) business_env \<Rightarrow> cid_number option \<Rightarrow> account \<Rightarrow> u128 \<Rightarrow> u128 \<Rightarrow> ('b, 'r) business \<Rightarrow> multisig_error + account" where
  "resolve_fee_payer be actor funding amount fee x =
     (case checked_add 128 amount (minimum_balance be) of
        None \<Rightarrow> Inl InsufficientBalance
      | Some principal_required \<Rightarrow>
          (case actor of
             Some cid \<Rightarrow>
               if balance_of be funding x < principal_required then Inl InsufficientBalance
               else (case resolve_fee_account be cid (registries x) of
                 Inl e \<Rightarrow> Inl e
               | Inr fee_account \<Rightarrow>
                   (case ensure_fee_reserve be fee_account fee x of Inl e \<Rightarrow> Inl e | Inr _ \<Rightarrow> Inr fee_account))
           | None \<Rightarrow>
               (case checked_add 128 principal_required fee of
                  None \<Rightarrow> Inl InsufficientBalance
                | Some required \<Rightarrow> if balance_of be funding x < required then Inl InsufficientBalance else Inr funding)))"

abbreviation mresult :: "(multisig_error + 'a) \<Rightarrow> 's \<Rightarrow> ('a \<Rightarrow> (business_error, 'c, 's) outcome) \<Rightarrow> (business_error, 'c, 's) outcome" where
  "mresult r s k \<equiv> result_or (case r of Inl e \<Rightarrow> Inl (MultisigError e) | Inr a \<Rightarrow> Inr a) s k"

definition try_execute_transfer_from_callback ::
  "('b, 'r) business_env \<Rightarrow> ('b, 'r) business env \<Rightarrow> proposal_id \<Rightarrow> ('b, 'r) business engine \<Rightarrow> (business_error, unit, ('b, 'r) business) outcome" where
  "try_execute_transfer_from_callback be env i s =
     (let x = ext s in
      ok_or (get_proposal_data i s) (MultisigError ProposalActionNotFound) x (\<lambda>raw.
      ensure (take (length MULTISIG_TAG) raw = MULTISIG_TAG) (MultisigError ProposalActionNotFound) x (\<lambda>x.
      ok_or (decode_transfer be (drop (length MULTISIG_TAG) raw)) (MultisigError ProposalActionNotFound) x (\<lambda>a.
      mresult (resolve_funding_authority be (ta_actor_cid_number a) (ta_funding_account_id a) (registries x)) x (\<lambda>(code, subject_cids).
      mresult (ensure_internal_business_proposal env i code (ta_actor_cid_number a) (ta_funding_account_id a) subject_cids s) x (\<lambda>_.
      ensure (can_spend (account_classes_of be (registries x)) (ta_funding_account_id a) MultisigTransferExecute)
        (MultisigError InstitutionSpendNotAllowed) x (\<lambda>x.
      ensure (0 < ta_amount a) (MultisigError ZeroTransferAmount) x (\<lambda>x.
      ensure (minimum_balance be \<le> ta_amount a) (MultisigError AmountBelowExistentialDeposit) x (\<lambda>x.
      ensure (ta_beneficiary_account_id a \<noteq> ta_funding_account_id a) (MultisigError SelfTransferRefused) x (\<lambda>x.
      ensure (\<not> is_protected be (ta_beneficiary_account_id a) (registries x)) (MultisigError BeneficiaryIsProtectedAddress) x (\<lambda>x.
      let fee = calculate_onchain_fee (ta_amount a) in
      mresult (resolve_fee_payer be (ta_actor_cid_number a) (ta_funding_account_id a) (ta_amount a) fee x) x (\<lambda>payer.
      and_then (pay_with_fee be payer (ta_funding_account_id a) (ta_beneficiary_account_id a) (ta_amount a)
          (MultisigError InsufficientFeeBalance) CurrencyError x) (\<lambda>_ x.
      (Inr (), announce (TransferExecuted i (ta_funding_account_id a) payer (ta_beneficiary_account_id a) (ta_amount a) fee) x))))))))))))))"

definition try_execute_safety_fund_from_callback ::
  "('b, 'r) business_env \<Rightarrow> ('b, 'r) business env \<Rightarrow> proposal_id \<Rightarrow> ('b, 'r) business engine \<Rightarrow> (business_error, unit, ('b, 'r) business) outcome" where
  "try_execute_safety_fund_from_callback be env i s =
     (let x = ext s in
      ok_or (SafetyFundProposalActions x i) (MultisigError SafetyFundProposalNotFound) x (\<lambda>a.
      mresult (case ensure_internal_business_proposal env i NRC (Some (sf_actor_cid_number a)) (sf_institution_account_id a) [sf_actor_cid_number a] s of
          Inl _ \<Rightarrow> Inl SafetyFundProposalNotPassed | Inr u \<Rightarrow> Inr u) x (\<lambda>_.
      let safety = SAFETY_FUND_ACCOUNT (account_classes_of be (registries x)) in
      ensure (sf_actor_cid_number a = nrc_cid \<and> sf_institution_account_id a = safety) (MultisigError InvalidInstitutionAccount) x (\<lambda>x.
      ensure (can_spend (account_classes_of be (registries x)) safety NrcSafetyFundTransfer) (MultisigError InstitutionSpendNotAllowed) x (\<lambda>x.
      let fee = calculate_onchain_fee (sf_amount a) in
      mresult (ensure_principal be safety (sf_amount a) SafetyFundInsufficientBalance x) x (\<lambda>_.
      mresult (resolve_fee_account be (sf_actor_cid_number a) (registries x)) x (\<lambda>fee_account.
      mresult (ensure_fee_reserve be fee_account fee x) x (\<lambda>_.
      and_then (pay_with_fee be fee_account safety (sf_beneficiary_account_id a) (sf_amount a)
          (MultisigError InsufficientFeeBalance) (MultisigError SafetyFundInsufficientBalance) x) (\<lambda>_ x.
      (Inr (), announce (SafetyFundTransferExecuted i fee_account (sf_beneficiary_account_id a) (sf_amount a) fee) x))))))))))"

definition try_execute_sweep_from_callback ::
  "('b, 'r) business_env \<Rightarrow> ('b, 'r) business env \<Rightarrow> proposal_id \<Rightarrow> ('b, 'r) business engine \<Rightarrow> (business_error, unit, ('b, 'r) business) outcome" where
  "try_execute_sweep_from_callback be env i s =
     (let x = ext s in
      ok_or (SweepProposalActions x i) (MultisigError SweepProposalNotFound) x (\<lambda>a.
      mresult (resolve_sweep_org (sw_actor_cid_number a)) x (\<lambda>code.
      mresult (case ensure_internal_business_proposal env i code (Some (sw_actor_cid_number a)) (sw_institution_account_id a) [sw_actor_cid_number a] s of
          Inl _ \<Rightarrow> Inl SweepProposalNotPassed | Inr u \<Rightarrow> Inr u) x (\<lambda>_.
      mresult (resolve_fee_account be (sw_actor_cid_number a) (registries x)) x (\<lambda>fee_account.
      ensure (fee_account = sw_institution_account_id a) (MultisigError InvalidInstitutionAccount) x (\<lambda>x.
      mresult (resolve_main_account be (sw_actor_cid_number a) (registries x)) x (\<lambda>main_account.
      ensure (can_spend (account_classes_of be (registries x)) fee_account OffchainFeeSweepExecute) (MultisigError InstitutionSpendNotAllowed) x (\<lambda>x.
      let tx_fee = calculate_onchain_fee (sw_amount a); fee_balance = balance_of be fee_account x; reserve = minimum_balance be;
          deduct = sat_add 128 (sw_amount a) tx_fee; available = sat_sub fee_balance reserve;
          cap = sat_mul 128 available FEE_SWEEP_MAX_PERCENT div 100 in
      ensure (deduct \<le> fee_balance \<and> reserve \<le> sat_sub fee_balance deduct) (MultisigError InsufficientFeeReserve) x (\<lambda>x.
      ensure (sw_amount a \<le> cap) (MultisigError SweepAmountExceedsCap) x (\<lambda>x.
      and_then (pay_with_fee be fee_account fee_account main_account (sw_amount a) (MultisigError InsufficientFeeReserve) CurrencyError x) (\<lambda>_ x.
      (Inr (), announce (SweepToMainExecuted i (sw_actor_cid_number a) (sw_institution_account_id a) (sw_amount a) tx_fee (balance_of be fee_account x)) x))))))))))))"

section \<open>The callback\<close>

definition is_transfer_proposal :: "proposal_id \<Rightarrow> ('b, 'r) business engine \<Rightarrow> bool" where
  "is_transfer_proposal i s \<longleftrightarrow> SafetyFundProposalActions (ext s) i = None \<and> SweepProposalActions (ext s) i = None \<and>
     (case get_proposal_data i s of None \<Rightarrow> False | Some raw \<Rightarrow> take (length MULTISIG_TAG) raw = MULTISIG_TAG)"

text \<open>The announcement of a failed execution.\<close>

definition announce_failure ::
  "('b, 'r) business_env \<Rightarrow> proposal_id \<Rightarrow> ('b, 'r) business engine \<Rightarrow> ('b, 'r) business \<Rightarrow> ('b, 'r) business" where
  "announce_failure be i s x =
     (if is_transfer_proposal i s then
        (case get_proposal_data i s of
           None \<Rightarrow> x
         | Some raw \<Rightarrow>
             (case decode_transfer be (drop (length MULTISIG_TAG) raw) of
                None \<Rightarrow> x
              | Some a \<Rightarrow> announce (TransferExecutionFailed i (ta_funding_account_id a)) x))
      else if SafetyFundProposalActions (ext s) i \<noteq> None then announce (SafetyFundExecutionFailed i) x
      else announce (SweepExecutionFailed i) x)"

definition forget_actions :: "proposal_id \<Rightarrow> ('b, 'r) business \<Rightarrow> ('b, 'r) business" where
  "forget_actions i x = x\<lparr>SafetyFundProposalActions := (SafetyFundProposalActions x)(i := None),
     SweepProposalActions := (SweepProposalActions x)(i := None)\<rparr>"

definition execute_multisig ::
  "('b, 'r) business_env \<Rightarrow> ('b, 'r) business env \<Rightarrow> proposal_id \<Rightarrow> ('b, 'r) business engine \<Rightarrow> (business_error, unit, ('b, 'r) business) outcome" where
  "execute_multisig be env i s =
     (if is_transfer_proposal i s then try_execute_transfer_from_callback be env i s
      else if SafetyFundProposalActions (ext s) i \<noteq> None then try_execute_safety_fund_from_callback be env i s
      else try_execute_sweep_from_callback be env i s)"

definition multisig_on_internal_vote_finalized ::
  "('b, 'r) business_env \<Rightarrow> ('b, 'r) business env \<Rightarrow> proposal_id \<Rightarrow> bool \<Rightarrow> ('b, 'r) business engine \<Rightarrow>
   (dispatch_error + proposal_execution_outcome) \<times> ('b, 'r) business" where
  "multisig_on_internal_vote_finalized be env i approved s =
     (if \<not> is_transfer_proposal i s \<and> SafetyFundProposalActions (ext s) i = None \<and> SweepProposalActions (ext s) i = None
      then (Inr Ignored, ext s)
      else if approved then
        (case execute_multisig be env i s of
           (Inl _, x) \<Rightarrow> (Inr RetryableFailed, announce_failure be i s x)
         | (Inr _, x) \<Rightarrow> (Inr Executed, x))
      else (Inr Executed, forget_actions i (ext s)))"

definition multisig_callback :: "('b, 'r) business_env \<Rightarrow> ('b, 'r) business env \<Rightarrow> ('b, 'r) business vote_callback" where
  "multisig_callback be env = \<lparr>
     on_vote_finalized = multisig_on_internal_vote_finalized be env,
     can_cancel_passed_proposal = (\<lambda>_ s. (Inr CancelIgnored, ext s)),
     on_execution_failed_terminal = (\<lambda>i s. (Inr (), forget_actions i (ext s)))\<rparr>"

section \<open>Proposals\<close>

text \<open>The calls run on the engine with the business storage inside; every call is a storage transaction.\<close>

definition propose_transfer ::
  "('b, 'r) business_env \<Rightarrow> ('b, 'r) business env \<Rightarrow> account option \<Rightarrow> cid_number option \<Rightarrow> role_code option \<Rightarrow> account \<Rightarrow> account \<Rightarrow> u128 \<Rightarrow> string \<Rightarrow>
   ('b, 'r) business engine \<Rightarrow> (business_error, unit, ('b, 'r) business engine) outcome" where
  "propose_transfer be env signer actor role funding beneficiary amount remark = with_transaction (\<lambda>s.
     let x = ext s in
     ok_or signer NotSignedError s (\<lambda>who.
     ensure (0 < amount) (MultisigError ZeroTransferAmount) s (\<lambda>s.
     mresult (resolve_funding_authority be actor funding (registries x)) s (\<lambda>(code, subject_cids).
     ensure (actor = None \<longrightarrow> role = None) (MultisigError UnauthorizedAdmin) s (\<lambda>s.
     ensure (actor = None \<longrightarrow> is_personal_admin env funding who x) (MultisigError UnauthorizedAdmin) s (\<lambda>s.
     ensure (can_spend (account_classes_of be (registries x)) funding MultisigTransferExecute) (MultisigError InstitutionSpendNotAllowed) s (\<lambda>s.
     ensure (minimum_balance be \<le> amount) (MultisigError AmountBelowExistentialDeposit) s (\<lambda>s.
     ensure (beneficiary \<noteq> funding) (MultisigError SelfTransferRefused) s (\<lambda>s.
     ensure (\<not> is_protected be beneficiary (registries x)) (MultisigError BeneficiaryIsProtectedAddress) s (\<lambda>s.
     mresult (resolve_fee_payer be actor funding amount (calculate_onchain_fee amount) x) s (\<lambda>_.
     let action = \<lparr>ta_actor_cid_number = actor, ta_funding_account_id = funding, ta_beneficiary_account_id = beneficiary,
           ta_amount = amount, ta_remark = remark, ta_proposer_account_id = who\<rparr>;
         data = MULTISIG_TAG @ encode_transfer be action in
     and_then
       (case actor of
          Some cid \<Rightarrow>
            ok_or role (MultisigError UnauthorizedAdmin) s (\<lambda>role.
            result_or (build_institution_vote_plan be MULTISIG_TAG ACTION_MULTISIG_TRANSFER (MultisigError UnauthorizedAdmin) who cid role
                (hash256 env data) (registries x)) s (\<lambda>plan.
            via_engine (create_institution_proposal_with_data env who code cid (Some funding) subject_cids plan data s)))
        | None \<Rightarrow> via_engine (create_personal_proposal_with_data env who funding MULTISIG_TAG data s)) (\<lambda>i s.
     ok_or (proposals s i) (MultisigError ProposalActionNotFound) s (\<lambda>p.
     (Inr (), upd_ext (announce (TransferProposed i code actor who funding beneficiary amount remark (p_end p))) s))))))))))))))"

definition propose_safety_fund_transfer ::
  "('b, 'r) business_env \<Rightarrow> ('b, 'r) business env \<Rightarrow> account option \<Rightarrow> cid_number \<Rightarrow> role_code \<Rightarrow> account \<Rightarrow> account \<Rightarrow> u128 \<Rightarrow> string \<Rightarrow>
   ('b, 'r) business engine \<Rightarrow> (business_error, unit, ('b, 'r) business engine) outcome" where
  "propose_safety_fund_transfer be env signer actor role institution beneficiary amount remark = with_transaction (\<lambda>s.
     let x = ext s in
     ok_or signer NotSignedError s (\<lambda>who.
     ensure (0 < amount) (MultisigError ZeroTransferAmount) s (\<lambda>s.
     ensure (actor = nrc_cid) (MultisigError InvalidInstitutionAccount) s (\<lambda>s.
     ensure (institution = SAFETY_FUND_ACCOUNT (account_classes_of be (registries x))) (MultisigError InvalidInstitutionAccount) s (\<lambda>s.
     ensure (can_spend (account_classes_of be (registries x)) institution NrcSafetyFundTransfer) (MultisigError InstitutionSpendNotAllowed) s (\<lambda>s.
     mresult (ensure_principal be institution amount SafetyFundInsufficientBalance x) s (\<lambda>_.
     mresult (resolve_fee_account be actor (registries x)) s (\<lambda>fee_account.
     mresult (ensure_fee_reserve be fee_account (calculate_onchain_fee amount) x) s (\<lambda>_.
     result_or (build_institution_vote_plan be MULTISIG_TAG ACTION_SAFETY_FUND_TRANSFER (MultisigError UnauthorizedAdmin) who actor role
         (hash256 env SAFETY_FUND_OWNER_DATA) (registries x)) s (\<lambda>plan.
     and_then (via_engine (create_institution_proposal_with_data env who NRC actor (Some institution) [actor] plan SAFETY_FUND_OWNER_DATA s)) (\<lambda>i s.
     let action = \<lparr>sf_actor_cid_number = actor, sf_institution_account_id = institution, sf_beneficiary_account_id = beneficiary,
           sf_amount = amount, sf_remark = remark, sf_proposer_account_id = who\<rparr>;
         s = upd_ext (\<lambda>x. x\<lparr>SafetyFundProposalActions := (SafetyFundProposalActions x)(i \<mapsto> action)\<rparr>) s in
     ok_or (proposals s i) (MultisigError SafetyFundProposalNotFound) s (\<lambda>p.
     (Inr (), upd_ext (announce (SafetyFundTransferProposed i actor who institution beneficiary amount remark (p_end p))) s)))))))))))))"

definition propose_sweep_to_main ::
  "('b, 'r) business_env \<Rightarrow> ('b, 'r) business env \<Rightarrow> account option \<Rightarrow> cid_number \<Rightarrow> role_code \<Rightarrow> account \<Rightarrow> u128 \<Rightarrow>
   ('b, 'r) business engine \<Rightarrow> (business_error, unit, ('b, 'r) business engine) outcome" where
  "propose_sweep_to_main be env signer actor role institution amount = with_transaction (\<lambda>s.
     let x = ext s in
     ok_or signer NotSignedError s (\<lambda>who.
     ensure (0 < amount) (MultisigError InvalidSweepAmount) s (\<lambda>s.
     mresult (resolve_sweep_org actor) s (\<lambda>code.
     mresult (resolve_fee_account be actor (registries x)) s (\<lambda>fee_account.
     ensure (institution = fee_account) (MultisigError InvalidInstitutionAccount) s (\<lambda>s.
     result_or (build_institution_vote_plan be MULTISIG_TAG ACTION_FEE_SWEEP_TO_MAIN (MultisigError UnauthorizedAdmin) who actor role
         (hash256 env SWEEP_OWNER_DATA) (registries x)) s (\<lambda>plan.
     and_then (via_engine (create_institution_proposal_with_data env who code actor (Some institution) [actor] plan SWEEP_OWNER_DATA s)) (\<lambda>i s.
     let action = \<lparr>sw_actor_cid_number = actor, sw_institution_account_id = institution, sw_amount = amount, sw_proposer_account_id = who\<rparr>;
         s = upd_ext (\<lambda>x. x\<lparr>SweepProposalActions := (SweepProposalActions x)(i \<mapsto> action)\<rparr>) s in
     mresult (resolve_main_account be actor (registries (ext s))) s (\<lambda>main_account.
     ok_or (proposals s i) (MultisigError SweepProposalNotFound) s (\<lambda>p.
     (Inr (), upd_ext (announce (SweepToMainProposed i actor who institution main_account amount (p_end p))) s)))))))))))"

end
