(* ===== verification/Resolution_Destroy.thy ===== *)
theory Resolution_Destroy
  imports Business
begin

text \<open>
  Destruction of an institution's money decided by its own vote (\<^verbatim>\<open>governance/resolution-destroy/src/lib.rs\<close>).
\<close>

definition DESTROY_TAG :: string where "DESTROY_TAG = ''res-dst''"
definition ACTION_RESOLUTION_DESTROY :: u32 where "ACTION_RESOLUTION_DESTROY = 0"

definition can_propose_destroy :: "institution_code \<Rightarrow> bool" where
  "can_propose_destroy code \<longleftrightarrow> code \<in> {NRC, PRC, PRB}"

definition propose_destroy ::
  "('b, 'r) business_env \<Rightarrow> ('b, 'r) business env \<Rightarrow> account option \<Rightarrow> cid_number \<Rightarrow> role_code \<Rightarrow> account \<Rightarrow> u128 \<Rightarrow>
   ('b, 'r) business engine \<Rightarrow> (business_error, unit, ('b, 'r) business engine) outcome" where
  "propose_destroy be env signer actor role institution amount = with_transaction (\<lambda>s.
     let rg = registries (ext s) in
     ok_or signer NotSignedError s (\<lambda>who.
     ensure (0 < amount) (DestroyError DestroyZeroAmount) s (\<lambda>s.
     ok_or (lookup_org be institution rg) (DestroyError DestroyInvalidInstitution) s (\<lambda>code.
     ensure (can_propose_destroy code) (DestroyError DestroyInvalidInstitution) s (\<lambda>s.
     ensure (lookup_cid be institution rg = Some actor) (DestroyError DestroyInstitutionCodeMismatch) s (\<lambda>s.
     let data = DESTROY_TAG @ encode_destroy be \<lparr>da_actor_cid_number = actor, da_institution_account_id = institution, da_amount = amount\<rparr> in
     result_or (build_institution_vote_plan be DESTROY_TAG ACTION_RESOLUTION_DESTROY (DestroyError DestroyUnauthorizedAdmin) who actor role
         (hash256 env data) rg) s (\<lambda>plan.
     and_then (via_engine (create_institution_proposal_with_data env who code actor (Some institution) [actor] plan data s)) (\<lambda>i s.
     (Inr (), upd_ext (announce (DestroyProposed i code institution who amount)) s)))))))))"

text \<open>The fee and the destruction in one storage transaction.\<close>

definition destroy_with_fee ::
  "('b, 'r) business_env \<Rightarrow> account \<Rightarrow> account \<Rightarrow> u128 \<Rightarrow> ('b, 'r) business \<Rightarrow> (business_error, u128, ('b, 'r) business) outcome" where
  "destroy_with_fee be fee_account a amount =
     with_transaction (\<lambda>x.
       and_then (map_err (DestroyError FeeWithdrawFailed) (charge_fee be fee_account amount x)) (\<lambda>fee x.
       case slash be a amount (balances (funds x)) of
         (remaining, b) \<Rightarrow>
           let x = x\<lparr>funds := (funds x)\<lparr>balances := b\<rparr>\<rparr> in
           if remaining \<noteq> 0 then (Inl (DestroyError DestroyInsufficientBalance), x) else (Inr fee, x)))"

definition try_execute_destroy_from_action ::
  "('b, 'r) business_env \<Rightarrow> ('b, 'r) business env \<Rightarrow> proposal_id \<Rightarrow> destroy_action \<Rightarrow> ('b, 'r) business engine \<Rightarrow>
   (business_error, unit, ('b, 'r) business) outcome" where
  "try_execute_destroy_from_action be env i a s =
     (let x = ext s in
      ok_or (proposals s i) (DestroyError DestroyActionNotFound) x (\<lambda>p.
      ok_or (lookup_org be (da_institution_account_id a) (registries x)) (DestroyError DestroyInvalidInstitution) x (\<lambda>code.
      ok_or (lookup_cid be (da_institution_account_id a) (registries x)) (DestroyError DestroyInvalidInstitution) x (\<lambda>cid.
      ensure (is_callback_execution_scope i s \<and> is_proposal_owner env i DESTROY_TAG s \<and>
          p_kind p = PROPOSAL_KIND_INTERNAL \<and> p_stage p = STAGE_INTERNAL \<and> p_status p = STATUS_PASSED \<and>
          p_internal_code p = Some code \<and> p_actor_cid_number p = Some (da_actor_cid_number a) \<and>
          p_execution_account_id p = Some (da_institution_account_id a) \<and> cid = da_actor_cid_number a)
        (DestroyError DestroyNotPassed) x (\<lambda>x.
      ensure (can_propose_destroy code) (DestroyError DestroyInvalidInstitution) x (\<lambda>x.
      ok_or (checked_add 128 (da_amount a) (minimum_balance be)) (DestroyError DestroyInsufficientBalance) x (\<lambda>required.
      ensure (required \<le> balance_of be (da_institution_account_id a) x) (DestroyError DestroyInsufficientBalance) x (\<lambda>x.
      ok_or (lookup_institution_account be (da_actor_cid_number a) ACCOUNT_NAME_FEE (registries x)) (DestroyError DestroyFeeAccountMissing) x (\<lambda>fee_account.
      and_then (destroy_with_fee be fee_account (da_institution_account_id a) (da_amount a) x) (\<lambda>fee x.
      (Inr (), announce (DestroyExecuted i (da_institution_account_id a) fee_account (da_amount a) fee) x)))))))))))"

definition destroy_on_internal_vote_finalized ::
  "('b, 'r) business_env \<Rightarrow> ('b, 'r) business env \<Rightarrow> proposal_id \<Rightarrow> bool \<Rightarrow> ('b, 'r) business engine \<Rightarrow>
   (dispatch_error + proposal_execution_outcome) \<times> ('b, 'r) business" where
  "destroy_on_internal_vote_finalized be env i approved s =
     (case get_proposal_data i s of
        None \<Rightarrow> (Inr Ignored, ext s)
      | Some raw \<Rightarrow>
          if \<not> (is_proposal_owner env i DESTROY_TAG s \<and> take (length DESTROY_TAG) raw = DESTROY_TAG) then (Inr Ignored, ext s)
          else if \<not> approved then (Inr Executed, ext s)
          else (case decode_destroy be (drop (length DESTROY_TAG) raw) of
            None \<Rightarrow> (Inl (dispatch_of (DestroyError DestroyActionNotFound)), ext s)
          | Some a \<Rightarrow>
              (case try_execute_destroy_from_action be env i a s of
                 (Inr _, x) \<Rightarrow> (Inr Executed, x)
               | (Inl _, x) \<Rightarrow> (Inr RetryableFailed, announce (DestroyExecutionFailed i) x))))"

definition destroy_callback :: "('b, 'r) business_env \<Rightarrow> ('b, 'r) business env \<Rightarrow> ('b, 'r) business vote_callback" where
  "destroy_callback be env = default_callback\<lparr>on_vote_finalized := destroy_on_internal_vote_finalized be env\<rparr>"

end
