(* ===== verification/Resolution_Issuance.thy ===== *)
theory Resolution_Issuance
  imports Business
begin

text \<open>
  Issuance decided by a joint vote (\<^verbatim>\<open>issuance/resolution-issuance/src/\<close>\<open>lib.rs\<close>, \<open>validation.rs\<close>, \<open>execution.rs\<close> and
  \<open>proposal.rs\<close>): a fixed set of recipients, each proposal executed at most once, caps per proposal and in total.
\<close>

definition ISSUANCE_TAG :: string where "ISSUANCE_TAG = ''res-iss''"
definition ACTION_RESOLUTION_ISSUANCE :: u32 where "ACTION_RESOLUTION_ISSUANCE = 0"

section \<open>Validation\<close>

text \<open>The loop over the allocations: accounts seen so far and the sum so far.\<close>

fun check_allocations ::
  "account set \<Rightarrow> recipient_amount list \<Rightarrow> account set \<Rightarrow> u128 \<Rightarrow> resolution_issuance_error + account set \<times> u128" where
  "check_allocations expected [] seen total_sum = Inr (seen, total_sum)"
| "check_allocations expected (r # rs) seen total_sum =
     (if ra_amount r = 0 then Inl ZeroIssuance
      else if recipient_account_id r \<in> seen then Inl DuplicateRecipient
      else if recipient_account_id r \<notin> expected then Inl InvalidRecipientSet
      else (case checked_add 128 total_sum (ra_amount r) of
              None \<Rightarrow> Inl AllocationOverflow
            | Some t \<Rightarrow> check_allocations expected rs (insert (recipient_account_id r) seen) t))"

definition validate_proposal_allocations ::
  "u128 \<Rightarrow> recipient_amount list \<Rightarrow> account list \<Rightarrow> resolution_issuance_error + unit" where
  "validate_proposal_allocations total_amount allocations allowed =
     (if allocations = [] then Inl EmptyAllocations
      else if total_amount = 0 then Inl ZeroIssuance
      else if allowed = [] then Inl RecipientsNotConfigured
      else if card (set allowed) \<noteq> length allowed then Inl DuplicateAllowedRecipient
      else if length allocations \<noteq> card (set allowed) then Inl InvalidAllocationCount
      else (case check_allocations (set allowed) allocations {} 0 of
              Inl e \<Rightarrow> Inl e
            | Inr (seen, t) \<Rightarrow>
                if seen \<noteq> set allowed then Inl InvalidRecipientSet
                else if t \<noteq> total_amount then Inl TotalMismatch else Inr ()))"

section \<open>Genesis\<close>

text \<open>
  The recipients are fixed at genesis; a configuration that fails a check stops the node. The main accounts
  of the provincial committees that decode are an argument.
\<close>

fun ensure_unique_recipients :: "account list \<Rightarrow> account set \<Rightarrow> resolution_issuance_error + unit" where
  "ensure_unique_recipients [] seen = Inr ()"
| "ensure_unique_recipients (r # rs) seen = (if r \<in> seen then Inl DuplicateAllowedRecipient else ensure_unique_recipients rs (insert r seen))"

definition ensure_recipients_in_china_cb :: "account list \<Rightarrow> account list \<Rightarrow> resolution_issuance_error + unit" where
  "ensure_recipients_in_china_cb prc_accounts recipients =
     (if list_all (\<lambda>r. r \<in> set prc_accounts) recipients then Inr () else Inl RecipientNotInChinaCb)"

definition issuance_genesis ::
  "('b, 'r) business_env \<Rightarrow> account list \<Rightarrow> account list \<Rightarrow> ('b, 'r) business \<Rightarrow> ('b, 'r) business option" where
  "issuance_genesis be prc_accounts allowed x =
     (if MaxAllocations be < length allowed then None
      else case ensure_unique_recipients allowed {} of
        Inl _ \<Rightarrow> None
      | Inr _ \<Rightarrow> (case ensure_recipients_in_china_cb prc_accounts allowed of
          Inl _ \<Rightarrow> None
        | Inr _ \<Rightarrow> Some (x\<lparr>AllowedRecipients := allowed\<rparr>)))"

section \<open>Execution\<close>

fun deposit_all :: "'b currency \<Rightarrow> recipient_amount list \<Rightarrow> 'b \<Rightarrow> bool \<times> 'b" where
  "deposit_all c [] b = (True, b)"
| "deposit_all c (r # rs) b =
     (case deposit_creating c (recipient_account_id r) (ra_amount r) b of
        (n, b') \<Rightarrow> if n = ra_amount r then deposit_all c rs b' else (False, b'))"

definition do_execute_inner ::
  "('b, 'r) business_env \<Rightarrow> (string \<Rightarrow> string) \<Rightarrow> block_number \<Rightarrow> proposal_id \<Rightarrow> string \<Rightarrow> u128 \<Rightarrow> recipient_amount list \<Rightarrow>
   ('b, 'r) business \<Rightarrow> (resolution_issuance_error, unit, ('b, 'r) business) outcome" where
  "do_execute_inner be hash now i reason total_amount allocations x =
     ensure (i \<notin> EverExecuted x) AlreadyExecuted x (\<lambda>x.
     ensure (reason \<noteq> []) EmptyReason x (\<lambda>x.
     ensure (length reason \<le> MaxReasonLen be) ReasonTooLong x (\<lambda>x.
     result_or (validate_proposal_allocations total_amount allocations (AllowedRecipients x)) x (\<lambda>_.
     ensure (list_all (\<lambda>r. minimum_balance be \<le> ra_amount r) allocations) BelowExistentialDeposit x (\<lambda>x.
     ensure (total_amount \<le> MaxSingleIssuance be) ExceedsSingleIssuanceCap x (\<lambda>x.
     ok_or (checked_add 128 (TotalIssued x) total_amount) TotalIssuedOverflow x (\<lambda>new_total.
     ensure (new_total \<le> MaxTotalIssuance be) ExceedsTotalIssuanceCap x (\<lambda>x.
     case deposit_all (bcur be) allocations (balances (funds x)) of
       (ok, b) \<Rightarrow>
         let x = x\<lparr>funds := (funds x)\<lparr>balances := b\<rparr>\<rparr> in
         ensure ok DepositFailed x (\<lambda>x.
         (Inr (), announce (ResolutionIssuanceExecuted i total_amount (length allocations) (hash reason) (hash_allocations be allocations))
            (x\<lparr>EverExecuted := insert i (EverExecuted x), ExecutedAt := (ExecutedAt x)(i \<mapsto> now), TotalIssued := new_total\<rparr>)))))))))))"

definition execute_approved_issuance ::
  "('b, 'r) business_env \<Rightarrow> (string \<Rightarrow> string) \<Rightarrow> block_number \<Rightarrow> proposal_id \<Rightarrow> string \<Rightarrow> u128 \<Rightarrow> recipient_amount list \<Rightarrow>
   ('b, 'r) business \<Rightarrow> (resolution_issuance_error, unit, ('b, 'r) business) outcome" where
  "execute_approved_issuance be hash now i reason total_amount allocations =
     with_transaction (do_execute_inner be hash now i reason total_amount allocations)"

section \<open>Proposals\<close>

definition increment_voting_proposal_count :: "('b, 'r) business \<Rightarrow> (resolution_issuance_error, unit, ('b, 'r) business) outcome" where
  "increment_voting_proposal_count x =
     ok_or (checked_add 32 (VotingProposalCount x) 1) VotingProposalCountOverflow x (\<lambda>n. (Inr (), x\<lparr>VotingProposalCount := n\<rparr>))"

definition decrement_voting_proposal_count :: "('b, 'r) business \<Rightarrow> (resolution_issuance_error, unit, ('b, 'r) business) outcome" where
  "decrement_voting_proposal_count x =
     ensure (0 < VotingProposalCount x) VotingProposalCountUnderflow x (\<lambda>x. (Inr (), x\<lparr>VotingProposalCount := VotingProposalCount x - 1\<rparr>))"

definition create_resolution_issuance_proposal ::
  "('b, 'r) business_env \<Rightarrow> ('b, 'r) business env \<Rightarrow> account \<Rightarrow> cid_number \<Rightarrow> role_code \<Rightarrow> string \<Rightarrow> u128 \<Rightarrow> recipient_amount list \<Rightarrow>
   ('b, 'r) business engine \<Rightarrow> (business_error, unit, ('b, 'r) business engine) outcome" where
  "create_resolution_issuance_proposal be env proposer actor role reason total_amount allocations s =
     (let x = ext s in
      ensure (reason \<noteq> []) (ResolutionIssuanceError EmptyReason) s (\<lambda>s.
      ensure (utf8_valid actor) (ResolutionIssuanceError InvalidActorCid) s (\<lambda>s.
      ok_or (institution_code_from_cid_number actor) (ResolutionIssuanceError InvalidActorCid) s (\<lambda>code.
      ensure (code \<in> {NRC, PRC}) (ResolutionIssuanceError InvalidActorCid) s (\<lambda>s.
      ensure (is_authorized be proposer \<lparr>rs_cid_number = actor, rs_role_code = role\<rparr>
          \<lparr>module_tag = ISSUANCE_TAG, action_code = ACTION_RESOLUTION_ISSUANCE\<rparr> ProposeOperation (registries x))
        (ResolutionIssuanceError UnauthorizedActorRole) s (\<lambda>s.
      result_or (case validate_proposal_allocations total_amount allocations (AllowedRecipients x) of
          Inl e \<Rightarrow> Inl (ResolutionIssuanceError e) | Inr u \<Rightarrow> Inr u) s (\<lambda>_.
      with_transaction (\<lambda>s.
        let data = ISSUANCE_TAG @ encode_issuance be \<lparr>ip_actor_cid_number = actor, ip_proposer_role_code = role,
              ip_proposer_account_id = proposer, ip_reason = reason, ip_total_amount = total_amount, ip_allocations = allocations\<rparr> in
        result_or (build_joint_vote_plan ISSUANCE_TAG ACTION_RESOLUTION_ISSUANCE (ResolutionIssuanceError InvalidActorCid)
            (ResolutionIssuanceError JointVoteCreateFailed) \<lparr>rs_cid_number = actor, rs_role_code = role\<rparr> (hash256 env data)) s (\<lambda>plan.
        and_then (map_err (ResolutionIssuanceError JointVoteCreateFailed)
            (create_joint_proposal_with_data env proposer actor plan data s)) (\<lambda>i s.
        and_then (case increment_voting_proposal_count (ext s) of
            (Inl e, y) \<Rightarrow> (Inl (ResolutionIssuanceError e), s\<lparr>ext := y\<rparr>) | (Inr u, y) \<Rightarrow> (Inr u, s\<lparr>ext := y\<rparr>)) (\<lambda>_ s.
        (Inr (), upd_ext (announce (ResolutionIssuanceProposed i actor role proposer total_amount (length allocations))) s))))) s)))))))"

text \<open>The bounds of the call's arguments are those of their types; the origin is any account the runtime lets propose.\<close>

definition propose_issuance ::
  "('b, 'r) business_env \<Rightarrow> ('b, 'r) business env \<Rightarrow> account option \<Rightarrow> cid_number \<Rightarrow> role_code \<Rightarrow> string \<Rightarrow> u128 \<Rightarrow> recipient_amount list \<Rightarrow>
   ('b, 'r) business engine \<Rightarrow> (business_error, unit, ('b, 'r) business engine) outcome" where
  "propose_issuance be env signer actor role reason total_amount allocations = with_transaction (\<lambda>s.
     ok_or (joint_proposer be signer (registries (ext s))) (EngineError BadOrigin) s (\<lambda>proposer.
     create_resolution_issuance_proposal be env proposer actor role reason total_amount allocations s))"

section \<open>The result of the vote\<close>

definition issuance_owns_proposal :: "'x env \<Rightarrow> proposal_id \<Rightarrow> 'x engine \<Rightarrow> bool" where
  "issuance_owns_proposal env i s = is_proposal_owner env i ISSUANCE_TAG s"

definition decode_tagged_data :: "('b, 'r) business_env \<Rightarrow> string \<Rightarrow> issuance_proposal_data option" where
  "decode_tagged_data be raw =
     (if take (length ISSUANCE_TAG) raw \<noteq> ISSUANCE_TAG then None
      else case decode_issuance be (drop (length ISSUANCE_TAG) raw) of
        None \<Rightarrow> None
      | Some (d, rest) \<Rightarrow> if rest = [] then Some d else None)"

definition load_proposal_data :: "('b, 'r) business_env \<Rightarrow> proposal_id \<Rightarrow> 'x engine \<Rightarrow> issuance_proposal_data option" where
  "load_proposal_data be i s = (case get_proposal_data i s of None \<Rightarrow> None | Some raw \<Rightarrow> decode_tagged_data be raw)"

definition ensure_vote_engine_callback_context :: "'x env \<Rightarrow> proposal_id \<Rightarrow> bool \<Rightarrow> 'x engine \<Rightarrow> resolution_issuance_error + unit" where
  "ensure_vote_engine_callback_context env i approved s =
     (if i \<notin> callback_execution_scopes s then Inl ProposalNotFinalizable
      else case proposals s i of
        None \<Rightarrow> Inl IssuanceProposalNotFound
      | Some p \<Rightarrow>
          if \<not> is_proposal_owner env i ISSUANCE_TAG s then Inl ProposalNotFinalizable
          else if \<not> (p_kind p = PROPOSAL_KIND_JOINT \<and> p_stage p \<in> {STAGE_JOINT, STAGE_REFERENDUM}) then Inl ProposalNotFinalizable
          else if p_status p \<noteq> (if approved then STATUS_PASSED else STATUS_REJECTED) then Inl ProposalNotFinalizable
          else Inr ())"

datatype finalize_outcome = ApprovedExecutionSucceeded | ApprovedExecutionFailed | RejectedOutcome

definition apply_joint_vote_result ::
  "('b, 'r) business_env \<Rightarrow> ('b, 'r) business env \<Rightarrow> proposal_id \<Rightarrow> bool \<Rightarrow> ('b, 'r) business engine \<Rightarrow>
   (resolution_issuance_error, finalize_outcome, ('b, 'r) business) outcome" where
  "apply_joint_vote_result be env i approved s =
     with_transaction (\<lambda>x.
       result_or (ensure_vote_engine_callback_context env i approved s) x (\<lambda>_.
       ok_or (load_proposal_data be i s) IssuanceProposalNotFound x (\<lambda>d.
       if approved then
         ensure (length (ip_reason d) \<le> MaxReasonLen be) ReasonTooLong x (\<lambda>x.
         ensure (length (ip_allocations d) \<le> MaxAllocations be) InvalidAllocationCount x (\<lambda>x.
         case execute_approved_issuance be (hash256 env) (block_number s) i (ip_reason d) (ip_total_amount d) (ip_allocations d) x of
           (Inr _, x) \<Rightarrow>
             and_then (decrement_voting_proposal_count x) (\<lambda>_ x.
             (Inr ApprovedExecutionSucceeded,
              announce (IssuanceExecutionTriggered i (ip_total_amount d)) (announce (JointVoteFinalized i True) x)))
         | (Inl _, x) \<Rightarrow>
             and_then (decrement_voting_proposal_count x) (\<lambda>_ x.
             (Inr ApprovedExecutionFailed, announce (IssuanceExecutionFailed i) (announce (JointVoteFinalized i True) x)))))
       else
         and_then (decrement_voting_proposal_count x) (\<lambda>_ x. (Inr RejectedOutcome, announce (JointVoteFinalized i False) x))))) (ext s)"

definition issuance_on_joint_vote_finalized ::
  "('b, 'r) business_env \<Rightarrow> ('b, 'r) business env \<Rightarrow> proposal_id \<Rightarrow> bool \<Rightarrow> ('b, 'r) business engine \<Rightarrow>
   (dispatch_error + proposal_execution_outcome) \<times> ('b, 'r) business" where
  "issuance_on_joint_vote_finalized be env i approved s =
     (case apply_joint_vote_result be env i approved s of
        (Inl e, x) \<Rightarrow> (Inl (dispatch_of (ResolutionIssuanceError e)), x)
      | (Inr oc, x) \<Rightarrow> (Inr (case oc of ApprovedExecutionSucceeded \<Rightarrow> Executed | ApprovedExecutionFailed \<Rightarrow> FatalFailed
                                     | RejectedOutcome \<Rightarrow> Executed), x))"

section \<open>Allowed recipients\<close>

lemma ensure_unique_recipients_Inr:
  "ensure_unique_recipients rs seen = Inr () \<longleftrightarrow> distinct rs \<and> set rs \<inter> seen = {}"
  by (induction rs arbitrary: seen) auto

text \<open>A chain that starts has distinct recipients, so that the set a proposal must cover has as many members as the list.\<close>

lemma issuance_genesis_distinct:
  assumes "issuance_genesis be prc allowed x = Some y"
  shows "distinct (AllowedRecipients y)" "set (AllowedRecipients y) \<subseteq> set prc" "length (AllowedRecipients y) \<le> MaxAllocations be"
    "card (set (AllowedRecipients y)) = length (AllowedRecipients y)"
  using assms
  by (auto simp: issuance_genesis_def ensure_unique_recipients_Inr ensure_recipients_in_china_cb_def list_all_iff distinct_card
      split: if_splits sum.splits)

end
