(* ===== verification/Runtime_Upgrade.thy ===== *)
theory Runtime_Upgrade
  imports Resolution_Issuance
begin

text \<open>
  Upgrade of the runtime's code together with the difficulty parameters, by joint vote or, before the chain is in
  operation, directly (\<^verbatim>\<open>governance/runtime-upgrade/src/lib.rs\<close>), and the dispatch of the results of joint votes
  (\<^verbatim>\<open>src/configs.rs\<close>).
\<close>

definition UPGRADE_TAG :: string where "UPGRADE_TAG = ''rt-upg''"
definition ACTION_RUNTIME_UPGRADE :: u32 where "ACTION_RUNTIME_UPGRADE = 0"
definition PROPOSAL_OBJECT_KIND_RUNTIME_WASM :: u8 where "PROPOSAL_OBJECT_KIND_RUNTIME_WASM = 1"

section \<open>Execution\<close>

definition execute_runtime_code ::
  "('b, 'r) business_env \<Rightarrow> string \<Rightarrow> pow_difficulty_params \<Rightarrow> u32 \<Rightarrow> ('b, 'r) business \<Rightarrow> (business_error, unit, ('b, 'r) business) outcome" where
  "execute_runtime_code be code params at x =
     and_then (case stage_params params at (pow x) of (Inl e, q) \<Rightarrow> (Inl (PowError e), x\<lparr>pow := q\<rparr>) | (Inr u, q) \<Rightarrow> (Inr u, x\<lparr>pow := q\<rparr>)) (\<lambda>_ x.
     case set_code be code (runtime_code x) of
       (ok, c) \<Rightarrow> (if ok then Inr () else Inl SetCodeError, x\<lparr>runtime_code := c\<rparr>))"

definition execute_upgrade_bundle ::
  "('b, 'r) business_env \<Rightarrow> (string \<Rightarrow> string) \<Rightarrow> block_number \<Rightarrow> string \<Rightarrow> pow_difficulty_params \<Rightarrow> proposal_id option \<Rightarrow>
   upgrade_execution_path \<Rightarrow> account option \<Rightarrow> ('b, 'r) business \<Rightarrow> (business_error, unit, ('b, 'r) business) outcome" where
  "execute_upgrade_bundle be hash now code params i path developer =
     with_transaction (\<lambda>x.
       let old_hash = hash_pow_params be (ActiveParams (pow x)); executed_at = sat_into 32 now in
       ok_or (checked_add 32 executed_at 1) (OtherError ''pow params activation overflow'') x (\<lambda>activate_at.
       and_then (execute_runtime_code be code params activate_at x) (\<lambda>_ x.
       (Inr (), x\<lparr>LastRuntimeUpgradeAudit := Some \<lparr>ua_proposal_id = i, ua_execution_path = path, ua_code_hash = hash code,
          ua_old_pow_params_hash = old_hash, ua_new_pow_params_hash = hash_pow_params be params, ua_executed_at = executed_at,
          ua_activate_at = activate_at, ua_developer = developer\<rparr>\<rparr>))))"

section \<open>Calls\<close>

definition upgrade_authority ::
  "('b, 'r) business_env \<Rightarrow> institution_code set \<Rightarrow> account \<Rightarrow> cid_number \<Rightarrow> role_code \<Rightarrow> 'r \<Rightarrow> business_error + unit" where
  "upgrade_authority be codes who actor role rg =
     (if \<not> utf8_valid actor then Inl (UpgradeError UpgradeInvalidActorCid)
      else case institution_code_from_cid_number actor of
        None \<Rightarrow> Inl (UpgradeError UpgradeInvalidActorCid)
      | Some code \<Rightarrow>
          if code \<notin> codes then Inl (UpgradeError UpgradeInvalidActorCid)
          else if \<not> is_authorized be who \<lparr>rs_cid_number = actor, rs_role_code = role\<rparr>
              \<lparr>module_tag = UPGRADE_TAG, action_code = ACTION_RUNTIME_UPGRADE\<rparr> ProposeOperation rg
          then Inl (UpgradeError UpgradeUnauthorizedRole)
          else Inr ())"

definition propose_runtime_upgrade ::
  "('b, 'r) business_env \<Rightarrow> ('b, 'r) business env \<Rightarrow> account option \<Rightarrow> cid_number \<Rightarrow> role_code \<Rightarrow> string \<Rightarrow> string \<Rightarrow> pow_difficulty_params \<Rightarrow>
   ('b, 'r) business engine \<Rightarrow> (business_error, unit, ('b, 'r) business engine) outcome" where
  "propose_runtime_upgrade be env signer actor role reason code params = with_transaction (\<lambda>s.
     let x = ext s in
     ok_or (joint_proposer be signer (registries x)) (EngineError BadOrigin) s (\<lambda>proposer.
     result_or (upgrade_authority be {NRC, PRC} proposer actor role (registries x)) s (\<lambda>_.
     ensure (reason \<noteq> []) (UpgradeError UpgradeEmptyReason) s (\<lambda>s.
     ensure (code \<noteq> []) (UpgradeError EmptyRuntimeCode) s (\<lambda>s.
     ensure (validate_pow_params params = Inr ()) (OtherError ''invalid pow difficulty params'') s (\<lambda>s.
     let code_hash = hash256 env code;
         data = UPGRADE_TAG @ encode_upgrade be \<lparr>up_actor_cid_number = actor, up_actor_role_code = role, up_proposer_account_id = proposer,
           up_reason = reason, up_code_hash = code_hash, up_expected_pow_params_hash = hash_pow_params be (ActiveParams (pow x)),
           up_new_pow_params = params\<rparr> in
     result_or (build_joint_vote_plan UPGRADE_TAG ACTION_RUNTIME_UPGRADE (UpgradeError UpgradeInvalidActorCid) (UpgradeError UpgradeVoteCreateFailed)
         \<lparr>rs_cid_number = actor, rs_role_code = ROLE_CODE_COMMITTEE_MEMBER\<rparr> code_hash) s (\<lambda>plan.
     and_then (map_err (UpgradeError UpgradeVoteCreateFailed)
         (create_joint_proposal_with_data_and_object env proposer actor plan data PROPOSAL_OBJECT_KIND_RUNTIME_WASM code s)) (\<lambda>i s.
     (Inr (), upd_ext (announce (RuntimeUpgradeProposed i actor role proposer code_hash (hash_pow_params be params))) s)))))))))"

definition developer_direct_upgrade ::
  "('b, 'r) business_env \<Rightarrow> ('b, 'r) business env \<Rightarrow> account option \<Rightarrow> cid_number \<Rightarrow> role_code \<Rightarrow> string \<Rightarrow> pow_difficulty_params \<Rightarrow>
   ('b, 'r) business engine \<Rightarrow> (business_error, unit, ('b, 'r) business engine) outcome" where
  "developer_direct_upgrade be env signer actor role code params = with_transaction (\<lambda>s.
     let x = ext s in
     ok_or (nrc_admin be signer (registries x)) (EngineError BadOrigin) s (\<lambda>who.
     result_or (upgrade_authority be {NRC} who actor role (registries x)) s (\<lambda>_.
     ensure (developer_upgrade_enabled be (registries x)) (UpgradeError DeveloperUpgradeDisabled) s (\<lambda>s.
     ensure (code \<noteq> []) (UpgradeError EmptyRuntimeCode) s (\<lambda>s.
     ensure (validate_pow_params params = Inr ()) (OtherError ''invalid pow difficulty params'') s (\<lambda>s.
     case execute_upgrade_bundle be (hash256 env) (block_number s) code params None DeveloperDirectPath (Some who) x of
       (Inl e, y) \<Rightarrow> (Inl e, s\<lparr>ext := y\<rparr>)
     | (Inr _, y) \<Rightarrow> (Inr (), s\<lparr>ext := announce (DeveloperDirectUpgradeExecuted who (hash256 env code)) y\<rparr>)))))))"

section \<open>The result of the vote\<close>

definition upgrade_owns_proposal :: "'x env \<Rightarrow> proposal_id \<Rightarrow> 'x engine \<Rightarrow> bool" where
  "upgrade_owns_proposal env i s = is_proposal_owner env i UPGRADE_TAG s"

definition load_proposal :: "('b, 'r) business_env \<Rightarrow> proposal_id \<Rightarrow> 'x engine \<Rightarrow> upgrade_proposal option" where
  "load_proposal be i s =
     (case get_proposal_data i s of
        None \<Rightarrow> None
      | Some raw \<Rightarrow> if take (length UPGRADE_TAG) raw \<noteq> UPGRADE_TAG then None else decode_upgrade be (drop (length UPGRADE_TAG) raw))"

definition load_runtime_code :: "('b, 'r) business_env \<Rightarrow> proposal_id \<Rightarrow> 'x engine \<Rightarrow> string option" where
  "load_runtime_code be i s =
     (case get_proposal_object_meta i s of
        None \<Rightarrow> None
      | Some m \<Rightarrow>
          if object_kind m \<noteq> PROPOSAL_OBJECT_KIND_RUNTIME_WASM then None
          else (case get_proposal_object i s of
            None \<Rightarrow> None
          | Some raw \<Rightarrow> if length raw \<le> MaxRuntimeCodeSize be then Some raw else None))"

definition upgrade_apply_joint_vote_result ::
  "('b, 'r) business_env \<Rightarrow> ('b, 'r) business env \<Rightarrow> proposal_id \<Rightarrow> bool \<Rightarrow> ('b, 'r) business engine \<Rightarrow>
   (business_error, proposal_execution_outcome, ('b, 'r) business) outcome" where
  "upgrade_apply_joint_vote_result be env i approved s =
     (let x = ext s in
      ok_or (load_proposal be i s) (UpgradeError UpgradeProposalNotFound) x (\<lambda>u.
      ok_or (proposals s i) (UpgradeError UpgradeProposalNotFound) x (\<lambda>p.
      ensure (is_callback_execution_scope i s \<and> is_proposal_owner env i UPGRADE_TAG s \<and> p_kind p = PROPOSAL_KIND_JOINT \<and>
          p_stage p \<in> {STAGE_JOINT, STAGE_REFERENDUM}) (UpgradeError ProposalNotVoting) x (\<lambda>x.
      ensure (p_status p = (if approved then STATUS_PASSED else STATUS_REJECTED)) (UpgradeError ProposalNotVoting) x (\<lambda>x.
      if approved then
        ok_or (load_runtime_code be i s) (UpgradeError RuntimeCodeMissing) x (\<lambda>code.
        ensure (hash256 env code = up_code_hash u) (UpgradeError RuntimeCodeMissing) x (\<lambda>x.
        ensure (hash_pow_params be (ActiveParams (pow x)) = up_expected_pow_params_hash u)
          (OtherError ''pow params changed while upgrade vote was open'') x (\<lambda>x.
        case execute_upgrade_bundle be (hash256 env) (block_number s) code (up_new_pow_params u) (Some i) JointVotePath None x of
          (Inr _, x) \<Rightarrow> (Inr Executed, announce (RuntimeUpgradeExecuted i (up_code_hash u)) (announce (UpgradeVoteFinalized i True) x))
        | (Inl _, x) \<Rightarrow> (Inr FatalFailed, announce (RuntimeUpgradeExecutionFailed i (up_code_hash u)) (announce (UpgradeVoteFinalized i True) x)))))
      else (Inr Executed, announce (UpgradeVoteFinalized i False) x))))))"

definition upgrade_on_joint_vote_finalized ::
  "('b, 'r) business_env \<Rightarrow> ('b, 'r) business env \<Rightarrow> proposal_id \<Rightarrow> bool \<Rightarrow> ('b, 'r) business engine \<Rightarrow>
   (dispatch_error + proposal_execution_outcome) \<times> ('b, 'r) business" where
  "upgrade_on_joint_vote_finalized be env i approved s =
     (case upgrade_apply_joint_vote_result be env i approved s of
        (Inl e, x) \<Rightarrow> (Inl (dispatch_of e), x) | (Inr oc, x) \<Rightarrow> (Inr oc, x))"

section \<open>The joint callback of the runtime\<close>

definition runtime_joint_callback :: "('b, 'r) business_env \<Rightarrow> ('b, 'r) business env \<Rightarrow> ('b, 'r) business vote_callback" where
  "runtime_joint_callback be env = default_callback\<lparr>on_vote_finalized := (\<lambda>i approved s.
     if issuance_owns_proposal env i s then issuance_on_joint_vote_finalized be env i approved s
     else if upgrade_owns_proposal env i s then upgrade_on_joint_vote_finalized be env i approved s
     else (Inl (Other ''joint vote proposal not found in any module''), ext s))\<rparr>"

end
