(* ===== verification/Execution_Effects.thy ===== *)
theory Execution_Effects
  imports Chain
begin

text \<open>
  What an execution attempt of the engine leaves in the storage of the business pallets
  (\<^verbatim>\<open>votingengine/src/execution.rs\<close>, \<^verbatim>\<open>src/lifecycle.rs\<close>): either exactly what the callback left, together
  with the status that belongs to its verdict, or nothing at all.
\<close>

section \<open>Tracks that leave the business storage alone\<close>

locale passive_track = ledger_track t for t :: "'x track" +
  assumes executed_ext: "ext (snd (on_proposal_executed t k i s)) = ext s"
    and terminal_ext: "ext (snd (on_proposal_terminal t k i st s)) = ext s"
    and chunk_ext: "ext (snd (cleanup_chunk t k i n s)) = ext s"
    and cleanup_ext: "ext (snd (cleanup_terminal t k i s)) = ext s"

lemma executed_effect_ext: "ext (snd (apply_executed_threshold_side_effect i s)) = ext s"
  by (auto simp: apply_executed_threshold_side_effect_def Let_def and_then_def ok_or_def pure_result_def
      split: option.splits sum.splits internal_proposal_role.splits)

lemma terminal_effect_ext: "ext (snd (apply_terminal_threshold_cleanup i st s)) = ext s"
  by (simp add: apply_terminal_threshold_cleanup_def)

interpretation internal_passive: passive_track "internal_track cp db wt" for cp db wt
proof unfold_locales
  fix s :: "'x engine" and k st :: u8 and i :: proposal_id and n :: u32
  show "ext (snd (on_proposal_executed (internal_track cp db wt) k i s)) = ext s"
    using executed_effect_ext [of i s] by (auto simp: internal_track_def split: prod.splits)
  show "ext (snd (on_proposal_terminal (internal_track cp db wt) k i st s)) = ext s"
    using terminal_effect_ext [of i st s] by (auto simp: internal_track_def split: prod.splits)
qed (simp_all add: internal_track_def cleanup_internal_votes_chunk_def cleanup_internal_terminal_def Let_def)

lemma chunk_exts:
  "ext (snd (joint_cleanup_chunk cp i n s)) = ext s" "ext (snd (legislation_cleanup_chunk cp i n s)) = ext s"
  "ext (snd (election_cleanup_chunk cp i n s)) = ext s"
  by (auto simp: joint_cleanup_chunk_def cleanup_joint_admin_votes_chunk_def cleanup_joint_institution_votes_chunk_def
      cleanup_joint_institution_tallies_chunk_def cleanup_referendum_votes_chunk_def legislation_cleanup_chunk_def
      cleanup_legislation_representative_votes_chunk_def cleanup_legislation_referendum_votes_chunk_def election_cleanup_chunk_def
      cleanup_election_votes_chunk_def cleanup_election_voters_chunk_def cleanup_election_tallies_chunk_def clear_ledger_def Let_def)

interpretation joint_passive: passive_track "joint_track cp db wj wr" for cp db wj wr
  by unfold_locales (simp_all add: joint_track_def cleanup_joint_terminal_def chunk_exts case_prod_beta)

interpretation legislation_passive: passive_track "legislation_track cp db w" for cp db w
  by unfold_locales (simp_all add: legislation_track_def cleanup_legislation_terminal_def chunk_exts case_prod_beta)

interpretation election_passive: passive_track "election_track cp db m wp wm" for cp db m wp wm
  by unfold_locales (simp_all add: election_track_def cleanup_election_terminal_def chunk_exts case_prod_beta)

definition tracks_passive :: "'x env \<Rightarrow> bool" where
  "tracks_passive env \<longleftrightarrow> (\<forall>t \<in> set (tracks env). passive_track t)"

lemma four_tracks_passive: "tracks_passive (four_tracks db wi wj wr wl wp wm env)"
  by (simp add: tracks_passive_def four_tracks_def internal_passive.passive_track_axioms joint_passive.passive_track_axioms
      legislation_passive.passive_track_axioms election_passive.passive_track_axioms)

lemma passive_framed: "tracks_passive env \<Longrightarrow> tracks_framed env"
  by (simp add: tracks_passive_def tracks_framed_def passive_track_def ledger_track_def)

lemma tracks_executed_ext:
  "\<forall>t \<in> set ts. passive_track t \<Longrightarrow> ext (snd (tracks_on_proposal_executed ts k i s)) = ext s"
proof (induction ts arbitrary: s)
  case (Cons t ts)
  then have "ext (snd (on_proposal_executed t k i s)) = ext s" by (simp add: passive_track.executed_ext)
  with Cons show ?case by (auto split: prod.splits option.splits)
qed simp

lemma tracks_terminal_ext:
  "\<forall>t \<in> set ts. passive_track t \<Longrightarrow> ext (snd (tracks_on_proposal_terminal ts k i st s)) = ext s"
proof (induction ts arbitrary: s)
  case (Cons t ts)
  then have "ext (snd (on_proposal_terminal t k i st s)) = ext s" by (simp add: passive_track.terminal_ext)
  with Cons show ?case by (auto split: prod.splits option.splits)
qed simp

lemma tracks_chunk_ext:
  "\<forall>t \<in> set ts. passive_track t \<Longrightarrow> ext (snd (tracks_cleanup_chunk ts k i n s)) = ext s"
proof (induction ts arbitrary: s)
  case (Cons t ts)
  then have "ext (snd (cleanup_chunk t k i n s)) = ext s" by (simp add: passive_track.chunk_ext)
  with Cons show ?case by (auto split: prod.splits option.splits)
qed simp

lemma tracks_cleanup_ext:
  "\<forall>t \<in> set ts. passive_track t \<Longrightarrow> ext (snd (tracks_cleanup_terminal ts k i s)) = ext s"
proof (induction ts arbitrary: s)
  case (Cons t ts)
  then have "ext (snd (cleanup_terminal t k i s)) = ext s" by (simp add: passive_track.cleanup_ext)
  with Cons show ?case by (auto split: prod.splits option.splits)
qed simp

lemma track_executed_ok:
  assumes "tracks_passive env" "track_result (tracks_on_proposal_executed (tracks env) k i s) = (r, s')"
  shows "ext s' = ext s" "proposals s' = proposals s" "block_number s' = block_number s"
proof -
  have s': "s' = snd (tracks_on_proposal_executed (tracks env) k i s)"
    using assms(2) by (metis snd_track_result snd_conv)
  show "ext s' = ext s" unfolding s' using assms(1) tracks_executed_ext by (simp add: tracks_passive_def)
  have "same_core s s'" unfolding s'
    using tracks_executed_frame passive_framed [OF assms(1)] by (simp add: tracks_framed_def)
  then show "proposals s' = proposals s" "block_number s' = block_number s" by (simp_all add: same_core_def)
qed

section \<open>Finishing a proposal\<close>

text \<open>
  The terminal side effects run no business code unless the status is EXECUTION_FAILED; then they run the
  owner's notification on the storage as it is.
\<close>

lemma notify_or_queue_ext:
  "\<exists>t. ext t = ext s \<and> ext (notify_execution_failed_terminal_or_queue env i k s) = snd (notify_execution_failed_terminal env i k t)"
  by (rule exI [of _ "s\<lparr>callback_execution_scopes := insert i (callback_execution_scopes s)\<rparr>"])
     (auto simp: notify_execution_failed_terminal_or_queue_def with_callback_execution_scope_def Let_def queue_terminal_cleanup_def
        remove_pending_terminal_cleanup_def deposit_event_def split: prod.splits sum.splits)

definition notified :: "'x env \<Rightarrow> proposal_id \<Rightarrow> u8 \<Rightarrow> 'x \<Rightarrow> 'x \<Rightarrow> bool" where
  "notified env i k x x' \<longleftrightarrow> (\<exists>t. ext t = x \<and> x' = snd (notify_execution_failed_terminal env i k t))"

lemma finish_terminal_ext:
  assumes tp: "tracks_passive env" and p: "proposals s i = Some p"
    and ok: "finish_terminal_status env i st s = (Inr a, s')"
  shows "if st = STATUS_EXECUTION_FAILED then notified env i (p_kind p) (ext s) (ext s') else ext s' = ext s"
proof -
  from ok obtain c where c: "schedule_cleanup i (block_number s) (cleanup s) = (Inr (), c)"
    by (auto simp: finish_terminal_status_def apply_terminal_side_effects_def)
  define s1 where "s1 = upd_queues (\<lambda>q. q\<lparr>
      proposal_execution_retry_states := (proposal_execution_retry_states q)(i := None),
      pending_execution_retry_expirations := kv_remove i (pending_execution_retry_expirations q),
      pending_terminal_cleanups := kv_remove i (pending_terminal_cleanups q)\<rparr>) (s\<lparr>cleanup := c\<rparr>)"
  define s2 where "s2 = (if st = STATUS_EXECUTION_FAILED then notify_execution_failed_terminal_or_queue env i (p_kind p) s1 else s1)"
  have s1: "proposals s1 = proposals s" "ext s1 = ext s" by (simp_all add: s1_def)
  have s2: "proposals s2 = proposals s" using s1 notify_or_queue_frame [of env i "p_kind p" s1, OF refl] by (auto simp: s2_def)
  from ok obtain t where t: "apply_terminal_side_effects env i st s = (Inr (), t)" and s': "ext s' = ext t"
    by (auto simp: finish_terminal_status_def deposit_event_def)
  have "and_then (track_result (tracks_on_proposal_terminal (tracks env) (p_kind p) i st s2)) (\<lambda>_ s3.
      if should_release_internal_proposal_mutexes (p_kind p) (p_stage p) st
      then (Inr (), upd_locks (release_internal_proposal_mutexes i) s3) else (Inr (), s3)) = (Inr (), t)"
    using t c p s2 unfolding apply_terminal_side_effects_def s2_def s1_def Let_def
    by (cases "st = STATUS_EXECUTION_FAILED"; cases "is_terminal_status st") (simp_all add: zoom_def del: and_then_eq_Inr)
  then have "\<exists>s3 r. track_result (tracks_on_proposal_terminal (tracks env) (p_kind p) i st s2) = (r, s3) \<and> ext s' = ext s3"
    by (auto simp: s' split: if_splits)
  then have "ext s' = ext s2"
    using tracks_terminal_ext [of "tracks env" "p_kind p" i st s2] tp by (metis tracks_passive_def snd_track_result snd_conv)
  then show ?thesis using notify_or_queue_ext [of s1 env i "p_kind p"] s1 by (auto simp: s2_def notified_def)
qed

section \<open>One attempt\<close>

text \<open>
  The effect of an attempt whose callback answered \<open>r\<close> and left the business storage \<open>x\<close>: executed; kept for another
  attempt; or failed, with the owner notified. An attempt may also be undone (the proposal stays PASSED or is given up).
\<close>

definition attempt_done ::
  "'x env \<Rightarrow> proposal_id \<Rightarrow> proposal \<Rightarrow> (dispatch_error + proposal_execution_outcome) \<Rightarrow> 'x \<Rightarrow> 'x engine \<Rightarrow> bool" where
  "attempt_done env i p r x s' \<longleftrightarrow> (\<exists>st. proposals s' i = Some (p\<lparr>p_status := st\<rparr>) \<and>
     (r = Inr Executed \<and> st = STATUS_EXECUTED \<and> ext s' = x \<or>
      r = Inr RetryableFailed \<and> st = STATUS_PASSED \<and> ext s' = x \<or>
      r \<in> {Inr RetryableFailed, Inr FatalFailed} \<and> st = STATUS_EXECUTION_FAILED \<and> notified env i (p_kind p) x (ext s')))"

definition attempt_undone :: "proposal_id \<Rightarrow> proposal \<Rightarrow> 'x engine \<Rightarrow> 'x engine \<Rightarrow> bool" where
  "attempt_undone i p s s' \<longleftrightarrow> ext s' = ext s \<and> (\<exists>st \<in> {STATUS_PASSED, STATUS_EXECUTION_FAILED}. proposals s' i = Some (p\<lparr>p_status := st\<rparr>))"

lemma schedule_retry_frame:
  assumes "schedule_execution_retry env i s = (r, s')"
  shows "proposals s' = proposals s \<and> ext s' = ext s"
proof -
  have "proposals t = proposals s \<and> ext t = ext s" if "reschedule_loop n env i b s = (q, t)" for n b q t s
    using that by (induction n arbitrary: b s)
      (auto simp: queue_execution_retry_deadline_def ok_or_def split: prod.splits sum.splits option.splits)
  then have "proposals (reschedule_or_queue env i b d s) = proposals s \<and> ext (reschedule_or_queue env i b d s) = ext s" for b d
    by (auto simp: reschedule_or_queue_def reschedule_execution_retry_deadline_def queue_pending_retry_expiration_def deposit_event_def
        simp del: reschedule_loop.simps split: prod.splits sum.splits)
  then show ?thesis using assms by (auto simp: schedule_execution_retry_def Let_def deposit_event_def split: if_splits)
qed

lemma execute_pending_ok:
  assumes tp: "tracks_passive env" and p: "proposals s i = Some p" "p_status p = STATUS_PASSED"
    and cb: "invoke_execution_callback env i (p_kind p) True (s\<lparr>callback_execution_scopes := insert i (callback_execution_scopes s)\<rparr>) = (r, x)"
    and ok: "execute_pending env i s = (Inr a, s')"
  shows "attempt_done env i p r x s'"
proof -
  define u where "u = remove_pending_execution i (s\<lparr>ext := x, callback_execution_scopes := insert i (callback_execution_scopes s) - {i}\<rparr>)"
  have u: "proposals u = proposals s" "ext u = x" by (simp_all add: u_def remove_pending_execution_def)
  from ok p cb obtain oc t where r: "r = Inr oc"
    and t: "apply_automatic_execution_outcome env i (p_kind p) oc u = (Inr (), t)"
    and f: "ok_or (proposals t i) (VotingEngine ProposalNotFound) t (\<lambda>p'.
        if is_terminal_status (p_status p') then finish_terminal_status env i (p_status p') t else (Inr (), t)) = (Inr (), s')"
    by (auto simp: execute_pending_def with_callback_execution_scope_def Let_def u_def)
  have fin: "attempt_done env i p r x s'"
    if "proposals t i = Some (p\<lparr>p_status := st\<rparr>)" "ext t = x" "r = Inr Executed \<and> st = STATUS_EXECUTED \<or>
      r \<in> {Inr RetryableFailed, Inr FatalFailed} \<and> st = STATUS_EXECUTION_FAILED" for st
  proof -
    from that f have e: "finish_terminal_status env i st t = (Inr (), s')" by (auto simp: is_terminal_status_def)
    from finish_terminal_effects [OF passive_framed [OF tp] e] finish_terminal_ext [OF tp that(1) e] that
    show ?thesis by (auto simp: attempt_done_def)
  qed
  show ?thesis
  proof (cases oc)
    case Executed
    with t obtain v where v: "set_proposal_status i STATUS_EXECUTED u = (Inr (), v)"
      and w: "track_result (tracks_on_proposal_executed (tracks env) (p_kind p) i v) = (Inr (), t)"
      by (auto simp: apply_automatic_execution_outcome_def)
    from v track_executed_ok [OF tp w] u p Executed r show ?thesis
      by (intro fin [of STATUS_EXECUTED]) (auto simp: set_proposal_status_ok)
  next
    case RetryableFailed
    show ?thesis
    proof (cases "p_kind p = PROPOSAL_KIND_INTERNAL")
      case True
      with t RetryableFailed have "schedule_execution_retry env i u = (Inr (), t)"
        by (simp add: apply_automatic_execution_outcome_def)
      from schedule_retry_frame [OF this] f u p r RetryableFailed show ?thesis
        by (auto simp: attempt_done_def is_terminal_status_def intro!: exI [of _ STATUS_PASSED])
    next
      case False
      with t RetryableFailed u p r show ?thesis
        by (intro fin [of STATUS_EXECUTION_FAILED]) (auto simp: apply_automatic_execution_outcome_def set_proposal_status_ok)
    qed
  next
    case FatalFailed
    with t u p r show ?thesis
      by (intro fin [of STATUS_EXECUTION_FAILED]) (auto simp: apply_automatic_execution_outcome_def set_proposal_status_ok)
  qed (use t in \<open>simp add: apply_automatic_execution_outcome_def\<close>)
qed

lemma attempt_effect:
  assumes "tracks_passive env" "proposals s i = Some p" "p_status p = STATUS_PASSED" "attempts st < 255"
    and "invoke_execution_callback env i (p_kind p) True (s\<lparr>callback_execution_scopes := insert i (callback_execution_scopes s)\<rparr>) = (r, x)"
  shows "attempt_done env i p r x (process_execution env now (i, st) s) \<or> attempt_undone i p s (process_execution env now (i, st) s)"
proof (cases "execute_pending env i s")
  case (Pair q s')
  show ?thesis
  proof (cases q)
    case (Inr a)
    with Pair execute_pending_ok [OF assms(1-3,5)] show ?thesis by (simp add: process_execution_def with_transaction_def)
  next
    case (Inl e)
    have h: "process_execution env now (i, st) s = handle_automatic_execution_failure env i st now s"
      using Inl Pair by (simp add: process_execution_def with_transaction_def)
    have k: "p\<lparr>p_status := STATUS_PASSED\<rparr> = p" using assms(3) by simp
    show ?thesis
      using failure_step [OF assms(2,3,4), of env now] assms(2) k unfolding h
      by (cases "Suc (attempts st) < MaxManualExecutionAttempts (cfg env)") (auto simp: attempt_undone_def Let_def)
  qed
qed

lemma retry_effect:
  assumes tp: "tracks_passive env" and p: "proposals s i = Some p"
    and cb: "invoke_execution_callback env i (p_kind p) True (s\<lparr>callback_execution_scopes := insert i (callback_execution_scopes s)\<rparr>) = (r, x)"
    and ok: "retry_passed_proposal_inner env who i s = (Inr a, s')"
  shows "attempt_done env i p r x s'"
proof -
  define u where "u = s\<lparr>ext := x, callback_execution_scopes := insert i (callback_execution_scopes s) - {i}\<rparr>"
  have u: "proposals u = proposals s" "ext u = x" by (simp_all add: u_def)
  from ok p cb obtain st oc where r: "r = Inr oc" and pass: "p_status p = STATUS_PASSED"
    and o: "retry_outcome env i (p_kind p) st (block_number s) oc u = (Inr (), s')"
    by (auto simp: retry_passed_proposal_inner_def pure_result_def Let_def with_callback_execution_scope_def u_def)
  have fin: "attempt_done env i p r x s'"
    if "proposals t i = Some (p\<lparr>p_status := st\<rparr>)" "ext t = x" "finish_terminal_status env i st (deposit_event e t) = (Inr b, s')"
      "r = Inr Executed \<and> st = STATUS_EXECUTED \<or> r \<in> {Inr RetryableFailed, Inr FatalFailed} \<and> st = STATUS_EXECUTION_FAILED" for st t e b
  proof -
    from that have q: "proposals (deposit_event e t) i = Some (p\<lparr>p_status := st\<rparr>)" "ext (deposit_event e t) = x"
      by (simp_all add: deposit_event_def)
    from finish_terminal_effects [OF passive_framed [OF tp] that(3)] finish_terminal_ext [OF tp q(1) that(3)] that(4) q
    show ?thesis by (auto simp: attempt_done_def)
  qed
  have failed: "attempt_done env i p r x s'"
    if "and_then (set_proposal_status i STATUS_EXECUTION_FAILED u) (\<lambda>_ s. finish_terminal_status env i STATUS_EXECUTION_FAILED (deposit_event e s)) = (Inr b, s')"
      "oc \<in> {RetryableFailed, FatalFailed}" for e b
  proof -
    from that(1) obtain t where t: "set_proposal_status i STATUS_EXECUTION_FAILED u = (Inr (), t)"
      "finish_terminal_status env i STATUS_EXECUTION_FAILED (deposit_event e t) = (Inr b, s')" by auto
    from t(1) u p have "proposals t i = Some (p\<lparr>p_status := STATUS_EXECUTION_FAILED\<rparr>)" "ext t = x" by (auto simp: set_proposal_status_ok)
    from fin [OF this t(2)] that(2) r show ?thesis by auto
  qed
  show ?thesis
  proof (cases oc)
    case Executed
    with o obtain v t e where v: "set_proposal_status i STATUS_EXECUTED u = (Inr (), v)"
      and w: "track_result (tracks_on_proposal_executed (tracks env) (p_kind p) i v) = (Inr (), t)"
      and e: "finish_terminal_status env i STATUS_EXECUTED (deposit_event e t) = (Inr (), s')"
      by (auto simp: retry_outcome_def)
    have "proposals t i = Some (p\<lparr>p_status := STATUS_EXECUTED\<rparr>)" "ext t = x"
      using v track_executed_ok [OF tp w] u p by (auto simp: set_proposal_status_ok)
    from fin [OF this e] r Executed show ?thesis by simp
  next
    case RetryableFailed
    show ?thesis
    proof (cases "MaxManualExecutionAttempts (cfg env) \<le> sat_add 8 (manual_attempts st) 1")
      case True
      with o RetryableFailed failed show ?thesis by (simp add: retry_outcome_def Let_def)
    next
      case False
      with o RetryableFailed u p r pass show ?thesis
        by (auto simp: retry_outcome_def Let_def deposit_event_def attempt_done_def intro!: exI [of _ STATUS_PASSED])
    qed
  next
    case FatalFailed
    with o failed show ?thesis by (simp add: retry_outcome_def)
  qed (use o in \<open>simp add: retry_outcome_def\<close>)
qed

section \<open>Attempts\<close>

text \<open>One attempt, automatic or manual.\<close>

inductive attempted :: "'x env \<Rightarrow> proposal_id \<Rightarrow> 'x engine \<Rightarrow> 'x engine \<Rightarrow> bool" for env i s where
  automatic: "attempts st < 255 \<Longrightarrow> attempted env i s (process_execution env now (i, st) s)"
| manual: "retry_passed_proposal_inner env who i s = (Inr a, s') \<Longrightarrow> attempted env i s s'"

abbreviation in_scope :: "proposal_id \<Rightarrow> 'x engine \<Rightarrow> 'x engine" where
  "in_scope i s \<equiv> s\<lparr>callback_execution_scopes := insert i (callback_execution_scopes s)\<rparr>"

lemma attempted_result:
  assumes "tracks_passive env" "proposals s i = Some p" "p_status p = STATUS_PASSED" "attempted env i s s'"
    and "callback_of env (p_kind p) = Some cb" "on_vote_finalized cb i True (in_scope i s) = (r, x)"
  shows "attempt_done env i p r x s' \<or> attempt_undone i p s s'"
proof -
  have "invoke_execution_callback env i (p_kind p) True (in_scope i s) = (r, x)"
    using assms(5,6) by (simp add: invoke_execution_callback_def)
  with assms(4) attempt_effect [OF assms(1-3)] retry_effect [OF assms(1,2)] show ?thesis
    by (auto elim!: attempted.cases)
qed

end
