(* ===== verification/Sample_Town.thy ===== *)
theory Sample_Town
  imports Multisig Resolution_Destroy Runtime_Upgrade Execution_Effects
begin

text \<open>
  A small concrete runtime on which the theorems about money are evaluated: the framework's currency as a map of
  balances, a personal account 6 with a thousand thousand units, the accounts of the fee shares, and modules that decode
  every proposal to one order.
\<close>

definition plain_slash :: "account \<Rightarrow> u128 \<Rightarrow> (account \<Rightarrow> u128) \<Rightarrow> u128 \<times> (account \<Rightarrow> u128)" where
  "plain_slash a n b = (if n \<le> plain_balance a b then (0, put a (plain_balance a b - n) b) else (n, b))"

definition town_transfer :: transfer_action where
  "town_transfer = \<lparr>ta_actor_cid_number = None, ta_funding_account_id = 6, ta_beneficiary_account_id = 3, ta_amount = 50000,
     ta_remark = [], ta_proposer_account_id = 1\<rparr>"

definition town_destroy :: destroy_action where
  "town_destroy = \<lparr>da_actor_cid_number = ''X'', da_institution_account_id = 6, da_amount = 50000\<rparr>"

definition town_issuance :: issuance_proposal_data where
  "town_issuance = \<lparr>ip_actor_cid_number = ''X'', ip_proposer_role_code = ''a'', ip_proposer_account_id = 1, ip_reason = ''r'',
     ip_total_amount = 5000, ip_allocations = [\<lparr>recipient_account_id = 4, ra_amount = 2000\<rparr>, \<lparr>recipient_account_id = 5, ra_amount = 3000\<rparr>]\<rparr>"

definition town_upgrade :: upgrade_proposal where
  "town_upgrade = \<lparr>up_actor_cid_number = ''X'', up_actor_role_code = ''a'', up_proposer_account_id = 1, up_reason = ''r'',
     up_code_hash = ''new'', up_expected_pow_params_hash = [], up_new_pow_params = pow_genesis_default\<rparr>"

definition town_be :: "(account \<Rightarrow> u128, unit) business_env" where
  "town_be = \<lparr>b_fees = sample_fee_env, minimum_balance = 111, slash = plain_slash,
     lookup_org = (\<lambda>_ _. Some NRC), lookup_cid = (\<lambda>_ _. Some ''X''), lookup_institution_account = (\<lambda>_ _ _. Some 2),
     institution_account_exists = (\<lambda>_ _. True), personal_is_active = (\<lambda>_ _. True), is_authorized = (\<lambda>_ _ _ _ _. True),
     role_subjects_with_permission = (\<lambda>_ _ _ _. []),
     account_classes_of = (\<lambda>_. \<lparr>is_stake_account = (\<lambda>_. False), is_reserved_fee_account = (\<lambda>_. False), is_cb_fee_account = (\<lambda>_. False),
       is_citizenchain_fee_account = (\<lambda>_. False), SAFETY_FUND_ACCOUNT = 10, is_reserved_main_account = (\<lambda>_. False),
       is_clearing_account = (\<lambda>_. False), is_federal_citizen_security_fund_account = (\<lambda>_. False)\<rparr>),
     is_protected = (\<lambda>_ _. False),
     encode_transfer = (\<lambda>_. []), decode_transfer = (\<lambda>_. Some town_transfer),
     encode_destroy = (\<lambda>_. []), decode_destroy = (\<lambda>_. Some town_destroy),
     encode_issuance = (\<lambda>_. []), decode_issuance = (\<lambda>_. Some (town_issuance, [])),
     hash_allocations = (\<lambda>_. []), encode_upgrade = (\<lambda>_. []), decode_upgrade = (\<lambda>_. Some town_upgrade),
     hash_pow_params = (\<lambda>_. []), set_code = (\<lambda>new _. (True, new)), joint_proposer = (\<lambda>w _. w), nrc_admin = (\<lambda>w _. w),
     developer_upgrade_enabled = (\<lambda>_. False), MaxUpgradeReasonLen = 1024, MaxRuntimeCodeSize = 100, MaxReasonLen = 128, MaxAllocations = 43,
     MaxTotalIssuance = max_of 128, MaxSingleIssuance = 14434973780000\<rparr>"

definition town_base :: "(account \<Rightarrow> u128, unit) business env" where
  "town_base = \<lparr>cfg = test_config, internal_callback = default_callback, joint_callback = default_callback,
     legislation_callback = default_callback, election_callback = default_callback, tracks = [],
     unix_now_ms = (\<lambda>_. 0), population_data_of = (\<lambda>_ _. None), voting_subject_at = (\<lambda>_ _ _. None), candidate_subject_of = (\<lambda>_ _ _. None),
     resolve_institution_voter = (\<lambda>_ who _. Some who), get_personal_admins = (\<lambda>_ _. Some [1, 2, 3]),
     get_pending_personal_admins = (\<lambda>_ _. Some [1, 2, 3]), is_personal_admin = (\<lambda>_ who _. who \<in> {1, 2, 3}),
     institution_threshold = (\<lambda>_ _ _. Some 3), active_accounts_for_role = (\<lambda>_ _ _. [1, 2, 3]), is_active_assignment = (\<lambda>_ _ _ _. True),
     hash256 = (\<lambda>d. d), iter_order = (\<lambda>ks. ks), clearing = clear_in_order\<rparr>"

definition town_env :: "(account \<Rightarrow> u128, unit) business env" where
  "town_env = four_tracks (\<lambda>_ _. weight_zero) weight_zero weight_zero weight_zero
     \<lparr>w_cast_representative_vote = weight_zero, w_cast_referendum_vote = weight_zero, w_executive_sign = weight_zero,
       w_override_sign = weight_zero, w_guard_vote = weight_zero\<rparr> (\<lambda>_. weight_zero) (\<lambda>_. weight_zero)
     (town_base\<lparr>internal_callback := tuple_callback [multisig_callback town_be town_base, destroy_callback town_be town_base],
        joint_callback := runtime_joint_callback town_be town_base\<rparr>)"

definition town_pow :: pow_storage where
  "town_pow = \<lparr>CurrentDifficulty = 100, WindowStartMs = None, WindowStartBlock = None, ActiveParams = pow_genesis_default,
     PendingParams = None, LastAdjustment = None, pow_events = []\<rparr>"

definition town_business :: "(account \<Rightarrow> u128, unit) business" where
  "town_business = \<lparr>funds = \<lparr>balances = (\<lambda>_. 1000000), fee_events = []\<rparr>, registries = (),
     SafetyFundProposalActions = Map.empty, SweepProposalActions = Map.empty, AllowedRecipients = [4, 5], VotingProposalCount = 1,
     ExecutedAt = Map.empty, EverExecuted = {}, TotalIssued = 0, pow = town_pow, runtime_code = ''old'', LastRuntimeUpgradeAudit = None,
     business_events = []\<rparr>"

definition town_state :: "string \<Rightarrow> proposal \<Rightarrow> (account \<Rightarrow> u128, unit) business engine" where
  "town_state tag p = (engine_genesis town_business)\<lparr>proposals := [0 \<mapsto> p],
     ids := id_storage_genesis\<lparr>next_proposal_id := 1, proposal_display_id := [0 \<mapsto> \<lparr>display_year = 2026, seq_in_year = 0\<rparr>]\<rparr>,
     records := (records (engine_genesis town_business))\<lparr>proposal_data := [0 \<mapsto> tag @ ''data''], proposal_owner := [0 \<mapsto> tag],
       proposal_object := [0 \<mapsto> ''new''], proposal_object_meta := [0 \<mapsto> \<lparr>object_kind = 1, object_len = 3, object_hash = ''new''\<rparr>]\<rparr>\<rparr>"

definition town_vote :: proposal where
  "town_vote = \<lparr>p_kind = PROPOSAL_KIND_INTERNAL, p_stage = STAGE_INTERNAL, p_status = STATUS_PASSED, p_internal_code = Some PMUL,
     p_actor_cid_number = None, p_execution_account_id = Some 6, p_subject_cid_numbers = [], p_start = 0, p_end = 7200\<rparr>"

definition town_resolution :: proposal where
  "town_resolution = town_vote\<lparr>p_internal_code := Some NRC, p_actor_cid_number := Some ''X''\<rparr>"

lemmas town_defs = town_be_def town_base_def town_env_def four_tracks_def town_state_def engine_genesis_def town_business_def
  test_config_def runtime_config_def id_storage_genesis_def cleanup_storage_genesis_def lock_storage_genesis_def

lemma town_lawful: "lawful_currency (bcur town_be)" "lawful_ration (b_fees town_be)"
  by (simp_all add: town_be_def sample_fee_env_def plain_lawful lawful_ration_def)

lemma town_tracks: "tracks_passive town_env"
  unfolding town_env_def by (rule four_tracks_passive)

lemma town_fee: "calculate_onchain_fee 50000 = 50"
  by (simp add: onchain_fee_exact)

text \<open>An internal track that has no role recorded for a proposal does nothing when it is executed.\<close>

lemma internal_track_idle:
  assumes "internal_proposal_roles (internal s) i = None"
  shows "on_proposal_executed (internal_track cp db w) PROPOSAL_KIND_INTERNAL i s = (Some (Inr ()), s)"
    and "on_proposal_terminal (internal_track cp db w) PROPOSAL_KIND_INTERNAL i st s = (Some (Inr ()), s)"
  using assms by (simp_all add: internal_track_def internal_handles_def apply_executed_threshold_side_effect_def apply_terminal_threshold_cleanup_def)

lemma town_receivers: "fee_receivers_in (b_fees town_be) {2, 3, 6, 8, 9, 10}"
  by (simp add: fee_receivers_in_def town_be_def sample_fee_env_def)

lemma town_balance: "balance_of town_be a town_business = 1000000"
  by (simp add: town_be_def sample_fee_env_def plain_currency_def plain_balance_def town_business_def)

lemma town_charge:
  assumes "payer \<in> {2, 3, 6, 8, 9, 10}"
  obtains m where "charge (b_fees town_be) payer 50000 (funds town_business) = (Inr 50, m)"
    "999950 \<le> plain_balance 6 (balances m)" "plain_balance 3 (balances m) \<le> 6000000"
proof -
  have "1000000 = plain_balance payer (balances (funds town_business))"
    by (simp add: plain_balance_def town_business_def)
  then have "fst (withdraw_keep_alive plain_currency payer 50 (balances (funds town_business)))"
    by (simp add: plain_currency_def)
  then have "fst (charge (b_fees town_be) payer 50000 (funds town_business)) = Inr 50"
    by (auto simp: charge_def town_fee Let_def town_be_def sample_fee_env_def split: prod.split bool.split)
  then obtain m where m: "charge (b_fees town_be) payer 50000 (funds town_business) = (Inr 50, m)"
    by (metis prod.collapse)
  have c: "bcur town_be = plain_currency" "free_balance plain_currency = plain_balance"
    by (simp_all add: town_be_def sample_fee_env_def plain_currency_def)
  have "999950 \<le> plain_balance 6 (balances m)"
    using charge_others [OF town_lawful(1) m, of 6] town_balance [of 6] by (simp add: c split: if_splits)
  moreover have "held_by (b_fees town_be) {2, 3, 6, 8, 9, 10} m = held_by (b_fees town_be) {2, 3, 6, 8, 9, 10} (funds town_business)"
    by (rule held_charge(3) [OF town_lawful town_receivers assms _ m]) simp_all
  then have "plain_balance 3 (balances m) \<le> 6000000"
    by (simp add: held_by_def c town_balance [unfolded c] burnt_in_def) (simp add: town_business_def)
  ultimately show thesis using that m by blast
qed

lemma town_pays: "fst (pay_with_fee town_be 6 6 3 50000 e1 e2 town_business) = Inr ()"
proof -
  obtain m where m: "charge (b_fees town_be) 6 50000 (funds town_business) = (Inr 50, m)"
    "999950 \<le> plain_balance 6 (balances m)" "plain_balance 3 (balances m) \<le> 6000000" using town_charge [of 6] by auto
  have "fst (transfer_keep_alive plain_currency 6 3 50000 (balances m))" using m(2,3) by (simp add: plain_currency_def)
  then have "fst (transfer_keep_alive (bcur town_be) 6 3 50000 (balances m))" by (simp add: town_be_def sample_fee_env_def)
  with m(1) show ?thesis
    by (auto simp: pay_with_fee_def with_transaction_def charge_fee_def map_err_def transfer_funds_def split: prod.splits)
qed

lemma town_tracks_idle:
  assumes "internal_proposal_roles (internal s) i = None" "k = PROPOSAL_KIND_INTERNAL \<or> k = PROPOSAL_KIND_JOINT"
  shows "tracks_on_proposal_executed (tracks town_env) k i s = (Some (Inr ()), s)"
    and "tracks_on_proposal_terminal (tracks town_env) k i st s = (Some (Inr ()), s)"
  using assms by (auto simp: town_env_def four_tracks_def internal_track_idle joint_track_def joint_handles_def internal_track_def internal_handles_def kind_defs
      apply_executed_threshold_side_effect_def apply_terminal_threshold_cleanup_def)

text \<open>Once its callback has answered, a proposal of the town is settled.\<close>

lemma town_settles:
  assumes p: "p_kind p = PROPOSAL_KIND_INTERNAL \<or> p_kind p = PROPOSAL_KIND_JOINT" "p_status p = STATUS_PASSED"
    and cb: "callback_of town_env (p_kind p) = Some c"
      "on_vote_finalized c 0 True ((town_state tag p)\<lparr>callback_execution_scopes := {0}\<rparr>) = (Inr Executed, x)"
  shows "proposals (process_execution town_env now (0, st) (town_state tag p)) 0 = Some (p\<lparr>p_status := STATUS_EXECUTED\<rparr>)"
proof -
  let ?s = "town_state tag p"
  have s: "proposals ?s 0 = Some p" "callback_execution_scopes ?s = {}" by (simp_all add: town_state_def engine_genesis_def)
  have i: "invoke_execution_callback town_env 0 (p_kind p) True (?s\<lparr>callback_execution_scopes := insert 0 (callback_execution_scopes ?s)\<rparr>) = (Inr Executed, x)"
    using p cb s by (simp add: invoke_execution_callback_def)
  have w: "with_callback_execution_scope 0 (invoke_execution_callback town_env 0 (p_kind p) True) ?s = (Inr Executed, ?s\<lparr>ext := x\<rparr>)"
    using i s by (simp add: with_callback_execution_scope_def Let_def town_state_def engine_genesis_def)
  have "fst (execute_pending town_env 0 ?s) = Inr ()"
    unfolding execute_pending_def s(1) ok_or_simps w and_then_simps using p(1)
    by (simp add: p(2) apply_automatic_execution_outcome_def set_proposal_status_def remove_pending_execution_def
        ensure_valid_status_transition_def valid_status_transition_def town_tracks_idle town_state_def engine_genesis_def track_result_def
        finish_terminal_status_def apply_terminal_side_effects_def is_terminal_status_def schedule_cleanup_def q_push_def
        cleanup_storage_genesis_def q_empty_def checked_add_def Let_def)
  then obtain s' where e: "execute_pending town_env 0 ?s = (Inr (), s')" by (metis prod.collapse)
  from execute_pending_ok [OF town_tracks s(1) p(2) i e] have "proposals s' 0 = Some (p\<lparr>p_status := STATUS_EXECUTED\<rparr>)"
    by (auto simp: attempt_done_def)
  with e show ?thesis by (simp add: process_execution_def with_transaction_def)
qed
end
