(* ===== verification/Payments.thy ===== *)
theory Payments
  imports Sample_Town
begin

text \<open>
  What the votes on money do: an attempt of the engine to execute a payment or a destruction either makes exactly the
  movement the vote decided, with its fee, and settles the proposal as executed, or moves nothing.
\<close>

section \<open>Payments\<close>

text \<open>The movement of a payment: the fee first, then the amount from the source to the destination.\<close>

definition paid ::
  "('b, 'r) business_env \<Rightarrow> account \<Rightarrow> account \<Rightarrow> account \<Rightarrow> u128 \<Rightarrow> ('b, 'r) business \<Rightarrow> ('b, 'r) business \<Rightarrow> bool" where
  "paid be payer source dest amount x x' \<longleftrightarrow>
     (\<exists>m. charge (b_fees be) payer amount (funds x) = (Inr (calculate_onchain_fee amount), m) \<and>
        fee_events (funds x') = fee_events m \<and> (source \<noteq> dest \<longrightarrow> amount \<le> free_balance (bcur be) source (balances m)) \<and>
        (\<forall>a. balance_of be a x' =
          (if source = dest then free_balance (bcur be) a (balances m)
           else if a = source then free_balance (bcur be) a (balances m) - amount
           else if a = dest then free_balance (bcur be) a (balances m) + amount
           else free_balance (bcur be) a (balances m))))"

lemma charge_fee_ok: "charge_fee be payer amount x = (Inr fee, x') \<longleftrightarrow>
    (\<exists>m. charge (b_fees be) payer amount (funds x) = (Inr fee, m) \<and> x' = x\<lparr>funds := m\<rparr>)"
  by (auto simp: charge_fee_def split: prod.splits)

lemma transfer_funds_ok: "transfer_funds be a d n x = (Inr u, x') \<longleftrightarrow>
    (\<exists>b. transfer_keep_alive (bcur be) a d n (balances (funds x)) = (True, b) \<and> x' = x\<lparr>funds := (funds x)\<lparr>balances := b\<rparr>\<rparr>)"
  by (cases "transfer_keep_alive (bcur be) a d n (balances (funds x))") (auto simp: transfer_funds_def)

lemma charge_amount: "charge fe payer amount m = (Inr fee, m') \<Longrightarrow> fee = calculate_onchain_fee amount"
  by (auto simp: charge_def Let_def split: prod.splits bool.splits)

lemma pay_with_fee_ok:
  assumes "lawful_currency (bcur be)" "pay_with_fee be payer source dest amount e1 e2 x = (Inr u, x')"
  shows "paid be payer source dest amount x x'"
proof -
  from assms(2) obtain fee m b where c: "charge (b_fees be) payer amount (funds x) = (Inr fee, m)"
    and t: "transfer_keep_alive (bcur be) source dest amount (balances m) = (True, b)" and x': "x' = x\<lparr>funds := m\<lparr>balances := b\<rparr>\<rparr>"
    by (auto simp: pay_with_fee_def charge_fee_ok transfer_funds_ok)
  have "moves_over (bcur be) source dest amount (balances m) (transfer_keep_alive (bcur be) source dest amount (balances m))"
    using assms(1) by (simp add: lawful_currency_def)
  with c charge_amount [OF c] x' t show ?thesis
    unfolding paid_def by (intro exI [of _ m]) (auto simp: moves_over_def)
qed

lemma paid_announce [simp]: "paid be payer source dest amount x (announce e x') = paid be payer source dest amount x x'"
  by (simp add: paid_def announce_def)

lemma paid_conserves:
  assumes "lawful_currency (bcur be)" "lawful_ration (b_fees be)" "fee_receivers_in (b_fees be) A" "{payer, source, dest} \<subseteq> A"
    and "amount < 2 ^ 120" "paid be payer source dest amount x x'"
  shows "held_by (b_fees be) A (funds x') = held_by (b_fees be) A (funds x)"
proof -
  let ?f = "\<lambda>b a. free_balance (bcur be) a (balances b)"
  from assms(6) obtain m where c: "charge (b_fees be) payer amount (funds x) = (Inr (calculate_onchain_fee amount), m)"
    and ev: "fee_events (funds x') = fee_events m"
    and am: "source \<noteq> dest \<longrightarrow> amount \<le> ?f m source"
    and f: "\<And>a. ?f (funds x') a = (if source = dest then ?f m a else if a = source then ?f m a - amount
        else if a = dest then ?f m a + amount else ?f m a)"
    unfolding paid_def by blast
  have A: "finite A" "source \<in> A" "dest \<in> A" "payer \<in> A" using assms(3,4) by (simp_all add: fee_receivers_in_def)
  have "(\<Sum>a \<in> A. ?f (funds x') a) = (\<Sum>a \<in> A. ?f m a)"
  proof (cases "source = dest")
    case False
    let ?g = "\<lambda>a. if a = dest then ?f m a + amount else ?f m a"
    have "(\<Sum>a \<in> A. ?g a) = (\<Sum>a \<in> A. ?f m a) + amount" by (rule sum_bump [OF A(1) A(3)]) simp
    moreover have "(\<Sum>a \<in> A. ?g a) = (\<Sum>a \<in> A. ?f (funds x') a) + amount"
      using False am by (intro sum_bump [OF A(1) A(2)]) (auto simp: f)
    ultimately show ?thesis by simp
  qed (simp add: f)
  then have "held_by (b_fees be) A (funds x') = held_by (b_fees be) A m" by (simp add: held_by_def ev)
  then show ?thesis using held_charge(3) [OF assms(1,2,3) A(4) assms(5) c] by simp
qed

section \<open>What a proposal orders\<close>

definition multisig_order :: "('b, 'r) business_env \<Rightarrow> proposal_id \<Rightarrow> ('b, 'r) business engine \<Rightarrow> (account \<times> account \<times> u128) option" where
  "multisig_order be i s =
     (if is_transfer_proposal i s then
        (case get_proposal_data i s of
           None \<Rightarrow> None
         | Some raw \<Rightarrow> map_option (\<lambda>a. (ta_funding_account_id a, ta_beneficiary_account_id a, ta_amount a)) (decode_transfer be (drop (length MULTISIG_TAG) raw)))
      else case SafetyFundProposalActions (ext s) i of
        Some a \<Rightarrow> Some (sf_institution_account_id a, sf_beneficiary_account_id a, sf_amount a)
      | None \<Rightarrow>
          (case SweepProposalActions (ext s) i of
             None \<Rightarrow> None
           | Some a \<Rightarrow> map_option (\<lambda>main. (sw_institution_account_id a, main, sw_amount a))
               (lookup_institution_account be (sw_actor_cid_number a) ACCOUNT_NAME_MAIN (registries (ext s)))))"

lemma multisig_fails_clean: "fails_clean (ext s) (execute_multisig be env i s)"
proof -
  have pay: "fails_clean x (pay_with_fee be payer source dest amount e1 e2 x)" for x payer source dest amount e1 e2
    unfolding pay_with_fee_def by (rule clean_transaction)
  show ?thesis
    unfolding execute_multisig_def try_execute_transfer_from_callback_def try_execute_safety_fund_from_callback_def
      try_execute_sweep_from_callback_def Let_def
    by (intro clean_intros pay; simp split: prod.split) (intro clean_intros pay allI impI)+
qed

lemma ensured_account:
  "ensure_internal_business_proposal env i code actor a cids s = Inr u \<Longrightarrow> proposals s i = Some p \<Longrightarrow> p_execution_account_id p = Some a"
  by (auto simp: ensure_internal_business_proposal_def split: if_splits)

definition order_paid ::
  "('b, 'r) business_env \<Rightarrow> proposal_id \<Rightarrow> proposal \<Rightarrow> ('b, 'r) business engine \<Rightarrow> ('b, 'r) business \<Rightarrow> bool" where
  "order_paid be i p s x \<longleftrightarrow> (\<exists>payer source dest amount. multisig_order be i s = Some (source, dest, amount) \<and>
     p_execution_account_id p = Some source \<and> paid be payer source dest amount (ext s) x)"

lemma transfer_ok:
  assumes l: "lawful_currency (bcur be)" and p: "proposals s i = Some p" and t: "is_transfer_proposal i s"
    and ok: "try_execute_transfer_from_callback be env i s = (Inr u, x)"
  shows "order_paid be i p s x"
proof -
  from ok obtain raw a code cids payer y where "get_proposal_data i s = Some raw"
    "decode_transfer be (drop (length MULTISIG_TAG) raw) = Some a"
    "ensure_internal_business_proposal env i code (ta_actor_cid_number a) (ta_funding_account_id a) cids s = Inr ()"
    "pay_with_fee be payer (ta_funding_account_id a) (ta_beneficiary_account_id a) (ta_amount a)
       (MultisigError InsufficientFeeBalance) CurrencyError (ext s) = (Inr (), y)"
    "x = announce (TransferExecuted i (ta_funding_account_id a) payer (ta_beneficiary_account_id a) (ta_amount a) (calculate_onchain_fee (ta_amount a))) y"
    by (auto simp: try_execute_transfer_from_callback_def Let_def)
  with t pay_with_fee_ok [OF l] ensured_account [OF _ p] show ?thesis
    unfolding order_paid_def by (simp add: multisig_order_def) blast
qed

lemma safety_fund_ok:
  assumes l: "lawful_currency (bcur be)" and p: "proposals s i = Some p" and t: "\<not> is_transfer_proposal i s"
    and ok: "try_execute_safety_fund_from_callback be env i s = (Inr u, x)"
  shows "order_paid be i p s x"
proof -
  from ok obtain a payer y where a: "SafetyFundProposalActions (ext s) i = Some a"
    and e: "ensure_internal_business_proposal env i NRC (Some (sf_actor_cid_number a)) (sf_institution_account_id a) [sf_actor_cid_number a] s = Inr ()"
    and src: "sf_institution_account_id a = SAFETY_FUND_ACCOUNT (account_classes_of be (registries (ext s)))"
    and y: "pay_with_fee be payer (SAFETY_FUND_ACCOUNT (account_classes_of be (registries (ext s)))) (sf_beneficiary_account_id a) (sf_amount a)
       (MultisigError InsufficientFeeBalance) (MultisigError SafetyFundInsufficientBalance) (ext s) = (Inr (), y)"
    and x: "x = announce (SafetyFundTransferExecuted i payer (sf_beneficiary_account_id a) (sf_amount a) (calculate_onchain_fee (sf_amount a))) y"
    by (auto simp: try_execute_safety_fund_from_callback_def Let_def split: sum.splits)
  from pay_with_fee_ok [OF l y] have "paid be payer (sf_institution_account_id a) (sf_beneficiary_account_id a) (sf_amount a) (ext s) x"
    by (simp add: x src)
  with t a ensured_account [OF e p] show ?thesis unfolding order_paid_def by (auto simp: multisig_order_def)
qed

lemma sweep_ok:
  assumes l: "lawful_currency (bcur be)" and p: "proposals s i = Some p" and t: "\<not> is_transfer_proposal i s"
    and n: "SafetyFundProposalActions (ext s) i = None" and ok: "try_execute_sweep_from_callback be env i s = (Inr u, x)"
  shows "order_paid be i p s x"
proof -
  from ok obtain a code main y e where a: "SweepProposalActions (ext s) i = Some a"
    and en: "ensure_internal_business_proposal env i code (Some (sw_actor_cid_number a)) (sw_institution_account_id a) [sw_actor_cid_number a] s = Inr ()"
    and m: "resolve_main_account be (sw_actor_cid_number a) (registries (ext s)) = Inr main"
    and y: "pay_with_fee be (sw_institution_account_id a) (sw_institution_account_id a) main (sw_amount a)
       (MultisigError InsufficientFeeReserve) CurrencyError (ext s) = (Inr (), y)"
    and x: "x = announce e y"
    by (auto simp: try_execute_sweep_from_callback_def Let_def split: sum.splits)
  from m have "lookup_institution_account be (sw_actor_cid_number a) ACCOUNT_NAME_MAIN (registries (ext s)) = Some main"
    by (auto simp: resolve_main_account_def split: option.splits)
  with t n a ensured_account [OF en p] pay_with_fee_ok [OF l y] show ?thesis
    unfolding order_paid_def by (auto simp: multisig_order_def x)
qed

lemma multisig_ok:
  assumes "lawful_currency (bcur be)" "proposals s i = Some p" "execute_multisig be env i s = (Inr u, x)"
  shows "order_paid be i p s x"
  using assms transfer_ok [OF assms(1,2)] safety_fund_ok [OF assms(1,2)] sweep_ok [OF assms(1,2)]
  by (auto simp: execute_multisig_def split: if_splits)

section \<open>Attempts of the engine\<close>

text \<open>A module whose notification of a failed proposal moves no money.\<close>

definition keeps_money :: "('b, 'r) business vote_callback \<Rightarrow> bool" where
  "keeps_money c \<longleftrightarrow> (\<forall>i s. funds (snd (on_execution_failed_terminal c i s)) = funds (ext s))"

lemma tuple_keeps_money:
  "\<forall>c \<in> set cs. keeps_money c \<Longrightarrow> funds (snd (tuple_on_execution_failed cs i s)) = funds (ext s)"
proof (induction cs arbitrary: s)
  case (Cons c cs)
  then have "funds (snd (on_execution_failed_terminal c i s)) = funds (ext s)" by (simp add: keeps_money_def)
  with Cons show ?case by (auto split: prod.splits sum.splits)
qed simp

lemma multisig_keeps_money: "keeps_money (multisig_callback be env)"
  by (simp add: keeps_money_def multisig_callback_def forget_actions_def)

lemma destroy_keeps_money: "keeps_money (destroy_callback be env)"
  by (simp add: keeps_money_def destroy_callback_def default_callback_def)

lemma notified_money:
  assumes "callback_of env k = Some (tuple_callback cs)" "\<forall>c \<in> set cs. keeps_money c" "notified env i k x x'"
  shows "funds x' = funds x"
  using assms tuple_keeps_money [OF assms(2)]
  by (auto simp: notified_def notify_execution_failed_terminal_def tuple_callback_def)

text \<open>
  The pattern of an internal proposal with one owner among the runtime's modules: executed, with the movement \<open>P\<close> the
  owner made, or no money moved.
\<close>

lemma owned_attempt:
  assumes "tracks_passive env" "proposals s i = Some p" "p_status p = STATUS_PASSED" "p_kind p = PROPOSAL_KIND_INTERNAL"
    and cb: "internal_callback env = tuple_callback (before @ c # after)"
    and "\<forall>d \<in> set before. ignores d i True (in_scope i s)"
    and "\<forall>d \<in> set after. \<forall>x. ignores d i True ((in_scope i s)\<lparr>ext := x\<rparr>)"
    and money: "\<forall>d \<in> set (before @ c # after). keeps_money d"
    and P: "\<And>x. on_vote_finalized c i True (in_scope i s) = (Inr Executed, x) \<Longrightarrow> P x"
    and N: "\<And>r x. on_vote_finalized c i True (in_scope i s) = (Inr r, x) \<Longrightarrow> r \<noteq> Executed \<Longrightarrow> funds x = funds (ext s)"
    and "attempted env i s s'"
  shows "\<exists>st. proposals s' i = Some (p\<lparr>p_status := st\<rparr>) \<and>
    (if st = STATUS_EXECUTED then P (ext s') else st \<in> {STATUS_PASSED, STATUS_EXECUTION_FAILED} \<and> funds (ext s') = funds (ext s))"
proof -
  have k: "callback_of env (p_kind p) = Some (tuple_callback (before @ c # after))"
    using assms(4) cb by (simp add: callback_of_def)
  obtain r x where rx: "on_vote_finalized c i True (in_scope i s) = (r, x)" by fastforce
  then have "on_vote_finalized (tuple_callback (before @ c # after)) i True (in_scope i s) = (r, x)"
    using tuple_one_owner [OF assms(6,7)] by simp
  from attempted_result [OF assms(1-3) assms(11) k this] obtain st where st: "proposals s' i = Some (p\<lparr>p_status := st\<rparr>)"
    and e: "r = Inr Executed \<and> st = STATUS_EXECUTED \<and> ext s' = x \<or>
      r = Inr RetryableFailed \<and> st = STATUS_PASSED \<and> ext s' = x \<or>
      r \<in> {Inr RetryableFailed, Inr FatalFailed} \<and> st = STATUS_EXECUTION_FAILED \<and> notified env i (p_kind p) x (ext s') \<or>
      st \<in> {STATUS_PASSED, STATUS_EXECUTION_FAILED} \<and> ext s' = ext s"
    unfolding attempt_done_def attempt_undone_def by blast
  have ne: "STATUS_PASSED \<noteq> STATUS_EXECUTED" "STATUS_EXECUTION_FAILED \<noteq> STATUS_EXECUTED" by simp_all
  from e show ?thesis
    using st P N [of _ x] rx notified_money [OF k money] ne by (intro exI [of _ st]) auto
qed

section \<open>Payments decided by vote\<close>

lemma multisig_finalized:
  assumes "lawful_currency (bcur be)" "proposals s i = Some p" "on_vote_finalized (multisig_callback be env) i True s = (Inr r, x)"
  shows "if r = Executed then order_paid be i p s x else funds x = funds (ext s)"
proof (cases "execute_multisig be env i s")
  case (Pair q y)
  have a: "funds (announce e z) = funds z" for e and z :: "('a, 'b) business" by (simp add: announce_def)
  have f: "funds (announce_failure be i s z) = funds z" for z
    by (simp add: announce_failure_def a split: option.split)
  show ?thesis
    using Pair assms multisig_ok [OF assms(1,2)] fails_cleanD [OF multisig_fails_clean [of s be env i]]
    by (cases q) (auto simp: multisig_callback_def multisig_on_internal_vote_finalized_def f split: if_splits)
qed

lemma order_scope [simp]: "multisig_order be i (in_scope j s) = multisig_order be i s"
  by (cases "SafetyFundProposalActions (ext s) i"; cases "SweepProposalActions (ext s) i")
     (simp_all add: multisig_order_def is_transfer_proposal_def get_proposal_data_def)

lemma order_paid_scope [simp]: "order_paid be i p (in_scope j s) x = order_paid be i p s x"
  by (simp add: order_paid_def)

text \<open>
  C18. A payment decided by a vote is made once and exactly, or not at all. Whenever the engine attempts to execute a
  passed internal proposal that the other modules of the runtime leave to the multisig module (by its hook or by a
  manual retry), then afterwards either the proposal is EXECUTED and exactly the transfer it orders has been made, from
  the account the proposal was voted for, with the scheduled fee charged and no money lost or made up; or the proposal
  is still PASSED, or EXECUTION\_FAILED, and no money has moved.
\<close>

theorem payment_executed:
  assumes "lawful_currency (bcur be)" "lawful_ration (b_fees be)" "tracks_passive env"
    and "internal_callback env = tuple_callback (multisig_callback be env' # others)"
    and "\<forall>d \<in> set others. keeps_money d \<and> (\<forall>x. ignores d i True ((in_scope i s)\<lparr>ext := x\<rparr>))"
    and "proposals s i = Some p" "p_status p = STATUS_PASSED" "p_kind p = PROPOSAL_KIND_INTERNAL"
    and "attempted env i s s'"
  shows "\<exists>st. proposals s' i = Some (p\<lparr>p_status := st\<rparr>) \<and>
    (if st = STATUS_EXECUTED then
       \<exists>payer source dest amount. multisig_order be i s = Some (source, dest, amount) \<and> p_execution_account_id p = Some source \<and>
         paid be payer source dest amount (ext s) (ext s') \<and>
         (\<forall>A. fee_receivers_in (b_fees be) A \<and> {payer, source, dest} \<subseteq> A \<and> amount < 2 ^ 120 \<longrightarrow>
            held_by (b_fees be) A (funds (ext s')) = held_by (b_fees be) A (funds (ext s)))
     else st \<in> {STATUS_PASSED, STATUS_EXECUTION_FAILED} \<and> funds (ext s') = funds (ext s))"
proof -
  have p: "proposals (in_scope i s) i = Some p" using assms(6) by simp
  have "\<exists>st. proposals s' i = Some (p\<lparr>p_status := st\<rparr>) \<and>
    (if st = STATUS_EXECUTED then order_paid be i p s (ext s') else st \<in> {STATUS_PASSED, STATUS_EXECUTION_FAILED} \<and> funds (ext s') = funds (ext s))"
  proof (rule owned_attempt [OF assms(3,6,7,8) _ _ _ _ _ _ assms(9), where before = "[]" and c = "multisig_callback be env'" and after = others])
    show "order_paid be i p s x" if "on_vote_finalized (multisig_callback be env') i True (in_scope i s) = (Inr Executed, x)" for x
      using multisig_finalized [OF assms(1) p that] by simp
    show "funds x = funds (ext s)" if "on_vote_finalized (multisig_callback be env') i True (in_scope i s) = (Inr r, x)" "r \<noteq> Executed" for r x
      using multisig_finalized [OF assms(1) p that(1)] that(2) by simp
  qed (use assms(4,5) multisig_keeps_money in auto)
  then obtain st where st: "proposals s' i = Some (p\<lparr>p_status := st\<rparr>)"
    and e: "if st = STATUS_EXECUTED then order_paid be i p s (ext s') else st \<in> {STATUS_PASSED, STATUS_EXECUTION_FAILED} \<and> funds (ext s') = funds (ext s)"
    by blast
  show ?thesis
  proof (intro exI [of _ st] conjI st, cases "st = STATUS_EXECUTED")
    case True
    with e obtain payer source dest amount where o: "multisig_order be i s = Some (source, dest, amount)" "p_execution_account_id p = Some source"
      and pd: "paid be payer source dest amount (ext s) (ext s')" by (auto simp: order_paid_def)
    have "held_by (b_fees be) A (funds (ext s')) = held_by (b_fees be) A (funds (ext s))"
      if "fee_receivers_in (b_fees be) A" "{payer, source, dest} \<subseteq> A" "amount < 2 ^ 120" for A
      using paid_conserves [OF assms(1,2) that pd] .
    with o pd show "if st = STATUS_EXECUTED then \<exists>payer source dest amount. multisig_order be i s = Some (source, dest, amount) \<and> p_execution_account_id p = Some source \<and>
         paid be payer source dest amount (ext s) (ext s') \<and>
         (\<forall>A. fee_receivers_in (b_fees be) A \<and> {payer, source, dest} \<subseteq> A \<and> amount < 2 ^ 120 \<longrightarrow>
            held_by (b_fees be) A (funds (ext s')) = held_by (b_fees be) A (funds (ext s)))
     else st \<in> {STATUS_PASSED, STATUS_EXECUTION_FAILED} \<and> funds (ext s') = funds (ext s)"
      unfolding True by simp blast
  qed (use e in simp)
qed

lemma town_multisig_runs:
  "fst (multisig_on_internal_vote_finalized town_be town_base 0 True (town_state MULTISIG_TAG town_vote\<lparr>callback_execution_scopes := {0}\<rparr>)) = Inr Executed"
proof -
  obtain y where y: "pay_with_fee town_be 6 6 3 50000 (MultisigError InsufficientFeeBalance) CurrencyError town_business = (Inr (), y)"
    using town_pays by (metis prod.collapse)
  let ?s = "town_state MULTISIG_TAG town_vote\<lparr>callback_execution_scopes := {0}\<rparr>"
  have data: "get_proposal_data 0 ?s = Some (MULTISIG_TAG @ ''data'')" "ext ?s = town_business" "proposals ?s 0 = Some town_vote"
    by (simp_all add: get_proposal_data_def town_state_def engine_genesis_def)
  have t: "is_transfer_proposal 0 ?s"
    by (simp add: is_transfer_proposal_def data) (simp add: town_business_def)
  have own: "ensure_internal_business_proposal town_base 0 PMUL None 6 [] ?s = Inr ()"
    by (simp add: ensure_internal_business_proposal_def data town_vote_def is_callback_execution_scope_def is_proposal_owner_def
        town_state_def engine_genesis_def bounded_module_tag_def town_base_def test_config_def runtime_config_def MULTISIG_TAG_def)
  have pay: "resolve_fee_payer town_be None 6 50000 50 town_business = Inr 6"
    using town_balance [of 6] by (simp add: resolve_fee_payer_def checked_add_def) (simp add: town_be_def)
  have be: "decode_transfer town_be = (\<lambda>_. Some town_transfer)" "personal_is_active town_be = (\<lambda>_ _. True)" "is_protected town_be = (\<lambda>_ _. False)"
    "minimum_balance town_be = 111" "can_spend (account_classes_of town_be r) 6 MultisigTransferExecute" for r
    by (simp_all add: town_be_def can_spend_def)
  have "execute_multisig town_be town_base 0 ?s = (Inr (), announce (TransferExecuted 0 6 6 3 50000 50) y)"
    using y by (simp add: execute_multisig_def t try_execute_transfer_from_callback_def data be Let_def resolve_funding_authority_def
        town_transfer_def own result_or_def pay town_fee)
  then show ?thesis using t by (simp add: multisig_on_internal_vote_finalized_def)
qed


theorem payment_executed_witness:
  "\<exists>payer. let s' = process_execution town_env 5 (0, \<lparr>attempts = 0, next_attempt_at = 0\<rparr>) (town_state MULTISIG_TAG town_vote) in
     proposals s' 0 = Some (town_vote\<lparr>p_status := STATUS_EXECUTED\<rparr>) \<and> paid town_be payer 6 3 50000 town_business (ext s')"
proof -
  let ?s = "town_state MULTISIG_TAG town_vote" let ?st = "\<lparr>attempts = 0, next_attempt_at = 0\<rparr>"
  let ?s' = "process_execution town_env 5 (0, ?st) ?s"
  have data: "ext ?s = town_business" "proposals ?s 0 = Some town_vote" "callback_execution_scopes ?s = {}"
    "get_proposal_data 0 ?s = Some (MULTISIG_TAG @ ''data'')"
    by (simp_all add: town_state_def engine_genesis_def get_proposal_data_def)
  have v: "p_kind town_vote = PROPOSAL_KIND_INTERNAL" "p_status town_vote = STATUS_PASSED" "p_execution_account_id town_vote = Some 6"
    by (simp_all add: town_vote_def)
  have cb: "internal_callback town_env = tuple_callback (multisig_callback town_be town_base # [destroy_callback town_be town_base])"
    by (simp add: town_env_def four_tracks_def)
  have ign: "ignores (destroy_callback town_be town_base) 0 True ((in_scope 0 ?s)\<lparr>ext := x\<rparr>)" for x
    by (simp add: ignores_def destroy_callback_def destroy_on_internal_vote_finalized_def is_proposal_owner_def town_state_def engine_genesis_def
        get_proposal_data_def bounded_module_tag_def MULTISIG_TAG_def DESTROY_TAG_def)
  obtain x where "multisig_on_internal_vote_finalized town_be town_base 0 True (?s\<lparr>callback_execution_scopes := {0}\<rparr>) = (Inr Executed, x)"
    using town_multisig_runs by (metis prod.collapse)
  then have "on_vote_finalized (internal_callback town_env) 0 True (?s\<lparr>callback_execution_scopes := {0}\<rparr>) = (Inr Executed, x)"
    unfolding cb using tuple_one_owner [of "[]" 0 True "in_scope 0 ?s" "[destroy_callback town_be town_base]"] ign
    by (simp add: data multisig_callback_def)
  then have ex: "proposals ?s' 0 = Some (town_vote\<lparr>p_status := STATUS_EXECUTED\<rparr>)"
    using v by (intro town_settles) (auto simp: callback_of_def)
  have order: "multisig_order town_be 0 ?s = Some (6, 3, 50000)"
    by (simp add: multisig_order_def is_transfer_proposal_def data) (simp add: town_business_def town_be_def town_transfer_def)
  from payment_executed [OF town_lawful town_tracks cb _ data(2) v(2,1), of ?s'] ign order ex v destroy_keeps_money
  obtain payer where "paid town_be payer 6 3 50000 (ext ?s) (ext ?s')"
    by (force intro: attempted.automatic simp: town_vote_def)
  with ex data show ?thesis unfolding Let_def by auto
qed

section \<open>Destruction decided by vote\<close>

text \<open>The framework takes a slash from the free balance first, and from no one else.\<close>

definition lawful_slash :: "('b, 'r) business_env \<Rightarrow> bool" where
  "lawful_slash be \<longleftrightarrow> (\<forall>a n b. (\<forall>x. x \<noteq> a \<longrightarrow> free_balance (bcur be) x (snd (slash be a n b)) = free_balance (bcur be) x b) \<and>
     (fst (slash be a n b) = 0 \<and> n \<le> free_balance (bcur be) a b \<longrightarrow>
        free_balance (bcur be) a (snd (slash be a n b)) = free_balance (bcur be) a b - n))"

definition destroyed ::
  "('b, 'r) business_env \<Rightarrow> account \<Rightarrow> account \<Rightarrow> u128 \<Rightarrow> ('b, 'r) business \<Rightarrow> ('b, 'r) business \<Rightarrow> bool" where
  "destroyed be payer a amount x x' \<longleftrightarrow>
     (\<exists>m. charge (b_fees be) payer amount (funds x) = (Inr (calculate_onchain_fee amount), m) \<and>
        (\<forall>y. y \<noteq> a \<longrightarrow> balance_of be y x' = free_balance (bcur be) y (balances m)) \<and>
        (payer \<noteq> a \<longrightarrow> balance_of be a x' + amount = free_balance (bcur be) a (balances m)))"

lemma destroy_with_fee_ok:
  assumes l: "lawful_currency (bcur be)" "lawful_slash be" and am: "amount \<le> balance_of be a x"
    and ok: "destroy_with_fee be payer a amount x = (Inr fee, x')"
  shows "destroyed be payer a amount x x'"
proof -
  from ok obtain m f where m: "charge (b_fees be) payer amount (funds x) = (Inr f, m)"
    and k: "(case slash be a amount (balances m) of (r, b) \<Rightarrow> let y = x\<lparr>funds := m\<lparr>balances := b\<rparr>\<rparr> in
        if r \<noteq> 0 then (Inl (DestroyError DestroyInsufficientBalance), y) else (Inr f, y)) = (Inr fee, x')"
    by (auto simp: destroy_with_fee_def charge_fee_ok)
  obtain r b where rb: "slash be a amount (balances m) = (r, b)" by fastforce
  with k m have c: "charge (b_fees be) payer amount (funds x) = (Inr fee, m)"
    and t: "slash be a amount (balances m) = (0, b)" and x': "x' = x\<lparr>funds := m\<lparr>balances := b\<rparr>\<rparr>"
    by (auto simp: Let_def split: if_splits)
  note s = l(2) [unfolded lawful_slash_def, rule_format, of a amount "balances m"]
  have "amount \<le> free_balance (bcur be) a (balances m)" if "payer \<noteq> a"
    using charge_others [OF l(1) c, of a] that am by simp
  with c charge_amount [OF c] s t x' show ?thesis
    unfolding destroyed_def by (intro exI [of _ m]) auto
qed

definition destroy_order :: "('b, 'r) business_env \<Rightarrow> proposal_id \<Rightarrow> 'x engine \<Rightarrow> (account \<times> u128) option" where
  "destroy_order be i s =
     (case get_proposal_data i s of
        None \<Rightarrow> None
      | Some raw \<Rightarrow> map_option (\<lambda>a. (da_institution_account_id a, da_amount a)) (decode_destroy be (drop (length DESTROY_TAG) raw)))"

lemma destroy_ok:
  assumes l: "lawful_currency (bcur be)" "lawful_slash be" and p: "proposals s i = Some p"
    and ok: "try_execute_destroy_from_action be env i a s = (Inr u, x)"
  shows "\<exists>payer. p_execution_account_id p = Some (da_institution_account_id a) \<and>
    destroyed be payer (da_institution_account_id a) (da_amount a) (ext s) x"
proof -
  from ok p obtain payer fee y where e: "p_execution_account_id p = Some (da_institution_account_id a)"
    and am: "da_amount a \<le> balance_of be (da_institution_account_id a) (ext s)"
    and y: "destroy_with_fee be payer (da_institution_account_id a) (da_amount a) (ext s) = (Inr fee, y)"
    and x: "x = announce (DestroyExecuted i (da_institution_account_id a) payer (da_amount a) fee) y"
    by (auto simp: try_execute_destroy_from_action_def Let_def)
  from destroy_with_fee_ok [OF l am y] e show ?thesis by (auto simp: x destroyed_def announce_def)
qed

lemma destroy_fails_clean: "fails_clean (ext s) (try_execute_destroy_from_action be env i a s)"
proof -
  have "fails_clean x (destroy_with_fee be f b n x)" for x f b n
    unfolding destroy_with_fee_def by (rule clean_transaction)
  then show ?thesis unfolding try_execute_destroy_from_action_def Let_def by (intro clean_intros)
qed

lemma destroy_finalized:
  assumes "lawful_currency (bcur be)" "lawful_slash be" "proposals s i = Some p"
    and "on_vote_finalized (destroy_callback be env) i True s = (Inr r, x)"
  shows "if r = Executed then \<exists>payer a amount. destroy_order be i s = Some (a, amount) \<and> p_execution_account_id p = Some a \<and>
      destroyed be payer a amount (ext s) x else funds x = funds (ext s)"
proof (cases "get_proposal_data i s")
  case (Some raw)
  show ?thesis
  proof (cases "decode_destroy be (drop (length DESTROY_TAG) raw)")
    case (Some a)
    obtain q y where qy: "try_execute_destroy_from_action be env i a s = (q, y)" by fastforce
    with destroy_ok [OF assms(1-3), of env a] fails_cleanD [OF destroy_fails_clean [of s be env i a]] assms(4)
      \<open>get_proposal_data i s = Some raw\<close> Some show ?thesis
      by (cases q) (auto simp: destroy_callback_def destroy_on_internal_vote_finalized_def destroy_order_def announce_def split: if_splits)
  qed (use assms(4) Some in \<open>auto simp: destroy_callback_def destroy_on_internal_vote_finalized_def split: if_splits\<close>)
qed (use assms(4) in \<open>auto simp: destroy_callback_def destroy_on_internal_vote_finalized_def\<close>)

text \<open>The modules tell their proposals apart by the tag in front of the data.\<close>

lemma take_heads: "take n raw = a # as \<Longrightarrow> take k raw = b # bs \<Longrightarrow> a = b"
  by (cases raw; cases n; cases k) simp_all

lemma multisig_ignores_destroy:
  assumes "get_proposal_data i s = Some raw" "take (length DESTROY_TAG) raw = DESTROY_TAG"
    and "SafetyFundProposalActions (ext s) i = None" "SweepProposalActions (ext s) i = None"
  shows "ignores (multisig_callback be env) i approved s"
proof -
  have "take (length MULTISIG_TAG) raw \<noteq> MULTISIG_TAG"
  proof
    assume "take (length MULTISIG_TAG) raw = MULTISIG_TAG"
    from take_heads [OF this [unfolded MULTISIG_TAG_def] assms(2) [unfolded DESTROY_TAG_def]] show False by simp
  qed
  with assms show ?thesis
    by (simp add: ignores_def multisig_callback_def multisig_on_internal_vote_finalized_def is_transfer_proposal_def)
qed


lemma town_lawful_slash: "lawful_slash town_be"
  by (simp add: lawful_slash_def town_be_def sample_fee_env_def plain_currency_def plain_slash_def plain_put_less)

lemma town_destroys: "fst (destroy_with_fee town_be 2 6 50000 town_business) = Inr 50"
proof -
  obtain m where m: "charge (b_fees town_be) 2 50000 (funds town_business) = (Inr 50, m)"
    "999950 \<le> plain_balance 6 (balances m)" using town_charge [of 2] by auto
  have "fst (slash town_be 6 50000 (balances m)) = 0" using m(2) by (simp add: town_be_def plain_slash_def)
  with m(1) show ?thesis
    by (auto simp: destroy_with_fee_def with_transaction_def charge_fee_def map_err_def Let_def split: prod.splits)
qed

lemma town_destroy_runs:
  "fst (destroy_on_internal_vote_finalized town_be town_base 0 True (in_scope 0 (town_state DESTROY_TAG town_resolution))) = Inr Executed"
proof -
  obtain y where y: "destroy_with_fee town_be 2 6 50000 town_business = (Inr 50, y)"
    using town_destroys by (metis prod.collapse)
  let ?s = "in_scope 0 (town_state DESTROY_TAG town_resolution)"
  have data: "get_proposal_data 0 ?s = Some (DESTROY_TAG @ ''data'')" "ext ?s = town_business" "proposals ?s 0 = Some town_resolution"
    "is_callback_execution_scope 0 ?s" "proposals (town_state DESTROY_TAG town_resolution) 0 = Some town_resolution"
    by (simp_all add: get_proposal_data_def town_state_def engine_genesis_def is_callback_execution_scope_def)
  have own: "is_proposal_owner town_base 0 DESTROY_TAG ?s"
    by (simp add: is_proposal_owner_def town_state_def engine_genesis_def bounded_module_tag_def town_base_def test_config_def runtime_config_def DESTROY_TAG_def)
  have be: "decode_destroy town_be = (\<lambda>_. Some town_destroy)" "lookup_org town_be = (\<lambda>_ _. Some NRC)" "lookup_cid town_be = (\<lambda>_ _. Some ''X'')"
    "minimum_balance town_be = 111" "lookup_institution_account town_be = (\<lambda>_ _ _. Some 2)"
    by (simp_all add: town_be_def)
  have v: "p_kind town_resolution = PROPOSAL_KIND_INTERNAL" "p_stage town_resolution = STAGE_INTERNAL" "p_status town_resolution = STATUS_PASSED"
    "p_internal_code town_resolution = Some NRC" "p_actor_cid_number town_resolution = Some ''X''" "p_execution_account_id town_resolution = Some 6"
    by (simp_all add: town_resolution_def town_vote_def)
  have "try_execute_destroy_from_action town_be town_base 0 town_destroy ?s = (Inr (), announce (DestroyExecuted 0 6 2 50000 50) y)"
    using y town_balance [of 6]
    by (simp add: try_execute_destroy_from_action_def data own be v Let_def town_destroy_def can_propose_destroy_def checked_add_def)
  then show ?thesis by (simp add: destroy_on_internal_vote_finalized_def data own be)
qed


end
