(* ===== verification/Joint_Decisions.thy ===== *)
theory Joint_Decisions
  imports Sample_Town
begin

text \<open>
  What a joint vote on new money or on a new runtime does: an attempt of the engine to execute the passed proposal
  either carries out exactly the voted decision and settles the proposal as executed, or leaves the chain as it was.
\<close>

section \<open>Attempts on joint proposals\<close>

text \<open>The pattern of a joint proposal: \<open>P\<close> is what the owner does when it executes, \<open>N\<close> what it keeps otherwise.\<close>

lemma joint_attempt:
  assumes "tracks_passive env" "proposals s i = Some p" "p_status p = STATUS_PASSED" "p_kind p = PROPOSAL_KIND_JOINT"
    and cb: "joint_callback env = runtime_joint_callback be env'"
    and P: "\<And>x. on_vote_finalized (runtime_joint_callback be env') i True (in_scope i s) = (Inr Executed, x) \<Longrightarrow> P x"
    and N: "\<And>r x. on_vote_finalized (runtime_joint_callback be env') i True (in_scope i s) = (Inr r, x) \<Longrightarrow> r \<noteq> Executed \<Longrightarrow> N x"
    and u: "N (ext s)" and "attempted env i s s'"
  shows "\<exists>st. proposals s' i = Some (p\<lparr>p_status := st\<rparr>) \<and>
    (if st = STATUS_EXECUTED then P (ext s') else st \<in> {STATUS_PASSED, STATUS_EXECUTION_FAILED} \<and> N (ext s'))"
proof -
  have k: "callback_of env (p_kind p) = Some (runtime_joint_callback be env')"
    using assms(4) cb by (simp add: callback_of_def kind_defs)
  obtain r x where rx: "on_vote_finalized (runtime_joint_callback be env') i True (in_scope i s) = (r, x)" by fastforce
  have nt: "x' = x" if "notified env i (p_kind p) x x'" for x'
    using that k by (auto simp: notified_def notify_execution_failed_terminal_def runtime_joint_callback_def default_callback_def)
  from attempted_result [OF assms(1-3,9) k rx] obtain st where st: "proposals s' i = Some (p\<lparr>p_status := st\<rparr>)"
    and e: "r = Inr Executed \<and> st = STATUS_EXECUTED \<and> ext s' = x \<or>
      r = Inr RetryableFailed \<and> st = STATUS_PASSED \<and> ext s' = x \<or>
      r \<in> {Inr RetryableFailed, Inr FatalFailed} \<and> st = STATUS_EXECUTION_FAILED \<and> notified env i (p_kind p) x (ext s') \<or>
      st \<in> {STATUS_PASSED, STATUS_EXECUTION_FAILED} \<and> ext s' = ext s"
    unfolding attempt_done_def attempt_undone_def by blast
  have ne: "STATUS_PASSED \<noteq> STATUS_EXECUTED" "STATUS_EXECUTION_FAILED \<noteq> STATUS_EXECUTED" by simp_all
  from e show ?thesis using st P N [of _ x] rx nt u ne by (intro exI [of _ st]) auto
qed

section \<open>Issuance\<close>

definition allotted :: "recipient_amount list \<Rightarrow> account \<Rightarrow> nat" where
  "allotted rs a = (\<Sum>r\<leftarrow>rs. if recipient_account_id r = a then ra_amount r else 0)"

lemma check_allocations_ok:
  "check_allocations expected rs seen t = Inr (seen', t') \<Longrightarrow>
     seen' = seen \<union> recipient_account_id ` set rs \<and> t' = t + (\<Sum>r\<leftarrow>rs. ra_amount r) \<and> distinct (map recipient_account_id rs) \<and>
     seen \<inter> recipient_account_id ` set rs = {} \<and> (\<forall>r \<in> set rs. 0 < ra_amount r)"
proof (induction rs arbitrary: seen t)
  case (Cons r rs)
  from Cons.prems have c: "check_allocations expected rs (insert (recipient_account_id r) seen) (t + ra_amount r) = Inr (seen', t')"
    and r: "0 < ra_amount r" "recipient_account_id r \<notin> seen"
    by (auto simp: checked_add_def split: if_splits)
  from Cons.IH [OF c] r show ?case by auto
qed simp

lemma validate_ok:
  assumes "validate_proposal_allocations total_amount rs allowed = Inr u"
  shows "recipient_account_id ` set rs = set allowed" "distinct (map recipient_account_id rs)" "total_amount = (\<Sum>r\<leftarrow>rs. ra_amount r)"
    "\<forall>r \<in> set rs. 0 < ra_amount r"
  using assms by (auto simp: validate_proposal_allocations_def split: if_splits sum.splits prod.splits dest!: check_allocations_ok)

lemma deposit_all_ok:
  assumes "lawful_currency c" "deposit_all c rs b = (True, b')"
  shows "free_balance c a b' = free_balance c a b + allotted rs a"
  using assms(2)
proof (induction rs arbitrary: b)
  case (Cons r rs)
  obtain n b1 where d: "deposit_creating c (recipient_account_id r) (ra_amount r) b = (n, b1)" by fastforce
  with Cons.prems have n: "n = ra_amount r" "deposit_all c rs b1 = (True, b')" by (auto split: if_splits)
  from Cons.IH [OF n(2)] lawful_deposit(2) [OF assms(1) d, of a] n(1) show ?case by (simp add: allotted_def)
qed (simp add: allotted_def)

definition issued ::
  "('b, 'r) business_env \<Rightarrow> proposal_id \<Rightarrow> issuance_proposal_data \<Rightarrow> ('b, 'r) business \<Rightarrow> ('b, 'r) business \<Rightarrow> bool" where
  "issued be i d x x' \<longleftrightarrow>
     i \<notin> EverExecuted x \<and> EverExecuted x' = insert i (EverExecuted x) \<and>
     recipient_account_id ` set (ip_allocations d) = set (AllowedRecipients x) \<and> distinct (map recipient_account_id (ip_allocations d)) \<and>
     ip_total_amount d = (\<Sum>r\<leftarrow>ip_allocations d. ra_amount r) \<and> ip_total_amount d \<le> MaxSingleIssuance be \<and>
     TotalIssued x' = TotalIssued x + ip_total_amount d \<and> TotalIssued x' \<le> MaxTotalIssuance be \<and>
     (\<forall>a. balance_of be a x' = balance_of be a x + allotted (ip_allocations d) a)"

lemma announce_keeps [simp]:
  "funds (announce e x) = funds x" "EverExecuted (announce e x) = EverExecuted x" "TotalIssued (announce e x) = TotalIssued x"
  "runtime_code (announce e x) = runtime_code x" "pow (announce e x) = pow x" "LastRuntimeUpgradeAudit (announce e x) = LastRuntimeUpgradeAudit x"
  "AllowedRecipients (announce e x) = AllowedRecipients x"
  by (simp_all add: announce_def)

lemma do_execute_ok:
  assumes "lawful_currency (bcur be)"
    and "do_execute_inner be hash now i (ip_reason d) (ip_total_amount d) (ip_allocations d) x = (Inr u, x')"
  shows "issued be i d x x'"
proof -
  obtain ok b where dep: "deposit_all (bcur be) (ip_allocations d) (balances (funds x)) = (ok, b)" by fastforce
  from assms(2) dep obtain v where ne: "i \<notin> EverExecuted x" and ok: "ok"
    and v: "validate_proposal_allocations (ip_total_amount d) (ip_allocations d) (AllowedRecipients x) = Inr v"
    and cap: "ip_total_amount d \<le> MaxSingleIssuance be" "TotalIssued x + ip_total_amount d \<le> MaxTotalIssuance be"
    and x': "EverExecuted x' = insert i (EverExecuted x)" "TotalIssued x' = TotalIssued x + ip_total_amount d" "balances (funds x') = b"
    by (auto simp: do_execute_inner_def Let_def checked_add_def split: if_splits)
  from deposit_all_ok [OF assms(1)] dep ok validate_ok [OF v] ne cap x' show ?thesis
    unfolding issued_def by auto
qed

lemma issuance_finalized:
  assumes "lawful_currency (bcur be)" "issuance_on_joint_vote_finalized be env i True s = (Inr r, x)"
  shows "if r = Executed then \<exists>d. load_proposal_data be i s = Some d \<and> issued be i d (ext s) x
    else funds x = funds (ext s) \<and> EverExecuted x = EverExecuted (ext s) \<and> TotalIssued x = TotalIssued (ext s)"
proof -
  have dec: "funds y = funds z \<and> EverExecuted y = EverExecuted z \<and> TotalIssued y = TotalIssued z \<and> AllowedRecipients y = AllowedRecipients z"
    if "decrement_voting_proposal_count z = (Inr u, y)" for z y :: "('a, 'b) business" and u
    using that by (auto simp: decrement_voting_proposal_count_def)
  from assms(2) obtain oc where oc: "apply_joint_vote_result be env i True s = (Inr oc, x)"
    and r: "r = (case oc of ApprovedExecutionSucceeded \<Rightarrow> Executed | ApprovedExecutionFailed \<Rightarrow> FatalFailed | RejectedOutcome \<Rightarrow> Executed)"
    by (auto simp: issuance_on_joint_vote_finalized_def split: prod.splits sum.splits)
  from oc obtain d where d: "load_proposal_data be i s = Some d"
    and k: "(case execute_approved_issuance be (hash256 env) (block_number s) i (ip_reason d) (ip_total_amount d) (ip_allocations d) (ext s) of
        (Inr _, x) \<Rightarrow> and_then (decrement_voting_proposal_count x) (\<lambda>_ x. (Inr ApprovedExecutionSucceeded,
            announce (IssuanceExecutionTriggered i (ip_total_amount d)) (announce (JointVoteFinalized i True) x)))
      | (Inl _, x) \<Rightarrow> and_then (decrement_voting_proposal_count x) (\<lambda>_ x.
            (Inr ApprovedExecutionFailed, announce (IssuanceExecutionFailed i) (announce (JointVoteFinalized i True) x)))) = (Inr oc, x)"
    by (auto simp: apply_joint_vote_result_def)
  obtain q y where qy: "execute_approved_issuance be (hash256 env) (block_number s) i (ip_reason d) (ip_total_amount d) (ip_allocations d) (ext s) = (q, y)"
    by fastforce
  show ?thesis
  proof (cases q)
    case (Inr u)
    with qy have "do_execute_inner be (hash256 env) (block_number s) i (ip_reason d) (ip_total_amount d) (ip_allocations d) (ext s) = (Inr u, y)"
      by (simp add: execute_approved_issuance_def)
    from do_execute_ok [OF assms(1) this] k qy Inr d r dec show ?thesis by (auto simp: issued_def)
  next
    case (Inl e)
    with qy have "y = ext s" by (simp add: execute_approved_issuance_def)
    with k qy Inl r dec show ?thesis by auto
  qed
qed

lemma owner_scope [simp]:
  "issuance_owns_proposal env i (in_scope j s) = issuance_owns_proposal env i s" "upgrade_owns_proposal env i (in_scope j s) = upgrade_owns_proposal env i s"
  "load_proposal_data be i (in_scope j s) = load_proposal_data be i s" "load_proposal be i (in_scope j s) = load_proposal be i s"
  "load_runtime_code be i (in_scope j s) = load_runtime_code be i s"
  by (simp_all add: issuance_owns_proposal_def upgrade_owns_proposal_def is_proposal_owner_def load_proposal_data_def load_proposal_def
      load_runtime_code_def get_proposal_data_def get_proposal_object_def get_proposal_object_meta_def split: option.split)

text \<open>
  C19. New money is issued once, to the fixed recipients, and in full. After any attempt to execute a passed issuance
  proposal, either the proposal is EXECUTED, had never been executed before and is marked for good; its recipients are exactly the configured ones, each of
  them holds exactly its allotment more and nobody else's balance differs; the allotments add up to the voted total,
  which is within the cap of a single issuance and is added to the running total within its cap. Or the proposal is
  PASSED or EXECUTION\_FAILED and money, marks and running total are as they were.
\<close>

theorem issuance_executed:
  assumes "lawful_currency (bcur be)" "tracks_passive env" "joint_callback env = runtime_joint_callback be env'"
    and "issuance_owns_proposal env' i s"
    and "proposals s i = Some p" "p_status p = STATUS_PASSED" "p_kind p = PROPOSAL_KIND_JOINT" "attempted env i s s'"
  shows "\<exists>st. proposals s' i = Some (p\<lparr>p_status := st\<rparr>) \<and>
    (if st = STATUS_EXECUTED then \<exists>d. load_proposal_data be i s = Some d \<and> issued be i d (ext s) (ext s')
     else st \<in> {STATUS_PASSED, STATUS_EXECUTION_FAILED} \<and>
       (funds (ext s') = funds (ext s) \<and> EverExecuted (ext s') = EverExecuted (ext s) \<and> TotalIssued (ext s') = TotalIssued (ext s)))"
proof (rule joint_attempt [OF assms(2,5-7,3) _ _ _ assms(8)])
  have run: "on_vote_finalized (runtime_joint_callback be env') i True (in_scope i s) = issuance_on_joint_vote_finalized be env' i True (in_scope i s)"
    using assms(4) by (simp add: runtime_joint_callback_def)
  show "\<exists>d. load_proposal_data be i s = Some d \<and> issued be i d (ext s) x"
    if "on_vote_finalized (runtime_joint_callback be env') i True (in_scope i s) = (Inr Executed, x)" for x
    using issuance_finalized [OF assms(1) that [unfolded run]] by simp
  show "funds x = funds (ext s) \<and> EverExecuted x = EverExecuted (ext s) \<and> TotalIssued x = TotalIssued (ext s)"
    if "on_vote_finalized (runtime_joint_callback be env') i True (in_scope i s) = (Inr r, x)" "r \<noteq> Executed" for r x
    using issuance_finalized [OF assms(1) that(1) [unfolded run]] that(2) by simp
qed simp

definition town_joint_vote :: proposal where
  "town_joint_vote = town_vote\<lparr>p_kind := PROPOSAL_KIND_JOINT, p_stage := STAGE_JOINT\<rparr>"

lemma town_joint:
  "joint_callback town_env = runtime_joint_callback town_be town_base" "p_kind town_joint_vote = PROPOSAL_KIND_JOINT"
  "p_status town_joint_vote = STATUS_PASSED" "p_stage town_joint_vote = STAGE_JOINT"
  "ext (town_state tag p) = town_business" "proposals (town_state tag p) 0 = Some p" "callback_execution_scopes (town_state tag p) = {}"
  by (simp_all add: town_env_def four_tracks_def town_joint_vote_def town_vote_def town_state_def engine_genesis_def)

lemma town_owner:
  "length tag \<le> 7 \<Longrightarrow> is_proposal_owner town_base 0 tag' ((town_state tag p)\<lparr>callback_execution_scopes := c\<rparr>) \<longleftrightarrow> tag' = tag"
  by (auto simp: is_proposal_owner_def town_state_def engine_genesis_def bounded_module_tag_def town_base_def test_config_def runtime_config_def)

lemma town_own:
  "is_proposal_owner town_base 0 tag' (town_state tag p) \<longleftrightarrow> length tag' \<le> 32 \<and> tag' = tag"
  by (auto simp: is_proposal_owner_def town_state_def engine_genesis_def bounded_module_tag_def town_base_def test_config_def runtime_config_def)

lemma tag_facts: "length ISSUANCE_TAG \<le> 7" "length UPGRADE_TAG \<le> 7" "ISSUANCE_TAG \<noteq> UPGRADE_TAG"
  by (simp_all add: ISSUANCE_TAG_def UPGRADE_TAG_def)

lemma town_data: "get_proposal_data 0 ((town_state tag p)\<lparr>callback_execution_scopes := c\<rparr>) = Some (tag @ ''data'')"
  by (simp add: get_proposal_data_def town_state_def engine_genesis_def)

lemma town_deposits: "fst (deposit_all plain_currency (ip_allocations town_issuance) (\<lambda>_. 1000000))"
  by (simp add: town_issuance_def plain_currency_def plain_balance_def put_def)

lemma town_issues: "fst (issuance_on_joint_vote_finalized town_be town_base 0 True ((town_state ISSUANCE_TAG town_joint_vote)\<lparr>callback_execution_scopes := {0}\<rparr>)) = Inr Executed"
proof -
  let ?s = "(town_state ISSUANCE_TAG town_joint_vote)\<lparr>callback_execution_scopes := {0}\<rparr>" let ?d = town_issuance
  have be: "MaxReasonLen town_be = 128" "MaxAllocations town_be = 43" "minimum_balance town_be = 111" "MaxTotalIssuance town_be = max_of 128"
    "MaxSingleIssuance town_be = 14434973780000" "bcur town_be = plain_currency" "decode_issuance town_be = (\<lambda>_. Some (town_issuance, []))"
    by (simp_all add: town_be_def sample_fee_env_def)
  have x: "EverExecuted town_business = {}" "AllowedRecipients town_business = [4, 5]" "TotalIssued town_business = 0"
    "VotingProposalCount town_business = 1" "balances (funds town_business) = (\<lambda>_. 1000000)"
    by (simp_all add: town_business_def)
  have d: "ip_reason ?d = ''r''" "ip_total_amount ?d = 5000" "length (ip_allocations ?d) = 2"
    "list_all (\<lambda>r. 111 \<le> ra_amount r) (ip_allocations ?d)"
    by (simp_all add: town_issuance_def)
  have ctx: "ensure_vote_engine_callback_context town_base 0 True ?s = Inr ()"
    by (simp add: ensure_vote_engine_callback_context_def town_joint town_owner tag_facts)
  have ld: "load_proposal_data town_be 0 ?s = Some ?d"
    by (simp add: load_proposal_data_def town_data decode_tagged_data_def be)
  have v: "validate_proposal_allocations 5000 (ip_allocations ?d) [4, 5] = Inr ()"
    by (simp add: validate_proposal_allocations_def town_issuance_def checked_add_def insert_commute)
  obtain b where dep: "deposit_all plain_currency (ip_allocations ?d) (\<lambda>_. 1000000) = (True, b)"
    using town_deposits by (metis prod.collapse)
  have "\<exists>y. do_execute_inner town_be (hash256 town_base) (block_number ?s) 0 ''r'' 5000 (ip_allocations ?d) town_business = (Inr (), y) \<and> VotingProposalCount y = 1"
    using dep by (simp add: do_execute_inner_def be x d v result_or_def Let_def announce_def checked_add_def max_of_def)
  then obtain y where "execute_approved_issuance town_be (hash256 town_base) (block_number ?s) 0 ''r'' 5000 (ip_allocations ?d) town_business = (Inr (), y)"
    "VotingProposalCount y = 1"
    by (auto simp: execute_approved_issuance_def)
  then show ?thesis
    by (simp add: issuance_on_joint_vote_finalized_def apply_joint_vote_result_def with_transaction_def ctx ld be d result_or_def town_joint
        decrement_voting_proposal_count_def)
qed

theorem issuance_executed_witness:
  "let s' = process_execution town_env 5 (0, \<lparr>attempts = 0, next_attempt_at = 0\<rparr>) (town_state ISSUANCE_TAG town_joint_vote) in
     proposals s' 0 = Some (town_joint_vote\<lparr>p_status := STATUS_EXECUTED\<rparr>) \<and> issued town_be 0 town_issuance town_business (ext s')"
proof -
  let ?s = "town_state ISSUANCE_TAG town_joint_vote" let ?st = "\<lparr>attempts = 0, next_attempt_at = 0\<rparr>"
  let ?s' = "process_execution town_env 5 (0, ?st) ?s"
  have own: "issuance_owns_proposal town_base 0 ?s"
    using tag_facts by (simp add: issuance_owns_proposal_def town_own)
  obtain x where "issuance_on_joint_vote_finalized town_be town_base 0 True (?s\<lparr>callback_execution_scopes := {0}\<rparr>) = (Inr Executed, x)"
    using town_issues by (metis prod.collapse)
  moreover have "issuance_owns_proposal town_base 0 (?s\<lparr>callback_execution_scopes := {0}\<rparr>)"
    by (simp add: issuance_owns_proposal_def town_owner tag_facts)
  ultimately have ex: "proposals ?s' 0 = Some (town_joint_vote\<lparr>p_status := STATUS_EXECUTED\<rparr>)"
    by (intro town_settles [where c = "runtime_joint_callback town_be town_base"])
       (auto simp: callback_of_def town_joint runtime_joint_callback_def kind_defs)
  have ld: "load_proposal_data town_be 0 ?s = Some town_issuance"
    by (simp add: load_proposal_data_def get_proposal_data_def town_state_def engine_genesis_def decode_tagged_data_def) (simp add: town_be_def)
  from issuance_executed [OF town_lawful(1) town_tracks town_joint(1) own town_joint(6,3,2), of ?s'] ex ld
  have "issued town_be 0 town_issuance (ext ?s) (ext ?s')"
    by (force intro: attempted.automatic simp: town_joint_vote_def town_vote_def)
  with ex show ?thesis unfolding Let_def by (simp add: town_joint)
qed

section \<open>Upgrade\<close>

text \<open>Setting the code either succeeds and stores it, or fails.\<close>

definition lawful_set_code :: "('b, 'r) business_env \<Rightarrow> bool" where
  "lawful_set_code be \<longleftrightarrow> (\<forall>new old. fst (set_code be new old) \<longrightarrow> snd (set_code be new old) = new)"

definition upgraded ::
  "('b, 'r) business_env \<Rightarrow> (string \<Rightarrow> string) \<Rightarrow> block_number \<Rightarrow> proposal_id option \<Rightarrow> string \<Rightarrow> pow_difficulty_params \<Rightarrow>
   ('b, 'r) business \<Rightarrow> ('b, 'r) business \<Rightarrow> bool" where
  "upgraded be hash now i code params x x' \<longleftrightarrow>
     runtime_code x' = code \<and> good_params params \<and> PendingParams (pow x) = None \<and>
     pow x' = (if same_values_except_version (ActiveParams (pow x)) params then pow x
       else (pow x)\<lparr>PendingParams := Some \<lparr>pending_params = params, activate_at = Suc (sat_into 32 now)\<rparr>\<rparr>) \<and>
     (\<exists>audit. LastRuntimeUpgradeAudit x' = Some audit \<and> ua_proposal_id audit = i \<and> ua_code_hash audit = hash code \<and>
        ua_new_pow_params_hash audit = hash_pow_params be params \<and> ua_activate_at audit = Suc (sat_into 32 now)) \<and>
     funds x' = funds x"

lemma upgraded_announce [simp]: "upgraded be hash now i code params x (announce e x') = upgraded be hash now i code params x x'"
  by (simp add: upgraded_def)

lemma stage_params_ok:
  "stage_params new at s = (Inr u, s') \<Longrightarrow> good_params new \<and> PendingParams s = None \<and>
     s' = (if same_values_except_version (ActiveParams s) new then s else s\<lparr>PendingParams := Some \<lparr>pending_params = new, activate_at = at\<rparr>\<rparr>)"
  by (auto simp: stage_params_def good_params_def Let_def split: if_splits)

lemma upgrade_bundle_ok:
  assumes "lawful_set_code be" "execute_upgrade_bundle be hash now code params i path dev x = (Inr u, x')"
  shows "upgraded be hash now i code params x x'"
proof -
  obtain r q where st: "stage_params params (Suc (sat_into 32 now)) (pow x) = (r, q)" by fastforce
  obtain ok c where sc: "set_code be code (runtime_code x) = (ok, c)" by fastforce
  from assms(2) st sc obtain v where r: "r = Inr v" and ok: "ok" and x': "runtime_code x' = c" "pow x' = q" "funds x' = funds x"
    and a: "\<exists>audit. LastRuntimeUpgradeAudit x' = Some audit \<and> ua_proposal_id audit = i \<and> ua_code_hash audit = hash code \<and>
        ua_new_pow_params_hash audit = hash_pow_params be params \<and> ua_activate_at audit = Suc (sat_into 32 now)"
    by (cases r) (auto simp: execute_upgrade_bundle_def execute_runtime_code_def Let_def checked_add_def split: if_splits)
  have "c = code" using assms(1) sc ok unfolding lawful_set_code_def by (metis fst_conv snd_conv)
  with stage_params_ok [of params _ "pow x" v q] st r x' a show ?thesis unfolding upgraded_def by auto
qed

lemma upgrade_finalized:
  assumes "lawful_set_code be" "upgrade_on_joint_vote_finalized be env i True s = (Inr r, x)"
  shows "if r = Executed then \<exists>u code. load_proposal be i s = Some u \<and> load_runtime_code be i s = Some code \<and>
      hash256 env code = up_code_hash u \<and> hash_pow_params be (ActiveParams (pow (ext s))) = up_expected_pow_params_hash u \<and>
      upgraded be (hash256 env) (block_number s) (Some i) code (up_new_pow_params u) (ext s) x
    else runtime_code x = runtime_code (ext s) \<and> pow x = pow (ext s) \<and> LastRuntimeUpgradeAudit x = LastRuntimeUpgradeAudit (ext s) \<and> funds x = funds (ext s)"
proof -
  have "upgrade_apply_joint_vote_result be env i True s = (Inr r, x)"
    using assms(2) by (auto simp: upgrade_on_joint_vote_finalized_def split: prod.splits sum.splits)
  then obtain u code where ld: "load_proposal be i s = Some u" "load_runtime_code be i s = Some code"
      "hash256 env code = up_code_hash u" "hash_pow_params be (ActiveParams (pow (ext s))) = up_expected_pow_params_hash u"
    and k: "(case execute_upgrade_bundle be (hash256 env) (block_number s) code (up_new_pow_params u) (Some i) JointVotePath None (ext s) of
          (Inr _, x) \<Rightarrow> (Inr Executed, announce (RuntimeUpgradeExecuted i (up_code_hash u)) (announce (UpgradeVoteFinalized i True) x))
        | (Inl _, x) \<Rightarrow> (Inr FatalFailed, announce (RuntimeUpgradeExecutionFailed i (up_code_hash u)) (announce (UpgradeVoteFinalized i True) x)))
       = (Inr r :: business_error + proposal_execution_outcome, x)"
    by (auto simp: upgrade_apply_joint_vote_result_def Let_def)
  obtain q y where qy: "execute_upgrade_bundle be (hash256 env) (block_number s) code (up_new_pow_params u) (Some i) JointVotePath None (ext s) = (q, y)"
    by fastforce
  show ?thesis
  proof (cases q)
    case (Inr v)
    have "upgraded be (hash256 env) (block_number s) (Some i) code (up_new_pow_params u) (ext s) y"
      by (rule upgrade_bundle_ok [OF assms(1)]) (use qy Inr in simp)
    with qy Inr k ld show ?thesis by auto
  next
    case (Inl e)
    with qy have "y = ext s" by (simp add: execute_upgrade_bundle_def)
    with k qy Inl show ?thesis by auto
  qed
qed

text \<open>
  C7. The runtime changes only to the code that was voted on. After any attempt to execute a passed upgrade proposal,
  either the proposal is EXECUTED: the new code is the object stored with the proposal, its hash is the one in the
  proposal, the difficulty parameters had not changed since the vote was opened, the new ones are valid and staged for
  the next block unless they are the same, and the audit record names the proposal. Or code,
  difficulty parameters, audit record and money are as they were.
\<close>

theorem upgrade_executed:
  assumes "lawful_set_code be" "tracks_passive env" "joint_callback env = runtime_joint_callback be env'"
    and "upgrade_owns_proposal env' i s" "\<not> issuance_owns_proposal env' i s"
    and "proposals s i = Some p" "p_status p = STATUS_PASSED" "p_kind p = PROPOSAL_KIND_JOINT" "attempted env i s s'"
  shows "\<exists>st. proposals s' i = Some (p\<lparr>p_status := st\<rparr>) \<and>
    (if st = STATUS_EXECUTED then \<exists>u code. load_proposal be i s = Some u \<and> load_runtime_code be i s = Some code \<and>
        hash256 env' code = up_code_hash u \<and> hash_pow_params be (ActiveParams (pow (ext s))) = up_expected_pow_params_hash u \<and>
        upgraded be (hash256 env') (block_number s) (Some i) code (up_new_pow_params u) (ext s) (ext s')
     else st \<in> {STATUS_PASSED, STATUS_EXECUTION_FAILED} \<and>
       (runtime_code (ext s') = runtime_code (ext s) \<and> pow (ext s') = pow (ext s) \<and>
        LastRuntimeUpgradeAudit (ext s') = LastRuntimeUpgradeAudit (ext s) \<and> funds (ext s') = funds (ext s)))"
proof (rule joint_attempt [OF assms(2,6-8,3) _ _ _ assms(9)])
  have run: "on_vote_finalized (runtime_joint_callback be env') i True (in_scope i s) = upgrade_on_joint_vote_finalized be env' i True (in_scope i s)"
    using assms(4,5) by (simp add: runtime_joint_callback_def)
  show "\<exists>u code. load_proposal be i s = Some u \<and> load_runtime_code be i s = Some code \<and>
      hash256 env' code = up_code_hash u \<and> hash_pow_params be (ActiveParams (pow (ext s))) = up_expected_pow_params_hash u \<and>
      upgraded be (hash256 env') (block_number s) (Some i) code (up_new_pow_params u) (ext s) x"
    if "on_vote_finalized (runtime_joint_callback be env') i True (in_scope i s) = (Inr Executed, x)" for x
    using upgrade_finalized [OF assms(1) that [unfolded run]] by simp
  show "runtime_code x = runtime_code (ext s) \<and> pow x = pow (ext s) \<and> LastRuntimeUpgradeAudit x = LastRuntimeUpgradeAudit (ext s) \<and> funds x = funds (ext s)"
    if "on_vote_finalized (runtime_joint_callback be env') i True (in_scope i s) = (Inr r, x)" "r \<noteq> Executed" for r x
    using upgrade_finalized [OF assms(1) that(1) [unfolded run]] that(2) by simp
qed simp

lemma town_upgrades: "fst (upgrade_on_joint_vote_finalized town_be town_base 0 True ((town_state UPGRADE_TAG town_joint_vote)\<lparr>callback_execution_scopes := {0}\<rparr>)) = Inr Executed"
proof -
  let ?s = "(town_state UPGRADE_TAG town_joint_vote)\<lparr>callback_execution_scopes := {0}\<rparr>"
  have be: "decode_upgrade town_be = (\<lambda>_. Some town_upgrade)" "MaxRuntimeCodeSize town_be = 100" "hash_pow_params town_be = (\<lambda>_. [])"
    "set_code town_be = (\<lambda>new _. (True, new))" "hash256 town_base = (\<lambda>d. d)" by (simp_all add: town_be_def town_base_def)
  have u: "up_code_hash town_upgrade = ''new''" "up_expected_pow_params_hash town_upgrade = []" "up_new_pow_params town_upgrade = pow_genesis_default"
    by (simp_all add: town_upgrade_def)
  have ld: "load_proposal town_be 0 ?s = Some town_upgrade" by (simp add: load_proposal_def town_data be)
  have code: "load_runtime_code town_be 0 ?s = Some ''new''"
    by (simp add: load_runtime_code_def get_proposal_object_meta_def get_proposal_object_def town_state_def engine_genesis_def
        PROPOSAL_OBJECT_KIND_RUNTIME_WASM_def be)
  have st: "stage_params pow_genesis_default (Suc 0) (pow town_business) = (Inr (), pow town_business)"
    by (simp add: stage_params_def town_business_def town_pow_def pow_genesis_default_def validate_pow_params_def target_window_ms_def
        same_values_except_version_def checked_mul_def POW_ALGORITHM_VERSION_def POW_PARAMS_VERSION_def POW_TARGET_BLOCK_TIME_MS_def
        DIFFICULTY_ADJUSTMENT_INTERVAL_def DIFFICULTY_MAX_ADJUST_FACTOR_def DIFFICULTY_MIN_ADJUST_FACTOR_def)
  have now: "block_number (town_state UPGRADE_TAG town_joint_vote) = 0" by (simp add: town_state_def engine_genesis_def)
  have "fst (execute_upgrade_bundle town_be (\<lambda>d. d) 0 ''new'' pow_genesis_default (Some 0) JointVotePath None town_business) = Inr ()"
    by (simp add: execute_upgrade_bundle_def with_transaction_def Let_def sat_into_def max_of_def checked_add_def execute_runtime_code_def st be)
  then obtain y where "execute_upgrade_bundle town_be (\<lambda>d. d) 0 ''new'' pow_genesis_default (Some 0) JointVotePath None town_business = (Inr (), y)"
    by (metis prod.collapse)
  then show ?thesis
    by (simp add: upgrade_on_joint_vote_finalized_def upgrade_apply_joint_vote_result_def Let_def ld code town_joint town_owner tag_facts
        is_callback_execution_scope_def be u now)
qed

theorem upgrade_executed_witness:
  "let s' = process_execution town_env 5 (0, \<lparr>attempts = 0, next_attempt_at = 0\<rparr>) (town_state UPGRADE_TAG town_joint_vote) in
     proposals s' 0 = Some (town_joint_vote\<lparr>p_status := STATUS_EXECUTED\<rparr>) \<and> runtime_code (ext s') = ''new''"
proof -
  let ?s = "town_state UPGRADE_TAG town_joint_vote" let ?st = "\<lparr>attempts = 0, next_attempt_at = 0\<rparr>"
  let ?s' = "process_execution town_env 5 (0, ?st) ?s"
  have own: "upgrade_owns_proposal town_base 0 ?s" "\<not> issuance_owns_proposal town_base 0 ?s"
    using tag_facts by (simp_all add: upgrade_owns_proposal_def issuance_owns_proposal_def town_own)
  obtain x where "upgrade_on_joint_vote_finalized town_be town_base 0 True (?s\<lparr>callback_execution_scopes := {0}\<rparr>) = (Inr Executed, x)"
    using town_upgrades by (metis prod.collapse)
  moreover have "upgrade_owns_proposal town_base 0 (?s\<lparr>callback_execution_scopes := {0}\<rparr>)" "\<not> issuance_owns_proposal town_base 0 (?s\<lparr>callback_execution_scopes := {0}\<rparr>)"
    by (simp_all add: upgrade_owns_proposal_def issuance_owns_proposal_def town_owner tag_facts)
  ultimately have ex: "proposals ?s' 0 = Some (town_joint_vote\<lparr>p_status := STATUS_EXECUTED\<rparr>)"
    by (intro town_settles [where c = "runtime_joint_callback town_be town_base"])
       (auto simp: callback_of_def town_joint runtime_joint_callback_def kind_defs)
  have code: "load_runtime_code town_be 0 ?s = Some ''new''"
    by (simp add: load_runtime_code_def get_proposal_object_meta_def get_proposal_object_def town_state_def engine_genesis_def
        PROPOSAL_OBJECT_KIND_RUNTIME_WASM_def) (simp add: town_be_def)
  have l: "lawful_set_code town_be" by (simp add: lawful_set_code_def town_be_def)
  from upgrade_executed [OF l town_tracks town_joint(1) own town_joint(6,3,2), of ?s'] ex code
  have "runtime_code (ext ?s') = ''new''"
    by (force intro: attempted.automatic simp: town_joint_vote_def town_vote_def upgraded_def)
  with ex show ?thesis unfolding Let_def by simp
qed

end
