(* ===== verification/Grandpa_Keys.thy ===== *)
theory Grandpa_Keys
  imports Business
begin

text \<open>
  Keys of the finality authorities (\<^verbatim>\<open>governance/grandpakey-change/src/\<close>\<open>lib.rs\<close>, \<open>rotation.rs\<close>, \<open>recovery.rs\<close>, \<open>proof.rs\<close>): an institution
  replaces its key with a proof of both keys, or recovers it by an internal vote with a proof of the new key only; the
  recorded keys follow once the finality module of the framework has changed its authorities. The finality module,
  signatures and curve points are parameters; a public key is its 32 bytes read as a number.
\<close>

section \<open>Data\<close>

type_synonym public_key = nat
type_synonym authority_list = "(public_key \<times> u64) list"

definition KEYS_TAG :: string where "KEYS_TAG = ''gra-key''"
definition ACTION_GRANDPA_KEY_EMERGENCY_RECOVERY :: u32 where "ACTION_GRANDPA_KEY_EMERGENCY_RECOVERY = 0"
definition ACTION_GRANDPA_KEY_ROTATION :: u32 where "ACTION_GRANDPA_KEY_ROTATION = 1"

datatype grandpa_key_change_kind = RoutineRotation | EmergencyRecovery

record grandpa_key_proof_payload =
  pp_genesis_hash :: string
  pp_actor_cid_number :: cid_number
  pp_actor_role_code :: role_code
  pp_initiator_account_id :: account
  pp_old_public_key :: public_key
  pp_new_public_key :: public_key
  pp_current_set_id :: u64
  pp_proof_nonce :: u64
  pp_proof_expires_at :: block_number
  pp_change_kind :: grandpa_key_change_kind

record recovery_action =
  rv_actor_cid_number :: cid_number
  rv_actor_role_code :: role_code
  rv_initiator_account_id :: account
  rv_old_public_key :: public_key
  rv_new_public_key :: public_key
  rv_proof_nonce :: u64
  rv_proof_expires_at :: block_number

record pending_key_change =
  pk_actor_cid_number :: cid_number
  pk_initiator_account_id :: account
  pk_old_public_key :: public_key
  pk_new_public_key :: public_key
  pk_proof_nonce :: u64
  pk_change_kind :: grandpa_key_change_kind
  pk_proposal_id :: "proposal_id option"
  pk_expected_set_id :: u64
  pk_scheduled_at :: block_number
  pk_activate_at :: block_number

datatype key_event =
    EmergencyRecoveryProposed proposal_id institution_code cid_number account public_key public_key u64
  | RoutineRotationScheduled cid_number account public_key public_key u64 u64 block_number
  | EmergencyRecoveryScheduled proposal_id cid_number public_key public_key u64 block_number
  | GrandpaKeyActivated cid_number public_key public_key grandpa_key_change_kind u64
  | EmergencyRecoveryExecutionFailed proposal_id
  | EmergencyRecoveryClosed proposal_id cid_number

datatype key_error =
    KeyInvalidInstitution | KeyUnauthorizedAdmin | RecoveryActionNotFound | RecoveryNotPassed | CurrentGrandpaKeyNotFound
  | NewKeyIsZero | InvalidEd25519Key | NewKeyUnchanged | NewKeyAlreadyUsed | NewKeyAlreadyReserved | OldAuthorityNotFound
  | GrandpaChangePending | EmergencyRecoveryAlreadyActive | EmergencyRecoveryNotActive | InvalidProofNonce | ProofExpired
  | InvalidOldKeySignature | InvalidNewKeySignature | ProofNonceOverflow | SetIdOverflow | ProposalStillExecutable

datatype key_failure = KeyError key_error | FinalityError | KeyEngineError dispatch_error | KeyNotSigned

definition key_dispatch :: "key_failure \<Rightarrow> dispatch_error" where
  "key_dispatch f = (case f of KeyEngineError d \<Rightarrow> d | KeyNotSigned \<Rightarrow> BadOrigin | _ \<Rightarrow> Module ''grandpakey'')"

record ('g, 'r) key_storage =
  CurrentGrandpaKeys :: "cid_number \<rightharpoonup> public_key"
  GrandpaKeyOwnerByKey :: "public_key \<rightharpoonup> cid_number"
  ReservedGrandpaKeys :: "public_key \<rightharpoonup> cid_number"
  NextGrandpaKeyProofNonce :: "cid_number \<Rightarrow> u64"
  ActiveEmergencyRecoveryByInstitution :: "cid_number \<rightharpoonup> proposal_id"
  PendingGrandpaKeyChange :: "pending_key_change option"
  finality :: 'g
  key_registries :: 'r
  key_events :: "key_event list"

text \<open>The finality module: its authorities, the number of the set, and the one change it may have scheduled.\<close>

record ('g, 'r) key_env =
  grandpa_authorities :: "'g \<Rightarrow> authority_list"
  current_set_id :: "'g \<Rightarrow> u64"
  pending_change :: "'g \<Rightarrow> authority_list option"
  schedule_change :: "authority_list \<Rightarrow> u32 \<Rightarrow> 'g \<Rightarrow> bool \<times> 'g"
  finality_hook :: "block_number \<Rightarrow> 'g \<Rightarrow> 'g"
  decompresses :: "public_key \<Rightarrow> bool"
  is_small_order :: "public_key \<Rightarrow> bool"
  signing_digest :: "grandpa_key_proof_payload \<Rightarrow> string"
  ed25519_verify :: "string \<Rightarrow> string \<Rightarrow> public_key \<Rightarrow> bool"
  genesis_hash :: string
  GrandpaChangeDelay :: u32
  encode_recovery :: "recovery_action \<Rightarrow> string"
  decode_recovery :: "string \<Rightarrow> recovery_action option"
  key_is_authorized :: "account \<Rightarrow> role_subject \<Rightarrow> business_action_id \<Rightarrow> role_permission_operation \<Rightarrow> 'r \<Rightarrow> bool"
  key_role_subjects :: "cid_number \<Rightarrow> business_action_id \<Rightarrow> role_permission_operation \<Rightarrow> 'r \<Rightarrow> role_subject list"

definition announce_key :: "key_event \<Rightarrow> ('g, 'r) key_storage \<Rightarrow> ('g, 'r) key_storage" where
  "announce_key e x = x\<lparr>key_events := key_events x @ [e]\<rparr>"

section \<open>Genesis\<close>

text \<open>The keys of the entries of \<^verbatim>\<open>CHINA_CB\<close>, in their order.\<close>

definition CHINA_CB_KEYS :: "public_key list" where
  "CHINA_CB_KEYS =
     [0x3719c39cf92462da2e22a7dfa760f463c801dd86a27a4151d24935e42692e5b5,
      0x14803cd63d5ad6c76e0141f730f18f2c4a30ecfaa3631681e490cb5e25ca0958,
      0x8d9de5d1b44d39f9567b76a5348d68a497d06b73215d5e89bfdf4f6a6b2f36aa,
      0xfebdaa3b1c416bffc6ba1e13f799b5295c4644a0d695fe6da7bff3cf6754a903,
      0x669d64a0c7c7ba5be629580d8898f9003105b13d18372392cd85562b2782b233,
      0x8860948348df8b4efe240829671408476643dbf8d2e07d0bca8f3ea6271c5c51,
      0x2d6cfe57d3212c066260cb568645ed0d442a632b24031930b97ca3242111e021,
      0x26498679676d181b1346964f5815b94bf766bd284d529ce8e5625547af1fbab3,
      0x1c03da677a1ae2e9b4907dc72016ea65adc3d20711f93b8e96f2aa75468072c0,
      0x4b9547092662fba8d70658eee8c999c5f5044b2574054a3ce62b2ed19b5645d1,
      0x782c1fc618af8c3e1eb225f1b068eb35dfc54e3db2c8067a0ddb55308d62a3d4,
      0xa2a7643951e81f6189834bd5c70ee27eddd402ac7c4ef749f40955042b4bb43e,
      0xa3819330ccac67a93f09679f81e919e5cc2eedf7166e69a62d402be6ec39de2a,
      0xecbfcf8a0c4e9954f0d8ea71d85b91ad0142b5c5821a74fab99a041be4192948,
      0x63e4ac90760504c650773312df9c4ce2faec662c544aeec9c6fcad41654a78c8,
      0xe9227e239d61c3ba1463ac0b2206cecf35ebe73a48c7a702a76aeac20327c653,
      0x7ce0745ab3270b66570b4b2fa7ef0ea2fd4df5065488c05282cd8ed8c938c199,
      0xb10a24b974dabe5f008973007ea3fb67c4af2c7ae77b71f01e0249ac366daab8,
      0x14cd5c8e07f738cc3719b4e66c33d81fa3a4baf6f6e50ae1d48d4e2ffb8e47b2,
      0x599aa6bb3cf9d48d99599de3c5948308e32dbb427f49346cdab95fe82863b747,
      0x26daeb08619448a235d712daa63bf81b97710f684801d22c847624e070e4f600,
      0xfa9e7becc8a5984cf15c50ca83e3918adc79521281e2d75ebfcccb7d3e5be8f3,
      0xe0dfc5bde6f32d6d41648006c69f6489dea06c37259c57b716ff025fa4fa31af,
      0x15829c6f8588903ecbf17207b5fad6d5e766f7512325b13850b43ddd2886305,
      0x1527123566372a8082a2d1b62f2dbd00ae3c56f2f71b51b8228178400774c3f3,
      0xdb5d32816bddb7a0e1d0d17d3863923eb32f76eed87604d0d410a74900195b87,
      0x9ffdedc39ab82f7766022a3b53149ffb0f2611567961c0570880adab1a01af88,
      0x8133cf439c9142737b34655c48658135d7f946c9d60615a80ed14bad4fec1141,
      0x94a7d8f2f0b613dbb1509cc31ffa832188af9f547a0ce25ffe4be56a1cb10e07,
      0x6c5ee4dd2a7b9f82a2f04e9eb3bf5ba970adce79cffa662d2dc84adc4ce42492,
      0x903f1fcba7a60aeca0221c0fe9dad52b28437775732360a318bc07326638dd39,
      0x2f0fcd64f31a318077484148bdf3db0d95de25860764985214356dc3371d598e,
      0xeaf447ce1635e7165e9588b6d2864ddf31e2a33ccff69f7a46d69ee2317b4a52,
      0x4de5bc4fa8fe5cdce4c1cb00ddce6db55ce5926b8189741cb3cd43d8155f99,
      0xad9ea30f1f967672f8d1b7aabbd8443d860dd2af2e9c9fd9b6a0358fe1690d20,
      0xe1dfa8bc752665d0becd9287b28415ced4193371f7cde21e244a8f5b6a1a1a48,
      0xad5fa47ad61097e5dbe077066f34e3cdba31ca0194c184fe556a2f62c4c18172,
      0xae47a89d45e0649ac98aa832eb7d6ae10d6111b30cf64eb118c428c24a00081d,
      0x82842c89fe9ce2eca5df47ad92d787e255c0b0dd3ec18947b801077b57743520,
      0x4684cd4740972bca1df018cce973771df605cf404c3762c1976f52f9700db391,
      0x87f64d53701b846b019341f356e738a87d6c20b244bf2e2d89351717b385a8f3,
      0xe7ef1b4ae92e95e9c8b3fb5856e86ea77f596e82c75af20802d61106ca26a25d,
      0xbde5599cdd158c196a45025689be5166a0e4e0ef9e932523040debed85f8b59,
      0xa69514c16012e39f3bc49941afa58871aeb46bbfb7825bd296133bad9cd0db9a]"

fun genesis_keys :: "(cid_number \<times> public_key) list \<Rightarrow> ('g, 'r) key_storage \<Rightarrow> ('g, 'r) key_storage option" where
  "genesis_keys [] x = Some x"
| "genesis_keys ((cid, key) # nodes) x =
     (if CID_NUMBER_MAX_BYTES < length cid then None
      else if GrandpaKeyOwnerByKey x key \<noteq> None then None
      else genesis_keys nodes (x\<lparr>CurrentGrandpaKeys := (CurrentGrandpaKeys x)(cid \<mapsto> key),
        GrandpaKeyOwnerByKey := (GrandpaKeyOwnerByKey x)(key \<mapsto> cid)\<rparr>))"

definition key_genesis :: "'g \<Rightarrow> 'r \<Rightarrow> ('g, 'r) key_storage option" where
  "key_genesis g r = genesis_keys (zip CHINA_CB CHINA_CB_KEYS)
     \<lparr>CurrentGrandpaKeys = (\<lambda>_. None), GrandpaKeyOwnerByKey = (\<lambda>_. None), ReservedGrandpaKeys = (\<lambda>_. None),
      NextGrandpaKeyProofNonce = (\<lambda>_. 0), ActiveEmergencyRecoveryByInstitution = (\<lambda>_. None), PendingGrandpaKeyChange = None,
      finality = g, key_registries = r, key_events = []\<rparr>"

section \<open>Proofs\<close>

definition cid_org :: "cid_number \<Rightarrow> institution_code option" where
  "cid_org cid =
     (if \<not> utf8_valid cid then None
      else case institution_code_from_cid_number cid of
        None \<Rightarrow> None
      | Some code \<Rightarrow> if code = NRC then Some NRC else if code = PRC then Some PRC else None)"

definition proof_payload ::
  "('g, 'r) key_env \<Rightarrow> cid_number \<Rightarrow> role_code \<Rightarrow> account \<Rightarrow> public_key \<Rightarrow> public_key \<Rightarrow> u64 \<Rightarrow> block_number \<Rightarrow>
   grandpa_key_change_kind \<Rightarrow> ('g, 'r) key_storage \<Rightarrow> grandpa_key_proof_payload" where
  "proof_payload ke cid role who old new nonce expires kind x =
     \<lparr>pp_genesis_hash = genesis_hash ke, pp_actor_cid_number = cid, pp_actor_role_code = role, pp_initiator_account_id = who,
      pp_old_public_key = old, pp_new_public_key = new, pp_current_set_id = current_set_id ke (finality x), pp_proof_nonce = nonce,
      pp_proof_expires_at = expires, pp_change_kind = kind\<rparr>"

definition verify_signature :: "('g, 'r) key_env \<Rightarrow> public_key \<Rightarrow> string \<Rightarrow> grandpa_key_proof_payload \<Rightarrow> bool" where
  "verify_signature ke key sig payload = ed25519_verify ke sig (signing_digest ke payload) key"

definition ensure_proof_window :: "cid_number \<Rightarrow> u64 \<Rightarrow> block_number \<Rightarrow> block_number \<Rightarrow> ('g, 'r) key_storage \<Rightarrow> key_error + unit" where
  "ensure_proof_window cid nonce expires now x =
     (if NextGrandpaKeyProofNonce x cid \<noteq> nonce then Inl InvalidProofNonce
      else if expires < now then Inl ProofExpired
      else if checked_add 64 nonce 1 = None then Inl ProofNonceOverflow
      else Inr ())"

definition consume_proof_nonce :: "cid_number \<Rightarrow> u64 \<Rightarrow> ('g, 'r) key_storage \<Rightarrow> (key_error, unit, ('g, 'r) key_storage) outcome" where
  "consume_proof_nonce cid nonce x =
     ok_or (checked_add 64 nonce 1) ProofNonceOverflow x (\<lambda>next.
     (Inr (), x\<lparr>NextGrandpaKeyProofNonce := (NextGrandpaKeyProofNonce x)(cid := next)\<rparr>))"

section \<open>Replacing an authority\<close>

definition validate_public_key :: "('g, 'r) key_env \<Rightarrow> public_key \<Rightarrow> key_error + unit" where
  "validate_public_key ke key =
     (if key = 0 then Inl NewKeyIsZero
      else if \<not> decompresses ke key then Inl InvalidEd25519Key
      else if is_small_order ke key then Inl InvalidEd25519Key
      else Inr ())"

definition replace_authority :: "public_key \<Rightarrow> public_key \<Rightarrow> authority_list \<Rightarrow> authority_list" where
  "replace_authority old new as = map (\<lambda>(a, w). if a = old then (new, w) else (a, w)) as"

definition current_key_and_next_authorities ::
  "('g, 'r) key_env \<Rightarrow> cid_number \<Rightarrow> public_key \<Rightarrow> bool \<Rightarrow> ('g, 'r) key_storage \<Rightarrow> key_error + public_key \<times> authority_list" where
  "current_key_and_next_authorities ke cid new allow_matching_reservation x =
     (if \<not> (PendingGrandpaKeyChange x = None \<and> pending_change ke (finality x) = None) then Inl GrandpaChangePending
      else case validate_public_key ke new of
        Inl e \<Rightarrow> Inl e
      | Inr _ \<Rightarrow>
          (case CurrentGrandpaKeys x cid of
             None \<Rightarrow> Inl CurrentGrandpaKeyNotFound
           | Some old \<Rightarrow>
               if old = new then Inl NewKeyUnchanged
               else if (case GrandpaKeyOwnerByKey x new of None \<Rightarrow> False | Some owner \<Rightarrow> owner \<noteq> cid) then Inl NewKeyAlreadyUsed
               else if (case ReservedGrandpaKeys x new of None \<Rightarrow> False | Some owner \<Rightarrow> \<not> (allow_matching_reservation \<and> owner = cid))
               then Inl NewKeyAlreadyReserved
               else let authorities = grandpa_authorities ke (finality x); next = replace_authority old new authorities in
                 if old \<notin> fst ` set authorities then Inl OldAuthorityNotFound
                 else if \<not> distinct (map fst next) then Inl NewKeyAlreadyUsed
                 else Inr (old, next)))"

definition schedule_replacement ::
  "('g, 'r) key_env \<Rightarrow> cid_number \<Rightarrow> account \<Rightarrow> public_key \<Rightarrow> public_key \<Rightarrow> u64 \<Rightarrow> grandpa_key_change_kind \<Rightarrow> proposal_id option \<Rightarrow>
   authority_list \<Rightarrow> block_number \<Rightarrow> ('g, 'r) key_storage \<Rightarrow> (key_failure, pending_key_change, ('g, 'r) key_storage) outcome" where
  "schedule_replacement ke cid who old new nonce kind proposal next now x =
     ok_or (checked_add 64 (current_set_id ke (finality x)) 1) (KeyError SetIdOverflow) x (\<lambda>expected.
     case schedule_change ke next (GrandpaChangeDelay ke) (finality x) of
       (ok, g) \<Rightarrow>
         let x = x\<lparr>finality := g\<rparr> in
         if \<not> ok then (Inl FinalityError, x)
         else let pending = \<lparr>pk_actor_cid_number = cid, pk_initiator_account_id = who, pk_old_public_key = old, pk_new_public_key = new,
                pk_proof_nonce = nonce, pk_change_kind = kind, pk_proposal_id = proposal, pk_expected_set_id = expected,
                pk_scheduled_at = now, pk_activate_at = sat_add 32 now (GrandpaChangeDelay ke)\<rparr> in
           (Inr pending, x\<lparr>PendingGrandpaKeyChange := Some pending, ReservedGrandpaKeys := (ReservedGrandpaKeys x)(new \<mapsto> cid)\<rparr>))"

text \<open>The block hook: the recorded keys follow once the new key is an authority and the old one is not.\<close>

definition reconcile_pending_change :: "('g, 'r) key_env \<Rightarrow> ('g, 'r) key_storage \<Rightarrow> bool \<times> ('g, 'r) key_storage" where
  "reconcile_pending_change ke x =
     (case PendingGrandpaKeyChange x of
        None \<Rightarrow> (False, x)
      | Some p \<Rightarrow>
          let authorities = fst ` set (grandpa_authorities ke (finality x)) in
          if pk_new_public_key p \<notin> authorities \<or> pk_old_public_key p \<in> authorities then (False, x)
          else (True, announce_key (GrandpaKeyActivated (pk_actor_cid_number p) (pk_old_public_key p) (pk_new_public_key p)
                 (pk_change_kind p) (pk_expected_set_id p))
               (x\<lparr>CurrentGrandpaKeys := (CurrentGrandpaKeys x)(pk_actor_cid_number p \<mapsto> pk_new_public_key p),
                  GrandpaKeyOwnerByKey := (GrandpaKeyOwnerByKey x)(pk_old_public_key p := None, pk_new_public_key p \<mapsto> pk_actor_cid_number p),
                  ReservedGrandpaKeys := (ReservedGrandpaKeys x)(pk_new_public_key p := None),
                  PendingGrandpaKeyChange := None\<rparr>)))"

section \<open>Authorisation\<close>

definition key_action :: "u32 \<Rightarrow> business_action_id" where
  "key_action code = \<lparr>module_tag = KEYS_TAG, action_code = code\<rparr>"

definition build_emergency_vote_plan ::
  "('g, 'r) key_env \<Rightarrow> account \<Rightarrow> cid_number \<Rightarrow> role_code \<Rightarrow> string \<Rightarrow> 'r \<Rightarrow> key_failure + vote_plan" where
  "build_emergency_vote_plan ke who cid role obj_hash rg =
     (let action_id = key_action ACTION_GRANDPA_KEY_EMERGENCY_RECOVERY; proposer = \<lparr>rs_cid_number = cid, rs_role_code = role\<rparr>;
          voters = key_role_subjects ke cid action_id VoteOperation rg in
      if \<not> key_is_authorized ke who proposer action_id ProposeOperation rg then Inl (KeyError KeyUnauthorizedAdmin)
      else if \<not> list_all bounded_subject voters then Inl (KeyEngineError (VotingEngine InvalidVotePlan))
      else if voters = [] then Inl (KeyError KeyUnauthorizedAdmin)
      else if BUSINESS_MODULE_TAG_MAX_BYTES < length KEYS_TAG then Inl (KeyEngineError (VotingEngine InvalidVotePlan))
      else if \<not> bounded_subject proposer then Inl (KeyEngineError (VotingEngine InvalidVotePlan))
      else (case vote_plan_try_new action_id KEYS_TAG (Institution proposer) (map Institution voters) Internal obj_hash of
              Inl _ \<Rightarrow> Inl (KeyEngineError (VotingEngine InvalidVotePlan))
            | Inr plan \<Rightarrow> Inr plan))"

definition authorize_routine_rotation :: "('g, 'r) key_env \<Rightarrow> account \<Rightarrow> cid_number \<Rightarrow> role_code \<Rightarrow> 'r \<Rightarrow> key_error + unit" where
  "authorize_routine_rotation ke who cid role rg =
     (if key_is_authorized ke who \<lparr>rs_cid_number = cid, rs_role_code = role\<rparr> (key_action ACTION_GRANDPA_KEY_ROTATION) ProposeOperation rg
      then Inr () else Inl KeyUnauthorizedAdmin)"

section \<open>Calls\<close>

definition kresult :: "(key_error + 'a) \<Rightarrow> 's \<Rightarrow> ('a \<Rightarrow> (key_failure, 'c, 's) outcome) \<Rightarrow> (key_failure, 'c, 's) outcome" where
  "kresult r s k = (case r of Inl e \<Rightarrow> (Inl (KeyError e), s) | Inr a \<Rightarrow> k a)"

text \<open>An operation on the module's own storage, inside the storage of the chain.\<close>

definition on_keys :: "('g, 'r) key_storage engine \<Rightarrow> (('g, 'r) key_storage \<Rightarrow> (key_failure, 'a, ('g, 'r) key_storage) outcome) \<Rightarrow>
   (key_failure, 'a, ('g, 'r) key_storage engine) outcome" where
  "on_keys s f = (case f (ext s) of (r, x) \<Rightarrow> (r, s\<lparr>ext := x\<rparr>))"

definition nonce_result :: "(key_error, unit, 's) outcome \<Rightarrow> (key_failure, unit, 's) outcome" where
  "nonce_result m = (case m of (Inl e, s) \<Rightarrow> (Inl (KeyError e), s) | (Inr a, s) \<Rightarrow> (Inr a, s))"

definition key_engine :: "(dispatch_error, 'a, 's) outcome \<Rightarrow> (key_failure, 'a, 's) outcome" where
  "key_engine m = (case m of (Inl e, s) \<Rightarrow> (Inl (KeyEngineError e), s) | (Inr a, s) \<Rightarrow> (Inr a, s))"

definition propose_emergency_grandpa_key_recovery ::
  "('g, 'r) key_env \<Rightarrow> ('g, 'r) key_storage env \<Rightarrow> account option \<Rightarrow> cid_number \<Rightarrow> role_code \<Rightarrow> public_key \<Rightarrow> u64 \<Rightarrow> block_number \<Rightarrow> string \<Rightarrow>
   ('g, 'r) key_storage engine \<Rightarrow> (key_failure, unit, ('g, 'r) key_storage engine) outcome" where
  "propose_emergency_grandpa_key_recovery ke env signer cid role new nonce expires new_sig = with_transaction (\<lambda>s.
     let x = ext s in
     ok_or signer KeyNotSigned s (\<lambda>who.
     ok_or (cid_org cid) (KeyError KeyInvalidInstitution) s (\<lambda>code.
     ensure (ActiveEmergencyRecoveryByInstitution x cid = None) (KeyError EmergencyRecoveryAlreadyActive) s (\<lambda>s.
     kresult (ensure_proof_window cid nonce expires (block_number s) x) s (\<lambda>_.
     kresult (current_key_and_next_authorities ke cid new False x) s (\<lambda>(old, _).
     ensure (verify_signature ke new new_sig (proof_payload ke cid role who old new nonce expires EmergencyRecovery x))
       (KeyError InvalidNewKeySignature) s (\<lambda>s.
     let data = KEYS_TAG @ encode_recovery ke \<lparr>rv_actor_cid_number = cid, rv_actor_role_code = role, rv_initiator_account_id = who,
           rv_old_public_key = old, rv_new_public_key = new, rv_proof_nonce = nonce, rv_proof_expires_at = expires\<rparr> in
     result_or (build_emergency_vote_plan ke who cid role (hash256 env data) (key_registries x)) s (\<lambda>plan.
     and_then (key_engine (create_institution_proposal_with_data env who code cid None [cid] plan data s)) (\<lambda>i s.
     let s = upd_ext (\<lambda>x. x\<lparr>ActiveEmergencyRecoveryByInstitution := (ActiveEmergencyRecoveryByInstitution x)(cid \<mapsto> i),
           ReservedGrandpaKeys := (ReservedGrandpaKeys x)(new \<mapsto> cid)\<rparr>) s in
     and_then (on_keys s (\<lambda>x. nonce_result (consume_proof_nonce cid nonce x))) (\<lambda>_ s.
     (Inr (), upd_ext (announce_key (EmergencyRecoveryProposed i code cid who old new nonce)) s)))))))))))"

definition schedule_grandpa_key_rotation ::
  "('g, 'r) key_env \<Rightarrow> account option \<Rightarrow> cid_number \<Rightarrow> role_code \<Rightarrow> public_key \<Rightarrow> u64 \<Rightarrow> block_number \<Rightarrow> string \<Rightarrow> string \<Rightarrow>
   ('g, 'r) key_storage engine \<Rightarrow> (key_failure, unit, ('g, 'r) key_storage engine) outcome" where
  "schedule_grandpa_key_rotation ke signer cid role new nonce expires old_sig new_sig = with_transaction (\<lambda>s.
     let x = ext s in
     ok_or signer KeyNotSigned s (\<lambda>who.
     ok_or (cid_org cid) (KeyError KeyInvalidInstitution) s (\<lambda>_.
     ensure (ActiveEmergencyRecoveryByInstitution x cid = None) (KeyError EmergencyRecoveryAlreadyActive) s (\<lambda>s.
     kresult (authorize_routine_rotation ke who cid role (key_registries x)) s (\<lambda>_.
     kresult (ensure_proof_window cid nonce expires (block_number s) x) s (\<lambda>_.
     kresult (current_key_and_next_authorities ke cid new False x) s (\<lambda>(old, next).
     let payload = proof_payload ke cid role who old new nonce expires RoutineRotation x in
     ensure (verify_signature ke old old_sig payload) (KeyError InvalidOldKeySignature) s (\<lambda>s.
     ensure (verify_signature ke new new_sig payload) (KeyError InvalidNewKeySignature) s (\<lambda>s.
     and_then (on_keys s (schedule_replacement ke cid who old new nonce RoutineRotation None next (block_number s))) (\<lambda>pending s.
     and_then (on_keys s (\<lambda>x. nonce_result (consume_proof_nonce cid nonce x))) (\<lambda>_ s.
     (Inr (), upd_ext (announce_key (RoutineRotationScheduled cid who old new nonce (pk_expected_set_id pending) (pk_activate_at pending))) s))))))))))))"

section \<open>Execution of a recovery\<close>

definition cleanup_recovery :: "proposal_id \<Rightarrow> recovery_action \<Rightarrow> ('g, 'r) key_storage \<Rightarrow> ('g, 'r) key_storage" where
  "cleanup_recovery i a x =
     (let x = (if ActiveEmergencyRecoveryByInstitution x (rv_actor_cid_number a) = Some i
               then x\<lparr>ActiveEmergencyRecoveryByInstitution := (ActiveEmergencyRecoveryByInstitution x)(rv_actor_cid_number a := None)\<rparr> else x) in
      if ReservedGrandpaKeys x (rv_new_public_key a) = Some (rv_actor_cid_number a)
      then x\<lparr>ReservedGrandpaKeys := (ReservedGrandpaKeys x)(rv_new_public_key a := None)\<rparr> else x)"

definition validate_emergency_action ::
  "('g, 'r) key_env \<Rightarrow> proposal_id \<Rightarrow> recovery_action \<Rightarrow> ('g, 'r) key_storage \<Rightarrow> key_error + authority_list" where
  "validate_emergency_action ke i a x =
     (if ActiveEmergencyRecoveryByInstitution x (rv_actor_cid_number a) \<noteq> Some i then Inl EmergencyRecoveryNotActive
      else if ReservedGrandpaKeys x (rv_new_public_key a) \<noteq> Some (rv_actor_cid_number a) then Inl EmergencyRecoveryNotActive
      else case current_key_and_next_authorities ke (rv_actor_cid_number a) (rv_new_public_key a) True x of
        Inl e \<Rightarrow> Inl e
      | Inr (current, next) \<Rightarrow>
          if current \<noteq> rv_old_public_key a then Inl OldAuthorityNotFound
          else if \<not> key_is_authorized ke (rv_initiator_account_id a)
              \<lparr>rs_cid_number = rv_actor_cid_number a, rs_role_code = rv_actor_role_code a\<rparr>
              (key_action ACTION_GRANDPA_KEY_EMERGENCY_RECOVERY) ProposeOperation (key_registries x)
          then Inl KeyUnauthorizedAdmin
          else Inr next)"

definition try_execute_emergency_action ::
  "('g, 'r) key_env \<Rightarrow> ('g, 'r) key_storage env \<Rightarrow> proposal_id \<Rightarrow> recovery_action \<Rightarrow> ('g, 'r) key_storage engine \<Rightarrow>
   (key_failure, unit, ('g, 'r) key_storage) outcome" where
  "try_execute_emergency_action ke env i a s =
     (let x = ext s in
      ok_or (proposals s i) (KeyError RecoveryActionNotFound) x (\<lambda>p.
      ok_or (cid_org (rv_actor_cid_number a)) (KeyError KeyInvalidInstitution) x (\<lambda>code.
      ensure (is_callback_execution_scope i s \<and> is_proposal_owner env i KEYS_TAG s \<and>
          p_kind p = PROPOSAL_KIND_INTERNAL \<and> p_stage p = STAGE_INTERNAL \<and> p_status p = STATUS_PASSED \<and>
          p_internal_code p = Some code \<and> p_actor_cid_number p = Some (rv_actor_cid_number a) \<and> p_execution_account_id p = None)
        (KeyError RecoveryNotPassed) x (\<lambda>x.
      kresult (validate_emergency_action ke i a x) x (\<lambda>next.
      and_then (schedule_replacement ke (rv_actor_cid_number a) (rv_initiator_account_id a) (rv_old_public_key a) (rv_new_public_key a)
          (rv_proof_nonce a) EmergencyRecovery (Some i) next (block_number s) x) (\<lambda>pending x.
      (Inr (), announce_key (EmergencyRecoveryScheduled i (rv_actor_cid_number a) (rv_old_public_key a) (rv_new_public_key a)
          (pk_expected_set_id pending) (pk_activate_at pending))
        (x\<lparr>ActiveEmergencyRecoveryByInstitution := (ActiveEmergencyRecoveryByInstitution x)(rv_actor_cid_number a := None)\<rparr>))))))))"

text \<open>The data of a proposal of this module, if it is one.\<close>

definition own_recovery_data :: "('g, 'r) key_storage env \<Rightarrow> proposal_id \<Rightarrow> ('g, 'r) key_storage engine \<Rightarrow> string option" where
  "own_recovery_data env i s =
     (case get_proposal_data i s of
        None \<Rightarrow> None
      | Some raw \<Rightarrow>
          if is_proposal_owner env i KEYS_TAG s \<and> take (length KEYS_TAG) raw = KEYS_TAG then Some (drop (length KEYS_TAG) raw) else None)"

definition key_on_internal_vote_finalized ::
  "('g, 'r) key_env \<Rightarrow> ('g, 'r) key_storage env \<Rightarrow> proposal_id \<Rightarrow> bool \<Rightarrow> ('g, 'r) key_storage engine \<Rightarrow>
   (dispatch_error + proposal_execution_outcome) \<times> ('g, 'r) key_storage" where
  "key_on_internal_vote_finalized ke env i approved s =
     (case own_recovery_data env i s of
        None \<Rightarrow> (Inr Ignored, ext s)
      | Some raw \<Rightarrow>
          (case decode_recovery ke raw of
             None \<Rightarrow> (Inl (key_dispatch (KeyError RecoveryActionNotFound)), ext s)
           | Some a \<Rightarrow>
               if \<not> approved
               then (Inr Executed, announce_key (EmergencyRecoveryClosed i (rv_actor_cid_number a)) (cleanup_recovery i a (ext s)))
               else (case try_execute_emergency_action ke env i a s of
                  (Inr _, x) \<Rightarrow> (Inr Executed, x)
                | (Inl e, x) \<Rightarrow>
                    if e = KeyError GrandpaChangePending then (Inr RetryableFailed, announce_key (EmergencyRecoveryExecutionFailed i) x)
                    else (Inr FatalFailed, announce_key (EmergencyRecoveryExecutionFailed i) (cleanup_recovery i a x)))))"

definition key_can_cancel_passed_proposal ::
  "('g, 'r) key_env \<Rightarrow> ('g, 'r) key_storage env \<Rightarrow> proposal_id \<Rightarrow> ('g, 'r) key_storage engine \<Rightarrow>
   (dispatch_error + proposal_cancel_decision) \<times> ('g, 'r) key_storage" where
  "key_can_cancel_passed_proposal ke env i s =
     (case own_recovery_data env i s of
        None \<Rightarrow> (Inr CancelIgnored, ext s)
      | Some raw \<Rightarrow>
          (case decode_recovery ke raw of
             None \<Rightarrow> (Inl (key_dispatch (KeyError RecoveryActionNotFound)), ext s)
           | Some a \<Rightarrow>
               (case validate_emergency_action ke i a (ext s) of
                  Inr _ \<Rightarrow> (Inl (key_dispatch (KeyError ProposalStillExecutable)), ext s)
                | Inl e \<Rightarrow>
                    if e = GrandpaChangePending then (Inl (key_dispatch (KeyError GrandpaChangePending)), ext s)
                    else (Inr CancelAllow, announce_key (EmergencyRecoveryClosed i (rv_actor_cid_number a)) (cleanup_recovery i a (ext s))))))"

text \<open>The module does not react to the final failure of an execution.\<close>

definition key_callback :: "('g, 'r) key_env \<Rightarrow> ('g, 'r) key_storage env \<Rightarrow> ('g, 'r) key_storage vote_callback" where
  "key_callback ke env = default_callback\<lparr>on_vote_finalized := key_on_internal_vote_finalized ke env,
     can_cancel_passed_proposal := key_can_cancel_passed_proposal ke env\<rparr>"

end
