(* ===== verification/Storage_Laws.thy ===== *)
theory Storage_Laws
  imports Execution_Effects Business
begin

text \<open>
  Invariants of the storage outside the engine. The engine touches that storage only through the callbacks of the
  business pallets; so a property that every callback keeps is kept by every operation of the engine and of its tracks, by
  every block and by every call, and holds along every run of the chain in which the other pallets keep it.
\<close>

lemma keeps_snd [simp]: "keeps P m \<Longrightarrow> P (snd m)"
  by (simp add: keeps_def)

definition callback_keeps :: "('x \<Rightarrow> bool) \<Rightarrow> 'x vote_callback \<Rightarrow> bool" where
  "callback_keeps P cb \<longleftrightarrow> (\<forall>s i b. P (ext s) \<longrightarrow> P (snd (on_vote_finalized cb i b s)) \<and>
     P (snd (can_cancel_passed_proposal cb i s)) \<and> P (snd (on_execution_failed_terminal cb i s)))"

lemma callback_keepsI:
  "(\<And>s i b. P (ext s) \<Longrightarrow> P (snd (on_vote_finalized cb i b s))) \<Longrightarrow> (\<And>s i. P (ext s) \<Longrightarrow> P (snd (can_cancel_passed_proposal cb i s))) \<Longrightarrow>
   (\<And>s i. P (ext s) \<Longrightarrow> P (snd (on_execution_failed_terminal cb i s))) \<Longrightarrow> callback_keeps P cb"
  by (simp add: callback_keeps_def)

lemma callback_keeps_default [simp]: "callback_keeps P default_callback" "callback_keeps P election_vote_callback"
  by (simp_all add: callback_keeps_def default_callback_def election_vote_callback_def)

lemma callback_keeps_tuple:
  assumes "\<forall>c \<in> set cs. callback_keeps P c"
  shows "callback_keeps P (tuple_callback cs)"
proof (rule callback_keepsI)
  fix s :: "'a engine" and i b assume s: "P (ext s)"
  have "\<forall>c \<in> set cs. callback_keeps P c \<Longrightarrow> P (ext s) \<Longrightarrow> P (snd (tuple_on_vote_finalized cs acc i b s))" for acc and s :: "'a engine"
  proof (induction cs arbitrary: acc s)
    case (Cons c cs)
    then have "P (snd (on_vote_finalized c i b s))" by (simp add: callback_keeps_def)
    with Cons show ?case by (auto split: prod.split sum.split)
  qed simp
  with assms s show "P (snd (on_vote_finalized (tuple_callback cs) i b s))" by (simp add: tuple_callback_def)
next
  fix s :: "'a engine" and i assume s: "P (ext s)"
  have "\<forall>c \<in> set cs. callback_keeps P c \<Longrightarrow> P (ext s) \<Longrightarrow> P (snd (tuple_can_cancel cs acc i s))" for acc and s :: "'a engine"
  proof (induction cs arbitrary: acc s)
    case (Cons c cs)
    then have "P (snd (can_cancel_passed_proposal c i s))" by (simp add: callback_keeps_def)
    with Cons show ?case by (auto split: prod.split sum.split)
  qed simp
  with assms s show "P (snd (can_cancel_passed_proposal (tuple_callback cs) i s))" by (simp add: tuple_callback_def)
next
  fix s :: "'a engine" and i assume s: "P (ext s)"
  have "\<forall>c \<in> set cs. callback_keeps P c \<Longrightarrow> P (ext s) \<Longrightarrow> P (snd (tuple_on_execution_failed cs i s))" for s :: "'a engine"
  proof (induction cs arbitrary: s)
    case (Cons c cs)
    then have "P (snd (on_execution_failed_terminal c i s))" by (simp add: callback_keeps_def)
    with Cons show ?case by (auto split: prod.split sum.split)
  qed simp
  with assms s show "P (snd (on_execution_failed_terminal (tuple_callback cs) i s))" by (simp add: tuple_callback_def)
qed

locale storage_law =
  fixes env :: "'x env" and P :: "'x \<Rightarrow> bool"
  assumes passive_tracks: "tracks_passive env"
    and callbacks: "callback_of env k = Some cb \<Longrightarrow> callback_keeps P cb"
begin

abbreviation law :: "'x engine \<Rightarrow> bool" where
  "law s \<equiv> P (ext s)"

subsection \<open>Callbacks and the life cycle\<close>

lemma law_scope:
  assumes "\<And>t. law t \<Longrightarrow> P (snd (f t))" "law s"
  shows "keeps law (with_callback_execution_scope i f s)"
  using assms(1) [of "in_scope i s"] assms(2) by (simp add: with_callback_execution_scope_def Let_def keeps_def case_prod_beta)

lemma law_invoke: "law t \<Longrightarrow> P (snd (invoke_execution_callback env i k b t))"
  using callbacks by (simp add: invoke_execution_callback_def callback_keeps_def split: option.split)

lemma law_notify: "law t \<Longrightarrow> P (snd (notify_execution_failed_terminal env i k t))"
  using callbacks by (simp add: notify_execution_failed_terminal_def callback_keeps_def split: option.split)

lemma law_notify_or_queue: "law s \<Longrightarrow> law (notify_execution_failed_terminal_or_queue env i k s)"
  using law_scope [of "notify_execution_failed_terminal env i k" s i] law_notify
  by (auto simp: notify_execution_failed_terminal_or_queue_def keeps_def queue_terminal_cleanup_def remove_pending_terminal_cleanup_def
      Let_def deposit_event_def split: prod.splits sum.splits)

lemma law_track_terminal: "law s \<Longrightarrow> keeps law (track_result (tracks_on_proposal_terminal (tracks env) k i st s))"
  using tracks_terminal_ext [of "tracks env" k i st s] passive_tracks by (simp add: keeps_def tracks_passive_def)

lemma law_track_executed: "law s \<Longrightarrow> keeps law (track_result (tracks_on_proposal_executed (tracks env) k i s))"
  using tracks_executed_ext [of "tracks env" k i s] passive_tracks by (simp add: keeps_def tracks_passive_def)

lemma law_event [simp]: "ext (deposit_event e s) = ext s"
  by (simp add: deposit_event_def)

lemma law_apply_terminal: "law s \<Longrightarrow> keeps law (apply_terminal_side_effects env i st s)"
  unfolding apply_terminal_side_effects_def
  by (intro keeps_ensure keeps_and_then keeps_zoom)
     (auto simp: Let_def law_notify_or_queue split: option.split intro!: keeps_and_then law_track_terminal)

lemma law_finish_terminal: "law s \<Longrightarrow> keeps law (finish_terminal_status env i st s)"
  unfolding finish_terminal_status_def by (auto intro!: keeps_and_then law_apply_terminal)

lemma law_set_proposal: "law s \<Longrightarrow> keeps law (set_proposal_status i st s)"
  unfolding set_proposal_status_def by (auto intro!: keeps_ok_or split: sum.split)

lemma law_mark [simp]: "ext (mark_proposal_passed_at i b s) = ext s" "ext (write_status i p st s) = ext s"
  "ext (free_active_slots i p st s) = ext s"
  by (simp_all add: mark_proposal_passed_at_def write_status_def free_active_slots_def Let_def split: option.split)

lemma law_announce: "law s \<Longrightarrow> keeps law (announce_status env i p st s)"
  by (auto simp: announce_status_def Let_def intro!: keeps_and_then law_scope law_invoke)

lemma law_settle: "law s \<Longrightarrow> keeps law (settle_status env i p s)"
  unfolding settle_status_def Let_def by (auto intro!: keeps_ok_or keeps_and_then law_apply_terminal)

lemma law_set_status: "law s \<Longrightarrow> keeps law (set_status_and_emit env i st s)"
  unfolding set_status_and_emit_def
  by (intro keeps_with_transaction keeps_ok_or keeps_and_then keeps_pure_result law_announce law_settle) simp_all

subsection \<open>Execution\<close>

lemma law_schedule_retry: "law s \<Longrightarrow> keeps law (schedule_execution_retry env i s)"
  using schedule_retry_frame [of env i s] by (cases "schedule_execution_retry env i s") (auto simp: keeps_def)

lemma law_apply_outcome: "law s \<Longrightarrow> keeps law (apply_automatic_execution_outcome env i k oc s)"
  unfolding apply_automatic_execution_outcome_def
  by (auto intro!: keeps_and_then law_set_proposal law_track_executed law_schedule_retry split: proposal_execution_outcome.split)

lemma law_removals [simp]:
  "ext (remove_pending_execution i s) = ext s" "ext (remove_terminal_finalization i s) = ext s" "ext (remove_retry_state i s) = ext s"
  "ext (remove_retry_expiration i s) = ext s" "ext (insert_retry_expiration i b s) = ext s" "ext (clear_auto_finalize i s) = ext s"
  "ext (remove_pending_terminal_cleanup i s) = ext s"
  by (simp_all add: remove_pending_execution_def remove_terminal_finalization_def remove_retry_state_def remove_retry_expiration_def
      insert_retry_expiration_def clear_auto_finalize_def remove_pending_terminal_cleanup_def)

lemma law_execute_pending: "law s \<Longrightarrow> keeps law (execute_pending env i s)"
  unfolding execute_pending_def
  by (auto intro!: keeps_ok_or keeps_and_then law_scope law_invoke law_apply_outcome law_finish_terminal)

lemma law_handle_failure: "law s \<Longrightarrow> law (handle_automatic_execution_failure env i st now s)"
proof -
  assume s: "law s"
  then have "keeps law (dead_letter_execution i n now s)" for n
    unfolding dead_letter_execution_def by (auto intro!: keeps_and_then law_set_proposal)
  then have "law t" if "dead_letter_execution i n now s = (r, t)" for n r t
    using that by (metis keeps_pair)
  with s show ?thesis
    by (auto simp: handle_automatic_execution_failure_def Let_def split: option.splits prod.splits sum.splits if_splits)
qed

lemma law_process_execution: "law s \<Longrightarrow> law (process_execution env now e s)"
  using keeps_with_transaction [of law s "execute_pending env (fst e)"] law_execute_pending [of s "fst e"]
  by (auto simp: process_execution_def keeps_def split: prod.splits sum.splits intro: law_handle_failure)

lemma law_fold: "(\<And>e s. law s \<Longrightarrow> law (f e s)) \<Longrightarrow> law s \<Longrightarrow> law (fold f es s)"
  by (induction es arbitrary: s) auto

lemma law_executions: "law s \<Longrightarrow> law (snd (process_pending_proposal_executions env now s))"
  by (auto simp: process_pending_proposal_executions_def Let_def split: prod.splits intro!: law_fold law_process_execution)

lemma law_terminal_finalization: "law s \<Longrightarrow> law (process_terminal_finalization env now e s)"
  using keeps_with_transaction [of law s "finish_terminal_status env (fst e) STATUS_EXECUTION_FAILED"] law_finish_terminal [of s "fst e" STATUS_EXECUTION_FAILED]
  by (auto simp: process_terminal_finalization_def Let_def keeps_def split: option.splits prod.splits sum.splits)

lemma law_terminal_finalizations: "law s \<Longrightarrow> law (snd (process_pending_terminal_finalizations env now s))"
  by (auto simp: process_pending_terminal_finalizations_def Let_def intro!: law_fold law_terminal_finalization)

lemma law_set_and_finish:
  "law s \<Longrightarrow> keeps law (and_then (set_proposal_status i st s) (\<lambda>_ s. finish_terminal_status env i st' (deposit_event e s)))"
  by (auto intro!: keeps_and_then law_set_proposal law_finish_terminal)

lemma law_expire_retry: "law s \<Longrightarrow> keeps law (expire_retry env i s)"
  unfolding expire_retry_def by (auto intro!: keeps_with_transaction law_set_and_finish)

lemma law_reschedule: "law s \<Longrightarrow> keeps law (reschedule_execution_retry_deadline env i b s)"
proof -
  have "law s \<Longrightarrow> keeps law (reschedule_loop n env i b s)" for n
    by (induction n arbitrary: b s)
       (auto simp: queue_execution_retry_deadline_def ok_or_def split: prod.splits sum.splits option.splits)
  then show "law s \<Longrightarrow> ?thesis" by (simp add: reschedule_execution_retry_deadline_def)
qed

lemma law_reschedule_or_queue: "law s \<Longrightarrow> law (reschedule_or_queue env i b d s)"
  using law_reschedule [of s i b]
  by (auto simp: reschedule_or_queue_def queue_pending_retry_expiration_def keeps_def split: prod.splits sum.splits)

lemma law_retry_deadline: "law s \<Longrightarrow> law (process_retry_deadline env now i s)"
  using law_expire_retry [of s i]
  by (auto simp: process_retry_deadline_def keeps_def split: option.splits prod.splits sum.splits intro: law_reschedule_or_queue)

lemma law_retry_deadlines: "law s \<Longrightarrow> law (snd (process_execution_retry_deadlines env now s))"
  by (auto simp: process_execution_retry_deadlines_def Let_def intro!: law_fold law_retry_deadline)

lemma law_retry_expiration:
  assumes "law s"
  shows "law (process_retry_expiration env now e s)"
  using assms law_expire_retry [OF assms, of "fst e"] law_reschedule [OF assms, of "fst e"]
  by (auto simp: process_retry_expiration_def Let_def keeps_def split: option.splits prod.splits sum.splits) (metis snd_conv)+

lemma law_retry_expirations: "law s \<Longrightarrow> law (snd (process_pending_execution_retry_expirations env now s))"
  by (auto simp: process_pending_execution_retry_expirations_def Let_def intro!: law_fold law_retry_expiration)

lemma law_terminal_cleanup_loop: "law s \<Longrightarrow> law (snd (terminal_cleanup_loop env is w s))"
proof (induction "is" arbitrary: w s)
  case (Cons i rest)
  have "law t" if "with_callback_execution_scope i (notify_execution_failed_terminal env i k) s = (r, t)" for k r t
    using law_scope [of "notify_execution_failed_terminal env i k" s i] law_notify Cons.prems that by simp
  with Cons.prems show ?case unfolding terminal_cleanup_loop.simps Let_def
    by (intro Cons.IH) (auto split: option.splits prod.splits sum.splits)
qed simp

lemma law_terminal_cleanups: "law s \<Longrightarrow> law (snd (process_pending_terminal_cleanups env s))"
  by (simp add: process_pending_terminal_cleanups_def Let_def law_terminal_cleanup_loop)

lemma law_retry_outcome: "law s \<Longrightarrow> keeps law (retry_outcome env i k st now oc s)"
  unfolding retry_outcome_def Let_def
  by (auto intro!: keeps_and_then law_set_proposal law_track_executed law_finish_terminal split: proposal_execution_outcome.split)

lemma law_retry_passed: "law s \<Longrightarrow> keeps law (retry_passed_proposal_inner env who i s)"
  unfolding retry_passed_proposal_inner_def Let_def
  by (intro keeps_with_transaction keeps_and_then keeps_pure_result keeps_ok_or keeps_ensure law_scope law_invoke law_retry_outcome)

lemma law_cancel_by_owner:
  assumes "law s"
  shows "keeps law (can_cancel_passed_proposal_by_owner env i k s)"
proof (cases "callback_of env k")
  case (Some cb)
  with callbacks [OF Some] assms have "P (snd (can_cancel_passed_proposal cb i s))" by (simp add: callback_keeps_def)
  with Some show ?thesis
    by (cases "can_cancel_passed_proposal cb i s") (auto simp: can_cancel_passed_proposal_by_owner_def split: sum.split)
qed (simp add: can_cancel_passed_proposal_by_owner_def assms)

lemma law_cancel_passed: "law s \<Longrightarrow> keeps law (cancel_passed_proposal_inner env who i s)"
  unfolding cancel_passed_proposal_inner_def
  by (intro keeps_with_transaction keeps_and_then [OF keeps_pure_result] keeps_ok_or keeps_ensure
      keeps_and_then [OF law_cancel_by_owner] law_set_and_finish)

subsection \<open>Timeouts, erasure and the block hook\<close>

lemma law_push_expiry: "law s \<Longrightarrow> keeps law (push_expiry env' i b s)"
  by (simp add: push_expiry_def ok_or_def split: option.split)

lemma law_schedule_expiry: "law s \<Longrightarrow> keeps law (schedule_proposal_expiry env' i b s)"
  by (simp add: schedule_proposal_expiry_def law_push_expiry)

lemma law_defer: "law s \<Longrightarrow> law (defer_auto_finalize env' now i s)"
  using law_push_expiry [of s env' i]
  by (auto simp: defer_auto_finalize_def Let_def keeps_def split: prod.splits sum.splits if_splits) (metis snd_conv)+

definition lawful_timeouts :: "'x timeout_handler list \<Rightarrow> bool" where
  "lawful_timeouts hs \<longleftrightarrow> (\<forall>h \<in> set hs. \<forall>p i s. law s \<longrightarrow> law (snd (h p i s)))"

lemma law_tracks_timeout: "lawful_timeouts hs \<Longrightarrow> law s \<Longrightarrow> law (snd (tracks_finalize_timeout hs p i s))"
proof (induction hs arbitrary: s)
  case (Cons h hs)
  then have "law (snd (h p i s))" "lawful_timeouts hs" by (simp_all add: lawful_timeouts_def)
  with Cons show ?case by (auto split: prod.splits option.splits)
qed simp

lemma law_finalize_expired:
  assumes "lawful_timeouts hs" "law (snd ws)"
  shows "law (snd (finalize_expired env hs now i ws))"
  using assms law_tracks_timeout [OF assms]
  by (auto simp: finalize_expired_def Let_def split: option.splits prod.splits sum.splits intro: law_defer)
     (metis law_defer snd_conv)+

lemma law_finalize_fold: "lawful_timeouts hs \<Longrightarrow> law (snd ws) \<Longrightarrow> law (snd (fold (finalize_expired env hs now) is ws))"
  by (induction "is" arbitrary: ws) (simp_all add: law_finalize_expired)

lemma law_bucket:
  assumes "lawful_timeouts hs" "law s"
  shows "law (snd (auto_finalize_expiry_bucket env hs e now mc mw s))"
  using assms law_finalize_fold [OF assms(1), of "(w, s\<lparr>proposals_by_expiry := b\<rparr>)" now "is" for w b "is"]
  by (simp add: auto_finalize_expiry_bucket_def Let_def case_prod_beta)

lemma law_auto_finalize:
  assumes "lawful_timeouts hs" "law s"
  shows "law (snd (auto_finalize_phase env hs n s))"
proof -
  have p: "law (snd (finalize_pending_bucket env hs n b w s))" for b w
    using assms(2) law_bucket [OF assms] by (simp add: finalize_pending_bucket_def case_prod_beta split: option.split)
  have "law (snd (auto_finalize_expiry_bucket env hs n n b w (snd (finalize_pending_bucket env hs n b' w' s))))" for b w b' w'
    by (rule law_bucket [OF assms(1) p])
  with p assms(2) show ?thesis by (simp add: auto_finalize_phase_def Let_def case_prod_beta)
qed

lemma law_trigger: "law s \<Longrightarrow> keeps law (trigger_cleanup env i s)"
  unfolding trigger_cleanup_def Let_def by (auto intro!: keeps_and_then keeps_zoom)

lemma law_scheduled_loop: "law s \<Longrightarrow> law (snd (snd (scheduled_loop n env now mw item tail head w s)))"
proof (induction n arbitrary: head w s)
  case (Suc n)
  have "law t" if "trigger_cleanup env i s = (r, t)" for i r t using law_trigger [OF Suc.prems, of i] that by simp
  with Suc show ?case by (auto simp: Let_def put_sched_def split: option.split prod.split sum.split)
qed simp

lemma law_scheduled_cleanups: "law s \<Longrightarrow> law (snd (process_scheduled_cleanups env now mw s))"
  by (simp add: process_scheduled_cleanups_def Let_def case_prod_beta put_sched_def law_scheduled_loop)

lemma law_cleanup_step: "law s \<Longrightarrow> law (snd (process_pending_cleanup_step env i stage limit s))"
proof -
  assume s: "law s"
  have e: "ext (erase_proposal i t) = ext t" for t
    by (simp add: erase_proposal_def cleanup_proposal_indexes_def Let_def split: option.split)
  have "ext t = ext s" if "tracks_cleanup_chunk (tracks env) k i limit s = (r, t)" for k r t
    using tracks_chunk_ext [of "tracks env" k i limit s] passive_tracks that by (simp add: tracks_passive_def)
  moreover have "ext t = ext s" if "tracks_cleanup_terminal (tracks env) k i s = (r, t)" for k r t
    using tracks_cleanup_ext [of "tracks env" k i s] passive_tracks that by (simp add: tracks_passive_def)
  ultimately show ?thesis
    using s by (cases stage) (auto simp: process_pending_cleanup_step_def Let_def e split: option.splits prod.splits bool.splits)
qed

lemma law_cleanup_loop: "law s \<Longrightarrow> law (snd (cleanup_steps_loop n env limit bound mw w s))"
proof (induction n arbitrary: w s)
  case (Suc n)
  have "law t" if "process_pending_cleanup_step env i stage limit (s\<lparr>cleanup := c\<rparr>) = (r, t)" for i stage c r t
    using law_cleanup_step [of "s\<lparr>cleanup := c\<rparr>" i stage limit] Suc.prems that by simp
  with Suc show ?case by (auto simp: Let_def set_stage_def split: option.split prod.split sum.split)
qed simp

lemma law_cleanup_steps: "law s \<Longrightarrow> law (snd (process_pending_cleanup_steps env mw s))"
  by (simp add: process_pending_cleanup_steps_def Let_def law_cleanup_loop)

lemma law_on_initialize:
  assumes "lawful_timeouts hs" "law s"
  shows "law (snd (on_initialize env hs n s))"
  using assms
  by (auto simp: on_initialize_def Let_def case_prod_beta intro!: law_cleanup_steps law_scheduled_cleanups law_terminal_cleanups
      law_retry_deadlines law_retry_expirations law_terminal_finalizations law_executions law_auto_finalize)

subsection \<open>Internal votes\<close>

lemma law_internal_vote: "law s \<Longrightarrow> keeps law (do_internal_vote env who i c b s)"
  unfolding do_internal_vote_def Let_def
  by (intro keeps_and_then keeps_pure_result)
     (auto simp: record_internal_vote_def intro!: keeps_ensure keeps_ok_or keeps_and_then keeps_pure_result law_set_status)

lemma law_internal_timeout: "law s \<Longrightarrow> law (snd (internal_finalize_timeout env p i s))"
proof -
  assume s: "law s"
  then have "keeps law (do_finalize_internal_timeout env p i s)"
    unfolding do_finalize_internal_timeout_def by (intro keeps_ensure law_set_status)
  with s show ?thesis by (simp add: internal_finalize_timeout_def case_prod_beta keeps_def)
qed

lemma law_allocate_id: "law s \<Longrightarrow> keeps law (allocate_id env s)"
  by (simp add: allocate_id_def zoom_def keeps_def split: prod.split sum.split)

lemma law_add_active: "law s \<Longrightarrow> keeps law (add_active env sjs i s)"
  by (simp add: add_active_def zoom_def keeps_def split: prod.split sum.split)

lemma law_acquire_all: "law s \<Longrightarrow> keeps law (acquire_all env i k sjs s)"
  by (induction sjs arbitrary: s) (auto intro!: keeps_and_then simp: zoom_def keeps_def split: prod.split sum.split)

lemma law_allocate: "law s \<Longrightarrow> keeps law (allocate_and_lock env p k s)"
  unfolding allocate_and_lock_def by (auto intro!: keeps_and_then law_allocate_id law_add_active law_acquire_all)

lemma law_snapshot_roles: "law s \<Longrightarrow> keeps law (snapshot_role_voters env' j sj vs s)"
  by (auto simp: snapshot_role_voters_def Let_def ensure_def ok_or_def split: authorization_subject.split sum.split option.split)

lemma law_snapshot_all: "law s \<Longrightarrow> keeps law (snapshot_all_roles env' i sjs s)"
  by (induction sjs arbitrary: s) (auto simp: Let_def split: authorization_subject.split intro!: keeps_and_then law_snapshot_roles)

lemma law_finish_create: "law s \<Longrightarrow> keeps law (finish_proposal_create env i p e th role s)"
  unfolding finish_proposal_create_def Let_def by (auto simp: emit_proposal_created_def intro!: keeps_and_then law_schedule_expiry)

lemma law_bind_plan: "law s \<Longrightarrow> keeps law (bind_vote_plan i plan s)"
  unfolding bind_vote_plan_def by (auto intro!: keeps_ensure)

lemma law_register_data: "law s \<Longrightarrow> keeps law (register_proposal_data env' i tag d b s)"
  unfolding register_proposal_data_def Let_def by (auto simp: pure_result_def ok_or_def intro!: keeps_ensure keeps_and_then split: option.split sum.split)

lemma law_auto_approve: "law s \<Longrightarrow> keeps law (register_data_and_auto_approve env who i tag data s)"
  unfolding register_data_and_auto_approve_def
  by (auto intro!: keeps_and_then keeps_ok_or law_register_data law_internal_vote split: authorization_subject.split option.split)

lemma law_create_institution:
  "law s \<Longrightarrow> keeps law (do_create_institution_proposal_with_mutex env who code cid exec cids mutex role plan s)"
  unfolding do_create_institution_proposal_with_mutex_def Let_def
  by (auto simp: pure_result_def split: sum.split
      intro!: keeps_ensure keeps_and_then keeps_ok_or keeps_with_transaction law_allocate law_snapshot_all law_finish_create)

lemma law_create_with_plan:
  "(\<And>s. law s \<Longrightarrow> keeps law (create s)) \<Longrightarrow> law s \<Longrightarrow> keeps law (create_with_plan env who plan data create s)"
  unfolding create_with_plan_def
  by (auto intro!: keeps_with_transaction keeps_ensure keeps_and_then law_bind_plan law_auto_approve)

lemma law_create_active_personal:
  "law s \<Longrightarrow> keeps law (do_create_active_personal_proposal env who a mutex role fa s)"
  unfolding do_create_active_personal_proposal_def Let_def snapshot_personal_admins_def write_admin_snapshot_def
  by (auto simp: pure_result_def insert_admin_snapshot_def split: sum.split
      intro!: keeps_ensure keeps_and_then keeps_ok_or keeps_with_transaction law_allocate law_finish_create)

lemma law_create_personal_account:
  "law s \<Longrightarrow> keeps law (do_create_personal_account_create_proposal env who a admins th s)"
  unfolding do_create_personal_account_create_proposal_def Let_def
  by (auto simp: pure_result_def insert_admin_snapshot_def split: sum.split
      intro!: keeps_ensure keeps_and_then keeps_with_transaction law_allocate law_finish_create)

lemma law_create_personal:
  "(\<And>s. law s \<Longrightarrow> keeps law (create s)) \<Longrightarrow> law s \<Longrightarrow> keeps law (create_personal env who tag data create s)"
  unfolding create_personal_def by (auto intro!: keeps_with_transaction keeps_and_then law_auto_approve)

lemma law_creates:
  assumes "law s"
  shows "keeps law (create_institution_proposal_with_data env who code cid exec cids plan data s)"
    and "keeps law (create_institution_admin_change_proposal_with_data env who code cid plan data s)"
    and "keeps law (create_personal_proposal_with_data env who a tag data s)"
    and "keeps law (create_personal_lifecycle_proposal_with_data env who a tag data s)"
    and "keeps law (create_personal_account_create_proposal_with_data env who a admins th tag data s)"
    and "keeps law (create_personal_admin_change_proposal_with_data env who a n th tag data s)"
  unfolding create_institution_proposal_with_data_def create_institution_admin_change_proposal_with_data_def
    create_personal_proposal_with_data_def create_personal_lifecycle_proposal_with_data_def
    create_personal_account_create_proposal_with_data_def create_personal_admin_change_proposal_with_data_def
  using assms
  by (auto simp: do_create_institution_proposal_def do_create_personal_proposal_def pure_result_def
        do_create_personal_lifecycle_proposal_def do_create_personal_admin_change_proposal_def split: sum.split
      intro!: law_create_with_plan law_create_personal law_create_institution law_create_active_personal law_create_personal_account
        keeps_ensure keeps_and_then)

subsection \<open>Joint votes\<close>

lemma law_advance: "law s \<Longrightarrow> keeps law (advance_joint_to_referendum env i s)"
  unfolding advance_joint_to_referendum_def Let_def
  by (auto simp: emit_proposal_advanced_to_referendum_def intro!: keeps_with_transaction keeps_ok_or keeps_and_then law_schedule_expiry)

lemma law_joint_records [simp]:
  "ext (record_institution_result i c b w s) = ext s" "ext (record_joint_vote i c k b s) = ext s"
  "ext (record_referendum_vote i c tk s) = ext s"
  by (simp_all add: record_institution_result_def record_joint_vote_def record_referendum_vote_def)

lemma law_finalize_institution: "law s \<Longrightarrow> keeps law (finalize_joint_institution_vote env i cid b s)"
  unfolding finalize_joint_institution_vote_def Let_def
  by (auto intro!: keeps_ensure keeps_ok_or law_set_status law_advance)

lemma law_joint_vote: "law s \<Longrightarrow> keeps law (do_joint_vote env who i cid role b s)"
  unfolding do_joint_vote_def Let_def
  by (auto simp: pure_result_def intro!: keeps_and_then keeps_ensure keeps_ok_or law_finalize_institution)

lemma law_referendum_vote: "law s \<Longrightarrow> keeps law (do_jointreferendum_vote env who i b s)"
  unfolding do_jointreferendum_vote_def Let_def
  by (auto simp: pure_result_def intro!: keeps_and_then keeps_ensure keeps_ok_or law_set_status)

lemma law_joint_timeout: "law s \<Longrightarrow> law (snd (joint_finalize_timeout env p i s))"
proof -
  assume s: "law s"
  then have "keeps law (do_finalize_joint_timeout env p i s)" "keeps law (do_finalize_jointreferendum_timeout env p i s)"
    unfolding do_finalize_joint_timeout_def do_finalize_jointreferendum_timeout_def
    by (auto intro!: keeps_ensure keeps_ok_or law_set_status law_advance)
  with s show ?thesis by (simp add: joint_finalize_timeout_def case_prod_beta keeps_def)
qed

lemma law_population: "law s \<Longrightarrow> keeps law (create_population_snapshot env' i sc s)"
  unfolding create_population_snapshot_def by (auto intro!: keeps_ensure keeps_ok_or)

lemma law_create_joint: "law s \<Longrightarrow> keeps law (do_create_joint_proposal env who cid plan s)"
  unfolding do_create_joint_proposal_def Let_def
  by (auto simp: pure_result_def emit_proposal_created_def split: sum.split
      intro!: keeps_ensure keeps_and_then keeps_ok_or keeps_with_transaction law_allocate law_allocate_id law_add_active law_acquire_all
        law_snapshot_all law_bind_plan law_population law_schedule_expiry)

lemma law_store_object: "law s \<Longrightarrow> keeps law (store_proposal_object env' i k d s)"
  unfolding store_proposal_object_def Let_def by (auto intro!: keeps_ensure keeps_ok_or)

lemma law_joint_creates:
  assumes "law s"
  shows "keeps law (create_joint_proposal_with_data env who cid plan data s)"
    and "keeps law (create_joint_proposal_with_data_and_object env who cid plan data k obj s)"
  unfolding create_joint_proposal_with_data_def create_joint_proposal_with_data_and_object_def
  using assms by (auto intro!: keeps_with_transaction keeps_ensure keeps_and_then law_create_joint law_register_data law_store_object)

subsection \<open>Legislation\<close>

lemma law_leg_reschedule: "law s \<Longrightarrow> keeps law (reschedule env' i change s)"
  unfolding reschedule_def Let_def by (auto intro!: keeps_ok_or law_schedule_expiry)

lemma law_transition: "law s \<Longrightarrow> keeps law (transition_stage env' i st s)"
  unfolding transition_stage_def by (intro keeps_with_transaction law_leg_reschedule)

lemma law_leg_stages:
  assumes "law s"
  shows "keeps law (advance_to_sign env' i s)" "keeps law (advance_to_override env' i s)"
    "keeps law (advance_to_guard env' i s)" "keeps law (advance_to_referendum env' i s)"
  unfolding advance_to_sign_def advance_to_override_def advance_to_guard_def advance_to_referendum_def Let_def
  using assms by (auto simp: emit_proposal_advanced_to_referendum_def
      intro!: keeps_with_transaction keeps_ok_or keeps_and_then law_transition law_leg_reschedule)

lemma law_finish_route: "law s \<Longrightarrow> keeps law (finish_representative_route env i s)"
  unfolding finish_representative_route_def
  by (auto intro!: keeps_ok_or law_set_status law_leg_stages split: vote_procedure.split)

lemma law_advance_body: "law s \<Longrightarrow> keeps law (advance_representative_body_or_finish env i s)"
  unfolding advance_representative_body_or_finish_def Let_def
  by (auto simp: pure_result_def set_current_body_def
      intro!: keeps_ok_or keeps_and_then keeps_with_transaction law_leg_reschedule law_finish_route)

lemma law_leg_procedure:
  assumes "law s"
  shows "keeps law (finalize_or_guard env i b s)" "keeps law (body_approved env m i s)"
  using assms by (auto simp: finalize_or_guard_def body_approved_def law_leg_stages law_set_status law_finish_route law_advance_body
      split: representative_route.split)

lemma law_leg_votes:
  assumes "law s"
  shows "keeps law (do_cast_representative_vote env who i role b s)"
    and "keeps law (do_cast_referendum_vote env who i b s)"
    and "keeps law (do_executive_sign env who i b s)"
    and "keeps law (do_override_sign env who i b s)"
    and "keeps law (do_guard_vote env who i b s)"
  unfolding do_cast_representative_vote_def do_cast_referendum_vote_def do_executive_sign_def do_override_sign_def do_guard_vote_def Let_def
  using assms
  by (auto simp: pure_result_def record_representative_vote_def record_leg_referendum_vote_def
      intro!: keeps_and_then keeps_ensure keeps_ok_or law_leg_procedure law_leg_stages law_set_status split: option.split bool.split)

lemma law_legislation_timeout: "law s \<Longrightarrow> law (snd (legislation_finalize_timeout env p i s))"
proof -
  assume s: "law s"
  then have "keeps law (do_finalize_representative_timeout env p i s)" "keeps law (do_finalize_referendum_timeout env p i s)"
    "keeps law (do_finalize_sign_timeout env p i s)" "keeps law (do_finalize_override_timeout env p i s)"
    "keeps law (do_finalize_guard_timeout env p i s)"
    unfolding do_finalize_representative_timeout_def do_finalize_referendum_timeout_def do_finalize_sign_timeout_def
      do_finalize_override_timeout_def do_finalize_guard_timeout_def Let_def
    by (auto intro!: keeps_ensure keeps_ok_or law_set_status law_leg_procedure law_leg_stages)
  with s show ?thesis by (simp add: legislation_finalize_timeout_def keeps_def)
qed

lemma law_snapshot_legislation: "law s \<Longrightarrow> keeps law (snapshot_legislation_voters env' i g sjs s)"
  by (induction sjs arbitrary: s)
     (auto simp: Let_def split: authorization_subject.split intro!: keeps_ensure keeps_and_then law_snapshot_roles)

lemma law_create_representative:
  "law s \<Longrightarrow> keeps law (do_create_representative_proposal env who cid plan route rule procedure additional meta s)"
  unfolding do_create_representative_proposal_def Let_def
  by (auto simp: pure_result_def emit_proposal_created_def insert_legislation_metas_def snapshot_special_population_def
      split: sum.split option.split
      intro!: keeps_ensure keeps_and_then keeps_with_transaction law_allocate_id law_add_active law_acquire_all
        law_snapshot_legislation law_bind_plan law_population law_schedule_expiry)

lemma law_own_ballot: "law s \<Longrightarrow> keeps law (cast_own_ballot env who b i s)"
  unfolding cast_own_ballot_def by (auto intro!: keeps_and_then law_leg_votes)

lemma law_leg_creates:
  assumes "law s"
  shows "keeps law (create_representative_vote env who cid plan route rule additional tag data s)"
    and "keeps law (create_legislation_vote env who cid plan route rule procedure tag data obj s)"
  unfolding create_representative_vote_def create_legislation_vote_def
  using assms by (auto simp: pure_result_def intro!: keeps_and_then keeps_with_transaction law_create_representative law_register_data
      law_store_object law_own_ballot)

subsection \<open>Elections\<close>

lemma law_election_result: "law s \<Longrightarrow> keeps law (finalize_election_result env i s)"
  unfolding finalize_election_result_def Let_def by (auto split: sum.split intro!: keeps_ok_or keeps_ensure law_set_status)

lemma law_take_ballot: "law s \<Longrightarrow> keeps law (take_election_ballot env' who i st role c s)"
  unfolding take_election_ballot_def Let_def
  by (auto simp: record_popular_vote_def record_mutual_vote_def intro!: keeps_ensure keeps_ok_or)

lemma law_election_vote: "law s \<Longrightarrow> keeps law (do_cast_election_vote env who i st role c s)"
  unfolding do_cast_election_vote_def Let_def
  by (auto simp: pure_result_def count_election_vote_def intro!: keeps_ensure keeps_and_then law_take_ballot law_election_result)

lemma law_election_timeout: "law s \<Longrightarrow> law (snd (election_finalize_timeout env p i s))"
proof -
  assume s: "law s"
  then have "keeps law (finalize_election_timeout env p i s)"
    unfolding finalize_election_timeout_def by (intro keeps_ensure law_election_result)
  with s show ?thesis by (simp add: election_finalize_timeout_def keeps_def)
qed

lemma law_snapshot_election_roles: "law s \<Longrightarrow> keeps law (snapshot_election_roles env' j sjs s)"
  by (induction sjs arbitrary: s) (auto split: authorization_subject.split intro!: keeps_and_then law_snapshot_roles)

lemma law_create_election:
  "law s \<Longrightarrow> keeps law (do_create_election env who plan mode actor role n t0 t1 scope candidates s)"
  unfolding do_create_election_def Let_def
  by (auto simp: pure_result_def emit_proposal_created_def open_election_books_def snapshot_mutual_voters_def snapshot_election_population_def
      split: sum.split option.split
      intro!: keeps_ensure keeps_and_then keeps_with_transaction law_allocate_id law_add_active law_snapshot_election_roles
        law_bind_plan law_population law_register_data law_schedule_expiry)

subsection \<open>The chain\<close>

lemma law_timeouts: "lawful_timeouts (chain_timeouts env)"
  by (simp add: lawful_timeouts_def chain_timeouts_def law_internal_timeout law_joint_timeout law_legislation_timeout law_election_timeout)

lemma law_block: "law s \<Longrightarrow> law (next_block env s)"
  using law_on_initialize [OF law_timeouts, of "s\<lparr>block_number := n\<rparr>" n for n] by (simp add: next_block_def Let_def)

lemma law_finalize_call: "law s \<Longrightarrow> keeps law (finalize_proposal (chain_timeouts env) o' i s)"
  unfolding finalize_proposal_def using law_tracks_timeout [OF law_timeouts]
  by (auto simp: keeps_def [of _ "track_result _"] intro!: keeps_with_transaction keeps_ok_or)

lemma law_dispatch: "law s \<Longrightarrow> law (dispatch env c s)"
proof -
  assume s: "law s"
  have calls: "keeps law (with_transaction (\<lambda>s. ok_or (ensure_signed o') BadOrigin s (\<lambda>who. f who s)) s)"
    if "\<And>who. keeps law (f who s)" for o' and f :: "account \<Rightarrow> 'x engine \<Rightarrow> (dispatch_error, unit, 'x engine) outcome"
    using that s by (intro keeps_with_transaction keeps_ok_or)
  show ?thesis
    by (cases c)
       (auto simp: retry_passed_proposal_def cancel_passed_proposal_def internal_cast_def cast_admin_def cast_referendum_def
          cast_representative_vote_def cast_referendum_vote_def executive_sign_def override_sign_def guard_vote_def
          cast_popular_vote_def cast_mutual_vote_def do_cast_popular_vote_def do_cast_mutual_vote_def
          do_create_popular_election_def do_create_mutual_election_def
        intro!: keeps_snd calls law_finalize_call law_retry_passed law_cancel_passed law_internal_vote law_joint_vote law_referendum_vote
          law_creates law_joint_creates law_leg_votes law_leg_creates law_election_vote law_create_election s)
qed

end

text \<open>A runtime with the four tracks, its business callbacks given.\<close>

definition with_callbacks :: "'x vote_callback \<Rightarrow> 'x vote_callback \<Rightarrow> 'x vote_callback \<Rightarrow> 'x env \<Rightarrow> 'x env" where
  "with_callbacks ic jc lc env = env\<lparr>internal_callback := ic, joint_callback := jc, legislation_callback := lc\<rparr>"

lemma storage_lawI:
  assumes "callback_keeps P ic" "callback_keeps P jc" "callback_keeps P lc"
  shows "storage_law (four_tracks db wi wj wr wl wp wm (with_callbacks ic jc lc env)) P"
proof
  show "tracks_passive (four_tracks db wi wj wr wl wp wm (with_callbacks ic jc lc env))" by (rule four_tracks_passive)
  show "callback_of (four_tracks db wi wj wr wl wp wm (with_callbacks ic jc lc env)) k = Some cb \<Longrightarrow> callback_keeps P cb" for k cb
    using assms by (auto simp: callback_of_def four_tracks_def with_callbacks_def split: if_splits)
qed

end
