(* ===== verification/Key_Custody.thy ===== *)
theory Key_Custody
  imports Grandpa_Keys Storage_Laws
begin

text \<open>
  The keys of the finality authorities over whole runs of the chain: one key per institution, the recorded keys are
  the keys of the authorities, no proof is used twice; and what becomes of a recovery whose execution fails for good.
\<close>

section \<open>The finality module\<close>

text \<open>
  Its documented behaviour: a change can be scheduled exactly when none is; scheduling does not change the authorities;
  the end of a block leaves things as they are or puts the scheduled authorities in place.
\<close>

definition lawful_finality :: "('g, 'r) key_env \<Rightarrow> bool" where
  "lawful_finality ke \<longleftrightarrow>
     (\<forall>next d g. case schedule_change ke next d g of (ok, g') \<Rightarrow>
        grandpa_authorities ke g' = grandpa_authorities ke g \<and>
        (if pending_change ke g = None then ok \<and> pending_change ke g' = Some next else \<not> ok \<and> pending_change ke g' = pending_change ke g)) \<and>
     (\<forall>n g. grandpa_authorities ke (finality_hook ke n g) = grandpa_authorities ke g \<and> pending_change ke (finality_hook ke n g) = pending_change ke g \<or>
        pending_change ke g = Some (grandpa_authorities ke (finality_hook ke n g)) \<and> pending_change ke (finality_hook ke n g) = None)"

lemma schedule_change_lawful:
  assumes "lawful_finality ke" "pending_change ke g = None" "schedule_change ke next d g = (ok, g')"
  shows "ok" "grandpa_authorities ke g' = grandpa_authorities ke g" "pending_change ke g' = Some next"
proof -
  have "case schedule_change ke next d g of (ok, g') \<Rightarrow>
        grandpa_authorities ke g' = grandpa_authorities ke g \<and>
        (if pending_change ke g = None then ok \<and> pending_change ke g' = Some next else \<not> ok \<and> pending_change ke g' = pending_change ke g)"
    using assms(1) unfolding lawful_finality_def
    by (elim conjE) (drule spec [of _ "next"], drule spec [of _ d], drule spec [of _ g], assumption)
  with assms(2,3) show "ok" "grandpa_authorities ke g' = grandpa_authorities ke g" "pending_change ke g' = Some next" by simp_all
qed

section \<open>The invariant\<close>

text \<open>The keys of the institutions and the authorities agree, but for the one change that is under way.\<close>

definition authority_keys :: "('g, 'r) key_env \<Rightarrow> ('g, 'r) key_storage \<Rightarrow> public_key set" where
  "authority_keys ke x = fst ` set (grandpa_authorities ke (finality x))"

definition change_agrees :: "('g, 'r) key_env \<Rightarrow> ('g, 'r) key_storage \<Rightarrow> bool" where
  "change_agrees ke x \<longleftrightarrow>
     (case PendingGrandpaKeyChange x of
        None \<Rightarrow> pending_change ke (finality x) = None \<longrightarrow> authority_keys ke x = ran (CurrentGrandpaKeys x)
      | Some p \<Rightarrow>
          CurrentGrandpaKeys x (pk_actor_cid_number p) = Some (pk_old_public_key p) \<and> pk_new_public_key p \<notin> ran (CurrentGrandpaKeys x) \<and>
          (pending_change ke (finality x) = Some (replace_authority (pk_old_public_key p) (pk_new_public_key p) (grandpa_authorities ke (finality x))) \<and>
             authority_keys ke x = ran (CurrentGrandpaKeys x) \<or>
           pending_change ke (finality x) = None \<and>
             authority_keys ke x = insert (pk_new_public_key p) (ran (CurrentGrandpaKeys x) - {pk_old_public_key p})))"

definition key_inv :: "('g, 'r) key_env \<Rightarrow> cid_number set \<Rightarrow> u64 list \<Rightarrow> ('g, 'r) key_storage \<Rightarrow> bool" where
  "key_inv ke institutions weights x \<longleftrightarrow>
     (\<forall>c k. CurrentGrandpaKeys x c = Some k \<longleftrightarrow> GrandpaKeyOwnerByKey x k = Some c) \<and>
     dom (CurrentGrandpaKeys x) = institutions \<and>
     distinct (map fst (grandpa_authorities ke (finality x))) \<and> map snd (grandpa_authorities ke (finality x)) = weights \<and>
     (PendingGrandpaKeyChange x = None \<longrightarrow> pending_change ke (finality x) = None) \<and> change_agrees ke x"

text \<open>The proofs accepted for an institution, by their numbers.\<close>

fun proof_of :: "cid_number \<Rightarrow> key_event \<Rightarrow> u64 list" where
  "proof_of c (EmergencyRecoveryProposed i code cid who old new nonce) = (if cid = c then [nonce] else [])"
| "proof_of c (RoutineRotationScheduled cid who old new nonce set_id at) = (if cid = c then [nonce] else [])"
| "proof_of c _ = []"

definition proofs_used :: "('g, 'r) key_storage \<Rightarrow> cid_number \<Rightarrow> u64 list" where
  "proofs_used x c = concat (map (proof_of c) (key_events x))"

definition proofs_once :: "('g, 'r) key_storage \<Rightarrow> bool" where
  "proofs_once x \<longleftrightarrow> (\<forall>c. proofs_used x c = [0..<NextGrandpaKeyProofNonce x c])"

section \<open>Operations\<close>

text \<open>The invariant looks only at the keys, the change under way and the finality module.\<close>

lemma key_inv_cong:
  assumes "CurrentGrandpaKeys y = CurrentGrandpaKeys x" "GrandpaKeyOwnerByKey y = GrandpaKeyOwnerByKey x"
    "PendingGrandpaKeyChange y = PendingGrandpaKeyChange x" "finality y = finality x"
  shows "key_inv ke D W y = key_inv ke D W x"
  using assms by (simp add: key_inv_def change_agrees_def authority_keys_def cong: option.case_cong)

lemma announce_key_fields [simp]:
  "CurrentGrandpaKeys (announce_key e x) = CurrentGrandpaKeys x" "GrandpaKeyOwnerByKey (announce_key e x) = GrandpaKeyOwnerByKey x"
  "PendingGrandpaKeyChange (announce_key e x) = PendingGrandpaKeyChange x" "finality (announce_key e x) = finality x"
  "NextGrandpaKeyProofNonce (announce_key e x) = NextGrandpaKeyProofNonce x"
  "ActiveEmergencyRecoveryByInstitution (announce_key e x) = ActiveEmergencyRecoveryByInstitution x"
  "ReservedGrandpaKeys (announce_key e x) = ReservedGrandpaKeys x" "key_registries (announce_key e x) = key_registries x"
  by (simp_all add: announce_key_def)

lemma proofs_announce [simp]: "proofs_used (announce_key e x) c = proofs_used x c @ proof_of c e"
  by (simp add: proofs_used_def announce_key_def)

lemma key_inv_frame [simp]:
  "key_inv ke D W (announce_key e x) = key_inv ke D W x" "key_inv ke D W (x\<lparr>key_registries := r\<rparr>) = key_inv ke D W x"
  "key_inv ke D W (x\<lparr>ActiveEmergencyRecoveryByInstitution := m\<rparr>) = key_inv ke D W x"
  "key_inv ke D W (x\<lparr>ReservedGrandpaKeys := w\<rparr>) = key_inv ke D W x" "key_inv ke D W (x\<lparr>NextGrandpaKeyProofNonce := f\<rparr>) = key_inv ke D W x"
  by (rule key_inv_cong; simp)+

lemma cleanup_fields [simp]:
  "CurrentGrandpaKeys (cleanup_recovery i a x) = CurrentGrandpaKeys x" "GrandpaKeyOwnerByKey (cleanup_recovery i a x) = GrandpaKeyOwnerByKey x"
  "PendingGrandpaKeyChange (cleanup_recovery i a x) = PendingGrandpaKeyChange x" "finality (cleanup_recovery i a x) = finality x"
  "NextGrandpaKeyProofNonce (cleanup_recovery i a x) = NextGrandpaKeyProofNonce x" "key_events (cleanup_recovery i a x) = key_events x"
  by (simp_all add: cleanup_recovery_def Let_def)

lemma key_inv_cleanup [simp]: "key_inv ke D W (cleanup_recovery i a x) = key_inv ke D W x"
  by (rule key_inv_cong) simp_all

lemma fst_replace: "map fst (replace_authority old new as) = map (\<lambda>a. if a = old then new else a) (map fst as)"
  by (auto simp: replace_authority_def)

lemma snd_replace [simp]: "map snd (replace_authority old new as) = map snd as"
  by (auto simp: replace_authority_def)

lemma keys_replace:
  assumes "old \<in> fst ` set as"
  shows "fst ` set (replace_authority old new as) = insert new (fst ` set as - {old})"
proof -
  have "fst ` set (replace_authority old new as) = set (map fst (replace_authority old new as))" by simp
  also have "\<dots> = (\<lambda>a. if a = old then new else a) ` set (map fst as)" by (simp only: fst_replace set_map)
  finally show ?thesis using assms by (auto simp: image_iff)
qed

lemma current_key_ok:
  assumes "current_key_and_next_authorities ke cid new r x = Inr (old, next)"
  shows "PendingGrandpaKeyChange x = None" "pending_change ke (finality x) = None" "CurrentGrandpaKeys x cid = Some old" "old \<noteq> new"
    "GrandpaKeyOwnerByKey x new = None \<or> GrandpaKeyOwnerByKey x new = Some cid"
    "next = replace_authority old new (grandpa_authorities ke (finality x))" "old \<in> authority_keys ke x" "distinct (map fst next)"
  using assms
  by (auto simp: current_key_and_next_authorities_def Let_def authority_keys_def split: if_splits sum.splits option.splits)

lemma key_inv_schedule:
  assumes lf: "lawful_finality ke" and inv: "key_inv ke D W x"
    and ok: "current_key_and_next_authorities ke cid new r x = Inr (old, next)"
    and sch: "schedule_replacement ke cid who old new nonce kind prop next now x = (q, y)"
  shows "key_inv ke D W y"
proof (cases q)
  case (Inl e)
  then show ?thesis
    using sch inv
    by (auto simp: schedule_replacement_def Let_def ok_or_def split: option.splits prod.splits if_splits
        dest: schedule_change_lawful(1) [OF lf current_key_ok(2) [OF ok]])
next
  case (Inr p)
  note c = current_key_ok [OF ok]
  from sch Inr obtain g where g: "schedule_change ke next (GrandpaChangeDelay ke) (finality x) = (True, g)"
    and y: "y = x\<lparr>finality := g, PendingGrandpaKeyChange := Some p, ReservedGrandpaKeys := (ReservedGrandpaKeys x)(new \<mapsto> cid)\<rparr>"
    and p: "pk_actor_cid_number p = cid" "pk_old_public_key p = old" "pk_new_public_key p = new"
    by (auto simp: schedule_replacement_def Let_def ok_or_def split: option.splits prod.splits if_splits)
  note sc = schedule_change_lawful(2,3) [OF lf c(2) g]
  have "new \<notin> ran (CurrentGrandpaKeys x)"
  proof
    assume "new \<in> ran (CurrentGrandpaKeys x)"
    then obtain d where d: "CurrentGrandpaKeys x d = Some new" by (auto simp: ran_def)
    then have "GrandpaKeyOwnerByKey x new = Some d" using inv by (simp add: key_inv_def)
    with c(3,4,5) d show False by auto
  qed
  moreover have "fst ` set (grandpa_authorities ke (finality x)) = ran (CurrentGrandpaKeys x)"
    using inv c(1,2) by (simp add: key_inv_def change_agrees_def authority_keys_def)
  ultimately show ?thesis
    using inv sc c(3) p by (simp add: y key_inv_def change_agrees_def authority_keys_def c(6))
qed

lemma key_inv_finality:
  assumes lf: "lawful_finality ke" and inv: "key_inv ke D W x"
  shows "key_inv ke D W (x\<lparr>finality := finality_hook ke n (finality x)\<rparr>)"
proof (cases "grandpa_authorities ke (finality_hook ke n (finality x)) = grandpa_authorities ke (finality x) \<and>
    pending_change ke (finality_hook ke n (finality x)) = pending_change ke (finality x)")
  case True
  with inv show ?thesis by (cases "PendingGrandpaKeyChange x") (simp_all add: key_inv_def change_agrees_def authority_keys_def)
next
  case False
  with lf have h: "pending_change ke (finality x) = Some (grandpa_authorities ke (finality_hook ke n (finality x)))"
    "pending_change ke (finality_hook ke n (finality x)) = None"
    unfolding lawful_finality_def by blast+
  with inv obtain p where p: "PendingGrandpaKeyChange x = Some p" by (cases "PendingGrandpaKeyChange x") (simp_all add: key_inv_def)
  let ?as = "grandpa_authorities ke (finality x)"
  let ?old = "pk_old_public_key p" and ?new = "pk_new_public_key p"
  from inv p h have as: "grandpa_authorities ke (finality_hook ke n (finality x)) = replace_authority ?old ?new ?as"
    and k: "fst ` set ?as = ran (CurrentGrandpaKeys x)" "CurrentGrandpaKeys x (pk_actor_cid_number p) = Some ?old" "?new \<notin> ran (CurrentGrandpaKeys x)"
    by (auto simp: key_inv_def change_agrees_def authority_keys_def)
  have "?old \<in> fst ` set ?as" using k by (auto simp: ran_def)
  note r = keys_replace [OF this, of ?new]
  have "inj_on (\<lambda>a. if a = ?old then ?new else a) (fst ` set ?as)" using k by (auto simp: inj_on_def)
  then have "distinct (map (\<lambda>a. if a = ?old then ?new else a) (map fst ?as))"
    using inv unfolding distinct_map [of _ "map fst ?as"] by (simp add: key_inv_def)
  then have "distinct (map fst (replace_authority ?old ?new ?as))" by (simp only: fst_replace)
  with inv p h as k r show ?thesis by (simp add: key_inv_def change_agrees_def authority_keys_def)
qed

lemma ran_replace:
  assumes "m c = Some old" "\<And>d. m d = Some old \<Longrightarrow> d = c"
  shows "ran (m(c \<mapsto> new)) = insert new (ran m - {old})"
proof (rule set_eqI)
  fix k
  have "k \<in> ran (m(c \<mapsto> new)) \<longleftrightarrow> k = new \<or> (\<exists>d. d \<noteq> c \<and> m d = Some k)"
    by (simp add: ran_def) blast
  also have "(\<exists>d. d \<noteq> c \<and> m d = Some k) \<longleftrightarrow> k \<in> ran m \<and> k \<noteq> old"
  proof
    assume "\<exists>d. d \<noteq> c \<and> m d = Some k"
    then show "k \<in> ran m \<and> k \<noteq> old" using assms(2) by (auto intro: ranI)
  next
    assume k: "k \<in> ran m \<and> k \<noteq> old"
    then obtain d where "m d = Some k" by (auto simp: ran_def)
    then show "\<exists>d. d \<noteq> c \<and> m d = Some k" using assms(1) k by (intro exI [of _ d]) auto
  qed
  finally show "k \<in> ran (m(c \<mapsto> new)) \<longleftrightarrow> k \<in> insert new (ran m - {old})" by blast
qed

lemma inverse_replace:
  assumes io: "\<And>c k. m c = Some k \<longleftrightarrow> w k = Some c" and a: "m a = Some old" and n: "w new = None" "old \<noteq> new"
  shows "(m(a \<mapsto> new)) c = Some k \<longleftrightarrow> (w(old := None, new \<mapsto> a)) k = Some c"
proof -
  have o: "w old = Some a" using io a by blast
  consider "k = new" | "k = old" | "k \<noteq> new" "k \<noteq> old" by blast
  then show ?thesis
  proof cases
    case 1
    then show ?thesis using io [of c new] n by auto
  next
    case 2
    then show ?thesis using io [of c old] n o by auto
  next
    case 3
    then show ?thesis using io [of c k] io [of a k] a by auto
  qed
qed

lemma key_inv_reconcile:
  assumes inv: "key_inv ke D W x"
  shows "key_inv ke D W (snd (reconcile_pending_change ke x))"
proof (cases "PendingGrandpaKeyChange x")
  case (Some p)
  let ?c = "pk_actor_cid_number p" and ?old = "pk_old_public_key p" and ?new = "pk_new_public_key p"
  let ?A = "authority_keys ke x"
  show ?thesis
  proof (cases "?new \<notin> ?A \<or> ?old \<in> ?A")
    case True
    then show ?thesis using inv Some by (auto simp: reconcile_pending_change_def authority_keys_def)
  next
    case False
    from inv Some have k: "CurrentGrandpaKeys x ?c = Some ?old" "?new \<notin> ran (CurrentGrandpaKeys x)"
      by (simp_all add: key_inv_def change_agrees_def)
    from k have "?old \<in> ran (CurrentGrandpaKeys x)" by (auto simp: ran_def)
    with False inv Some have a: "?A = insert ?new (ran (CurrentGrandpaKeys x) - {?old})" "pending_change ke (finality x) = None"
      by (auto simp: key_inv_def change_agrees_def)
    have io: "\<And>c k. CurrentGrandpaKeys x c = Some k \<longleftrightarrow> GrandpaKeyOwnerByKey x k = Some c"
      using inv by (simp add: key_inv_def)
    have one: "c = ?c" if "CurrentGrandpaKeys x c = Some ?old" for c using io k(1) that by (metis option.inject)
    have ne: "?old \<noteq> ?new" using k by (auto simp: ran_def)
    have nn: "GrandpaKeyOwnerByKey x ?new = None"
      using k(2) io by (cases "GrandpaKeyOwnerByKey x ?new") (auto simp: ran_def)
    have "ran ((CurrentGrandpaKeys x)(?c \<mapsto> ?new)) = insert ?new (ran (CurrentGrandpaKeys x) - {?old})"
      by (rule ran_replace, rule k(1), rule one)
    moreover have "((CurrentGrandpaKeys x)(?c \<mapsto> ?new)) c = Some j \<longleftrightarrow>
        ((GrandpaKeyOwnerByKey x)(?old := None, ?new \<mapsto> ?c)) j = Some c" for c j
      by (rule inverse_replace, rule io, rule k(1), rule nn, rule ne)
    moreover have "dom ((CurrentGrandpaKeys x)(?c \<mapsto> ?new)) = D" using inv k(1) by (auto simp: key_inv_def)
    ultimately show ?thesis
      using inv Some False a
      by (simp add: reconcile_pending_change_def authority_keys_def Let_def key_inv_def change_agrees_def)
  qed
qed (simp add: reconcile_pending_change_def inv)

section \<open>Callbacks\<close>

lemma schedule_replacement_frame:
  assumes "schedule_replacement ke cid who old new nonce kind prop next now x = (q, y)"
  shows "NextGrandpaKeyProofNonce y = NextGrandpaKeyProofNonce x" "key_events y = key_events x"
    "ActiveEmergencyRecoveryByInstitution y = ActiveEmergencyRecoveryByInstitution x"
  using assms by (auto simp: schedule_replacement_def Let_def ok_or_def split: option.splits prod.splits if_splits)

lemma validate_emergency_ok:
  "validate_emergency_action ke i a x = Inr next \<Longrightarrow>
     current_key_and_next_authorities ke (rv_actor_cid_number a) (rv_new_public_key a) True x = Inr (rv_old_public_key a, next)"
  by (auto simp: validate_emergency_action_def split: if_splits sum.splits prod.splits)

text \<open>An executed recovery has scheduled the replacement; a failed one has changed nothing but perhaps the finality module.\<close>

lemma try_execute_cases:
  assumes "try_execute_emergency_action ke env i a s = (q, y)"
  obtains (before_schedule) e where "q = Inl e" "y = ext s"
  | (refused) e "next" where "q = Inl e" "validate_emergency_action ke i a (ext s) = Inr next"
      "schedule_replacement ke (rv_actor_cid_number a) (rv_initiator_account_id a) (rv_old_public_key a) (rv_new_public_key a)
         (rv_proof_nonce a) EmergencyRecovery (Some i) next (block_number s) (ext s) = (Inl e, y)"
  | (scheduled) "next" p z ev where "q = Inr ()" "validate_emergency_action ke i a (ext s) = Inr next" "\<forall>c. proof_of c ev = []"
      "schedule_replacement ke (rv_actor_cid_number a) (rv_initiator_account_id a) (rv_old_public_key a) (rv_new_public_key a)
         (rv_proof_nonce a) EmergencyRecovery (Some i) next (block_number s) (ext s) = (Inr p, z)"
      "y = announce_key ev (z\<lparr>ActiveEmergencyRecoveryByInstitution := (ActiveEmergencyRecoveryByInstitution z)(rv_actor_cid_number a := None)\<rparr>)"
proof -
  from assms have "(\<exists>e. q = Inl e \<and> y = ext s) \<or>
      (\<exists>next. validate_emergency_action ke i a (ext s) = Inr next \<and>
        (case schedule_replacement ke (rv_actor_cid_number a) (rv_initiator_account_id a) (rv_old_public_key a) (rv_new_public_key a)
           (rv_proof_nonce a) EmergencyRecovery (Some i) next (block_number s) (ext s) of
           (Inl e, z) \<Rightarrow> q = Inl e \<and> y = z
         | (Inr p, z) \<Rightarrow> q = Inr () \<and> y = announce_key (EmergencyRecoveryScheduled i (rv_actor_cid_number a) (rv_old_public_key a)
             (rv_new_public_key a) (pk_expected_set_id p) (pk_activate_at p))
             (z\<lparr>ActiveEmergencyRecoveryByInstitution := (ActiveEmergencyRecoveryByInstitution z)(rv_actor_cid_number a := None)\<rparr>)))"
    by (auto simp: try_execute_emergency_action_def Let_def ok_or_def ensure_def kresult_def and_then_def
        split: option.splits if_splits sum.splits prod.splits)
  then show ?thesis
  proof (elim disjE exE conjE)
    fix e assume "q = Inl e" "y = ext s"
    then show ?thesis by (rule before_schedule)
  next
    fix "next" assume v: "validate_emergency_action ke i a (ext s) = Inr next"
      and c: "case schedule_replacement ke (rv_actor_cid_number a) (rv_initiator_account_id a) (rv_old_public_key a) (rv_new_public_key a)
           (rv_proof_nonce a) EmergencyRecovery (Some i) next (block_number s) (ext s) of
           (Inl e, z) \<Rightarrow> q = Inl e \<and> y = z
         | (Inr p, z) \<Rightarrow> q = Inr () \<and> y = announce_key (EmergencyRecoveryScheduled i (rv_actor_cid_number a) (rv_old_public_key a)
             (rv_new_public_key a) (pk_expected_set_id p) (pk_activate_at p))
             (z\<lparr>ActiveEmergencyRecoveryByInstitution := (ActiveEmergencyRecoveryByInstitution z)(rv_actor_cid_number a := None)\<rparr>)"
    show ?thesis
    proof (cases "schedule_replacement ke (rv_actor_cid_number a) (rv_initiator_account_id a) (rv_old_public_key a) (rv_new_public_key a)
           (rv_proof_nonce a) EmergencyRecovery (Some i) next (block_number s) (ext s)")
      case (Pair r z)
      show ?thesis
      proof (cases r)
        case (Inl e)
        with Pair c show ?thesis by (intro refused [OF _ v]) simp_all
      next
        case (Inr b)
        with Pair c show ?thesis by (intro scheduled [OF _ v, of "EmergencyRecoveryScheduled i (rv_actor_cid_number a) (rv_old_public_key a)
             (rv_new_public_key a) (pk_expected_set_id b) (pk_activate_at b)" b z]) simp_all
      qed
    qed
  qed
qed

lemma try_execute_inv:
  assumes "lawful_finality ke" "key_inv ke D W (ext s)" "try_execute_emergency_action ke env i a s = (q, y)"
  shows "key_inv ke D W y"
  using assms(3)
proof (cases rule: try_execute_cases)
  case (refused e "next")
  then show ?thesis using key_inv_schedule [OF assms(1,2) validate_emergency_ok] by blast
next
  case (scheduled "next" p z ev)
  then have "key_inv ke D W z" using key_inv_schedule [OF assms(1,2) validate_emergency_ok] by blast
  with scheduled(5) show ?thesis by simp
qed (simp add: assms(2))

definition nonce_view :: "('g, 'r) key_storage \<Rightarrow> (cid_number \<Rightarrow> u64) \<times> (cid_number \<Rightarrow> u64 list)" where
  "nonce_view x = (NextGrandpaKeyProofNonce x, proofs_used x)"

lemma nonce_viewI:
  "NextGrandpaKeyProofNonce y = NextGrandpaKeyProofNonce x \<Longrightarrow> key_events y = key_events x \<Longrightarrow> nonce_view y = nonce_view x"
  by (simp add: nonce_view_def proofs_used_def fun_eq_iff)

lemma nonce_view_announce: "\<forall>c. proof_of c e = [] \<Longrightarrow> nonce_view (announce_key e x) = nonce_view x"
  by (simp add: nonce_view_def fun_eq_iff)

lemma nonce_view_frame [simp]:
  "nonce_view (cleanup_recovery i a x) = nonce_view x" "nonce_view (x\<lparr>key_registries := r\<rparr>) = nonce_view x"
  "nonce_view (x\<lparr>ActiveEmergencyRecoveryByInstitution := m\<rparr>) = nonce_view x"
  by (simp_all add: nonce_view_def proofs_used_def fun_eq_iff)

lemma try_execute_nonces:
  assumes "try_execute_emergency_action ke env i a s = (q, y)"
  shows "nonce_view y = nonce_view (ext s)"
  using assms
proof (cases rule: try_execute_cases)
  case (refused e "next")
  then show ?thesis using schedule_replacement_frame(1,2) by (intro nonce_viewI) blast+
next
  case (scheduled "next" p z ev)
  then have "nonce_view y = nonce_view z" by (simp add: nonce_view_announce)
  also have "\<dots> = nonce_view (ext s)" using scheduled schedule_replacement_frame(1,2) by (intro nonce_viewI) blast+
  finally show ?thesis .
qed simp

lemma key_callback_keeps:
  assumes keeps_announce: "\<And>e x. P x \<Longrightarrow> \<forall>c. proof_of c e = [] \<Longrightarrow> P (announce_key e x)"
    and keeps_cleanup: "\<And>i a x. P x \<Longrightarrow> P (cleanup_recovery i a x)"
    and keeps_execute: "\<And>i a s q y. P (ext s) \<Longrightarrow> try_execute_emergency_action ke env i a s = (q, y) \<Longrightarrow> P y"
  shows "callback_keeps P (key_callback ke env)"
proof (rule callback_keepsI)
  fix s :: "('a, 'b) key_storage engine" and i b assume s: "P (ext s)"
  then have "P y" if "try_execute_emergency_action ke env i a s = (q, y)" for a q y using keeps_execute that by blast
  with s show "P (snd (on_vote_finalized (key_callback ke env) i b s))"
    by (auto simp: key_callback_def key_on_internal_vote_finalized_def keeps_announce keeps_cleanup
        split: option.split prod.split sum.split)
  show "P (snd (can_cancel_passed_proposal (key_callback ke env) i s))"
    using s by (auto simp: key_callback_def key_can_cancel_passed_proposal_def keeps_announce keeps_cleanup split: option.split sum.split)
  show "P (snd (on_execution_failed_terminal (key_callback ke env) i s))"
    using s by (simp add: key_callback_def default_callback_def)
qed

text \<open>The other pallets of the runtime leave the storage of this one alone.\<close>

definition leaves_keys :: "('g, 'r) key_storage vote_callback \<Rightarrow> bool" where
  "leaves_keys cb \<longleftrightarrow> (\<forall>s i b. (\<exists>r. snd (on_vote_finalized cb i b s) = (ext s)\<lparr>key_registries := r\<rparr>) \<and>
     (\<exists>r. snd (can_cancel_passed_proposal cb i s) = (ext s)\<lparr>key_registries := r\<rparr>) \<and>
     (\<exists>r. snd (on_execution_failed_terminal cb i s) = (ext s)\<lparr>key_registries := r\<rparr>))"

lemma leaves_keys_keeps:
  assumes "leaves_keys cb" "\<And>x r. P x \<Longrightarrow> P (x\<lparr>key_registries := r\<rparr>)"
  shows "callback_keeps P cb"
proof (rule callback_keepsI)
  fix s :: "('a, 'b) key_storage engine" and i b assume s: "P (ext s)"
  show "P (snd (on_vote_finalized cb i b s))" "P (snd (can_cancel_passed_proposal cb i s))" "P (snd (on_execution_failed_terminal cb i s))"
    using assms(1) assms(2) [OF s] unfolding leaves_keys_def by (metis (no_types))+
qed

section \<open>The runtime\<close>

definition key_setting ::
  "('g, 'r) key_env \<Rightarrow> ('g, 'r) key_storage vote_callback list \<Rightarrow> ('g, 'r) key_storage vote_callback list \<Rightarrow>
   ('g, 'r) key_storage vote_callback \<Rightarrow> ('g, 'r) key_storage vote_callback \<Rightarrow> bool" where
  "key_setting ke before after jc lc \<longleftrightarrow> lawful_finality ke \<and> list_all leaves_keys (jc # lc # before @ after)"

definition key_runtime ::
  "('g, 'r) key_env \<Rightarrow> ('g, 'r) key_storage vote_callback list \<Rightarrow> ('g, 'r) key_storage vote_callback list \<Rightarrow>
   ('g, 'r) key_storage vote_callback \<Rightarrow> ('g, 'r) key_storage vote_callback \<Rightarrow> (nat \<Rightarrow> nat \<Rightarrow> weight) \<Rightarrow> weight \<Rightarrow> weight \<Rightarrow> weight \<Rightarrow>
   legislation_weights \<Rightarrow> (u32 \<Rightarrow> weight) \<Rightarrow> (u32 \<Rightarrow> weight) \<Rightarrow> ('g, 'r) key_storage env \<Rightarrow> ('g, 'r) key_storage env" where
  "key_runtime ke before after jc lc db wi wj wr wl wp wm env =
     four_tracks db wi wj wr wl wp wm (with_callbacks (tuple_callback (before @ key_callback ke env # after)) jc lc env)"

lemma key_runtime_law:
  assumes "\<And>x r. P x \<Longrightarrow> P (x\<lparr>key_registries := r\<rparr>)"
    and "\<And>e x. P x \<Longrightarrow> \<forall>c. proof_of c e = [] \<Longrightarrow> P (announce_key e x)"
    and "\<And>i a x. P x \<Longrightarrow> P (cleanup_recovery i a x)"
    and "\<And>i a s q y. lawful_finality ke \<Longrightarrow> P (ext s) \<Longrightarrow> try_execute_emergency_action ke env i a s = (q, y) \<Longrightarrow> P y"
  shows "storage_law (key_runtime ke before after jc lc db wi wj wr wl wp wm env) (\<lambda>x. key_setting ke before after jc lc \<longrightarrow> P x)"
proof (cases "key_setting ke before after jc lc")
  case True
  then have "callback_keeps P (key_callback ke env)" using assms by (intro key_callback_keeps) (auto simp: key_setting_def)
  with True have "callback_keeps P (tuple_callback (before @ key_callback ke env # after))" "callback_keeps P jc" "callback_keeps P lc"
    using leaves_keys_keeps [of _ P] assms(1) by (auto simp: key_setting_def list_all_iff intro!: callback_keeps_tuple)
  from storage_lawI [OF this] True show ?thesis by (simp add: key_runtime_def)
next
  case False
  have "callback_keeps (\<lambda>_. True) cb" for cb :: "('a, 'b) key_storage vote_callback" by (simp add: callback_keeps_def)
  from storage_lawI [OF this this this] False show ?thesis by (simp add: key_runtime_def)
qed

interpretation custody: storage_law "key_runtime ke before after jc lc db wi wj wr wl wp wm env"
    "\<lambda>x. key_setting ke before after jc lc \<longrightarrow> key_inv ke D W x"
  for ke before after jc lc db wi wj wr wl wp wm env D W
  by (rule key_runtime_law) (simp_all add: try_execute_inv)

interpretation nonces: storage_law "key_runtime ke before after jc lc db wi wj wr wl wp wm env"
    "\<lambda>x. key_setting ke before after jc lc \<longrightarrow> nonce_view x = v"
  for ke before after jc lc db wi wj wr wl wp wm env v
  by (rule key_runtime_law) (simp_all add: nonce_view_announce try_execute_nonces)

section \<open>Runs\<close>

text \<open>Blocks and calls of the engine, the two calls and the hook of this pallet, the finality module, and everything else.\<close>

inductive key_step :: "('g, 'r) key_env \<Rightarrow> ('g, 'r) key_storage env \<Rightarrow> ('g, 'r) key_storage engine \<Rightarrow> ('g, 'r) key_storage engine \<Rightarrow> bool"
  for ke env where
  key_block: "key_step ke env s (next_block env s)"
| key_call: "key_step ke env s (dispatch env c s)"
| key_propose: "key_step ke env s (snd (propose_emergency_grandpa_key_recovery ke env signer cid role new nonce expires sig s))"
| key_rotate: "key_step ke env s (snd (schedule_grandpa_key_rotation ke signer cid role new nonce expires sig sig' s))"
| key_hook: "key_step ke env s (s\<lparr>ext := snd (reconcile_pending_change ke (ext s))\<rparr>)"
| key_finality: "key_step ke env s (s\<lparr>ext := (ext s)\<lparr>finality := finality_hook ke n (finality (ext s))\<rparr>\<rparr>)"
| key_else: "key_step ke env s (s\<lparr>ext := (ext s)\<lparr>key_registries := r\<rparr>\<rparr>)"

lemma consume_ok:
  "consume_proof_nonce cid nonce x = (Inr u, y) \<longleftrightarrow>
     nonce < max_of 64 \<and> y = x\<lparr>NextGrandpaKeyProofNonce := (NextGrandpaKeyProofNonce x)(cid := Suc nonce)\<rparr>"
  by (auto simp: consume_proof_nonce_def ok_or_def checked_add_def max_of_def split: option.splits if_splits)

lemma nonce_result_Inr [simp]: "nonce_result m = (Inr u, y) \<longleftrightarrow> m = (Inr u, y)"
  by (auto simp: nonce_result_def split: prod.splits sum.splits)

lemma key_engine_Inr [simp]: "key_engine m = (Inr a, y) \<longleftrightarrow> m = (Inr a, y)"
  by (auto simp: key_engine_def split: prod.splits sum.splits)

lemma kresult_Inr [simp]: "kresult r s k = (Inr b, t) \<longleftrightarrow> (\<exists>a. r = Inr a \<and> k a = (Inr b, t))"
  by (simp add: kresult_def split: sum.split)

lemma on_keys_Inr [simp]: "on_keys s f = (Inr a, t) \<longleftrightarrow> (\<exists>y. f (ext s) = (Inr a, y) \<and> t = s\<lparr>ext := y\<rparr>)"
  by (auto simp: on_keys_def split: prod.splits)

text \<open>A use of the next proof number, announced.\<close>

lemma proofs_once_use:
  assumes "proofs_once x" "NextGrandpaKeyProofNonce x cid = nonce" "\<And>c. proof_of c e = (if cid = c then [nonce] else [])"
    "NextGrandpaKeyProofNonce y = (NextGrandpaKeyProofNonce x)(cid := Suc nonce)" "proofs_used y = proofs_used x"
  shows "proofs_once (announce_key e y)"
  using assms by (auto simp: proofs_once_def)

lemma rotate_ok:
  assumes "schedule_grandpa_key_rotation ke signer cid role new nonce expires sig sig' s = (Inr u, t)"
  obtains who old "next" p y e where "current_key_and_next_authorities ke cid new False (ext s) = Inr (old, next)"
    "NextGrandpaKeyProofNonce (ext s) cid = nonce" "ActiveEmergencyRecoveryByInstitution (ext s) cid = None"
    "schedule_replacement ke cid who old new nonce RoutineRotation None next (block_number s) (ext s) = (Inr p, y)"
    "\<And>c. proof_of c e = (if cid = c then [nonce] else [])"
    "t = s\<lparr>ext := announce_key e (y\<lparr>NextGrandpaKeyProofNonce := (NextGrandpaKeyProofNonce y)(cid := Suc nonce)\<rparr>)\<rparr>"
proof -
  have "\<exists>who old next p y. current_key_and_next_authorities ke cid new False (ext s) = Inr (old, next) \<and>
    ensure_proof_window cid nonce expires (block_number s) (ext s) = Inr () \<and> ActiveEmergencyRecoveryByInstitution (ext s) cid = None \<and>
    schedule_replacement ke cid who old new nonce RoutineRotation None next (block_number s) (ext s) = (Inr p, y) \<and>
    t = s\<lparr>ext := announce_key (RoutineRotationScheduled cid who old new nonce (pk_expected_set_id p) (pk_activate_at p))
       (y\<lparr>NextGrandpaKeyProofNonce := (NextGrandpaKeyProofNonce y)(cid := Suc nonce)\<rparr>)\<rparr>"
    using assms unfolding schedule_grandpa_key_rotation_def Let_def with_transaction_eq_Inr
    by (simp only: ok_or_eq_Inr ensure_eq_Inr kresult_Inr split_paired_Ex and_then_eq_Inr on_keys_Inr prod.case nonce_result_Inr consume_ok)
       (elim exE conjE, intro exI conjI, (assumption | simp)+)
  then show ?thesis by (elim exE conjE, intro that) (auto simp: ensure_proof_window_def split: if_splits)
qed

lemma propose_ok:
  assumes "propose_emergency_grandpa_key_recovery ke env signer cid role new nonce expires sig s = (Inr u, t)"
  obtains who code plan data i s1 e where "create_institution_proposal_with_data env who code cid None [cid] plan data s = (Inr i, s1)"
    "NextGrandpaKeyProofNonce (ext s) cid = nonce" "ActiveEmergencyRecoveryByInstitution (ext s) cid = None"
    "\<And>c. proof_of c e = (if cid = c then [nonce] else [])"
    "t = s1\<lparr>ext := announce_key e ((ext s1)\<lparr>ActiveEmergencyRecoveryByInstitution := (ActiveEmergencyRecoveryByInstitution (ext s1))(cid \<mapsto> i),
       ReservedGrandpaKeys := (ReservedGrandpaKeys (ext s1))(new \<mapsto> cid),
       NextGrandpaKeyProofNonce := (NextGrandpaKeyProofNonce (ext s1))(cid := Suc nonce)\<rparr>)\<rparr>"
proof -
  from assms obtain who code old plan data i s1 where
    "create_institution_proposal_with_data env who code cid None [cid] plan data s = (Inr i, s1)"
    "ensure_proof_window cid nonce expires (block_number s) (ext s) = Inr ()" "ActiveEmergencyRecoveryByInstitution (ext s) cid = None"
    "t = s1\<lparr>ext := announce_key (EmergencyRecoveryProposed i code cid who old new nonce)
       ((ext s1)\<lparr>ActiveEmergencyRecoveryByInstitution := (ActiveEmergencyRecoveryByInstitution (ext s1))(cid \<mapsto> i),
       ReservedGrandpaKeys := (ReservedGrandpaKeys (ext s1))(new \<mapsto> cid),
       NextGrandpaKeyProofNonce := (NextGrandpaKeyProofNonce (ext s1))(cid := Suc nonce)\<rparr>)\<rparr>"
    by (auto simp: propose_emergency_grandpa_key_recovery_def Let_def consume_ok split_paired_Ex)
  then show ?thesis by (intro that) (auto simp: ensure_proof_window_def split: if_splits)
qed

lemma rotate_fails: "schedule_grandpa_key_rotation ke signer cid role new nonce expires sig sig' s = (Inl e, t) \<Longrightarrow> t = s"
  unfolding schedule_grandpa_key_rotation_def by (rule with_transaction_error)

lemma propose_fails: "propose_emergency_grandpa_key_recovery ke env signer cid role new nonce expires sig s = (Inl e, t) \<Longrightarrow> t = s"
  unfolding propose_emergency_grandpa_key_recovery_def by (rule with_transaction_error)

text \<open>The invariant along a run.\<close>

definition custody_ok :: "('g, 'r) key_env \<Rightarrow> cid_number set \<Rightarrow> u64 list \<Rightarrow> ('g, 'r) key_storage \<Rightarrow> bool" where
  "custody_ok ke D W x \<longleftrightarrow> key_inv ke D W x \<and> proofs_once x"

lemma nonce_view_once: "nonce_view y = nonce_view x \<Longrightarrow> proofs_once y = proofs_once x"
  by (simp add: nonce_view_def proofs_once_def)

lemma custody_okI: "key_inv ke D W y \<Longrightarrow> nonce_view y = nonce_view x \<Longrightarrow> custody_ok ke D W x \<Longrightarrow> custody_ok ke D W y"
  unfolding custody_ok_def by (blast dest: nonce_view_once)

lemma reconcile_nonces: "nonce_view (snd (reconcile_pending_change ke x)) = nonce_view x"
  by (cases "PendingGrandpaKeyChange x")
     (simp_all add: reconcile_pending_change_def Let_def nonce_view_def proofs_used_def announce_key_def fun_eq_iff)

lemma rotate_custody:
  assumes "lawful_finality ke" "custody_ok ke D W (ext s)"
  shows "custody_ok ke D W (ext (snd (schedule_grandpa_key_rotation ke signer cid role new nonce expires sig sig' s)))"
proof (cases "schedule_grandpa_key_rotation ke signer cid role new nonce expires sig sig' s" rule: outcome_cases)
  case (err e t)
  then show ?thesis using assms(2) rotate_fails by fastforce
next
  case (ok u t)
  from ok show ?thesis
  proof (rule rotate_ok)
    fix who old "next" p y e
    assume r: "current_key_and_next_authorities ke cid new False (ext s) = Inr (old, next)" "NextGrandpaKeyProofNonce (ext s) cid = nonce"
      "schedule_replacement ke cid who old new nonce RoutineRotation None next (block_number s) (ext s) = (Inr p, y)"
      "\<And>c. proof_of c e = (if cid = c then [nonce] else [])"
      "t = s\<lparr>ext := announce_key e (y\<lparr>NextGrandpaKeyProofNonce := (NextGrandpaKeyProofNonce y)(cid := Suc nonce)\<rparr>)\<rparr>"
    have "key_inv ke D W y" using key_inv_schedule [OF assms(1) _ r(1) r(3)] assms(2) by (simp add: custody_ok_def)
    moreover have "proofs_once (announce_key e (y\<lparr>NextGrandpaKeyProofNonce := (NextGrandpaKeyProofNonce y)(cid := Suc nonce)\<rparr>))"
      using assms(2) r(2,4) schedule_replacement_frame [OF r(3)]
      by (intro proofs_once_use [of "ext s" cid nonce]) (simp_all add: custody_ok_def proofs_used_def fun_eq_iff)
    ultimately show ?thesis by (simp add: ok r(5) custody_ok_def)
  qed
qed

lemma propose_custody:
  assumes set: "key_setting ke before after jc lc" and env: "env = key_runtime ke before after jc lc db wi wj wr wl wp wm env0"
    and inv: "custody_ok ke D W (ext s)"
  shows "custody_ok ke D W (ext (snd (propose_emergency_grandpa_key_recovery ke env signer cid role new nonce expires sig s)))"
proof (cases "propose_emergency_grandpa_key_recovery ke env signer cid role new nonce expires sig s" rule: outcome_cases)
  case (err e t)
  then show ?thesis using inv propose_fails by fastforce
next
  case (ok u t)
  from ok show ?thesis
  proof (rule propose_ok)
    fix who code plan data i s1 e
    assume r: "create_institution_proposal_with_data env who code cid None [cid] plan data s = (Inr i, s1)"
      "NextGrandpaKeyProofNonce (ext s) cid = nonce" "\<And>c. proof_of c e = (if cid = c then [nonce] else [])"
      "t = s1\<lparr>ext := announce_key e ((ext s1)\<lparr>ActiveEmergencyRecoveryByInstitution := (ActiveEmergencyRecoveryByInstitution (ext s1))(cid \<mapsto> i),
         ReservedGrandpaKeys := (ReservedGrandpaKeys (ext s1))(new \<mapsto> cid),
         NextGrandpaKeyProofNonce := (NextGrandpaKeyProofNonce (ext s1))(cid := Suc nonce)\<rparr>)\<rparr>"
    have k: "key_inv ke D W (ext s1)"
      using custody.law_creates(1) [of ke before after jc lc D W s db wi wj wr wl wp wm env0 who code cid None "[cid]" plan data] inv set r(1)
      by (simp add: env custody_ok_def)
    have v: "nonce_view (ext s1) = nonce_view (ext s)"
      using nonces.law_creates(1) [of ke before after jc lc s "nonce_view (ext s)" db wi wj wr wl wp wm env0 who code cid None "[cid]" plan data] set r(1)
      by (simp add: env)
    have "proofs_once (announce_key e ((ext s1)\<lparr>ActiveEmergencyRecoveryByInstitution := (ActiveEmergencyRecoveryByInstitution (ext s1))(cid \<mapsto> i),
         ReservedGrandpaKeys := (ReservedGrandpaKeys (ext s1))(new \<mapsto> cid),
         NextGrandpaKeyProofNonce := (NextGrandpaKeyProofNonce (ext s1))(cid := Suc nonce)\<rparr>))"
      using inv r(2,3) v
      by (intro proofs_once_use [of "ext s" cid nonce]) (simp_all add: custody_ok_def proofs_used_def nonce_view_def fun_eq_iff)
    with k show ?thesis by (simp add: ok r(4) custody_ok_def)
  qed
qed

lemma key_step_custody:
  assumes set: "key_setting ke before after jc lc" and env: "env = key_runtime ke before after jc lc db wi wj wr wl wp wm env0"
    and step: "key_step ke env s s'" and inv: "custody_ok ke D W (ext s)"
  shows "custody_ok ke D W (ext s')"
  using step
proof cases
  case key_block
  have "key_inv ke D W (ext s')" "nonce_view (ext s') = nonce_view (ext s)"
    using custody.law_block [of ke before after jc lc D W s db wi wj wr wl wp wm env0]
      nonces.law_block [of ke before after jc lc s "nonce_view (ext s)" db wi wj wr wl wp wm env0] set inv
    by (simp_all add: key_block env custody_ok_def)
  then show ?thesis by (rule custody_okI [OF _ _ inv])
next
  case (key_call c)
  have "key_inv ke D W (ext s')" "nonce_view (ext s') = nonce_view (ext s)"
    using custody.law_dispatch [of ke before after jc lc D W s db wi wj wr wl wp wm env0 c]
      nonces.law_dispatch [of ke before after jc lc s "nonce_view (ext s)" db wi wj wr wl wp wm env0 c] set inv
    by (simp_all add: key_call env custody_ok_def)
  then show ?thesis by (rule custody_okI [OF _ _ inv])
next
  case (key_propose signer cid role new nonce expires sig)
  then show ?thesis using propose_custody [OF set env inv] by simp
next
  case (key_rotate signer cid role new nonce expires sig sig')
  then show ?thesis using rotate_custody [of ke D W s] set inv by (simp add: key_setting_def)
next
  case key_hook
  show ?thesis using inv key_inv_reconcile [of ke D W "ext s"] nonce_view_once [OF reconcile_nonces [of ke "ext s"]]
    by (simp add: key_hook custody_ok_def)
next
  case (key_finality n)
  then show ?thesis using inv set key_inv_finality [of ke D W "ext s" n]
    by (simp add: custody_ok_def key_setting_def proofs_once_def proofs_used_def)
next
  case (key_else r)
  then show ?thesis using inv by (simp add: custody_ok_def proofs_once_def proofs_used_def)
qed

lemma key_run_custody:
  assumes "key_setting ke before after jc lc" "env = key_runtime ke before after jc lc db wi wj wr wl wp wm env0"
    and "(key_step ke env)\<^sup>*\<^sup>* s s'" "custody_ok ke D W (ext s)"
  shows "custody_ok ke D W (ext s')"
  using assms(3,4) by (induction rule: rtranclp_induct) (auto intro: key_step_custody [OF assms(1,2)])

section \<open>Genesis\<close>

lemma genesis_keys_ok:
  assumes "genesis_keys nodes x = Some y" "distinct (map fst nodes)" "fst ` set nodes \<inter> dom (CurrentGrandpaKeys x) = {}"
    "\<And>c k. CurrentGrandpaKeys x c = Some k \<longleftrightarrow> GrandpaKeyOwnerByKey x k = Some c"
  shows "(\<forall>c k. CurrentGrandpaKeys y c = Some k \<longleftrightarrow> GrandpaKeyOwnerByKey y k = Some c) \<and>
     dom (CurrentGrandpaKeys y) = dom (CurrentGrandpaKeys x) \<union> fst ` set nodes \<and>
     ran (CurrentGrandpaKeys y) = ran (CurrentGrandpaKeys x) \<union> snd ` set nodes \<and>
     PendingGrandpaKeyChange y = PendingGrandpaKeyChange x \<and> finality y = finality x \<and>
     NextGrandpaKeyProofNonce y = NextGrandpaKeyProofNonce x \<and> key_events y = key_events x"
  using assms
proof (induction nodes arbitrary: x)
  case (Cons n nodes)
  obtain cid key where n: "n = (cid, key)" by fastforce
  let ?x = "x\<lparr>CurrentGrandpaKeys := (CurrentGrandpaKeys x)(cid \<mapsto> key), GrandpaKeyOwnerByKey := (GrandpaKeyOwnerByKey x)(key \<mapsto> cid)\<rparr>"
  from Cons.prems(1) n have o: "GrandpaKeyOwnerByKey x key = None" and g: "genesis_keys nodes ?x = Some y"
    by (auto split: if_splits)
  have fresh: "CurrentGrandpaKeys x cid = None" using Cons.prems(3) n by auto
  have io: "CurrentGrandpaKeys ?x c = Some k \<longleftrightarrow> GrandpaKeyOwnerByKey ?x k = Some c" for c k
    using Cons.prems(4) [of c k] Cons.prems(4) [of cid k] Cons.prems(4) [of c key] o fresh by auto
  have d: "fst ` set nodes \<inter> dom (CurrentGrandpaKeys ?x) = {}" using Cons.prems(2,3) n by auto
  have dx: "dom (CurrentGrandpaKeys ?x) = insert cid (dom (CurrentGrandpaKeys x))" by simp
  have rx: "ran (CurrentGrandpaKeys ?x) = insert key (ran (CurrentGrandpaKeys x))" using fresh by simp
  have nodes: "distinct (map fst nodes)" using Cons.prems(2) by simp
  note y = Cons.IH [OF g nodes d io]
  have dy: "dom (CurrentGrandpaKeys y) = insert cid (dom (CurrentGrandpaKeys x)) \<union> fst ` set nodes" using y unfolding dx by blast
  have ry: "ran (CurrentGrandpaKeys y) = insert key (ran (CurrentGrandpaKeys x)) \<union> snd ` set nodes" using y unfolding rx by blast
  show ?case unfolding dy ry n using y by simp
qed simp

lemma CHINA_CB_distinct: "distinct CHINA_CB"
  using joint_institutions_distinct by (simp add: joint_institutions_def)

lemma CHINA_CB_KEYS_length: "length CHINA_CB_KEYS = length CHINA_CB"
  by (simp add: joint_institutions_count CHINA_CB_KEYS_def)

lemma key_genesis_ok:
  assumes "key_genesis g r = Some x"
  shows "\<And>c k. CurrentGrandpaKeys x c = Some k \<longleftrightarrow> GrandpaKeyOwnerByKey x k = Some c" "dom (CurrentGrandpaKeys x) = set CHINA_CB"
    "ran (CurrentGrandpaKeys x) = set CHINA_CB_KEYS" "PendingGrandpaKeyChange x = None" "finality x = g" "proofs_once x"
proof -
  have z: "map fst (zip CHINA_CB CHINA_CB_KEYS) = CHINA_CB" "map snd (zip CHINA_CB CHINA_CB_KEYS) = CHINA_CB_KEYS"
    using CHINA_CB_KEYS_length by simp_all
  have f: "fst ` set (zip CHINA_CB CHINA_CB_KEYS) = set CHINA_CB" "snd ` set (zip CHINA_CB CHINA_CB_KEYS) = set CHINA_CB_KEYS"
    using z by (metis set_map)+
  have "distinct (map fst (zip CHINA_CB CHINA_CB_KEYS))" unfolding z by (rule CHINA_CB_distinct)
  note g = genesis_keys_ok [OF assms [unfolded key_genesis_def] this]
  then show "\<And>c k. CurrentGrandpaKeys x c = Some k \<longleftrightarrow> GrandpaKeyOwnerByKey x k = Some c" "dom (CurrentGrandpaKeys x) = set CHINA_CB"
    "ran (CurrentGrandpaKeys x) = set CHINA_CB_KEYS" "PendingGrandpaKeyChange x = None" "finality x = g" "proofs_once x"
    by (simp_all add: f proofs_once_def proofs_used_def)
qed

text \<open>The chain starts: the keys of the table differ and its numbers fit.\<close>

lemma CHINA_CB_KEYS_distinct: "distinct CHINA_CB_KEYS"
  by (simp add: CHINA_CB_KEYS_def)

lemma genesis_keys_starts:
  "distinct (map snd nodes) \<Longrightarrow> \<forall>n \<in> set nodes. length (fst n) \<le> CID_NUMBER_MAX_BYTES \<and> GrandpaKeyOwnerByKey x (snd n) = None \<Longrightarrow>
     \<exists>y. genesis_keys nodes x = Some y"
proof (induction nodes arbitrary: x)
  case (Cons n nodes)
  obtain cid key where n: "n = (cid, key)" by fastforce
  show ?case unfolding n genesis_keys.simps using Cons.prems
    by (simp add: n not_less) (rule Cons.IH, auto)
qed simp

lemma key_genesis_starts: "\<exists>x. key_genesis g r = Some x"
proof -
  have z: "map snd (zip CHINA_CB CHINA_CB_KEYS) = CHINA_CB_KEYS" using CHINA_CB_KEYS_length by simp
  have "\<forall>c \<in> set CHINA_CB. length c \<le> CID_NUMBER_MAX_BYTES" by (simp add: CHINA_CB_def CID_NUMBER_MAX_BYTES_def)
  then show ?thesis unfolding key_genesis_def
    by (intro genesis_keys_starts) (auto simp: z CHINA_CB_KEYS_distinct dest: set_zip_leftD)
qed

section \<open>The keys over the life of the chain\<close>

text \<open>
  C11. Custody of the finality keys: from genesis on, after any number of blocks, calls to the voting engine, rotations,
  recoveries (proposed, voted, executed, retried), reconciliations and changes by the finality module, every institution
  of the reserve table has exactly one recorded key and no two share one; the authorities are distinct and keep their
  weights; the authorities' keys are the recorded keys, but for the one replacement under way; and the proofs accepted
  for an institution are numbered 0, 1, 2, ... without gap or repetition.
\<close>

theorem key_custody:
  assumes "key_setting ke before after jc lc" "env = key_runtime ke before after jc lc db wi wj wr wl wp wm env0"
    and "key_genesis g r = Some (ext s0)"
    and "distinct (map fst (grandpa_authorities ke g))" "fst ` set (grandpa_authorities ke g) = set CHINA_CB_KEYS" "pending_change ke g = None"
    and "(key_step ke env)\<^sup>*\<^sup>* s0 s"
  shows "(\<forall>c k. CurrentGrandpaKeys (ext s) c = Some k \<longleftrightarrow> GrandpaKeyOwnerByKey (ext s) k = Some c) \<and>
     dom (CurrentGrandpaKeys (ext s)) = set CHINA_CB \<and>
     distinct (map fst (grandpa_authorities ke (finality (ext s)))) \<and>
     map snd (grandpa_authorities ke (finality (ext s))) = map snd (grandpa_authorities ke g) \<and>
     (case PendingGrandpaKeyChange (ext s) of
        None \<Rightarrow> fst ` set (grandpa_authorities ke (finality (ext s))) = ran (CurrentGrandpaKeys (ext s))
      | Some p \<Rightarrow>
          CurrentGrandpaKeys (ext s) (pk_actor_cid_number p) = Some (pk_old_public_key p) \<and>
          fst ` set (grandpa_authorities ke (finality (ext s))) \<in>
            {ran (CurrentGrandpaKeys (ext s)), insert (pk_new_public_key p) (ran (CurrentGrandpaKeys (ext s)) - {pk_old_public_key p})}) \<and>
     (\<forall>c. concat (map (proof_of c) (key_events (ext s))) = [0..<NextGrandpaKeyProofNonce (ext s) c])"
proof -
  let ?W = "map snd (grandpa_authorities ke g)"
  have "custody_ok ke (set CHINA_CB) ?W (ext s0)"
    using key_genesis_ok [OF assms(3)] assms(4-6) by (simp add: custody_ok_def key_inv_def change_agrees_def authority_keys_def)
  then have "custody_ok ke (set CHINA_CB) ?W (ext s)" by (rule key_run_custody [OF assms(1,2,7)])
  then show ?thesis
    by (auto simp: custody_ok_def key_inv_def change_agrees_def authority_keys_def proofs_once_def proofs_used_def split: option.splits)
qed

text \<open>A finality module with two lists, and a runtime in which every signature is good and everyone is authorised.\<close>

definition plain_ke :: "(authority_list \<times> authority_list option, unit) key_env" where
  "plain_ke = \<lparr>grandpa_authorities = fst, current_set_id = (\<lambda>_. 7), pending_change = snd,
     schedule_change = (\<lambda>next _ (now, q). case q of None \<Rightarrow> (True, now, Some next) | Some _ \<Rightarrow> (False, now, q)),
     finality_hook = (\<lambda>_ (now, q). case q of None \<Rightarrow> (now, q) | Some next \<Rightarrow> (next, None)),
     decompresses = (\<lambda>_. True), is_small_order = (\<lambda>_. False), signing_digest = (\<lambda>_. []), ed25519_verify = (\<lambda>_ _ _. True),
     genesis_hash = [], GrandpaChangeDelay = 30, encode_recovery = (\<lambda>_. []), decode_recovery = (\<lambda>_. None),
     key_is_authorized = (\<lambda>_ _ _ _ _. True), key_role_subjects = (\<lambda>_ _ _ _. [])\<rparr>"

definition plain_key_base :: "(authority_list \<times> authority_list option, unit) key_storage env" where
  "plain_key_base = \<lparr>cfg = test_config, internal_callback = default_callback, joint_callback = default_callback,
     legislation_callback = default_callback, election_callback = default_callback, tracks = [],
     unix_now_ms = (\<lambda>_. 0), population_data_of = (\<lambda>_ _. None), voting_subject_at = (\<lambda>_ _ _. None), candidate_subject_of = (\<lambda>_ _ _. None),
     resolve_institution_voter = (\<lambda>_ who _. Some who), get_personal_admins = (\<lambda>_ _. None), get_pending_personal_admins = (\<lambda>_ _. None),
     is_personal_admin = (\<lambda>_ _ _. False), institution_threshold = (\<lambda>_ _ _. Some 3), active_accounts_for_role = (\<lambda>_ _ _. [1, 2, 3]),
     is_active_assignment = (\<lambda>_ _ _ _. True), hash256 = (\<lambda>d. d), iter_order = (\<lambda>ks. ks), clearing = clear_in_order\<rparr>"

definition plain_key_env :: "(authority_list \<times> authority_list option, unit) key_storage env" where
  "plain_key_env = key_runtime plain_ke [] [] default_callback default_callback (\<lambda>_ _. weight_zero) weight_zero weight_zero weight_zero
     \<lparr>w_cast_representative_vote = weight_zero, w_cast_referendum_vote = weight_zero, w_executive_sign = weight_zero,
       w_override_sign = weight_zero, w_guard_vote = weight_zero\<rparr> (\<lambda>_. weight_zero) (\<lambda>_. weight_zero) plain_key_base"

definition plain_finality :: "authority_list \<times> authority_list option" where
  "plain_finality = (map (\<lambda>k. (k, 1)) CHINA_CB_KEYS, None)"

lemma plain_setting: "key_setting plain_ke [] [] default_callback default_callback"
proof -
  have "\<exists>r. (x :: ('g, unit) key_storage) = x\<lparr>key_registries := r\<rparr>" for x by (cases x) simp
  then show ?thesis
    by (auto simp: key_setting_def lawful_finality_def plain_ke_def leaves_keys_def default_callback_def split: option.split)
qed

text \<open>The council of the nation replaces its key by key number one.\<close>

lemma genesis_keys_rest:
  "genesis_keys nodes x = Some y \<Longrightarrow> ReservedGrandpaKeys y = ReservedGrandpaKeys x \<and>
     ActiveEmergencyRecoveryByInstitution y = ActiveEmergencyRecoveryByInstitution x \<and> NextGrandpaKeyProofNonce y = NextGrandpaKeyProofNonce x"
  by (induction nodes x rule: genesis_keys.induct) (simp_all split: if_splits)

lemma hd_CHINA_CB: "hd CHINA_CB \<in> set CHINA_CB" "cid_org (hd CHINA_CB) = Some NRC"
proof -
  have h: "hd CHINA_CB = ''LN001-NRC0G-944805165-2026''" by (simp only: CHINA_CB_def list.sel)
  have u: "utf8_valid ''LN001-NRC0G-944805165-2026''" by (rule ascii_utf8) (simp add: byte_def)
  have c: "institution_code_from_cid_number ''LN001-NRC0G-944805165-2026'' = Some NRC"
    by (simp add: institution_code_from_cid_number_def NRC_def byte_def is_ascii_alphabetic_def)
  show "cid_org (hd CHINA_CB) = Some NRC" unfolding h cid_org_def c using u by simp
  show "hd CHINA_CB \<in> set CHINA_CB" by (rule hd_in_set) (simp add: CHINA_CB_def)
qed

lemma plain_next:
  assumes "key_genesis plain_finality () = Some x"
  obtains old "next" where "current_key_and_next_authorities plain_ke (hd CHINA_CB) 1 False x = Inr (old, next)"
proof -
  note g = key_genesis_ok [OF assms]
  have one: "1 \<notin> set CHINA_CB_KEYS" by (simp add: CHINA_CB_KEYS_def)
  obtain old where o: "CurrentGrandpaKeys x (hd CHINA_CB) = Some old" using g(2) hd_CHINA_CB(1) by (metis domD)
  then have m: "old \<in> set CHINA_CB_KEYS" using g(3) by (metis ranI)
  have free: "GrandpaKeyOwnerByKey x 1 = None"
  proof (cases "GrandpaKeyOwnerByKey x 1")
    case (Some c)
    then have "1 \<in> ran (CurrentGrandpaKeys x)" using g(1) by (metis ranI)
    with one g(3) show ?thesis by simp
  qed
  have r: "ReservedGrandpaKeys x 1 = None" using genesis_keys_rest [OF assms [unfolded key_genesis_def]] by simp
  have a: "grandpa_authorities plain_ke (finality x) = map (\<lambda>k. (k, 1)) CHINA_CB_KEYS" "pending_change plain_ke (finality x) = None"
    by (simp_all add: g(5) plain_finality_def plain_ke_def)
  have "inj_on (\<lambda>a. if a = old then Suc 0 else a) (set CHINA_CB_KEYS)" using one by (auto simp: inj_on_def)
  then have d: "distinct (map fst (replace_authority old 1 (map (\<lambda>k. (k, 1)) CHINA_CB_KEYS)))"
    using CHINA_CB_KEYS_distinct by (simp add: fst_replace comp_def distinct_map)
  have "fst ` set (map (\<lambda>k. (k, 1 :: nat)) CHINA_CB_KEYS) = set CHINA_CB_KEYS" by force
  then have "current_key_and_next_authorities plain_ke (hd CHINA_CB) 1 False x =
      Inr (old, replace_authority old 1 (map (\<lambda>k. (k, 1)) CHINA_CB_KEYS))"
    using m one o free r a d g(4)
    by (auto simp: current_key_and_next_authorities_def validate_public_key_def Let_def) (simp_all add: plain_ke_def)
  then show ?thesis by (rule that)
qed

lemma plain_rotation:
  assumes "key_genesis plain_finality () = Some x"
  shows "\<exists>p. PendingGrandpaKeyChange (ext (snd (schedule_grandpa_key_rotation plain_ke (Some 1) (hd CHINA_CB) ''r'' 1 0 10 [] [] (engine_genesis x)))) = Some p \<and>
    pk_new_public_key p = 1"
proof -
  obtain old "next" where n: "current_key_and_next_authorities plain_ke (hd CHINA_CB) 1 False x = Inr (old, next)"
    using plain_next [OF assms] .
  have e: "ext (engine_genesis x) = x" "block_number (engine_genesis x) = 0" by (simp_all add: engine_genesis_def)
  have f: "finality x = plain_finality" by (rule key_genesis_ok(5) [OF assms])
  have w: "ActiveEmergencyRecoveryByInstitution x (hd CHINA_CB) = None" "ensure_proof_window (hd CHINA_CB) 0 10 0 x = Inr ()"
    using genesis_keys_rest [OF assms [unfolded key_genesis_def]]
    by (simp_all add: ensure_proof_window_def checked_add_def max_of_def)
  have v: "verify_signature plain_ke k sig pay" "authorize_routine_rotation plain_ke who c role () = Inr ()" for k sig pay who c role
    by (simp_all add: verify_signature_def authorize_routine_rotation_def plain_ke_def)
  have sch: "\<exists>p y. schedule_replacement plain_ke (hd CHINA_CB) 1 old 1 0 RoutineRotation None next 0 x = (Inr p, y) \<and>
      PendingGrandpaKeyChange y = Some p \<and> pk_new_public_key p = 1"
    by (simp add: schedule_replacement_def Let_def f plain_finality_def plain_ke_def ok_or_def checked_add_def)
  then obtain p y where s: "schedule_replacement plain_ke (hd CHINA_CB) 1 old 1 0 RoutineRotation None next 0 x = (Inr p, y)"
    "PendingGrandpaKeyChange y = Some p" "pk_new_public_key p = 1" by blast
  have "\<exists>t. schedule_grandpa_key_rotation plain_ke (Some 1) (hd CHINA_CB) ''r'' 1 0 10 [] [] (engine_genesis x) = (Inr (), t) \<and>
    PendingGrandpaKeyChange (ext t) = Some p"
    using n w v s
    by (simp add: schedule_grandpa_key_rotation_def with_transaction_def Let_def e ok_or_def ensure_def kresult_def hd_CHINA_CB(2) on_keys_def
      and_then_def nonce_result_def consume_proof_nonce_def checked_add_def)
  with s(3) show ?thesis by force
qed

theorem key_custody_witness:
  "\<exists>x s. key_genesis plain_finality () = Some x \<and> (key_step plain_ke plain_key_env)\<^sup>*\<^sup>* (engine_genesis x) s \<and>
     (\<exists>p. PendingGrandpaKeyChange (ext s) = Some p \<and> pk_new_public_key p = 1 \<and>
        CurrentGrandpaKeys (ext s) (pk_actor_cid_number p) = Some (pk_old_public_key p)) \<and>
     dom (CurrentGrandpaKeys (ext s)) = set CHINA_CB"
proof -
  obtain x where x: "key_genesis plain_finality () = Some x" using key_genesis_starts [of plain_finality "()"] by blast
  let ?s = "snd (schedule_grandpa_key_rotation plain_ke (Some 1) (hd CHINA_CB) ''r'' 1 0 10 [] [] (engine_genesis x))"
  have run: "(key_step plain_ke plain_key_env)\<^sup>*\<^sup>* (engine_genesis x) ?s" by (rule r_into_rtranclp) (rule key_rotate)
  obtain p where p: "PendingGrandpaKeyChange (ext ?s) = Some p" "pk_new_public_key p = 1" using plain_rotation [OF x] by blast
  have g: "key_genesis plain_finality () = Some (ext (engine_genesis x))" by (simp add: x engine_genesis_def)
  have "fst ` set (grandpa_authorities plain_ke plain_finality) = set CHINA_CB_KEYS" by (force simp: plain_ke_def plain_finality_def)
  moreover have "distinct (map fst (grandpa_authorities plain_ke plain_finality))" "pending_change plain_ke plain_finality = None"
    using CHINA_CB_KEYS_distinct by (simp_all add: plain_ke_def plain_finality_def comp_def)
  ultimately have "dom (CurrentGrandpaKeys (ext ?s)) = set CHINA_CB" "CurrentGrandpaKeys (ext ?s) (pk_actor_cid_number p) = Some (pk_old_public_key p)"
    using key_custody [OF plain_setting plain_key_env_def g _ _ _ run] p(1) by simp_all
  with x run p show ?thesis by blast
qed

section \<open>A recovery whose execution fails for good\<close>

text \<open>With a recovery entered for an institution, neither call of that institution succeeds.\<close>

lemma active_blocks:
  assumes "ActiveEmergencyRecoveryByInstitution (ext s) cid \<noteq> None"
  shows "\<exists>e. schedule_grandpa_key_rotation ke signer cid role new nonce expires sig sig' s = (Inl e, s)"
    "\<exists>e. propose_emergency_grandpa_key_recovery ke env signer cid role new nonce expires sig s = (Inl e, s)"
proof -
  show "\<exists>e. schedule_grandpa_key_rotation ke signer cid role new nonce expires sig sig' s = (Inl e, s)"
  proof (cases "schedule_grandpa_key_rotation ke signer cid role new nonce expires sig sig' s" rule: outcome_cases)
    case (ok u t)
    then show ?thesis using assms by (elim rotate_ok) simp
  qed (use rotate_fails in blast)
  show "\<exists>e. propose_emergency_grandpa_key_recovery ke env signer cid role new nonce expires sig s = (Inl e, s)"
  proof (cases "propose_emergency_grandpa_key_recovery ke env signer cid role new nonce expires sig s" rule: outcome_cases)
    case (ok u t)
    then show ?thesis using assms by (elim propose_ok) simp
  qed (use propose_fails in blast)
qed

lemma failed_tuple_keeps:
  assumes "\<forall>c \<in> set cs. c = key_callback ke env \<or> leaves_keys c"
  shows "\<exists>r. snd (tuple_on_execution_failed cs i s) = (ext s)\<lparr>key_registries := r\<rparr>"
  using assms
proof (induction cs arbitrary: s)
  case Nil
  show ?case by (rule exI [of _ "key_registries (ext s)"]) simp
next
  case (Cons c cs)
  have "\<exists>r. snd (on_execution_failed_terminal c i s) = (ext s)\<lparr>key_registries := r\<rparr>"
  proof (cases "leaves_keys c")
    case False
    with Cons.prems have "c = key_callback ke env" by simp
    then show ?thesis by (intro exI [of _ "key_registries (ext s)"]) (simp add: key_callback_def default_callback_def)
  qed (simp add: leaves_keys_def)
  then obtain q r where c: "on_execution_failed_terminal c i s = (q, (ext s)\<lparr>key_registries := r\<rparr>)" by (metis prod.collapse)
  obtain r' where "snd (tuple_on_execution_failed cs i (s\<lparr>ext := (ext s)\<lparr>key_registries := r\<rparr>\<rparr>)) = (ext s)\<lparr>key_registries := r'\<rparr>"
    using Cons.IH [of "s\<lparr>ext := (ext s)\<lparr>key_registries := r\<rparr>\<rparr>"] Cons.prems by auto
  with c show ?case by (cases q) auto
qed


text \<open>A recovery, number 0, that is to be given up.\<close>

definition stuck_keys :: "(authority_list \<times> authority_list option, unit) key_storage" where
  "stuck_keys = \<lparr>CurrentGrandpaKeys = [hd CHINA_CB \<mapsto> 5], GrandpaKeyOwnerByKey = [5 \<mapsto> hd CHINA_CB], ReservedGrandpaKeys = [7 \<mapsto> hd CHINA_CB],
     NextGrandpaKeyProofNonce = (\<lambda>_. 1), ActiveEmergencyRecoveryByInstitution = [hd CHINA_CB \<mapsto> 0], PendingGrandpaKeyChange = None,
     finality = ([(5, 1)], None), key_registries = (), key_events = []\<rparr>"

definition stuck_recovery :: proposal where
  "stuck_recovery = \<lparr>p_kind = PROPOSAL_KIND_INTERNAL, p_stage = STAGE_INTERNAL, p_status = STATUS_PASSED, p_internal_code = Some NRC,
     p_actor_cid_number = Some (hd CHINA_CB), p_execution_account_id = None, p_subject_cid_numbers = [hd CHINA_CB], p_start = 0, p_end = 7200\<rparr>"

definition stuck_state :: "(authority_list \<times> authority_list option, unit) key_storage engine" where
  "stuck_state = (engine_genesis stuck_keys)\<lparr>proposals := [0 \<mapsto> stuck_recovery]\<rparr>"

lemma plain_tracks_idle:
  assumes "internal_proposal_roles (internal s) i = None"
  shows "tracks_on_proposal_terminal (tracks plain_key_env) PROPOSAL_KIND_INTERNAL i st s = (Some (Inr ()), s)"
  using assms by (simp add: plain_key_env_def key_runtime_def four_tracks_def internal_track_def internal_handles_def apply_terminal_threshold_cleanup_def)

lemma notify_internal: "internal (notify_execution_failed_terminal_or_queue env i k s) = internal s"
  "proposals (notify_execution_failed_terminal_or_queue env i k s) = proposals s"
  by (auto simp: notify_execution_failed_terminal_or_queue_def with_callback_execution_scope_def Let_def queue_terminal_cleanup_def
        remove_pending_terminal_cleanup_def deposit_event_def split: prod.splits sum.splits)

lemma stuck_expires: "\<exists>s'. expire_retry plain_key_env 0 stuck_state = (Inr (), s')"
proof -
  let ?t = "deposit_event (ProposalExecutionRetryExpired 0) (stuck_state\<lparr>proposals := [0 \<mapsto> stuck_recovery\<lparr>p_status := STATUS_EXECUTION_FAILED\<rparr>]\<rparr>)"
  have "set_proposal_status 0 STATUS_EXECUTION_FAILED stuck_state = (Inr (), stuck_state\<lparr>proposals := [0 \<mapsto> stuck_recovery\<lparr>p_status := STATUS_EXECUTION_FAILED\<rparr>]\<rparr>)"
    by (simp add: set_proposal_status_def ensure_valid_status_transition_def valid_status_transition_def stuck_state_def stuck_recovery_def)
  moreover have t: "proposals ?t = [0 \<mapsto> stuck_recovery\<lparr>p_status := STATUS_EXECUTION_FAILED\<rparr>]" "block_number ?t = 0" "cleanup ?t = cleanup_storage_genesis"
      "internal_proposal_roles (internal ?t) 0 = None"
    by (simp_all add: deposit_event_def stuck_state_def engine_genesis_def)
  have "\<exists>c. schedule_cleanup 0 0 cleanup_storage_genesis = (Inr (), c)"
    by (simp add: schedule_cleanup_def q_push_def cleanup_storage_genesis_def q_empty_def checked_add_def)
  then obtain c where c: "schedule_cleanup 0 0 cleanup_storage_genesis = (Inr (), c)" ..
  have k: "p_kind stuck_recovery = PROPOSAL_KIND_INTERNAL" by (simp add: stuck_recovery_def)
  have "\<exists>s'. apply_terminal_side_effects plain_key_env 0 STATUS_EXECUTION_FAILED ?t = (Inr (), s')"
    using t c k
    by (simp add: apply_terminal_side_effects_def zoom_def Let_def is_terminal_status_def notify_internal plain_tracks_idle track_result_def)
  ultimately show ?thesis
    by (auto simp: expire_retry_def with_transaction_def finish_terminal_status_def is_terminal_status_def)
qed


end
