(* ===== verification/Spec2Isabelle.thy ===== *)
theory Spec2Isabelle
  imports Chain Cid_Number Legislation_Process Election_Outcome Pow_Difficulty Fee_Policy Issuance_Schedule
    Clearing_Runs Payments Joint_Decisions Key_Custody
begin

text \<open>
  \<^bold>\<open>Verification of the CitizenChain governance runtime.\<close>

  CitizenChain is a Substrate (FRAME) chain whose runtime, under \<open>src/citizenchain/runtime\<close>, is a
  set of pallets. The pallets of the state's institutions, of multi-signature accounts, of issuance
  and of runtime upgrades do not vote themselves: they open proposals in the voting engine
  (\<open>votingengine\<close>), which freezes the electorate, locks the subjects concerned, lets one of its
  voting tracks (\<open>internal-vote\<close>, \<open>joint-vote\<close>, \<open>legislation-vote\<close>, \<open>election-vote\<close>) collect the
  ballots, decides, and calls the business pallet back to execute what was decided. This
  development models the engine and its four tracks completely and proves what the rest of
  the chain relies on.

  \<^bold>\<open>How the program is modelled.\<close> Unsigned integers are natural numbers; every operation of
  the source that can leave its width is written with the width (\<open>sat_add 32\<close>, \<open>checked_add 64\<close>,
  \<open>sat_mul 128\<close> in \<open>Prelude\<close>). Fallible functions return \<open>('e + 'a) \<times> 's\<close>, the error or the value
  together with the storage, so that the storage after an error is explicit;
  \<open>with_transaction\<close> restores it, as the storage layer does for \<open>frame_support::storage::with_transaction\<close>
  and for every extrinsic. Errors are the pallets' own enumerations (\<open>ve_error\<close>, \<open>iv_error\<close>, \<open>jv_error\<close>, \<open>lv_error\<close>, \<open>el_error\<close>) inside
  \<open>dispatch_error\<close>. Storage maps are functions to \<open>option\<close> (or with the default value of a \<open>ValueQuery\<close> map),
  double maps read by prefix are association lists per first key. The whole storage of the engine is the
  record \<open>engine\<close> of \<open>Engine_State\<close>; its field \<open>ext\<close>, of a type left open, is the storage of
  all other pallets.

  What is outside the modelled code is a field of the environment \<open>env\<close>: the business callbacks
  (arbitrary functions that may change \<open>ext\<close> and fail), the clock, the registries of
  institutions, personal accounts and citizens, the hash function, the order in which the storage
  layer iterates and the batches in which \<open>clear_prefix\<close> removes entries, the runtime's constants and
  measured weights, and the tracks. Contracts of these are stated as locales where a proof needs them:
  \<open>vote_track\<close> and \<open>ledger_track\<close> (what a track's hooks leave alone), \<open>timeout_track\<close> (what a track's
  timeout handler must respect), and the predicate \<open>clears\<close> for prefix removal. The four tracks of the runtime
  are shown to satisfy them by interpretation, so the theorems about whole runs need no assumption about
  tracks; the theorems about one track hold with any other tracks that meet the contracts.

  \<^bold>\<open>Theories, in the order of their imports.\<close>
  \<^item> \<open>Prelude\<close>: fixed-width arithmetic, the combinators for fallible stateful code with the
    predicate \<open>keeps\<close> and its rules, key-value lists, bounded vectors, prefix removal.
  \<^item> \<open>Institution_Code\<close> (\<open>primitives/cid/code.rs\<close>): institution codes, their classes and thresholds,
    the code inside a citizen-institution number.
  \<^item> \<open>Cid_Number\<close> (\<open>primitives/cid/number.rs\<close>, \<open>generator.rs\<close>): generator, checksums and parser of citizen-institution
    numbers, with the hash function as a parameter.
  \<^item> \<open>Voting_Types\<close> (\<open>votingengine/src/types.rs\<close>, error enumerations): the engine's data and the checked constructor of vote plans.
  \<^item> \<open>Proposal_Id\<close> (\<open>id.rs\<close>): calendar year of a timestamp, ids and yearly display numbers.
  \<^item> \<open>Proposal_Locks\<close> (\<open>limit.rs\<close>, \<open>mutex.rs\<close>): active-proposal slots and the two-mode mutex of a subject.
  \<^item> \<open>Runtime_Config\<close> (\<open>lib.rs\<close> \<open>Config\<close>, \<open>configs.rs\<close>): weights and constants.
  \<^item> \<open>Cleanup_Queue\<close> (\<open>cleanup.rs\<close>): the delay queue and the ready queue, as sequence-numbered maps implementing
    the \<open>fifo\<close> interface.
  \<^item> \<open>Engine_State\<close>: storage, events, environment, tracks (\<open>lib.rs\<close>, \<open>tracks.rs\<close>).
  \<^item> \<open>Proposal_Data\<close> (\<open>data.rs\<close>, \<open>index.rs\<close>, \<open>snapshot.rs\<close>): proposal data, reverse indexes, frozen electorates.
  \<^item> \<open>Lifecycle\<close> (\<open>lifecycle.rs\<close>): the status machine and its side effects.
  \<^item> \<open>Evolution\<close>: the engine invariant \<open>engine_inv\<close>, the order \<open>evolves\<close> on states, and that the
    life-cycle operations respect both.
  \<^item> \<open>Execution\<close> (\<open>execution.rs\<close>), \<open>Expiry\<close> (\<open>expiry.rs\<close>), \<open>Maintenance\<close> (\<open>cleanup.rs\<close>, \<open>maintenance.rs\<close>), \<open>Block_Hooks\<close>
    (\<open>lib.rs\<close>): automatic execution with backoff, automatic finalisation, deferred erasure, the block hook
    and the engine's extrinsics.
  \<^item> \<open>Ballots\<close>: ballots, tallies and verdicts shared by the tracks (locale \<open>ballot_ledger\<close>).
  \<^item> \<open>Internal_Vote\<close>, \<open>Internal_Proposal\<close> (\<open>internal-vote/src\<close>): voting with early decision, thresholds of personal accounts,
    all kinds of internal proposals.
  \<^item> \<open>Reserve_Institutions\<close> (\<open>china_cb.rs\<close>, \<open>china_ch.rs\<close>, weights), \<open>Joint_Vote\<close> (\<open>joint-vote/src\<close>): the 87 institutions with their
    weights, the joint stage and the referendum.
  \<^item> \<open>Legislation_Types\<close> (\<open>legislation-vote/src/types.rs\<close>, \<open>rules.rs\<close>, \<open>primitives/src/constitution.rs\<close>), \<open>Legislation_Vote\<close>
    (\<open>legislation-vote/src\<close>): routes of representative bodies, rules, referendum, signature, override and final
    review; \<open>Legislation_Process\<close>: the abstract legislative procedure \<open>bill_step\<close> and the simulation between the pallet and it.
  \<^item> \<open>Election_Types\<close> (\<open>election-vote/src/types.rs\<close>, \<open>tally.rs\<close>), \<open>Election_Vote\<close> (\<open>election-vote/src\<close>): the seat loop with its
    specification, popular and mutual elections; \<open>Election_Outcome\<close>: what elections come to.
  \<^item> \<open>Chain\<close>: calls, blocks and everything else on the chain as a step relation.
  \<^item> \<open>Currency\<close>: the balances module of the framework as an interface with its documented laws; \<open>Fee_Policy\<close>
    (\<open>primitives/src/fee_policy.rs\<close>, \<open>transaction/onchain/src/lib.rs\<close>): fees, their distribution, plain transfers;
    \<open>Pow_Difficulty\<close> (\<open>misc/pow-difficulty/src/lib.rs\<close>): difficulty and its parameters.
  \<^item> \<open>Issuance\<close> (\<open>issuance/fullnode-issuance\<close>, \<open>citizen-issuance\<close>, \<open>provincialbank-interest\<close>): the three automatic issues, with their
    block hooks; \<open>Issuance_Schedule\<close>: what they have issued after any chain of blocks.
  \<^item> \<open>Institution_Funds\<close> (\<open>primitives/src/institution_asset.rs\<close>, \<open>RuntimeInstitutionAsset\<close> of \<open>src/configs.rs\<close>): which account may be spent from by which action.
  \<^item> \<open>Clearing\<close> (\<open>transaction/offchain/src\<close>): clearing banks, their users'
    deposits, batches of signed payments, fee rates and nodes; \<open>Clearing_Safety\<close>: the books of a bank and what each operation does to them;
    \<open>Clearing_Runs\<close>: calls, runs (locale \<open>clearing_law\<close>, interpreted for the books and for the records of payments) and a worked run.
  \<^item> \<open>Execution_Effects\<close>: what one attempt of the engine to execute a passed proposal does to the storage of the business pallets (locale
    \<open>passive_track\<close>, relation \<open>attempted\<close>).
  \<^item> \<open>Business\<close>: data, storage and environment of the business pallets, their vote plans, and the dispatch of a callback to a tuple of
    pallets (\<open>votingengine/src/traits/callbacks.rs\<close>); \<open>Multisig\<close> (\<open>transaction/multisig\<close>), \<open>Resolution_Destroy\<close> (\<open>governance/resolution-destroy\<close>),
    \<open>Resolution_Issuance\<close> (\<open>issuance/resolution-issuance\<close>), \<open>Runtime_Upgrade\<close> (\<open>governance/runtime-upgrade\<close>, the joint callback of
    \<open>src/configs.rs\<close>): the pallets; \<open>Sample_Town\<close>: a concrete instance of all parameters; \<open>Payments\<close>, \<open>Joint_Decisions\<close>: pallets and engine together.
  \<^item> \<open>Storage_Laws\<close>: a property of the storage of a business pallet that its callbacks keep is kept by every operation of the engine (locale
    \<open>storage_law\<close>: creation of proposals, votes, blocks, calls); \<open>Grandpa_Keys\<close> (\<open>governance/grandpakey-change/src\<close>): the keys of the finality
    authorities; \<open>Key_Custody\<close>: their invariant over runs of the chain, by two interpretations of \<open>storage_law\<close>.

  \<^bold>\<open>What is proved.\<close> Over whole runs: decisions are final, ids are never reused and the engine
  invariant always holds. For the tracks: after any
  sequence of calls by anyone, a proposal is passed exactly when the ballots of distinct frozen tickets reach the threshold,
  rejected exactly when they no longer can; a joint proposal passes exactly by unanimity of all 87 institutions and
  goes to a referendum exactly on a rejection; a referendum is decided by strict majority of the frozen electorate; a law moves only by the steps of the legislative
  procedure and is enacted only when every body, the referendum and the final review it needs have passed it; an election
  counts one ballot per voter and seats exactly the candidates with more votes than all others.
  For the engine: atomic status changes, exclusive locks and exact counters, unique proposal
  numbers, bounded automatic retries with exponential backoff, execution only of passed proposals, first-in-first-out deferred erasure that
  makes progress and leaves nothing behind. Property \<open>current_bucket_skipped\<close> of \<open>Block_Hooks\<close> describes a
  loss of work in the block hook: a backlog of expired proposals makes it skip the bucket of the current block for good; \<open>guard_vote_per_wallet\<close> of
  \<open>Legislation_Process\<close> describes how a justice can be counted twice in a final review;
  \<open>recovery_stuck\<close> of \<open>Key_Custody\<close> how an institution can be left unable ever to change its finality key again.

  For the money: fees are distributed or announced as burnt to the last unit; the automatic issues follow their schedule and their caps
  exactly; clearing banks hold at least what they owe and settle no payment twice; the difficulty and its parameters stay valid.
  For decisions and money together: an attempt to execute a passed payment, destruction, issuance or upgrade either does exactly what was voted
  on, once, and leaves the proposal EXECUTED, or has no effect on money, code or parameters. For the finality keys: from genesis on every
  institution has one key of its own, the authorities have the recorded keys, and no proof is accepted twice.

  \<^bold>\<open>Bounds and fuel.\<close> Loops over lists are structural recursions or folds. \<open>year_loop\<close> terminates by a measure on the days left.
  \<open>select_loop\<close> terminates because every round seats at least one candidate; \<open>decimal\<close> and \<open>trim_front\<close> because the number
  or the text gets smaller.
  The loops that the source bounds by a constant (\<open>for _ in 0..max\<close>) recurse on that constant. \<open>reschedule_loop\<close> runs
  over the source's 100 candidate blocks. No other fuel is used.

  \<^bold>\<open>Not modelled.\<close> The remaining business pallets (arbitrary callbacks and \<open>ext\<close> for the engine), SCALE encoding, measured weight tables, benchmarks, the node, the
  command-line tools, the registry service and the apps.
\<close>

section \<open>Properties of the whole engine\<close>

text \<open>
  C1. Decisions are final. Along every run of the chain from genesis, of blocks and calls in any
  order (all extrinsics and creation calls of the engine and of its four tracks), with arbitrary
  business callbacks and other pallets: at every point the engine
  invariant holds (locks and counters agree with the proposals' bindings, only terminal proposals
  await erasure, no callback scope is open); and if a proposal has status \<open>a\<close> at one point and
  \<open>b\<close> at a later one, then \<open>b\<close> is \<open>a\<close> or follows it in the transition table (so PASSED and
  REJECTED never turn into each other, and the terminal statuses never change), its kind,
  institution, account and subjects are the same, and an id whose proposal has been erased is
  never used again.
\<close>

theorem decisions_are_final:
  assumes "env = four_tracks db wi wj wr wl wp wm env0"
    and "(chain_step env)\<^sup>*\<^sup>* (engine_genesis x) s" "(chain_step env)\<^sup>*\<^sup>* s s'"
  shows "engine_inv env s \<and> engine_inv env s' \<and>
     (\<forall>i p q. proposals s i = Some p \<and> proposals s' i = Some q \<longrightarrow>
        valid_status_transition\<^sup>*\<^sup>* (p_status p) (p_status q) \<and>
        (is_terminal_status (p_status p) \<longrightarrow> p_status q = p_status p) \<and>
        p_kind q = p_kind p \<and> p_actor_cid_number q = p_actor_cid_number p \<and>
        p_execution_account_id q = p_execution_account_id p \<and>
        p_subject_cid_numbers q = p_subject_cid_numbers p) \<and>
     (\<forall>i < next_proposal_id (ids s). proposals s i = None \<longrightarrow> proposals s' i = None)"
proof -
  have tf: "tracks_framed env" unfolding assms(1) by (rule four_tracks_framed)
  have inv: "engine_inv env s" using chain_run_history [OF tf engine_inv_genesis assms(2)] by simp
  have inv': "engine_inv env s'" and h: "history s s'"
    using chain_run_history [OF tf inv assms(3)] by simp_all
  have ev: "prop_evolves p q" if "proposals s i = Some p" "proposals s' i = Some q" for i p q
  proof -
    have "i < next_proposal_id (ids s)" using inv that(1) by (simp add: engine_inv_def)
    then have "slot_evolves (proposals s i) (proposals s' i)" using h by (simp add: history_def)
    with that show ?thesis by simp
  qed
  have gone: "proposals s' i = None" if "i < next_proposal_id (ids s)" "proposals s i = None" for i
  proof -
    have "slot_evolves (proposals s i) (proposals s' i)" using h that(1) by (simp add: history_def)
    with that(2) show ?thesis by simp
  qed
  have evs: "valid_status_transition\<^sup>*\<^sup>* (p_status p) (p_status q) \<and>
        (is_terminal_status (p_status p) \<longrightarrow> p_status q = p_status p) \<and>
        p_kind q = p_kind p \<and> p_actor_cid_number q = p_actor_cid_number p \<and>
        p_execution_account_id q = p_execution_account_id p \<and> p_subject_cid_numbers q = p_subject_cid_numbers p"
    if "proposals s i = Some p" "proposals s' i = Some q" for i p q
    using ev [OF that] terminal_le [of "p_status p" "p_status q"] by (auto simp: prop_evolves_def status_le_closure)
  show ?thesis using inv inv' evs gone by blast
qed

definition chain_env :: "unit env" where
  "chain_env = four_tracks (\<lambda>_ _. weight_zero) weight_zero weight_zero weight_zero
     \<lparr>w_cast_representative_vote = weight_zero, w_cast_referendum_vote = weight_zero, w_executive_sign = weight_zero,
      w_override_sign = weight_zero, w_guard_vote = weight_zero\<rparr> (\<lambda>_. weight_zero) (\<lambda>_. weight_zero) test_env"

theorem decisions_are_final_witness:
  "engine_inv chain_env (next_block chain_env (engine_genesis ()))"
proof -
  have "(chain_step chain_env)\<^sup>*\<^sup>* (engine_genesis ()) (next_block chain_env (engine_genesis ()))"
    by (rule r_into_rtranclp) (rule step_block)
  from decisions_are_final [OF chain_env_def rtranclp.rtrancl_refl this] show ?thesis by simp
qed

end
